(* ===== verification/Prelude.thy ===== *)
theory Prelude
  imports
    Main
    "HOL-Library.AList"
    "HOL-Library.List_Lexorder"
    "HOL-Library.Char_ord"
    "HOL-Library.Product_Lexorder"
begin

text \<open>
  The shared vocabulary of the development: results that may be an exception, Python's
  string operations on the ASCII range, ordered dictionaries (association lists that keep
  insertion order, as a Python \<^verbatim>\<open>dict\<close> does) and sorted duplicate-free listings of sets.
  Every model theory imports it; its lemmas are simp rules or belong to the collections
  \<open>res_simps\<close> and \<open>dict_simps\<close>.
\<close>

named_theorems res_simps \<open>unfolding and inversion of results\<close>
named_theorems dict_simps \<open>lookup and update on ordered dictionaries\<close>

section \<open>Results\<close>

text \<open>
  A Python function that may raise returns a value of \<open>exn + 'a\<close>: \<open>Inl\<close> the
  exception, \<open>Inr\<close> the returned value. The classes are those the modelled code raises;
  \<open>is_value_error\<close> is the subclass test of an \<^verbatim>\<open>except ValueError\<close> clause.
\<close>

datatype exn =
    ValueError string
  | KeyError string
  | TypeError string
  | RuntimeError string
  | AssertionError
  | PublicationRejected string
  | SemanticValidationError string
  | PublicationJournalMismatch string
  | AmbiguousPublicationEffect string
  | DatabaseError string
  | OpenProjectPublicationError string
  | OpenProjectConflict string
  | IdempotencyConflict string
  | IdempotencyInProgress int
  | LifecycleStoreMismatch string
  | LifecycleEventRejected string
  | LifecycleGateRejected string
  | AttributeError string
  | GitHubAdapterError string
  | PlannerClientError string
  | PlannerThreadNotFound string
  | RecoveryPayloadRejected string
  | AlertDeliveryRejected string
  | HttpTransportError string
  | CancelledError

fun is_value_error :: "exn \<Rightarrow> bool" where
  "is_value_error (ValueError _) = True"
| "is_value_error (PublicationRejected _) = True"
| "is_value_error (SemanticValidationError _) = True"
| "is_value_error (PublicationJournalMismatch _) = True"
| "is_value_error (IdempotencyConflict _) = True"
| "is_value_error (IdempotencyInProgress _) = True"
| "is_value_error (LifecycleStoreMismatch _) = True"
| "is_value_error (LifecycleEventRejected _) = True"
| "is_value_error (LifecycleGateRejected _) = True"
| "is_value_error (RecoveryPayloadRejected _) = True"
| "is_value_error (AlertDeliveryRejected _) = True"
| "is_value_error _ = False"

fun exn_message :: "exn \<Rightarrow> string" where
  "exn_message (ValueError m) = m"
| "exn_message (KeyError m) = m"
| "exn_message (TypeError m) = m"
| "exn_message (RuntimeError m) = m"
| "exn_message AssertionError = []"
| "exn_message (PublicationRejected m) = m"
| "exn_message (SemanticValidationError m) = m"
| "exn_message (PublicationJournalMismatch m) = m"
| "exn_message (AmbiguousPublicationEffect m) = m"
| "exn_message (DatabaseError m) = m"
| "exn_message (OpenProjectPublicationError m) = m"
| "exn_message (OpenProjectConflict m) = m"
| "exn_message (IdempotencyConflict m) = m"
| "exn_message (IdempotencyInProgress lease) = ''matching request is already in progress''"
| "exn_message (LifecycleStoreMismatch m) = m"
| "exn_message (LifecycleEventRejected m) = m"
| "exn_message (LifecycleGateRejected m) = m"
| "exn_message (AttributeError m) = m"
| "exn_message (GitHubAdapterError m) = m"
| "exn_message (PlannerClientError m) = m"
| "exn_message (PlannerThreadNotFound m) = m"
| "exn_message (RecoveryPayloadRejected m) = m"
| "exn_message (AlertDeliveryRejected m) = m"
| "exn_message (HttpTransportError m) = m"
| "exn_message CancelledError = []"

definition res_bind :: "'e + 'a \<Rightarrow> ('a \<Rightarrow> 'e + 'b) \<Rightarrow> 'e + 'b" where
  "res_bind m f = (case m of Inl e \<Rightarrow> Inl e | Inr x \<Rightarrow> f x)"

lemma res_bind_Inl [simp]: "res_bind (Inl e) f = Inl e"
  by (simp add: res_bind_def)

lemma res_bind_Inr [simp]: "res_bind (Inr x) f = f x"
  by (simp add: res_bind_def)

lemma res_bind_eq_Inr [res_simps]:
  "res_bind m f = Inr y \<longleftrightarrow> (\<exists>x. m = Inr x \<and> f x = Inr y)"
  by (cases m) auto

lemma res_bind_eq_Inl [res_simps]:
  "res_bind m f = Inl e \<longleftrightarrow> m = Inl e \<or> (\<exists>x. m = Inr x \<and> f x = Inl e)"
  by (cases m) auto

lemma res_bind_cong [fundef_cong]:
  "m = m' \<Longrightarrow> (\<And>x. m' = Inr x \<Longrightarrow> f x = g x) \<Longrightarrow> res_bind m f = res_bind m' g"
  by (cases m') auto

text \<open>A guard: raise when the condition of the \<^verbatim>\<open>if\<close> holds, go on otherwise.\<close>

definition raise_if :: "bool \<Rightarrow> 'e \<Rightarrow> 'e + unit" where
  "raise_if c e = (if c then Inl e else Inr ())"

lemma raise_if_Inr [res_simps]: "raise_if c e = Inr u \<longleftrightarrow> \<not> c"
  by (auto simp: raise_if_def)

lemma raise_if_Inl [res_simps]: "raise_if c e = Inl e' \<longleftrightarrow> c \<and> e' = e"
  by (auto simp: raise_if_def)

lemma raise_if_False [simp]: "raise_if False e = Inr ()"
  by (simp add: raise_if_def)

lemma raise_if_True [simp]: "raise_if True e = Inl e"
  by (simp add: raise_if_def)

text \<open>A loop that stops at the first exception.\<close>

fun res_iter :: "('a \<Rightarrow> 'e + unit) \<Rightarrow> 'a list \<Rightarrow> 'e + unit" where
  "res_iter f [] = Inr ()"
| "res_iter f (x # xs) = res_bind (f x) (\<lambda>_. res_iter f xs)"

lemma res_iter_Inr [res_simps]:
  "res_iter f xs = Inr u \<longleftrightarrow> (\<forall>x \<in> set xs. f x = Inr ())"
  by (induction xs) (auto simp: res_simps)

fun res_map :: "('a \<Rightarrow> 'e + 'b) \<Rightarrow> 'a list \<Rightarrow> 'e + 'b list" where
  "res_map f [] = Inr []"
| "res_map f (x # xs) = res_bind (f x) (\<lambda>y. res_bind (res_map f xs) (\<lambda>ys. Inr (y # ys)))"

lemma res_map_Inr_length: "res_map f xs = Inr ys \<Longrightarrow> length ys = length xs"
  by (induction xs arbitrary: ys) (auto simp: res_simps)

lemma res_map_Inr_iff:
  "res_map f xs = Inr ys \<longleftrightarrow> list_all2 (\<lambda>x y. f x = Inr y) xs ys"
  by (induction xs arbitrary: ys) (auto simp: res_simps list_all2_Cons1)

lemma res_map_total: "(\<And>x. x \<in> set xs \<Longrightarrow> f x = Inr (g x)) \<Longrightarrow> res_map f xs = Inr (map g xs)"
  by (induction xs) auto

section \<open>Python strings\<close>

text \<open>
  A \<^verbatim>\<open>str\<close> is a list of characters; the model covers the ASCII range, where
  \<^verbatim>\<open>casefold\<close> is the lower-case mapping and where comparing strings compares the
  codes of their characters lexicographically.
\<close>

definition lower_char :: "char \<Rightarrow> char" where
  "lower_char c = (let n = of_char c :: nat in
     if 65 \<le> n \<and> n \<le> 90 then char_of (n + 32) else c)"

definition py_casefold :: "string \<Rightarrow> string" where
  "py_casefold = map lower_char"

definition is_space :: "char \<Rightarrow> bool" where
  "is_space c = (let n = of_char c :: nat in
     (9 \<le> n \<and> n \<le> 13) \<or> (28 \<le> n \<and> n \<le> 32))"

definition py_lstrip :: "string \<Rightarrow> string" where
  "py_lstrip = dropWhile is_space"

definition py_rstrip :: "string \<Rightarrow> string" where
  "py_rstrip s = rev (dropWhile is_space (rev s))"

definition py_strip :: "string \<Rightarrow> string" where
  "py_strip s = py_rstrip (py_lstrip s)"

text \<open>The prefix test, substring search (\<^verbatim>\<open>in\<close>, \<^verbatim>\<open>index\<close>) and \<^verbatim>\<open>count\<close>.\<close>

fun is_prefix_of :: "string \<Rightarrow> string \<Rightarrow> bool" where
  "is_prefix_of [] s = True"
| "is_prefix_of (p # ps) [] = False"
| "is_prefix_of (p # ps) (c # cs) = (p = c \<and> is_prefix_of ps cs)"

fun py_in :: "string \<Rightarrow> string \<Rightarrow> bool" where
  "py_in p [] = (p = [])"
| "py_in p (c # cs) = (is_prefix_of p (c # cs) \<or> py_in p cs)"

fun find_at :: "string \<Rightarrow> string \<Rightarrow> nat option" where
  "find_at p [] = (if p = [] then Some 0 else None)"
| "find_at p (c # cs) =
     (if is_prefix_of p (c # cs) then Some 0 else map_option Suc (find_at p cs))"

lemma is_prefix_of_iff: "is_prefix_of p s \<longleftrightarrow> (\<exists>t. s = p @ t)"
  by (induction p s rule: is_prefix_of.induct) auto

lemma is_prefix_of_append [simp]: "is_prefix_of p (p @ s)"
  by (auto simp: is_prefix_of_iff)

lemma py_in_iff: "py_in p s \<longleftrightarrow> (\<exists>a b. s = a @ p @ b)"
proof (induction p s rule: py_in.induct)
  case (1 p)
  then show ?case by auto
next
  case (2 p c cs)
  have "(\<exists>a b. c # cs = a @ p @ b) \<longleftrightarrow> (\<exists>b. c # cs = p @ b) \<or> (\<exists>a b. cs = a @ p @ b)"
    by (metis append_Cons append_Nil append_eq_Cons_conv)
  then show ?case using 2 by (simp add: is_prefix_of_iff)
qed

lemma find_at_Some:
  "find_at p s = Some n \<Longrightarrow> n + length p \<le> length s \<and> take (length p) (drop n s) = p"
proof (induction p s arbitrary: n rule: find_at.induct)
  case (1 p)
  then show ?case by (auto split: if_splits)
next
  case (2 p c cs)
  show ?case
  proof (cases "is_prefix_of p (c # cs)")
    case True
    then obtain t where t: "c # cs = p @ t"
      by (auto simp: is_prefix_of_iff)
    have "n = 0" using True "2.prems" by simp
    then show ?thesis unfolding t by simp
  next
    case False
    with 2 show ?thesis by auto
  qed
qed

lemma find_at_None: "find_at p s = None \<longleftrightarrow> \<not> py_in p s"
  by (induction p s rule: find_at.induct) auto

text \<open>\<^verbatim>\<open>s.count(p)\<close> counts non-overlapping occurrences from the left (for a nonempty \<open>p\<close>).\<close>

function py_count :: "string \<Rightarrow> string \<Rightarrow> nat" where
  "py_count p s =
     (if p = [] then Suc (length s)
      else case s of [] \<Rightarrow> 0
        | c # cs \<Rightarrow> if is_prefix_of p s then Suc (py_count p (drop (length p) s))
                    else py_count p cs)"
  by pat_completeness auto
termination
  by (relation "measure (\<lambda>(p, s). length s)") auto

declare py_count.simps [simp del]

lemma py_count_pos: "p \<noteq> [] \<Longrightarrow> 0 < py_count p s \<longleftrightarrow> py_in p s"
proof (induction s)
  case Nil
  then show ?case by (simp add: py_count.simps)
next
  case (Cons c cs)
  then show ?case by (simp add: py_count.simps [of p "c # cs"])
qed

fun py_join :: "string \<Rightarrow> string list \<Rightarrow> string" where
  "py_join sep [] = []"
| "py_join sep [s] = s"
| "py_join sep (s # t # ts) = s @ sep @ py_join sep (t # ts)"

text \<open>\<^verbatim>\<open>str(n)\<close> on integers.\<close>

fun show_nat :: "nat \<Rightarrow> string" where
  "show_nat n = (if n < 10 then [char_of (48 + n)]
     else show_nat (n div 10) @ [char_of (48 + n mod 10)])"

declare show_nat.simps [simp del]

definition show_int :: "int \<Rightarrow> string" where
  "show_int i = (if i < 0 then CHR ''-'' # show_nat (nat (- i)) else show_nat (nat i))"

text \<open>A newline.\<close>

definition nl :: string where
  "nl = [CHR 0x0A]"

text \<open>Truthiness of an optional string: \<^verbatim>\<open>None\<close> and the empty string are false.\<close>

definition truthy_str :: "string option \<Rightarrow> bool" where
  "truthy_str s = (case s of None \<Rightarrow> False | Some t \<Rightarrow> t \<noteq> [])"

lemma truthy_str_iff: "truthy_str s \<longleftrightarrow> (\<exists>t. s = Some t \<and> t \<noteq> [])"
  by (auto simp: truthy_str_def split: option.splits)

section \<open>Character classes of the regular expressions\<close>

definition is_digit_char :: "char \<Rightarrow> bool" where
  "is_digit_char c = (let n = of_char c :: nat in 48 \<le> n \<and> n \<le> 57)"

definition is_lower_char :: "char \<Rightarrow> bool" where
  "is_lower_char c = (let n = of_char c :: nat in 97 \<le> n \<and> n \<le> 122)"

definition is_upper_char :: "char \<Rightarrow> bool" where
  "is_upper_char c = (let n = of_char c :: nat in 65 \<le> n \<and> n \<le> 90)"

definition is_hex_char :: "char \<Rightarrow> bool" where
  "is_hex_char c = (let n = of_char c :: nat in
     (48 \<le> n \<and> n \<le> 57) \<or> (97 \<le> n \<and> n \<le> 102))"

text \<open>Full match of \<^verbatim>\<open>[0-9a-f]{n}\<close>.\<close>

definition hex_of_length :: "nat \<Rightarrow> string \<Rightarrow> bool" where
  "hex_of_length n s \<longleftrightarrow> length s = n \<and> list_all is_hex_char s"

section \<open>Sorted listings of sets\<close>

text \<open>\<^verbatim>\<open>sorted(set(xs))\<close>.\<close>

definition sorted_set :: "'a::linorder list \<Rightarrow> 'a list" where
  "sorted_set xs = sort (remdups xs)"

lemma set_sorted_set [simp]: "set (sorted_set xs) = set xs"
  by (simp add: sorted_set_def)

lemma distinct_sorted_set [simp]: "distinct (sorted_set xs)"
  by (simp add: sorted_set_def)

lemma sorted_sorted_set [simp]: "sorted (sorted_set xs)"
  by (simp add: sorted_set_def)

lemma sorted_set_Nil_iff [simp]: "sorted_set xs = [] \<longleftrightarrow> xs = []"
  by (metis set_sorted_set set_empty)

lemma sorted_set_cong: "set xs = set ys \<Longrightarrow> sorted_set xs = sorted_set ys"
  by (rule sorted_distinct_set_unique) simp_all

section \<open>Ordered dictionaries\<close>

text \<open>
  A Python \<^verbatim>\<open>dict\<close> is an association list in insertion order: assigning to a known
  key replaces its value in place, assigning to a new one appends. That is
  \<^const>\<open>AList.update\<close>; deletion is \<^const>\<open>AList.delete\<close>, lookup \<^const>\<open>map_of\<close>.
\<close>

type_synonym ('k, 'v) dict = "('k \<times> 'v) list"

abbreviation dict_get :: "('k, 'v) dict \<Rightarrow> 'k \<Rightarrow> 'v option" where
  "dict_get d k \<equiv> map_of d k"

abbreviation dict_set :: "'k \<Rightarrow> 'v \<Rightarrow> ('k, 'v) dict \<Rightarrow> ('k, 'v) dict" where
  "dict_set k v d \<equiv> AList.update k v d"

abbreviation dict_del :: "'k \<Rightarrow> ('k, 'v) dict \<Rightarrow> ('k, 'v) dict" where
  "dict_del k d \<equiv> AList.delete k d"

abbreviation dict_keys :: "('k, 'v) dict \<Rightarrow> 'k list" where
  "dict_keys d \<equiv> map fst d"

lemma dict_get_set [dict_simps]: "dict_get (dict_set k v d) = (dict_get d)(k \<mapsto> v)"
  by (rule update_conv')

lemma dict_get_del [dict_simps]: "dict_get (dict_del k d) = (dict_get d)(k := None)"
  by (rule delete_conv')

lemma set_dict_keys_set [dict_simps]:
  "fst ` set (dict_set k v d) = insert k (fst ` set d)"
  by (simp add: dom_update)

text \<open>\<^verbatim>\<open>{f(x): g(x) for x in xs}\<close>: the last value of a repeated key wins.\<close>

definition dict_of :: "('a \<Rightarrow> 'k) \<Rightarrow> ('a \<Rightarrow> 'v) \<Rightarrow> 'a list \<Rightarrow> ('k, 'v) dict" where
  "dict_of f g xs = fold (\<lambda>x d. dict_set (f x) (g x) d) xs []"

lemma dict_of_snoc: "dict_of f g (xs @ [x]) = dict_set (f x) (g x) (dict_of f g xs)"
  by (simp add: dict_of_def)

lemma set_dict_of [dict_simps]: "fst ` set (dict_of f g xs) = f ` set xs"
proof (induction xs rule: rev_induct)
  case Nil
  then show ?case by (simp add: dict_of_def)
next
  case (snoc x xs)
  then show ?case by (simp add: dict_of_snoc set_dict_keys_set)
qed

lemma distinct_dict_set [dict_simps]:
  "distinct (dict_keys d) \<Longrightarrow> distinct (dict_keys (dict_set k v d))"
  by (rule distinct_update)

lemma distinct_dict_of: "distinct (dict_keys (dict_of f g xs))"
  by (induction xs rule: rev_induct) (simp_all add: dict_of_snoc distinct_dict_set, simp add: dict_of_def)

lemma dict_set_fresh: "dict_get d k = None \<Longrightarrow> dict_set k v d = d @ [(k, v)]"
  by (induction d) auto

lemma dict_of_distinct: "distinct (map f xs) \<Longrightarrow> dict_of f g xs = map (\<lambda>x. (f x, g x)) xs"
proof (induction xs rule: rev_induct)
  case (snoc x xs)
  then have "dict_get (dict_of f g xs) (f x) = None"
    by (simp add: map_of_eq_None_iff image_comp comp_def image_iff)
  with snoc show ?case by (simp add: dict_of_snoc dict_set_fresh)
qed (simp add: dict_of_def)

lemma dict_get_dict_of_Some:
  "dict_get (dict_of f g xs) k = Some v \<Longrightarrow> \<exists>x \<in> set xs. f x = k \<and> g x = v"
proof (induction xs rule: rev_induct)
  case Nil
  then show ?case by (simp add: dict_of_def)
next
  case (snoc x xs)
  then show ?case by (auto simp: dict_of_snoc dict_simps split: if_splits)
qed

lemma dict_get_dict_of_distinct:
  "distinct (map f xs) \<Longrightarrow> x \<in> set xs \<Longrightarrow> dict_get (dict_of f g xs) (f x) = Some (g x)"
proof (induction xs rule: rev_induct)
  case Nil
  then show ?case by simp
next
  case (snoc y ys)
  show ?case
  proof (cases "x = y")
    case True
    then show ?thesis by (simp add: dict_of_snoc dict_simps)
  next
    case False
    with snoc.prems have "x \<in> set ys" by auto
    moreover from \<open>x \<in> set ys\<close> have "f x \<in> f ` set ys" by (rule imageI)
    then have "f x \<noteq> f y" using snoc.prems(1) by auto
    ultimately show ?thesis using snoc by (simp add: dict_of_snoc dict_simps)
  qed
qed

lemma dict_get_None: "dict_get d k = None \<longleftrightarrow> k \<notin> fst ` set d"
  by (simp add: map_of_eq_None_iff)

text \<open>
  Grouping: \<^verbatim>\<open>d.setdefault(k, []).append(v)\<close> for every \<open>(k, v)\<close> of a sequence.
\<close>

definition dict_append :: "'k \<Rightarrow> 'v \<Rightarrow> ('k, 'v list) dict \<Rightarrow> ('k, 'v list) dict" where
  "dict_append k v d =
     dict_set k ((case dict_get d k of None \<Rightarrow> [] | Some vs \<Rightarrow> vs) @ [v]) d"

definition group_pairs :: "('k \<times> 'v) list \<Rightarrow> ('k, 'v list) dict" where
  "group_pairs kvs = fold (\<lambda>(k, v) d. dict_append k v d) kvs []"

lemma group_pairs_snoc: "group_pairs (kvs @ [(k, v)]) = dict_append k v (group_pairs kvs)"
  by (simp add: group_pairs_def)

lemma group_pairs_get:
  "dict_get (group_pairs kvs) k =
     (let vs = map snd (filter (\<lambda>p. fst p = k) kvs) in if vs = [] then None else Some vs)"
proof (induction kvs rule: rev_induct)
  case Nil
  then show ?case by (simp add: group_pairs_def)
next
  case (snoc kv kvs)
  obtain k' v where kv: "kv = (k', v)" by (cases kv)
  with snoc show ?case
    by (auto simp: group_pairs_snoc dict_append_def dict_simps Let_def split: option.splits if_splits)
qed

lemma distinct_group_pairs: "distinct (dict_keys (group_pairs kvs))"
proof (induction kvs rule: rev_induct)
  case Nil
  then show ?case by (simp add: group_pairs_def)
next
  case (snoc kv kvs)
  then show ?case
    by (cases kv) (simp add: group_pairs_snoc dict_append_def distinct_dict_set)
qed

lemma set_group_pairs:
  "(k, vs) \<in> set (group_pairs kvs) \<longleftrightarrow>
     vs = map snd (filter (\<lambda>p. fst p = k) kvs) \<and> vs \<noteq> []"
proof -
  have "(k, vs) \<in> set (group_pairs kvs) \<longleftrightarrow> dict_get (group_pairs kvs) k = Some vs"
    using distinct_group_pairs [of kvs] by simp
  then show ?thesis by (auto simp: group_pairs_get Let_def)
qed

lemma set_group_pairs_keys:
  "(\<forall>k vs. (k, vs) \<in> set (group_pairs kvs) \<longrightarrow> P k) \<longleftrightarrow> (\<forall>k \<in> fst ` set kvs. P k)"
  by (fastforce simp: set_group_pairs filter_empty_conv)

text \<open>The measure of the loops that remember what they have seen.\<close>

lemma length_filter_notin_Cons:
  assumes "x \<in> set xs" and "x \<notin> set seen"
  shows "length (filter (\<lambda>k. k \<notin> set (x # seen)) xs) < length (filter (\<lambda>k. k \<notin> set seen) xs)"
  using assms(1)
proof (induction xs)
  case Nil
  then show ?case by simp
next
  case (Cons y ys)
  have "length (filter (\<lambda>k. k \<notin> set (x # seen)) ys) \<le> length (filter (\<lambda>k. k \<notin> set seen) ys)"
    by (induction ys) auto
  with Cons assms(2) show ?case by (auto simp: le_imp_less_Suc)
qed

end
