(* ===== verification/Contract.thy ===== *)
theory Contract
  imports Prelude
begin

text \<open>
  The typed backlog contract of \<^verbatim>\<open>src/planning_platform/models.py\<close>: one record per
  pydantic model, one datatype per \<^verbatim>\<open>Literal\<close>. Models whose declared field constraints
  and validators matter to the code that builds them (\<^verbatim>\<open>ReplanNodeBinding\<close>,
  \<^verbatim>\<open>ReplanScope\<close>) have a constructor that returns the validation error.
\<close>

section \<open>Node keys\<close>

text \<open>
  \<^verbatim>\<open>^[a-z][a-z0-9]*(?:-[a-z0-9]+)*$\<close>: after a first letter, groups of letters and digits
  separated by single hyphens. The flag of \<open>node_key_tail\<close> says that a hyphen has just
  been read, so that a character must follow.
\<close>

definition is_node_char :: "char \<Rightarrow> bool" where
  "is_node_char c \<longleftrightarrow> is_lower_char c \<or> is_digit_char c"

fun node_key_tail :: "bool \<Rightarrow> string \<Rightarrow> bool" where
  "node_key_tail after_hyphen [] = (\<not> after_hyphen)"
| "node_key_tail after_hyphen (c # cs) =
     (if is_node_char c then node_key_tail False cs
      else c = CHR ''-'' \<and> \<not> after_hyphen \<and> node_key_tail True cs)"

definition matches_node_key_pattern :: "string \<Rightarrow> bool" where
  "matches_node_key_pattern s =
     (case s of [] \<Rightarrow> False | c # cs \<Rightarrow> is_lower_char c \<and> node_key_tail False cs)"

definition is_stable_node_key :: "string \<Rightarrow> bool" where
  "is_stable_node_key s \<longleftrightarrow>
     3 \<le> length s \<and> length s \<le> 96 \<and> matches_node_key_pattern s"

section \<open>Plan metadata\<close>

record repository_ref =
  repo_name :: string
  repo_commit :: string

record source_idea =
  si_work_package_id :: int
  si_lock_version :: int
  si_updated_at :: string

record snapshot_reference =
  sr_captured_at :: string
  sr_etag :: string
  sr_sha256 :: string

record replan_node_binding =
  rb_node_key :: string
  rb_plan_version :: int
  rb_planning_commit :: string

record replan_scope =
  rs_base_plan_version :: int
  rs_selected_root_keys :: "string list"
  rs_affected_node_keys :: "string list"
  rs_retained_node_bindings :: "replan_node_binding list"

record plan_meta =
  plan_id :: string
  plan_version :: int
  plan_publication_identity :: string
  plan_source_idea :: source_idea
  plan_repositories :: "repository_ref list"
  plan_approved_planning_commit :: "string option"
  plan_openproject_snapshot :: snapshot_reference
  plan_replan :: "replan_scope option"

text \<open>The constructor \<^verbatim>\<open>ReplanNodeBinding(...)\<close> with its field constraints.\<close>

definition new_replan_node_binding ::
  "string \<Rightarrow> int \<Rightarrow> string \<Rightarrow> exn + replan_node_binding" where
  "new_replan_node_binding key version commit =
     res_bind (raise_if (\<not> is_stable_node_key key) (ValueError ''node_key'')) (\<lambda>_.
     res_bind (raise_if (\<not> 1 \<le> version) (ValueError ''plan_version'')) (\<lambda>_.
     res_bind (raise_if (\<not> hex_of_length 40 commit) (ValueError ''planning_commit'')) (\<lambda>_.
       Inr \<lparr>rb_node_key = key, rb_plan_version = version, rb_planning_commit = commit\<rparr>)))"

text \<open>\<^verbatim>\<open>identities_are_unique\<close>, the model validator of \<^verbatim>\<open>ReplanScope\<close>.\<close>

definition identities_are_unique :: "replan_scope \<Rightarrow> exn + replan_scope" where
  "identities_are_unique s =
     res_bind (raise_if (\<not> distinct (rs_selected_root_keys s))
       (ValueError ''replan selected root keys must be unique'')) (\<lambda>_.
     res_bind (raise_if (\<not> distinct (rs_affected_node_keys s))
       (ValueError ''replan affected node keys must be unique'')) (\<lambda>_.
     res_bind (raise_if (\<not> distinct (map rb_node_key (rs_retained_node_bindings s)))
       (ValueError ''replan retained node bindings must be unique'')) (\<lambda>_. Inr s)))"

text \<open>The constructor \<^verbatim>\<open>ReplanScope(...)\<close>: field constraints first, then the validator.\<close>

definition new_replan_scope ::
  "int \<Rightarrow> string list \<Rightarrow> string list \<Rightarrow> replan_node_binding list \<Rightarrow> exn + replan_scope" where
  "new_replan_scope base selected affected bindings =
     res_bind (raise_if (\<not> 1 \<le> base) (ValueError ''base_plan_version'')) (\<lambda>_.
     res_bind (raise_if (selected = [] \<or> \<not> list_all is_stable_node_key selected)
       (ValueError ''selected_root_keys'')) (\<lambda>_.
     res_bind (raise_if (affected = [] \<or> \<not> list_all is_stable_node_key affected)
       (ValueError ''affected_node_keys'')) (\<lambda>_.
       identities_are_unique
         \<lparr>rs_base_plan_version = base, rs_selected_root_keys = selected,
          rs_affected_node_keys = affected, rs_retained_node_bindings = bindings\<rparr>)))"

section \<open>Backlog items\<close>

datatype item_type = Initiative | Epic | Story | Task | Decision | Investigation | Bug

datatype evidence_kind =
    EvArtifact | EvCheckRun | EvCommandOutput | EvDecisionRecord
  | EvDeployment | EvMetric | EvPullRequest | EvReview

datatype predicate_kind = PrArtifact | PrCommand | PrDeployment | PrGithubCheck | PrMetric

datatype risk_level = RiskLow | RiskMedium | RiskHigh | RiskCritical

datatype estimate_size = EstXS | EstS | EstM

primrec item_type_str :: "item_type \<Rightarrow> string" where
  "item_type_str Initiative = ''Initiative''"
| "item_type_str Epic = ''Epic''"
| "item_type_str Story = ''Story''"
| "item_type_str Task = ''Task''"
| "item_type_str Decision = ''Decision''"
| "item_type_str Investigation = ''Investigation''"
| "item_type_str Bug = ''Bug''"

primrec evidence_kind_str :: "evidence_kind \<Rightarrow> string" where
  "evidence_kind_str EvArtifact = ''artifact''"
| "evidence_kind_str EvCheckRun = ''check_run''"
| "evidence_kind_str EvCommandOutput = ''command_output''"
| "evidence_kind_str EvDecisionRecord = ''decision_record''"
| "evidence_kind_str EvDeployment = ''deployment''"
| "evidence_kind_str EvMetric = ''metric''"
| "evidence_kind_str EvPullRequest = ''pull_request''"
| "evidence_kind_str EvReview = ''review''"

primrec risk_str :: "risk_level \<Rightarrow> string" where
  "risk_str RiskLow = ''low''"
| "risk_str RiskMedium = ''medium''"
| "risk_str RiskHigh = ''high''"
| "risk_str RiskCritical = ''critical''"

primrec estimate_str :: "estimate_size \<Rightarrow> string" where
  "estimate_str EstXS = ''XS''"
| "estimate_str EstS = ''S''"
| "estimate_str EstM = ''M''"

record acceptance_criterion =
  ac_criterion :: string
  ac_observation :: string

record required_evidence =
  re_kind :: evidence_kind
  re_description :: string

record result_predicate =
  rp_kind :: predicate_kind
  rp_expression :: string

record agent_eligibility =
  ae_eligible :: bool
  ae_reason :: string

record backlog_item =
  bi_key :: string
  bi_type :: item_type
  bi_title :: string
  bi_objective :: string
  bi_parent :: "string option"
  bi_repository :: string
  bi_integration_work :: bool
  bi_source_requirements :: "string list"
  bi_maintenance_objectives :: "string list"
  bi_acceptance_criteria :: "acceptance_criterion list"
  bi_blocked_by :: "string list"
  bi_sequence_after :: "string list"
  bi_related_to :: "string list"
  bi_decision_required :: "string list"
  bi_decisions :: "string list"
  bi_mutex :: "string list"
  bi_risk :: risk_level
  bi_estimate :: estimate_size
  bi_agent_eligibility :: agent_eligibility
  bi_validation_commands :: "string list"
  bi_required_evidence :: "required_evidence list"
  bi_result_predicate :: result_predicate

record backlog_plan =
  bp_schema_version :: string
  bp_plan :: plan_meta
  bp_items :: "backlog_item list"

text \<open>The property \<^verbatim>\<open>by_key\<close>, a dictionary comprehension over the items.\<close>

definition by_key :: "backlog_plan \<Rightarrow> (string, backlog_item) dict" where
  "by_key p = dict_of bi_key (\<lambda>i. i) (bp_items p)"

definition with_approved_commit :: "backlog_plan \<Rightarrow> string \<Rightarrow> backlog_plan" where
  "with_approved_commit p approved_commit =
     p\<lparr>bp_plan := (bp_plan p)\<lparr>plan_approved_planning_commit := Some approved_commit\<rparr>\<rparr>"

abbreviation item_keys :: "backlog_plan \<Rightarrow> string list" where
  "item_keys p \<equiv> map bi_key (bp_items p)"

section \<open>Facts about the contract\<close>

lemma by_key_keys: "fst ` set (by_key p) = set (item_keys p)"
  by (simp add: by_key_def set_dict_of)

lemma by_key_Some: "dict_get (by_key p) k = Some i \<Longrightarrow> i \<in> set (bp_items p) \<and> bi_key i = k"
  by (auto simp: by_key_def dest: dict_get_dict_of_Some)

lemma by_key_None: "dict_get (by_key p) k = None \<longleftrightarrow> k \<notin> set (item_keys p)"
  by (simp only: dict_get_None by_key_keys)

lemma by_key_unique:
  "distinct (item_keys p) \<Longrightarrow> i \<in> set (bp_items p) \<Longrightarrow> dict_get (by_key p) (bi_key i) = Some i"
  by (simp add: by_key_def dict_get_dict_of_distinct)

lemma by_key_ex: "k \<in> set (item_keys p) \<Longrightarrow> \<exists>i. dict_get (by_key p) k = Some i"
  using by_key_None [of p k] by auto

lemma new_replan_node_binding_Inr:
  "new_replan_node_binding k v c = Inr b \<longleftrightarrow>
     is_stable_node_key k \<and> 1 \<le> v \<and> hex_of_length 40 c \<and>
     b = \<lparr>rb_node_key = k, rb_plan_version = v, rb_planning_commit = c\<rparr>"
  by (auto simp: new_replan_node_binding_def res_simps)

lemma new_replan_scope_Inr:
  "new_replan_scope base sel aff bs = Inr s \<longleftrightarrow>
     1 \<le> base \<and> sel \<noteq> [] \<and> list_all is_stable_node_key sel \<and>
     aff \<noteq> [] \<and> list_all is_stable_node_key aff \<and>
     distinct sel \<and> distinct aff \<and> distinct (map rb_node_key bs) \<and>
     s = \<lparr>rs_base_plan_version = base, rs_selected_root_keys = sel,
          rs_affected_node_keys = aff, rs_retained_node_bindings = bs\<rparr>"
  by (auto simp: new_replan_scope_def identities_are_unique_def res_simps)

lemma with_approved_commit_simps [simp]:
  "bp_items (with_approved_commit p c) = bp_items p"
  "by_key (with_approved_commit p c) = by_key p"
  "plan_id (bp_plan (with_approved_commit p c)) = plan_id (bp_plan p)"
  "plan_version (bp_plan (with_approved_commit p c)) = plan_version (bp_plan p)"
  "plan_replan (bp_plan (with_approved_commit p c)) = plan_replan (bp_plan p)"
  "plan_openproject_snapshot (bp_plan (with_approved_commit p c)) = plan_openproject_snapshot (bp_plan p)"
  "plan_publication_identity (bp_plan (with_approved_commit p c)) = plan_publication_identity (bp_plan p)"
  "plan_approved_planning_commit (bp_plan (with_approved_commit p c)) = Some c"
  by (simp_all add: with_approved_commit_def by_key_def)

end
