(* ===== verification/Replan.thy ===== *)
theory Replan
  imports Contract
begin

text \<open>
  The partial-replan boundary of \<^verbatim>\<open>src/planning_platform/replan.py\<close>: which plan version and
  commit own a node of a mixed-version plan, the scope a replan must carry, the overlay of
  the protected nodes, and the validation of a candidate against the boundary the operator
  chose. Sets the code only tests for membership are lists here; the two sets it compares are
  compared as sets.
\<close>

section \<open>Bindings and scope\<close>

definition effective_node_binding ::
  "backlog_plan \<Rightarrow> string option \<Rightarrow> string \<Rightarrow> int \<times> string option" where
  "effective_node_binding p approved_commit key =
     (case plan_replan (bp_plan p) of
        None \<Rightarrow> (plan_version (bp_plan p), approved_commit)
      | Some scope \<Rightarrow>
          (case find (\<lambda>b. rb_node_key b = key) (rs_retained_node_bindings scope) of
             None \<Rightarrow> (plan_version (bp_plan p), approved_commit)
           | Some b \<Rightarrow> (rb_plan_version b, Some (rb_planning_commit b))))"

definition retained_binding :: "backlog_plan \<Rightarrow> string \<Rightarrow> backlog_item \<Rightarrow> exn + replan_node_binding" where
  "retained_binding prior base_approved_commit i =
     (let (version, commit) = effective_node_binding prior (Some base_approved_commit) (bi_key i)
      in case commit of
           None \<Rightarrow> Inl (ValueError ''protected replan node has no approved planning commit'')
         | Some c \<Rightarrow> new_replan_node_binding (bi_key i) version c)"

definition build_replan_scope ::
  "backlog_plan \<Rightarrow> string \<Rightarrow> string list \<Rightarrow> string list \<Rightarrow> exn + replan_scope" where
  "build_replan_scope prior base_approved_commit selected affected =
     res_bind (res_map (retained_binding prior base_approved_commit)
       (filter (\<lambda>i. bi_key i \<notin> set affected) (bp_items prior))) (\<lambda>bindings.
     new_replan_scope (plan_version (bp_plan prior)) selected affected bindings)"

section \<open>Ownership by a selected root\<close>

function owner_loop ::
  "(string, backlog_item) dict \<Rightarrow> string list \<Rightarrow> string list \<Rightarrow> string \<Rightarrow> string option" where
  "owner_loop items roots seen current =
     (if current \<in> set seen then None
      else if current \<in> set roots then Some current
      else case dict_get items current of
          None \<Rightarrow> None
        | Some i \<Rightarrow>
            (case bi_parent i of
               None \<Rightarrow> None
             | Some q \<Rightarrow> if q \<notin> set (dict_keys items) then None
                         else owner_loop items roots (current # seen) q))"
  by pat_completeness auto
termination
proof (relation "measure (\<lambda>(items, roots, seen, current).
    length (filter (\<lambda>k. k \<notin> set seen) (dict_keys items)))", goal_cases)
  case 1
  then show ?case by simp
next
  case (2 items roots seen current i q)
  then have "current \<in> set (dict_keys items)"
    by (force dest: map_of_SomeD)
  then have "length (filter (\<lambda>k. k \<notin> set (current # seen)) (dict_keys items))
      < length (filter (\<lambda>k. k \<notin> set seen) (dict_keys items))"
    using \<open>current \<notin> set seen\<close> by (rule length_filter_notin_Cons)
  then show ?case by simp
qed

declare owner_loop.simps [simp del]

definition selected_root_owner ::
  "string \<Rightarrow> (string, backlog_item) dict \<Rightarrow> string list \<Rightarrow> string option" where
  "selected_root_owner key items roots = owner_loop items roots [] key"

section \<open>Relations that cross the protected boundary\<close>

definition add_crossing :: "string \<Rightarrow> string \<Rightarrow> string \<Rightarrow> string list \<Rightarrow> (string \<times> string \<times> string) list" where
  "add_crossing kind source target protected =
     (if (source \<in> set protected) \<noteq> (target \<in> set protected) then [(kind, source, target)] else [])"

definition directed_relations :: "backlog_item \<Rightarrow> (string \<times> string list) list" where
  "directed_relations i =
     [(''blocked_by'', bi_blocked_by i), (''sequence_after'', bi_sequence_after i),
      (''decision_required'', bi_decision_required i), (''decisions'', bi_decisions i),
      (''mutex'', bi_mutex i)]"

definition item_crossing_edges ::
  "string list \<Rightarrow> string list \<Rightarrow> backlog_item \<Rightarrow> (string \<times> string \<times> string) list" where
  "item_crossing_edges known protected i =
     (case bi_parent i of None \<Rightarrow> []
      | Some q \<Rightarrow> if q \<in> set known then add_crossing ''parent'' (bi_key i) q protected else [])
     @ concat (map (\<lambda>(field, targets).
         concat (map (\<lambda>t. if t \<in> set known then add_crossing field (bi_key i) t protected else [])
           targets)) (directed_relations i))
     @ concat (map (\<lambda>t.
         if t \<in> set known \<and> (bi_key i \<in> set protected) \<noteq> (t \<in> set protected)
         then [(''related_to'', min (bi_key i) t, max (bi_key i) t)] else []) (bi_related_to i))"

definition cross_boundary_edges :: "backlog_plan \<Rightarrow> string list \<Rightarrow> (string \<times> string \<times> string) list" where
  "cross_boundary_edges p protected =
     concat (map (item_crossing_edges (dict_keys (by_key p)) protected) (bp_items p))"

section \<open>Validation of a candidate\<close>

text \<open>
  A known key is looked up with \<^verbatim>\<open>[...]\<close> in the code after membership has been tested, so
  \<open>parent_of\<close>'s \<^const>\<open>None\<close> for an unknown key is never used.
\<close>

definition parent_of :: "(string, backlog_item) dict \<Rightarrow> string \<Rightarrow> string option" where
  "parent_of items key = (case dict_get items key of None \<Rightarrow> None | Some i \<Rightarrow> bi_parent i)"

definition check_roots :: "backlog_plan \<Rightarrow> string list \<Rightarrow> string list \<Rightarrow> exn + unit" where
  "check_roots prior selected affected =
     (let prior_by_key = by_key prior in
      res_bind (raise_if
        (selected = [] \<or> \<not> distinct selected \<or> \<not> set selected \<subseteq> set (dict_keys prior_by_key)
          \<or> \<not> distinct affected \<or> \<not> set selected \<subseteq> set affected)
        (ValueError ''replan has invalid selected roots or affected closure'')) (\<lambda>_.
      res_iter (\<lambda>root. case parent_of prior_by_key root of
            None \<Rightarrow> Inr ()
          | Some q \<Rightarrow> raise_if (selected_root_owner q prior_by_key selected \<noteq> None)
              (ValueError ''replan has nested selected roots'')) selected))"

definition check_descent :: "backlog_plan \<Rightarrow> backlog_plan \<Rightarrow> exn + unit" where
  "check_descent prior candidate =
     raise_if (plan_id (bp_plan candidate) \<noteq> plan_id (bp_plan prior)
         \<or> plan_version (bp_plan candidate) \<le> plan_version (bp_plan prior)
         \<or> si_work_package_id (plan_source_idea (bp_plan candidate))
             \<noteq> si_work_package_id (plan_source_idea (bp_plan prior)))
       (ValueError ''replan candidate does not descend from its immutable base plan'')"

definition check_protected :: "backlog_plan \<Rightarrow> backlog_plan \<Rightarrow> string list \<Rightarrow> exn + unit" where
  "check_protected prior candidate closure =
     res_iter (\<lambda>(key, i). raise_if
         (key \<notin> set closure \<and> dict_get (by_key candidate) key \<noteq> Some i)
         (ValueError (''replan changed protected prior node: '' @ key))) (by_key prior)"

definition check_root_parents :: "backlog_plan \<Rightarrow> backlog_plan \<Rightarrow> string list \<Rightarrow> exn + unit" where
  "check_root_parents prior candidate roots =
     res_bind (raise_if (list_ex (\<lambda>k. k \<notin> set (dict_keys (by_key candidate))) roots)
       (ValueError ''replan removed a selected root'')) (\<lambda>_.
     res_iter (\<lambda>k. raise_if (parent_of (by_key candidate) k \<noteq> parent_of (by_key prior) k)
       (ValueError (''replan changed selected-root boundary parent: '' @ k))) roots)"

definition check_ownership :: "backlog_plan \<Rightarrow> backlog_plan \<Rightarrow> string list \<Rightarrow> string list \<Rightarrow> exn + unit" where
  "check_ownership prior candidate roots closure =
     (let pk = by_key prior; ck = by_key candidate in
      res_iter (\<lambda>k.
          let prior_owner = selected_root_owner k pk roots;
              candidate_owner = selected_root_owner k ck roots
          in raise_if (prior_owner = None \<or> candidate_owner \<noteq> prior_owner)
               (ValueError (''replan changed selected-root ownership: '' @ k)))
        (sorted_set (filter (\<lambda>k. k \<in> set (dict_keys pk) \<and> k \<in> set (dict_keys ck) \<and> k \<notin> set roots) closure)))"

definition check_rooted :: "backlog_plan \<Rightarrow> backlog_plan \<Rightarrow> string list \<Rightarrow> string list \<Rightarrow> exn + unit" where
  "check_rooted prior candidate roots closure =
     (let pk = by_key prior; ck = by_key candidate;
          mutable = closure @ filter (\<lambda>k. k \<notin> set (dict_keys pk)) (dict_keys ck)
      in res_iter (\<lambda>k. raise_if
            (k \<in> set (dict_keys ck) \<and> selected_root_owner k ck roots = None)
            (ValueError (''replan node is not rooted in a selected root: '' @ k)))
          (sorted_set (filter (\<lambda>k. k \<notin> set roots) mutable)))"

definition validate_replan_candidate ::
  "backlog_plan \<Rightarrow> backlog_plan \<Rightarrow> string \<Rightarrow> string list \<Rightarrow> string list \<Rightarrow> exn + unit" where
  "validate_replan_candidate prior candidate base_approved_commit selected affected =
     res_bind (check_roots prior selected affected) (\<lambda>_.
     res_bind (check_descent prior candidate) (\<lambda>_.
     res_bind (build_replan_scope prior base_approved_commit selected affected) (\<lambda>expected_scope.
     res_bind (raise_if (plan_replan (bp_plan candidate) \<noteq> Some expected_scope)
       (ValueError ''replan candidate has mismatched scope or retained-node bindings'')) (\<lambda>_.
     res_bind (check_protected prior candidate affected) (\<lambda>_.
     res_bind (check_root_parents prior candidate selected) (\<lambda>_.
     res_bind (check_ownership prior candidate selected affected) (\<lambda>_.
     res_bind (check_rooted prior candidate selected affected) (\<lambda>_.
       let protected = filter (\<lambda>k. k \<notin> set affected) (dict_keys (by_key prior)) in
       raise_if (set (cross_boundary_edges prior protected) \<noteq> set (cross_boundary_edges candidate protected))
         (ValueError ''replan changed a relation across the protected boundary'')))))))))"

section \<open>Applying the boundary to a proposal\<close>

definition overlay_items ::
  "backlog_plan \<Rightarrow> backlog_plan \<Rightarrow> string list \<Rightarrow> backlog_item list" where
  "overlay_items prior proposed affected =
     concat (map (\<lambda>i. if bi_key i \<notin> set affected then [i]
         else (case dict_get (by_key proposed) (bi_key i) of None \<Rightarrow> [] | Some j \<Rightarrow> [j]))
       (bp_items prior))
     @ filter (\<lambda>i. bi_key i \<notin> set (dict_keys (by_key prior))) (bp_items proposed)"

definition apply_replan_boundary ::
  "backlog_plan \<Rightarrow> backlog_plan \<Rightarrow> string \<Rightarrow> string list \<Rightarrow> string list \<Rightarrow> exn + backlog_plan" where
  "apply_replan_boundary prior proposed base_approved_commit selected affected =
     res_bind (raise_if (\<not> distinct (item_keys proposed))
       (ValueError ''replan candidate contains duplicate node keys'')) (\<lambda>_.
     res_bind (raise_if (list_ex (\<lambda>k. k \<notin> set (dict_keys (by_key proposed))) selected)
       (ValueError ''replan removed a selected root'')) (\<lambda>_.
     res_bind (build_replan_scope prior base_approved_commit selected affected) (\<lambda>scope.
     let bounded = proposed\<lparr>bp_plan := (bp_plan proposed)\<lparr>plan_replan := Some scope\<rparr>,
                            bp_items := overlay_items prior proposed affected\<rparr>
     in res_bind (validate_replan_candidate prior bounded base_approved_commit selected affected)
          (\<lambda>_. Inr bounded))))"

end
