(* ===== verification/Json.thy ===== *)
theory Json
  imports Prelude
begin

text \<open>
  Python values that cross a JSON boundary, and the canonical text
  \<^verbatim>\<open>json.dumps(value, sort_keys=True, separators=(",", ":"))\<close> every content hash of the
  program is taken of (\<^verbatim>\<open>canonical_hash\<close>, \<^verbatim>\<open>_operation_id\<close>,
  \<^verbatim>\<open>envelope_hash\<close>, \<^verbatim>\<open>operation_hash\<close>). Tuples and lists are different Python
  values with the same text, which is why operations restored from the database keep their
  hashes. SHA-256 itself is a function argument \<open>sha\<close> from the text to the hexadecimal digest.
\<close>

datatype pyval =
    PNone
  | PBool bool
  | PInt int
  | PStr string
  | PList "pyval list"
  | PTuple "pyval list"
  | PDict "(string \<times> pyval) list"

type_synonym pydict = "(string, pyval) dict"

definition hex_digit :: "nat \<Rightarrow> char" where
  "hex_digit n = char_of (if n < 10 then 48 + n else 87 + n)"

text \<open>One character of a JSON string with \<^verbatim>\<open>ensure_ascii\<close>.\<close>

definition json_char :: "char \<Rightarrow> string" where
  "json_char c = (let n = of_char c :: nat in
     if n = 34 then [CHR 0x5C, CHR 0x22]
     else if n = 92 then [CHR 0x5C, CHR 0x5C]
     else if n = 10 then [CHR 0x5C, CHR ''n'']
     else if n = 13 then [CHR 0x5C, CHR ''r'']
     else if n = 9 then [CHR 0x5C, CHR ''t'']
     else if n = 12 then [CHR 0x5C, CHR ''f'']
     else if n = 8 then [CHR 0x5C, CHR ''b'']
     else if 32 \<le> n \<and> n \<le> 126 then [c]
     else [CHR 0x5C, CHR ''u'', CHR ''0'', CHR ''0'', hex_digit (n div 16), hex_digit (n mod 16)])"

definition json_string :: "string \<Rightarrow> string" where
  "json_string s = CHR 0x22 # concat (map json_char s) @ [CHR 0x22]"

fun dumps :: "pyval \<Rightarrow> string" where
  "dumps PNone = ''null''"
| "dumps (PBool b) = (if b then ''true'' else ''false'')"
| "dumps (PInt i) = show_int i"
| "dumps (PStr s) = json_string s"
| "dumps (PList vs) = ''['' @ py_join '','' (map dumps vs) @ '']''"
| "dumps (PTuple vs) = ''['' @ py_join '','' (map dumps vs) @ '']''"
| "dumps (PDict kvs) =
     CHR 0x7B # py_join '','' (map (\<lambda>(k, s). json_string k @ '':'' @ s)
       (sort_key fst (map (\<lambda>(k, v). (k, dumps v)) kvs))) @ [CHR 0x7D]"

definition canonical_hash :: "(string \<Rightarrow> string) \<Rightarrow> pyval \<Rightarrow> string" where
  "canonical_hash sha v = sha (dumps v)"

text \<open>Small constructors of Python values.\<close>

definition py_opt_str :: "string option \<Rightarrow> pyval" where
  "py_opt_str s = (case s of None \<Rightarrow> PNone | Some t \<Rightarrow> PStr t)"

definition py_opt_int :: "int option \<Rightarrow> pyval" where
  "py_opt_int s = (case s of None \<Rightarrow> PNone | Some t \<Rightarrow> PInt t)"

definition py_str_list :: "string list \<Rightarrow> pyval" where
  "py_str_list ss = PList (map PStr ss)"

definition py_identity :: "string \<times> string \<Rightarrow> pyval" where
  "py_identity i = PTuple [PStr (fst i), PStr (snd i)]"

definition py_opt_identity :: "(string \<times> string) option \<Rightarrow> pyval" where
  "py_opt_identity i = (case i of None \<Rightarrow> PNone | Some x \<Rightarrow> py_identity x)"

text \<open>\<^verbatim>\<open>{**a, **b}\<close>.\<close>

definition dict_merge :: "('k, 'v) dict \<Rightarrow> ('k, 'v) dict \<Rightarrow> ('k, 'v) dict" where
  "dict_merge a b = fold (\<lambda>(k, v) d. dict_set k v d) b a"

lemma dict_merge_get:
  "distinct (dict_keys b) \<Longrightarrow>
     dict_get (dict_merge a b) k = (case dict_get b k of None \<Rightarrow> dict_get a k | Some v \<Rightarrow> Some v)"
proof (induction b arbitrary: a)
  case Nil
  then show ?case by (simp add: dict_merge_def)
next
  case (Cons kv b)
  obtain k' v where kv: "kv = (k', v)" by (cases kv)
  have step: "dict_merge a (kv # b) = dict_merge (dict_set k' v a) b"
    by (simp add: dict_merge_def kv)
  from Cons.prems kv have "dict_get b k' = None"
    by (simp add: map_of_eq_None_iff)
  with Cons kv show ?case
    unfolding step by (auto simp: dict_simps split: option.splits)
qed

text \<open>
  What a JSON round trip does to a value: tuples come back as lists. It leaves the canonical
  text, hence every hash, unchanged.
\<close>

fun untuple :: "pyval \<Rightarrow> pyval" where
  "untuple (PList vs) = PList (map untuple vs)"
| "untuple (PTuple vs) = PList (map untuple vs)"
| "untuple (PDict kvs) = PDict (map (\<lambda>(k, v). (k, untuple v)) kvs)"
| "untuple v = v"

lemma dumps_untuple [simp]: "dumps (untuple v) = dumps v"
proof (induction v rule: untuple.induct)
  case (1 vs)
  then have "map dumps (map untuple vs) = map dumps vs" by simp
  then show ?case by (simp del: map_map)
next
  case (2 vs)
  then have "map dumps (map untuple vs) = map dumps vs" by simp
  then show ?case by (simp del: map_map)
next
  case (3 kvs)
  then have "map (\<lambda>(k, v). (k, dumps v)) (map (\<lambda>(k, v). (k, untuple v)) kvs) =
      map (\<lambda>(k, v). (k, dumps v)) kvs"
    by auto
  then show ?case by (simp del: map_map)
qed simp_all

end
