(* ===== verification/OpenProject.thy ===== *)
theory OpenProject
  imports Replan Json
begin

text \<open>
  Snapshots of OpenProject and the publisher-owned projection of an item:
  \<^verbatim>\<open>src/planning_platform/openproject.py\<close>. The human fields of a work package are kept
  apart; nothing here writes them into a managed payload or hash.
\<close>

type_synonym identity = "string \<times> string"
type_synonym managed_relation = "string \<times> string \<times> string"

section \<open>Snapshots\<close>

record work_package =
  wp_id :: int
  wp_lock_version :: int
  wp_plan_id :: "string option"
  wp_node_key :: "string option"
  wp_plan_version :: "int option"
  wp_repository :: "string option"
  wp_title :: string
  wp_managed_hash :: "string option"
  wp_parent_id :: "int option"
  wp_parent_identity :: "identity option"
  wp_relations :: "(string \<times> int) list"
  wp_managed_relations :: "managed_relation list"
  wp_human_fields :: pydict
  wp_superseded :: bool
  wp_evidence_state :: "string option"

definition wp_identity :: "work_package \<Rightarrow> identity option" where
  "wp_identity w =
     (case wp_plan_id w of None \<Rightarrow> None
      | Some p \<Rightarrow> (case wp_node_key w of None \<Rightarrow> None | Some k \<Rightarrow> Some (p, k)))"

record snapshot =
  sn_captured_at :: string
  sn_etag :: string
  sn_sha256 :: string
  sn_work_packages :: "work_package list"

fun identities_from ::
  "(identity, work_package) dict \<Rightarrow> work_package list \<Rightarrow> exn + (identity, work_package) dict" where
  "identities_from result [] = Inr result"
| "identities_from result (w # ws) =
     (case wp_identity w of
        None \<Rightarrow> identities_from result ws
      | Some i \<Rightarrow>
          if dict_get result i \<noteq> None
          then Inl (ValueError (''conflicting identity '' @ fst i @ '':'' @ snd i))
          else identities_from (dict_set i w result) ws)"

definition identities :: "snapshot \<Rightarrow> exn + (identity, work_package) dict" where
  "identities s = identities_from [] (sn_work_packages s)"

text \<open>\<^verbatim>\<open>asdict(package)\<close> and the content hash of a snapshot.\<close>

definition work_package_asdict :: "work_package \<Rightarrow> pyval" where
  "work_package_asdict w = PDict
     [(''id'', PInt (wp_id w)), (''lock_version'', PInt (wp_lock_version w)),
      (''plan_id'', py_opt_str (wp_plan_id w)), (''node_key'', py_opt_str (wp_node_key w)),
      (''plan_version'', py_opt_int (wp_plan_version w)),
      (''repository'', py_opt_str (wp_repository w)), (''title'', PStr (wp_title w)),
      (''managed_hash'', py_opt_str (wp_managed_hash w)),
      (''parent_id'', py_opt_int (wp_parent_id w)),
      (''parent_identity'', py_opt_identity (wp_parent_identity w)),
      (''relations'', PTuple (map (\<lambda>(t, n). PTuple [PStr t, PInt n]) (wp_relations w))),
      (''managed_relations'',
         PTuple (map (\<lambda>(t, target). PTuple [PStr t, py_identity target]) (wp_managed_relations w))),
      (''human_fields'', PDict (wp_human_fields w)),
      (''superseded'', PBool (wp_superseded w)),
      (''evidence_state'', py_opt_str (wp_evidence_state w))]"

definition content_hash :: "(string \<Rightarrow> string) \<Rightarrow> snapshot \<Rightarrow> string" where
  "content_hash sha s = canonical_hash sha (PDict
     [(''captured_at'', PStr (sn_captured_at s)), (''etag'', PStr (sn_etag s)),
      (''work_packages'', PList (map work_package_asdict (sn_work_packages s)))])"

section \<open>The generated description\<close>

definition generated_open :: string where
  "generated_open = ''<!-- planning-platform:generated -->''"

definition generated_close :: string where
  "generated_close = ''<!-- /planning-platform:generated -->''"

definition generated_description :: "backlog_item \<Rightarrow> string" where
  "generated_description i =
     (let criteria = py_join nl (map (\<lambda>c. ''- '' @ ac_criterion c @ nl @ ''  Proof: '' @ ac_observation c)
            (bi_acceptance_criteria i));
          evidence = py_join nl (map (\<lambda>e. ''- '' @ evidence_kind_str (re_kind e) @ '': '' @ re_description e)
            (bi_required_evidence i))
      in py_join nl
        [generated_open,
         ''## Type'', item_type_str (bi_type i),
         ''## Objective'', bi_objective i,
         ''## Acceptance'', criteria,
         ''## Evidence'', evidence,
         ''## Estimate'', estimate_str (bi_estimate i),
         ''## Repository'', bi_repository i,
         ''## Source requirements'', py_join nl (map (\<lambda>v. ''- '' @ v) (bi_source_requirements i)),
         ''## Maintenance objectives'', py_join nl (map (\<lambda>v. ''- '' @ v) (bi_maintenance_objectives i)),
         ''## Agent eligibility rationale'', ae_reason (bi_agent_eligibility i),
         generated_close])"

text \<open>
  \<^verbatim>\<open>current.index(close, start)\<close> searches from the opening marker and raises a
  \<^verbatim>\<open>ValueError\<close> when the closing marker stands before it.
\<close>

definition replace_generated_description :: "string \<Rightarrow> string \<Rightarrow> exn + string" where
  "replace_generated_description current generated =
     (let starts = py_count generated_open current; ends = py_count generated_close current in
      if starts = 0 \<and> ends = 0 then
        Inr (if py_strip current = [] then generated else py_rstrip current @ nl @ nl @ generated)
      else if starts \<noteq> 1 \<or> ends \<noteq> 1 then
        Inl (ValueError ''generated description markers are missing, duplicated, or unbalanced'')
      else case find_at generated_open current of
          None \<Rightarrow> Inl (ValueError ''substring not found'')
        | Some start \<Rightarrow>
            (case find_at generated_close (drop start current) of
               None \<Rightarrow> Inl (ValueError ''substring not found'')
             | Some n \<Rightarrow>
                 let e = start + n + length generated_close in
                 if e \<le> start then Inl (ValueError ''generated description marker order is invalid'')
                 else Inr (take start current @ generated @ drop e current)))"

section \<open>Managed fields\<close>

definition managed_fields :: "backlog_plan \<Rightarrow> backlog_item \<Rightarrow> pydict" where
  "managed_fields p i =
     (let (version, commit) =
        effective_node_binding p (plan_approved_planning_commit (bp_plan p)) (bi_key i)
      in [(''title'', PStr (bi_title i)),
          (''work_package_type'', PStr (item_type_str (bi_type i))),
          (''generated_description'', PStr (generated_description i)),
          (''priority'', PStr (risk_str (bi_risk i))),
          (''risk'', PStr (risk_str (bi_risk i))),
          (''repository'', PStr (bi_repository i)),
          (''source_requirements'', py_str_list (bi_source_requirements i)),
          (''plan_id'', PStr (plan_id (bp_plan p))),
          (''node_key'', PStr (bi_key i)),
          (''plan_version'', PInt version),
          (''agent_eligibility'', PBool (ae_eligible (bi_agent_eligibility i))),
          (''planning_commit'', py_opt_str commit)])"

definition create_fields :: "backlog_plan \<Rightarrow> backlog_item \<Rightarrow> pydict" where
  "create_fields p i = dict_merge (managed_fields p i) [(''evidence_state'', PStr ''pending'')]"

definition managed_hash :: "(string \<Rightarrow> string) \<Rightarrow> backlog_plan \<Rightarrow> backlog_item \<Rightarrow> string" where
  "managed_hash sha p i = canonical_hash sha (PDict (managed_fields p i))"

section \<open>Facts\<close>

lemma identities_from_Inr:
  "identities_from d ws = Inr d' \<Longrightarrow>
     (\<forall>k w. dict_get d' k = Some w \<longleftrightarrow> dict_get d k = Some w \<or> w \<in> set ws \<and> wp_identity w = Some k) \<and>
     (distinct (dict_keys d) \<longrightarrow> distinct (dict_keys d'))"
proof (induction ws arbitrary: d)
  case Nil
  then show ?case by simp
next
  case (Cons w ws)
  show ?case
  proof (cases "wp_identity w")
    case None
    with Cons show ?thesis by auto
  next
    case (Some i)
    with Cons.prems have free: "dict_get d i = None"
      and rest: "identities_from (dict_set i w d) ws = Inr d'"
      by (auto split: if_splits)
    from Cons.IH [OF rest] Some free show ?thesis
      by (auto simp: dict_simps distinct_dict_set split: if_splits)
  qed
qed

lemma identities_Some:
  assumes "identities s = Inr d"
  shows "dict_get d k = Some w \<longleftrightarrow> w \<in> set (sn_work_packages s) \<and> wp_identity w = Some k"
    and "distinct (dict_keys d)"
  using identities_from_Inr [of "[]" "sn_work_packages s" d] assms
  unfolding identities_def by (simp_all del: map_of_eq_Some_iff split_paired_All)

lemma managed_hash_cong:
  assumes "plan_id (bp_plan p) = plan_id (bp_plan q)"
    and "effective_node_binding p (plan_approved_planning_commit (bp_plan p)) (bi_key i) =
         effective_node_binding q (plan_approved_planning_commit (bp_plan q)) (bi_key i)"
  shows "managed_hash sha p i = managed_hash sha q i"
  using assms by (simp add: managed_hash_def managed_fields_def)

text \<open>
  The publisher only rewrites its own region: whatever precedes the opening marker and
  follows the closing one survives unchanged, and a description without markers is kept in
  front of the new region.
\<close>

lemma is_prefix_of_take:
  assumes "take (length p) s = p" and "length p \<le> m"
  shows "is_prefix_of p (take m s)"
proof -
  have "take m s = take (length p) s @ take (m - length p) (drop (length p) s)"
    using assms(2) by (metis le_add_diff_inverse take_add)
  with assms(1) show ?thesis by (auto simp: is_prefix_of_iff)
qed

lemma generated_open_shorter: "length generated_open \<le> n + length generated_close"
  by (simp add: generated_open_def generated_close_def)

lemma replace_generated_region:
  assumes "replace_generated_description current generated = Inr r"
    and "py_count generated_open current \<noteq> 0 \<or> py_count generated_close current \<noteq> 0"
  shows "\<exists>before region after. current = before @ region @ after \<and>
           is_prefix_of generated_open region \<and> (\<exists>body. region = body @ generated_close) \<and>
           r = before @ generated @ after"
proof -
  from assms obtain start n where
    start: "find_at generated_open current = Some start"
    and n: "find_at generated_close (drop start current) = Some n"
    and r: "r = take start current @ generated @ drop (start + n + length generated_close) current"
    by (auto simp: replace_generated_description_def Let_def split: if_splits option.splits)
  let ?rest = "drop start current"
  let ?region = "take (n + length generated_close) ?rest"
  from find_at_Some [OF start] have "is_prefix_of generated_open ?region"
    by (intro is_prefix_of_take generated_open_shorter) simp
  moreover from find_at_Some [OF n] have "?region = take n ?rest @ generated_close"
    by (simp add: take_add)
  moreover have "current = take start current @ ?region @ drop (start + n + length generated_close) current"
    by (metis add.assoc append_take_drop_id drop_drop add.commute)
  ultimately show ?thesis using r by blast
qed

lemma replace_generated_fresh:
  assumes "py_count generated_open current = 0" and "py_count generated_close current = 0"
  shows "replace_generated_description current generated =
     Inr (if py_strip current = [] then generated else py_rstrip current @ nl @ nl @ generated)"
  using assms by (simp add: replace_generated_description_def)

end
