(* ===== verification/Diff.thy ===== *)
theory Diff
  imports OpenProject
begin

text \<open>
  \<^verbatim>\<open>src/planning_platform/diff.py\<close>: the translation of a plan and a snapshot into the
  ordered list of publication operations. Preconditions and payloads are the Python
  dictionaries of the code, so that an operation identifier is the hash of exactly what the
  code hashes. The sets of relations are lists without repetition; they are sorted wherever
  the code sorts them and otherwise only tested for membership.
\<close>

datatype op_kind =
    CreateWorkPackage
  | UpdateManagedFields
  | SetParent
  | CreateRelation
  | RemoveManagedRelation
  | ReactivateWorkPackage
  | MarkSuperseded
  | RecordAudit

primrec op_kind_str :: "op_kind \<Rightarrow> string" where
  "op_kind_str CreateWorkPackage = ''create_work_package''"
| "op_kind_str UpdateManagedFields = ''update_managed_fields''"
| "op_kind_str SetParent = ''set_parent''"
| "op_kind_str CreateRelation = ''create_relation''"
| "op_kind_str RemoveManagedRelation = ''remove_managed_relation''"
| "op_kind_str ReactivateWorkPackage = ''reactivate_work_package''"
| "op_kind_str MarkSuperseded = ''mark_superseded''"
| "op_kind_str RecordAudit = ''record_audit''"

record publication_operation =
  op_id :: string
  op_kind_of :: op_kind
  op_identity :: identity
  op_preconditions :: pydict
  op_managed_before_hash :: "string option"
  op_managed_after_hash :: "string option"
  op_trace_id :: string
  op_payload :: pydict

section \<open>Preconditions and identifiers\<close>

definition preconditions :: "backlog_plan \<Rightarrow> snapshot \<Rightarrow> string option \<Rightarrow> pydict" where
  "preconditions p sn expected_hash =
     [(''publication_identity'', PStr (plan_publication_identity (bp_plan p))),
      (''plan_version'', PInt (plan_version (bp_plan p))),
      (''base_snapshot_sha256'', PStr (sn_sha256 sn)),
      (''base_snapshot_etag'', PStr (sn_etag sn)),
      (''expected_managed_hash'', py_opt_str expected_hash)]"

definition operation_id ::
  "(string \<Rightarrow> string) \<Rightarrow> backlog_plan \<Rightarrow> op_kind \<Rightarrow> identity \<Rightarrow> pydict \<Rightarrow> pydict \<Rightarrow> string" where
  "operation_id sha p kind ident payload conditions =
     sha (dumps (PList
       [PStr (plan_publication_identity (bp_plan p)), PInt (plan_version (bp_plan p)),
        PStr (op_kind_str kind), py_identity ident, PDict payload, PDict conditions]))"

definition make_operation ::
  "(string \<Rightarrow> string) \<Rightarrow> backlog_plan \<Rightarrow> op_kind \<Rightarrow> identity \<Rightarrow> string option \<Rightarrow> string option
    \<Rightarrow> string \<Rightarrow> pydict \<Rightarrow> pydict \<Rightarrow> publication_operation" where
  "make_operation sha p kind ident managed_before managed_after trace payload conditions =
     \<lparr>op_id = operation_id sha p kind ident payload conditions, op_kind_of = kind,
      op_identity = ident, op_preconditions = conditions, op_managed_before_hash = managed_before,
      op_managed_after_hash = managed_after, op_trace_id = trace, op_payload = payload\<rparr>"

section \<open>Desired relations\<close>

text \<open>
  \<^verbatim>\<open>_relations\<close>: the lower key of an unordered pair owns its \<^verbatim>\<open>related_to\<close>
  relation, whichever end declares it.
\<close>

definition related_pairs :: "backlog_plan \<Rightarrow> (string \<times> string) list" where
  "related_pairs p = remdups (concat (map (\<lambda>s.
     map (\<lambda>t. (min (bi_key s) t, max (bi_key s) t)) (bi_related_to s)) (bp_items p)))"

definition desired_relations :: "backlog_plan \<Rightarrow> backlog_item \<Rightarrow> managed_relation list" where
  "desired_relations p i =
     (let pid = plan_id (bp_plan p) in remdups
       (map (\<lambda>t. (''blocked_by'', pid, t)) (bi_blocked_by i)
        @ map (\<lambda>t. (''sequence_after'', pid, t)) (bi_sequence_after i)
        @ map (\<lambda>(s, t). (''related_to'', pid, t)) (filter (\<lambda>(s, t). s = bi_key i) (related_pairs p))
        @ map (\<lambda>t. (''decision_required'', pid, t)) (bi_decision_required i)
        @ map (\<lambda>t. (''governed_by'', pid, t)) (bi_decisions i)))"

definition relation_payload :: "managed_relation \<Rightarrow> pydict" where
  "relation_payload r = [(''type'', PStr (fst r)), (''target_identity'', py_identity (snd r))]"

section \<open>Topology preconditions\<close>

definition py_relation :: "managed_relation \<Rightarrow> pyval" where
  "py_relation r = PList [PStr (fst r), py_identity (snd r)]"

text \<open>
  \<open>topology_preconditions package parent relations\<close>: the caller passes the parent and the
  relations explicitly; \<open>package_topology\<close> is the call that observes the package.
\<close>

definition topology_preconditions ::
  "work_package option \<Rightarrow> identity option \<Rightarrow> managed_relation list \<Rightarrow> pydict" where
  "topology_preconditions package parent_identity managed_relations =
     [(''expected_parent_identity'', py_opt_identity parent_identity),
      (''expected_unmanaged_parent'', PBool
         (case package of None \<Rightarrow> False
          | Some w \<Rightarrow> wp_parent_id w \<noteq> None \<and> wp_parent_identity w = None)),
      (''expected_managed_relations'', PList (map py_relation (sorted_set managed_relations)))]"

definition package_topology :: "work_package \<Rightarrow> pydict" where
  "package_topology w =
     topology_preconditions (Some w) (wp_parent_identity w) (remdups (wp_managed_relations w))"

definition existing_preconditions ::
  "backlog_plan \<Rightarrow> snapshot \<Rightarrow> work_package \<Rightarrow> string option \<Rightarrow> pydict" where
  "existing_preconditions p sn w expected =
     dict_merge (dict_set ''identity_resolved'' (PBool True) (preconditions p sn expected))
       (package_topology w)"

section \<open>The passes of plan_diff\<close>

definition create_ops ::
  "(string \<Rightarrow> string) \<Rightarrow> backlog_plan \<Rightarrow> snapshot \<Rightarrow> string \<Rightarrow> (identity, work_package) dict
    \<Rightarrow> backlog_item \<Rightarrow> publication_operation list" where
  "create_ops sha p sn trace existing i =
     (let ident = (plan_id (bp_plan p), bi_key i) in
      if dict_get existing ident \<noteq> None then []
      else [make_operation sha p CreateWorkPackage ident None (Some (managed_hash sha p i)) trace
              (create_fields p i)
              (dict_set ''identity_absent'' (PBool True) (preconditions p sn None))])"

definition reactivate_ops ::
  "(string \<Rightarrow> string) \<Rightarrow> backlog_plan \<Rightarrow> snapshot \<Rightarrow> string \<Rightarrow> identity \<Rightarrow> work_package option
    \<Rightarrow> publication_operation list" where
  "reactivate_ops sha p sn trace ident package =
     (case package of None \<Rightarrow> []
      | Some w \<Rightarrow>
          if wp_superseded w
          then [make_operation sha p ReactivateWorkPackage ident (wp_managed_hash w) (wp_managed_hash w)
                  trace [(''status'', PStr ''Ready'')]
                  (existing_preconditions p sn w (wp_managed_hash w))]
          else [])"

definition update_ops ::
  "(string \<Rightarrow> string) \<Rightarrow> backlog_plan \<Rightarrow> snapshot \<Rightarrow> string \<Rightarrow> backlog_item \<Rightarrow> identity
    \<Rightarrow> work_package option \<Rightarrow> publication_operation list" where
  "update_ops sha p sn trace i ident package =
     (let after = managed_hash sha p i in
      case package of None \<Rightarrow> []
      | Some w \<Rightarrow>
          if wp_managed_hash w \<noteq> Some after
          then [make_operation sha p UpdateManagedFields ident (wp_managed_hash w) (Some after)
                  trace (managed_fields p i)
                  (existing_preconditions p sn w (wp_managed_hash w))]
          else [])"

definition desired_parent :: "backlog_plan \<Rightarrow> backlog_item \<Rightarrow> identity option" where
  "desired_parent p i =
     (case bi_parent i of None \<Rightarrow> None | Some q \<Rightarrow> Some (plan_id (bp_plan p), q))"

definition current_parent :: "work_package option \<Rightarrow> identity option" where
  "current_parent package = (case package of None \<Rightarrow> None | Some w \<Rightarrow> wp_parent_identity w)"

definition current_relations :: "work_package option \<Rightarrow> managed_relation list" where
  "current_relations package =
     (case package of None \<Rightarrow> [] | Some w \<Rightarrow> remdups (wp_managed_relations w))"

definition parent_changed :: "backlog_plan \<Rightarrow> backlog_item \<Rightarrow> work_package option \<Rightarrow> bool" where
  "parent_changed p i package \<longleftrightarrow>
     current_parent package \<noteq> desired_parent p i \<or>
     desired_parent p i = None \<and> (case package of None \<Rightarrow> False | Some w \<Rightarrow> wp_parent_id w \<noteq> None)"

definition base_conditions ::
  "backlog_plan \<Rightarrow> snapshot \<Rightarrow> work_package option \<Rightarrow> string \<Rightarrow> pydict" where
  "base_conditions p sn package after =
     (case package of
        None \<Rightarrow> dict_set ''identity_resolved'' (PBool True) (preconditions p sn (Some after))
      | Some w \<Rightarrow> existing_preconditions p sn w (Some after))"

definition parent_ops ::
  "(string \<Rightarrow> string) \<Rightarrow> backlog_plan \<Rightarrow> snapshot \<Rightarrow> string \<Rightarrow> backlog_item \<Rightarrow> identity
    \<Rightarrow> work_package option \<Rightarrow> publication_operation list" where
  "parent_ops sha p sn trace i ident package =
     (let after = managed_hash sha p i in
      if parent_changed p i package
      then [make_operation sha p SetParent ident (Some after) (Some after) trace
              [(''parent_identity'', py_opt_identity (desired_parent p i))]
              (dict_merge (base_conditions p sn package after)
                (topology_preconditions package (current_parent package) (current_relations package)))]
      else [])"

text \<open>The two relation loops; \<open>virtual\<close> is the set the code calls \<^verbatim>\<open>virtual_relations\<close>.\<close>

fun relation_ops ::
  "(string \<Rightarrow> string) \<Rightarrow> backlog_plan \<Rightarrow> snapshot \<Rightarrow> string \<Rightarrow> identity \<Rightarrow> work_package option
    \<Rightarrow> string \<Rightarrow> identity option \<Rightarrow> op_kind \<Rightarrow> managed_relation list \<Rightarrow> managed_relation list
    \<Rightarrow> publication_operation list" where
  "relation_ops sha p sn trace ident package after virtual_parent kind virtual [] = []"
| "relation_ops sha p sn trace ident package after virtual_parent kind virtual (r # rs) =
     make_operation sha p kind ident (Some after) (Some after) trace (relation_payload r)
       (dict_merge (base_conditions p sn package after)
         (topology_preconditions package virtual_parent virtual))
     # relation_ops sha p sn trace ident package after virtual_parent kind
         (if kind = CreateRelation then List.insert r virtual else removeAll r virtual) rs"

definition item_ops ::
  "(string \<Rightarrow> string) \<Rightarrow> backlog_plan \<Rightarrow> snapshot \<Rightarrow> string \<Rightarrow> (identity, work_package) dict
    \<Rightarrow> backlog_item \<Rightarrow> publication_operation list" where
  "item_ops sha p sn trace existing i =
     (let ident = (plan_id (bp_plan p), bi_key i);
          package = dict_get existing ident;
          after = managed_hash sha p i;
          virtual_parent = (if parent_changed p i package then desired_parent p i
                            else current_parent package);
          desired = desired_relations p i;
          current = current_relations package;
          added = sorted_set (filter (\<lambda>r. r \<notin> set current) desired);
          removed = sorted_set (filter (\<lambda>r. r \<notin> set desired) current)
      in reactivate_ops sha p sn trace ident package
         @ update_ops sha p sn trace i ident package
         @ parent_ops sha p sn trace i ident package
         @ relation_ops sha p sn trace ident package after virtual_parent CreateRelation current added
         @ relation_ops sha p sn trace ident package after virtual_parent RemoveManagedRelation
             (added @ current) removed)"

definition supersede_ops ::
  "(string \<Rightarrow> string) \<Rightarrow> backlog_plan \<Rightarrow> snapshot \<Rightarrow> string \<Rightarrow> identity \<times> work_package
    \<Rightarrow> publication_operation list" where
  "supersede_ops sha p sn trace = (\<lambda>(ident, w).
     if fst ident \<noteq> plan_id (bp_plan p) \<or> snd ident \<in> set (item_keys p) \<or> wp_superseded w then []
     else [make_operation sha p MarkSuperseded ident (wp_managed_hash w) (wp_managed_hash w) trace
             [(''superseded'', PBool True)]
             (existing_preconditions p sn w (wp_managed_hash w))])"

definition plan_diff ::
  "(string \<Rightarrow> string) \<Rightarrow> backlog_plan \<Rightarrow> snapshot \<Rightarrow> string \<Rightarrow> exn + publication_operation list" where
  "plan_diff sha p sn trace =
     res_bind (identities sn) (\<lambda>existing.
       let items = sort_key bi_key (bp_items p);
           operations =
             concat (map (create_ops sha p sn trace existing) items)
             @ concat (map (item_ops sha p sn trace existing) items)
             @ concat (map (supersede_ops sha p sn trace) (sort_key fst existing))
       in Inr (operations @
            (if operations = [] then []
             else [make_operation sha p RecordAudit (plan_id (bp_plan p), ''_audit'') None None trace
                     [(''operation_ids'', PList (map (\<lambda>x. PStr (op_id x)) operations))]
                     (preconditions p sn None)])))"

end
