(* ===== verification/Cycle.thy ===== *)
theory Cycle
  imports Prelude
begin

text \<open>
  The depth-first cycle test \<^verbatim>\<open>_has_cycle\<close> of
  \<^verbatim>\<open>src/planning_platform/validation.py\<close>. The set \<^verbatim>\<open>visiting\<close> is the recursion stack
  (a key is added before the loop over its targets and removed after it, and the search
  stops at once when a call returns true), so it is passed down as an argument; the set
  \<^verbatim>\<open>visited\<close> grows through the whole search and is threaded as state. A missing key is
  the \<^verbatim>\<open>KeyError\<close> of \<^verbatim>\<open>edges[key]\<close>, here \<^const>\<open>None\<close>; the graphs of the validator
  never raise it. The test is proved equal to the existence of a cycle, whatever order the
  edges are visited in.
\<close>

type_synonym graph = "(string, string list) dict"

definition unvisited :: "graph \<Rightarrow> string list \<Rightarrow> nat" where
  "unvisited edges visiting = length (filter (\<lambda>k. k \<notin> set visiting) (dict_keys edges))"

lemma unvisited_less:
  assumes "dict_get edges k = Some ts" and "k \<notin> set visiting"
  shows "unvisited edges (k # visiting) < unvisited edges visiting"
proof -
  have k: "k \<in> set (dict_keys edges)"
    using assms(1) by (force dest: map_of_SomeD)
  from length_filter_notin_Cons [OF k assms(2)] show ?thesis by (simp add: unvisited_def)
qed

function (sequential) cycle_visit ::
    "graph \<Rightarrow> string list \<Rightarrow> string list \<Rightarrow> string \<Rightarrow> (bool \<times> string list) option"
  and cycle_any ::
    "graph \<Rightarrow> string list \<Rightarrow> string list \<Rightarrow> string list \<Rightarrow> (bool \<times> string list) option"
where
  "cycle_visit edges visiting visited key =
     (if key \<in> set visiting then Some (True, visited)
      else if key \<in> set visited then Some (False, visited)
      else case dict_get edges key of
          None \<Rightarrow> None
        | Some targets \<Rightarrow>
            (case cycle_any edges (key # visiting) visited targets of
               None \<Rightarrow> None
             | Some (found, visited') \<Rightarrow>
                 if found then Some (True, visited') else Some (False, key # visited')))"
| "cycle_any edges visiting visited [] = Some (False, visited)"
| "cycle_any edges visiting visited (t # ts) =
     (case cycle_visit edges visiting visited t of
        None \<Rightarrow> None
      | Some (found, visited') \<Rightarrow>
          if found then Some (True, visited') else cycle_any edges visiting visited' ts)"
  by pat_completeness auto
termination
proof (relation "measures
    [case_sum (\<lambda>(edges, visiting, _, _). unvisited edges visiting)
              (\<lambda>(edges, visiting, _, _). unvisited edges visiting),
     case_sum (\<lambda>_. 0) (\<lambda>(_, _, _, ts). Suc (length ts))]", goal_cases)
  case 1
  then show ?case by simp
next
  case (2 edges visiting visited key targets)
  then show ?case by (simp add: unvisited_less)
qed auto

definition has_cycle :: "graph \<Rightarrow> bool option" where
  "has_cycle edges = map_option fst (cycle_any edges [] [] (dict_keys edges))"

declare cycle_visit.simps [simp del]
declare cycle_any.simps [simp del]

section \<open>The relation a graph stands for\<close>

definition edge_rel :: "graph \<Rightarrow> (string \<times> string) set" where
  "edge_rel edges = {(k, t). \<exists>ts. dict_get edges k = Some ts \<and> t \<in> set ts}"

definition graph_closed :: "graph \<Rightarrow> bool" where
  "graph_closed edges \<longleftrightarrow>
     (\<forall>(k, t) \<in> edge_rel edges. t \<in> set (dict_keys edges))"

text \<open>A node is safe when no node reachable from it lies on a cycle.\<close>

definition safe_node :: "graph \<Rightarrow> string \<Rightarrow> bool" where
  "safe_node edges k \<longleftrightarrow>
     (\<forall>w. (k, w) \<in> (edge_rel edges)\<^sup>* \<longrightarrow> (w, w) \<notin> (edge_rel edges)\<^sup>+)"

lemma safe_node_step:
  assumes "dict_get edges k = Some ts" and "\<forall>t \<in> set ts. safe_node edges t"
  shows "safe_node edges k"
  unfolding safe_node_def
proof (intro allI impI notI)
  fix w
  assume kw: "(k, w) \<in> (edge_rel edges)\<^sup>*" and ww: "(w, w) \<in> (edge_rel edges)\<^sup>+"
  have "(k, w) \<in> (edge_rel edges)\<^sup>+"
    using kw ww by (meson rtrancl_trancl_trancl)
  then obtain t where t: "(k, t) \<in> edge_rel edges" and tw: "(t, w) \<in> (edge_rel edges)\<^sup>*"
    by (meson tranclD)
  from t assms have "safe_node edges t"
    by (auto simp: edge_rel_def)
  with tw ww show False by (simp add: safe_node_def)
qed

section \<open>Totality, soundness and completeness\<close>

lemma cycle_total:
  assumes closed: "graph_closed edges"
  shows "key \<in> fst ` set edges \<Longrightarrow> cycle_visit edges visiting visited key \<noteq> None"
    and "set ts \<subseteq> fst ` set edges \<Longrightarrow> cycle_any edges visiting visited ts \<noteq> None"
  using closed
proof (induction edges visiting visited key and edges visiting visited ts
    rule: cycle_visit_cycle_any.induct)
  case (1 edges visiting visited key)
  from "1.prems"(1) obtain ts where ts: "dict_get edges key = Some ts"
    using dict_get_None [of edges key] by auto
  with "1.prems"(2) have "set ts \<subseteq> fst ` set edges"
    by (auto simp: graph_closed_def edge_rel_def)
  with "1.IH" [OF _ _ ts] "1.prems"(2)
  have "key \<notin> set visiting \<Longrightarrow> key \<notin> set visited \<Longrightarrow> cycle_any edges (key # visiting) visited ts \<noteq> None"
    by blast
  with ts show ?case
    by (force simp: cycle_visit.simps [of edges visiting visited key] split: prod.splits if_splits)
next
  case (2 edges visiting visited)
  then show ?case by (simp add: cycle_any.simps)
next
  case (3 edges visiting visited t ts)
  then show ?case
    by (auto simp: cycle_any.simps(2) [of edges visiting visited])
qed

lemma cycle_negative:
  shows "cycle_visit edges visiting visited key = Some (False, visited') \<Longrightarrow>
      \<forall>v \<in> set visited. safe_node edges v \<Longrightarrow>
      safe_node edges key \<and> (\<forall>v \<in> set visited'. safe_node edges v)"
    and "cycle_any edges visiting visited ts = Some (False, visited') \<Longrightarrow>
      \<forall>v \<in> set visited. safe_node edges v \<Longrightarrow>
      (\<forall>t \<in> set ts. safe_node edges t) \<and> (\<forall>v \<in> set visited'. safe_node edges v)"
proof (induction edges visiting visited key and edges visiting visited ts
    arbitrary: visited' and visited' rule: cycle_visit_cycle_any.induct)
  case (1 edges visiting visited key)
  show ?case
  proof (cases "key \<in> set visited")
    case True
    with "1.prems" show ?thesis
      by (auto simp: cycle_visit.simps [of edges visiting visited key] split: if_splits)
  next
    case False
    with "1.prems" obtain ts vd where
      key: "key \<notin> set visiting" and ts: "dict_get edges key = Some ts"
      and any: "cycle_any edges (key # visiting) visited ts = Some (False, vd)"
      and vd: "visited' = key # vd"
      by (auto simp: cycle_visit.simps [of edges visiting visited key]
          split: if_splits option.splits prod.splits)
    from "1.IH" [OF key False ts any "1.prems"(2)]
    have "\<forall>t \<in> set ts. safe_node edges t" and "\<forall>v \<in> set vd. safe_node edges v" by auto
    with safe_node_step [OF ts] vd show ?thesis by auto
  qed
next
  case (2 edges visiting visited)
  then show ?case by (simp add: cycle_any.simps)
next
  case (3 edges visiting visited t ts)
  from "3.prems"(1) obtain vd where
    v: "cycle_visit edges visiting visited t = Some (False, vd)"
    and a: "cycle_any edges visiting vd ts = Some (False, visited')"
    by (auto simp: cycle_any.simps(2) [of edges visiting visited] split: if_splits option.splits prod.splits)
  from "3.IH"(1) [OF v "3.prems"(2)]
  have t: "safe_node edges t" and vd: "\<forall>v \<in> set vd. safe_node edges v" by auto
  from "3.IH"(2) [OF v refl _ a vd] have "(\<forall>t \<in> set ts. safe_node edges t) \<and> (\<forall>v \<in> set visited'. safe_node edges v)"
    by simp
  with t show ?case by simp
qed

lemma cycle_positive:
  shows "cycle_visit edges visiting visited key = Some (True, visited') \<Longrightarrow>
      \<forall>v \<in> set visiting. (v, key) \<in> (edge_rel edges)\<^sup>+ \<Longrightarrow>
      \<exists>w. (w, w) \<in> (edge_rel edges)\<^sup>+"
    and "cycle_any edges visiting visited ts = Some (True, visited') \<Longrightarrow>
      \<forall>t \<in> set ts. \<forall>v \<in> set visiting. (v, t) \<in> (edge_rel edges)\<^sup>+ \<Longrightarrow>
      \<exists>w. (w, w) \<in> (edge_rel edges)\<^sup>+"
proof (induction edges visiting visited key and edges visiting visited ts
    arbitrary: visited' and visited' rule: cycle_visit_cycle_any.induct)
  case (1 edges visiting visited key)
  show ?case
  proof (cases "key \<in> set visiting")
    case True
    with "1.prems"(2) show ?thesis by blast
  next
    case False
    with "1.prems"(1) obtain ts vd where
      key: "key \<notin> set visited" and ts: "dict_get edges key = Some ts"
      and any: "cycle_any edges (key # visiting) visited ts = Some (True, vd)"
      by (auto simp: cycle_visit.simps [of edges visiting visited key]
          split: if_splits option.splits prod.splits)
    have "(key, t) \<in> edge_rel edges" if "t \<in> set ts" for t
      using ts that by (auto simp: edge_rel_def)
    with "1.prems"(2) have "\<forall>t \<in> set ts. \<forall>v \<in> set (key # visiting). (v, t) \<in> (edge_rel edges)\<^sup>+"
      by (auto intro: trancl_into_trancl)
    with "1.IH" [OF False key ts any] show ?thesis by blast
  qed
next
  case (2 edges visiting visited)
  then show ?case by (simp add: cycle_any.simps)
next
  case (3 edges visiting visited t ts)
  show ?case
  proof (cases "\<exists>vd. cycle_visit edges visiting visited t = Some (True, vd)")
    case True
    with 3 show ?thesis by auto
  next
    case False
    with "3.prems"(1) obtain vd where
      v: "cycle_visit edges visiting visited t = Some (False, vd)"
      and a: "cycle_any edges visiting vd ts = Some (True, visited')"
      by (auto simp: cycle_any.simps(2) [of edges visiting visited] split: if_splits option.splits prod.splits)
    from "3.IH"(2) [OF v refl _ a] "3.prems"(2) show ?thesis by simp
  qed
qed

lemma has_cycle_total: "graph_closed edges \<Longrightarrow> has_cycle edges \<noteq> None"
  using cycle_total(2) [of edges "dict_keys edges" "[]" "[]"] by (auto simp: has_cycle_def)

lemma has_cycle_False: "has_cycle edges = Some False \<Longrightarrow> acyclic (edge_rel edges)"
proof (rule acyclicI, intro allI notI)
  fix w
  assume "has_cycle edges = Some False" and ww: "(w, w) \<in> (edge_rel edges)\<^sup>+"
  then obtain vd where "cycle_any edges [] [] (dict_keys edges) = Some (False, vd)"
    by (auto simp: has_cycle_def)
  from cycle_negative(2) [OF this] have safe: "\<forall>k \<in> fst ` set edges. safe_node edges k" by simp
  from ww obtain t where "(w, t) \<in> edge_rel edges" by (meson tranclD)
  then have "w \<in> fst ` set edges"
    by (force simp: edge_rel_def dest: map_of_SomeD)
  with safe ww show False by (auto simp: safe_node_def)
qed

lemma has_cycle_True: "has_cycle edges = Some True \<Longrightarrow> \<not> acyclic (edge_rel edges)"
proof -
  assume "has_cycle edges = Some True"
  then obtain vd where "cycle_any edges [] [] (dict_keys edges) = Some (True, vd)"
    by (auto simp: has_cycle_def)
  from cycle_positive(2) [OF this] show ?thesis by (auto simp: acyclic_def)
qed

lemma has_cycle_iff:
  assumes "graph_closed edges"
  shows "has_cycle edges = Some (\<not> acyclic (edge_rel edges))"
proof -
  from has_cycle_total [OF assms] obtain b where b: "has_cycle edges = Some b" by auto
  with has_cycle_False [of edges] has_cycle_True [of edges] show ?thesis
    by (cases b) auto
qed

end
