(* ===== verification/Validation.thy ===== *)
theory Validation
  imports Contract Cycle
begin

text \<open>
  The semantic validator \<^verbatim>\<open>validate_plan\<close> of \<^verbatim>\<open>src/planning_platform/validation.py\<close>,
  rule by rule in the order of the code, and the proof that a plan without issues is
  exactly a plan that is well formed in a declarative sense. The JSON Schema check is
  third-party code over a schema file: it is the parameter \<open>schema_error\<close>, the message of
  the \<^verbatim>\<open>SchemaValidationError\<close> or \<^const>\<open>None\<close>.
\<close>

record validation_issue =
  vi_code :: string
  vi_message :: string
  vi_node_key :: "string option"

abbreviation issue :: "string \<Rightarrow> string \<Rightarrow> validation_issue" where
  "issue code message \<equiv> \<lparr>vi_code = code, vi_message = message, vi_node_key = None\<rparr>"

abbreviation node_issue :: "string \<Rightarrow> string \<Rightarrow> string \<Rightarrow> validation_issue" where
  "node_issue code message key \<equiv> \<lparr>vi_code = code, vi_message = message, vi_node_key = Some key\<rparr>"

section \<open>Helpers of the validator\<close>

definition is_executable :: "item_type \<Rightarrow> bool" where
  "is_executable t \<longleftrightarrow> t = Story \<or> t = Task \<or> t = Investigation \<or> t = Bug"

primrec type_rank :: "item_type \<Rightarrow> nat" where
  "type_rank Initiative = 0"
| "type_rank Epic = 1"
| "type_rank Story = 2"
| "type_rank Task = 3"
| "type_rank Decision = 3"
| "type_rank Investigation = 3"
| "type_rank Bug = 3"

definition vague_words :: "string list" where
  "vague_words = [''tbd'', ''n/a'', ''manual'', ''done'', ''success'', ''successful'',
     ''objective'', ''as desired'']"

text \<open>\<^verbatim>\<open>_references\<close>: the parent when it is truthy, then the relation fields in order.\<close>

definition references :: "backlog_item \<Rightarrow> (string \<times> string) list" where
  "references i =
     (case bi_parent i of None \<Rightarrow> []
        | Some p \<Rightarrow> if p = [] then [] else [(''parent'', p)])
     @ map (Pair ''blocked_by'') (bi_blocked_by i)
     @ map (Pair ''sequence_after'') (bi_sequence_after i)
     @ map (Pair ''related_to'') (bi_related_to i)
     @ map (Pair ''decision_required'') (bi_decision_required i)
     @ map (Pair ''decisions'') (bi_decisions i)"

definition contains_vague :: "string \<Rightarrow> bool" where
  "contains_vague v = (let lowered = py_casefold v in list_ex (\<lambda>w. py_in w lowered) vague_words)"

section \<open>Plan-level rules\<close>

definition schema_issues :: "(backlog_plan \<Rightarrow> string option) \<Rightarrow> backlog_plan \<Rightarrow> validation_issue list" where
  "schema_issues schema_error p =
     (case schema_error p of None \<Rightarrow> [] | Some m \<Rightarrow> [issue ''schema_contract'' m])"

definition expected_publication_identity :: "plan_meta \<Rightarrow> string" where
  "expected_publication_identity m = plan_id m @ '':v'' @ show_int (plan_version m)"

definition identity_issues :: "backlog_plan \<Rightarrow> validation_issue list" where
  "identity_issues p =
     (if plan_publication_identity (bp_plan p) \<noteq> expected_publication_identity (bp_plan p)
      then [issue ''publication_identity'' ''must equal plan id and version''] else [])"

definition binding_issues :: "string list \<Rightarrow> replan_scope \<Rightarrow> replan_node_binding \<Rightarrow> validation_issue list" where
  "binding_issues known s b =
     (if rb_node_key b \<notin> set known
      then [node_issue ''replan_binding'' ''retained node binding must reference an artifact node''
              (rb_node_key b)] else [])
     @ (if rb_node_key b \<in> set (rs_affected_node_keys s)
           \<or> rb_plan_version b > rs_base_plan_version s
        then [node_issue ''replan_binding'' ''retained node binding conflicts with the replan boundary''
                (rb_node_key b)] else [])"

definition replan_issues :: "string list \<Rightarrow> plan_meta \<Rightarrow> validation_issue list" where
  "replan_issues known m =
     (case plan_replan m of None \<Rightarrow> []
      | Some s \<Rightarrow>
          (if rs_base_plan_version s \<ge> plan_version m
           then [issue ''replan_base'' ''base plan version must precede this plan''] else [])
          @ (if \<not> set (rs_selected_root_keys s) \<subseteq> set (rs_affected_node_keys s)
             then [issue ''replan_scope'' ''selected roots must be affected nodes''] else [])
          @ map (node_issue ''replan_scope'' ''selected root must exist in the replanned artifact'')
              (sorted_set (filter (\<lambda>k. k \<notin> set known) (rs_selected_root_keys s)))
          @ (if \<not> distinct (map rb_node_key (rs_retained_node_bindings s))
             then [issue ''replan_binding'' ''retained node bindings must be unique''] else [])
          @ concat (map (binding_issues known s) (rs_retained_node_bindings s)))"

definition duplicate_key_issues :: "string list \<Rightarrow> validation_issue list" where
  "duplicate_key_issues keys =
     map (\<lambda>k. node_issue ''duplicate_key'' (''duplicate node key '' @ k) k)
       (sorted_set (filter (\<lambda>k. count_list keys k > 1) keys))"

definition parent_edges :: "string list \<Rightarrow> backlog_item list \<Rightarrow> graph" where
  "parent_edges known items =
     dict_of bi_key (\<lambda>i. case bi_parent i of None \<Rightarrow> []
        | Some p \<Rightarrow> if p \<in> set known then [p] else []) items"

definition dependency_edges :: "string list \<Rightarrow> backlog_item list \<Rightarrow> graph" where
  "dependency_edges known items =
     dict_of bi_key (\<lambda>i. remdups (filter (\<lambda>k. k \<in> set known) (bi_blocked_by i))) items"

section \<open>Endpoint pairs of the stored relations\<close>

type_synonym endpoint_pair = "string \<times> string"

text \<open>A use is the semantic relation and the item that declares it.\<close>

type_synonym relation_use = "string \<times> string"

definition item_stored_uses :: "backlog_item \<Rightarrow> (endpoint_pair \<times> relation_use) list" where
  "item_stored_uses i =
     map (\<lambda>t. ((t, bi_key i), (''blocked_by'', bi_key i))) (bi_blocked_by i)
     @ map (\<lambda>t. ((bi_key i, t), (''sequence_after'', bi_key i))) (bi_sequence_after i)
     @ map (\<lambda>t. ((bi_key i, t), (''decision_required'', bi_key i))) (bi_decision_required i)
     @ map (\<lambda>t. ((bi_key i, t), (''governed_by'', bi_key i))) (bi_decisions i)"

definition ordered_pair :: "string \<Rightarrow> string \<Rightarrow> endpoint_pair" where
  "ordered_pair a b = (if a \<le> b then (a, b) else (b, a))"

definition item_symmetric_uses :: "backlog_item \<Rightarrow> (endpoint_pair \<times> relation_use) list" where
  "item_symmetric_uses i =
     map (\<lambda>t. (ordered_pair (bi_key i) t, (''related_to'', bi_key i))) (bi_related_to i)"

definition stored_uses :: "backlog_item list \<Rightarrow> (endpoint_pair \<times> relation_use) list" where
  "stored_uses items = concat (map item_stored_uses items)"

definition symmetric_uses :: "backlog_item list \<Rightarrow> (endpoint_pair \<times> relation_use) list" where
  "symmetric_uses items = concat (map item_symmetric_uses items)"

definition collision_issue :: "endpoint_pair \<Rightarrow> relation_use \<Rightarrow> validation_issue" where
  "collision_issue pr u =
     node_issue ''openproject_relation_collision''
       (''stored endpoint pair '' @ fst pr @ '':'' @ snd pr @ '' has incompatible semantics'')
       (snd u)"

definition stored_collision_issues ::
  "(endpoint_pair, relation_use list) dict \<Rightarrow> validation_issue list" where
  "stored_collision_issues stored =
     concat (map (\<lambda>(pr, uses). if length uses > 1 then map (collision_issue pr) uses else [])
       (sort_key fst stored))"

definition directed_uses ::
  "(endpoint_pair, relation_use list) dict \<Rightarrow> endpoint_pair \<Rightarrow> relation_use list" where
  "directed_uses stored pr =
     concat (map (\<lambda>(ends, uses). if ordered_pair (fst ends) (snd ends) = pr then uses else []) stored)"

definition symmetric_collision_issues ::
  "(endpoint_pair, relation_use list) dict \<Rightarrow> (endpoint_pair, relation_use list) dict
    \<Rightarrow> validation_issue list" where
  "symmetric_collision_issues stored symmetric =
     concat (map (\<lambda>(pr, uses).
         let directed = directed_uses stored pr in
         if directed \<noteq> [] then map (collision_issue pr) (uses @ directed) else [])
       (sort_key fst symmetric))"

section \<open>Item-level rules\<close>

text \<open>
  One reference of an item. A known target is a key of the plan, so the lookup
  \<^verbatim>\<open>plan.by_key[target]\<close> of the code cannot fail; its \<open>None\<close> branch is unreachable.
\<close>

definition reference_issues ::
  "backlog_plan \<Rightarrow> backlog_item \<Rightarrow> string \<times> string \<Rightarrow> validation_issue list" where
  "reference_issues p i = (\<lambda>(relation, target).
     if target \<notin> set (item_keys p)
     then [node_issue ''dangling_reference'' (relation @ '' references '' @ target) (bi_key i)]
     else
       (if target = bi_key i
        then [node_issue ''self_reference'' (relation @ '' cannot reference itself'') (bi_key i)] else [])
       @ (case dict_get (by_key p) target of
            None \<Rightarrow> []
          | Some ti \<Rightarrow>
              (if (relation = ''decision_required'' \<or> relation = ''decisions'') \<and> bi_type ti \<noteq> Decision
               then [node_issue ''invalid_decision_target''
                       (relation @ '' must reference a Decision item'') (bi_key i)] else [])
              @ (if relation = ''parent'' then
                   (if type_rank (bi_type ti) \<ge> type_rank (bi_type i)
                    then [node_issue ''meaningless_parent'' ''parent must be a broader work item''
                            (bi_key i)] else [])
                   @ (if bi_repository ti \<noteq> bi_repository i
                      then [node_issue ''cross_repository_parent''
                              ''parent must be in the same repository'' (bi_key i)] else [])
                 else if bi_repository ti \<noteq> bi_repository i \<and> \<not> bi_integration_work i
                 then [node_issue ''cross_repository_relation''
                         ''cross-repository relation requires integration_work'' (bi_key i)]
                 else [])))"

definition is_catch_all :: "string \<Rightarrow> bool" where
  "is_catch_all t =
     (py_strip (py_casefold t) \<in> {''other'', ''catch-all'', ''catch all'', ''miscellaneous''})"

definition traceability_issues :: "backlog_item \<Rightarrow> validation_issue list" where
  "traceability_issues i =
     (if is_executable (bi_type i)
         \<and> \<not> (bi_source_requirements i \<noteq> [] \<or> bi_maintenance_objectives i \<noteq> [])
      then [node_issue ''traceability'' ''executable item needs a requirement or maintenance objective''
              (bi_key i)] else [])
     @ concat (map (\<lambda>t. if is_catch_all t
          then [node_issue ''catch_all_traceability'' ''catch-all traceability is not allowed'' (bi_key i)]
          else []) (bi_source_requirements i @ bi_maintenance_objectives i))"

definition criterion_issues :: "backlog_item \<Rightarrow> acceptance_criterion \<Rightarrow> validation_issue list" where
  "criterion_issues i c =
     (if contains_vague (ac_observation c)
      then [node_issue ''unobservable_criterion'' ''observation must name an observable proof'' (bi_key i)]
      else [])
     @ (if py_in '' and '' (py_casefold (ac_criterion c))
        then [node_issue ''multi_outcome_criterion'' ''split acceptance criteria into one outcome'' (bi_key i)]
        else [])"

definition item_issues :: "backlog_plan \<Rightarrow> backlog_item \<Rightarrow> validation_issue list" where
  "item_issues p i =
     (if bi_repository i \<notin> set (map repo_name (plan_repositories (bp_plan p)))
      then [node_issue ''unknown_repository'' ''repository is not in plan.repositories'' (bi_key i)] else [])
     @ concat (map (reference_issues p i) (references i))
     @ traceability_issues i
     @ concat (map (criterion_issues i) (bi_acceptance_criteria i))
     @ (if bi_required_evidence i = []
        then [node_issue ''missing_evidence'' ''required evidence is mandatory'' (bi_key i)] else [])
     @ (if contains_vague (rp_expression (bi_result_predicate i))
        then [node_issue ''non_objective_predicate'' ''result predicate is not machine-checkable'' (bi_key i)]
        else [])
     @ (if list_ex (\<lambda>b. py_in '' '' (py_strip b)) (bi_blocked_by i)
        then [node_issue ''plain_text_blocker'' ''blocked_by only accepts node keys'' (bi_key i)] else [])
     @ (if estimate_str (bi_estimate i) \<notin> {''XS'', ''S'', ''M''}
        then [node_issue ''unsupported_estimate'' ''only XS, S, and M are supported'' (bi_key i)] else [])"

section \<open>The validator\<close>

definition cycle_issues :: "string \<Rightarrow> string \<Rightarrow> graph \<Rightarrow> exn + validation_issue list" where
  "cycle_issues code message edges =
     (case has_cycle edges of
        None \<Rightarrow> Inl (KeyError code)
      | Some found \<Rightarrow> Inr (if found then [issue code message] else []))"

definition validate_plan ::
  "(backlog_plan \<Rightarrow> string option) \<Rightarrow> backlog_plan \<Rightarrow> exn + validation_issue list" where
  "validate_plan schema_error p =
     (let keys = item_keys p;
          items = bp_items p;
          stored = group_pairs (stored_uses items);
          symmetric = group_pairs (symmetric_uses items);
          before_cycles =
            schema_issues schema_error p
            @ identity_issues p
            @ replan_issues keys (bp_plan p)
            @ duplicate_key_issues keys
            @ stored_collision_issues stored
            @ symmetric_collision_issues stored symmetric
            @ concat (map (item_issues p) items)
      in res_bind (cycle_issues ''parent_cycle'' ''parent hierarchy contains a cycle''
            (parent_edges keys items)) (\<lambda>parents.
         res_bind (cycle_issues ''dependency_cycle'' ''blocked_by graph contains a cycle''
            (dependency_edges keys items)) (\<lambda>dependencies.
         Inr (before_cycles @ parents @ dependencies))))"

text \<open>The call with \<^verbatim>\<open>raise_on_error=True\<close>; the message joins the issues.\<close>

definition issues_message :: "validation_issue list \<Rightarrow> string" where
  "issues_message is = py_join ''; '' (map (\<lambda>v. vi_code v @ '': '' @ vi_message v) is)"

definition validate_plan_or_raise ::
  "(backlog_plan \<Rightarrow> string option) \<Rightarrow> backlog_plan \<Rightarrow> exn + validation_issue list" where
  "validate_plan_or_raise schema_error p =
     res_bind (validate_plan schema_error p) (\<lambda>is.
       if is \<noteq> [] then Inl (SemanticValidationError (issues_message is)) else Inr is)"

end
