(* ===== verification/Envelope.thy ===== *)
theory Envelope
  imports Diff Validation
begin

text \<open>
  The checks \<^verbatim>\<open>src/planning_platform/publisher.py\<close> makes before anything is written: the
  immutable envelope against the artifact and the snapshot, the replan boundary, the
  publication target, and, before each effect, the operation's preconditions against the
  work package just read (\<^verbatim>\<open>_assert_current\<close>).
\<close>

section \<open>Data\<close>

record loaded_artifact =
  la_plan :: backlog_plan
  la_sha256 :: string
  la_blob_sha1 :: string

record publication_envelope =
  pe_approved_commit :: string
  pe_backlog_sha256 :: string
  pe_artifact_blob_sha1 :: string
  pe_approval_event_id :: string
  pe_snapshot_sha256 :: string
  pe_snapshot_etag :: string
  pe_trace_id :: string
  pe_publication_target_sha256 :: string
  pe_publication_identity :: string

record replan_context =
  rc_base_artifact :: loaded_artifact
  rc_base_approved_commit :: string
  rc_selected_root_keys :: "string list"
  rc_affected_node_keys :: "string list"

record publish_result =
  pr_operations :: "publication_operation list"
  pr_applied :: bool
  pr_resumed :: bool
  pr_applied_operations :: "publication_operation list"

section \<open>Envelope checks\<close>

definition check_artifact_envelope :: "loaded_artifact \<Rightarrow> publication_envelope \<Rightarrow> exn + unit" where
  "check_artifact_envelope a e =
     (let m = bp_plan (la_plan a); reference = plan_openproject_snapshot m in
      res_bind (raise_if (\<not> hex_of_length 40 (pe_approved_commit e))
        (PublicationRejected ''immutable envelope has an invalid approved commit'')) (\<lambda>_.
      res_bind (raise_if (\<not> hex_of_length 40 (pe_artifact_blob_sha1 e))
        (PublicationRejected ''immutable envelope has an invalid artifact blob SHA'')) (\<lambda>_.
      res_bind (raise_if (\<not> hex_of_length 64 (pe_backlog_sha256 e) \<or> pe_approval_event_id e = [])
        (PublicationRejected ''immutable envelope has invalid approval identity'')) (\<lambda>_.
      res_bind (raise_if (\<not> hex_of_length 64 (pe_publication_target_sha256 e))
        (PublicationRejected ''immutable envelope has an invalid publication target'')) (\<lambda>_.
      res_bind (raise_if (la_sha256 a \<noteq> pe_backlog_sha256 e)
        (PublicationRejected ''artifact SHA-256 does not match immutable envelope'')) (\<lambda>_.
      res_bind (raise_if (la_blob_sha1 a \<noteq> pe_artifact_blob_sha1 e)
        (PublicationRejected ''artifact blob SHA does not match immutable envelope'')) (\<lambda>_.
      res_bind (raise_if (plan_approved_planning_commit m \<noteq> None
            \<and> plan_approved_planning_commit m \<noteq> Some (pe_approved_commit e))
        (PublicationRejected ''approved commit does not match immutable envelope'')) (\<lambda>_.
      res_bind (raise_if (sr_sha256 reference \<noteq> pe_snapshot_sha256 e
            \<or> sr_etag reference \<noteq> pe_snapshot_etag e)
        (PublicationRejected ''plan snapshot does not match immutable envelope'')) (\<lambda>_.
      raise_if (pe_publication_identity e \<noteq> plan_publication_identity m)
        (PublicationRejected ''immutable envelope has an invalid plan publication identity''))))))))))"

definition check_publication_target :: "string \<Rightarrow> publication_envelope \<Rightarrow> exn + unit" where
  "check_publication_target adapter_target e =
     raise_if (adapter_target \<noteq> pe_publication_target_sha256 e)
       (PublicationRejected ''OpenProject publication target changed'')"

definition check_envelope :: "loaded_artifact \<Rightarrow> publication_envelope \<Rightarrow> snapshot \<Rightarrow> exn + unit" where
  "check_envelope a e sn =
     res_bind (check_artifact_envelope a e) (\<lambda>_.
     raise_if (sn_sha256 sn \<noteq> pe_snapshot_sha256 e \<or> sn_etag sn \<noteq> pe_snapshot_etag e)
       (PublicationRejected ''stale OpenProject snapshot''))"

text \<open>\<^verbatim>\<open>except ValueError as error: raise PublicationRejected(...)\<close>.\<close>

definition reject_value_errors :: "string \<Rightarrow> exn + 'a \<Rightarrow> exn + 'a" where
  "reject_value_errors message r =
     (case r of
        Inl e \<Rightarrow> if is_value_error e then Inl (PublicationRejected message) else Inl e
      | Inr x \<Rightarrow> Inr x)"

definition check_replan_boundary ::
  "(backlog_plan \<Rightarrow> string option) \<Rightarrow> loaded_artifact \<Rightarrow> replan_context option \<Rightarrow> exn + unit" where
  "check_replan_boundary schema_error a context =
     (case plan_replan (bp_plan (la_plan a)) of
        None \<Rightarrow> raise_if (context \<noteq> None)
          (PublicationRejected ''ordinary publication has unexpected replan context'')
      | Some scope \<Rightarrow>
          (case context of
             None \<Rightarrow> Inl (PublicationRejected
               ''partial replan publication requires its immutable published base artifact'')
           | Some c \<Rightarrow>
               res_bind (raise_if (\<not> hex_of_length 40 (rc_base_approved_commit c))
                 (PublicationRejected ''partial replan base has an invalid approved commit'')) (\<lambda>_.
               let base = la_plan (rc_base_artifact c);
                   embedded = plan_approved_planning_commit (bp_plan base)
               in res_bind (validate_plan schema_error base) (\<lambda>base_issues.
               res_bind (raise_if (base_issues \<noteq> [])
                 (PublicationRejected ''partial replan base artifact is semantically invalid'')) (\<lambda>_.
               res_bind (raise_if (embedded \<noteq> None \<and> embedded \<noteq> Some (rc_base_approved_commit c))
                 (PublicationRejected ''partial replan base approved commit does not match its artifact'')) (\<lambda>_.
               res_bind (raise_if (rs_selected_root_keys scope \<noteq> rc_selected_root_keys c
                     \<or> rs_affected_node_keys scope \<noteq> rc_affected_node_keys c)
                 (PublicationRejected
                   ''partial replan artifact changed its operator-authorized boundary'')) (\<lambda>_.
               reject_value_errors ''partial replan escaped its immutable published boundary''
                 (validate_replan_candidate base (la_plan a) (rc_base_approved_commit c)
                   (rc_selected_root_keys c) (rc_affected_node_keys c)))))))))"

section \<open>Preconditions against the current work package\<close>

text \<open>Truth value of \<^verbatim>\<open>conditions.get(key)\<close>.\<close>

fun py_truthy :: "pyval option \<Rightarrow> bool" where
  "py_truthy None = False"
| "py_truthy (Some PNone) = False"
| "py_truthy (Some (PBool b)) = b"
| "py_truthy (Some (PInt i)) = (i \<noteq> 0)"
| "py_truthy (Some (PStr s)) = (s \<noteq> [])"
| "py_truthy (Some (PList vs)) = (vs \<noteq> [])"
| "py_truthy (Some (PTuple vs)) = (vs \<noteq> [])"
| "py_truthy (Some (PDict kvs)) = (kvs \<noteq> [])"

text \<open>
  \<^verbatim>\<open>str(...)\<close> of a relation member. The members are strings; for the other scalars it is
  Python's text, and a container (which the code never writes there) is given its JSON text.
\<close>

fun py_str :: "pyval \<Rightarrow> string" where
  "py_str (PStr s) = s"
| "py_str (PInt i) = show_int i"
| "py_str (PBool b) = (if b then ''True'' else ''False'')"
| "py_str PNone = ''None''"
| "py_str v = dumps v"

text \<open>The members of a list or tuple of length two.\<close>

fun py_pair :: "pyval \<Rightarrow> (pyval \<times> pyval) option" where
  "py_pair (PList [a, b]) = Some (a, b)"
| "py_pair (PTuple [a, b]) = Some (a, b)"
| "py_pair v = None"

definition normalized_relation :: "pyval \<Rightarrow> managed_relation option" where
  "normalized_relation v =
     (case py_pair v of None \<Rightarrow> None
      | Some (t, target) \<Rightarrow>
          (case py_pair target of None \<Rightarrow> None
           | Some (a, b) \<Rightarrow> Some (py_str t, py_str a, py_str b)))"

text \<open>\<^verbatim>\<open>expected_parent\<close> after a list has been turned into a tuple, compared with the
  parent identity read from OpenProject.\<close>

fun list_to_tuple :: "pyval \<Rightarrow> pyval" where
  "list_to_tuple (PList vs) = PTuple vs"
| "list_to_tuple v = v"

definition actual_unmanaged :: "work_package \<Rightarrow> bool" where
  "actual_unmanaged w \<longleftrightarrow> wp_parent_id w \<noteq> None \<and> wp_parent_identity w = None"

text \<open>The part of \<^verbatim>\<open>_assert_current\<close> below the topology guard. The identity in the
  messages is left out.\<close>

definition assert_topology :: "pydict \<Rightarrow> work_package \<Rightarrow> exn + unit" where
  "assert_topology conditions w =
     (case dict_get conditions ''expected_parent_identity'' of
        None \<Rightarrow> Inr ()
      | Some expected_parent \<Rightarrow>
          (case (dict_get conditions ''expected_unmanaged_parent'',
                 dict_get conditions ''expected_managed_relations'') of
             (Some (PBool expected_unmanaged), Some (PList expected_relations)) \<Rightarrow>
               res_bind (raise_if
                   (list_to_tuple expected_parent \<noteq> py_opt_identity (wp_parent_identity w)
                    \<or> actual_unmanaged w \<noteq> expected_unmanaged)
                   (PublicationRejected ''parent topology changed'')) (\<lambda>_.
               let normalized = sort (List.map_filter normalized_relation expected_relations)
               in raise_if (length normalized \<noteq> length expected_relations
                     \<or> sort (wp_managed_relations w) \<noteq> normalized)
                    (PublicationRejected ''managed relation topology changed''))
           | _ \<Rightarrow> Inl (PublicationRejected ''topology precondition is malformed'')))"

definition assert_current :: "publication_operation \<Rightarrow> work_package option \<Rightarrow> exn + unit" where
  "assert_current x current =
     (let conditions = op_preconditions x;
          expected_hash = dict_get conditions ''expected_managed_hash''
      in res_bind (raise_if (py_truthy (dict_get conditions ''identity_absent'') \<and> current \<noteq> None)
           (PublicationRejected ''identity already exists'')) (\<lambda>_.
         res_bind (raise_if (py_truthy (dict_get conditions ''identity_resolved'') \<and> current = None)
           (PublicationRejected ''identity cannot be resolved'')) (\<lambda>_.
         case current of
           None \<Rightarrow> Inr ()
         | Some w \<Rightarrow>
             res_bind (raise_if
                 (expected_hash \<noteq> None \<and> expected_hash \<noteq> Some PNone
                   \<and> expected_hash \<noteq> Some (py_opt_str (wp_managed_hash w)))
                 (PublicationRejected ''managed state changed'')) (\<lambda>_.
             assert_topology conditions w))))"

end
