(* ===== verification/Actions.thy ===== *)
theory Actions
  imports Prelude
begin

text \<open>
  Stateful code that may raise: an action takes the state and returns a result with the new
  state, which also an exception leaves behind (the code has no rollback of its own). With
  it the rules of a small Hoare calculus, \<open>triple P m Q E\<close>: from a state with \<open>P\<close>, the
  action ends in \<open>Q\<close> of its value or, when it raises, in \<open>E\<close> of the exception.
\<close>

named_theorems triple_rules \<open>Hoare rules for actions\<close>

type_synonym ('s, 'a) action = "'s \<Rightarrow> (exn + 'a) \<times> 's"

definition act_return :: "'a \<Rightarrow> ('s, 'a) action" where
  "act_return x s = (Inr x, s)"

definition act_raise :: "exn \<Rightarrow> ('s, 'a) action" where
  "act_raise e s = (Inl e, s)"

definition act_lift :: "exn + 'a \<Rightarrow> ('s, 'a) action" where
  "act_lift r s = (r, s)"

definition act_bind :: "('s, 'a) action \<Rightarrow> ('a \<Rightarrow> ('s, 'b) action) \<Rightarrow> ('s, 'b) action" where
  "act_bind m f s = (case m s of (Inl e, s') \<Rightarrow> (Inl e, s') | (Inr x, s') \<Rightarrow> f x s')"

text \<open>\<^verbatim>\<open>try: m except Exception as e: h(e)\<close>.\<close>

definition act_catch :: "('s, 'a) action \<Rightarrow> (exn \<Rightarrow> ('s, 'a) action) \<Rightarrow> ('s, 'a) action" where
  "act_catch m h s = (case m s of (Inl e, s') \<Rightarrow> h e s' | (Inr x, s') \<Rightarrow> (Inr x, s'))"

text \<open>\<^verbatim>\<open>try: m finally: f\<close> for a finalizer that cannot raise.\<close>

definition act_finally :: "('s, 'a) action \<Rightarrow> ('s \<Rightarrow> 's) \<Rightarrow> ('s, 'a) action" where
  "act_finally m f s = (case m s of (r, s') \<Rightarrow> (r, f s'))"

text \<open>An action on one component of a pair of states.\<close>

definition on_fst :: "('s, 'a) action \<Rightarrow> ('s \<times> 't, 'a) action" where
  "on_fst m s = (case m (fst s) of (r, s') \<Rightarrow> (r, (s', snd s)))"

definition on_snd :: "('t, 'a) action \<Rightarrow> ('s \<times> 't, 'a) action" where
  "on_snd m s = (case m (snd s) of (r, s') \<Rightarrow> (r, (fst s, s')))"

section \<open>Hoare triples\<close>

definition triple ::
  "('s \<Rightarrow> bool) \<Rightarrow> ('s, 'a) action \<Rightarrow> ('a \<Rightarrow> 's \<Rightarrow> bool) \<Rightarrow> (exn \<Rightarrow> 's \<Rightarrow> bool) \<Rightarrow> bool" where
  "triple P m Q E \<longleftrightarrow>
     (\<forall>s r s'. P s \<longrightarrow> m s = (r, s') \<longrightarrow> (case r of Inl e \<Rightarrow> E e s' | Inr x \<Rightarrow> Q x s'))"

lemma tripleI:
  "(\<And>s x s'. P s \<Longrightarrow> m s = (Inr x, s') \<Longrightarrow> Q x s') \<Longrightarrow>
   (\<And>s e s'. P s \<Longrightarrow> m s = (Inl e, s') \<Longrightarrow> E e s') \<Longrightarrow> triple P m Q E"
  by (auto simp: triple_def split: sum.splits)

lemma triple_Inr: "triple P m Q E \<Longrightarrow> P s \<Longrightarrow> m s = (Inr x, s') \<Longrightarrow> Q x s'"
  by (fastforce simp: triple_def)

lemma triple_Inl: "triple P m Q E \<Longrightarrow> P s \<Longrightarrow> m s = (Inl e, s') \<Longrightarrow> E e s'"
  by (fastforce simp: triple_def)

lemma triple_weaken:
  assumes "triple P' m Q' E'" and "\<And>s. P s \<Longrightarrow> P' s"
    and "\<And>x s. Q' x s \<Longrightarrow> Q x s" and "\<And>e s. E' e s \<Longrightarrow> E e s"
  shows "triple P m Q E"
proof (rule tripleI)
  fix s x s'
  assume "P s" and m: "m s = (Inr x, s')"
  from triple_Inr [OF assms(1) assms(2) [OF this(1)] m] show "Q x s'" by (rule assms(3))
next
  fix s e s'
  assume "P s" and m: "m s = (Inl e, s')"
  from triple_Inl [OF assms(1) assms(2) [OF this(1)] m] show "E e s'" by (rule assms(4))
qed

lemma triple_return [triple_rules]: "(\<And>s. P s \<Longrightarrow> Q x s) \<Longrightarrow> triple P (act_return x) Q E"
  by (auto simp: triple_def act_return_def)

lemma triple_raise [triple_rules]: "(\<And>s. P s \<Longrightarrow> E e s) \<Longrightarrow> triple P (act_raise e) Q E"
  by (auto simp: triple_def act_raise_def)

lemma triple_lift:
  "(\<And>s x. P s \<Longrightarrow> r = Inr x \<Longrightarrow> Q x s) \<Longrightarrow> (\<And>s e. P s \<Longrightarrow> r = Inl e \<Longrightarrow> E e s) \<Longrightarrow>
   triple P (act_lift r) Q E"
  by (cases r) (auto simp: triple_def act_lift_def)

lemma triple_bind:
  assumes "triple P m R E" and "\<And>x. triple (R x) (f x) Q E"
  shows "triple P (act_bind m f) Q E"
proof (rule tripleI)
  fix s x s'
  assume P: "P s" and run: "act_bind m f s = (Inr x, s')"
  then obtain y t where m: "m s = (Inr y, t)" and f: "f y t = (Inr x, s')"
    by (auto simp: act_bind_def split: prod.splits sum.splits)
  from triple_Inr [OF assms(1) P m] show "Q x s'" by (rule triple_Inr [OF assms(2) _ f])
next
  fix s e s'
  assume P: "P s" and run: "act_bind m f s = (Inl e, s')"
  then consider "m s = (Inl e, s')" | y t where "m s = (Inr y, t)" "f y t = (Inl e, s')"
    by (auto simp: act_bind_def split: prod.splits sum.splits)
  then show "E e s'"
    by cases (use triple_Inl [OF assms(1) P] triple_Inr [OF assms(1) P] triple_Inl [OF assms(2)] in blast)+
qed

lemma triple_catch:
  assumes "triple P m Q R" and "\<And>e. triple (R e) (h e) Q E"
  shows "triple P (act_catch m h) Q E"
proof (rule tripleI)
  fix s x s'
  assume P: "P s" and run: "act_catch m h s = (Inr x, s')"
  then consider "m s = (Inr x, s')" | e t where "m s = (Inl e, t)" "h e t = (Inr x, s')"
    by (auto simp: act_catch_def split: prod.splits sum.splits)
  then show "Q x s'"
    by cases (use triple_Inr [OF assms(1) P] triple_Inl [OF assms(1) P] triple_Inr [OF assms(2)] in blast)+
next
  fix s e s'
  assume P: "P s" and run: "act_catch m h s = (Inl e, s')"
  then obtain y t where m: "m s = (Inl y, t)" and f: "h y t = (Inl e, s')"
    by (auto simp: act_catch_def split: prod.splits sum.splits)
  from triple_Inl [OF assms(1) P m] show "E e s'" by (rule triple_Inl [OF assms(2) _ f])
qed

lemma triple_finally:
  assumes "triple P m (\<lambda>x s. Q x (f s)) (\<lambda>e s. E e (f s))"
  shows "triple P (act_finally m f) Q E"
proof (rule tripleI)
  fix s x s'
  assume P: "P s" and run: "act_finally m f s = (Inr x, s')"
  then obtain t where "m s = (Inr x, t)" "s' = f t"
    by (auto simp: act_finally_def split: prod.splits)
  with triple_Inr [OF assms P] show "Q x s'" by blast
next
  fix s e s'
  assume P: "P s" and run: "act_finally m f s = (Inl e, s')"
  then obtain t where "m s = (Inl e, t)" "s' = f t"
    by (auto simp: act_finally_def split: prod.splits)
  with triple_Inl [OF assms P] show "E e s'" by blast
qed

lemma triple_on_fst:
  assumes "\<And>t. triple (\<lambda>s. P (s, t)) m (\<lambda>x s. Q x (s, t)) (\<lambda>e s. E e (s, t))"
  shows "triple P (on_fst m) Q E"
proof (rule tripleI)
  fix s x s'
  assume P: "P s" and run: "on_fst m s = (Inr x, s')"
  then obtain t where "m (fst s) = (Inr x, t)" "s' = (t, snd s)"
    by (auto simp: on_fst_def split: prod.splits)
  moreover have "P (fst s, snd s)" using P by simp
  ultimately show "Q x s'" using triple_Inr [OF assms [of "snd s"], of "fst s"] by simp
next
  fix s e s'
  assume P: "P s" and run: "on_fst m s = (Inl e, s')"
  then obtain t where "m (fst s) = (Inl e, t)" "s' = (t, snd s)"
    by (auto simp: on_fst_def split: prod.splits)
  moreover have "P (fst s, snd s)" using P by simp
  ultimately show "E e s'" using triple_Inl [OF assms [of "snd s"], of "fst s"] by simp
qed

lemma triple_on_snd:
  assumes "\<And>t. triple (\<lambda>s. P (t, s)) m (\<lambda>x s. Q x (t, s)) (\<lambda>e s. E e (t, s))"
  shows "triple P (on_snd m) Q E"
proof (rule tripleI)
  fix s x s'
  assume P: "P s" and run: "on_snd m s = (Inr x, s')"
  then obtain t where "m (snd s) = (Inr x, t)" "s' = (fst s, t)"
    by (auto simp: on_snd_def split: prod.splits)
  moreover have "P (fst s, snd s)" using P by simp
  ultimately show "Q x s'" using triple_Inr [OF assms [of "fst s"], of "snd s"] by simp
next
  fix s e s'
  assume P: "P s" and run: "on_snd m s = (Inl e, s')"
  then obtain t where "m (snd s) = (Inl e, t)" "s' = (fst s, t)"
    by (auto simp: on_snd_def split: prod.splits)
  moreover have "P (fst s, snd s)" using P by simp
  ultimately show "E e s'" using triple_Inl [OF assms [of "fst s"], of "snd s"] by simp
qed

lemma triple_conj_pure: "(C \<Longrightarrow> triple P m Q E) \<Longrightarrow> triple (\<lambda>s. C \<and> P s) m Q E"
  by (auto simp: triple_def)

end
