(* ===== verification/Journal.thy ===== *)
theory Journal
  imports Envelope Actions
begin

text \<open>
  The publication journal of \<^verbatim>\<open>src/planning_platform/publication_journal.py\<close>: the hashes
  that bind a run to its envelope and operations, and the in-memory journal. Operation states
  are the strings the code compares. A stored operation document is the operation after the
  JSONB round trip (\<open>jsonb_operation\<close>: tuples have become lists).
\<close>

section \<open>Hashes and scopes\<close>

definition is_plan_id_char :: "char \<Rightarrow> bool" where
  "is_plan_id_char c \<longleftrightarrow> is_lower_char c \<or> is_digit_char c \<or> c = CHR ''-''"

text \<open>\<^verbatim>\<open>^(?P<plan_id>[a-z0-9][a-z0-9-]{2,63}):v[1-9][0-9]*$\<close>; a plan identifier has no colon.\<close>

definition valid_plan_id :: "string \<Rightarrow> bool" where
  "valid_plan_id s \<longleftrightarrow> 3 \<le> length s \<and> length s \<le> 64 \<and> hd s \<noteq> CHR ''-'' \<and> list_all is_plan_id_char s"

definition valid_version_suffix :: "string \<Rightarrow> bool" where
  "valid_version_suffix s =
     (case s of
        c # v # d # ds \<Rightarrow> c = CHR '':'' \<and> v = CHR ''v'' \<and> is_digit_char d \<and> d \<noteq> CHR ''0''
          \<and> list_all is_digit_char ds
      | _ \<Rightarrow> False)"

definition publication_scope :: "string \<Rightarrow> exn + string" where
  "publication_scope publication_identity =
     (let head = takeWhile (\<lambda>c. c \<noteq> CHR '':'') publication_identity;
          suffix = dropWhile (\<lambda>c. c \<noteq> CHR '':'') publication_identity
      in if valid_plan_id head \<and> valid_version_suffix suffix then Inr head
         else Inl (PublicationJournalMismatch ''plan publication identity is invalid''))"

definition envelope_asdict :: "publication_envelope \<Rightarrow> pyval" where
  "envelope_asdict e = PDict
     [(''approved_commit'', PStr (pe_approved_commit e)),
      (''backlog_sha256'', PStr (pe_backlog_sha256 e)),
      (''artifact_blob_sha1'', PStr (pe_artifact_blob_sha1 e)),
      (''approval_event_id'', PStr (pe_approval_event_id e)),
      (''snapshot_sha256'', PStr (pe_snapshot_sha256 e)),
      (''snapshot_etag'', PStr (pe_snapshot_etag e)),
      (''trace_id'', PStr (pe_trace_id e)),
      (''publication_target_sha256'', PStr (pe_publication_target_sha256 e)),
      (''publication_identity'', PStr (pe_publication_identity e))]"

definition envelope_hash :: "(string \<Rightarrow> string) \<Rightarrow> publication_envelope \<Rightarrow> string" where
  "envelope_hash sha e = sha (dumps (envelope_asdict e))"

definition operation_asdict :: "publication_operation \<Rightarrow> pyval" where
  "operation_asdict x = PDict
     [(''operation_id'', PStr (op_id x)),
      (''kind'', PStr (op_kind_str (op_kind_of x))),
      (''identity'', py_identity (op_identity x)),
      (''preconditions'', PDict (op_preconditions x)),
      (''managed_before_hash'', py_opt_str (op_managed_before_hash x)),
      (''managed_after_hash'', py_opt_str (op_managed_after_hash x)),
      (''trace_id'', PStr (op_trace_id x)),
      (''payload'', PDict (op_payload x))]"

definition operation_hash :: "(string \<Rightarrow> string) \<Rightarrow> publication_operation \<Rightarrow> string" where
  "operation_hash sha x = sha (dumps (operation_asdict x))"

text \<open>The stored document, and \<^verbatim>\<open>_restored_operation\<close>: the two endpoint keys become tuples again.\<close>

definition untuple_dict :: "pydict \<Rightarrow> pydict" where
  "untuple_dict d = map (\<lambda>(k, v). (k, untuple v)) d"

definition jsonb_operation :: "publication_operation \<Rightarrow> publication_operation" where
  "jsonb_operation x = x\<lparr>op_preconditions := untuple_dict (op_preconditions x),
                         op_payload := untuple_dict (op_payload x)\<rparr>"

definition retuple_key :: "string \<Rightarrow> pydict \<Rightarrow> pydict" where
  "retuple_key key d =
     (case dict_get d key of
        Some (PList vs) \<Rightarrow> dict_set key (PTuple vs) d
      | _ \<Rightarrow> d)"

definition restored_dict :: "pydict \<Rightarrow> pydict" where
  "restored_dict d = retuple_key ''target_identity'' (retuple_key ''parent_identity'' d)"

definition restored_operation :: "publication_operation \<Rightarrow> publication_operation" where
  "restored_operation x = x\<lparr>op_preconditions := restored_dict (op_preconditions x),
                            op_payload := restored_dict (op_payload x)\<rparr>"

section \<open>The in-memory journal\<close>

type_synonym op_states = "(string, string) dict"

record mem_journal =
  mj_runs :: "(string, string \<times> publication_operation list \<times> op_states) dict"
  mj_active :: string

definition applied_ids :: "op_states \<Rightarrow> string list" where
  "applied_ids states = map fst (filter (\<lambda>(k, st). st = ''applied'') states)"

definition mem_init :: mem_journal where
  "mem_init = \<lparr>mj_runs = [], mj_active = []\<rparr>"

definition mem_ready :: "mem_journal \<Rightarrow> bool" where
  "mem_ready j = True"

definition mem_resume ::
  "(string \<Rightarrow> string) \<Rightarrow> publication_envelope
    \<Rightarrow> (mem_journal, (publication_operation list \<times> string list) option) action" where
  "mem_resume sha e j =
     (case dict_get (mj_runs j) (pe_approval_event_id e) of
        None \<Rightarrow> (Inr None, j)
      | Some (digest, ops, states) \<Rightarrow>
          if digest \<noteq> envelope_hash sha e
          then (Inl (PublicationJournalMismatch
                  ''publication approval event has a different immutable envelope''), j)
          else (Inr (Some (ops, applied_ids states)), j\<lparr>mj_active := pe_approval_event_id e\<rparr>))"

definition mem_begin ::
  "(string \<Rightarrow> string) \<Rightarrow> publication_envelope \<Rightarrow> publication_operation list
    \<Rightarrow> (mem_journal, publication_operation list \<times> string list) action" where
  "mem_begin sha e ops j =
     (let key = pe_approval_event_id e; digest = envelope_hash sha e in
      case dict_get (mj_runs j) key of
        Some (recorded_digest, recorded, states) \<Rightarrow>
          if recorded_digest \<noteq> digest
          then (Inl (PublicationJournalMismatch
                  ''publication approval event has a different immutable envelope''), j)
          else (Inr (recorded, applied_ids states), j\<lparr>mj_active := key\<rparr>)
      | None \<Rightarrow>
          (Inr (ops, []),
           j\<lparr>mj_runs := dict_set key (digest, ops, dict_of op_id (\<lambda>_. ''planned'') ops) (mj_runs j),
             mj_active := key\<rparr>))"

text \<open>The three state changes share one shape: the run of the active event, a set of states
  they start from, and the state they write.\<close>

definition mem_transition ::
  "string list \<Rightarrow> string \<Rightarrow> string \<Rightarrow> publication_operation \<Rightarrow> (mem_journal, unit) action" where
  "mem_transition from_states to_state message x j =
     (case dict_get (mj_runs j) (mj_active j) of
        None \<Rightarrow> (Inl (KeyError (mj_active j)), j)
      | Some (digest, ops, states) \<Rightarrow>
          (case dict_get states (op_id x) of
             None \<Rightarrow> (Inl (PublicationJournalMismatch message), j)
           | Some st \<Rightarrow>
               if st \<notin> set from_states then (Inl (PublicationJournalMismatch message), j)
               else (Inr (), j\<lparr>mj_runs := dict_set (mj_active j)
                       (digest, ops, dict_set (op_id x) to_state states) (mj_runs j)\<rparr>)))"

definition failure_state :: "exn \<Rightarrow> string" where
  "failure_state e = (case e of AmbiguousPublicationEffect _ \<Rightarrow> ''ambiguous'' | _ \<Rightarrow> ''retryable'')"

definition mem_intent :: "publication_operation \<Rightarrow> (mem_journal, unit) action" where
  "mem_intent = mem_transition [''planned'', ''retryable''] ''intent''
     ''invalid operation state transition to intent''"

definition mem_outcome :: "publication_operation \<Rightarrow> string \<Rightarrow> (mem_journal, unit) action" where
  "mem_outcome x result = mem_transition [''intent'', ''retryable'', ''ambiguous''] ''applied''
     ''invalid operation state transition to applied'' x"

definition mem_failure :: "publication_operation \<Rightarrow> exn \<Rightarrow> (mem_journal, unit) action" where
  "mem_failure x e = mem_transition [''intent''] (failure_state e)
     ''invalid operation state transition to failure'' x"

definition mem_state :: "publication_operation \<Rightarrow> (mem_journal, string) action" where
  "mem_state x j =
     (case dict_get (mj_runs j) (mj_active j) of
        None \<Rightarrow> (Inl (PublicationJournalMismatch ''publication operation is not active''), j)
      | Some (digest, ops, states) \<Rightarrow>
          (case dict_get states (op_id x) of
             None \<Rightarrow> (Inl (PublicationJournalMismatch ''publication operation is not active''), j)
           | Some st \<Rightarrow> (Inr st, j)))"

definition mem_finalize :: "(mem_journal, unit) action" where
  "mem_finalize j = (Inr (), j)"

definition mem_close :: "mem_journal \<Rightarrow> mem_journal" where
  "mem_close j = j\<lparr>mj_active := []\<rparr>"

section \<open>The PublicationJournal protocol\<close>

text \<open>
  The methods of the \<^verbatim>\<open>PublicationJournal\<close> protocol, and the contract the publisher
  relies on. \<open>status j event i\<close> is the recorded state of operation \<open>i\<close> of a run, \<open>active\<close> the
  event the instance works on. Resuming, reading, finalizing and closing change no state;
  beginning only adds planned operations; each state change happens from the states the code
  lists and is the only change; a refused call changes nothing.
\<close>

record 'j journal_ops =
  jo_ready :: "'j \<Rightarrow> bool"
  jo_resume :: "publication_envelope \<Rightarrow> ('j, (publication_operation list \<times> string list) option) action"
  jo_begin :: "publication_envelope \<Rightarrow> publication_operation list
    \<Rightarrow> ('j, publication_operation list \<times> string list) action"
  jo_intent :: "publication_operation \<Rightarrow> ('j, unit) action"
  jo_outcome :: "publication_operation \<Rightarrow> string \<Rightarrow> ('j, unit) action"
  jo_failure :: "publication_operation \<Rightarrow> exn \<Rightarrow> ('j, unit) action"
  jo_state :: "publication_operation \<Rightarrow> ('j, string) action"
  jo_finalize :: "('j, unit) action"
  jo_close :: "'j \<Rightarrow> 'j"

type_synonym run_states = "string \<Rightarrow> string \<Rightarrow> string option"

definition set_state :: "run_states \<Rightarrow> string \<Rightarrow> string \<Rightarrow> string \<Rightarrow> run_states" where
  "set_state f event i st = f(event := (f event)(i \<mapsto> st))"

lemma set_state_apply [simp]:
  "set_state f event i st ev k = (if ev = event \<and> k = i then Some st else f ev k)"
  by (simp add: set_state_def)

text \<open>What one state change does to the recorded states.\<close>

definition transition_effect ::
  "string set \<Rightarrow> string \<Rightarrow> run_states \<Rightarrow> string \<Rightarrow> string \<Rightarrow> exn + unit \<Rightarrow> run_states \<Rightarrow> bool" where
  "transition_effect from_states to_state f event i r f' \<longleftrightarrow>
     (case r of
        Inl e \<Rightarrow> f' = f
      | Inr u \<Rightarrow> (\<exists>st. f event i = Some st \<and> st \<in> from_states) \<and> f' = set_state f event i to_state)"

locale publication_journal =
  fixes J :: "'j journal_ops"
    and status :: "'j \<Rightarrow> run_states"
    and active :: "'j \<Rightarrow> string"
    and inv :: "'j \<Rightarrow> bool"
  assumes resume_law: "inv j \<Longrightarrow> jo_resume J e j = (resumed, j') \<Longrightarrow>
      inv j' \<and> status j' = status j \<and>
      (\<forall>ops completed. resumed = Inr (Some (ops, completed)) \<longrightarrow>
         active j' = pe_approval_event_id e \<and>
         (\<forall>x \<in> set ops. op_id x \<in> set completed \<longleftrightarrow>
            status j (pe_approval_event_id e) (op_id x) = Some ''applied''))"
    and begin_law: "inv j \<Longrightarrow> jo_begin J e ops j = (begun, j') \<Longrightarrow>
      inv j' \<and>
      (\<forall>ev i. status j' ev i = status j ev i \<or>
         (ev = pe_approval_event_id e \<and> status j ev i = None \<and> status j' ev i = Some ''planned'')) \<and>
      (\<forall>ops' completed. begun = Inr (ops', completed) \<longrightarrow>
         active j' = pe_approval_event_id e \<and>
         (\<forall>x \<in> set ops'. op_id x \<in> set completed \<longleftrightarrow>
            status j' (pe_approval_event_id e) (op_id x) = Some ''applied''))"
    and intent_law: "inv j \<Longrightarrow> jo_intent J x j = (r, j') \<Longrightarrow>
      inv j' \<and> active j' = active j \<and>
      transition_effect {''planned'', ''retryable''} ''intent'' (status j) (active j) (op_id x) r (status j')"
    and outcome_law: "inv j \<Longrightarrow> jo_outcome J x res j = (r, j') \<Longrightarrow>
      inv j' \<and> active j' = active j \<and>
      transition_effect {''intent'', ''retryable'', ''ambiguous''} ''applied''
        (status j) (active j) (op_id x) r (status j')"
    and failure_law: "inv j \<Longrightarrow> jo_failure J x ex j = (r, j') \<Longrightarrow>
      inv j' \<and> active j' = active j \<and>
      transition_effect {''intent''} (failure_state ex) (status j) (active j) (op_id x) r (status j')"
    and state_law: "inv j \<Longrightarrow> jo_state J x j = (st_r, j') \<Longrightarrow>
      j' = j \<and> (\<forall>st. st_r = Inr st \<longrightarrow> status j (active j) (op_id x) = Some st)"
    and finalize_law: "inv j \<Longrightarrow> jo_finalize J j = (r, j') \<Longrightarrow> inv j' \<and> status j' = status j"
    and close_law: "inv j \<Longrightarrow> inv (jo_close J j) \<and> status (jo_close J j) = status j"

section \<open>The in-memory journal keeps the contract\<close>

definition mem_ops :: "(string \<Rightarrow> string) \<Rightarrow> mem_journal journal_ops" where
  "mem_ops sha = \<lparr>jo_ready = mem_ready, jo_resume = mem_resume sha, jo_begin = mem_begin sha,
     jo_intent = mem_intent, jo_outcome = mem_outcome, jo_failure = mem_failure,
     jo_state = mem_state, jo_finalize = mem_finalize, jo_close = mem_close\<rparr>"

definition mem_status :: "mem_journal \<Rightarrow> run_states" where
  "mem_status j event i =
     (case dict_get (mj_runs j) event of None \<Rightarrow> None | Some (digest, ops, states) \<Rightarrow> dict_get states i)"

definition mem_inv :: "mem_journal \<Rightarrow> bool" where
  "mem_inv j \<longleftrightarrow> (\<forall>event digest ops states.
     dict_get (mj_runs j) event = Some (digest, ops, states) \<longrightarrow> distinct (dict_keys states))"

lemma set_applied_ids:
  "distinct (dict_keys states) \<Longrightarrow> k \<in> set (applied_ids states) \<longleftrightarrow> dict_get states k = Some ''applied''"
  by (force simp: applied_ids_def)

lemma mem_transition_law:
  assumes "mem_inv j" and "mem_transition from_states to_state message x j = (r, j')"
  shows "mem_inv j' \<and> mj_active j' = mj_active j \<and>
    transition_effect (set from_states) to_state (mem_status j) (mj_active j) (op_id x) r (mem_status j')"
  using assms
  by (auto simp: mem_transition_def mem_inv_def mem_status_def transition_effect_def set_state_def
      fun_eq_iff dict_simps distinct_dict_set split: option.splits if_splits)

lemma dict_get_dict_of_const:
  "dict_get (dict_of f (\<lambda>_. c) xs) k = (if k \<in> f ` set xs then Some c else None)"
proof (cases "dict_get (dict_of f (\<lambda>_. c) xs) k")
  case None
  then show ?thesis by (auto simp: dict_get_None dict_simps)
next
  case (Some v)
  then show ?thesis using dict_get_dict_of_Some [OF Some] by auto
qed

interpretation mem: publication_journal "mem_ops sha" mem_status mj_active mem_inv for sha
proof unfold_locales
  fix j e r j'
  assume "mem_inv j" "jo_resume (mem_ops sha) e j = (r, j')"
  then show "mem_inv j' \<and> mem_status j' = mem_status j \<and>
      (\<forall>ops completed. r = Inr (Some (ops, completed)) \<longrightarrow>
         mj_active j' = pe_approval_event_id e \<and>
         (\<forall>x \<in> set ops. op_id x \<in> set completed \<longleftrightarrow>
            mem_status j (pe_approval_event_id e) (op_id x) = Some ''applied''))"
    by (auto simp: mem_ops_def mem_resume_def mem_inv_def mem_status_def fun_eq_iff set_applied_ids
        split: option.splits if_splits)
next
  fix j e ops r j'
  assume "mem_inv j" "jo_begin (mem_ops sha) e ops j = (r, j')"
  then show "mem_inv j' \<and>
      (\<forall>ev i. mem_status j' ev i = mem_status j ev i \<or>
         (ev = pe_approval_event_id e \<and> mem_status j ev i = None \<and> mem_status j' ev i = Some ''planned'')) \<and>
      (\<forall>ops' completed. r = Inr (ops', completed) \<longrightarrow>
         mj_active j' = pe_approval_event_id e \<and>
         (\<forall>x \<in> set ops'. op_id x \<in> set completed \<longleftrightarrow>
            mem_status j' (pe_approval_event_id e) (op_id x) = Some ''applied''))"
    by (auto simp: mem_ops_def mem_begin_def mem_inv_def mem_status_def set_applied_ids Let_def
        dict_simps distinct_dict_of dict_get_dict_of_const split: option.splits if_splits)
next
  fix j x r j'
  assume "mem_inv j" "jo_intent (mem_ops sha) x j = (r, j')"
  then show "mem_inv j' \<and> mj_active j' = mj_active j \<and> transition_effect {''planned'', ''retryable''}
      ''intent'' (mem_status j) (mj_active j) (op_id x) r (mem_status j')"
    using mem_transition_law [of j "[''planned'', ''retryable'']"] by (simp add: mem_ops_def mem_intent_def)
next
  fix j x res r j'
  assume "mem_inv j" "jo_outcome (mem_ops sha) x res j = (r, j')"
  then show "mem_inv j' \<and> mj_active j' = mj_active j \<and> transition_effect {''intent'', ''retryable'', ''ambiguous''}
      ''applied'' (mem_status j) (mj_active j) (op_id x) r (mem_status j')"
    using mem_transition_law [of j "[''intent'', ''retryable'', ''ambiguous'']"]
    by (simp add: mem_ops_def mem_outcome_def)
next
  fix j x ex r j'
  assume "mem_inv j" "jo_failure (mem_ops sha) x ex j = (r, j')"
  then show "mem_inv j' \<and> mj_active j' = mj_active j \<and> transition_effect {''intent''}
      (failure_state ex) (mem_status j) (mj_active j) (op_id x) r (mem_status j')"
    using mem_transition_law [of j "[''intent'']"] by (simp add: mem_ops_def mem_failure_def)
next
  fix j x r j'
  assume "mem_inv j" "jo_state (mem_ops sha) x j = (r, j')"
  then show "j' = j \<and> (\<forall>st. r = Inr st \<longrightarrow> mem_status j (mj_active j) (op_id x) = Some st)"
    by (auto simp: mem_ops_def mem_state_def mem_status_def split: option.splits)
qed (auto simp: mem_ops_def mem_finalize_def mem_close_def mem_inv_def mem_status_def fun_eq_iff)

section \<open>Hashes survive the JSONB round trip\<close>

lemma dumps_untuple_dict: "map (\<lambda>(k, v). (k, dumps v)) (untuple_dict d) = map (\<lambda>(k, v). (k, dumps v)) d"
  by (auto simp: untuple_dict_def)

lemma map_dumps_retuple:
  "map (\<lambda>(k, v). (k, dumps v)) (retuple_key key d) = map (\<lambda>(k, v). (k, dumps v)) d"
proof -
  have "map (\<lambda>(k, v). (k, dumps v)) (dict_set key (PTuple vs) d) = map (\<lambda>(k, v). (k, dumps v)) d"
    if "dict_get d key = Some (PList vs)" for vs
    using that by (induction d) auto
  then show ?thesis
    by (auto simp: retuple_key_def split: option.splits pyval.splits)
qed

lemma dumps_restored_dict: "dumps (PDict (restored_dict (untuple_dict d))) = dumps (PDict d)"
  by (simp add: restored_dict_def map_dumps_retuple dumps_untuple_dict del: map_map)

lemma op_id_restored [simp]: "op_id (restored_operation x) = op_id x" "op_id (jsonb_operation x) = op_id x"
  by (simp_all add: restored_operation_def jsonb_operation_def)

lemma operation_hash_restored [simp]:
  "operation_hash sha (restored_operation (jsonb_operation x)) = operation_hash sha x"
proof -
  have eq: "dumps (PDict (restored_dict (untuple_dict d))) = dumps (PDict d)" for d
    by (rule dumps_restored_dict)
  show ?thesis
    unfolding operation_hash_def operation_asdict_def restored_operation_def jsonb_operation_def
    by (simp add: eq del: dumps.simps(7) add: dumps.simps(7) [of "(''operation_id'', PStr (op_id x)) # ds" for ds])
qed

end
