(* ===== verification/Publisher.thy ===== *)
theory Publisher
  imports Journal
begin

text \<open>
  \<^verbatim>\<open>publish\<close> and \<^verbatim>\<open>_publish\<close> of \<^verbatim>\<open>src/planning_platform/publisher.py\<close>
  over any journal and any adapter: an action on the pair of their states. The safety lemmas
  are proved in the locale \<open>publishing\<close>, from the contracts of the two protocols alone.
\<close>

section \<open>The PublicationAdapter protocol\<close>

record 'a adapter_ops =
  ao_target :: "'a \<Rightarrow> string"
  ao_snapshot :: "('a, snapshot) action"
  ao_resolve :: "identity \<Rightarrow> ('a, work_package option) action"
  ao_apply :: "publication_operation \<Rightarrow> string \<Rightarrow> work_package option \<Rightarrow> ('a, unit) action"
  ao_postcondition :: "publication_operation \<Rightarrow> ('a, bool) action"

text \<open>
  The contract: only \<^verbatim>\<open>apply\<close> has effects, and one call has at most the one effect of
  its operation. \<open>sent\<close> lists the identifiers of the effects so far.
\<close>

locale publication_adapter =
  fixes A :: "'a adapter_ops"
    and sent :: "'a \<Rightarrow> string list"
  assumes snapshot_law: "ao_snapshot A a = (sn, a') \<Longrightarrow> sent a' = sent a"
    and resolve_law: "ao_resolve A ident a = (found, a') \<Longrightarrow> sent a' = sent a"
    and postcondition_law: "ao_postcondition A x a = (holds, a') \<Longrightarrow> sent a' = sent a"
    and apply_law: "ao_apply A x key current a = (r, a') \<Longrightarrow>
      sent a' = sent a \<or> sent a' = sent a @ [op_id x]"

section \<open>publish\<close>

text \<open>One effect: read, check the preconditions, record the intent, apply, record the outcome.\<close>

definition execute_operation ::
  "'j journal_ops \<Rightarrow> 'a adapter_ops \<Rightarrow> string \<Rightarrow> publication_operation \<Rightarrow> ('j \<times> 'a, unit) action" where
  "execute_operation J A result x =
     act_bind (if op_kind_of x = RecordAudit then act_return None
               else on_snd (ao_resolve A (op_identity x))) (\<lambda>current.
     act_bind (act_lift (assert_current x current)) (\<lambda>_.
     act_bind (on_fst (jo_intent J x)) (\<lambda>_.
     act_bind (act_catch (on_snd (ao_apply A x (op_id x) current))
                 (\<lambda>e. act_bind (on_fst (jo_failure J x e)) (\<lambda>_. act_raise e))) (\<lambda>_.
     on_fst (jo_outcome J x result)))))"

text \<open>An operation found on record as attempted: only its observed postcondition recovers it.\<close>

definition recover_operation ::
  "'j journal_ops \<Rightarrow> 'a adapter_ops \<Rightarrow> publication_operation \<Rightarrow> string \<Rightarrow> ('j \<times> 'a, bool) action" where
  "recover_operation J A x st =
     act_bind (on_snd (ao_postcondition A x)) (\<lambda>holds.
       if holds then act_bind (on_fst (jo_outcome J x ''recovered'')) (\<lambda>_. act_return False)
       else act_bind
         (if st = ''intent''
          then on_fst (jo_failure J x (AmbiguousPublicationEffect
                 ''interrupted publication intent has no confirmed postcondition''))
          else act_return ())
         (\<lambda>_. act_raise (PublicationRejected ''publication operation remains ambiguous'')))"

text \<open>An operation of a resumed run; the value tells whether it was applied now.\<close>

definition resume_operation ::
  "'j journal_ops \<Rightarrow> 'a adapter_ops \<Rightarrow> string list \<Rightarrow> publication_operation \<Rightarrow> ('j \<times> 'a, bool) action" where
  "resume_operation J A completed x =
     (if op_id x \<in> set completed then act_return False
      else act_bind (on_fst (jo_state J x)) (\<lambda>st.
        if st = ''intent'' \<or> st = ''ambiguous'' then recover_operation J A x st
        else act_bind (execute_operation J A ''recovered'' x) (\<lambda>_. act_return True)))"

definition begin_operation ::
  "'j journal_ops \<Rightarrow> 'a adapter_ops \<Rightarrow> string list \<Rightarrow> publication_operation \<Rightarrow> ('j \<times> 'a, bool) action" where
  "begin_operation J A completed x =
     (if op_id x \<in> set completed then act_return False
      else act_bind (execute_operation J A ''applied'' x) (\<lambda>_. act_return True))"

text \<open>The loops, with the list of operations applied.\<close>

fun act_collect :: "('x \<Rightarrow> ('s, bool) action) \<Rightarrow> 'x list \<Rightarrow> ('s, 'x list) action" where
  "act_collect f [] = act_return []"
| "act_collect f (x # xs) = act_bind (f x) (\<lambda>now.
     act_bind (act_collect f xs) (\<lambda>rest. act_return (if now then x # rest else rest)))"

text \<open>The checks before the journal is touched.\<close>

definition publication_checks ::
  "(backlog_plan \<Rightarrow> string option) \<Rightarrow> 'a adapter_ops \<Rightarrow> loaded_artifact \<Rightarrow> publication_envelope
    \<Rightarrow> replan_context option \<Rightarrow> 'a \<Rightarrow> exn + unit" where
  "publication_checks schema_error A artifact envelope context a =
     res_bind (validate_plan schema_error (la_plan artifact)) (\<lambda>issues.
     res_bind (raise_if (issues \<noteq> []) (SemanticValidationError ''semantic validation failed'')) (\<lambda>_.
     res_bind (check_artifact_envelope artifact envelope) (\<lambda>_.
     res_bind (check_replan_boundary schema_error artifact context) (\<lambda>_.
     check_publication_target (ao_target A a) envelope))))"

definition resume_run ::
  "'j journal_ops \<Rightarrow> 'a adapter_ops \<Rightarrow> publication_operation list \<Rightarrow> string list
    \<Rightarrow> ('j \<times> 'a, publish_result) action" where
  "resume_run J A recorded completed =
     act_bind (act_collect (resume_operation J A completed) recorded) (\<lambda>applied.
     act_bind (on_fst (jo_finalize J)) (\<lambda>_.
     act_return \<lparr>pr_operations = recorded, pr_applied = True, pr_resumed = True,
                 pr_applied_operations = applied\<rparr>))"

text \<open>The rest of \<^verbatim>\<open>_publish\<close>, from the snapshot on.\<close>

definition fresh_operations ::
  "(string \<Rightarrow> string) \<Rightarrow> 'a adapter_ops \<Rightarrow> loaded_artifact \<Rightarrow> publication_envelope
    \<Rightarrow> ('a, publication_operation list) action" where
  "fresh_operations sha A artifact envelope =
     act_bind (ao_snapshot A) (\<lambda>sn.
     act_bind (act_lift (check_envelope artifact envelope sn)) (\<lambda>_.
     act_lift (plan_diff sha (with_approved_commit (la_plan artifact) (pe_approved_commit envelope))
       sn (pe_trace_id envelope))))"

definition begin_run ::
  "'j journal_ops \<Rightarrow> 'a adapter_ops \<Rightarrow> publication_envelope \<Rightarrow> publication_operation list
    \<Rightarrow> ('j \<times> 'a, publish_result) action" where
  "begin_run J A envelope operations =
     act_bind (on_fst (jo_begin J envelope operations)) (\<lambda>(recorded, completed).
     act_bind (act_collect (begin_operation J A completed) recorded) (\<lambda>applied.
     act_bind (on_fst (jo_finalize J)) (\<lambda>_.
     act_return \<lparr>pr_operations = recorded, pr_applied = True, pr_resumed = False,
                 pr_applied_operations = applied\<rparr>)))"

definition publish_apply ::
  "(string \<Rightarrow> string) \<Rightarrow> 'j journal_ops \<Rightarrow> 'a adapter_ops \<Rightarrow> loaded_artifact \<Rightarrow> publication_envelope
    \<Rightarrow> ('j \<times> 'a, publish_result) action" where
  "publish_apply sha J A artifact envelope s =
     (if \<not> jo_ready J (fst s)
      then (Inl (PublicationRejected ''apply requires a ready durable publication journal''), s)
      else act_bind
        (act_catch (on_fst (jo_resume J envelope)) (\<lambda>e.
           act_raise (if is_value_error e then PublicationRejected (exn_message e) else e)))
        (\<lambda>resumed. case resumed of
           Some (recorded, completed) \<Rightarrow> resume_run J A recorded completed
         | None \<Rightarrow> act_bind (on_snd (fresh_operations sha A artifact envelope)) (begin_run J A envelope)) s)"

definition publish_body ::
  "(string \<Rightarrow> string) \<Rightarrow> (backlog_plan \<Rightarrow> string option) \<Rightarrow> 'j journal_ops option \<Rightarrow> 'a adapter_ops
    \<Rightarrow> loaded_artifact \<Rightarrow> publication_envelope \<Rightarrow> bool \<Rightarrow> replan_context option
    \<Rightarrow> ('j \<times> 'a, publish_result) action" where
  "publish_body sha schema_error journal A artifact envelope apply context =
     act_bind (\<lambda>s. (publication_checks schema_error A artifact envelope context (snd s), s)) (\<lambda>_.
     if apply then
       (case journal of
          None \<Rightarrow> act_raise (PublicationRejected ''apply requires a ready durable publication journal'')
        | Some J \<Rightarrow> publish_apply sha J A artifact envelope)
     else act_bind (on_snd (fresh_operations sha A artifact envelope)) (\<lambda>operations.
       act_return \<lparr>pr_operations = operations, pr_applied = False, pr_resumed = False,
                   pr_applied_operations = []\<rparr>))"

definition publish ::
  "(string \<Rightarrow> string) \<Rightarrow> (backlog_plan \<Rightarrow> string option) \<Rightarrow> 'j journal_ops option \<Rightarrow> 'a adapter_ops
    \<Rightarrow> loaded_artifact \<Rightarrow> publication_envelope \<Rightarrow> bool \<Rightarrow> replan_context option
    \<Rightarrow> ('j \<times> 'a, publish_result) action" where
  "publish sha schema_error journal A artifact envelope apply context =
     act_finally (publish_body sha schema_error journal A artifact envelope apply context)
       (\<lambda>(j, a). (case journal of None \<Rightarrow> j | Some J \<Rightarrow> jo_close J j, a))"

section \<open>Progress of a run\<close>

text \<open>
  \<open>progress f0 s0 event busy f s\<close>: since the states \<open>f0\<close> and effects \<open>s0\<close>, the effects grew
  by distinct identifiers, none of them applied, attempted or ambiguous before; each has now
  been applied, or (only those in \<open>busy\<close>) its attempt is on record. What was applied stays
  applied, what was attempted is never planned again, and other events are untouched.
\<close>

definition attempted :: "string set" where
  "attempted = {''intent'', ''ambiguous'', ''retryable'', ''applied''}"

definition unsettled :: "string set" where
  "unsettled = {''intent'', ''ambiguous''}"

definition is_unsettled :: "string option \<Rightarrow> bool" where
  "is_unsettled st \<longleftrightarrow> (case st of None \<Rightarrow> False | Some s \<Rightarrow> s \<in> unsettled)"

definition progress ::
  "run_states \<Rightarrow> string list \<Rightarrow> string \<Rightarrow> string set \<Rightarrow> run_states \<Rightarrow> string list \<Rightarrow> bool" where
  "progress f0 s0 event busy f s \<longleftrightarrow>
     (\<exists>new. s = s0 @ new \<and> distinct new \<and>
        (\<forall>i \<in> set new. f0 event i \<notin> Some ` (insert ''applied'' unsettled) \<and>
           (if i \<in> busy then f event i \<in> Some ` attempted else f event i = Some ''applied''))) \<and>
     (\<forall>i. f0 event i = Some ''applied'' \<longrightarrow> f event i = Some ''applied'') \<and>
     (\<forall>i. f0 event i \<in> Some ` unsettled \<longrightarrow> f event i \<in> Some ` (insert ''applied'' unsettled)) \<and>
     (\<forall>ev i. ev \<noteq> event \<longrightarrow> f ev i = f0 ev i)"

lemma progress_new:
  "progress f0 s0 event busy f s \<Longrightarrow> \<exists>new. s = s0 @ new \<and> distinct new \<and>
     (\<forall>i \<in> set new. f0 event i \<notin> Some ` (insert ''applied'' unsettled) \<and>
        (if i \<in> busy then f event i \<in> Some ` attempted else f event i = Some ''applied''))"
  unfolding progress_def by (elim conjE)

lemma progress_refl: "progress f s event {} f s"
  by (auto simp: progress_def)

lemma progress_mono: "progress f0 s0 event busy f s \<Longrightarrow> busy \<subseteq> busy' \<Longrightarrow> progress f0 s0 event busy' f s"
  unfolding progress_def attempted_def by (auto split: if_splits; blast)

text \<open>What the individual state changes do to it.\<close>

lemma progress_intent:
  assumes "progress f0 s0 event {} f s" and "f event i = Some st" and "st \<in> {''planned'', ''retryable''}"
  shows "progress f0 s0 event {i} (set_state f event i ''intent'') s"
    and "progress f0 s0 event {i} (set_state f event i ''intent'') (s @ [i])"
    and "f0 event i \<notin> Some ` (insert ''applied'' unsettled)"
proof -
  from assms(1) obtain new where new: "s = s0 @ new" "distinct new"
      "\<And>k. k \<in> set new \<Longrightarrow> f0 event k \<notin> Some ` (insert ''applied'' unsettled)"
      "\<And>k. k \<in> set new \<Longrightarrow> f event k = Some ''applied''"
    and keep: "\<And>k. f0 event k = Some ''applied'' \<Longrightarrow> f event k = Some ''applied''"
      "\<And>k. f0 event k \<in> Some ` unsettled \<Longrightarrow> f event k \<in> Some ` (insert ''applied'' unsettled)"
      "\<And>ev k. ev \<noteq> event \<Longrightarrow> f ev k = f0 ev k"
    by (auto simp: progress_def)
  from assms(2,3) have st: "f event i \<noteq> Some ''applied''" "f event i \<notin> Some ` (insert ''applied'' unsettled)"
    by (auto simp: unsettled_def)
  with keep(1) [of i] keep(2) [of i] show f0: "f0 event i \<notin> Some ` (insert ''applied'' unsettled)"
    by auto
  have fresh: "i \<notin> set new" using new(4) st(1) by blast
  have "\<forall>k. f0 event k = Some ''applied'' \<longrightarrow> set_state f event i ''intent'' event k = Some ''applied''"
    "\<forall>k. f0 event k \<in> Some ` unsettled \<longrightarrow>
      set_state f event i ''intent'' event k \<in> Some ` (insert ''applied'' unsettled)"
    "\<forall>ev k. ev \<noteq> event \<longrightarrow> set_state f event i ''intent'' ev k = f0 ev k"
    using keep f0 by auto
  then show "progress f0 s0 event {i} (set_state f event i ''intent'') s"
    "progress f0 s0 event {i} (set_state f event i ''intent'') (s @ [i])"
    using new fresh f0 unfolding progress_def by (auto simp: attempted_def)
qed

lemma progress_settle:
  assumes "progress f0 s0 event {i} f s" and "f0 event i \<notin> Some ` (insert ''applied'' unsettled)"
    and "st \<in> attempted"
  shows "progress f0 s0 event {i} (set_state f event i st) s"
  using assms unfolding progress_def by (auto split: if_splits)

lemma progress_applied:
  assumes "progress f0 s0 event busy f s" and "busy \<subseteq> {i}"
  shows "progress f0 s0 event {} (set_state f event i ''applied'') s"
  using assms unfolding progress_def unsettled_def by (auto split: if_splits)

lemma progress_ambiguous:
  assumes "progress f0 s0 event {} f s" and "f event i = Some ''intent''"
  shows "progress f0 s0 event {} (set_state f event i ''ambiguous'') s"
  using assms unfolding progress_def unsettled_def by fastforce

lemma progress_planned:
  assumes "\<And>ev i. f' ev i = f ev i \<or> (ev = event \<and> f ev i = None \<and> f' ev i = Some ''planned'')"
  shows "progress f s event {} f' s"
  unfolding progress_def using assms by (auto simp: unsettled_def) (metis option.distinct(1))+

lemma progress_trans:
  assumes "progress f0 s0 event {} f1 s1" and "progress f1 s1 event busy f2 s2"
  shows "progress f0 s0 event busy f2 s2"
proof -
  from assms(1) obtain new1 where new1: "s1 = s0 @ new1" "distinct new1"
      "\<And>k. k \<in> set new1 \<Longrightarrow> f0 event k \<notin> Some ` (insert ''applied'' unsettled)"
      "\<And>k. k \<in> set new1 \<Longrightarrow> f1 event k = Some ''applied''"
    and keep1: "\<And>k. f0 event k = Some ''applied'' \<Longrightarrow> f1 event k = Some ''applied''"
      "\<And>k. f0 event k \<in> Some ` unsettled \<Longrightarrow> f1 event k \<in> Some ` (insert ''applied'' unsettled)"
      "\<And>ev k. ev \<noteq> event \<Longrightarrow> f1 ev k = f0 ev k"
    unfolding progress_def by auto
  from assms(2) obtain new2 where new2: "s2 = s1 @ new2" "distinct new2"
      "\<And>k. k \<in> set new2 \<Longrightarrow> f1 event k \<notin> Some ` (insert ''applied'' unsettled)"
      "\<And>k. k \<in> set new2 \<Longrightarrow>
        if k \<in> busy then f2 event k \<in> Some ` attempted else f2 event k = Some ''applied''"
    and keep2: "\<And>k. f1 event k = Some ''applied'' \<Longrightarrow> f2 event k = Some ''applied''"
      "\<And>k. f1 event k \<in> Some ` unsettled \<Longrightarrow> f2 event k \<in> Some ` (insert ''applied'' unsettled)"
      "\<And>ev k. ev \<noteq> event \<Longrightarrow> f2 ev k = f1 ev k"
    unfolding progress_def by auto
  have applied: "''applied'' \<in> attempted" by (simp add: attempted_def)
  have disjoint: "set new1 \<inter> set new2 = {}" using new1(4) new2(3) by force
  have "f0 event k \<notin> Some ` (insert ''applied'' unsettled)" if "k \<in> set new2" for k
    using new2(3) [OF that] keep1(1,2) [of k] by auto
  moreover have "if i \<in> busy then f2 event i \<in> Some ` attempted else f2 event i = Some ''applied''"
    if "i \<in> set new1" for i
    using keep2(1) [OF new1(4) [OF that]] applied by simp
  ultimately have "\<forall>i \<in> set (new1 @ new2). f0 event i \<notin> Some ` (insert ''applied'' unsettled) \<and>
         (if i \<in> busy then f2 event i \<in> Some ` attempted else f2 event i = Some ''applied'')"
    using new1(3) new2(4) unfolding set_append by blast
  moreover have "s2 = s0 @ (new1 @ new2)" "distinct (new1 @ new2)"
    using new1(1,2) new2(1,2) disjoint by simp_all
  ultimately have "s2 = s0 @ (new1 @ new2) \<and> distinct (new1 @ new2) \<and>
      (\<forall>i \<in> set (new1 @ new2). f0 event i \<notin> Some ` (insert ''applied'' unsettled) \<and>
         (if i \<in> busy then f2 event i \<in> Some ` attempted else f2 event i = Some ''applied''))"
    by (intro conjI)
  then have "\<exists>new. s2 = s0 @ new \<and> distinct new \<and>
      (\<forall>i \<in> set new. f0 event i \<notin> Some ` (insert ''applied'' unsettled) \<and>
         (if i \<in> busy then f2 event i \<in> Some ` attempted else f2 event i = Some ''applied''))"
    by (rule exI [where x = "new1 @ new2"])
  moreover have "f2 event k \<in> Some ` (insert ''applied'' unsettled)" if "f0 event k \<in> Some ` unsettled" for k
  proof -
    from keep1(2) [OF that] consider "f1 event k = Some ''applied''" | "f1 event k \<in> Some ` unsettled"
      by auto
    then show ?thesis by cases (use keep2(1,2) [of k] in auto)
  qed
  moreover have "f2 event k = Some ''applied''" if "f0 event k = Some ''applied''" for k
    using keep2(1) keep1(1) that by simp
  moreover have "f2 ev k = f0 ev k" if "ev \<noteq> event" for ev k
    using keep2(3) keep1(3) that by simp
  ultimately show ?thesis
    unfolding progress_def by simp
qed

text \<open>The result of a part of a run that is to leave the operations \<open>ids\<close> applied.\<close>

definition run_result ::
  "('j \<Rightarrow> bool) \<Rightarrow> ('j \<Rightarrow> string) \<Rightarrow> ('j \<Rightarrow> run_states) \<Rightarrow> ('a \<Rightarrow> string list)
    \<Rightarrow> string \<Rightarrow> string set \<Rightarrow> 'j \<times> 'a \<Rightarrow> exn + 'r \<Rightarrow> 'j \<times> 'a \<Rightarrow> bool" where
  "run_result jinv active status sent event ids s r s' \<longleftrightarrow> jinv (fst s') \<and>
     (case r of
        Inr x \<Rightarrow> active (fst s') = event \<and>
          progress (status (fst s)) (sent (snd s)) event {} (status (fst s')) (sent (snd s')) \<and>
          (\<forall>i \<in> ids. status (fst s') event i = Some ''applied'')
      | Inl e \<Rightarrow> \<exists>i. progress (status (fst s)) (sent (snd s)) event {i} (status (fst s')) (sent (snd s')))"

lemma run_result_Inl:
  "run_result jinv active status sent event ids s (Inl e) s' \<Longrightarrow>
   run_result jinv active status sent event ids' s (Inl e) s'"
  by (simp add: run_result_def)

lemma run_result_step:
  assumes "run_result jinv active status sent event ids s (Inr x) s1"
    and "run_result jinv active status sent event ids' s1 r s'"
  shows "run_result jinv active status sent event (ids \<union> ids') s r s'"
proof -
  from assms(1) have 1: "progress (status (fst s)) (sent (snd s)) event {} (status (fst s1)) (sent (snd s1))"
      "\<forall>i \<in> ids. status (fst s1) event i = Some ''applied''"
    by (simp_all add: run_result_def)
  show ?thesis
  proof (cases r)
    case (Inl e)
    with assms(2) progress_trans [OF 1(1)] show ?thesis by (auto simp: run_result_def)
  next
    case (Inr y)
    with assms(2) have 2: "progress (status (fst s1)) (sent (snd s1)) event {} (status (fst s')) (sent (snd s'))"
      by (simp add: run_result_def)
    then have "\<forall>i \<in> ids. status (fst s') event i = Some ''applied''"
      using 1(2) by (auto simp: progress_def)
    with assms(2) Inr progress_trans [OF 1(1) 2] show ?thesis by (auto simp: run_result_def)
  qed
qed

section \<open>Safety of publishing\<close>

definition run_inv ::
  "('j \<Rightarrow> bool) \<Rightarrow> ('j \<Rightarrow> string) \<Rightarrow> ('j \<Rightarrow> run_states) \<Rightarrow> ('a \<Rightarrow> string list)
    \<Rightarrow> run_states \<Rightarrow> string list \<Rightarrow> string \<Rightarrow> string set \<Rightarrow> 'j \<times> 'a \<Rightarrow> bool" where
  "run_inv jinv active status sent f0 s0 event busy = (\<lambda>(j, a).
     jinv j \<and> active j = event \<and> progress f0 s0 event busy (status j) (sent a))"

text \<open>After an exception: the journal is intact and at most one operation is unsettled.\<close>

definition run_stopped ::
  "('j \<Rightarrow> bool) \<Rightarrow> ('j \<Rightarrow> run_states) \<Rightarrow> ('a \<Rightarrow> string list)
    \<Rightarrow> run_states \<Rightarrow> string list \<Rightarrow> string \<Rightarrow> 'j \<times> 'a \<Rightarrow> bool" where
  "run_stopped jinv status sent f0 s0 event = (\<lambda>(j, a).
     jinv j \<and> (\<exists>i. progress f0 s0 event {i} (status j) (sent a)))"

locale publishing = publication_journal J status active jinv + publication_adapter A sent
  for J :: "'j journal_ops" and status active jinv and A :: "'a adapter_ops" and sent
begin

lemma stopped:
  "run_inv jinv active status sent f0 s0 event {} s \<Longrightarrow> run_stopped jinv status sent f0 s0 event s"
  by (auto simp: run_inv_def run_stopped_def intro: progress_mono)

lemma triple_outcome_applied:
  assumes "\<And>j a. P (j, a) \<Longrightarrow> jinv j \<and> active j = event \<and> (\<exists>busy \<subseteq> {op_id x}. progress f0 s0 event busy (status j) (sent a))"
  shows "triple P (on_fst (jo_outcome J x result))
    (\<lambda>_ s. run_inv jinv active status sent f0 s0 event {} s \<and>
       status (fst s) event (op_id x) = Some ''applied'')
    (\<lambda>_. run_stopped jinv status sent f0 s0 event)"
proof (rule triple_on_fst, rule tripleI)
  fix a j u j'
  assume "P (j, a)" and run: "jo_outcome J x result j = (Inr u, j')"
  with assms obtain busy where inv: "jinv j" "active j = event"
    and busy: "busy \<subseteq> {op_id x}" "progress f0 s0 event busy (status j) (sent a)" by blast
  from outcome_law [OF inv(1) run] inv(2) progress_applied [OF busy(2,1)]
  show "run_inv jinv active status sent f0 s0 event {} (j', a) \<and>
      status (fst (j', a)) event (op_id x) = Some ''applied''"
    by (auto simp: run_inv_def transition_effect_def)
next
  fix a j e j'
  assume "P (j, a)" and run: "jo_outcome J x result j = (Inl e, j')"
  with assms obtain busy where inv: "jinv j" "active j = event"
    and busy: "busy \<subseteq> {op_id x}" "progress f0 s0 event busy (status j) (sent a)" by blast
  from outcome_law [OF inv(1) run] progress_mono [OF busy(2,1)]
  show "run_stopped jinv status sent f0 s0 event (j', a)"
    by (auto simp: run_stopped_def transition_effect_def)
qed

text \<open>Between intent and outcome.\<close>

definition mid where
  "mid f0 s0 event i sent_now = (\<lambda>(j, a). jinv j \<and> active j = event \<and>
     f0 event i \<notin> Some ` (insert ''applied'' unsettled) \<and>
     progress f0 s0 event {i} (status j) (sent a) \<and>
     (\<not> sent_now \<longrightarrow> progress f0 s0 event {i} (status j) (sent a @ [i])))"

lemma triple_intent:
  "triple (run_inv jinv active status sent f0 s0 event {}) (on_fst (jo_intent J x))
    (\<lambda>_. mid f0 s0 event (op_id x) False) (\<lambda>_. run_stopped jinv status sent f0 s0 event)"
proof (rule triple_on_fst, rule tripleI)
  fix a j u j'
  assume "run_inv jinv active status sent f0 s0 event {} (j, a)" and run: "jo_intent J x j = (Inr u, j')"
  then have inv: "jinv j" "active j = event" "progress f0 s0 event {} (status j) (sent a)"
    by (auto simp: run_inv_def)
  from intent_law [OF inv(1) run] inv(2) obtain st where st: "status j event (op_id x) = Some st"
      "st \<in> {''planned'', ''retryable''}" "status j' = set_state (status j) event (op_id x) ''intent''"
      "jinv j'" "active j' = event"
    by (auto simp: transition_effect_def)
  with progress_intent [OF inv(3) st(1,2)] show "mid f0 s0 event (op_id x) False (j', a)"
    by (simp add: mid_def)
next
  fix a j e j'
  assume pre: "run_inv jinv active status sent f0 s0 event {} (j, a)" and run: "jo_intent J x j = (Inl e, j')"
  then have "jinv j" by (simp add: run_inv_def)
  from intent_law [OF this run] have "jinv j'" "status j' = status j"
    by (auto simp: transition_effect_def)
  with stopped [OF pre] show "run_stopped jinv status sent f0 s0 event (j', a)"
    by (simp add: run_stopped_def)
qed

lemma triple_apply:
  "triple (mid f0 s0 event (op_id x) False) (on_snd (ao_apply A x key current))
    (\<lambda>_. mid f0 s0 event (op_id x) True) (\<lambda>_. mid f0 s0 event (op_id x) True)"
  by (rule triple_on_snd, rule tripleI) (auto simp: mid_def dest!: apply_law)

lemma triple_failure:
  "triple (mid f0 s0 event (op_id x) True) (on_fst (jo_failure J x ex))
    (\<lambda>_. run_stopped jinv status sent f0 s0 event) (\<lambda>_. run_stopped jinv status sent f0 s0 event)"
proof -
  have known: "failure_state ex \<in> attempted"
    by (cases ex) (simp_all add: failure_state_def attempted_def)
  have stop: "run_stopped jinv status sent f0 s0 event (j', a)"
    if "mid f0 s0 event (op_id x) True (j, a)" "jo_failure J x ex j = (r, j')" for a j r j'
  proof -
    from that have inv: "jinv j" by (simp add: mid_def)
    from failure_law [OF inv that(2)] that(1) show ?thesis
      by (cases r) (auto simp: run_stopped_def mid_def transition_effect_def intro: progress_settle known)
  qed
  show ?thesis by (rule triple_on_fst, rule tripleI) (auto intro: stop)
qed

lemma triple_read_adapter:
  assumes "\<And>a r a'. m a = (r, a') \<Longrightarrow> sent a' = sent a"
  shows "triple (run_inv jinv active status sent f0 s0 event {}) (on_snd m)
    (\<lambda>_. run_inv jinv active status sent f0 s0 event {}) (\<lambda>_. run_stopped jinv status sent f0 s0 event)"
proof (rule triple_on_snd, rule tripleI)
  fix j a v a'
  assume "run_inv jinv active status sent f0 s0 event {} (j, a)" and "m a = (Inr v, a')"
  then show "run_inv jinv active status sent f0 s0 event {} (j, a')"
    by (auto simp: run_inv_def dest!: assms)
next
  fix j a e a'
  assume "run_inv jinv active status sent f0 s0 event {} (j, a)" and "m a = (Inl e, a')"
  then have "run_inv jinv active status sent f0 s0 event {} (j, a')"
    by (auto simp: run_inv_def dest!: assms)
  then show "run_stopped jinv status sent f0 s0 event (j, a')" by (rule stopped)
qed

lemma triple_send:
  "triple (mid f0 s0 event (op_id x) False)
    (act_catch (on_snd (ao_apply A x key current))
       (\<lambda>e. act_bind (on_fst (jo_failure J x e)) (\<lambda>_. act_raise e)))
    (\<lambda>_. mid f0 s0 event (op_id x) True) (\<lambda>_. run_stopped jinv status sent f0 s0 event)"
proof (rule triple_catch [OF triple_apply])
  fix e
  show "triple (mid f0 s0 event (op_id x) True)
      (act_bind (on_fst (jo_failure J x e)) (\<lambda>_. act_raise e))
      (\<lambda>_. mid f0 s0 event (op_id x) True) (\<lambda>_. run_stopped jinv status sent f0 s0 event)"
    by (rule triple_bind [OF triple_failure]) (rule triple_raise)
qed

lemma triple_checked:
  "triple (run_inv jinv active status sent f0 s0 event {}) (act_lift r)
    (\<lambda>_. run_inv jinv active status sent f0 s0 event {}) (\<lambda>_. run_stopped jinv status sent f0 s0 event)"
  by (rule triple_lift) (auto intro: stopped)

lemma triple_execute:
  "triple (run_inv jinv active status sent f0 s0 event {}) (execute_operation J A result x)
    (\<lambda>_ s. run_inv jinv active status sent f0 s0 event {} s \<and>
       status (fst s) event (op_id x) = Some ''applied'')
    (\<lambda>_. run_stopped jinv status sent f0 s0 event)"
  unfolding execute_operation_def
proof (rule triple_bind [where R = "\<lambda>_. run_inv jinv active status sent f0 s0 event {}"])
  show "triple (run_inv jinv active status sent f0 s0 event {})
      (if op_kind_of x = RecordAudit then act_return None else on_snd (ao_resolve A (op_identity x)))
      (\<lambda>_. run_inv jinv active status sent f0 s0 event {}) (\<lambda>_. run_stopped jinv status sent f0 s0 event)"
    by (auto intro: triple_return triple_read_adapter resolve_law)
next
  fix current
  show "triple (run_inv jinv active status sent f0 s0 event {})
     (act_bind (act_lift (assert_current x current)) (\<lambda>_.
      act_bind (on_fst (jo_intent J x)) (\<lambda>_.
      act_bind (act_catch (on_snd (ao_apply A x (op_id x) current))
                 (\<lambda>e. act_bind (on_fst (jo_failure J x e)) (\<lambda>_. act_raise e))) (\<lambda>_.
      on_fst (jo_outcome J x result)))))
     (\<lambda>_ s. run_inv jinv active status sent f0 s0 event {} s \<and>
       status (fst s) event (op_id x) = Some ''applied'')
     (\<lambda>_. run_stopped jinv status sent f0 s0 event)"
    by (rule triple_bind [OF triple_checked triple_bind [OF triple_intent triple_bind [OF triple_send
          triple_outcome_applied]]])
      (auto simp: mid_def)
qed

lemma run_refl: "jinv (fst s) \<Longrightarrow> active (fst s) = event \<Longrightarrow> run_inv jinv active status sent
    (status (fst s)) (sent (snd s)) event {} s"
  by (cases s) (simp add: run_inv_def progress_refl)

lemma run_result_triple:
  assumes "triple (run_inv jinv active status sent (status (fst s)) (sent (snd s)) event {}) m
      (\<lambda>x t. run_inv jinv active status sent (status (fst s)) (sent (snd s)) event {} t \<and>
         (\<forall>i \<in> ids. status (fst t) event i = Some ''applied''))
      (\<lambda>_. run_stopped jinv status sent (status (fst s)) (sent (snd s)) event)"
    and "jinv (fst s)" and "active (fst s) = event" and "m s = (r, s')"
  shows "run_result jinv active status sent event ids s r s'"
proof (cases r)
  case (Inl e)
  with triple_Inl [OF assms(1) run_refl [OF assms(2,3)]] assms(4) show ?thesis
    by (auto simp: run_result_def run_stopped_def split: prod.splits)
next
  case (Inr x)
  with triple_Inr [OF assms(1) run_refl [OF assms(2,3)]] assms(4) show ?thesis
    by (auto simp: run_result_def run_inv_def split: prod.splits)
qed

lemma run_result_execute:
  "jinv (fst s) \<Longrightarrow> active (fst s) = event \<Longrightarrow> execute_operation J A result x s = (r, s') \<Longrightarrow>
   run_result jinv active status sent event {op_id x} s r s'"
  using run_result_triple [of s event "execute_operation J A result x" "{op_id x}" r s'] triple_execute
  by simp

lemma run_result_return:
  "jinv (fst s) \<Longrightarrow> active (fst s) = event \<Longrightarrow> \<forall>i \<in> ids. status (fst s) event i = Some ''applied'' \<Longrightarrow>
   run_result jinv active status sent event ids s (Inr x) s"
  by (simp add: run_result_def progress_refl)

lemma run_result_value:
  "run_result jinv active status sent event ids s (Inr x) s' \<Longrightarrow>
   run_result jinv active status sent event ids s (Inr y) s'"
  by (simp add: run_result_def)

lemma run_result_begin_operation:
  assumes "jinv (fst s)" and "active (fst s) = event"
    and "op_id x \<in> set completed \<longrightarrow> status (fst s) event (op_id x) = Some ''applied''"
    and "begin_operation J A completed x s = (r, s')"
  shows "run_result jinv active status sent event {op_id x} s r s'"
proof (cases "op_id x \<in> set completed")
  case True
  with assms show ?thesis
    by (auto simp: begin_operation_def act_return_def intro: run_result_return)
next
  case False
  obtain r0 s0 where exec: "execute_operation J A ''applied'' x s = (r0, s0)"
    by (cases "execute_operation J A ''applied'' x s")
  note result = run_result_execute [OF assms(1,2) exec]
  show ?thesis
  proof (cases r0)
    case (Inl e)
    with False assms(4) exec result show ?thesis
      by (auto simp: begin_operation_def act_bind_def intro: run_result_Inl)
  next
    case (Inr u)
    with False assms(4) exec result show ?thesis
      by (auto simp: begin_operation_def act_bind_def act_return_def intro: run_result_value)
  qed
qed

text \<open>Recovering an operation whose intent is on record.\<close>

lemma run_result_recover:
  assumes "jinv j" and "active j = event" and "status j event (op_id x) = Some st"
    and "st = ''intent'' \<or> st = ''ambiguous''"
    and run: "recover_operation J A x st (j, a) = (r, s')"
  shows "run_result jinv active status sent event {op_id x} (j, a) r s'"
proof -
  obtain h a1 where post: "ao_postcondition A x a = (h, a1)" by (cases "ao_postcondition A x a")
  note sent = postcondition_law [OF post]
  have same: "progress (status j) (sent a) event {} (status j) (sent a1)"
    by (simp add: sent progress_refl)
  consider (error) e where "h = Inl e" | (holds) "h = Inr True" | (fails) "h = Inr False"
    by (cases h) auto
  then show ?thesis
  proof cases
    case error
    with run post have "r = Inl e" "s' = (j, a1)" by (simp_all add: recover_operation_def act_bind_def on_snd_def)
    with assms(1) progress_mono [OF same] show ?thesis by (auto simp: run_result_def)
  next
    case holds
    have "triple (\<lambda>s. s = (j, a1)) (on_fst (jo_outcome J x ''recovered''))
        (\<lambda>_ s. run_inv jinv active status sent (status j) (sent a) event {} s \<and>
           status (fst s) event (op_id x) = Some ''applied'')
        (\<lambda>_. run_stopped jinv status sent (status j) (sent a) event)"
      by (rule triple_outcome_applied) (use assms(1,2) same in auto)
    note outcome = triple_Inr [OF this refl] triple_Inl [OF this refl]
    obtain q s1 where q: "on_fst (jo_outcome J x ''recovered'') (j, a1) = (q, s1)"
      by (cases "on_fst (jo_outcome J x ''recovered'') (j, a1)")
    with run post holds have "s' = s1" "r = (case q of Inl e \<Rightarrow> Inl e | Inr u \<Rightarrow> Inr False)"
      by (auto simp: recover_operation_def act_bind_def on_snd_def act_return_def split: sum.splits)
    with outcome q show ?thesis
      by (cases q; cases s1) (auto simp: run_result_def run_inv_def run_stopped_def)
  next
    case fails
    have "\<exists>e. r = Inl e \<and> jinv (fst s') \<and> snd s' = a1 \<and>
        progress (status j) (sent a) event {} (status (fst s')) (sent a1)"
    proof (cases "st = ''intent''")
      case True
      let ?ex = "AmbiguousPublicationEffect ''interrupted publication intent has no confirmed postcondition''"
      obtain q j1 where q: "jo_failure J x ?ex j = (q, j1)" by (cases "jo_failure J x ?ex j")
      with run post fails True have "s' = (j1, a1)" "\<exists>e. r = Inl e"
        by (auto simp: recover_operation_def act_bind_def on_snd_def on_fst_def act_raise_def split: sum.splits)
      moreover have "progress (status j) (sent a) event {} (status j1) (sent a1)"
        using failure_law [OF assms(1) q] progress_ambiguous [OF same] assms(2,3) True same
        by (auto simp: transition_effect_def failure_state_def split: sum.splits)
      ultimately show ?thesis using failure_law [OF assms(1) q] by auto
    next
      case False
      with run post fails have "s' = (j, a1)" "\<exists>e. r = Inl e"
        by (auto simp: recover_operation_def act_bind_def on_snd_def act_return_def act_raise_def)
      with assms(1) same show ?thesis by auto
    qed
    then obtain e where "r = Inl e" "jinv (fst s')" "snd s' = a1"
      "progress (status j) (sent a) event {undefined} (status (fst s')) (sent a1)"
      using progress_mono [of _ _ _ "{}" _ _ "{undefined}"] by blast
    then show ?thesis by (auto simp: run_result_def)
  qed
qed

lemma run_result_resume_operation:
  assumes "jinv (fst s)" and "active (fst s) = event"
    and "op_id x \<in> set completed \<longrightarrow> status (fst s) event (op_id x) = Some ''applied''"
    and run: "resume_operation J A completed x s = (r, s')"
  shows "run_result jinv active status sent event {op_id x} s r s'"
proof (cases "op_id x \<in> set completed")
  case True
  with assms show ?thesis
    by (auto simp: resume_operation_def act_return_def intro: run_result_return)
next
  case False
  obtain j a where s: "s = (j, a)" by (cases s)
  obtain q j1 where q: "jo_state J x j = (q, j1)" by (cases "jo_state J x j")
  with assms(1) s have j1: "j1 = j" "\<And>st. q = Inr st \<Longrightarrow> status j (active j) (op_id x) = Some st"
    using state_law by auto
  show ?thesis
  proof (cases q)
    case (Inl e)
    with False run q s j1 have "r = Inl e" "s' = s"
      by (simp_all add: resume_operation_def act_bind_def on_fst_def)
    with assms(1) progress_mono [OF progress_refl, of "{undefined}"] show ?thesis
      by (auto simp: run_result_def)
  next
    case (Inr st)
    show ?thesis
    proof (cases "st = ''intent'' \<or> st = ''ambiguous''")
      case True
      show ?thesis
        unfolding s
        by (rule run_result_recover [of j event x st])
          (use assms(1,2) s j1 Inr True False run q in
            \<open>simp_all add: resume_operation_def act_bind_def [where m = "on_fst (jo_state J x)"] on_fst_def [of "jo_state J x"]\<close>)
    next
      case other: False
      obtain r0 s0 where exec: "execute_operation J A ''recovered'' x s = (r0, s0)"
        by (cases "execute_operation J A ''recovered'' x s")
      note result = run_result_execute [OF assms(1,2) exec]
      from False other Inr run q s j1 exec have "s' = s0" "r = (case r0 of Inl e \<Rightarrow> Inl e | Inr u \<Rightarrow> Inr True)"
        by (auto simp: resume_operation_def act_bind_def on_fst_def act_return_def split: sum.splits)
      with result show ?thesis
        by (cases r0) (auto intro: run_result_value run_result_Inl)
    qed
  qed
qed

text \<open>A loop over the recorded operations.\<close>

lemma run_result_collect:
  assumes step: "\<And>x s r s'. x \<in> set xs \<Longrightarrow> jinv (fst s) \<Longrightarrow> active (fst s) = event \<Longrightarrow>
      op_id x \<in> set completed \<longrightarrow> status (fst s) event (op_id x) = Some ''applied'' \<Longrightarrow> f x s = (r, s') \<Longrightarrow>
      run_result jinv active status sent event {op_id x} s r s'"
    and "jinv (fst s)" and "active (fst s) = event"
    and "\<forall>x \<in> set xs. op_id x \<in> set completed \<longrightarrow> status (fst s) event (op_id x) = Some ''applied''"
    and "act_collect f xs s = (r, s')"
  shows "run_result jinv active status sent event (op_id ` set xs) s r s'"
  using assms
proof (induction xs arbitrary: s r s')
  case Nil
  then show ?case by (auto simp: act_return_def intro: run_result_return)
next
  case (Cons x xs)
  obtain r1 s1 where fx: "f x s = (r1, s1)" by (cases "f x s")
  have one: "run_result jinv active status sent event {op_id x} s r1 s1"
    using Cons.prems(1) [OF _ Cons.prems(2,3) _ fx] Cons.prems(4) by simp
  show ?case
  proof (cases r1)
    case (Inl e)
    with Cons.prems(5) fx have "r = Inl e" "s' = s1" by (simp_all add: act_bind_def)
    with one Inl show ?thesis by (auto intro: run_result_Inl)
  next
    case (Inr now)
    obtain r2 s2 where rest: "act_collect f xs s1 = (r2, s2)" by (cases "act_collect f xs s1")
    from one Inr have s1: "jinv (fst s1)" "active (fst s1) = event"
      "progress (status (fst s)) (sent (snd s)) event {} (status (fst s1)) (sent (snd s1))"
      by (simp_all add: run_result_def)
    then have "\<forall>y \<in> set xs. op_id y \<in> set completed \<longrightarrow> status (fst s1) event (op_id y) = Some ''applied''"
      using Cons.prems(4) by (auto simp: progress_def)
    then have later: "run_result jinv active status sent event (op_id ` set xs) s1 r2 s2"
      using Cons.prems(1) by (intro Cons.IH [OF _ s1(1,2) _ rest]) simp_all
    have all: "run_result jinv active status sent event ({op_id x} \<union> op_id ` set xs) s r2 s2"
      by (rule run_result_step [OF one [unfolded Inr] later])
    from Cons.prems(5) fx rest Inr have "s' = s2"
        "r = (case r2 of Inl e \<Rightarrow> Inl e | Inr l \<Rightarrow> Inr (if now then x # l else l))"
      by (auto simp: act_bind_def act_return_def split: sum.splits)
    with all show ?thesis
      by (cases r2) (auto intro: run_result_value run_result_Inl)
  qed
qed

text \<open>The two ways through a run: \<open>run_finished\<close> is what is left when the active event has been released.\<close>

lemma run_finished:
  assumes loop: "run_result jinv active status sent event ids s r1 s1"
    and run: "act_bind (\<lambda>s. (r1, s1)) (\<lambda>applied. act_bind (on_fst (jo_finalize J)) (\<lambda>_. act_return (g applied))) s = (r, s')"
  shows "jinv (fst s') \<and>
    (\<exists>i. progress (status (fst s)) (sent (snd s)) event {i} (status (fst s')) (sent (snd s'))) \<and>
    (\<forall>v. r = Inr v \<longrightarrow> (\<exists>applied. v = g applied) \<and>
       progress (status (fst s)) (sent (snd s)) event {} (status (fst s')) (sent (snd s')) \<and>
       (\<forall>i \<in> ids. status (fst s') event i = Some ''applied''))"
proof (cases r1)
  case (Inl e)
  with run have "r = Inl e" "s' = s1" by (simp_all add: act_bind_def)
  with loop Inl show ?thesis by (simp add: run_result_def)
next
  case (Inr applied)
  obtain q j2 where q: "jo_finalize J (fst s1) = (q, j2)" by (cases "jo_finalize J (fst s1)")
  from loop Inr have s1: "jinv (fst s1)"
    "progress (status (fst s)) (sent (snd s)) event {} (status (fst s1)) (sent (snd s1))"
    "\<forall>i \<in> ids. status (fst s1) event i = Some ''applied''"
    by (simp_all add: run_result_def)
  from finalize_law [OF s1(1) q] have j2: "jinv j2" "status j2 = status (fst s1)" by simp_all
  from run Inr q have "s' = (j2, snd s1)" "\<And>v. r = Inr v \<Longrightarrow> v = g applied"
    by (auto simp: act_bind_def on_fst_def act_return_def split: sum.splits)
  with s1 j2 progress_mono [OF s1(2), of "{undefined}"] show ?thesis by auto
qed

lemma act_bind_run: "m s = (r1, s1) \<Longrightarrow> act_bind m f s = act_bind (\<lambda>s. (r1, s1)) f s"
  by (simp add: act_bind_def)

lemma resume_run_safe:
  assumes "jinv (fst s)" and "active (fst s) = event"
    and "\<forall>x \<in> set recorded. op_id x \<in> set completed \<longrightarrow> status (fst s) event (op_id x) = Some ''applied''"
    and "resume_run J A recorded completed s = (r, s')"
  shows "jinv (fst s') \<and>
    (\<exists>i. progress (status (fst s)) (sent (snd s)) event {i} (status (fst s')) (sent (snd s'))) \<and>
    (\<forall>v. r = Inr v \<longrightarrow> pr_operations v = recorded \<and>
       progress (status (fst s)) (sent (snd s)) event {} (status (fst s')) (sent (snd s')) \<and>
       (\<forall>x \<in> set recorded. status (fst s') event (op_id x) = Some ''applied''))"
proof -
  obtain r1 s1 where loop: "act_collect (resume_operation J A completed) recorded s = (r1, s1)"
    by (cases "act_collect (resume_operation J A completed) recorded s")
  have "run_result jinv active status sent event (op_id ` set recorded) s r1 s1"
    by (rule run_result_collect [OF _ assms(1,2,3) loop]) (rule run_result_resume_operation)
  from run_finished [OF this assms(4)[unfolded resume_run_def
      act_bind_run [where m = "act_collect (resume_operation J A completed) recorded" and s = s, OF loop]]]
  show ?thesis by auto
qed

lemma begin_run_safe:
  assumes "jinv (fst s)" and "begin_run J A envelope operations s = (r, s')"
  shows "jinv (fst s') \<and>
    (\<exists>i. progress (status (fst s)) (sent (snd s)) (pe_approval_event_id envelope) {i}
       (status (fst s')) (sent (snd s'))) \<and>
    (\<forall>v. r = Inr v \<longrightarrow>
       progress (status (fst s)) (sent (snd s)) (pe_approval_event_id envelope) {}
         (status (fst s')) (sent (snd s')) \<and>
       (\<forall>x \<in> set (pr_operations v). status (fst s') (pe_approval_event_id envelope) (op_id x) = Some ''applied''))"
proof -
  let ?event = "pe_approval_event_id envelope"
  obtain j a where s: "s = (j, a)" by (cases s)
  obtain q j1 where q: "jo_begin J envelope operations j = (q, j1)" by (cases "jo_begin J envelope operations j")
  from assms(1) s have inv: "jinv j" by simp
  note law = begin_law [OF inv q]
  have begun: "progress (status j) (sent a) ?event {} (status j1) (sent a)"
    by (rule progress_planned) (use law in blast)
  show ?thesis
  proof (cases q)
    case (Inl e)
    with assms(2) q s have "r = Inl e" "s' = (j1, a)"
      by (simp_all add: begin_run_def act_bind_def on_fst_def)
    with law s progress_mono [OF begun, of "{undefined}"] show ?thesis by auto
  next
    case (Inr res)
    obtain recorded completed where res: "res = (recorded, completed)" by (cases res)
    obtain r1 s1 where loop: "act_collect (begin_operation J A completed) recorded (j1, a) = (r1, s1)"
      by (cases "act_collect (begin_operation J A completed) recorded (j1, a)")
    from law Inr res have j1: "jinv j1" "active j1 = ?event"
      "\<forall>x \<in> set recorded. op_id x \<in> set completed \<longrightarrow> status j1 ?event (op_id x) = Some ''applied''"
      by auto
    have result: "run_result jinv active status sent ?event (op_id ` set recorded) (j1, a) r1 s1"
      by (rule run_result_collect [OF _ _ _ _ loop]) (use j1 in \<open>auto intro: run_result_begin_operation\<close>)
    let ?rest = "\<lambda>applied. act_bind (on_fst (jo_finalize J)) (\<lambda>_. act_return
        \<lparr>pr_operations = recorded, pr_applied = True, pr_resumed = False, pr_applied_operations = applied\<rparr>)"
    have "act_bind (act_collect (begin_operation J A completed) recorded) ?rest (j1, a) = (r, s')"
      using assms(2) q s Inr res by (simp add: begin_run_def act_bind_def [of "on_fst (jo_begin J envelope operations)"] on_fst_def)
    then have "act_bind (\<lambda>s. (r1, s1)) ?rest (j1, a) = (r, s')"
      by (simp add: act_bind_run [where m = "act_collect (begin_operation J A completed) recorded"
            and s = "(j1, a)", OF loop])
    from run_finished [OF result this] s progress_trans [OF begun]
    show ?thesis by auto
  qed
qed

lemma fresh_operations_sent:
  assumes "fresh_operations sha A artifact envelope a = (r, a')"
  shows "sent a' = sent a"
proof -
  obtain q a1 where q: "ao_snapshot A a = (q, a1)" by (cases "ao_snapshot A a")
  with assms have "a' = a1"
    by (auto simp: fresh_operations_def act_bind_def act_lift_def split: sum.splits prod.splits)
  with snapshot_law [OF q] show ?thesis by simp
qed

lemma publish_apply_safe:
  assumes "jinv (fst s)" and run: "publish_apply sha J A artifact envelope s = (r, s')"
  shows "jinv (fst s') \<and>
    (\<exists>i. progress (status (fst s)) (sent (snd s)) (pe_approval_event_id envelope) {i}
       (status (fst s')) (sent (snd s'))) \<and>
    (\<forall>v. r = Inr v \<longrightarrow>
       progress (status (fst s)) (sent (snd s)) (pe_approval_event_id envelope) {}
         (status (fst s')) (sent (snd s')) \<and>
       (\<forall>x \<in> set (pr_operations v). status (fst s') (pe_approval_event_id envelope) (op_id x) = Some ''applied''))"
proof -
  let ?event = "pe_approval_event_id envelope"
  obtain j a where s: "s = (j, a)" by (cases s)
  from assms(1) s have inv: "jinv j" by simp
  have same: "\<exists>i. progress (status j) (sent a) ?event {i} (status j) (sent a)"
    using progress_mono [OF progress_refl] by blast
  show ?thesis
  proof (cases "jo_ready J j")
    case False
    with run s inv same show ?thesis by (auto simp: publish_apply_def)
  next
    case True
    obtain q j1 where q: "jo_resume J envelope j = (q, j1)" by (cases "jo_resume J envelope j")
    note law = resume_law [OF inv q]
    show ?thesis
    proof (cases q)
      case (Inl e)
      with run True q s have "s' = (j1, a)" "\<exists>e. r = Inl e"
        by (auto simp: publish_apply_def act_bind_def act_catch_def on_fst_def act_raise_def)
      with law s same show ?thesis by auto
    next
      case (Inr resumed)
      show ?thesis
      proof (cases resumed)
        case None
        obtain p a1 where p: "fresh_operations sha A artifact envelope a = (p, a1)"
          by (cases "fresh_operations sha A artifact envelope a")
        show ?thesis
        proof (cases p)
          case (Inl e)
          with run True q s None p \<open>q = Inr resumed\<close> have "s' = (j1, a1)" "r = Inl e"
            by (simp_all add: publish_apply_def act_bind_def act_catch_def on_fst_def on_snd_def)
          with law s same fresh_operations_sent [OF p] show ?thesis by simp
        next
          case (Inr operations)
          with run True q s None p \<open>q = Inr resumed\<close>
          have "begin_run J A envelope operations (j1, a1) = (r, s')"
            by (simp add: publish_apply_def act_bind_def act_catch_def on_fst_def on_snd_def)
          from begin_run_safe [OF _ this] law s fresh_operations_sent [OF p] show ?thesis by simp
        qed
      next
        case (Some res)
        obtain recorded completed where res: "res = (recorded, completed)" by (cases res)
        with run True q s Some Inr have "resume_run J A recorded completed (j1, a) = (r, s')"
          by (simp add: publish_apply_def act_bind_def act_catch_def on_fst_def)
        from resume_run_safe [OF _ _ _ this, of ?event] law s Some res Inr show ?thesis by auto
      qed
    qed
  qed
qed

lemma publish_body_safe:
  assumes "jinv (fst s)"
    and run: "publish_body sha schema_error (Some J) A artifact envelope apply context s = (r, s')"
  shows "jinv (fst s') \<and>
    (\<exists>i. progress (status (fst s)) (sent (snd s)) (pe_approval_event_id envelope) {i}
       (status (fst s')) (sent (snd s'))) \<and>
    (apply \<longrightarrow> (\<forall>v. r = Inr v \<longrightarrow>
       progress (status (fst s)) (sent (snd s)) (pe_approval_event_id envelope) {}
         (status (fst s')) (sent (snd s')) \<and>
       (\<forall>x \<in> set (pr_operations v). status (fst s') (pe_approval_event_id envelope) (op_id x) = Some ''applied''))) \<and>
    (\<not> apply \<longrightarrow> fst s' = fst s \<and> sent (snd s') = sent (snd s))"
proof -
  have same: "\<exists>i. progress (status (fst s)) (sent (snd s)) (pe_approval_event_id envelope) {i}
      (status (fst s)) (sent (snd s))"
    using progress_mono [OF progress_refl] by blast
  show ?thesis
  proof (cases "publication_checks schema_error A artifact envelope context (snd s)")
    case (Inl e)
    with run have "r = Inl e" "s' = s" by (simp_all add: publish_body_def act_bind_def)
    with assms(1) same show ?thesis by simp
  next
    case (Inr u)
    show ?thesis
    proof (cases "apply")
      case True
      with run Inr have "publish_apply sha J A artifact envelope s = (r, s')"
        by (simp add: publish_body_def act_bind_def)
      from publish_apply_safe [OF assms(1) this] True show ?thesis by simp
    next
      case False
      obtain p a1 where p: "fresh_operations sha A artifact envelope (snd s) = (p, a1)"
        by (cases "fresh_operations sha A artifact envelope (snd s)")
      with run Inr False have "s' = (fst s, a1)"
        by (cases p) (auto simp: publish_body_def act_bind_def on_snd_def act_return_def)
      with assms(1) same fresh_operations_sent [OF p] False show ?thesis by simp
    qed
  qed
qed

lemma publish_safe:
  assumes "jinv j"
    and run: "publish sha schema_error (Some J) A artifact envelope apply context (j, a) = (r, (j', a'))"
  shows "jinv j'"
    and "\<exists>i. progress (status j) (sent a) (pe_approval_event_id envelope) {i} (status j') (sent a')"
    and "apply \<Longrightarrow> r = Inr v \<Longrightarrow>
      progress (status j) (sent a) (pe_approval_event_id envelope) {} (status j') (sent a') \<and>
      (\<forall>x \<in> set (pr_operations v). status j' (pe_approval_event_id envelope) (op_id x) = Some ''applied'')"
    and "\<not> apply \<Longrightarrow> j' = jo_close J j \<and> sent a' = sent a"
proof -
  obtain r1 j1 a1 where body:
    "publish_body sha schema_error (Some J) A artifact envelope apply context (j, a) = (r1, (j1, a1))"
    by (metis surj_pair)
  with run have r: "r = r1" "j' = jo_close J j1" "a' = a1"
    by (simp_all add: publish_def act_finally_def)
  note safe = publish_body_safe [OF _ body]
  from assms(1) safe have inv: "jinv j1" by simp
  note closed = close_law [OF inv]
  show "jinv j'" using closed r by simp
  show "\<exists>i. progress (status j) (sent a) (pe_approval_event_id envelope) {i} (status j') (sent a')"
    using closed r safe assms(1) by simp
  show "apply \<Longrightarrow> r = Inr v \<Longrightarrow>
      progress (status j) (sent a) (pe_approval_event_id envelope) {} (status j') (sent a') \<and>
      (\<forall>x \<in> set (pr_operations v). status j' (pe_approval_event_id envelope) (op_id x) = Some ''applied'')"
    using closed r safe assms(1) by simp
  show "\<not> apply \<Longrightarrow> j' = jo_close J j \<and> sent a' = sent a"
    using r safe assms(1) by simp
qed

subsection \<open>Operations that cannot be recovered\<close>

text \<open>
  An operation on record as attempted whose postcondition never holds stays that way: the
  publisher neither applies it again nor counts it as applied, whatever else the run does.
\<close>

definition stuck where
  "stuck event i = (\<lambda>(j, a :: 'a). jinv j \<and> is_unsettled (status j event i))"

definition stuck_active where
  "stuck_active event i = (\<lambda>(j, a). active j = event \<and> stuck event i (j, a))"

lemma triple_transition_stuck:
  assumes law: "\<And>j r j'. jinv j \<Longrightarrow> m j = (r, j') \<Longrightarrow> jinv j' \<and> active j' = active j \<and>
      transition_effect from_states to_state (status j) (active j) k r (status j')"
    and "k \<noteq> i \<or> to_state \<in> unsettled"
  shows "triple (stuck_active event i) (on_fst m) (\<lambda>_. stuck_active event i) (\<lambda>_. stuck event i)"
proof -
  have keep: "jinv j' \<and> active j' = event \<and> is_unsettled (status j' event i)"
    if "stuck_active event i (j, a)" "m j = (r, j')" for j a and r :: "exn + unit" and j'
  proof -
    from that(1) have j: "jinv j" "active j = event" "is_unsettled (status j event i)"
      by (simp_all add: stuck_active_def stuck_def)
    note law = law [OF j(1) that(2)]
    show ?thesis
    proof (cases r)
      case (Inl e)
      with law j show ?thesis by (simp add: transition_effect_def)
    next
      case (Inr u)
      with law have new: "status j' = set_state (status j) (active j) k to_state"
        by (simp add: transition_effect_def)
      have "is_unsettled (status j' event i)"
        using assms(2) j(3) unfolding new set_state_apply by (auto simp: is_unsettled_def)
      with law j(2) show ?thesis by simp
    qed
  qed
  show ?thesis
  proof (rule triple_on_fst, rule tripleI)
    fix a j u j'
    assume "stuck_active event i (j, a)" and "m j = (Inr u, j')"
    from keep [OF this] show "stuck_active event i (j', a)"
      by (simp add: stuck_active_def stuck_def)
  next
    fix a j e j'
    assume "stuck_active event i (j, a)" and "m j = (Inl e, j')"
    from keep [OF this] show "stuck event i (j', a)"
      by (simp add: stuck_def)
  qed
qed

lemma triple_adapter_stuck:
  "triple (stuck_active event i) (on_snd m) (\<lambda>_. stuck_active event i) (\<lambda>_. stuck event i)"
  by (rule triple_on_snd, rule tripleI) (simp_all add: stuck_active_def stuck_def)

lemma triple_raise_stuck:
  "triple (stuck_active event i) (act_raise e) Q (\<lambda>_. stuck event i)"
  by (intro triple_raise) (auto simp: stuck_active_def)

lemma triple_return_stuck:
  "triple (stuck_active event i) (act_return x) (\<lambda>_. stuck_active event i) E"
  by (intro triple_return) simp

lemma triple_lift_stuck:
  "triple (stuck_active event i) (act_lift r) (\<lambda>_. stuck_active event i) (\<lambda>_. stuck event i)"
  by (intro triple_lift) (auto simp: stuck_active_def)

lemma triple_execute_stuck:
  assumes "op_id x \<noteq> i"
  shows "triple (stuck_active event i) (execute_operation J A result x)
    (\<lambda>_. stuck_active event i) (\<lambda>_. stuck event i)"
  unfolding execute_operation_def
proof (rule triple_bind [where R = "\<lambda>_. stuck_active event i"])
  show "triple (stuck_active event i)
      (if op_kind_of x = RecordAudit then act_return None else on_snd (ao_resolve A (op_identity x)))
      (\<lambda>_. stuck_active event i) (\<lambda>_. stuck event i)"
    by (auto intro: triple_return_stuck triple_adapter_stuck)
next
  fix current
  have intent: "triple (stuck_active event i) (on_fst (jo_intent J x)) (\<lambda>_. stuck_active event i) (\<lambda>_. stuck event i)"
    by (rule triple_transition_stuck [OF intent_law]) (use assms in auto)
  have outcome: "triple (stuck_active event i) (on_fst (jo_outcome J x result)) (\<lambda>_. stuck_active event i) (\<lambda>_. stuck event i)"
    by (rule triple_transition_stuck [OF outcome_law]) (use assms in auto)
  have failure: "triple (stuck_active event i) (on_fst (jo_failure J x e)) (\<lambda>_. stuck_active event i) (\<lambda>_. stuck event i)" for e
    by (rule triple_transition_stuck [OF failure_law]) (use assms in auto)
  have catch: "triple (stuck_active event i) (act_bind (on_fst (jo_failure J x e)) (\<lambda>_. act_raise e))
      (\<lambda>_. stuck_active event i) (\<lambda>_. stuck event i)" for e
    by (rule triple_bind [OF failure triple_raise_stuck])
  have send: "triple (stuck_active event i) (on_snd (ao_apply A x (op_id x) current))
      (\<lambda>_. stuck_active event i) (\<lambda>_. stuck_active event i)"
    by (rule triple_on_snd, rule tripleI) (simp_all add: stuck_active_def stuck_def)
  have "triple (stuck_active event i) (act_catch (on_snd (ao_apply A x (op_id x) current))
        (\<lambda>e. act_bind (on_fst (jo_failure J x e)) (\<lambda>_. act_raise e)))
      (\<lambda>_. stuck_active event i) (\<lambda>_. stuck event i)"
    by (rule triple_catch [OF send catch])
  then show "triple (stuck_active event i)
     (act_bind (act_lift (assert_current x current)) (\<lambda>_.
      act_bind (on_fst (jo_intent J x)) (\<lambda>_.
      act_bind (act_catch (on_snd (ao_apply A x (op_id x) current))
                 (\<lambda>e. act_bind (on_fst (jo_failure J x e)) (\<lambda>_. act_raise e))) (\<lambda>_.
      on_fst (jo_outcome J x result)))))
     (\<lambda>_. stuck_active event i) (\<lambda>_. stuck event i)"
    by (intro triple_bind [OF triple_lift_stuck triple_bind [OF intent triple_bind [OF _ outcome]]])
qed

lemma triple_state_stuck:
  "triple (stuck_active event i) (on_fst (jo_state J x))
    (\<lambda>st s. stuck_active event i s \<and> status (fst s) event (op_id x) = Some st)
    (\<lambda>_. stuck event i)"
proof (rule triple_on_fst, rule tripleI)
  fix a j st j'
  assume pre: "stuck_active event i (j, a)" and run: "jo_state J x j = (Inr st, j')"
  then have "jinv j" "active j = event" by (simp_all add: stuck_active_def stuck_def)
  with state_law [OF _ run] pre
  show "stuck_active event i (j', a) \<and> status (fst (j', a)) event (op_id x) = Some st" by simp
next
  fix a j e j'
  assume pre: "stuck_active event i (j, a)" and run: "jo_state J x j = (Inl e, j')"
  then have "jinv j" by (simp add: stuck_active_def stuck_def)
  with state_law [OF _ run] pre show "stuck event i (j', a)"
    by (simp add: stuck_active_def)
qed

lemma triple_postcondition_stuck:
  assumes "\<And>a a'. op_id x = i \<Longrightarrow> ao_postcondition A x a \<noteq> (Inr True, a')"
  shows "triple (stuck_active event i) (on_snd (ao_postcondition A x))
    (\<lambda>holds s. (holds \<longrightarrow> op_id x \<noteq> i) \<and> stuck_active event i s) (\<lambda>_. stuck event i)"
proof (rule triple_on_snd, rule tripleI)
  fix j a holds a'
  assume "stuck_active event i (j, a)" and "ao_postcondition A x a = (Inr holds, a')"
  then show "(holds \<longrightarrow> op_id x \<noteq> i) \<and> stuck_active event i (j, a')"
    using assms [of a a'] by (cases holds) (auto simp: stuck_active_def stuck_def)
qed (simp add: stuck_active_def stuck_def)

lemma triple_recover_stuck:
  assumes "\<And>a a'. op_id x = i \<Longrightarrow> ao_postcondition A x a \<noteq> (Inr True, a')"
  shows "triple (stuck_active event i) (recover_operation J A x st)
    (\<lambda>_. stuck_active event i) (\<lambda>_. stuck event i)"
  unfolding recover_operation_def
proof (rule triple_bind [OF triple_postcondition_stuck [OF assms]])
  fix holds
  let ?failure = "on_fst (jo_failure J x (AmbiguousPublicationEffect
       ''interrupted publication intent has no confirmed postcondition''))"
  have outcome: "triple (stuck_active event i)
      (act_bind (on_fst (jo_outcome J x ''recovered'')) (\<lambda>_. act_return False))
      (\<lambda>_. stuck_active event i) (\<lambda>_. stuck event i)" if "op_id x \<noteq> i"
    by (rule triple_bind [OF triple_transition_stuck [OF outcome_law] triple_return_stuck]) (use that in auto)
  have "triple (stuck_active event i) ?failure (\<lambda>_. stuck_active event i) (\<lambda>_. stuck event i)"
    by (rule triple_transition_stuck [OF failure_law]) (auto simp: failure_state_def unsettled_def)
  then have "triple (stuck_active event i) (if st = ''intent'' then ?failure else act_return ())
      (\<lambda>_. stuck_active event i) (\<lambda>_. stuck event i)"
    by (simp add: triple_return_stuck)
  then have failure: "triple (stuck_active event i)
      (act_bind (if st = ''intent'' then ?failure else act_return ())
         (\<lambda>_. act_raise (PublicationRejected ''publication operation remains ambiguous''))
         :: ('j \<times> 'a, bool) action)
      (\<lambda>_. stuck_active event i) (\<lambda>_. stuck event i)"
    by (rule triple_bind) (rule triple_raise_stuck)
  show "triple (\<lambda>s. (holds \<longrightarrow> op_id x \<noteq> i) \<and> stuck_active event i s)
     (if holds then act_bind (on_fst (jo_outcome J x ''recovered'')) (\<lambda>_. act_return False)
      else act_bind (if st = ''intent'' then ?failure else act_return ())
         (\<lambda>_. act_raise (PublicationRejected ''publication operation remains ambiguous'')))
     (\<lambda>_. stuck_active event i) (\<lambda>_. stuck event i)"
    by (rule triple_conj_pure) (use outcome failure in simp)
qed

lemma triple_resume_stuck:
  assumes "\<And>a a'. op_id x = i \<Longrightarrow> ao_postcondition A x a \<noteq> (Inr True, a')"
  shows "triple (stuck_active event i) (resume_operation J A completed x)
    (\<lambda>_. stuck_active event i) (\<lambda>_. stuck event i)"
proof (cases "op_id x \<in> set completed")
  case True
  then show ?thesis by (simp add: resume_operation_def triple_return_stuck)
next
  case False
  have step: "triple (\<lambda>s. stuck_active event i s \<and> status (fst s) event (op_id x) = Some st)
      (if st = ''intent'' \<or> st = ''ambiguous'' then recover_operation J A x st
       else act_bind (execute_operation J A ''recovered'' x) (\<lambda>_. act_return True))
      (\<lambda>_. stuck_active event i) (\<lambda>_. stuck event i)" for st
  proof (cases "st = ''intent'' \<or> st = ''ambiguous''")
    case True
    have "triple (\<lambda>s. stuck_active event i s \<and> status (fst s) event (op_id x) = Some st)
        (recover_operation J A x st) (\<lambda>_. stuck_active event i) (\<lambda>_. stuck event i)"
      by (rule triple_weaken [OF triple_recover_stuck [OF assms]]) simp_all
    with True show ?thesis by simp
  next
    case settled: False
    show ?thesis
    proof (cases "op_id x = i")
      case True
      with settled have "\<not> (stuck_active event i s \<and> status (fst s) event (op_id x) = Some st)" for s
        by (cases s) (auto simp: stuck_active_def stuck_def is_unsettled_def unsettled_def)
      then show ?thesis unfolding triple_def by blast
    next
      case other: False
      have "triple (stuck_active event i)
          (act_bind (execute_operation J A ''recovered'' x) (\<lambda>_. act_return True))
          (\<lambda>_. stuck_active event i) (\<lambda>_. stuck event i)"
        by (rule triple_bind [OF triple_execute_stuck [OF other] triple_return_stuck])
      then have "triple (\<lambda>s. stuck_active event i s \<and> status (fst s) event (op_id x) = Some st)
          (act_bind (execute_operation J A ''recovered'' x) (\<lambda>_. act_return True))
          (\<lambda>_. stuck_active event i) (\<lambda>_. stuck event i)"
        by (rule triple_weaken) simp_all
      with settled show ?thesis by simp
    qed
  qed
  from False show ?thesis
    by (simp add: resume_operation_def triple_bind [OF triple_state_stuck step])
qed

lemma triple_collect:
  assumes "\<And>x. x \<in> set xs \<Longrightarrow> triple P (f x) (\<lambda>_. P) E"
  shows "triple P (act_collect f xs) (\<lambda>_. P) E"
  using assms
proof (induction xs)
  case Nil
  then show ?case by (simp add: triple_return)
next
  case (Cons x xs)
  have "triple P (act_bind (act_collect f xs) (\<lambda>rest. act_return (if now then x # rest else rest)))
      (\<lambda>_. P) E" for now
    by (rule triple_bind [OF Cons.IH]) (use Cons.prems in \<open>auto intro: triple_return\<close>)
  moreover have "triple P (f x) (\<lambda>_. P) E" using Cons.prems by simp
  ultimately show ?case unfolding act_collect.simps by (rule triple_bind [rotated])
qed

lemma resume_run_stuck:
  assumes "\<And>x a a'. x \<in> set recorded \<Longrightarrow> op_id x = i \<Longrightarrow> ao_postcondition A x a \<noteq> (Inr True, a')"
    and "stuck_active event i s" and "resume_run J A recorded completed s = (r, s')"
  shows "stuck event i s'"
proof -
  obtain r1 s1 where loop: "act_collect (resume_operation J A completed) recorded s = (r1, s1)"
    by (cases "act_collect (resume_operation J A completed) recorded s")
  have "triple (stuck_active event i) (act_collect (resume_operation J A completed) recorded)
      (\<lambda>_. stuck_active event i) (\<lambda>_. stuck event i)"
    by (rule triple_collect [OF triple_resume_stuck])
      (use assms(1) in blast)
  note stuck = triple_Inr [OF this assms(2)] triple_Inl [OF this assms(2)]
  show ?thesis
  proof (cases r1)
    case (Inl e)
    with assms(3) loop have "s' = s1" by (simp add: resume_run_def act_bind_def)
    with stuck(2) loop Inl show ?thesis by simp
  next
    case (Inr applied)
    obtain q j2 where q: "jo_finalize J (fst s1) = (q, j2)" by (cases "jo_finalize J (fst s1)")
    from stuck(1) loop Inr have s1: "jinv (fst s1)" "is_unsettled (status (fst s1) event i)"
      by (auto simp: stuck_active_def stuck_def split: prod.splits)
    from assms(3) loop Inr q have "s' = (j2, snd s1)"
      by (auto simp: resume_run_def act_bind_def on_fst_def act_return_def split: sum.splits)
    with finalize_law [OF s1(1) q] s1 show ?thesis by (simp add: stuck_def)
  qed
qed

lemma publish_stuck:
  assumes inv: "jinv j" and unsettled: "is_unsettled (status j (pe_approval_event_id envelope) i)"
    and recorded: "jo_resume J envelope j = (Inr (Some (recorded, completed)), j1)"
    and op: "i \<in> op_id ` set recorded"
      "\<And>x a a'. x \<in> set recorded \<Longrightarrow> op_id x = i \<Longrightarrow> ao_postcondition A x a \<noteq> (Inr True, a')"
    and run: "publish sha schema_error (Some J) A artifact envelope True context (j, a) = (r, (j', a'))"
  shows "(\<exists>e. r = Inl e) \<and> is_unsettled (status j' (pe_approval_event_id envelope) i)"
proof -
  let ?event = "pe_approval_event_id envelope"
  obtain r1 j2 a1 where body:
    "publish_body sha schema_error (Some J) A artifact envelope True context (j, a) = (r1, (j2, a1))"
    by (metis surj_pair)
  with run have r: "r = r1" "j' = jo_close J j2"
    by (simp_all add: publish_def act_finally_def)
  have "jinv j2 \<and> is_unsettled (status j2 ?event i) \<and> (\<forall>v. r1 = Inr v \<longrightarrow> pr_operations v = recorded)"
  proof (cases "publication_checks schema_error A artifact envelope context a")
    case (Inl e)
    with body inv unsettled show ?thesis by (auto simp: publish_body_def act_bind_def)
  next
    case (Inr u)
    with body have app: "publish_apply sha J A artifact envelope (j, a) = (r1, (j2, a1))"
      by (simp add: publish_body_def act_bind_def)
    show ?thesis
    proof (cases "jo_ready J j")
      case False
      with app inv unsettled show ?thesis by (auto simp: publish_apply_def)
    next
      case True
      with app recorded have rest: "resume_run J A recorded completed (j1, a) = (r1, (j2, a1))"
        by (simp add: publish_apply_def act_bind_def act_catch_def on_fst_def)
      from resume_law [OF inv recorded] have "stuck_active ?event i (j1, a)"
        using unsettled by (simp add: stuck_active_def stuck_def)
      from resume_run_stuck [OF op(2) this rest] have "stuck ?event i (j2, a1)" .
      moreover from rest have "\<forall>v. r1 = Inr v \<longrightarrow> pr_operations v = recorded"
        by (auto simp: resume_run_def act_bind_def act_return_def split: prod.splits sum.splits)
      ultimately show ?thesis by (simp add: stuck_def)
    qed
  qed
  then have j2: "jinv j2" "is_unsettled (status j2 ?event i)"
      "\<And>v. r1 = Inr v \<Longrightarrow> pr_operations v = recorded" by blast+
  with close_law [OF j2(1)] r have still: "is_unsettled (status j' ?event i)" by simp
  moreover have "\<exists>e. r = Inl e"
  proof (rule ccontr)
    assume "\<nexists>e. r = Inl e"
    then obtain v where v: "r = Inr v" by (cases r) auto
    from publish_safe(3) [OF inv run TrueI v] j2(3) r v op(1)
    have "status j' ?event i = Some ''applied''" by auto
    with still show False by (simp add: is_unsettled_def unsettled_def)
  qed
  ultimately show ?thesis by blast
qed

end

section \<open>Nothing happens unless every check passes\<close>

lemma publish_rejected_checks:
  assumes "publication_checks schema_error A artifact envelope context a = Inl e"
  shows "publish sha schema_error (Some J) A artifact envelope apply context (j, a) = (Inl e, (jo_close J j, a))"
  using assms by (simp add: publish_def publish_body_def act_finally_def act_bind_def)

lemma publication_checksD:
  "publication_checks schema_error A artifact envelope context a = Inr u \<Longrightarrow>
     validate_plan schema_error (la_plan artifact) = Inr [] \<and>
     check_artifact_envelope artifact envelope = Inr () \<and>
     check_replan_boundary schema_error artifact context = Inr () \<and>
     ao_target A a = pe_publication_target_sha256 envelope"
  by (auto simp: publication_checks_def check_publication_target_def res_simps)

lemma publish_returns_checked:
  "publish sha schema_error (Some J) A artifact envelope apply context (j, a) = (Inr v, s') \<Longrightarrow>
     publication_checks schema_error A artifact envelope context a = Inr ()"
  by (cases "publication_checks schema_error A artifact envelope context a")
    (auto simp: publish_def publish_body_def act_finally_def act_bind_def)

end
