(* ===== verification/Adapter.thy ===== *)
theory Adapter
  imports Publisher DiffSpec
begin

text \<open>
  \<^verbatim>\<open>OpenProjectPublicationAdapter\<close> of
  \<^verbatim>\<open>src/planning_platform/openproject_adapter.py\<close>: the topology checks, the effects and
  their recovery after a lost or failed response, \<^verbatim>\<open>apply\<close> and \<^verbatim>\<open>postcondition\<close>.
  The HTTP exchanges are parameters (\<open>openproject_remote\<close>): what a GET or a form returns, and
  what becomes of a commit request. A commit ends in \<open>TransportLost\<close> or in a status with the
  work package of its body (\<open>None\<close> when the body does not decode) and its error identifier.
\<close>

section \<open>Topology checks\<close>

definition is_op_error :: "exn \<Rightarrow> bool" where
  "is_op_error e = (case e of OpenProjectPublicationError _ \<Rightarrow> True | OpenProjectConflict _ \<Rightarrow> True | _ \<Rightarrow> False)"

text \<open>A two-element list or tuple of strings.\<close>

definition str_pair :: "pyval \<Rightarrow> identity option" where
  "str_pair v = (case py_pair v of Some (PStr a, PStr b) \<Rightarrow> Some (a, b) | _ \<Rightarrow> None)"

definition expected_relation :: "pyval \<Rightarrow> managed_relation option" where
  "expected_relation v =
     (case py_pair v of
        Some (PStr t, target) \<Rightarrow> map_option (\<lambda>(a, b). (t, a, b)) (str_pair target)
      | _ \<Rightarrow> None)"

definition expected_relations :: "pyval option \<Rightarrow> exn + managed_relation list" where
  "expected_relations value =
     (case value of
        Some (PList vs) \<Rightarrow>
          if list_all (\<lambda>v. expected_relation v \<noteq> None) vs
          then Inr (sort (List.map_filter expected_relation vs))
          else Inl (OpenProjectConflict ''managed relation precondition is malformed'')
      | _ \<Rightarrow> Inl (OpenProjectConflict ''managed relation precondition is malformed''))"

text \<open>The parent a precondition or payload names: absent, or a pair of strings.\<close>

definition parent_value :: "string \<Rightarrow> pyval \<Rightarrow> exn + identity option" where
  "parent_value message v =
     (case v of
        PNone \<Rightarrow> Inr None
      | _ \<Rightarrow> (case str_pair v of Some i \<Rightarrow> Inr (Some i) | None \<Rightarrow> Inl (OpenProjectConflict message)))"

text \<open>The three required keys, parsed: parent, unmanaged flag, and the raw relations.\<close>

definition topology_conditions :: "publication_operation \<Rightarrow> exn + identity option \<times> bool" where
  "topology_conditions x =
     (let conditions = op_preconditions x in
      case (dict_get conditions ''expected_parent_identity'',
            dict_get conditions ''expected_unmanaged_parent'',
            dict_get conditions ''expected_managed_relations'') of
        (Some parent, Some unmanaged, Some relations) \<Rightarrow>
          res_bind (parent_value ''parent precondition is malformed'' parent) (\<lambda>expected_parent.
          case unmanaged of
            PBool b \<Rightarrow> Inr (expected_parent, b)
          | _ \<Rightarrow> Inl (OpenProjectConflict ''parent precondition is malformed''))
      | _ \<Rightarrow> Inl (OpenProjectConflict ''topology preconditions are missing''))"

definition assert_topology_preconditions :: "publication_operation \<Rightarrow> work_package \<Rightarrow> exn + unit" where
  "assert_topology_preconditions x current =
     res_bind (topology_conditions x) (\<lambda>(expected_parent, expected_unmanaged).
     res_bind (raise_if (expected_parent \<noteq> None \<and> expected_unmanaged)
       (OpenProjectConflict ''parent precondition is contradictory'')) (\<lambda>_.
     res_bind (raise_if (wp_parent_identity current \<noteq> expected_parent
           \<or> actual_unmanaged current \<noteq> expected_unmanaged)
       (OpenProjectConflict ''parent topology changed before publication'')) (\<lambda>_.
     res_bind (expected_relations (dict_get (op_preconditions x) ''expected_managed_relations'')) (\<lambda>expected.
     raise_if (sort (wp_managed_relations current) \<noteq> expected)
       (OpenProjectConflict ''managed relation topology changed before publication'')))))"

text \<open>The topology an effect must leave: the operation's own change on its preconditions.\<close>

definition requested_relation :: "string \<Rightarrow> publication_operation \<Rightarrow> exn + managed_relation" where
  "requested_relation message x =
     (case (dict_get (op_payload x) ''type'', dict_get (op_payload x) ''target_identity'') of
        (Some (PStr semantic), Some target) \<Rightarrow>
          (case str_pair target of
             Some (a, b) \<Rightarrow> Inr (semantic, a, b)
           | None \<Rightarrow> Inl (OpenProjectConflict message))
      | _ \<Rightarrow> Inl (OpenProjectConflict message))"

definition expected_after ::
  "publication_operation \<Rightarrow> identity option \<times> bool \<Rightarrow> managed_relation list
    \<Rightarrow> exn + (identity option \<times> bool) \<times> managed_relation list" where
  "expected_after x parent relations =
     (case op_kind_of x of
        SetParent \<Rightarrow>
          res_bind (parent_value ''parent postcondition is malformed''
              (case dict_get (op_payload x) ''parent_identity'' of None \<Rightarrow> PNone | Some v \<Rightarrow> v)) (\<lambda>requested.
          Inr ((requested, False), relations))
      | CreateRelation \<Rightarrow>
          res_bind (requested_relation ''relation postcondition is malformed'' x) (\<lambda>r.
          res_bind (raise_if (r \<in> set relations)
            (OpenProjectConflict ''relation create postcondition is contradictory'')) (\<lambda>_.
          Inr (parent, r # relations)))
      | RemoveManagedRelation \<Rightarrow>
          res_bind (requested_relation ''relation postcondition is malformed'' x) (\<lambda>r.
          res_bind (raise_if (r \<notin> set relations)
            (OpenProjectConflict ''relation removal postcondition is contradictory'')) (\<lambda>_.
          Inr (parent, removeAll r relations)))
      | _ \<Rightarrow> Inr (parent, relations))"

definition parent_matches :: "identity option \<times> bool \<Rightarrow> work_package \<Rightarrow> bool" where
  "parent_matches expected current =
     (case expected of
        (None, unmanaged) \<Rightarrow>
          wp_parent_identity current = None \<and> (wp_parent_id current \<noteq> None) = unmanaged
      | (Some p, unmanaged) \<Rightarrow> \<not> unmanaged \<and> wp_parent_identity current = Some p)"

definition postcondition_topology :: "publication_operation \<Rightarrow> work_package \<Rightarrow> exn + bool" where
  "postcondition_topology x current =
     res_bind (topology_conditions x) (\<lambda>parent.
     res_bind (expected_relations (dict_get (op_preconditions x) ''expected_managed_relations'')) (\<lambda>expected.
     res_bind (expected_after x parent (remdups expected)) (\<lambda>(parent_after, relations_after).
     Inr (parent_matches parent_after current
       \<and> sort (wp_managed_relations current) = sort relations_after))))"

section \<open>The remote side\<close>

datatype http_response =
    TransportLost
  | HttpResponse int "work_package option" string

datatype patch_payload = ManagedFields | ParentLink "int option" | StatusLink string

record op_relation =
  rel_id :: int
  rel_from_id :: int
  rel_to_id :: int
  rel_relation_type :: string
  rel_description :: string

record 'w openproject_remote =
  rm_snapshot :: "('w, snapshot) action"
  rm_matches :: "identity \<Rightarrow> ('w, work_package list) action"
  rm_package_identity :: "int \<Rightarrow> ('w, identity option) action"
  rm_relations :: "int \<Rightarrow> ('w, op_relation list) action"
  rm_create_form :: "publication_operation \<Rightarrow> ('w, unit) action"
  rm_create :: "publication_operation \<Rightarrow> 'w \<Rightarrow> http_response \<times> 'w"
  rm_patch_form :: "publication_operation \<Rightarrow> patch_payload \<Rightarrow> work_package \<Rightarrow> ('w, unit) action"
  rm_patch :: "publication_operation \<Rightarrow> patch_payload \<Rightarrow> work_package \<Rightarrow> 'w \<Rightarrow> http_response \<times> 'w"
  rm_delete_relation :: "int \<Rightarrow> 'w \<Rightarrow> http_response \<times> 'w"
  rm_create_relation :: "int \<Rightarrow> int \<Rightarrow> string \<Rightarrow> string \<Rightarrow> 'w \<Rightarrow> http_response \<times> 'w"

record op_config =
  oc_target_sha256 :: string
  oc_ready_status_id :: int

definition update_conflict :: string where
  "update_conflict = ''urn:openproject-org:api:v3:errors:UpdateConflict''"

text \<open>A commit request does not raise: its outcome is a value.\<close>

definition commit :: "('w \<Rightarrow> http_response \<times> 'w) \<Rightarrow> ('w, http_response) action" where
  "commit request w = (case request w of (resp, w') \<Rightarrow> (Inr resp, w'))"

text \<open>\<^verbatim>\<open>status == 408 or status >= 500\<close>: the server may have committed.\<close>

definition possibly_committed :: "int \<Rightarrow> bool" where
  "possibly_committed status \<longleftrightarrow> status = 408 \<or> 500 \<le> status"

text \<open>\<^verbatim>\<open>with suppress(OpenProjectPublicationError)\<close> around a value with a default.\<close>

definition suppressed :: "'a \<Rightarrow> ('w, 'a) action \<Rightarrow> ('w, 'a) action" where
  "suppressed fallback m = act_catch m (\<lambda>e. if is_op_error e then act_return fallback else act_raise e)"

section \<open>Reading\<close>

definition identity_matches ::
  "'w openproject_remote \<Rightarrow> identity \<Rightarrow> ('w, work_package list) action" where
  "identity_matches rm ident = act_bind (rm_matches rm ident) (\<lambda>found.
     if 1 < length found then act_raise (OpenProjectPublicationError ''duplicate publication identity'')
     else act_return found)"

definition resolve :: "'w openproject_remote \<Rightarrow> identity \<Rightarrow> ('w, work_package option) action" where
  "resolve rm ident = act_bind (identity_matches rm ident) (\<lambda>found.
     act_return (case found of [] \<Rightarrow> None | w # _ \<Rightarrow> Some w))"

definition resolve_fresh :: "'w openproject_remote \<Rightarrow> identity \<Rightarrow> ('w, work_package) action" where
  "resolve_fresh rm ident = act_bind (identity_matches rm ident) (\<lambda>found.
     case found of
       [] \<Rightarrow> act_raise (OpenProjectPublicationError ''identity cannot be resolved'')
     | w # _ \<Rightarrow> act_return w)"

definition created_state_matches :: "publication_operation \<Rightarrow> work_package \<Rightarrow> bool" where
  "created_state_matches x w \<longleftrightarrow>
     wp_identity w = Some (op_identity x) \<and> wp_managed_hash w = op_managed_after_hash x
     \<and> py_opt_str (wp_evidence_state w) =
         (case dict_get (op_payload x) ''evidence_state'' of None \<Rightarrow> PNone | Some v \<Rightarrow> v)
     \<and> wp_parent_id w = None \<and> wp_managed_relations w = [] \<and> \<not> wp_superseded w"

definition postcondition ::
  "op_config \<Rightarrow> 'w openproject_remote \<Rightarrow> publication_operation \<Rightarrow> ('w, bool) action" where
  "postcondition cfg rm x =
     (if op_kind_of x = RecordAudit then act_return False
      else act_bind (resolve rm (op_identity x)) (\<lambda>current.
        if op_kind_of x = CreateWorkPackage
        then act_return (case current of None \<Rightarrow> False | Some w \<Rightarrow> created_state_matches x w)
        else case current of
          None \<Rightarrow> act_return False
        | Some w \<Rightarrow> act_bind (act_lift (postcondition_topology x w)) (\<lambda>topology.
            act_return
              (case op_kind_of x of
                 UpdateManagedFields \<Rightarrow> wp_managed_hash w = op_managed_after_hash x \<and> topology
               | MarkSuperseded \<Rightarrow> wp_superseded w \<and> topology
               | ReactivateWorkPackage \<Rightarrow>
                   dict_get (op_payload x) ''status'' = Some (PStr ''Ready'')
                   \<and> dict_get (wp_human_fields w) ''status_id'' = Some (PInt (oc_ready_status_id cfg))
                   \<and> \<not> wp_superseded w \<and> topology
               | _ \<Rightarrow> topology))))"

section \<open>Effects and their recovery\<close>

definition recover_created_id ::
  "'w openproject_remote \<Rightarrow> publication_operation \<Rightarrow> ('w, int option) action" where
  "recover_created_id rm x = act_bind (identity_matches rm (op_identity x)) (\<lambda>found.
     act_return (case found of
       [] \<Rightarrow> None
     | w # _ \<Rightarrow> if created_state_matches x w then Some (wp_id w) else None))"

definition is_duplicate_error :: "exn \<Rightarrow> bool" where
  "is_duplicate_error e = py_in ''duplicate publication identity'' (exn_message e)"

text \<open>
  The recovery read after a create whose result is open: its identifier, or \<open>ambiguous\<close>. A
  failed recovery read has a message of its own in the code after a lost response.
\<close>

definition recover_create ::
  "'w openproject_remote \<Rightarrow> publication_operation \<Rightarrow> string \<Rightarrow> ('w, int) action" where
  "recover_create rm x message =
     act_bind (act_catch (recover_created_id rm x) (\<lambda>e.
         if is_op_error e \<and> \<not> is_duplicate_error e then act_return None else act_raise e))
       (\<lambda>recovered. case recovered of
          Some n \<Rightarrow> act_return n
        | None \<Rightarrow> act_raise (AmbiguousPublicationEffect message))"

definition apply_create ::
  "'w openproject_remote \<Rightarrow> publication_operation \<Rightarrow> ('w, int) action" where
  "apply_create rm x =
     act_bind (resolve rm (op_identity x)) (\<lambda>found.
     if found \<noteq> None then act_raise (OpenProjectPublicationError ''identity appeared before create'')
     else act_bind (rm_create_form rm x) (\<lambda>_.
     act_bind (commit (rm_create rm x)) (\<lambda>response.
     case response of
       TransportLost \<Rightarrow> recover_create rm x ''OpenProject create response was lost''
     | HttpResponse status body err \<Rightarrow>
         if status \<noteq> 201 then
           if possibly_committed status
           then recover_create rm x ''OpenProject create returned a possibly committed server failure''
           else act_raise (OpenProjectPublicationError ''OpenProject create returned an error status'')
         else
           (case body of
              Some w \<Rightarrow>
                if created_state_matches x w then act_return (wp_id w)
                else recover_create rm x ''OpenProject acknowledged create without the requested exact state''
            | None \<Rightarrow>
                recover_create rm x ''OpenProject acknowledged create without the requested exact state''))))"

text \<open>
  \<^verbatim>\<open>_patch_with_one_conflict_retry\<close>: \<open>retries\<close> is 1 at the first attempt. After a lost
  response the recovery read is suppressed but the read of its result is not.
\<close>

definition recovered_package ::
  "op_config \<Rightarrow> 'w openproject_remote \<Rightarrow> publication_operation \<Rightarrow> ('w, work_package option) action" where
  "recovered_package cfg rm x =
     suppressed None (act_bind (postcondition cfg rm x) (\<lambda>holds.
       if holds then act_bind (resolve_fresh rm (op_identity x)) (\<lambda>w. act_return (Some w))
       else act_return None))"

definition or_ambiguous :: "string \<Rightarrow> 'a option \<Rightarrow> ('w, 'a) action" where
  "or_ambiguous message v =
     (case v of Some w \<Rightarrow> act_return w | None \<Rightarrow> act_raise (AmbiguousPublicationEffect message))"

fun patch_attempts ::
  "op_config \<Rightarrow> 'w openproject_remote \<Rightarrow> publication_operation \<Rightarrow> patch_payload \<Rightarrow> nat
    \<Rightarrow> work_package \<Rightarrow> ('w, work_package) action" where
  "patch_attempts cfg rm x payload retries current =
     act_bind (act_lift (raise_if
         (op_managed_before_hash x \<noteq> None \<and> wp_managed_hash current \<noteq> op_managed_before_hash x)
         (OpenProjectConflict ''managed state changed before retry''))) (\<lambda>_.
     act_bind (act_lift (assert_topology_preconditions x current)) (\<lambda>_.
     act_bind (rm_patch_form rm x payload current) (\<lambda>_.
     act_bind (commit (rm_patch rm x payload current)) (\<lambda>response.
     case response of
       TransportLost \<Rightarrow>
         act_bind (suppressed False (postcondition cfg rm x)) (\<lambda>recovered.
         if recovered then resolve_fresh rm (op_identity x)
         else act_raise (AmbiguousPublicationEffect
                ''OpenProject update response was lost and the exact postcondition is absent''))
     | HttpResponse status body err \<Rightarrow>
         if status \<noteq> 409 then
           if status \<noteq> 200 then
             if possibly_committed status
             then act_bind (recovered_package cfg rm x)
                    (or_ambiguous ''OpenProject update returned a possibly committed server failure'')
             else act_raise (OpenProjectPublicationError ''OpenProject PATCH returned an error status'')
           else
             (case body of
                Some w \<Rightarrow> act_return w
              | None \<Rightarrow> act_bind (recovered_package cfg rm x)
                  (or_ambiguous ''OpenProject acknowledged update without a verifiable response''))
         else if err \<noteq> update_conflict
         then act_raise (OpenProjectPublicationError ''OpenProject returned an unexpected 409 response'')
         else
           (case retries of
              0 \<Rightarrow> act_raise (OpenProjectConflict ''OpenProject update conflict after one retry'')
            | Suc n \<Rightarrow> act_bind (resolve_fresh rm (op_identity x)) (patch_attempts cfg rm x payload n))))))"

declare patch_attempts.simps [simp del]

section \<open>Relations\<close>

definition relation_prefix :: string where
  "relation_prefix = ''<!-- planning-platform:relation:v1:''"

definition relation_suffix :: string where
  "relation_suffix = '' -->''"

definition relation_marker :: "string \<Rightarrow> identity \<Rightarrow> identity \<Rightarrow> string" where
  "relation_marker semantic source target =
     (let (s, t) = (if semantic = ''related_to'' \<and> target < source then (target, source) else (source, target))
      in relation_prefix
         @ dumps (PDict [(''semantic'', PStr semantic), (''source'', py_identity s), (''target'', py_identity t)])
         @ relation_suffix)"

text \<open>\<^verbatim>\<open>source blocked_by target\<close> is stored as \<^verbatim>\<open>target blocks source\<close>.\<close>

definition project_relation :: "string \<Rightarrow> int \<Rightarrow> int \<Rightarrow> exn + int \<times> int \<times> string" where
  "project_relation semantic source_id target_id =
     (if semantic = ''related_to'' then Inr (min source_id target_id, max source_id target_id, ''relates'')
      else if semantic = ''blocked_by'' then Inr (target_id, source_id, ''blocks'')
      else if semantic = ''sequence_after'' then Inr (source_id, target_id, ''follows'')
      else if semantic = ''decision_required'' then Inr (source_id, target_id, ''requires'')
      else if semantic = ''governed_by'' then Inr (source_id, target_id, ''relates'')
      else Inl (OpenProjectPublicationError ''unknown planning relation''))"

definition relation_matches_marker ::
  "'w openproject_remote \<Rightarrow> op_relation \<Rightarrow> string \<Rightarrow> identity \<Rightarrow> identity \<Rightarrow> ('w, bool) action" where
  "relation_matches_marker rm rel semantic source target =
     act_bind (rm_package_identity rm (rel_from_id rel)) (\<lambda>from_identity.
     act_bind (rm_package_identity rm (rel_to_id rel)) (\<lambda>to_identity.
     let ends = (if from_identity = Some source \<and> to_identity = Some target
                 then Some (rel_from_id rel, rel_to_id rel)
                 else if from_identity = Some target \<and> to_identity = Some source
                 then Some (rel_to_id rel, rel_from_id rel) else None)
     in case ends of
          None \<Rightarrow> act_return False
        | Some (source_id, target_id) \<Rightarrow>
            act_bind (act_lift (project_relation semantic source_id target_id)) (\<lambda>native.
            act_return ((rel_from_id rel, rel_to_id rel, rel_relation_type rel) = native))))"

text \<open>The scan of the native relations of the source: the marked one, or a collision.\<close>

fun find_marked ::
  "'w openproject_remote \<Rightarrow> string \<Rightarrow> identity \<Rightarrow> identity \<Rightarrow> int \<times> int \<times> string \<Rightarrow> op_relation option
    \<Rightarrow> op_relation list \<Rightarrow> ('w, op_relation option) action" where
  "find_marked rm semantic source target native matching [] = act_return matching"
| "find_marked rm semantic source target native matching (rel # rels) =
     (if rel_description rel = relation_marker semantic source target
      then act_bind (relation_matches_marker rm rel semantic source target) (\<lambda>matches.
        if matches then find_marked rm semantic source target native (Some rel) rels
        else act_raise (OpenProjectPublicationError
               ''managed relation marker disagrees with native endpoints or type''))
      else if (rel_from_id rel, rel_to_id rel, rel_relation_type rel) = native
      then act_raise (OpenProjectPublicationError ''human/native relation semantic collision'')
      else find_marked rm semantic source target native matching rels)"

text \<open>
  What follows the commit of a relation: a lost response and a possibly committed failure are
  settled by the suppressed postcondition; after the expected status the postcondition is
  read outside of any \<^verbatim>\<open>suppress\<close>.
\<close>

definition settle_relation ::
  "op_config \<Rightarrow> 'w openproject_remote \<Rightarrow> publication_operation \<Rightarrow> int \<Rightarrow> string \<Rightarrow> http_response
    \<Rightarrow> ('w, unit) action" where
  "settle_relation cfg rm x accepted action_name response =
     (case response of
        TransportLost \<Rightarrow>
          act_bind (suppressed False (postcondition cfg rm x)) (\<lambda>holds.
          if holds then act_return ()
          else act_raise (AmbiguousPublicationEffect (action_name @ '' response was lost'')))
      | HttpResponse status body err \<Rightarrow>
          if status \<noteq> accepted then
            if possibly_committed status then
              act_bind (suppressed False (postcondition cfg rm x)) (\<lambda>holds.
              if holds then act_return ()
              else act_raise (AmbiguousPublicationEffect
                     (action_name @ '' returned a possibly committed server failure'')))
            else act_raise (OpenProjectPublicationError (action_name @ '' returned an error status''))
          else act_bind (postcondition cfg rm x) (\<lambda>holds.
            if holds then act_return ()
            else act_raise (AmbiguousPublicationEffect
                   (action_name @ '' acknowledged without its exact postcondition''))))"

definition relation_target :: "publication_operation \<Rightarrow> exn + string \<times> identity" where
  "relation_target x =
     (case dict_get (op_payload x) ''type'' of
        None \<Rightarrow> Inl (KeyError ''type'')
      | Some semantic \<Rightarrow>
          (case dict_get (op_payload x) ''target_identity'' of
             None \<Rightarrow> Inl (KeyError ''target_identity'')
           | Some target \<Rightarrow>
               (case str_pair target of
                  Some i \<Rightarrow> Inr (py_str semantic, i)
                | None \<Rightarrow> Inl (OpenProjectPublicationError ''relation target identity is invalid''))))"

definition apply_relation ::
  "op_config \<Rightarrow> 'w openproject_remote \<Rightarrow> publication_operation \<Rightarrow> bool \<Rightarrow> ('w, unit) action" where
  "apply_relation cfg rm x remove =
     act_bind (resolve_fresh rm (op_identity x)) (\<lambda>source.
     act_bind (act_lift (assert_topology_preconditions x source)) (\<lambda>_.
     act_bind (act_lift (relation_target x)) (\<lambda>(semantic, target_identity).
     act_bind (resolve_fresh rm target_identity) (\<lambda>target.
     act_bind (act_lift (project_relation semantic (wp_id source) (wp_id target))) (\<lambda>native.
     act_bind (rm_relations rm (wp_id source)) (\<lambda>rels.
     act_bind (find_marked rm semantic (op_identity x) target_identity native None rels) (\<lambda>matching.
     if remove then
       (case matching of
          None \<Rightarrow> act_return ()
        | Some rel \<Rightarrow> act_bind (commit (rm_delete_relation rm (rel_id rel)))
            (settle_relation cfg rm x 204 ''OpenProject relation deletion''))
     else
       (case matching of
          Some rel \<Rightarrow> act_return ()
        | None \<Rightarrow> act_bind (commit (rm_create_relation rm (fst native) (fst (snd native)) (snd (snd native))
                (relation_marker semantic (op_identity x) target_identity)))
            (settle_relation cfg rm x 201 ''OpenProject relation creation'')))))))))"

section \<open>apply\<close>

record publication_effect =
  ef_operation_id :: string
  ef_kind :: op_kind
  ef_identity :: identity
  ef_outcome :: string
  ef_work_package_id :: "int option"

record 'w openproject_adapter =
  ad_effects :: "publication_effect list"
  ad_world :: 'w

text \<open>An exchange with the remote side, and an append to \<^verbatim>\<open>self.effects\<close>.\<close>

definition with_world :: "('w, 'r) action \<Rightarrow> ('w openproject_adapter, 'r) action" where
  "with_world m a = (case m (ad_world a) of (r, w) \<Rightarrow> (r, a\<lparr>ad_world := w\<rparr>))"

definition record_effect ::
  "publication_operation \<Rightarrow> string \<Rightarrow> int option \<Rightarrow> ('w openproject_adapter, unit) action" where
  "record_effect x outcome package_id a =
     (Inr (), a\<lparr>ad_effects := ad_effects a @
        [\<lparr>ef_operation_id = op_id x, ef_kind = op_kind_of x, ef_identity = op_identity x,
          ef_outcome = outcome, ef_work_package_id = package_id\<rparr>]\<rparr>)"

text \<open>The payload of the four kinds that patch a work package.\<close>

definition patch_payload_of ::
  "'w openproject_remote \<Rightarrow> publication_operation \<Rightarrow> ('w, patch_payload) action" where
  "patch_payload_of rm x =
     (case op_kind_of x of
        UpdateManagedFields \<Rightarrow> act_return ManagedFields
      | SetParent \<Rightarrow>
          (case dict_get (op_payload x) ''parent_identity'' of
             None \<Rightarrow> act_raise (KeyError ''parent_identity'')
           | Some PNone \<Rightarrow> act_return (ParentLink None)
           | Some v \<Rightarrow>
               (case str_pair v of
                  None \<Rightarrow> act_raise (TypeError ''parent identity is not a pair of strings'')
                | Some i \<Rightarrow> act_bind (resolve_fresh rm i) (\<lambda>parent.
                    act_return (ParentLink (Some (wp_id parent))))))
      | MarkSuperseded \<Rightarrow> act_return (StatusLink ''Superseded'')
      | ReactivateWorkPackage \<Rightarrow>
          if dict_get (op_payload x) ''status'' \<noteq> Some (PStr ''Ready'')
          then act_raise (OpenProjectPublicationError ''reactivation requires the configured Ready status'')
          else act_return (StatusLink ''Ready'')
      | _ \<Rightarrow> act_raise (OpenProjectPublicationError ''unsupported publication operation''))"

definition apply_patch ::
  "op_config \<Rightarrow> 'w openproject_remote \<Rightarrow> publication_operation \<Rightarrow> work_package option
    \<Rightarrow> ('w, int) action" where
  "apply_patch cfg rm x current =
     act_bind (resolve_fresh rm (op_identity x)) (\<lambda>resolved.
     act_bind (act_lift (raise_if
         (case current of None \<Rightarrow> False | Some w \<Rightarrow> wp_managed_hash w \<noteq> wp_managed_hash resolved)
         (OpenProjectConflict ''managed state changed after publisher refresh''))) (\<lambda>_.
     act_bind (act_lift (assert_topology_preconditions x resolved)) (\<lambda>_.
     act_bind (patch_payload_of rm x) (\<lambda>payload.
     act_bind (patch_attempts cfg rm x payload 1 resolved) (\<lambda>result.
     act_bind (postcondition cfg rm x) (\<lambda>holds.
     if holds then act_return (wp_id result)
     else act_raise (AmbiguousPublicationEffect
            ''OpenProject update did not reach its exact postcondition'')))))))"

definition adapter_apply ::
  "op_config \<Rightarrow> 'w openproject_remote \<Rightarrow> publication_operation \<Rightarrow> string \<Rightarrow> work_package option
    \<Rightarrow> ('w openproject_adapter, unit) action" where
  "adapter_apply cfg rm x idempotency_key current =
     (if idempotency_key \<noteq> op_id x
      then act_raise (OpenProjectPublicationError ''idempotency key does not match publication operation'')
      else case op_kind_of x of
        RecordAudit \<Rightarrow> record_effect x ''recorded'' None
      | CreateWorkPackage \<Rightarrow> act_bind (with_world (apply_create rm x)) (\<lambda>n.
          record_effect x ''applied'' (Some n))
      | CreateRelation \<Rightarrow> act_bind (with_world (apply_relation cfg rm x False)) (\<lambda>_.
          record_effect x ''applied'' None)
      | RemoveManagedRelation \<Rightarrow> act_bind (with_world (apply_relation cfg rm x True)) (\<lambda>_.
          record_effect x ''applied'' None)
      | _ \<Rightarrow> act_bind (with_world (apply_patch cfg rm x current)) (\<lambda>n.
          record_effect x ''applied'' (Some n)))"

definition openproject_ops ::
  "op_config \<Rightarrow> 'w openproject_remote \<Rightarrow> 'w openproject_adapter adapter_ops" where
  "openproject_ops cfg rm = \<lparr>ao_target = (\<lambda>_. oc_target_sha256 cfg),
     ao_snapshot = with_world (rm_snapshot rm), ao_resolve = (\<lambda>i. with_world (resolve rm i)),
     ao_apply = adapter_apply cfg rm, ao_postcondition = (\<lambda>x. with_world (postcondition cfg rm x))\<rparr>"

section \<open>The adapter keeps the contract\<close>

definition effect_ids :: "'w openproject_adapter \<Rightarrow> string list" where
  "effect_ids a = map ef_operation_id (ad_effects a)"

lemma with_world_effects: "with_world m a = (r, a') \<Longrightarrow> effect_ids a' = effect_ids a"
  by (auto simp: with_world_def effect_ids_def split: prod.splits)

lemma record_effect_effects: "record_effect x outcome n a = (r, a') \<Longrightarrow> effect_ids a' = effect_ids a @ [op_id x]"
  by (auto simp: record_effect_def effect_ids_def)

lemma apply_then_record:
  assumes "act_bind (with_world m) (\<lambda>n. record_effect x outcome (f n)) a = (r, a')"
  shows "effect_ids a' = effect_ids a \<or> effect_ids a' = effect_ids a @ [op_id x]"
proof -
  obtain q a1 where q: "with_world m a = (q, a1)" by (cases "with_world m a")
  show ?thesis
  proof (cases q)
    case (Inl e)
    with assms q with_world_effects [OF q] show ?thesis by (simp add: act_bind_def)
  next
    case (Inr n)
    with assms q have "record_effect x outcome (f n) a1 = (r, a')" by (simp add: act_bind_def)
    from record_effect_effects [OF this] with_world_effects [OF q] show ?thesis by simp
  qed
qed

lemma adapter_apply_effects:
  "adapter_apply cfg rm x key current a = (r, a') \<Longrightarrow>
     effect_ids a' = effect_ids a \<or> effect_ids a' = effect_ids a @ [op_id x]"
  by (cases "op_kind_of x")
    (auto simp: adapter_apply_def act_raise_def dest: apply_then_record record_effect_effects split: if_splits)

interpretation openproject: publication_adapter "openproject_ops cfg rm" effect_ids for cfg rm
proof unfold_locales
  fix a r a'
  show "ao_snapshot (openproject_ops cfg rm) a = (r, a') \<Longrightarrow> effect_ids a' = effect_ids a"
    by (simp add: openproject_ops_def with_world_effects)
next
  fix ident a r a'
  show "ao_resolve (openproject_ops cfg rm) ident a = (r, a') \<Longrightarrow> effect_ids a' = effect_ids a"
    by (simp add: openproject_ops_def with_world_effects)
next
  fix x a r a'
  show "ao_postcondition (openproject_ops cfg rm) x a = (r, a') \<Longrightarrow> effect_ids a' = effect_ids a"
    by (simp add: openproject_ops_def with_world_effects)
next
  fix x key current a r a'
  show "ao_apply (openproject_ops cfg rm) x key current a = (r, a') \<Longrightarrow>
      effect_ids a' = effect_ids a \<or> effect_ids a' = effect_ids a @ [op_id x]"
    by (simp add: openproject_ops_def adapter_apply_effects)
qed

end
