(* ===== verification/PgJournal.thy ===== *)
theory PgJournal
  imports Journal
begin

text \<open>
  \<^verbatim>\<open>PostgresPublicationJournal\<close> of \<^verbatim>\<open>src/planning_platform/publication_journal.py\<close>
  over a model of the database it writes: the tables \<^verbatim>\<open>planning_publication.publications\<close>
  and \<^verbatim>\<open>planning_publication.operations\<close>, keyed by their primary keys, and the table of
  advisory locks (scope to the session that holds it). A failed statement rolls its transaction
  back, so every operation either leaves the database as it was or writes all its rows.
  Timestamps, error codes and the redacted result column are written but never read by the
  code; they are left out. \<^verbatim>\<open>ready\<close> (a comparison of catalog queries) is the flag
  \<open>db_ready\<close>. Of the table constraints the ones on values the caller supplies are modelled;
  those on digests hold of every value of \<^verbatim>\<open>hexdigest\<close>.
\<close>

record pg_publication =
  pp_identity :: string
  pp_target :: string
  pp_envelope_sha256 :: string
  pp_operations_sha256 :: string
  pp_state :: string
  pp_legacy_archive :: bool

record pg_operation =
  po_ordinal :: nat
  po_sha256 :: string
  po_document :: publication_operation
  po_state :: string

record pg_db =
  db_ready :: bool
  db_publications :: "(string, pg_publication) dict"
  db_operations :: "(string \<times> string, pg_operation) dict"
  db_locks :: "(string, nat) dict"

text \<open>One journal instance: \<^verbatim>\<open>_fence\<close> is the scope its lock connection holds.\<close>

record pg_journal =
  pj_db :: pg_db
  pj_session :: nat
  pj_fence :: "string option"
  pj_active :: string

definition legacy_target_sha256 :: string where
  "legacy_target_sha256 = replicate 64 (CHR ''0'')"

definition pg_publication_states :: "string list" where
  "pg_publication_states = [''in_progress'', ''completed'', ''failed'']"

definition pg_operation_states :: "string list" where
  "pg_operation_states = [''planned'', ''intent'', ''ambiguous'', ''retryable'', ''applied'']"

section \<open>The session fence\<close>

definition pg_acquire_fence :: "string \<Rightarrow> string \<Rightarrow> (pg_journal, unit) action" where
  "pg_acquire_fence event publication_identity j =
     (case pj_fence j of
        Some scope \<Rightarrow>
          (if pj_active j \<noteq> event
           then Inl (PublicationJournalMismatch ''journal instance already fences another publication'')
           else Inr (), j)
      | None \<Rightarrow>
          (case publication_scope publication_identity of
             Inl e \<Rightarrow> (Inl e, j)
           | Inr scope \<Rightarrow>
               if dict_get (db_locks (pj_db j)) scope \<noteq> None
               then (Inl (PublicationJournalMismatch ''publication is already in progress''), j)
               else (Inr (), j\<lparr>pj_db := (pj_db j)\<lparr>db_locks := dict_set scope (pj_session j) (db_locks (pj_db j))\<rparr>,
                              pj_fence := Some scope, pj_active := event\<rparr>)))"

definition pg_close :: "pg_journal \<Rightarrow> pg_journal" where
  "pg_close j =
     (case pj_fence j of
        None \<Rightarrow> j\<lparr>pj_active := []\<rparr>
      | Some scope \<Rightarrow> j\<lparr>pj_db := (pj_db j)\<lparr>db_locks := dict_del scope (db_locks (pj_db j))\<rparr>,
                        pj_fence := None, pj_active := []\<rparr>)"

text \<open>\<^verbatim>\<open>except Exception: self.close(); raise\<close>.\<close>

definition pg_closing :: "(pg_journal, 'a) action \<Rightarrow> (pg_journal, 'a) action" where
  "pg_closing m = act_catch m (\<lambda>e j. (Inl e, pg_close j))"

section \<open>resume and begin\<close>

text \<open>\<^verbatim>\<open>SELECT ... FROM operations WHERE approval_event_id=%s ORDER BY ordinal\<close>.\<close>

definition pg_recorded_rows :: "pg_db \<Rightarrow> string \<Rightarrow> pg_operation list" where
  "pg_recorded_rows db event =
     sort_key po_ordinal (map snd (filter (\<lambda>((ev, i), row). ev = event) (db_operations db)))"

definition aggregate_hash :: "(string \<Rightarrow> string) \<Rightarrow> publication_operation list \<Rightarrow> string" where
  "aggregate_hash sha ops = sha (concat (map (operation_hash sha) ops))"

definition pg_check_publication ::
  "(string \<Rightarrow> string) \<Rightarrow> publication_envelope \<Rightarrow> pg_publication \<Rightarrow> exn + unit" where
  "pg_check_publication sha e row =
     res_bind (raise_if (pp_legacy_archive row)
       (PublicationJournalMismatch ''legacy publication is archived and cannot be replayed'')) (\<lambda>_.
     res_bind (raise_if (pp_target row \<noteq> pe_publication_target_sha256 e)
       (PublicationJournalMismatch ''OpenProject publication target changed'')) (\<lambda>_.
     raise_if (pp_identity row \<noteq> pe_publication_identity e
         \<or> pp_envelope_sha256 row \<noteq> envelope_hash sha e)
       (PublicationJournalMismatch
         ''publication approval event has a different immutable envelope'')))"

definition pg_check_operations ::
  "(string \<Rightarrow> string) \<Rightarrow> pg_publication \<Rightarrow> pg_operation list \<Rightarrow> publication_operation list
    \<Rightarrow> exn + unit" where
  "pg_check_operations sha row recorded restored =
     res_bind (raise_if (map po_ordinal recorded \<noteq> [0..<length recorded])
       (PublicationJournalMismatch ''stored publication ordinals are not contiguous'')) (\<lambda>_.
     res_bind (raise_if (map (operation_hash sha) restored \<noteq> map po_sha256 recorded)
       (PublicationJournalMismatch ''stored publication operation hash mismatch'')) (\<lambda>_.
     res_bind (raise_if (aggregate_hash sha restored \<noteq> pp_operations_sha256 row)
       (PublicationJournalMismatch ''stored publication aggregate hash mismatch'')) (\<lambda>_.
     res_bind (raise_if (pp_state row \<notin> set pg_publication_states
         \<or> \<not> list_all (\<lambda>r. po_state r \<in> set pg_operation_states) recorded)
       (PublicationJournalMismatch ''stored publication state is invalid'')) (\<lambda>_.
     res_bind (raise_if (pp_state row = ''failed'')
       (PublicationJournalMismatch ''publication is terminally failed'')) (\<lambda>_.
     raise_if (pp_state row = ''completed'' \<and> \<not> list_all (\<lambda>r. po_state r = ''applied'') recorded)
       (PublicationJournalMismatch ''completed publication has incomplete operations''))))))"

definition pg_recorded_run ::
  "(string \<Rightarrow> string) \<Rightarrow> pg_db \<Rightarrow> publication_envelope
    \<Rightarrow> exn + (publication_operation list \<times> string list) option" where
  "pg_recorded_run sha db e =
     (case dict_get (db_publications db) (pe_approval_event_id e) of
        None \<Rightarrow> Inr None
      | Some row \<Rightarrow>
          res_bind (pg_check_publication sha e row) (\<lambda>_.
          let recorded = pg_recorded_rows db (pe_approval_event_id e);
              restored = map (restored_operation \<circ> po_document) recorded
          in res_bind (pg_check_operations sha row recorded restored) (\<lambda>_.
             Inr (Some (restored, map (op_id \<circ> restored_operation \<circ> po_document)
               (filter (\<lambda>r. po_state r = ''applied'') recorded))))))"

definition pg_entry :: "publication_envelope \<Rightarrow> (pg_journal, unit) action" where
  "pg_entry e j =
     (if \<not> db_ready (pj_db j)
      then (Inl (PublicationJournalMismatch ''publication journal schema is not ready''), j)
      else if pe_publication_identity e = []
      then (Inl (PublicationJournalMismatch ''publication identity is required''), j)
      else pg_acquire_fence (pe_approval_event_id e) (pe_publication_identity e) j)"

definition pg_resume ::
  "(string \<Rightarrow> string) \<Rightarrow> publication_envelope
    \<Rightarrow> (pg_journal, (publication_operation list \<times> string list) option) action" where
  "pg_resume sha e = act_bind (pg_entry e) (\<lambda>_.
     pg_closing (\<lambda>j. (pg_recorded_run sha (pj_db j) e, j)))"

text \<open>The row inserts of \<^verbatim>\<open>begin\<close>; a violated constraint aborts the transaction.\<close>

definition pg_insert_publication ::
  "(string \<Rightarrow> string) \<Rightarrow> publication_envelope \<Rightarrow> publication_operation list \<Rightarrow> pg_db
    \<Rightarrow> exn + pg_db" where
  "pg_insert_publication sha e ops db =
     (if pe_approval_event_id e = []
         \<or> \<not> hex_of_length 64 (pe_publication_target_sha256 e)
         \<or> pe_publication_target_sha256 e = legacy_target_sha256
      then Inl (DatabaseError ''check constraint violation'')
      else Inr (db\<lparr>db_publications := dict_set (pe_approval_event_id e)
             \<lparr>pp_identity = pe_publication_identity e, pp_target = pe_publication_target_sha256 e,
              pp_envelope_sha256 = envelope_hash sha e,
              pp_operations_sha256 = aggregate_hash sha ops,
              pp_state = ''in_progress'', pp_legacy_archive = False\<rparr> (db_publications db)\<rparr>))"

fun pg_insert_operations ::
  "(string \<Rightarrow> string) \<Rightarrow> string \<Rightarrow> nat \<Rightarrow> publication_operation list \<Rightarrow> pg_db \<Rightarrow> exn + pg_db" where
  "pg_insert_operations sha event ordinal [] db = Inr db"
| "pg_insert_operations sha event ordinal (x # xs) db =
     (if dict_get (db_operations db) (event, op_id x) \<noteq> None
      then Inl (DatabaseError ''unique constraint violation'')
      else pg_insert_operations sha event (Suc ordinal) xs
        (db\<lparr>db_operations := dict_set (event, op_id x)
             \<lparr>po_ordinal = ordinal, po_sha256 = operation_hash sha x,
              po_document = jsonb_operation x, po_state = ''planned''\<rparr> (db_operations db)\<rparr>))"

definition pg_insert_run ::
  "(string \<Rightarrow> string) \<Rightarrow> publication_envelope \<Rightarrow> publication_operation list
    \<Rightarrow> (pg_journal, unit) action" where
  "pg_insert_run sha e ops j =
     (case res_bind (pg_insert_publication sha e ops (pj_db j))
         (pg_insert_operations sha (pe_approval_event_id e) 0 ops) of
        Inl ex \<Rightarrow> (Inl ex, j)
      | Inr db \<Rightarrow> (Inr (), j\<lparr>pj_db := db\<rparr>))"

definition pg_begin_transaction ::
  "(string \<Rightarrow> string) \<Rightarrow> publication_envelope \<Rightarrow> publication_operation list
    \<Rightarrow> (pg_journal, publication_operation list \<times> string list) action" where
  "pg_begin_transaction sha e ops j =
     (case dict_get (db_publications (pj_db j)) (pe_approval_event_id e) of
        Some row \<Rightarrow>
          if pp_envelope_sha256 row \<noteq> envelope_hash sha e
          then (Inl (PublicationJournalMismatch
                  ''publication approval event has a different immutable envelope''), j)
          else act_bind (pg_resume sha e) (\<lambda>r. act_return (case r of None \<Rightarrow> ([], []) | Some x \<Rightarrow> x)) j
      | None \<Rightarrow> act_bind (pg_insert_run sha e ops) (\<lambda>_. act_return (ops, [])) j)"

definition pg_begin ::
  "(string \<Rightarrow> string) \<Rightarrow> publication_envelope \<Rightarrow> publication_operation list
    \<Rightarrow> (pg_journal, publication_operation list \<times> string list) action" where
  "pg_begin sha e ops = act_bind (pg_entry e) (\<lambda>_. pg_closing (pg_begin_transaction sha e ops))"

section \<open>Operation states\<close>

text \<open>\<^verbatim>\<open>UPDATE operations SET state=... WHERE ... AND state IN (...)\<close>, and the row count test.\<close>

definition pg_transition ::
  "string list \<Rightarrow> string \<Rightarrow> string \<Rightarrow> publication_operation \<Rightarrow> (pg_journal, unit) action" where
  "pg_transition from_states to_state message x j =
     (let key = (pj_active j, op_id x); db = pj_db j in
      case dict_get (db_operations db) key of
        None \<Rightarrow> (Inl (PublicationJournalMismatch message), j)
      | Some row \<Rightarrow>
          if po_state row \<notin> set from_states
          then (Inl (PublicationJournalMismatch message), j)
          else (Inr (), j\<lparr>pj_db := db\<lparr>db_operations :=
                  dict_set key (row\<lparr>po_state := to_state\<rparr>) (db_operations db)\<rparr>\<rparr>))"

definition pg_intent :: "publication_operation \<Rightarrow> (pg_journal, unit) action" where
  "pg_intent = pg_transition [''planned'', ''retryable''] ''intent''
     ''invalid operation state transition to intent''"

definition pg_outcome :: "publication_operation \<Rightarrow> string \<Rightarrow> (pg_journal, unit) action" where
  "pg_outcome x result = pg_transition [''intent'', ''retryable'', ''ambiguous''] ''applied''
     ''invalid operation state transition to applied'' x"

definition pg_failure :: "publication_operation \<Rightarrow> exn \<Rightarrow> (pg_journal, unit) action" where
  "pg_failure x e = pg_transition [''intent''] (failure_state e)
     ''invalid operation state transition to failure'' x"

definition pg_state :: "publication_operation \<Rightarrow> (pg_journal, string) action" where
  "pg_state x j =
     (case dict_get (db_operations (pj_db j)) (pj_active j, op_id x) of
        None \<Rightarrow> (Inl (PublicationJournalMismatch ''publication operation state is unavailable''), j)
      | Some row \<Rightarrow>
          (if po_state row \<notin> set pg_operation_states
           then Inl (PublicationJournalMismatch ''publication operation state is unavailable'')
           else Inr (po_state row), j))"

definition pg_all_applied :: "pg_db \<Rightarrow> string \<Rightarrow> bool" where
  "pg_all_applied db event \<longleftrightarrow>
     list_all (\<lambda>((ev, i), row). ev = event \<longrightarrow> po_state row = ''applied'') (db_operations db)"

definition pg_finalize :: "(pg_journal, unit) action" where
  "pg_finalize j =
     (let db = pj_db j in
      case dict_get (db_publications db) (pj_active j) of
        None \<Rightarrow> (Inl (PublicationJournalMismatch ''publication cannot transition to completed''), j)
      | Some row \<Rightarrow>
          if pp_state row = ''in_progress'' \<and> pg_all_applied db (pj_active j)
          then (Inr (), pg_close (j\<lparr>pj_db := db\<lparr>db_publications :=
                  dict_set (pj_active j) (row\<lparr>pp_state := ''completed''\<rparr>) (db_publications db)\<rparr>\<rparr>))
          else if pp_state row = ''completed'' \<and> pg_all_applied db (pj_active j)
          then (Inr (), pg_close j)
          else (Inl (PublicationJournalMismatch ''publication cannot transition to completed''), j))"

section \<open>The journal keeps the contract\<close>

definition pg_ops :: "(string \<Rightarrow> string) \<Rightarrow> pg_journal journal_ops" where
  "pg_ops sha = \<lparr>jo_ready = (\<lambda>j. db_ready (pj_db j)), jo_resume = pg_resume sha, jo_begin = pg_begin sha,
     jo_intent = pg_intent, jo_outcome = pg_outcome, jo_failure = pg_failure,
     jo_state = pg_state, jo_finalize = pg_finalize, jo_close = pg_close\<rparr>"

definition pg_status :: "pg_journal \<Rightarrow> run_states" where
  "pg_status j event i = map_option po_state (dict_get (db_operations (pj_db j)) (event, i))"

text \<open>Keys are unique, and a stored document carries the operation identifier of its row.\<close>

definition pg_inv :: "pg_journal \<Rightarrow> bool" where
  "pg_inv j \<longleftrightarrow> distinct (dict_keys (db_operations (pj_db j))) \<and>
     (\<forall>event i row. dict_get (db_operations (pj_db j)) (event, i) = Some row \<longrightarrow>
        op_id (po_document row) = i)"

named_theorems pg_simps \<open>what the journal operations leave alone\<close>

lemma pg_close_ops [pg_simps]: "db_operations (pj_db (pg_close j)) = db_operations (pj_db j)"
  by (simp add: pg_close_def split: option.splits)

lemma pg_acquire_fence_ops [pg_simps]:
  "pg_acquire_fence event ident j = (r, j') \<Longrightarrow> db_operations (pj_db j') = db_operations (pj_db j)"
  by (auto simp: pg_acquire_fence_def split: option.splits sum.splits if_splits)

lemma pg_acquire_fence_publications:
  "pg_acquire_fence event ident j = (r, j') \<Longrightarrow> db_publications (pj_db j') = db_publications (pj_db j)"
  by (auto simp: pg_acquire_fence_def split: option.splits sum.splits if_splits)

lemma pg_entry_ops: "pg_entry e j = (r, j') \<Longrightarrow> db_operations (pj_db j') = db_operations (pj_db j)"
  by (auto simp: pg_entry_def dest: pg_acquire_fence_ops split: if_splits)

lemma pg_entry_active: "pg_entry e j = (Inr u, j') \<Longrightarrow>
    pj_active j' = pe_approval_event_id e \<and> pj_fence j' \<noteq> None"
  by (auto simp: pg_entry_def pg_acquire_fence_def split: option.splits sum.splits if_splits)

lemma pg_inv_cong:
  "db_operations (pj_db j') = db_operations (pj_db j) \<Longrightarrow> pg_inv j \<Longrightarrow> pg_inv j'"
  by (auto simp: pg_inv_def)

lemma pg_status_cong:
  "db_operations (pj_db j') = db_operations (pj_db j) \<Longrightarrow> pg_status j' = pg_status j"
  by (simp add: pg_status_def fun_eq_iff)

lemma pg_close_released [simp]: "pj_fence (pg_close j) = None" "pj_active (pg_close j) = []"
  by (simp_all add: pg_close_def split: option.splits)

lemma pg_entry_inv:
  assumes "pg_inv j" and "pg_entry e j = (r, j')"
  shows "pg_inv j' \<and> pg_status j' = pg_status j"
  using assms by (auto dest: pg_entry_ops intro: pg_inv_cong pg_status_cong)

lemma pg_close_inv: "pg_inv j \<Longrightarrow> pg_inv (pg_close j) \<and> pg_status (pg_close j) = pg_status j"
  by (auto intro: pg_inv_cong pg_status_cong simp: pg_simps)

lemma set_pg_recorded_rows:
  "pg_inv j \<Longrightarrow> row \<in> set (pg_recorded_rows (pj_db j) event) \<longleftrightarrow>
     dict_get (db_operations (pj_db j)) (event, op_id (po_document row)) = Some row"
  by (force simp: pg_recorded_rows_def pg_inv_def)

lemma pg_recorded_run_completed:
  assumes "pg_inv j" and "pg_recorded_run sha (pj_db j) e = Inr (Some (ops, completed))" and "x \<in> set ops"
  shows "op_id x \<in> set completed \<longleftrightarrow> pg_status j (pe_approval_event_id e) (op_id x) = Some ''applied''"
proof -
  let ?rows = "pg_recorded_rows (pj_db j) (pe_approval_event_id e)"
  from assms(2) have ops: "ops = map (restored_operation \<circ> po_document) ?rows"
    and completed: "completed = map (op_id \<circ> restored_operation \<circ> po_document)
        (filter (\<lambda>r. po_state r = ''applied'') ?rows)"
    by (auto simp: pg_recorded_run_def res_simps Let_def split: option.splits)
  from assms(3) ops obtain row where row: "row \<in> set ?rows" "op_id x = op_id (po_document row)"
    by auto
  then have get: "dict_get (db_operations (pj_db j)) (pe_approval_event_id e, op_id x) = Some row"
    using set_pg_recorded_rows [OF assms(1)] by simp
  have "op_id x \<in> set completed \<longleftrightarrow>
      (\<exists>r \<in> set ?rows. po_state r = ''applied'' \<and> op_id (po_document r) = op_id x)"
    by (auto simp: completed image_iff)
  also have "\<dots> \<longleftrightarrow> po_state row = ''applied''"
  proof
    assume "\<exists>r \<in> set ?rows. po_state r = ''applied'' \<and> op_id (po_document r) = op_id x"
    then obtain r where "r \<in> set ?rows" "po_state r = ''applied''" "op_id (po_document r) = op_id x"
      by blast
    with get show "po_state row = ''applied''"
      using set_pg_recorded_rows [OF assms(1)] by simp
  qed (use row in auto)
  finally show ?thesis by (simp add: pg_status_def get)
qed

lemma pg_resume_law:
  assumes "pg_inv j" and "pg_resume sha e j = (r, j')"
  shows "pg_inv j' \<and> pg_status j' = pg_status j \<and>
    (\<forall>ops completed. r = Inr (Some (ops, completed)) \<longrightarrow> pj_active j' = pe_approval_event_id e \<and>
       (\<forall>x \<in> set ops. op_id x \<in> set completed \<longleftrightarrow>
          pg_status j' (pe_approval_event_id e) (op_id x) = Some ''applied''))"
proof -
  obtain r0 j0 where entry: "pg_entry e j = (r0, j0)"
    by (cases "pg_entry e j")
  note inv = pg_entry_inv [OF assms(1) entry]
  show ?thesis
  proof (cases r0)
    case (Inl ex)
    with entry assms(2) inv show ?thesis
      by (auto simp: pg_resume_def act_bind_def)
  next
    case (Inr u)
    with entry have active: "pj_active j0 = pe_approval_event_id e"
      by (auto dest: pg_entry_active)
    from Inr entry assms(2) have run:
      "pg_closing (\<lambda>j. (pg_recorded_run sha (pj_db j) e, j)) j0 = (r, j')"
      by (simp add: pg_resume_def act_bind_def)
    show ?thesis
    proof (cases "pg_recorded_run sha (pj_db j0) e")
      case (Inl ex)
      with run have "j' = pg_close j0" "r = Inl ex"
        by (simp_all add: pg_closing_def act_catch_def)
      with inv pg_close_inv [of j0] show ?thesis by simp
    next
      case (Inr res)
      with run have "j' = j0" "r = Inr res"
        by (simp_all add: pg_closing_def act_catch_def)
      with inv active Inr show ?thesis by (auto dest: pg_recorded_run_completed)
    qed
  qed
qed

subsection \<open>begin\<close>

definition planned_row ::
  "(string \<Rightarrow> string) \<Rightarrow> nat \<times> publication_operation \<Rightarrow> pg_operation" where
  "planned_row sha = (\<lambda>(n, x). \<lparr>po_ordinal = n, po_sha256 = operation_hash sha x,
     po_document = jsonb_operation x, po_state = ''planned''\<rparr>)"

lemma pg_insert_operations_Inr:
  "pg_insert_operations sha event n ops db = Inr db' \<Longrightarrow>
     db' = db\<lparr>db_operations := db_operations db @
              map (\<lambda>p. ((event, op_id (snd p)), planned_row sha p)) (enumerate n ops)\<rparr> \<and>
     distinct (map op_id ops) \<and> (\<forall>x \<in> set ops. dict_get (db_operations db) (event, op_id x) = None)"
proof (induction ops arbitrary: n db)
  case Nil
  then show ?case by simp
next
  case (Cons x xs)
  from Cons.prems have fresh: "dict_get (db_operations db) (event, op_id x) = None"
    by (auto split: if_splits)
  let ?db = "db\<lparr>db_operations := db_operations db @ [((event, op_id x), planned_row sha (n, x))]\<rparr>"
  from Cons.prems fresh have "pg_insert_operations sha event (Suc n) xs ?db = Inr db'"
    by (simp add: dict_set_fresh planned_row_def)
  note IH = Cons.IH [OF this]
  then have later: "\<forall>y \<in> set xs. dict_get (db_operations db) (event, op_id y) = None \<and> op_id y \<noteq> op_id x"
    by (auto simp: map_add_def split: option.splits if_splits)
  with IH fresh show ?case by auto
qed

lemma pg_insert_run_Inr:
  assumes "pg_insert_run sha e ops j = (Inr u, j')"
  shows "db_operations (pj_db j') = db_operations (pj_db j) @
      map (\<lambda>p. ((pe_approval_event_id e, op_id (snd p)), planned_row sha p)) (enumerate 0 ops)"
    and "distinct (map op_id ops)"
    and "\<forall>x \<in> set ops. dict_get (db_operations (pj_db j)) (pe_approval_event_id e, op_id x) = None"
    and "dict_get (db_publications (pj_db j')) (pe_approval_event_id e) =
      Some \<lparr>pp_identity = pe_publication_identity e, pp_target = pe_publication_target_sha256 e,
            pp_envelope_sha256 = envelope_hash sha e, pp_operations_sha256 = aggregate_hash sha ops,
            pp_state = ''in_progress'', pp_legacy_archive = False\<rparr>"
    and "pj_fence j' = pj_fence j" and "pj_active j' = pj_active j"
    and "db_ready (pj_db j') = db_ready (pj_db j)" and "pj_session j' = pj_session j"
    and "db_locks (pj_db j') = db_locks (pj_db j)"
proof -
  from assms obtain db0 db where db0: "pg_insert_publication sha e ops (pj_db j) = Inr db0"
    and db: "pg_insert_operations sha (pe_approval_event_id e) 0 ops db0 = Inr db"
    and j': "j' = j\<lparr>pj_db := db\<rparr>"
    by (auto simp: pg_insert_run_def res_simps split: sum.splits)
  from db0 have db0: "db_operations db0 = db_operations (pj_db j)" "db_ready db0 = db_ready (pj_db j)"
    "db_locks db0 = db_locks (pj_db j)"
    "dict_get (db_publications db0) (pe_approval_event_id e) =
      Some \<lparr>pp_identity = pe_publication_identity e, pp_target = pe_publication_target_sha256 e,
            pp_envelope_sha256 = envelope_hash sha e, pp_operations_sha256 = aggregate_hash sha ops,
            pp_state = ''in_progress'', pp_legacy_archive = False\<rparr>"
    by (auto simp: pg_insert_publication_def dict_simps split: if_splits)
  note ins = pg_insert_operations_Inr [OF db]
  show "db_operations (pj_db j') = db_operations (pj_db j) @
      map (\<lambda>p. ((pe_approval_event_id e, op_id (snd p)), planned_row sha p)) (enumerate 0 ops)"
    using ins j' db0 by simp
  show "distinct (map op_id ops)"
    "\<forall>x \<in> set ops. dict_get (db_operations (pj_db j)) (pe_approval_event_id e, op_id x) = None"
    using ins db0 by simp_all
  show "dict_get (db_publications (pj_db j')) (pe_approval_event_id e) =
      Some \<lparr>pp_identity = pe_publication_identity e, pp_target = pe_publication_target_sha256 e,
            pp_envelope_sha256 = envelope_hash sha e, pp_operations_sha256 = aggregate_hash sha ops,
            pp_state = ''in_progress'', pp_legacy_archive = False\<rparr>"
    using ins j' db0(4) by simp
  show "pj_fence j' = pj_fence j" "pj_active j' = pj_active j" "db_ready (pj_db j') = db_ready (pj_db j)"
    "pj_session j' = pj_session j" "db_locks (pj_db j') = db_locks (pj_db j)"
    using ins j' db0 by simp_all
qed

lemma dict_get_planned_rows:
  "dict_get (map (\<lambda>p. ((event, op_id (snd p)), planned_row sha p)) (enumerate n ops)) (ev, i) =
    (if ev = event then map_option (planned_row sha)
       (List.find (\<lambda>p. op_id (snd p) = i) (enumerate n ops)) else None)"
  by (induction ops arbitrary: n) auto

lemma planned_row_simps [simp]:
  "po_state (planned_row sha p) = ''planned''" "po_ordinal (planned_row sha p) = fst p"
  "po_document (planned_row sha p) = jsonb_operation (snd p)"
  "po_sha256 (planned_row sha p) = operation_hash sha (snd p)"
  by (simp_all add: planned_row_def split: prod.splits)

lemma find_op_id:
  "List.find (\<lambda>p. op_id (snd p) = i) (enumerate n ops) = Some p \<Longrightarrow> op_id (snd p) = i"
  by (auto simp: find_Some_iff)

lemma find_op_id_None:
  "List.find (\<lambda>p. op_id (snd p) = i) (enumerate n ops) = None \<longleftrightarrow> i \<notin> op_id ` set ops"
  by (induction ops arbitrary: n) auto

lemma planned_rows_status:
  "map_option po_state
     (dict_get (map (\<lambda>p. ((event, op_id (snd p)), planned_row sha p)) (enumerate n ops)) (ev, i)) =
   (if ev = event \<and> i \<in> op_id ` set ops then Some ''planned'' else None)"
proof (cases "List.find (\<lambda>p. op_id (snd p) = i) (enumerate n ops)")
  case None
  then show ?thesis using find_op_id_None [of i n ops] by (simp add: dict_get_planned_rows)
next
  case (Some p)
  then have "i \<in> op_id ` set ops" using find_op_id_None [of i n ops] by fastforce
  with Some show ?thesis by (simp add: dict_get_planned_rows)
qed

lemma pg_insert_run_law:
  assumes inv: "pg_inv j" and run: "pg_insert_run sha e ops j = (Inr u, j')"
  shows "pg_inv j' \<and>
    pg_status j' = (\<lambda>ev i. if ev = pe_approval_event_id e \<and> i \<in> op_id ` set ops
      then Some ''planned'' else pg_status j ev i)"
    and "x \<in> set ops \<Longrightarrow> pg_status j (pe_approval_event_id e) (op_id x) = None"
proof -
  note ins = pg_insert_run_Inr [OF run]
  let ?new = "map (\<lambda>p. ((pe_approval_event_id e, op_id (snd p)), planned_row sha p)) (enumerate 0 ops)"
  have keys: "dict_keys ?new = map (\<lambda>x. (pe_approval_event_id e, op_id x)) ops"
    by (rule nth_equalityI) (auto simp: nth_enumerate_eq)
  have "distinct (dict_keys ?new)"
    unfolding keys using ins(2) by (simp add: distinct_map inj_on_def)
  moreover have "set (dict_keys (db_operations (pj_db j))) \<inter> set (dict_keys ?new) = {}"
    unfolding keys using ins(3) by (auto simp: map_of_eq_None_iff)
  ultimately have distinct: "distinct (dict_keys (db_operations (pj_db j')))"
    using inv unfolding ins(1) pg_inv_def by simp
  have lookup: "dict_get (db_operations (pj_db j')) (ev, i) =
      (case dict_get (db_operations (pj_db j)) (ev, i) of Some row \<Rightarrow> Some row
       | None \<Rightarrow> dict_get ?new (ev, i))" for ev i
    unfolding ins(1) by (simp add: map_add_def)
  show "pg_status j (pe_approval_event_id e) (op_id x) = None" if "x \<in> set ops"
    using ins(3) that by (simp add: pg_status_def)
  have "pg_status j' ev i = (if ev = pe_approval_event_id e \<and> i \<in> op_id ` set ops
      then Some ''planned'' else pg_status j ev i)" for ev i
  proof (cases "dict_get (db_operations (pj_db j)) (ev, i)")
    case None
    have "pg_status j' ev i = map_option po_state (dict_get ?new (ev, i))"
      by (simp add: pg_status_def lookup None)
    then show ?thesis unfolding planned_rows_status by (simp add: pg_status_def None)
  next
    case (Some row)
    with ins(3) show ?thesis by (auto simp: pg_status_def lookup)
  qed
  then have "pg_status j' = (\<lambda>ev i. if ev = pe_approval_event_id e \<and> i \<in> op_id ` set ops
      then Some ''planned'' else pg_status j ev i)" by (simp add: fun_eq_iff)
  moreover have "pg_inv j'"
    using inv distinct unfolding pg_inv_def lookup ins(5,6)
    by (auto simp: dict_get_planned_rows dest: find_op_id split: option.splits if_splits)
  ultimately show "pg_inv j' \<and>
    pg_status j' = (\<lambda>ev i. if ev = pe_approval_event_id e \<and> i \<in> op_id ` set ops
      then Some ''planned'' else pg_status j ev i)" by simp
qed

text \<open>What \<^verbatim>\<open>begin\<close> promises, for its transaction and for the whole call.\<close>

definition pg_begun ::
  "publication_envelope \<Rightarrow> run_states \<Rightarrow> exn + publication_operation list \<times> string list
    \<Rightarrow> pg_journal \<Rightarrow> bool" where
  "pg_begun e old r j' \<longleftrightarrow> pg_inv j' \<and>
     (\<forall>ev i. pg_status j' ev i = old ev i
        \<or> (ev = pe_approval_event_id e \<and> old ev i = None \<and> pg_status j' ev i = Some ''planned'')) \<and>
     (\<forall>ops' completed. r = Inr (ops', completed) \<longrightarrow> pj_active j' = pe_approval_event_id e \<and>
        (\<forall>x \<in> set ops'. op_id x \<in> set completed \<longleftrightarrow>
           pg_status j' (pe_approval_event_id e) (op_id x) = Some ''applied''))"

lemma pg_begin_transaction_law:
  assumes inv: "pg_inv j" and active: "pj_active j = pe_approval_event_id e" "pj_fence j \<noteq> None"
    and run: "pg_begin_transaction sha e ops j = (r, j')"
  shows "pg_begun e (pg_status j) r j'"
proof (cases "dict_get (db_publications (pj_db j)) (pe_approval_event_id e)")
  case None
  show ?thesis
  proof (cases "pg_insert_run sha e ops j")
    case (Pair r0 j0)
    show ?thesis
    proof (cases r0)
      case (Inl ex)
      with run None Pair have "r = Inl ex" "j' = j0"
        by (simp_all add: pg_begin_transaction_def act_bind_def)
      moreover from Pair Inl have "j0 = j"
        by (auto simp: pg_insert_run_def split: sum.splits)
      ultimately show ?thesis using inv by (simp add: pg_begun_def)
    next
      case (Inr u)
      with run None Pair have "r = Inr (ops, [])" "j' = j0"
        by (simp_all add: pg_begin_transaction_def act_bind_def act_return_def)
      with Pair Inr show ?thesis
        using pg_insert_run_law [OF inv, of sha e ops u j'] pg_insert_run_Inr(6) [of sha e ops j u j'] active
        by (auto simp: pg_begun_def)
    qed
  qed
next
  case (Some row)
  show ?thesis
  proof (cases "pp_envelope_sha256 row = envelope_hash sha e")
    case False
    with run Some inv show ?thesis
      by (auto simp: pg_begin_transaction_def pg_begun_def)
  next
    case True
    obtain r0 j0 where resume: "pg_resume sha e j = (r0, j0)"
      by (cases "pg_resume sha e j")
    note law = pg_resume_law [OF inv resume]
    show ?thesis
    proof (cases r0)
      case (Inl ex)
      with run Some True resume law show ?thesis
        by (auto simp: pg_begin_transaction_def act_bind_def pg_begun_def)
    next
      case (Inr res)
      with run Some True resume have r: "r = Inr (case res of None \<Rightarrow> ([], []) | Some x \<Rightarrow> x)" "j' = j0"
        by (simp_all add: pg_begin_transaction_def act_bind_def act_return_def)
      from resume Inr have "pj_active j0 = pe_approval_event_id e"
        by (auto simp: pg_resume_def act_bind_def pg_closing_def act_catch_def dest!: pg_entry_active
            split: prod.splits sum.splits)
      with law r Inr show ?thesis
        by (auto simp: pg_begun_def split: option.splits)
    qed
  qed
qed

lemma pg_begin_law:
  assumes inv: "pg_inv j" and run: "pg_begin sha e ops j = (r, j')"
  shows "pg_begun e (pg_status j) r j'"
proof (cases "pg_entry e j")
  case (Pair r0 j0)
  note entry = pg_entry_inv [OF inv Pair]
  show ?thesis
  proof (cases r0)
    case (Inl ex)
    with run Pair entry show ?thesis
      by (auto simp: pg_begin_def act_bind_def pg_begun_def)
  next
    case (Inr u)
    obtain r1 j1 where tx: "pg_begin_transaction sha e ops j0 = (r1, j1)"
      by (cases "pg_begin_transaction sha e ops j0")
    have begun: "pg_begun e (pg_status j) r1 j1"
      using pg_begin_transaction_law [OF _ _ _ tx] entry pg_entry_active Pair Inr by metis
    from run Pair Inr tx have "r = r1 \<and> (j' = j1 \<or> (\<exists>ex. r1 = Inl ex) \<and> j' = pg_close j1)"
      by (cases r1) (auto simp: pg_begin_def act_bind_def pg_closing_def act_catch_def)
    with begun pg_close_inv [of j1] show ?thesis
      by (elim conjE disjE exE) (simp_all add: pg_begun_def)
  qed
qed

subsection \<open>State changes and finalize\<close>

lemma pg_transition_law:
  assumes "pg_inv j" and "pg_transition from_states to_state message x j = (r, j')"
  shows "pg_inv j' \<and> pj_active j' = pj_active j \<and>
    transition_effect (set from_states) to_state (pg_status j) (pj_active j) (op_id x) r (pg_status j')"
  using assms
  by (auto simp: pg_transition_def pg_inv_def pg_status_def transition_effect_def set_state_def
      fun_eq_iff dict_simps distinct_dict_set Let_def split: option.splits if_splits)

lemma pg_finalize_law:
  assumes "pg_inv j" and "pg_finalize j = (r, j')"
  shows "pg_inv j' \<and> pg_status j' = pg_status j"
proof -
  have ops: "db_operations (pj_db j') = db_operations (pj_db j)"
    using assms(2) by (auto simp: pg_finalize_def Let_def pg_simps split: option.splits if_splits)
  with assms(1) show ?thesis by (auto intro: pg_inv_cong pg_status_cong)
qed

interpretation pg: publication_journal "pg_ops sha" pg_status pj_active pg_inv for sha
proof unfold_locales
  fix j e r j'
  assume "pg_inv j" "jo_resume (pg_ops sha) e j = (r, j')"
  then have "pg_inv j" "pg_resume sha e j = (r, j')" by (simp_all add: pg_ops_def)
  from pg_resume_law [OF this] show "pg_inv j' \<and> pg_status j' = pg_status j \<and>
      (\<forall>ops completed. r = Inr (Some (ops, completed)) \<longrightarrow>
         pj_active j' = pe_approval_event_id e \<and>
         (\<forall>x \<in> set ops. op_id x \<in> set completed \<longleftrightarrow>
            pg_status j (pe_approval_event_id e) (op_id x) = Some ''applied''))" by simp
next
  fix j e ops r j'
  assume "pg_inv j" "jo_begin (pg_ops sha) e ops j = (r, j')"
  then have "pg_inv j" "pg_begin sha e ops j = (r, j')" by (simp_all add: pg_ops_def)
  from pg_begin_law [OF this] show "pg_inv j' \<and>
      (\<forall>ev i. pg_status j' ev i = pg_status j ev i \<or>
         (ev = pe_approval_event_id e \<and> pg_status j ev i = None \<and> pg_status j' ev i = Some ''planned'')) \<and>
      (\<forall>ops' completed. r = Inr (ops', completed) \<longrightarrow>
         pj_active j' = pe_approval_event_id e \<and>
         (\<forall>x \<in> set ops'. op_id x \<in> set completed \<longleftrightarrow>
            pg_status j' (pe_approval_event_id e) (op_id x) = Some ''applied''))"
    by (simp add: pg_begun_def)
next
  fix j x r j'
  assume "pg_inv j" "jo_intent (pg_ops sha) x j = (r, j')"
  then show "pg_inv j' \<and> pj_active j' = pj_active j \<and> transition_effect {''planned'', ''retryable''}
      ''intent'' (pg_status j) (pj_active j) (op_id x) r (pg_status j')"
    using pg_transition_law [of j "[''planned'', ''retryable'']"] by (simp add: pg_ops_def pg_intent_def)
next
  fix j x res r j'
  assume "pg_inv j" "jo_outcome (pg_ops sha) x res j = (r, j')"
  then show "pg_inv j' \<and> pj_active j' = pj_active j \<and> transition_effect {''intent'', ''retryable'', ''ambiguous''}
      ''applied'' (pg_status j) (pj_active j) (op_id x) r (pg_status j')"
    using pg_transition_law [of j "[''intent'', ''retryable'', ''ambiguous'']"]
    by (simp add: pg_ops_def pg_outcome_def)
next
  fix j x ex r j'
  assume "pg_inv j" "jo_failure (pg_ops sha) x ex j = (r, j')"
  then show "pg_inv j' \<and> pj_active j' = pj_active j \<and> transition_effect {''intent''}
      (failure_state ex) (pg_status j) (pj_active j) (op_id x) r (pg_status j')"
    using pg_transition_law [of j "[''intent'']"] by (simp add: pg_ops_def pg_failure_def)
next
  fix j x r j'
  assume "pg_inv j" "jo_state (pg_ops sha) x j = (r, j')"
  then show "j' = j \<and> (\<forall>st. r = Inr st \<longrightarrow> pg_status j (pj_active j) (op_id x) = Some st)"
    by (auto simp: pg_ops_def pg_state_def pg_status_def split: option.splits if_splits)
next
  fix j r j'
  assume "pg_inv j" "jo_finalize (pg_ops sha) j = (r, j')"
  then show "pg_inv j' \<and> pg_status j' = pg_status j"
    by (intro pg_finalize_law) (simp_all add: pg_ops_def)
next
  fix j
  assume "pg_inv j"
  then show "pg_inv (jo_close (pg_ops sha) j) \<and> pg_status (jo_close (pg_ops sha) j) = pg_status j"
    by (simp add: pg_ops_def pg_close_inv)
qed

section \<open>A recorded run stays recorded\<close>

text \<open>
  \<open>pg_recorded sha e ops j\<close>: the database holds the run of envelope \<open>e\<close> with operations \<open>ops\<close>,
  one row per operation in order, documents after the JSONB round trip, the hashes of the
  originals. \<^verbatim>\<open>begin\<close> establishes it, every later state change keeps it, and it makes
  every check of \<^verbatim>\<open>resume\<close> pass.
\<close>

definition pg_static_row :: "pg_operation \<Rightarrow> nat \<times> string \<times> publication_operation" where
  "pg_static_row r = (po_ordinal r, po_sha256 r, po_document r)"

definition pg_event_rows :: "pg_journal \<Rightarrow> string \<Rightarrow> pg_operation list" where
  "pg_event_rows j event = map snd (filter (\<lambda>((ev, i), row). ev = event) (db_operations (pj_db j)))"

definition pg_recorded ::
  "(string \<Rightarrow> string) \<Rightarrow> publication_envelope \<Rightarrow> publication_operation list \<Rightarrow> pg_journal \<Rightarrow> bool" where
  "pg_recorded sha e ops j \<longleftrightarrow> pg_inv j \<and>
     (\<exists>row. dict_get (db_publications (pj_db j)) (pe_approval_event_id e) = Some row
        \<and> pp_identity row = pe_publication_identity e \<and> pp_target row = pe_publication_target_sha256 e
        \<and> pp_envelope_sha256 row = envelope_hash sha e
        \<and> pp_operations_sha256 row = aggregate_hash sha ops \<and> \<not> pp_legacy_archive row
        \<and> pp_state row \<in> {''in_progress'', ''completed''}
        \<and> (pp_state row = ''completed'' \<longrightarrow> list_all (\<lambda>r. po_state r = ''applied'')
              (pg_event_rows j (pe_approval_event_id e))))
     \<and> map pg_static_row (pg_event_rows j (pe_approval_event_id e)) =
         map (\<lambda>(n, x). (n, operation_hash sha x, jsonb_operation x)) (enumerate 0 ops)
     \<and> list_all (\<lambda>r. po_state r \<in> set pg_operation_states) (pg_event_rows j (pe_approval_event_id e))"

lemma pg_recorded_rows_event:
  assumes "pg_recorded sha e ops j"
  shows "pg_recorded_rows (pj_db j) (pe_approval_event_id e) = pg_event_rows j (pe_approval_event_id e)"
    and "map po_ordinal (pg_event_rows j (pe_approval_event_id e)) = [0..<length ops]"
    and "map po_sha256 (pg_event_rows j (pe_approval_event_id e)) = map (operation_hash sha) ops"
    and "map po_document (pg_event_rows j (pe_approval_event_id e)) = map jsonb_operation ops"
proof -
  let ?rows = "pg_event_rows j (pe_approval_event_id e)"
  let ?ops = "map (\<lambda>(n, x). (n, operation_hash sha x, jsonb_operation x)) (enumerate 0 ops)"
  from assms have static: "map pg_static_row ?rows = ?ops"
    by (simp add: pg_recorded_def)
  have "map po_ordinal ?rows = map fst (map pg_static_row ?rows)"
    by (simp add: pg_static_row_def)
  also have "\<dots> = map fst (enumerate 0 ops)"
    unfolding static by (simp add: case_prod_beta comp_def)
  finally show ordinals: "map po_ordinal ?rows = [0..<length ops]"
    by simp
  have "map po_sha256 ?rows = map (fst \<circ> snd) (map pg_static_row ?rows)"
    by (simp add: pg_static_row_def)
  also have "\<dots> = map (operation_hash sha) (map snd (enumerate 0 ops))"
    unfolding static by (simp add: case_prod_beta comp_def del: map_snd_enumerate)
  finally show "map po_sha256 ?rows = map (operation_hash sha) ops" by simp
  have "map po_document ?rows = map (snd \<circ> snd) (map pg_static_row ?rows)"
    by (simp add: pg_static_row_def)
  also have "\<dots> = map jsonb_operation (map snd (enumerate 0 ops))"
    unfolding static by (simp add: case_prod_beta comp_def del: map_snd_enumerate)
  finally show "map po_document ?rows = map jsonb_operation ops" by simp
  have "sorted (map po_ordinal ?rows)" unfolding ordinals by simp
  then show "pg_recorded_rows (pj_db j) (pe_approval_event_id e) = ?rows"
    by (simp add: pg_recorded_rows_def pg_event_rows_def sort_key_id_if_sorted)
qed

lemma pg_recorded_run_recorded:
  assumes "pg_recorded sha e ops j"
  shows "pg_recorded_run sha (pj_db j) e =
    Inr (Some (map (restored_operation \<circ> jsonb_operation) ops,
      map op_id (filter (\<lambda>x. pg_status j (pe_approval_event_id e) (op_id x) = Some ''applied'') ops)))"
proof -
  let ?event = "pe_approval_event_id e"
  let ?rows = "pg_event_rows j ?event"
  note rows = pg_recorded_rows_event [OF assms]
  from assms have inv: "pg_inv j" by (simp add: pg_recorded_def)
  from assms obtain row where row: "dict_get (db_publications (pj_db j)) ?event = Some row"
      "pp_identity row = pe_publication_identity e" "pp_target row = pe_publication_target_sha256 e"
      "pp_envelope_sha256 row = envelope_hash sha e" "pp_operations_sha256 row = aggregate_hash sha ops"
      "\<not> pp_legacy_archive row" "pp_state row \<in> {''in_progress'', ''completed''}"
      "pp_state row = ''completed'' \<longrightarrow> list_all (\<lambda>r. po_state r = ''applied'') ?rows"
      "list_all (\<lambda>r. po_state r \<in> set pg_operation_states) ?rows"
    by (auto simp: pg_recorded_def)
  have restored: "map (restored_operation \<circ> po_document) ?rows = map (restored_operation \<circ> jsonb_operation) ops"
    using rows(4) by (metis map_map)
  have hashes: "map (operation_hash sha) (map (restored_operation \<circ> jsonb_operation) ops) =
      map (operation_hash sha) ops"
    by simp
  then have "aggregate_hash sha (map (restored_operation \<circ> jsonb_operation) ops) = aggregate_hash sha ops"
    unfolding aggregate_hash_def by metis
  then have check: "pg_check_operations sha row ?rows (map (restored_operation \<circ> jsonb_operation) ops) = Inr ()"
    using row rows(2,3) hashes
    by (auto simp: pg_check_operations_def pg_publication_states_def dest: arg_cong [where f = length])
  have pub: "pg_check_publication sha e row = Inr ()"
    using row by (simp add: pg_check_publication_def)
  have length: "length ?rows = length ops" using rows(4) by (rule map_eq_imp_length_eq)
  have "map (op_id \<circ> restored_operation \<circ> po_document) (filter (\<lambda>r. po_state r = ''applied'') ?rows) =
      map op_id (filter (\<lambda>x. pg_status j ?event (op_id x) = Some ''applied'') ops)"
  proof -
    have state: "po_state r = ''applied'' \<longleftrightarrow> pg_status j ?event (op_id (po_document r)) = Some ''applied''"
      if "r \<in> set ?rows" for r
      using that set_pg_recorded_rows [OF inv, of r ?event] by (simp add: pg_status_def rows(1))
    have "map (op_id \<circ> restored_operation \<circ> po_document) (filter (\<lambda>r. po_state r = ''applied'') ?rows) =
        filter (\<lambda>i. pg_status j ?event i = Some ''applied'') (map op_id (map po_document ?rows))"
      using state by (simp add: filter_map comp_def cong: filter_cong)
    also have "\<dots> = map op_id (filter (\<lambda>x. pg_status j ?event (op_id x) = Some ''applied'') ops)"
      unfolding rows(4) by (simp add: filter_map comp_def)
    finally show ?thesis .
  qed
  with check pub row(1) restored show ?thesis
    by (simp add: pg_recorded_run_def rows(1) Let_def)
qed

end
