(* ===== verification/PgSystem.thy ===== *)
theory PgSystem
  imports PgJournal
begin

text \<open>
  Several journal instances on one database: an \<open>inductive\<close> step relation whose steps are the
  calls of \<^verbatim>\<open>PostgresPublicationJournal\<close>, by any instance in any order, and its
  invariants by rule induction: a plan is fenced by at most one instance, only a fence holder
  changes an operation's state, applied operations stay applied, and a run that was begun can
  be resumed from any later state. A crash of an instance is its \<^verbatim>\<open>close\<close>: the database
  releases the advisory lock with the session.
\<close>

section \<open>Calls and steps\<close>

record pg_system =
  sy_db :: pg_db
  sy_fence :: "nat \<Rightarrow> string option"
  sy_active :: "nat \<Rightarrow> string"

definition sy_view :: "pg_system \<Rightarrow> nat \<Rightarrow> pg_journal" where
  "sy_view s n = \<lparr>pj_db = sy_db s, pj_session = n, pj_fence = sy_fence s n, pj_active = sy_active s n\<rparr>"

definition sy_put :: "pg_system \<Rightarrow> nat \<Rightarrow> pg_journal \<Rightarrow> pg_system" where
  "sy_put s n j = \<lparr>sy_db = pj_db j, sy_fence = (sy_fence s)(n := pj_fence j),
     sy_active = (sy_active s)(n := pj_active j)\<rparr>"

inductive pg_call :: "(string \<Rightarrow> string) \<Rightarrow> pg_journal \<Rightarrow> pg_journal \<Rightarrow> bool" for sha where
  call_resume: "pg_resume sha e j = (r, j') \<Longrightarrow> pg_call sha j j'"
| call_begin: "pg_begin sha e ops j = (r, j') \<Longrightarrow> pg_call sha j j'"
| call_intent: "pg_intent x j = (r, j') \<Longrightarrow> pg_call sha j j'"
| call_outcome: "pg_outcome x result j = (r, j') \<Longrightarrow> pg_call sha j j'"
| call_failure: "pg_failure x ex j = (r, j') \<Longrightarrow> pg_call sha j j'"
| call_finalize: "pg_finalize j = (r, j') \<Longrightarrow> pg_call sha j j'"
| call_close: "pg_call sha j (pg_close j)"

inductive pg_step :: "(string \<Rightarrow> string) \<Rightarrow> pg_system \<Rightarrow> pg_system \<Rightarrow> bool" for sha where
  step: "pg_call sha (sy_view s n) j' \<Longrightarrow> pg_step sha s (sy_put s n j')"

inductive_cases pg_step_elim: "pg_step sha s s'"

definition sy_init :: pg_system where
  "sy_init = \<lparr>sy_db = \<lparr>db_ready = True, db_publications = [], db_operations = [], db_locks = []\<rparr>,
     sy_fence = (\<lambda>_. None), sy_active = (\<lambda>_. [])\<rparr>"

inductive pg_reachable :: "(string \<Rightarrow> string) \<Rightarrow> pg_system \<Rightarrow> bool" for sha where
  init: "pg_reachable sha sy_init"
| more: "pg_reachable sha s \<Longrightarrow> pg_step sha s s' \<Longrightarrow> pg_reachable sha s'"

section \<open>The calls in terms of four primitives\<close>

text \<open>
  Every call is a sequence of: taking the fence, inserting a run whose event is new, changing
  one operation's state, completing the publication, releasing the fence.
\<close>

inductive pg_micro :: "(string \<Rightarrow> string) \<Rightarrow> pg_journal \<Rightarrow> pg_journal \<Rightarrow> bool" for sha where
  micro_fence: "pg_acquire_fence event ident j = (r, j') \<Longrightarrow> pg_micro sha j j'"
| micro_insert: "pg_insert_run sha e ops j = (r, j') \<Longrightarrow> pj_fence j \<noteq> None \<Longrightarrow>
    dict_get (db_publications (pj_db j)) (pe_approval_event_id e) = None \<Longrightarrow> pg_micro sha j j'"
| micro_transition: "pg_transition from_states to_state message x j = (r, j') \<Longrightarrow>
    ''applied'' \<notin> set from_states \<Longrightarrow> to_state \<in> set pg_operation_states \<Longrightarrow> pg_micro sha j j'"
| micro_complete: "dict_get (db_publications (pj_db j)) (pj_active j) = Some row \<Longrightarrow>
    pg_all_applied (pj_db j) (pj_active j) \<Longrightarrow>
    pg_micro sha j (j\<lparr>pj_db := (pj_db j)\<lparr>db_publications :=
      dict_set (pj_active j) (row\<lparr>pp_state := ''completed''\<rparr>) (db_publications (pj_db j))\<rparr>\<rparr>)"
| micro_close: "pg_micro sha j (pg_close j)"

lemma micro_entry: "pg_entry e j = (r, j') \<Longrightarrow> (pg_micro sha)\<^sup>*\<^sup>* j j'"
  by (auto simp: pg_entry_def intro: micro_fence split: if_splits)

lemma micro_closing:
  assumes "pg_closing m j = (r, j')" and "\<And>r0 j0. m j = (r0, j0) \<Longrightarrow> (pg_micro sha)\<^sup>*\<^sup>* j j0"
  shows "(pg_micro sha)\<^sup>*\<^sup>* j j'"
proof -
  obtain r0 j0 where m: "m j = (r0, j0)" by (cases "m j")
  with assms(1) have "j' = j0 \<or> j' = pg_close j0"
    by (cases r0) (auto simp: pg_closing_def act_catch_def)
  with assms(2) [OF m] show ?thesis
    by (auto intro: rtranclp.rtrancl_into_rtrancl micro_close)
qed

lemma micro_resume:
  assumes "pg_resume sha e j = (r, j')"
  shows "(pg_micro sha)\<^sup>*\<^sup>* j j'"
proof (cases "pg_entry e j")
  case (Pair r0 j0)
  have "j' = j0 \<or> pg_closing (\<lambda>j. (pg_recorded_run sha (pj_db j) e, j)) j0 = (r, j')"
    using assms Pair by (cases r0) (auto simp: pg_resume_def act_bind_def)
  moreover have "(pg_micro sha)\<^sup>*\<^sup>* j0 j'" if "pg_closing (\<lambda>j. (pg_recorded_run sha (pj_db j) e, j)) j0 = (r, j')"
    by (rule micro_closing [OF that]) simp
  ultimately show ?thesis
    using micro_entry [OF Pair, of sha] by (auto intro: rtranclp_trans)
qed

lemma micro_begin_transaction:
  assumes "pg_begin_transaction sha e ops j = (r, j')" and "pj_fence j \<noteq> None"
  shows "(pg_micro sha)\<^sup>*\<^sup>* j j'"
proof (cases "dict_get (db_publications (pj_db j)) (pe_approval_event_id e)")
  case None
  obtain r0 j0 where run: "pg_insert_run sha e ops j = (r0, j0)"
    by (cases "pg_insert_run sha e ops j")
  with assms None have "j' = j0"
    by (cases r0) (auto simp: pg_begin_transaction_def act_bind_def act_return_def)
  with micro_insert [OF run assms(2) None] show ?thesis by blast
next
  case (Some row)
  obtain r0 j0 where run: "pg_resume sha e j = (r0, j0)"
    by (cases "pg_resume sha e j")
  with assms Some have "j' = j0 \<or> j' = j"
    by (cases r0) (auto simp: pg_begin_transaction_def act_bind_def act_return_def split: if_splits)
  with micro_resume [OF run] show ?thesis by auto
qed

lemma micro_begin:
  assumes "pg_begin sha e ops j = (r, j')"
  shows "(pg_micro sha)\<^sup>*\<^sup>* j j'"
proof (cases "pg_entry e j")
  case (Pair r0 j0)
  show ?thesis
  proof (cases r0)
    case (Inl ex)
    with assms Pair have "j' = j0" by (auto simp: pg_begin_def act_bind_def)
    with micro_entry [OF Pair] show ?thesis by simp
  next
    case (Inr u)
    with assms Pair have "pg_closing (pg_begin_transaction sha e ops) j0 = (r, j')"
      by (auto simp: pg_begin_def act_bind_def)
    moreover from Pair Inr have "pj_fence j0 \<noteq> None" by (auto dest: pg_entry_active)
    ultimately have "(pg_micro sha)\<^sup>*\<^sup>* j0 j'"
      by (auto intro: micro_closing micro_begin_transaction)
    with micro_entry [OF Pair, of sha] show ?thesis by (rule rtranclp_trans)
  qed
qed

lemma failure_state_known: "failure_state ex \<in> set pg_operation_states"
  by (cases ex) (simp_all add: failure_state_def pg_operation_states_def)

lemma pg_call_micro: "pg_call sha j j' \<Longrightarrow> (pg_micro sha)\<^sup>*\<^sup>* j j'"
proof (induction rule: pg_call.induct)
  case (call_intent x j r j')
  then show ?case
    by (auto simp: pg_intent_def pg_operation_states_def intro!: r_into_rtranclp micro_transition)
next
  case (call_outcome x result j r j')
  then show ?case
    by (auto simp: pg_outcome_def pg_operation_states_def intro!: r_into_rtranclp micro_transition)
next
  case (call_failure x ex j r j')
  then show ?case
    by (auto simp: pg_failure_def failure_state_known intro!: r_into_rtranclp micro_transition)
next
  case (call_finalize j r j')
  show ?case
  proof (cases "dict_get (db_publications (pj_db j)) (pj_active j)")
    case None
    with call_finalize show ?thesis by (simp add: pg_finalize_def)
  next
    case (Some row)
    show ?thesis
    proof (cases "pp_state row = ''in_progress'' \<and> pg_all_applied (pj_db j) (pj_active j)")
      case True
      then have all: "pg_all_applied (pj_db j) (pj_active j)" by simp
      from True Some call_finalize have "j' = pg_close (j\<lparr>pj_db := (pj_db j)\<lparr>db_publications :=
          dict_set (pj_active j) (row\<lparr>pp_state := ''completed''\<rparr>) (db_publications (pj_db j))\<rparr>\<rparr>)"
        by (simp add: pg_finalize_def Let_def)
      then show ?thesis
        using converse_rtranclp_into_rtranclp [OF micro_complete [OF Some all] r_into_rtranclp [of "pg_micro sha", OF micro_close]]
        by (simp only:)
    next
      case False
      with Some call_finalize have "j' = j \<or> j' = pg_close j"
        by (simp add: pg_finalize_def Let_def split: if_splits)
      then show ?thesis
        using r_into_rtranclp [of "pg_micro sha", OF micro_close [of sha j]] rtranclp.rtrancl_refl [of "pg_micro sha" j]
        by (elim disjE) (simp_all only:)
    qed
  qed
qed (auto intro: micro_resume micro_begin micro_close)

text \<open>An invariant of the four primitives is an invariant of every call.\<close>

lemma pg_call_invariant:
  assumes "pg_call sha j j'" and "P j" and "\<And>j j'. pg_micro sha j j' \<Longrightarrow> P j \<Longrightarrow> P j'"
  shows "P j'"
  using pg_call_micro [OF assms(1)] assms(2)
  by (induction rule: rtranclp_induct) (auto intro: assms(3))

section \<open>Fences\<close>

text \<open>The lock table and the instances agree on who holds which scope.\<close>

definition fences_agree :: "pg_system \<Rightarrow> bool" where
  "fences_agree s \<longleftrightarrow>
     (\<forall>n scope. sy_fence s n = Some scope \<longleftrightarrow> dict_get (db_locks (sy_db s)) scope = Some n)"

text \<open>The same from one instance: its own lock is its fence, and other sessions' locks stay.\<close>

definition fence_frame :: "(string, nat) dict \<Rightarrow> pg_journal \<Rightarrow> bool" where
  "fence_frame locks j \<longleftrightarrow>
     (\<forall>scope. pj_fence j = Some scope \<longleftrightarrow> dict_get (db_locks (pj_db j)) scope = Some (pj_session j)) \<and>
     (\<forall>scope m. m \<noteq> pj_session j \<longrightarrow>
        (dict_get (db_locks (pj_db j)) scope = Some m \<longleftrightarrow> dict_get locks scope = Some m))"

lemma pg_micro_session: "pg_micro sha j j' \<Longrightarrow> pj_session j' = pj_session j"
  by (induction rule: pg_micro.induct)
    (auto simp: pg_acquire_fence_def pg_insert_run_def pg_transition_def pg_close_def Let_def
      split: option.splits sum.splits if_splits)

lemma fence_frame_cong:
  "fence_frame locks j \<Longrightarrow> pj_fence j' = pj_fence j \<Longrightarrow> pj_session j' = pj_session j \<Longrightarrow>
   db_locks (pj_db j') = db_locks (pj_db j) \<Longrightarrow> fence_frame locks j'"
  by (simp add: fence_frame_def)

lemma pg_insert_run_Inl: "pg_insert_run sha e ops j = (Inl ex, j') \<Longrightarrow> j' = j"
  by (auto simp: pg_insert_run_def split: sum.splits)

lemma pg_micro_fence_frame: "pg_micro sha j j' \<Longrightarrow> fence_frame locks j \<Longrightarrow> fence_frame locks j'"
proof (induction rule: pg_micro.induct)
  case (micro_fence event ident j r j')
  show ?case
  proof (cases "pj_fence j")
    case (Some scope)
    with micro_fence show ?thesis by (auto simp: pg_acquire_fence_def split: if_splits)
  next
    case None
    show ?thesis
    proof (cases "publication_scope ident")
      case (Inl ex)
      with micro_fence None show ?thesis by (auto simp: pg_acquire_fence_def)
    next
      case (Inr scope)
      with micro_fence have "dict_get (db_locks (pj_db j)) scope = None \<longrightarrow>
          (\<forall>m. m \<noteq> pj_session j \<longrightarrow> dict_get locks scope \<noteq> Some m)"
        using micro_fence.prems unfolding fence_frame_def by (metis option.distinct(1))
      with Inr micro_fence None show ?thesis
        by (auto simp: pg_acquire_fence_def fence_frame_def dict_simps split: if_splits)
    qed
  qed
next
  case (micro_insert e ops j r j')
  show ?case
  proof (cases r)
    case (Inl ex)
    with micro_insert show ?thesis by (auto dest: pg_insert_run_Inl)
  next
    case (Inr u)
    with micro_insert show ?thesis
      using pg_insert_run_Inr [of sha e ops j u j'] by (auto intro: fence_frame_cong)
  qed
next
  case (micro_transition from_states to_state message x j r j')
  then show ?case
    by (auto simp: pg_transition_def Let_def intro: fence_frame_cong split: option.splits if_splits)
next
  case (micro_complete j row)
  then show ?case by (auto intro: fence_frame_cong)
next
  case (micro_close j)
  show ?case
  proof (cases "pj_fence j")
    case None
    with micro_close show ?thesis by (simp add: pg_close_def fence_frame_def)
  next
    case (Some held)
    from micro_close have own: "pj_fence j = Some scope \<longleftrightarrow>
        dict_get (db_locks (pj_db j)) scope = Some (pj_session j)"
      and others: "m \<noteq> pj_session j \<Longrightarrow>
        dict_get (db_locks (pj_db j)) scope = Some m \<longleftrightarrow> dict_get locks scope = Some m" for scope m
      by (auto simp: fence_frame_def)
    from own [of held] Some have held: "dict_get (db_locks (pj_db j)) held = Some (pj_session j)" by simp
    show ?thesis
      unfolding fence_frame_def
      by (auto simp: pg_close_def Some dict_simps own [symmetric] others [symmetric] held)
  qed
qed

lemma fences_agree_step:
  assumes "pg_step sha s s'" and "fences_agree s"
  shows "fences_agree s'"
  using assms(1)
proof (cases rule: pg_step.cases)
  case (step n j')
  have "fence_frame (db_locks (sy_db s)) (sy_view s n)"
    using assms(2) by (simp add: fence_frame_def fences_agree_def sy_view_def)
  then have frame: "fence_frame (db_locks (sy_db s)) j'"
    by (rule pg_call_invariant [OF step(2)]) (rule pg_micro_fence_frame)
  have session: "pj_session j' = n"
    by (rule pg_call_invariant [OF step(2)]) (auto simp: sy_view_def dest: pg_micro_session)
  show ?thesis
    using frame assms(2) session
    by (auto simp: step(1) fences_agree_def fence_frame_def sy_put_def)
qed

lemma fences_agree_init: "fences_agree sy_init"
  by (simp add: fences_agree_def sy_init_def)

lemma fences_agree_reachable: "pg_reachable sha s \<Longrightarrow> fences_agree s"
  by (induction rule: pg_reachable.induct)
    (auto simp: fences_agree_init intro: fences_agree_step)

section \<open>Recorded states\<close>

text \<open>Rows exist only for nonempty events, and an instance with an active event holds a fence.\<close>

definition pg_fenced :: "pg_journal \<Rightarrow> bool" where
  "pg_fenced j \<longleftrightarrow> pg_inv j \<and> (\<forall>i. dict_get (db_operations (pj_db j)) ([], i) = None) \<and>
     dict_get (db_publications (pj_db j)) [] = None \<and> (pj_fence j = None \<longrightarrow> pj_active j = [])"

lemma pg_insert_run_event: "pg_insert_run sha e ops j = (Inr u, j') \<Longrightarrow> pe_approval_event_id e \<noteq> []"
  by (auto simp: pg_insert_run_def pg_insert_publication_def split: sum.splits if_splits)

lemma pg_insert_run_publications:
  "pg_insert_run sha e ops j = (Inr u, j') \<Longrightarrow> ev \<noteq> pe_approval_event_id e \<Longrightarrow>
     dict_get (db_publications (pj_db j')) ev = dict_get (db_publications (pj_db j)) ev"
  by (auto simp: pg_insert_run_def pg_insert_publication_def res_simps dict_simps
      dest: pg_insert_operations_Inr split: sum.splits if_splits)

lemma pg_micro_status:
  "pg_micro sha j j' \<Longrightarrow> pg_inv j \<Longrightarrow> pg_inv j' \<and>
     (pg_status j ev i = Some ''applied'' \<longrightarrow> pg_status j' ev i = Some ''applied'')"
proof (induction rule: pg_micro.induct)
  case (micro_fence event ident j r j')
  then show ?case
    using pg_acquire_fence_ops [of event ident j r j'] pg_inv_cong [of j' j] pg_status_cong [of j' j] by simp
next
  case (micro_insert e ops j r j')
  show ?case
  proof (cases r)
    case (Inl ex)
    with micro_insert show ?thesis by (auto dest: pg_insert_run_Inl)
  next
    case (Inr u)
    with micro_insert show ?thesis
      using pg_insert_run_law [of j sha e ops u j'] by auto
  qed
next
  case (micro_transition from_states to_state message x j r j')
  then show ?case
    using pg_transition_law [of j from_states to_state message x r j']
    by (cases r) (auto simp: transition_effect_def)
next
  case (micro_complete j row)
  then show ?case by (auto simp: pg_inv_def pg_status_def)
next
  case (micro_close j)
  then show ?case using pg_close_inv [of j] by simp
qed

lemma pg_micro_fenced: "pg_micro sha j j' \<Longrightarrow> pg_fenced j \<Longrightarrow> pg_fenced j'"
proof (induction rule: pg_micro.induct)
  case (micro_fence event ident j r j')
  then have "pj_fence j' = None \<longrightarrow> pj_active j' = []"
    by (auto simp: pg_fenced_def pg_acquire_fence_def split: option.splits sum.splits if_splits)
  with micro_fence show ?case
    using pg_acquire_fence_ops [of event ident j r j'] pg_acquire_fence_publications [of event ident j r j']
      pg_inv_cong [of j' j] by (simp add: pg_fenced_def)
next
  case (micro_insert e ops j r j')
  show ?case
  proof (cases r)
    case (Inl ex)
    with micro_insert show ?thesis by (auto dest: pg_insert_run_Inl)
  next
    case (Inr u)
    with micro_insert have run: "pg_insert_run sha e ops j = (Inr u, j')" and fenced: "pg_fenced j"
      by simp_all
    note event = pg_insert_run_event [OF run]
    have "dict_get (db_operations (pj_db j')) ([], i) = None" for i
      using fenced event by (simp add: pg_insert_run_Inr(1) [OF run] pg_fenced_def map_add_def dict_get_planned_rows)
    with fenced event show ?thesis
      using pg_insert_run_law(1) [OF _ run] pg_insert_run_Inr(5,6) [OF run] pg_insert_run_publications [OF run, of "[]"]
      by (simp add: pg_fenced_def)
  qed
next
  case (micro_transition from_states to_state message x j r j')
  then have "pj_fence j' = pj_fence j" "db_publications (pj_db j') = db_publications (pj_db j)"
    "\<forall>i. dict_get (db_operations (pj_db j)) ([], i) = None \<Longrightarrow>
     \<forall>i. dict_get (db_operations (pj_db j')) ([], i) = None"
    by (auto simp: pg_transition_def Let_def dict_simps split: option.splits if_splits)
  with micro_transition show ?case
    using pg_transition_law [of j from_states to_state message x r j'] by (simp add: pg_fenced_def)
next
  case (micro_complete j row)
  then have "pj_active j \<noteq> []" by (auto simp: pg_fenced_def)
  with micro_complete show ?case by (simp add: pg_fenced_def pg_inv_def dict_simps)
next
  case (micro_close j)
  then show ?case
    using pg_close_inv [of j] by (simp add: pg_fenced_def pg_simps pg_close_def split: option.splits)
qed

lemma pg_fenced_cong:
  "pg_fenced j \<Longrightarrow> pj_db j' = pj_db j \<Longrightarrow> (pj_fence j' = None \<longrightarrow> pj_active j' = []) \<Longrightarrow> pg_fenced j'"
  by (simp add: pg_fenced_def pg_inv_def)

lemma pg_fenced_reachable: "pg_reachable sha s \<Longrightarrow> pg_fenced (sy_view s n)"
proof (induction arbitrary: n rule: pg_reachable.induct)
  case init
  show ?case by (simp add: pg_fenced_def pg_inv_def sy_view_def sy_init_def)
next
  case (more s s')
  from more.hyps(2) show ?case
  proof (cases rule: pg_step.cases)
    case (step m j')
    have fenced: "pg_fenced j'"
      by (rule pg_call_invariant [where P = pg_fenced, OF step(2) more.IH]) (rule pg_micro_fenced)
    show ?thesis
    proof (cases "n = m")
      case True
      from fenced show ?thesis
        by (rule pg_fenced_cong) (use fenced True in \<open>auto simp: step(1) sy_view_def sy_put_def pg_fenced_def\<close>)
    next
      case False
      from fenced show ?thesis
        by (rule pg_fenced_cong)
          (use more.IH [of n] False in \<open>auto simp: step(1) sy_view_def sy_put_def pg_fenced_def\<close>)
    qed
  qed
qed

lemma pg_transition_fenced:
  assumes "pg_fenced j" and "pg_transition from_states to_state message x j = (Inr u, j')"
  shows "pj_fence j \<noteq> None"
proof -
  from assms(2) have "dict_get (db_operations (pj_db j)) (pj_active j, op_id x) \<noteq> None"
    by (auto simp: pg_transition_def Let_def split: option.splits)
  with assms(1) show ?thesis by (auto simp: pg_fenced_def)
qed

section \<open>A begun run can be resumed from every later state\<close>

lemma pg_recorded_cong:
  assumes "pg_recorded sha e ops j" and "db_operations (pj_db j') = db_operations (pj_db j)"
    and "db_publications (pj_db j') = db_publications (pj_db j)"
  shows "pg_recorded sha e ops j'"
  using assms by (auto simp: pg_recorded_def pg_event_rows_def intro: pg_inv_cong)

text \<open>An update in place keeps the rows of every event, up to the changed state.\<close>

definition with_state :: "string \<times> string \<Rightarrow> string \<Rightarrow> (string \<times> string) \<times> pg_operation
    \<Rightarrow> (string \<times> string) \<times> pg_operation" where
  "with_state key st = (\<lambda>(k, r). (k, if k = key then r\<lparr>po_state := st\<rparr> else r))"

lemma dict_set_with_state:
  "distinct (dict_keys d) \<Longrightarrow> dict_get d key = Some row \<Longrightarrow>
     dict_set key (row\<lparr>po_state := st\<rparr>) d = map (with_state key st) d"
proof (induction d)
  case Nil
  then show ?case by simp
next
  case (Cons p d)
  obtain k r where p: "p = (k, r)" by (cases p)
  show ?case
  proof (cases "k = key")
    case True
    with Cons.prems p have "key \<notin> fst ` set d" by simp
    then have "map (with_state key st) d = d"
      by (intro map_idI) (force simp: with_state_def split: prod.splits)
    with Cons.prems p True show ?thesis by (simp add: with_state_def)
  next
    case False
    with Cons p show ?thesis by (simp add: with_state_def)
  qed
qed

lemma filter_with_state:
  "map snd (filter (\<lambda>((ev, i), row). ev = event) (map (with_state key st) d)) =
   map (\<lambda>p. snd (with_state key st p)) (filter (\<lambda>((ev, i), row). ev = event) d)"
  by (induction d) (auto simp: with_state_def split: prod.splits)

lemma pg_transition_recorded:
  assumes recorded: "pg_recorded sha e ops j"
    and run: "pg_transition from_states to_state message x j = (r, j')"
    and states: "''applied'' \<notin> set from_states" "to_state \<in> set pg_operation_states"
  shows "pg_recorded sha e ops j'"
proof (cases "j' = j")
  case True
  with recorded show ?thesis by simp
next
  case False
  let ?key = "(pj_active j, op_id x)" and ?event = "pe_approval_event_id e"
  from False run obtain row where row: "dict_get (db_operations (pj_db j)) ?key = Some row"
      "po_state row \<in> set from_states"
    and j': "j' = j\<lparr>pj_db := (pj_db j)\<lparr>db_operations :=
        dict_set ?key (row\<lparr>po_state := to_state\<rparr>) (db_operations (pj_db j))\<rparr>\<rparr>"
    by (auto simp: pg_transition_def Let_def split: option.splits if_splits)
  from recorded have inv: "pg_inv j" by (simp add: pg_recorded_def)
  then have distinct: "distinct (dict_keys (db_operations (pj_db j)))" by (simp add: pg_inv_def)
  let ?entries = "filter (\<lambda>((ev, i), row). ev = ?event) (db_operations (pj_db j))"
  have ops: "db_operations (pj_db j') = map (with_state ?key to_state) (db_operations (pj_db j))"
    using dict_set_with_state [OF distinct row(1)] by (simp add: j')
  have rows: "pg_event_rows j' ?event = map (\<lambda>p. snd (with_state ?key to_state p)) ?entries"
    unfolding pg_event_rows_def ops by (rule filter_with_state)
  have old: "pg_event_rows j ?event = map snd ?entries"
    by (simp add: pg_event_rows_def)
  have static: "map pg_static_row (pg_event_rows j' ?event) = map pg_static_row (pg_event_rows j ?event)"
    unfolding rows old by (simp add: with_state_def pg_static_row_def split: prod.splits)
  have known: "list_all (\<lambda>r. po_state r \<in> set pg_operation_states) (pg_event_rows j' ?event)"
    using recorded states(2) unfolding pg_recorded_def rows old
    by (auto simp: list_all_iff with_state_def split: prod.splits)
  have same: "pg_event_rows j' ?event = pg_event_rows j ?event"
    if "list_all (\<lambda>r. po_state r = ''applied'') (pg_event_rows j ?event)"
  proof (unfold rows old, rule map_cong [OF refl])
    fix p
    assume "p \<in> set ?entries"
    obtain k r where p: "p = (k, r)" by (cases p)
    with \<open>p \<in> set ?entries\<close> that have "po_state r = ''applied''"
      unfolding old by (force simp: list_all_iff)
    moreover have "dict_get (db_operations (pj_db j)) k = Some r"
      using \<open>p \<in> set ?entries\<close> p distinct by auto
    ultimately have "k \<noteq> ?key" using row states(1) by auto
    then show "snd (with_state ?key to_state p) = snd p" by (simp add: with_state_def p)
  qed
  have pubs: "db_publications (pj_db j') = db_publications (pj_db j)"
    by (simp add: j')
  have "pg_inv j'" using pg_transition_law [OF inv run] by simp
  with recorded static known same pubs show ?thesis
    unfolding pg_recorded_def by (auto simp only:)
qed

lemma pg_micro_recorded: "pg_micro sha j j' \<Longrightarrow> pg_recorded sha e ops j \<Longrightarrow> pg_recorded sha e ops j'"
proof (induction rule: pg_micro.induct)
  case (micro_fence event ident j r j')
  then show ?case
    using pg_acquire_fence_ops pg_acquire_fence_publications by (auto intro: pg_recorded_cong)
next
  case (micro_insert e' ops' j r j')
  show ?case
  proof (cases r)
    case (Inl ex)
    with micro_insert show ?thesis by (auto dest: pg_insert_run_Inl)
  next
    case (Inr u)
    with micro_insert have run: "pg_insert_run sha e' ops' j = (Inr u, j')" by simp
    from micro_insert have other: "pe_approval_event_id e \<noteq> pe_approval_event_id e'"
      by (auto simp: pg_recorded_def)
    then have "pg_event_rows j' (pe_approval_event_id e) = pg_event_rows j (pe_approval_event_id e)"
      by (simp add: pg_event_rows_def pg_insert_run_Inr(1) [OF run] filter_map comp_def)
    moreover have "pg_inv j'"
      using pg_insert_run_law(1) [OF _ run] micro_insert.prems by (simp add: pg_recorded_def)
    ultimately show ?thesis
      using micro_insert.prems pg_insert_run_publications [OF run other] by (auto simp: pg_recorded_def)
  qed
next
  case (micro_transition from_states to_state message x j r j')
  then show ?case using pg_transition_recorded by blast
next
  case (micro_complete j row)
  let ?j = "j\<lparr>pj_db := (pj_db j)\<lparr>db_publications :=
      dict_set (pj_active j) (row\<lparr>pp_state := ''completed''\<rparr>) (db_publications (pj_db j))\<rparr>\<rparr>"
  have rows: "pg_event_rows ?j ev = pg_event_rows j ev" for ev by (simp add: pg_event_rows_def)
  have inv: "pg_inv ?j" using micro_complete.prems by (simp add: pg_recorded_def pg_inv_def)
  have applied: "list_all (\<lambda>r. po_state r = ''applied'') (pg_event_rows j (pj_active j))"
    using micro_complete(2) by (force simp: pg_all_applied_def pg_event_rows_def list_all_iff)
  show ?case
  proof (cases "pj_active j = pe_approval_event_id e")
    case True
    with micro_complete inv applied show ?thesis
      unfolding pg_recorded_def rows by (auto simp: dict_simps)
  next
    case False
    with micro_complete inv show ?thesis
      unfolding pg_recorded_def rows by (auto simp: dict_simps)
  qed
next
  case (micro_close j)
  then show ?case
    by (auto intro: pg_recorded_cong simp: pg_simps pg_close_def split: option.splits)
qed

lemma pg_insert_run_recorded:
  assumes inv: "pg_inv j" and none: "\<forall>i. dict_get (db_operations (pj_db j)) (pe_approval_event_id e, i) = None"
    and run: "pg_insert_run sha e ops j = (Inr u, j')"
  shows "pg_recorded sha e ops j'"
proof -
  let ?event = "pe_approval_event_id e"
  note ins = pg_insert_run_Inr [OF run]
  have "filter (\<lambda>((ev, i), row). ev = ?event) (db_operations (pj_db j)) = []"
    using none by (force simp: filter_empty_conv map_of_eq_None_iff)
  then have rows: "pg_event_rows j' ?event = map (planned_row sha) (enumerate 0 ops)"
    by (simp add: pg_event_rows_def ins(1) filter_map comp_def)
  have static: "map pg_static_row (pg_event_rows j' ?event) =
      map (\<lambda>(n, x). (n, operation_hash sha x, jsonb_operation x)) (enumerate 0 ops)"
    unfolding rows by (simp add: pg_static_row_def planned_row_def case_prod_beta)
  have "list_all (\<lambda>r. po_state r \<in> set pg_operation_states) (pg_event_rows j' ?event)"
    unfolding rows by (simp add: list_all_iff pg_operation_states_def)
  with static show ?thesis
    using pg_insert_run_law(1) [OF inv run] ins(4) by (auto simp: pg_recorded_def)
qed

lemma pg_begin_recorded:
  assumes inv: "pg_inv j" and none: "\<forall>i. dict_get (db_operations (pj_db j)) (pe_approval_event_id e, i) = None"
    and fresh: "dict_get (db_publications (pj_db j)) (pe_approval_event_id e) = None"
    and run: "pg_begin sha e ops j = (Inr (ops', completed), j')"
  shows "pg_recorded sha e ops j' \<and> ops' = ops \<and> completed = []"
proof -
  obtain u j0 where entry: "pg_entry e j = (Inr u, j0)"
    and closing: "pg_closing (pg_begin_transaction sha e ops) j0 = (Inr (ops', completed), j')"
    using run by (auto simp: pg_begin_def act_bind_def split: prod.splits sum.splits)
  have same: "db_operations (pj_db j0) = db_operations (pj_db j)"
    using entry by (rule pg_entry_ops)
  have "db_publications (pj_db j0) = db_publications (pj_db j)"
    using entry by (auto simp: pg_entry_def dest: pg_acquire_fence_publications split: if_splits)
  with fresh have none0: "dict_get (db_publications (pj_db j0)) (pe_approval_event_id e) = None" by simp
  obtain r1 j1 where ins: "pg_insert_run sha e ops j0 = (r1, j1)" by (cases "pg_insert_run sha e ops j0")
  have "\<exists>u. r1 = Inr u \<and> ops' = ops \<and> completed = [] \<and> j' = j1"
    using closing none0 ins
    by (cases r1) (auto simp: pg_closing_def act_catch_def pg_begin_transaction_def act_bind_def act_return_def)
  moreover have "pg_inv j0" using pg_entry_inv [OF inv entry] by simp
  ultimately show ?thesis
    using pg_insert_run_recorded [of j0 e sha ops] none ins unfolding same by auto
qed

definition sy_run :: "(string \<Rightarrow> string) \<Rightarrow> pg_system \<Rightarrow> pg_system \<Rightarrow> bool" where
  "sy_run sha = (pg_step sha)\<^sup>*\<^sup>*"

lemma pg_recorded_db:
  "pg_recorded sha e ops j \<Longrightarrow> pj_db j' = pj_db j \<Longrightarrow> pg_recorded sha e ops j'"
  by (rule pg_recorded_cong) simp_all

lemma sy_run_recorded:
  assumes "sy_run sha s s'" and "pg_recorded sha e ops (sy_view s n)"
  shows "pg_recorded sha e ops (sy_view s' m)"
  using assms(1)[unfolded sy_run_def] assms(2)
proof (induction arbitrary: m rule: rtranclp_induct)
  case base
  then show ?case by (rule pg_recorded_db) (simp add: sy_view_def)
next
  case (step s1 s2)
  from step.hyps(2) show ?case
  proof (cases rule: pg_step.cases)
    case (step k j')
    have "pg_recorded sha e ops j'"
      by (rule pg_call_invariant [where P = "pg_recorded sha e ops", OF step(2) step.IH [OF step.prems]])
        (rule pg_micro_recorded)
    then show ?thesis by (rule pg_recorded_db) (simp add: step(1) sy_view_def sy_put_def)
  qed
qed

lemma sy_run_applied:
  assumes "sy_run sha s s'" and "pg_inv (sy_view s n)"
    and "pg_status (sy_view s n) ev i = Some ''applied''"
  shows "pg_status (sy_view s' m) ev i = Some ''applied''"
proof -
  define P where "P = (\<lambda>j. pg_inv j \<and> pg_status j ev i = Some ''applied'')"
  have cong: "P j'" if "P j" "pj_db j' = pj_db j" for j j'
    using that(1) unfolding P_def pg_inv_def pg_status_def that(2) .
  have micro: "P j'" if "pg_micro sha j j'" "P j" for j j'
    using pg_micro_status [OF that(1), of ev i] that(2) unfolding P_def by simp
  have "P (sy_view s' m)"
    using assms(1)[unfolded sy_run_def]
  proof (induction arbitrary: m rule: rtranclp_induct)
    case base
    have "P (sy_view s n)" using assms(2,3) unfolding P_def by simp
    then show ?case by (rule cong) (simp add: sy_view_def)
  next
    case (step s1 s2)
    from step.hyps(2) show ?case
    proof (cases rule: pg_step.cases)
      case (step k j')
      have "P j'" by (rule pg_call_invariant [where P = P, OF step(2) step.IH]) (rule micro)
      then show ?thesis by (rule cong) (simp add: step(1) sy_view_def sy_put_def)
    qed
  qed
  then show ?thesis by (simp add: P_def)
qed

text \<open>Every operation row belongs to a publication (the foreign key).\<close>

definition pg_owned :: "pg_journal \<Rightarrow> bool" where
  "pg_owned j \<longleftrightarrow> pg_inv j \<and> (\<forall>ev i. dict_get (db_operations (pj_db j)) (ev, i) \<noteq> None \<longrightarrow>
     dict_get (db_publications (pj_db j)) ev \<noteq> None)"

lemma pg_micro_owned: "pg_micro sha j j' \<Longrightarrow> pg_owned j \<Longrightarrow> pg_owned j'"
proof (induction rule: pg_micro.induct)
  case (micro_fence event ident j r j')
  then show ?case
    using pg_acquire_fence_ops [of event ident j r j'] pg_acquire_fence_publications [of event ident j r j']
      pg_inv_cong [of j' j] by (simp add: pg_owned_def)
next
  case (micro_insert e ops j r j')
  show ?case
  proof (cases r)
    case (Inl ex)
    with micro_insert show ?thesis by (auto dest: pg_insert_run_Inl)
  next
    case (Inr u)
    with micro_insert have run: "pg_insert_run sha e ops j = (Inr u, j')" by simp
    have "dict_get (db_publications (pj_db j')) ev \<noteq> None"
      if "dict_get (db_operations (pj_db j')) (ev, i) \<noteq> None" for ev i
    proof (cases "ev = pe_approval_event_id e")
      case True
      then show ?thesis by (simp add: pg_insert_run_Inr(4) [OF run])
    next
      case False
      from that have "dict_get (db_operations (pj_db j)) (ev, i) \<noteq> None"
        by (auto simp: pg_insert_run_Inr(1) [OF run] map_add_def dict_get_planned_rows False split: option.splits)
      with micro_insert.prems have "dict_get (db_publications (pj_db j)) ev \<noteq> None"
        unfolding pg_owned_def by blast
      then show ?thesis by (simp only: pg_insert_run_publications [OF run False]) simp
    qed
    with micro_insert.prems pg_insert_run_law(1) [OF _ run] show ?thesis by (simp add: pg_owned_def)
  qed
next
  case (micro_transition from_states to_state message x j r j')
  then have pubs: "db_publications (pj_db j') = db_publications (pj_db j)"
    and rows: "\<And>k. dict_get (db_operations (pj_db j')) k \<noteq> None \<Longrightarrow> dict_get (db_operations (pj_db j)) k \<noteq> None"
    by (auto simp: pg_transition_def Let_def dict_simps split: option.splits if_splits)
  have "pg_inv j'"
    using pg_transition_law [of j from_states to_state message x r j'] micro_transition by (simp add: pg_owned_def)
  then show ?case
    using micro_transition.prems rows unfolding pg_owned_def pubs by blast
next
  case (micro_complete j row)
  then show ?case by (auto simp: pg_owned_def pg_inv_def dict_simps)
next
  case (micro_close j)
  then show ?case
    using pg_close_inv [of j] by (simp add: pg_owned_def pg_simps pg_close_def split: option.splits)
qed

lemma pg_owned_db: "pg_owned j \<Longrightarrow> pj_db j' = pj_db j \<Longrightarrow> pg_owned j'"
  unfolding pg_owned_def pg_inv_def by simp

lemma pg_owned_reachable: "pg_reachable sha s \<Longrightarrow> pg_owned (sy_view s n)"
proof (induction arbitrary: n rule: pg_reachable.induct)
  case init
  show ?case by (simp add: pg_owned_def pg_inv_def sy_view_def sy_init_def)
next
  case (more s s')
  from more.hyps(2) show ?case
  proof (cases rule: pg_step.cases)
    case (step m j')
    have "pg_owned j'"
      by (rule pg_call_invariant [where P = pg_owned, OF step(2) more.IH]) (rule pg_micro_owned)
    then show ?thesis by (rule pg_owned_db) (simp add: step(1) sy_view_def sy_put_def)
  qed
qed

end
