(* ===== verification/ValidationSpec.thy ===== *)
theory ValidationSpec
  imports Validation
begin

text \<open>
  What a publishable plan is, stated without the validator: unique keys, references that
  resolve, a parent hierarchy that descends in rank within one repository, no cycle of
  parents or blockers, and relations that OpenProject can store (at most one per ordered
  endpoint pair, and no symmetric relation beside a directed one). The validator returns no
  issue exactly on these plans.
\<close>

section \<open>The declarative specification\<close>

definition reference_ok :: "backlog_plan \<Rightarrow> backlog_item \<Rightarrow> string \<times> string \<Rightarrow> bool" where
  "reference_ok p i r \<longleftrightarrow>
     (\<exists>ti \<in> set (bp_items p). bi_key ti = snd r \<and> snd r \<noteq> bi_key i \<and>
        (fst r = ''decision_required'' \<or> fst r = ''decisions'' \<longrightarrow> bi_type ti = Decision) \<and>
        (if fst r = ''parent''
         then type_rank (bi_type ti) < type_rank (bi_type i) \<and> bi_repository ti = bi_repository i
         else bi_repository ti = bi_repository i \<or> bi_integration_work i))"

definition traceable :: "backlog_item \<Rightarrow> bool" where
  "traceable i \<longleftrightarrow>
     (is_executable (bi_type i) \<longrightarrow> bi_source_requirements i \<noteq> [] \<or> bi_maintenance_objectives i \<noteq> []) \<and>
     (\<forall>t \<in> set (bi_source_requirements i) \<union> set (bi_maintenance_objectives i). \<not> is_catch_all t)"

definition observable_item :: "backlog_item \<Rightarrow> bool" where
  "observable_item i \<longleftrightarrow>
     (\<forall>c \<in> set (bi_acceptance_criteria i).
        \<not> contains_vague (ac_observation c) \<and> \<not> py_in '' and '' (py_casefold (ac_criterion c))) \<and>
     bi_required_evidence i \<noteq> [] \<and> \<not> contains_vague (rp_expression (bi_result_predicate i)) \<and>
     (\<forall>b \<in> set (bi_blocked_by i). \<not> py_in '' '' (py_strip b))"

definition item_ok :: "backlog_plan \<Rightarrow> backlog_item \<Rightarrow> bool" where
  "item_ok p i \<longleftrightarrow>
     bi_repository i \<in> repo_name ` set (plan_repositories (bp_plan p)) \<and>
     (\<forall>r \<in> set (references i). reference_ok p i r) \<and> traceable i \<and> observable_item i"

definition replan_ok :: "backlog_plan \<Rightarrow> bool" where
  "replan_ok p \<longleftrightarrow>
     (\<forall>s. plan_replan (bp_plan p) = Some s \<longrightarrow>
        rs_base_plan_version s < plan_version (bp_plan p) \<and>
        set (rs_selected_root_keys s) \<subseteq> set (rs_affected_node_keys s) \<inter> set (item_keys p) \<and>
        distinct (map rb_node_key (rs_retained_node_bindings s)) \<and>
        (\<forall>b \<in> set (rs_retained_node_bindings s).
           rb_node_key b \<in> set (item_keys p) - set (rs_affected_node_keys s) \<and>
           rb_plan_version b \<le> rs_base_plan_version s))"

definition relations_storable :: "backlog_item list \<Rightarrow> bool" where
  "relations_storable items \<longleftrightarrow>
     distinct (map fst (stored_uses items)) \<and>
     (\<forall>u \<in> set (stored_uses items).
        ordered_pair (fst (fst u)) (snd (fst u)) \<notin> fst ` set (symmetric_uses items))"

definition parent_rel :: "backlog_plan \<Rightarrow> (string \<times> string) set" where
  "parent_rel p = {(bi_key i, q) | i q. i \<in> set (bp_items p) \<and> bi_parent i = Some q \<and>
     q \<in> set (item_keys p)}"

definition blocked_rel :: "backlog_plan \<Rightarrow> (string \<times> string) set" where
  "blocked_rel p = {(bi_key i, q) | i q. i \<in> set (bp_items p) \<and> q \<in> set (bi_blocked_by i) \<and>
     q \<in> set (item_keys p)}"

definition plan_well_formed :: "(backlog_plan \<Rightarrow> string option) \<Rightarrow> backlog_plan \<Rightarrow> bool" where
  "plan_well_formed schema_error p \<longleftrightarrow>
     schema_error p = None \<and>
     plan_publication_identity (bp_plan p) = expected_publication_identity (bp_plan p) \<and>
     replan_ok p \<and> distinct (item_keys p) \<and> relations_storable (bp_items p) \<and>
     (\<forall>i \<in> set (bp_items p). item_ok p i) \<and>
     acyclic (parent_rel p) \<and> acyclic (blocked_rel p)"

section \<open>Each rule against its specification\<close>

lemma distinct_filter_iff:
  "distinct (map f xs) \<longleftrightarrow> (\<forall>k. length (filter (\<lambda>x. f x = k) xs) \<le> 1)"
proof (induction xs)
  case Nil
  then show ?case by simp
next
  case (Cons x xs)
  have "f x \<notin> f ` set xs \<longleftrightarrow> filter (\<lambda>y. f y = f x) xs = []"
    by (auto simp: filter_empty_conv) (metis image_eqI)
  then show ?case using Cons by auto
qed

lemma count_list_filter: "count_list xs k = length (filter (\<lambda>x. x = k) xs)"
  by (induction xs) auto

lemma duplicate_key_issues_Nil: "duplicate_key_issues keys = [] \<longleftrightarrow> distinct keys"
proof -
  have "duplicate_key_issues keys = [] \<longleftrightarrow> (\<forall>k \<in> set keys. count_list keys k \<le> 1)"
    by (auto simp: duplicate_key_issues_def filter_empty_conv)
  also have "\<dots> \<longleftrightarrow> (\<forall>k. count_list keys k \<le> 1)"
    by (metis count_list_0_iff zero_le)
  also have "\<dots> \<longleftrightarrow> distinct keys"
    using distinct_filter_iff [of "\<lambda>x. x" keys] by (simp add: count_list_filter)
  finally show ?thesis .
qed

lemma concat_map_pair_Nil:
  "concat (map (\<lambda>(k, v). F k v) d) = [] \<longleftrightarrow> (\<forall>k v. (k, v) \<in> set d \<longrightarrow> F k v = [])"
  by (induction d) auto

lemma stored_collision_issues_Nil:
  "stored_collision_issues (group_pairs kvs) = [] \<longleftrightarrow> distinct (map fst kvs)"
proof -
  have "stored_collision_issues (group_pairs kvs) = [] \<longleftrightarrow>
      (\<forall>k vs. (k, vs) \<in> set (group_pairs kvs) \<longrightarrow> length vs \<le> 1)"
  proof -
    have "(if length vs > 1 then map (collision_issue pr) vs else []) = [] \<longleftrightarrow> length vs \<le> 1" for pr vs
      by (cases vs) auto
    then show ?thesis
      unfolding stored_collision_issues_def concat_map_pair_Nil set_sort by blast
  qed
  also have "\<dots> \<longleftrightarrow> (\<forall>k. length (filter (\<lambda>x. fst x = k) kvs) \<le> 1)"
    unfolding set_group_pairs by (metis length_map list.size(3) zero_le)
  also have "\<dots> \<longleftrightarrow> distinct (map fst kvs)"
    by (simp add: distinct_filter_iff)
  finally show ?thesis .
qed

lemma directed_uses_Nil:
  "directed_uses (group_pairs kvs) pr = [] \<longleftrightarrow>
     (\<forall>u \<in> set kvs. ordered_pair (fst (fst u)) (snd (fst u)) \<noteq> pr)"
proof -
  have "directed_uses (group_pairs kvs) pr = [] \<longleftrightarrow>
      (\<forall>ends uses. (ends, uses) \<in> set (group_pairs kvs) \<longrightarrow> ordered_pair (fst ends) (snd ends) \<noteq> pr)"
    unfolding directed_uses_def concat_map_pair_Nil using set_group_pairs [of _ _ kvs] by metis
  also have "\<dots> \<longleftrightarrow> (\<forall>ends \<in> fst ` set kvs. ordered_pair (fst ends) (snd ends) \<noteq> pr)"
    by (rule set_group_pairs_keys)
  finally show ?thesis by simp
qed

lemma symmetric_collision_issues_Nil:
  "symmetric_collision_issues (group_pairs st) (group_pairs sy) = [] \<longleftrightarrow>
     (\<forall>u \<in> set st. ordered_pair (fst (fst u)) (snd (fst u)) \<notin> fst ` set sy)"
proof -
  have "symmetric_collision_issues (group_pairs st) (group_pairs sy) = [] \<longleftrightarrow>
      (\<forall>pr uses. (pr, uses) \<in> set (group_pairs sy) \<longrightarrow> directed_uses (group_pairs st) pr = [])"
    unfolding symmetric_collision_issues_def concat_map_pair_Nil set_sort Let_def
    using set_group_pairs [of _ _ sy] by (metis append_is_Nil_conv map_is_Nil_conv)
  also have "\<dots> \<longleftrightarrow> (\<forall>pr \<in> fst ` set sy. directed_uses (group_pairs st) pr = [])"
    by (rule set_group_pairs_keys)
  finally show ?thesis unfolding directed_uses_Nil by blast
qed

lemma replan_issues_Nil: "replan_issues (item_keys p) (bp_plan p) = [] \<longleftrightarrow> replan_ok p"
  by (cases "plan_replan (bp_plan p)")
    (auto simp: replan_issues_def replan_ok_def binding_issues_def filter_empty_conv)

lemma reference_ok_known:
  assumes dist: "distinct (item_keys p)" and ti: "dict_get (by_key p) (snd r) = Some ti"
  shows "reference_ok p i r \<longleftrightarrow>
      snd r \<noteq> bi_key i \<and>
      (fst r = ''decision_required'' \<or> fst r = ''decisions'' \<longrightarrow> bi_type ti = Decision) \<and>
      (if fst r = ''parent''
       then type_rank (bi_type ti) < type_rank (bi_type i) \<and> bi_repository ti = bi_repository i
       else bi_repository ti = bi_repository i \<or> bi_integration_work i)"
proof -
  have mem: "ti \<in> set (bp_items p)" and key: "bi_key ti = snd r"
    using by_key_Some [OF ti] by auto
  have "tj = ti" if "tj \<in> set (bp_items p)" and "bi_key tj = snd r" for tj
    using by_key_unique [OF dist that(1)] that(2) ti by simp
  with mem key show ?thesis unfolding reference_ok_def by blast
qed

lemma reference_issues_Nil:
  assumes "distinct (item_keys p)"
  shows "reference_issues p i r = [] \<longleftrightarrow> reference_ok p i r"
proof (cases "snd r \<in> set (item_keys p)")
  case False
  then have "\<not> reference_ok p i r"
    unfolding reference_ok_def by (metis image_eqI set_map)
  moreover from False have "reference_issues p i r \<noteq> []"
    by (simp add: reference_issues_def case_prod_beta)
  ultimately show ?thesis by simp
next
  case True
  then obtain ti where ti: "dict_get (by_key p) (snd r) = Some ti"
    using by_key_ex by blast
  have if_Nil: "(if c then xs else []) = [] \<longleftrightarrow> \<not> c \<or> xs = []" for c and xs :: "validation_issue list"
    by simp
  have "reference_issues p i r = [] \<longleftrightarrow>
      snd r \<noteq> bi_key i \<and>
      (fst r = ''decision_required'' \<or> fst r = ''decisions'' \<longrightarrow> bi_type ti = Decision) \<and>
      (if fst r = ''parent''
       then type_rank (bi_type ti) < type_rank (bi_type i) \<and> bi_repository ti = bi_repository i
       else bi_repository ti = bi_repository i \<or> bi_integration_work i)"
    using True ti
    by (cases "fst r = ''parent''"; cases "bi_type ti = Decision")
      (simp_all add: reference_issues_def case_prod_beta if_Nil not_le)
  then show ?thesis by (simp only: reference_ok_known [OF assms ti])
qed

lemma traceability_issues_Nil: "traceability_issues i = [] \<longleftrightarrow> traceable i"
proof -
  have all: "concat (map (\<lambda>t. if is_catch_all t then [e] else []) ts) = [] \<longleftrightarrow> (\<forall>t \<in> set ts. \<not> is_catch_all t)"
    for e :: validation_issue and ts
    by (induction ts) auto
  have one: "(if c then [e] else []) = [] \<longleftrightarrow> \<not> c" for c and e :: validation_issue
    by simp
  show ?thesis
    unfolding traceability_issues_def traceable_def append_is_Nil_conv set_append all one by blast
qed

lemma criterion_issues_Nil:
  "criterion_issues i c = [] \<longleftrightarrow>
     \<not> contains_vague (ac_observation c) \<and> \<not> py_in '' and '' (py_casefold (ac_criterion c))"
  by (simp add: criterion_issues_def)

lemma item_issues_Nil:
  assumes "distinct (item_keys p)"
  shows "item_issues p i = [] \<longleftrightarrow> item_ok p i"
proof -
  have est: "estimate_str (bi_estimate i) \<in> {''XS'', ''S'', ''M''}"
    by (cases "bi_estimate i") auto
  have refs: "concat (map (reference_issues p i) (references i)) = [] \<longleftrightarrow>
      (\<forall>r \<in> set (references i). reference_ok p i r)"
    by (simp add: reference_issues_Nil [OF assms])
  have crit: "concat (map (criterion_issues i) (bi_acceptance_criteria i)) = [] \<longleftrightarrow>
      (\<forall>c \<in> set (bi_acceptance_criteria i).
        \<not> contains_vague (ac_observation c) \<and> \<not> py_in '' and '' (py_casefold (ac_criterion c)))"
    by (simp add: criterion_issues_Nil)
  have if_Nil: "(if c then [x] else []) = [] \<longleftrightarrow> \<not> c" for c and x :: validation_issue
    by simp
  show ?thesis
    unfolding item_issues_def item_ok_def append_is_Nil_conv refs crit traceability_issues_Nil
      observable_item_def if_Nil list_ex_iff set_map
    using est by blast
qed

lemma edge_rel_dict_of:
  assumes "distinct (map f xs)"
  shows "edge_rel (dict_of f g xs) = {(f x, t) | x t. x \<in> set xs \<and> t \<in> set (g x)}"
proof (intro equalityI subsetI)
  fix e
  assume "e \<in> edge_rel (dict_of f g xs)"
  then show "e \<in> {(f x, t) | x t. x \<in> set xs \<and> t \<in> set (g x)}"
    by (auto simp: edge_rel_def dest!: dict_get_dict_of_Some)
next
  fix e
  assume "e \<in> {(f x, t) | x t. x \<in> set xs \<and> t \<in> set (g x)}"
  then show "e \<in> edge_rel (dict_of f g xs)"
    by (auto simp: edge_rel_def dict_get_dict_of_distinct [OF assms])
qed

lemma graph_closed_dict_of:
  "(\<And>x. x \<in> set xs \<Longrightarrow> set (g x) \<subseteq> f ` set xs) \<Longrightarrow> graph_closed (dict_of f g xs)"
  by (auto simp: graph_closed_def edge_rel_def set_dict_of dest!: dict_get_dict_of_Some)

lemma parent_edges_closed: "graph_closed (parent_edges (item_keys p) (bp_items p))"
  unfolding parent_edges_def
  by (rule graph_closed_dict_of) (auto split: option.splits)

lemma dependency_edges_closed: "graph_closed (dependency_edges (item_keys p) (bp_items p))"
  unfolding dependency_edges_def by (rule graph_closed_dict_of) auto

lemma parent_edges_rel:
  "distinct (item_keys p) \<Longrightarrow> edge_rel (parent_edges (item_keys p) (bp_items p)) = parent_rel p"
  unfolding parent_edges_def
  by (subst edge_rel_dict_of) (force simp: parent_rel_def split: option.splits if_splits)+

lemma dependency_edges_rel:
  "distinct (item_keys p) \<Longrightarrow> edge_rel (dependency_edges (item_keys p) (bp_items p)) = blocked_rel p"
  unfolding dependency_edges_def
  by (subst edge_rel_dict_of) (auto simp: blocked_rel_def)

lemma cycle_issues_eq:
  "graph_closed g \<Longrightarrow> cycle_issues c m g = Inr (if acyclic (edge_rel g) then [] else [issue c m])"
  by (simp add: cycle_issues_def has_cycle_iff)

section \<open>The validator never raises, and accepts exactly the well-formed plans\<close>

lemma validate_plan_returns: "\<exists>is. validate_plan schema_error p = Inr is"
  by (simp add: validate_plan_def Let_def cycle_issues_eq parent_edges_closed dependency_edges_closed)

lemma validate_plan_Nil:
  "validate_plan schema_error p = Inr [] \<longleftrightarrow> plan_well_formed schema_error p"
proof (cases "distinct (item_keys p)")
  case False
  then have "duplicate_key_issues (item_keys p) \<noteq> []"
    by (simp add: duplicate_key_issues_Nil)
  with False show ?thesis
    by (simp add: validate_plan_def Let_def cycle_issues_eq parent_edges_closed
        dependency_edges_closed plan_well_formed_def)
next
  case True
  have "schema_issues schema_error p = [] \<longleftrightarrow> schema_error p = None"
    by (simp add: schema_issues_def split: option.splits)
  moreover have "identity_issues p = [] \<longleftrightarrow>
      plan_publication_identity (bp_plan p) = expected_publication_identity (bp_plan p)"
    by (simp add: identity_issues_def)
  ultimately show ?thesis
    using True
    by (auto simp: validate_plan_def Let_def cycle_issues_eq parent_edges_closed
        dependency_edges_closed plan_well_formed_def duplicate_key_issues_Nil replan_issues_Nil
        item_issues_Nil stored_collision_issues_Nil symmetric_collision_issues_Nil
        relations_storable_def parent_edges_rel dependency_edges_rel)
qed

end
