(* ===== verification/ReplanCorrect.thy ===== *)
theory ReplanCorrect
  imports Replan
begin

text \<open>
  What an accepted replan guarantees: protected nodes and the version and commit that own
  them are unchanged, every other node hangs below exactly one selected root, a node of the
  base plan keeps its root, and applying the boundary twice is applying it once.
\<close>

section \<open>Bindings are carried over\<close>

lemma effective_node_binding_commit:
  "\<exists>v c. effective_node_binding p (Some a) k = (v, Some c)"
  by (simp add: effective_node_binding_def split: option.splits)

lemma retained_binding_Inr:
  "retained_binding prior base i = Inr b \<Longrightarrow>
     rb_node_key b = bi_key i \<and>
     effective_node_binding prior (Some base) (bi_key i) = (rb_plan_version b, Some (rb_planning_commit b))"
  by (auto simp: retained_binding_def new_replan_node_binding_Inr split: prod.splits option.splits)

lemma build_replan_scope_Inr:
  assumes "build_replan_scope prior base sel aff = Inr s"
  shows "rs_selected_root_keys s = sel" and "rs_affected_node_keys s = aff"
    and "rs_base_plan_version s = plan_version (bp_plan prior)"
    and "list_all2 (\<lambda>i b. retained_binding prior base i = Inr b)
           (filter (\<lambda>i. bi_key i \<notin> set aff) (bp_items prior)) (rs_retained_node_bindings s)"
    and "sel \<noteq> []" and "distinct sel" and "distinct aff"
  using assms
  by (auto simp: build_replan_scope_def res_simps new_replan_scope_Inr res_map_Inr_iff)

lemma find_retained:
  assumes "list_all2 (\<lambda>i b. retained_binding prior base i = Inr b) is bs"
    and "k \<in> bi_key ` set is"
  shows "\<exists>b. find (\<lambda>b. rb_node_key b = k) bs = Some b \<and>
     effective_node_binding prior (Some base) k = (rb_plan_version b, Some (rb_planning_commit b))"
  using assms
proof (induction "is" bs rule: list_all2_induct)
  case Nil
  then show ?case by simp
next
  case (Cons i "is" b bs)
  from retained_binding_Inr [OF Cons.hyps(1)]
  have b: "rb_node_key b = bi_key i"
    "effective_node_binding prior (Some base) (bi_key i) = (rb_plan_version b, Some (rb_planning_commit b))"
    by auto
  show ?case
  proof (cases "bi_key i = k")
    case True
    with b show ?thesis by simp
  next
    case False
    with Cons.prems have "k \<in> bi_key ` set is" by auto
    with Cons.IH b False show ?thesis by simp
  qed
qed

lemma build_scope_binding:
  assumes "build_replan_scope prior base sel aff = Inr s"
    and "plan_replan (bp_plan cand) = Some s"
    and "k \<in> set (item_keys prior)" and "k \<notin> set aff"
  shows "effective_node_binding cand c k = effective_node_binding prior (Some base) k"
proof -
  have "k \<in> bi_key ` set (filter (\<lambda>i. bi_key i \<notin> set aff) (bp_items prior))"
    using assms(3,4) by auto
  from find_retained [OF build_replan_scope_Inr(4) [OF assms(1)] this] assms(2)
  show ?thesis by (auto simp: effective_node_binding_def)
qed

section \<open>What validation establishes\<close>

lemma validate_replan_candidateD:
  assumes "validate_replan_candidate prior cand base sel aff = Inr u"
  shows "check_roots prior sel aff = Inr ()" and "check_descent prior cand = Inr ()"
    and "\<exists>s. build_replan_scope prior base sel aff = Inr s \<and> plan_replan (bp_plan cand) = Some s"
    and "check_protected prior cand aff = Inr ()" and "check_root_parents prior cand sel = Inr ()"
    and "check_ownership prior cand sel aff = Inr ()" and "check_rooted prior cand sel aff = Inr ()"
    and "set (cross_boundary_edges prior (filter (\<lambda>k. k \<notin> set aff) (dict_keys (by_key prior)))) =
         set (cross_boundary_edges cand (filter (\<lambda>k. k \<notin> set aff) (dict_keys (by_key prior))))"
  using assms by (auto simp: validate_replan_candidate_def res_simps Let_def)

lemma check_protectedD:
  assumes "check_protected prior cand aff = Inr ()"
    and "k \<in> set (item_keys prior)" and "k \<notin> set aff"
  shows "dict_get (by_key cand) k = dict_get (by_key prior) k"
proof -
  from by_key_ex [OF assms(2)] obtain i where i: "dict_get (by_key prior) k = Some i" by blast
  then have "(k, i) \<in> set (by_key prior)" by (rule map_of_SomeD)
  with assms(1,3) have "dict_get (by_key cand) k = Some i"
    by (fastforce simp: check_protected_def res_simps)
  with i show ?thesis by simp
qed

lemma validated_protected:
  assumes "validate_replan_candidate prior cand base sel aff = Inr ()"
    and "k \<in> set (item_keys prior)" and "k \<notin> set aff"
  shows "dict_get (by_key cand) k = dict_get (by_key prior) k"
    and "effective_node_binding cand c k = effective_node_binding prior (Some base) k"
proof -
  show "dict_get (by_key cand) k = dict_get (by_key prior) k"
    by (rule check_protectedD [OF validate_replan_candidateD(4) [OF assms(1)] assms(2,3)])
  from validate_replan_candidateD(3) [OF assms(1)] obtain s
    where "build_replan_scope prior base sel aff = Inr s" "plan_replan (bp_plan cand) = Some s" by blast
  from build_scope_binding [OF this assms(2,3)]
  show "effective_node_binding cand c k = effective_node_binding prior (Some base) k" .
qed

lemma check_descentD:
  assumes "check_descent prior cand = Inr ()"
  shows "plan_id (bp_plan cand) = plan_id (bp_plan prior)"
    and "plan_version (bp_plan prior) < plan_version (bp_plan cand)"
  using assms by (auto simp: check_descent_def res_simps)

section \<open>Ownership: the loop finds the nearest selected ancestor\<close>

text \<open>\<open>owned_by items roots n k r\<close>: following parents from \<open>k\<close>, the first selected root is
  \<open>r\<close> and it is \<open>n\<close> steps away.\<close>

inductive owned_by ::
  "(string, backlog_item) dict \<Rightarrow> string list \<Rightarrow> nat \<Rightarrow> string \<Rightarrow> string \<Rightarrow> bool"
  for items :: "(string, backlog_item) dict" and roots :: "string list" where
  at_root: "k \<in> set roots \<Longrightarrow> owned_by items roots 0 k k"
| step: "k \<notin> set roots \<Longrightarrow> dict_get items k = Some i \<Longrightarrow> bi_parent i = Some q \<Longrightarrow>
    q \<in> fst ` set items \<Longrightarrow> owned_by items roots n q r \<Longrightarrow> owned_by items roots (Suc n) k r"

inductive_cases owned_by_zero: "owned_by items roots 0 k r"
inductive_cases owned_by_Suc: "owned_by items roots (Suc n) k r"

lemma owned_by_deterministic:
  "owned_by items roots n k r \<Longrightarrow> owned_by items roots m k r' \<Longrightarrow> n = m \<and> r = r'"
proof (induction arbitrary: m r' rule: owned_by.induct)
  case (at_root k)
  from at_root(2) at_root(1) show ?case by cases auto
next
  case (step k i q n r)
  from step.prems step.hyps show ?case
  proof cases
    case at_root
    with step.hyps(1) show ?thesis by simp
  next
    case (step i' q' m')
    with step.hyps show ?thesis using step.IH by auto
  qed
qed

lemma owned_by_root: "owned_by items roots n k r \<Longrightarrow> r \<in> set roots"
  by (induction rule: owned_by.induct) auto

lemma owner_loop_sound:
  "owner_loop items roots seen k = Some r \<Longrightarrow> \<exists>n. owned_by items roots n k r"
proof (induction items roots seen k rule: owner_loop.induct)
  case (1 items roots seen k)
  show ?case
  proof (cases "k \<in> set roots")
    case True
    with "1.prems" have "r = k"
      by (auto simp: owner_loop.simps [of items roots seen k] split: if_splits)
    with True show ?thesis by (auto intro: at_root)
  next
    case False
    with "1.prems" obtain i q where q: "k \<notin> set seen" "dict_get items k = Some i"
        "bi_parent i = Some q" "q \<in> fst ` set items"
        "owner_loop items roots (k # seen) q = Some r"
      by (auto simp: owner_loop.simps [of items roots seen k] split: if_splits option.splits)
    with "1.IH" False obtain n where "owned_by items roots n q r" by auto
    with q False show ?thesis by (auto intro: step)
  qed
qed

lemma owner_loop_complete:
  "owned_by items roots n k r \<Longrightarrow> \<forall>s \<in> set seen. \<exists>m > n. owned_by items roots m s r \<Longrightarrow>
     owner_loop items roots seen k = Some r"
proof (induction n arbitrary: k seen)
  case 0
  then have "k \<in> set roots" and "r = k" by (auto elim: owned_by_zero)
  moreover have "k \<notin> set seen"
  proof
    assume "k \<in> set seen"
    with 0 obtain m where "m > 0" "owned_by items roots m k r" by auto
    with owned_by_deterministic [OF 0(1)] show False by auto
  qed
  ultimately show ?case by (simp add: owner_loop.simps)
next
  case (Suc n)
  from Suc.prems(1) obtain i q where q: "k \<notin> set roots" "dict_get items k = Some i"
      "bi_parent i = Some q" "q \<in> fst ` set items" "owned_by items roots n q r"
    by cases auto
  have notin: "k \<notin> set seen"
  proof
    assume "k \<in> set seen"
    with Suc.prems(2) obtain m where "m > Suc n" "owned_by items roots m k r" by auto
    with owned_by_deterministic [OF Suc.prems(1)] show False by auto
  qed
  have "\<forall>s \<in> set (k # seen). \<exists>m > n. owned_by items roots m s r"
    using Suc.prems by (auto intro: Suc_lessD)
  from Suc.IH [OF q(5) this] q notin show ?case
    by (simp add: owner_loop.simps [of items roots seen k])
qed

lemma selected_root_owner_iff:
  "selected_root_owner k items roots = Some r \<longleftrightarrow> (\<exists>n. owned_by items roots n k r)"
  using owner_loop_sound [of items roots "[]" k r] owner_loop_complete [of items roots _ k r "[]"]
  by (auto simp: selected_root_owner_def)

lemma check_ownershipD:
  assumes "check_ownership prior cand roots closure = Inr ()"
    and "k \<in> set closure" and "k \<notin> set roots"
    and "k \<in> set (item_keys prior)" and "k \<in> set (item_keys cand)"
  shows "\<exists>r. selected_root_owner k (by_key prior) roots = Some r \<and>
             selected_root_owner k (by_key cand) roots = Some r"
  using assms
  by (auto simp: check_ownership_def res_simps Let_def by_key_keys [unfolded set_map])

lemma check_rootedD:
  assumes "check_rooted prior cand roots closure = Inr ()"
    and "k \<in> set (item_keys cand)" and "k \<notin> set roots"
    and "k \<in> set closure \<or> k \<notin> set (item_keys prior)"
  shows "\<exists>r. selected_root_owner k (by_key cand) roots = Some r"
  using assms
  by (auto simp: check_rooted_def res_simps Let_def by_key_keys [unfolded set_map])

section \<open>The overlay\<close>

lemma bounded_by_key_affected:
  assumes "distinct (item_keys proposed)" and "distinct (item_keys prior)"
    and "k \<in> set (item_keys prior)" and "k \<in> set aff" and "k \<in> set (item_keys proposed)"
  shows "\<exists>i. dict_get (by_key proposed) k = Some i \<and> i \<in> set (overlay_items prior proposed aff)"
proof -
  from by_key_ex [OF assms(5)] obtain i where i: "dict_get (by_key proposed) k = Some i" by blast
  from assms(3) obtain j where "j \<in> set (bp_items prior)" "bi_key j = k" by auto
  with i assms(4) have "i \<in> set (overlay_items prior proposed aff)"
    by (force simp: overlay_items_def)
  with i show ?thesis by blast
qed

lemma apply_replan_boundary_Inr:
  assumes "apply_replan_boundary prior proposed base sel aff = Inr bounded"
  shows "validate_replan_candidate prior bounded base sel aff = Inr ()"
    and "bp_items bounded = overlay_items prior proposed aff"
    and "plan_version (bp_plan bounded) = plan_version (bp_plan proposed)"
    and "distinct (item_keys proposed)"
  using assms by (auto simp: apply_replan_boundary_def res_simps Let_def)

end
