(* ===== verification/Examples.thy ===== *)
theory Examples
  imports Adapter PgSystem ValidationSpec ReplanCorrect
begin

text \<open>
  Concrete inputs for the witnesses: a plan of an epic with two tasks, its envelope, and a
  small OpenProject. The stand-in for SHA-256 is a constant function; the recorded run has a
  single operation, so that its identifiers do not collide.
\<close>

definition ex_item :: "string \<Rightarrow> item_type \<Rightarrow> string option \<Rightarrow> backlog_item" where
  "ex_item key type parent =
     \<lparr>bi_key = key, bi_type = type, bi_title = ''Build '' @ key, bi_objective = ''Ship it'',
      bi_parent = parent, bi_repository = ''core'', bi_integration_work = False,
      bi_source_requirements = [''REQ-1''], bi_maintenance_objectives = [],
      bi_acceptance_criteria = [\<lparr>ac_criterion = ''the build passes'', ac_observation = ''CI log''\<rparr>],
      bi_blocked_by = [], bi_sequence_after = [], bi_related_to = [], bi_decision_required = [],
      bi_decisions = [], bi_mutex = [], bi_risk = RiskLow, bi_estimate = EstS,
      bi_agent_eligibility = \<lparr>ae_eligible = True, ae_reason = ''small''\<rparr>,
      bi_validation_commands = [''make test''],
      bi_required_evidence = [\<lparr>re_kind = EvCheckRun, re_description = ''CI''\<rparr>],
      bi_result_predicate = \<lparr>rp_kind = PrCommand, rp_expression = ''make test''\<rparr>\<rparr>"

definition ex_meta :: "int \<Rightarrow> replan_scope option \<Rightarrow> plan_meta" where
  "ex_meta version replan =
     \<lparr>plan_id = ''alpha'', plan_version = version,
      plan_publication_identity = ''alpha:v'' @ show_int version,
      plan_source_idea = \<lparr>si_work_package_id = 7, si_lock_version = 0, si_updated_at = ''t0''\<rparr>,
      plan_repositories = [\<lparr>repo_name = ''core'', repo_commit = replicate 40 (CHR ''a'')\<rparr>],
      plan_approved_planning_commit = None,
      plan_openproject_snapshot = \<lparr>sr_captured_at = ''t0'', sr_etag = ''e0'', sr_sha256 = ''s0''\<rparr>,
      plan_replan = replan\<rparr>"

definition ex_plan :: backlog_plan where
  "ex_plan = \<lparr>bp_schema_version = ''1'', bp_plan = ex_meta 1 None,
     bp_items = [ex_item ''epic-one'' Epic None,
                 (ex_item ''task-one'' Task (Some ''epic-one''))\<lparr>bi_blocked_by := [''task-two'']\<rparr>,
                 ex_item ''task-two'' Task (Some ''epic-one'')]\<rparr>"

lemma ex_plan_valid: "validate_plan (\<lambda>_. None) ex_plan = Inr []"
  by code_simp

definition ex_small_plan :: backlog_plan where
  "ex_small_plan = \<lparr>bp_schema_version = ''1'', bp_plan = ex_meta 1 None,
     bp_items = [ex_item ''epic-one'' Epic None]\<rparr>"

definition ex_artifact :: loaded_artifact where
  "ex_artifact = \<lparr>la_plan = ex_small_plan, la_sha256 = replicate 64 (CHR ''b''),
     la_blob_sha1 = replicate 40 (CHR ''c'')\<rparr>"

definition ex_envelope :: publication_envelope where
  "ex_envelope = \<lparr>pe_approved_commit = replicate 40 (CHR ''d''), pe_backlog_sha256 = replicate 64 (CHR ''b''),
     pe_artifact_blob_sha1 = replicate 40 (CHR ''c''), pe_approval_event_id = ''event-1'',
     pe_snapshot_sha256 = ''s0'', pe_snapshot_etag = ''e0'', pe_trace_id = ''trace-1'',
     pe_publication_target_sha256 = replicate 64 (CHR ''e''), pe_publication_identity = ''alpha:v1''\<rparr>"

definition ex_db :: pg_db where
  "ex_db = \<lparr>db_ready = True, db_publications = [], db_operations = [], db_locks = []\<rparr>"

definition ex_journal :: pg_journal where
  "ex_journal = \<lparr>pj_db = ex_db, pj_session = 1, pj_fence = None, pj_active = []\<rparr>"

text \<open>A remote side that answers every request and commits at once; its state is the list of work packages.\<close>

definition ex_find :: "work_package list \<Rightarrow> identity \<Rightarrow> work_package list" where
  "ex_find ws ident = filter (\<lambda>w. wp_identity w = Some ident) ws"

definition ex_remote_map :: "work_package list \<Rightarrow> remote" where
  "ex_remote_map ws ident = (case ex_find ws ident of [] \<Rightarrow> None | w # _ \<Rightarrow> Some w)"

definition ex_by_id :: "work_package list \<Rightarrow> int \<Rightarrow> identity option" where
  "ex_by_id ws n = (case filter (\<lambda>w. wp_id w = n) ws of [] \<Rightarrow> None | w # _ \<Rightarrow> wp_identity w)"

definition ex_remote :: "work_package list openproject_remote" where
  "ex_remote = \<lparr>
     rm_snapshot = (\<lambda>ws. (Inr \<lparr>sn_captured_at = ''t1'', sn_etag = ''e0'', sn_sha256 = ''s0'', sn_work_packages = ws\<rparr>, ws)),
     rm_matches = (\<lambda>i ws. (Inr (ex_find ws i), ws)),
     rm_package_identity = (\<lambda>n ws. (Inr (ex_by_id ws n), ws)),
     rm_relations = (\<lambda>n ws. (Inr [], ws)),
     rm_create_form = (\<lambda>x ws. (Inr (), ws)),
     rm_create = (\<lambda>x ws. let w = created_package (int (length ws) + 1) (op_identity x) (op_managed_after_hash x)
        in (HttpResponse 201 (Some w) [], ws @ [w])),
     rm_patch_form = (\<lambda>x p w ws. (Inr (), ws)),
     rm_patch = (\<lambda>x p w ws. let w' = package_effect (\<lambda>_. 0) (ex_remote_map ws) x w
        in (HttpResponse 200 (Some w') [], map (\<lambda>v. if wp_id v = wp_id w then w' else v) ws)),
     rm_delete_relation = (\<lambda>n ws. (HttpResponse 404 None [], ws)),
     rm_create_relation = (\<lambda>from to native marker ws.
        (HttpResponse 201 None [], map (\<lambda>v. if wp_id v = to \<and> native = ''blocks''
           then v\<lparr>wp_managed_relations := (case ex_by_id ws from of None \<Rightarrow> [] | Some i \<Rightarrow> [(''blocked_by'', i)])\<rparr>
           else v) ws))\<rparr>"

definition ex_config :: op_config where
  "ex_config = \<lparr>oc_target_sha256 = replicate 64 (CHR ''e''), oc_ready_status_id = 3\<rparr>"

definition ex_adapter :: "work_package list openproject_adapter" where
  "ex_adapter = \<lparr>ad_effects = [], ad_world = []\<rparr>"

definition ex_sha :: "string \<Rightarrow> string" where
  "ex_sha = (\<lambda>_. ''h'')"

definition ex_create :: publication_operation where
  "ex_create = \<lparr>op_id = ''op-1'', op_kind_of = CreateWorkPackage, op_identity = (''alpha'', ''epic-one''),
     op_preconditions = [(''identity_absent'', PBool True)], op_managed_before_hash = None,
     op_managed_after_hash = Some ''h'', op_trace_id = ''trace-1'',
     op_payload = [(''evidence_state'', PStr ''pending'')]\<rparr>"

text \<open>A database that records a run of \<open>ops\<close> in the given states.\<close>

definition ex_recorded_db :: "(publication_operation \<times> string) list \<Rightarrow> pg_db" where
  "ex_recorded_db ops = \<lparr>db_ready = True,
     db_publications = [(''event-1'', \<lparr>pp_identity = ''alpha:v1'', pp_target = replicate 64 (CHR ''e''),
        pp_envelope_sha256 = ''h'', pp_operations_sha256 = ''h'', pp_state = ''in_progress'',
        pp_legacy_archive = False\<rparr>)],
     db_operations = map (\<lambda>(n, x, st). ((''event-1'', op_id x),
        \<lparr>po_ordinal = n, po_sha256 = ''h'', po_document = jsonb_operation x, po_state = st\<rparr>)) (enumerate 0 ops),
     db_locks = []\<rparr>"

definition ex_recorded :: "(publication_operation \<times> string) list \<Rightarrow> pg_journal" where
  "ex_recorded ops = ex_journal\<lparr>pj_db := ex_recorded_db ops\<rparr>"

definition ex_publish ::
  "(publication_operation \<times> string) list \<Rightarrow> bool
    \<Rightarrow> (exn + publish_result) \<times> pg_journal \<times> work_package list openproject_adapter" where
  "ex_publish ops apply = publish ex_sha (\<lambda>_. None) (Some (pg_ops ex_sha)) (openproject_ops ex_config ex_remote)
     ex_artifact ex_envelope apply None (ex_recorded ops, ex_adapter)"

definition ex_is_Inr :: "'a + 'b \<Rightarrow> bool" where
  "ex_is_Inr r = (case r of Inl _ \<Rightarrow> False | Inr _ \<Rightarrow> True)"

lemma ex_publish_returns: "ex_is_Inr (fst (ex_publish [(ex_create, ''planned'')] True))"
  by code_simp

end
