(* ===== verification/Publication.thy ===== *)
theory Publication
  imports Examples
begin

text \<open>
  The publisher run on the PostgreSQL journal and the OpenProject adapter: what
  \<^verbatim>\<open>publish\<close> guarantees about effects and the record of them, and two situations it never
  recovers from.
\<close>

interpretation pg_openproject: publishing "pg_ops sha" pg_status pj_active pg_inv "openproject_ops cfg rm" effect_ids
  for sha cfg rm
  by unfold_locales

interpretation mem_openproject: publishing "mem_ops sha" mem_status mj_active mem_inv "openproject_ops cfg rm" effect_ids
  for sha cfg rm
  by unfold_locales

section \<open>Witness data\<close>

lemma ex_recorded_inv: "pg_inv (ex_recorded [(ex_create, st)])"
  by (auto simp: pg_inv_def ex_recorded_def ex_recorded_db_def ex_journal_def split: if_splits)

lemma ex_publish_run:
  "publish ex_sha (\<lambda>_. None) (Some (pg_ops ex_sha)) (openproject_ops ex_config ex_remote) ex_artifact ex_envelope
     apply None (ex_recorded ops, ex_adapter)
   = (fst (ex_publish ops apply), (fst (snd (ex_publish ops apply)), snd (snd (ex_publish ops apply))))"
  by (simp add: ex_publish_def)

lemma settled_images:
  "Some ` (insert ''applied'' unsettled) = {Some ''applied'', Some ''intent'', Some ''ambiguous''}"
  "Some ` attempted = {Some ''applied'', Some ''intent'', Some ''ambiguous'', Some ''retryable''}"
  "Some ` unsettled = {Some ''intent'', Some ''ambiguous''}"
  by (auto simp: unsettled_def attempted_def)

section \<open>Effects and their record\<close>

text \<open>
  C1: Every effect is on record before it happens, and happens at most once: whatever
  \<^verbatim>\<open>publish\<close> returns or raises, the effects it added are distinct, none of them had been
  applied, attempted or left ambiguous before, and the journal now has each of them in a state
  that follows an intent.
\<close>

theorem publish_write_ahead:
  assumes "pg_inv j"
    and "publish sha schema_error (Some (pg_ops sha)) (openproject_ops cfg rm) artifact envelope apply context (j, a)
      = (r, (j', a'))"
  shows "\<exists>new. effect_ids a' = effect_ids a @ new \<and> distinct new \<and>
    (\<forall>i \<in> set new. pg_status j (pe_approval_event_id envelope) i \<notin> {Some ''applied'', Some ''intent'', Some ''ambiguous''} \<and>
       pg_status j' (pe_approval_event_id envelope) i \<in>
         {Some ''applied'', Some ''intent'', Some ''ambiguous'', Some ''retryable''})"
proof -
  from pg_openproject.publish_safe(2) [OF assms] obtain k where
    "progress (pg_status j) (effect_ids a) (pe_approval_event_id envelope) {k} (pg_status j') (effect_ids a')" ..
  from progress_new [OF this] obtain new where
    new: "effect_ids a' = effect_ids a @ new \<and> distinct new \<and>
      (\<forall>i \<in> set new. pg_status j (pe_approval_event_id envelope) i \<notin> Some ` (insert ''applied'' unsettled) \<and>
         (if i \<in> {k} then pg_status j' (pe_approval_event_id envelope) i \<in> Some ` attempted
          else pg_status j' (pe_approval_event_id envelope) i = Some ''applied''))" ..
  show ?thesis
  proof (intro exI [where x = new] conjI ballI)
    fix i
    assume i: "i \<in> set new"
    show "pg_status j (pe_approval_event_id envelope) i \<notin> {Some ''applied'', Some ''intent'', Some ''ambiguous''}"
      using new i unfolding settled_images by simp
    show "pg_status j' (pe_approval_event_id envelope) i \<in>
        {Some ''applied'', Some ''intent'', Some ''ambiguous'', Some ''retryable''}"
      using new i unfolding settled_images by (auto split: if_splits)
  qed (simp_all add: new)
qed

theorem publish_write_ahead_witness:
  "\<exists>new. effect_ids (snd (snd (ex_publish [(ex_create, ''planned'')] True))) = effect_ids ex_adapter @ new \<and> distinct new \<and>
    (\<forall>i \<in> set new. pg_status (ex_recorded [(ex_create, ''planned'')]) (pe_approval_event_id ex_envelope) i
         \<notin> {Some ''applied'', Some ''intent'', Some ''ambiguous''} \<and>
       pg_status (fst (snd (ex_publish [(ex_create, ''planned'')] True))) (pe_approval_event_id ex_envelope) i \<in>
         {Some ''applied'', Some ''intent'', Some ''ambiguous'', Some ''retryable''})"
  by (rule publish_write_ahead [OF ex_recorded_inv ex_publish_run])

text \<open>
  What was applied stays applied, what was attempted is never planned again, and the runs
  of other approval events are not touched, whatever \<^verbatim>\<open>publish\<close> returns or raises.
\<close>

theorem publish_keeps_record:
  assumes "pg_inv j"
    and "publish sha schema_error (Some (pg_ops sha)) (openproject_ops cfg rm) artifact envelope apply context (j, a)
      = (r, (j', a'))"
  shows "(pg_status j (pe_approval_event_id envelope) i = Some ''applied'' \<longrightarrow>
       pg_status j' (pe_approval_event_id envelope) i = Some ''applied'') \<and>
    (pg_status j (pe_approval_event_id envelope) i \<in> {Some ''intent'', Some ''ambiguous''} \<longrightarrow>
       pg_status j' (pe_approval_event_id envelope) i \<in> {Some ''applied'', Some ''intent'', Some ''ambiguous''}) \<and>
    (ev \<noteq> pe_approval_event_id envelope \<longrightarrow> pg_status j' ev i = pg_status j ev i)"
proof -
  obtain k where "progress (pg_status j) (effect_ids a) (pe_approval_event_id envelope) {k} (pg_status j') (effect_ids a')"
    using pg_openproject.publish_safe(2) [OF assms] by blast
  then show ?thesis unfolding progress_def settled_images by blast
qed

theorem publish_keeps_record_witness:
  "pg_status (fst (snd (ex_publish [(ex_create, ''intent'')] True))) (pe_approval_event_id ex_envelope) ''op-1''
      \<in> {Some ''applied'', Some ''intent'', Some ''ambiguous''} \<and>
   pg_status (fst (snd (ex_publish [(ex_create, ''intent'')] True))) ''event-2'' ''op-1'' = None"
proof -
  have "pg_status (ex_recorded [(ex_create, ''intent'')]) (pe_approval_event_id ex_envelope) ''op-1''
      \<in> {Some ''intent'', Some ''ambiguous''}"
    and "pg_status (ex_recorded [(ex_create, ''intent'')]) ''event-2'' ''op-1'' = None"
    and "''event-2'' \<noteq> pe_approval_event_id ex_envelope"
    by code_simp+
  with publish_keeps_record [OF ex_recorded_inv ex_publish_run, where i = "''op-1''" and ev = "''event-2''"]
  show ?thesis by metis
qed

text \<open>
  C2: When \<^verbatim>\<open>publish(apply=True)\<close> returns, every operation it reports is recorded as
  applied, including those of an interrupted run it resumed.
\<close>

theorem publish_complete:
  assumes "pg_inv j"
    and "publish sha schema_error (Some (pg_ops sha)) (openproject_ops cfg rm) artifact envelope True context (j, a)
      = (Inr v, (j', a'))"
    and "x \<in> set (pr_operations v)"
  shows "pg_status j' (pe_approval_event_id envelope) (op_id x) = Some ''applied''"
  using pg_openproject.publish_safe(3) [OF assms(1,2) TrueI refl] assms(3) by blast

theorem publish_complete_witness:
  "pg_status (fst (snd (ex_publish [(ex_create, ''planned'')] True))) (pe_approval_event_id ex_envelope) (op_id ex_create)
     = Some ''applied''"
proof (rule publish_complete [OF ex_recorded_inv])
  have "ex_is_Inr (fst (ex_publish [(ex_create, ''planned'')] True))" by (rule ex_publish_returns)
  then obtain v where v: "fst (ex_publish [(ex_create, ''planned'')] True) = Inr v"
    by (auto simp: ex_is_Inr_def split: sum.splits)
  show "publish ex_sha (\<lambda>_. None) (Some (pg_ops ex_sha)) (openproject_ops ex_config ex_remote) ex_artifact ex_envelope
     True None (ex_recorded [(ex_create, ''planned'')], ex_adapter)
   = (Inr (projr (fst (ex_publish [(ex_create, ''planned'')] True))),
      (fst (snd (ex_publish [(ex_create, ''planned'')] True)), snd (snd (ex_publish [(ex_create, ''planned'')] True))))"
    unfolding ex_publish_run v by simp
  show "ex_create \<in> set (pr_operations (projr (fst (ex_publish [(ex_create, ''planned'')] True))))"
    by code_simp
qed

text \<open>
  A dry run (\<^verbatim>\<open>apply=False\<close>) adds no effect and changes nothing of the journal but
  its session: \<^verbatim>\<open>close\<close> is called.
\<close>

theorem publish_dry_run:
  assumes "pg_inv j"
    and "publish sha schema_error (Some (pg_ops sha)) (openproject_ops cfg rm) artifact envelope False context (j, a)
      = (r, (j', a'))"
  shows "effect_ids a' = effect_ids a \<and> j' = pg_close j"
  using pg_openproject.publish_safe(4) [OF assms] by (simp add: pg_ops_def)

theorem publish_dry_run_witness:
  "effect_ids (snd (snd (ex_publish [(ex_create, ''planned'')] False))) = effect_ids ex_adapter \<and>
   fst (snd (ex_publish [(ex_create, ''planned'')] False)) = pg_close (ex_recorded [(ex_create, ''planned'')])"
  by (rule publish_dry_run [OF ex_recorded_inv ex_publish_run])

text \<open>
  C3: Nothing happens unless every check passes: if \<^verbatim>\<open>publish\<close> returns a result, or
  leaves the adapter or the journal other than it found them (up to \<^verbatim>\<open>close\<close>), then the plan is well formed, the artifact is the one of the envelope, the
  replan boundary holds and the adapter's target is the approved one.
\<close>

theorem publish_gate:
  assumes "publish sha schema_error (Some (pg_ops sha)) (openproject_ops cfg rm) artifact envelope apply context (j, a)
      = (r, (j', a'))"
    and "(\<exists>v. r = Inr v) \<or> a' \<noteq> a \<or> j' \<noteq> pg_close j"
  shows "plan_well_formed schema_error (la_plan artifact) \<and>
    la_sha256 artifact = pe_backlog_sha256 envelope \<and> la_blob_sha1 artifact = pe_artifact_blob_sha1 envelope \<and>
    oc_target_sha256 cfg = pe_publication_target_sha256 envelope \<and>
    check_replan_boundary schema_error artifact context = Inr ()"
proof (cases "publication_checks schema_error (openproject_ops cfg rm) artifact envelope context a")
  case (Inl e)
  from publish_rejected_checks [OF this, of sha "pg_ops sha" "apply" j] assms
  show ?thesis by (auto simp: pg_ops_def)
next
  case (Inr u)
  from publication_checksD [OF this] show ?thesis
    by (auto simp: validate_plan_Nil openproject_ops_def check_artifact_envelope_def res_simps Let_def)
qed

theorem publish_gate_witness:
  "plan_well_formed (\<lambda>_. None) (la_plan ex_artifact) \<and>
    la_sha256 ex_artifact = pe_backlog_sha256 ex_envelope \<and> la_blob_sha1 ex_artifact = pe_artifact_blob_sha1 ex_envelope \<and>
    oc_target_sha256 ex_config = pe_publication_target_sha256 ex_envelope \<and>
    check_replan_boundary (\<lambda>_. None) ex_artifact None = Inr ()"
proof (rule publish_gate [OF ex_publish_run])
  have "ex_is_Inr (fst (ex_publish [(ex_create, ''planned'')] True))" by (rule ex_publish_returns)
  then show "(\<exists>v. fst (ex_publish [(ex_create, ''planned'')] True) = Inr v) \<or>
      snd (snd (ex_publish [(ex_create, ''planned'')] True)) \<noteq> ex_adapter \<or>
      fst (snd (ex_publish [(ex_create, ''planned'')] True)) \<noteq> pg_close (ex_recorded [(ex_create, ''planned'')])"
    by (auto simp: ex_is_Inr_def split: sum.splits)
qed

section \<open>Situations the publisher does not recover from\<close>

lemma audit_postcondition:
  "op_kind_of x = RecordAudit \<Longrightarrow> ao_postcondition (openproject_ops cfg rm) x a \<noteq> (Inr True, a')"
  by (simp add: openproject_ops_def postcondition_def with_world_def act_return_def)

text \<open>
  C27: An interrupted audit operation blocks its publication for good. \<^verbatim>\<open>postcondition\<close> of a
  \<^verbatim>\<open>record_audit\<close> is always \<^verbatim>\<open>False\<close>, so once a process died between the intent and
  the outcome of the audit record, every further \<^verbatim>\<open>publish\<close> of the same approved envelope
  raises, and the audit operation stays unsettled: the publication, all of whose effects are
  applied, can never be completed.
\<close>

theorem audit_intent_never_completes:
  assumes "pg_inv j"
    and "pg_status j (pe_approval_event_id envelope) (op_id x) \<in> {Some ''intent'', Some ''ambiguous''}"
    and "pg_resume sha envelope j = (Inr (Some (recorded, completed)), j1)"
    and "x \<in> set recorded" and "\<forall>y \<in> set recorded. op_id y = op_id x \<longrightarrow> op_kind_of y = RecordAudit"
    and "publish sha schema_error (Some (pg_ops sha)) (openproject_ops cfg rm) artifact envelope True context (j, a)
      = (r, (j', a'))"
  shows "(\<exists>e. r = Inl e) \<and>
    pg_status j' (pe_approval_event_id envelope) (op_id x) \<in> {Some ''intent'', Some ''ambiguous''}"
proof -
  have unsettled: "is_unsettled (pg_status j (pe_approval_event_id envelope) (op_id x))"
    using assms(2) by (auto simp: is_unsettled_def unsettled_def)
  have resume: "jo_resume (pg_ops sha) envelope j = (Inr (Some (recorded, completed)), j1)"
    using assms(3) by (simp add: pg_ops_def)
  have "op_id x \<in> op_id ` set recorded" using assms(4) by simp
  from pg_openproject.publish_stuck [OF assms(1) unsettled resume this _ assms(6)] assms(5) audit_postcondition
  have "(\<exists>e. r = Inl e) \<and> is_unsettled (pg_status j' (pe_approval_event_id envelope) (op_id x))" by blast
  then show ?thesis by (auto simp: is_unsettled_def unsettled_def split: option.splits)
qed

definition ex_audit :: publication_operation where
  "ex_audit = \<lparr>op_id = ''op-2'', op_kind_of = RecordAudit, op_identity = (''alpha'', ''_audit''),
     op_preconditions = [], op_managed_before_hash = None, op_managed_after_hash = None,
     op_trace_id = ''trace-1'', op_payload = []\<rparr>"

theorem audit_intent_never_completes_witness:
  "(\<exists>e. fst (ex_publish [(ex_create, ''applied''), (ex_audit, ''intent'')] True) = Inl e) \<and>
    pg_status (fst (snd (ex_publish [(ex_create, ''applied''), (ex_audit, ''intent'')] True)))
      (pe_approval_event_id ex_envelope) (op_id ex_audit) \<in> {Some ''intent'', Some ''ambiguous''}"
proof (rule audit_intent_never_completes [OF _ _ _ _ _ ex_publish_run])
  let ?ops = "[(ex_create, ''applied''), (ex_audit, ''intent'')]"
  show "pg_inv (ex_recorded ?ops)"
    by (auto simp: pg_inv_def ex_recorded_def ex_recorded_db_def ex_journal_def ex_create_def ex_audit_def
        split: if_splits)
  show "pg_status (ex_recorded ?ops) (pe_approval_event_id ex_envelope) (op_id ex_audit) \<in> {Some ''intent'', Some ''ambiguous''}"
    by code_simp
  let ?recorded = "[restored_operation (jsonb_operation ex_create), restored_operation (jsonb_operation ex_audit)]"
  show "pg_resume ex_sha ex_envelope (ex_recorded ?ops) =
      (Inr (Some (?recorded, [''op-1''])), snd (pg_resume ex_sha ex_envelope (ex_recorded ?ops)))"
    by code_simp
  show "ex_audit \<in> set ?recorded" by code_simp
  show "\<forall>y \<in> set ?recorded. op_id y = op_id ex_audit \<longrightarrow> op_kind_of y = RecordAudit" by code_simp
qed

text \<open>A transition on an existing row succeeds and writes exactly the new state.\<close>

lemma pg_transition_ok:
  assumes "pg_status j (pj_active j) (op_id x) = Some st" and "st \<in> set from_states"
  shows "\<exists>j'. pg_transition from_states to_state message x j = (Inr (), j') \<and> pj_active j' = pj_active j \<and>
    pg_status j' (pj_active j) (op_id x) = Some to_state"
  using assms by (auto simp: pg_transition_def pg_status_def Let_def dict_simps)

lemma resolve_single:
  "rm_matches rm ident w = (Inr [v], w') \<Longrightarrow> resolve_fresh rm ident w = (Inr v, w')"
  "rm_matches rm ident w = (Inr [v], w') \<Longrightarrow> resolve rm ident w = (Inr (Some v), w')"
  "rm_matches rm ident w = (Inl e, w') \<Longrightarrow> resolve rm ident w = (Inl e, w')"
  by (simp_all add: resolve_fresh_def resolve_def identity_matches_def act_bind_def act_return_def)

lemma apply_patch_read_failure:
  assumes kind: "op_kind_of x = UpdateManagedFields"
    and read: "rm_matches rm (op_identity x) w0 = (Inr [old], w0)"
    and topology: "assert_topology_preconditions x old = Inr ()"
    and before_hash: "op_managed_before_hash x = wp_managed_hash old"
    and form: "rm_patch_form rm x ManagedFields old w0 = (Inr (), w0)"
    and patch: "rm_patch rm x ManagedFields old w0 = (HttpResponse 200 (Some new) err, w1)"
    and lost: "rm_matches rm (op_identity x) w1 = (Inl (OpenProjectPublicationError m), w2)"
  shows "apply_patch cfg rm x (Some old) w0 = (Inl (OpenProjectPublicationError m), w2)"
proof -
  have attempts: "patch_attempts cfg rm x ManagedFields (Suc 0) old w0 = (Inr new, w1)"
    by (simp add: patch_attempts.simps act_bind_def act_lift_def act_return_def commit_def topology
        before_hash form patch)
  have "postcondition cfg rm x w1 = (Inl (OpenProjectPublicationError m), w2)"
    by (simp add: postcondition_def act_bind_def kind resolve_single(3) [OF lost])
  with attempts show ?thesis
    by (simp add: apply_patch_def act_bind_def act_lift_def act_return_def resolve_single(1) [OF read]
        topology patch_payload_of_def kind)
qed

text \<open>
  C28: A failed verification read blocks an applied update for good. When OpenProject has
  accepted the PATCH of an update and the read of its postcondition then fails, the code
  records the operation as retryable instead of ambiguous; the retry finds the new managed
  hash where the precondition expects the old one and is rejected, and it leaves journal and
  OpenProject as they are, so that every later retry is rejected too.
\<close>

theorem read_failure_after_update_never_resumes:
  assumes kind: "op_kind_of x = UpdateManagedFields"
    and read: "rm_matches rm (op_identity x) (ad_world a) = (Inr [old], ad_world a)"
    and current: "assert_current x (Some old) = Inr ()"
    and topology: "assert_topology_preconditions x old = Inr ()"
    and hashes: "op_managed_before_hash x = wp_managed_hash old" "wp_managed_hash old = Some h"
      "dict_get (op_preconditions x) ''expected_managed_hash'' = Some (PStr h)" "wp_managed_hash new \<noteq> Some h"
    and present: "dict_get (op_preconditions x) ''identity_absent'' = None"
    and form: "rm_patch_form rm x ManagedFields old (ad_world a) = (Inr (), ad_world a)"
    and patch: "rm_patch rm x ManagedFields old (ad_world a) = (HttpResponse 200 (Some new) err, w1)"
    and lost: "rm_matches rm (op_identity x) w1 = (Inl (OpenProjectPublicationError m), w2)"
    and later: "rm_matches rm (op_identity x) w2 = (Inr [new], w2)"
    and planned: "pg_status j (pj_active j) (op_id x) = Some ''planned''"
  shows "\<exists>j'. execute_operation (pg_ops sha) (openproject_ops cfg rm) result x (j, a) =
      (Inl (OpenProjectPublicationError m), (j', a\<lparr>ad_world := w2\<rparr>)) \<and>
    pj_active j' = pj_active j \<and> pg_status j' (pj_active j) (op_id x) = Some ''retryable'' \<and>
    resume_operation (pg_ops sha) (openproject_ops cfg rm) [] x (j', a\<lparr>ad_world := w2\<rparr>) =
      (Inl (PublicationRejected ''managed state changed''), (j', a\<lparr>ad_world := w2\<rparr>))"
proof -
  from pg_transition_ok [OF planned, of "[''planned'', ''retryable'']" "''intent''"
      "''invalid operation state transition to intent''"]
  obtain j1 where j1: "pg_intent x j = (Inr (), j1)" "pj_active j1 = pj_active j"
    "pg_status j1 (pj_active j1) (op_id x) = Some ''intent''" by (auto simp: pg_intent_def)
  from pg_transition_ok [OF j1(3), of "[''intent'']" "''retryable''" "''invalid operation state transition to failure''"]
  obtain j2 where j2: "pg_failure x (OpenProjectPublicationError m) j1 = (Inr (), j2)" "pj_active j2 = pj_active j"
    "pg_status j2 (pj_active j) (op_id x) = Some ''retryable''"
    using j1(2) by (auto simp: pg_failure_def failure_state_def)
  have patched: "apply_patch cfg rm x (Some old) (ad_world a) = (Inl (OpenProjectPublicationError m), w2)"
    by (rule apply_patch_read_failure [OF kind read topology hashes(1) form patch lost])
  have "execute_operation (pg_ops sha) (openproject_ops cfg rm) result x (j, a) =
      (Inl (OpenProjectPublicationError m), (j2, a\<lparr>ad_world := w2\<rparr>))"
    by (simp add: execute_operation_def act_bind_def act_catch_def act_lift_def act_raise_def on_fst_def on_snd_def
        pg_ops_def openproject_ops_def with_world_def adapter_apply_def kind resolve_single(2) [OF read] current
        j1(1) j2(1) patched)
  moreover have "pg_state x j2 = (Inr ''retryable'', j2)"
    using j2(2,3) by (auto simp: pg_state_def pg_status_def pg_operation_states_def)
  moreover have "assert_current x (Some new) = Inl (PublicationRejected ''managed state changed'')"
    using hashes(3,4) present
    by (auto simp: assert_current_def Let_def py_opt_str_def split: option.splits)
  ultimately show ?thesis
    using j2 by (intro exI [of _ j2])
      (simp add: resume_operation_def execute_operation_def [of _ _ "''recovered''"] act_bind_def act_lift_def
        on_fst_def on_snd_def pg_ops_def openproject_ops_def with_world_def kind resolve_single(2) [OF later])
qed

text \<open>A remote side whose first read after a PATCH fails.\<close>

definition ex_flaky_remote :: "(nat \<times> work_package) openproject_remote" where
  "ex_flaky_remote = \<lparr>
     rm_snapshot = (\<lambda>w. (Inl (OpenProjectPublicationError ''not used''), w)),
     rm_matches = (\<lambda>i (n, w). if n = 1 then (Inl (OpenProjectPublicationError ''OpenProject transport failure''), (2, w))
        else (Inr [w], (n, w))),
     rm_package_identity = (\<lambda>n w. (Inr None, w)),
     rm_relations = (\<lambda>n w. (Inr [], w)),
     rm_create_form = (\<lambda>x w. (Inr (), w)),
     rm_create = (\<lambda>x w. (HttpResponse 404 None [], w)),
     rm_patch_form = (\<lambda>x p v w. (Inr (), w)),
     rm_patch = (\<lambda>x p v (n, w). let w' = w\<lparr>wp_managed_hash := op_managed_after_hash x\<rparr>
        in (HttpResponse 200 (Some w') [], (1, w'))),
     rm_delete_relation = (\<lambda>n w. (HttpResponse 404 None [], w)),
     rm_create_relation = (\<lambda>from to native marker w. (HttpResponse 404 None [], w))\<rparr>"

definition ex_old :: work_package where
  "ex_old = created_package 1 (''alpha'', ''epic-one'') (Some ''h1'')"

definition ex_update :: publication_operation where
  "ex_update = \<lparr>op_id = ''op-1'', op_kind_of = UpdateManagedFields, op_identity = (''alpha'', ''epic-one''),
     op_preconditions = [(''expected_managed_hash'', PStr ''h1''), (''identity_resolved'', PBool True),
       (''expected_parent_identity'', PNone), (''expected_unmanaged_parent'', PBool False),
       (''expected_managed_relations'', PList [])],
     op_managed_before_hash = Some ''h1'', op_managed_after_hash = Some ''h2'', op_trace_id = ''trace-1'',
     op_payload = []\<rparr>"

definition ex_flaky_adapter :: "(nat \<times> work_package) openproject_adapter" where
  "ex_flaky_adapter = \<lparr>ad_effects = [], ad_world = (0, ex_old)\<rparr>"

definition ex_running :: pg_journal where
  "ex_running = (ex_recorded [(ex_update, ''planned'')])\<lparr>pj_active := ''event-1''\<rparr>"

theorem read_failure_after_update_never_resumes_witness:
  "\<exists>j'. execute_operation (pg_ops ex_sha) (openproject_ops ex_config ex_flaky_remote) ''applied'' ex_update
        (ex_running, ex_flaky_adapter) =
      (Inl (OpenProjectPublicationError ''OpenProject transport failure''),
       (j', ex_flaky_adapter\<lparr>ad_world := (2, ex_old\<lparr>wp_managed_hash := Some ''h2''\<rparr>)\<rparr>)) \<and>
    pj_active j' = pj_active ex_running \<and> pg_status j' (pj_active ex_running) (op_id ex_update) = Some ''retryable'' \<and>
    resume_operation (pg_ops ex_sha) (openproject_ops ex_config ex_flaky_remote) [] ex_update
        (j', ex_flaky_adapter\<lparr>ad_world := (2, ex_old\<lparr>wp_managed_hash := Some ''h2''\<rparr>)\<rparr>) =
      (Inl (PublicationRejected ''managed state changed''),
       (j', ex_flaky_adapter\<lparr>ad_world := (2, ex_old\<lparr>wp_managed_hash := Some ''h2''\<rparr>)\<rparr>))"
  by (rule read_failure_after_update_never_resumes [where old = ex_old and h = "''h1''" and err = "[]"
        and new = "ex_old\<lparr>wp_managed_hash := Some ''h2''\<rparr>" and ?w1.0 = "(1, ex_old\<lparr>wp_managed_hash := Some ''h2''\<rparr>)"])
    (simp_all add: ex_update_def ex_flaky_remote_def ex_flaky_adapter_def ex_old_def created_package_def
      ex_running_def ex_recorded_def ex_recorded_db_def ex_journal_def pg_status_def assert_current_def
      assert_topology_def assert_topology_preconditions_def topology_conditions_def expected_relations_def
      parent_value_def actual_unmanaged_def py_opt_str_def py_opt_identity_def Let_def)

end
