(* ===== verification/JournalFacts.thy ===== *)
theory JournalFacts
  imports Examples
begin

text \<open>
  What the PostgreSQL journal guarantees when several instances use one database, over every
  reachable state of \<^const>\<open>pg_step\<close>.
\<close>

section \<open>Witness states\<close>

text \<open>Instance 1 resumes the (unknown) event, begins a run of one operation, records its intent.\<close>

definition ex_fenced :: pg_system where
  "ex_fenced = sy_put sy_init 1 (snd (pg_resume ex_sha ex_envelope (sy_view sy_init 1)))"

definition ex_begun :: pg_system where
  "ex_begun = sy_put ex_fenced 1 (snd (pg_begin ex_sha ex_envelope [ex_create] (sy_view ex_fenced 1)))"

definition ex_applied :: pg_system where
  "ex_applied = (let s = sy_put ex_begun 1 (snd (pg_intent ex_create (sy_view ex_begun 1)))
     in sy_put s 1 (snd (pg_outcome ex_create ''applied'' (sy_view s 1))))"

lemma ex_fenced_reachable: "pg_reachable ex_sha ex_fenced"
  unfolding ex_fenced_def
  by (rule pg_reachable.more [OF pg_reachable.init pg_step.step [OF call_resume [OF surjective_pairing]]])

lemma ex_begun_reachable: "pg_reachable ex_sha ex_begun"
  unfolding ex_begun_def
  by (rule pg_reachable.more [OF ex_fenced_reachable pg_step.step [OF call_begin [OF surjective_pairing]]])

lemma ex_applied_reachable: "pg_reachable ex_sha ex_applied"
  unfolding ex_applied_def Let_def
  by (rule pg_reachable.more [OF pg_reachable.more [OF ex_begun_reachable
        pg_step.step [OF call_intent [OF surjective_pairing]]] pg_step.step [OF call_outcome [OF surjective_pairing]]])

section \<open>Properties\<close>

text \<open>
  C16: A plan is published by one session at a time: in every reachable state, a publication
  scope is fenced by at most one journal instance.
\<close>

theorem plan_fenced_once:
  assumes "pg_reachable sha s" and "sy_fence s n = Some scope"
  shows "sy_fence s m = Some scope \<longleftrightarrow> m = n"
  using fences_agree_reachable [OF assms(1)] assms(2) by (auto simp: fences_agree_def)

theorem plan_fenced_once_witness: "sy_fence ex_fenced 2 = Some ''alpha'' \<longleftrightarrow> (2::nat) = 1"
  by (rule plan_fenced_once [OF ex_fenced_reachable]) code_simp

text \<open>
  C17: Only the instance that fences a plan changes the state of an operation: an accepted
  \<^verbatim>\<open>intent\<close>, \<^verbatim>\<open>outcome\<close> or \<^verbatim>\<open>failure\<close> in a reachable state comes from an
  instance that holds a fence no other instance holds.
\<close>

theorem state_change_needs_fence:
  assumes "pg_reachable sha s"
    and "pg_intent x (sy_view s n) = (Inr u, j') \<or> pg_outcome x result (sy_view s n) = (Inr u, j')
      \<or> pg_failure x ex (sy_view s n) = (Inr u, j')"
  shows "\<exists>scope. sy_fence s n = Some scope \<and> (\<forall>m. sy_fence s m = Some scope \<longleftrightarrow> m = n)"
proof -
  have "pj_fence (sy_view s n) \<noteq> None"
    using pg_transition_fenced [OF pg_fenced_reachable [OF assms(1)]] assms(2)
    unfolding pg_intent_def pg_outcome_def pg_failure_def by blast
  then obtain scope where scope: "sy_fence s n = Some scope" by (auto simp: sy_view_def)
  with fences_agree_reachable [OF assms(1)] show ?thesis by (auto simp: fences_agree_def)
qed

theorem state_change_needs_fence_witness:
  "\<exists>scope. sy_fence ex_begun 1 = Some scope \<and> (\<forall>m. sy_fence ex_begun m = Some scope \<longleftrightarrow> m = (1::nat))"
proof (rule state_change_needs_fence [OF ex_begun_reachable, of ex_create 1 "()"
      "snd (pg_intent ex_create (sy_view ex_begun 1))" "[]" AssertionError], rule disjI1)
  have "fst (pg_intent ex_create (sy_view ex_begun 1)) = Inr ()" by code_simp
  then show "pg_intent ex_create (sy_view ex_begun 1) = (Inr (), snd (pg_intent ex_create (sy_view ex_begun 1)))"
    by (metis prod.collapse)
qed

text \<open>
  An applied operation stays applied through every later call of every instance.
\<close>

theorem applied_is_final:
  assumes "pg_reachable sha s" and "sy_run sha s s'"
    and "pg_status (sy_view s n) event i = Some ''applied''"
  shows "pg_status (sy_view s' m) event i = Some ''applied''"
proof (rule sy_run_applied [OF assms(2) _ assms(3)])
  show "pg_inv (sy_view s n)" using pg_fenced_reachable [OF assms(1)] by (simp add: pg_fenced_def)
qed

theorem applied_is_final_witness:
  "pg_status (sy_view (sy_put ex_applied 1 (pg_close (sy_view ex_applied 1))) 2) ''event-1'' ''op-1'' = Some ''applied''"
proof (rule applied_is_final [OF ex_applied_reachable])
  show "sy_run ex_sha ex_applied (sy_put ex_applied 1 (pg_close (sy_view ex_applied 1)))"
    unfolding sy_run_def by (rule r_into_rtranclp [of "pg_step ex_sha", OF pg_step.step [OF call_close]])
  show "pg_status (sy_view ex_applied 1) ''event-1'' ''op-1'' = Some ''applied''" by code_simp
qed

text \<open>
  C4: A run that was begun can be resumed from every later state, by any instance: the rows
  pass every check of \<^verbatim>\<open>resume\<close> (ordinals, operation hashes after the JSONB round trip,
  aggregate hash, states), and the operations come back in order with exactly the applied ones
  reported as completed.
\<close>

theorem begun_run_resumes:
  assumes reachable: "pg_reachable sha s"
    and fresh: "dict_get (db_publications (sy_db s)) (pe_approval_event_id e) = None"
    and begun: "pg_begin sha e ops (sy_view s n) = (Inr recorded, j)"
    and later: "sy_run sha (sy_put s n j) s'"
  shows "recorded = (ops, []) \<and> pg_recorded_run sha (sy_db s') e =
    Inr (Some (map (restored_operation \<circ> jsonb_operation) ops,
      map op_id (filter (\<lambda>x. pg_status (sy_view s' m) (pe_approval_event_id e) (op_id x) = Some ''applied'') ops)))"
proof -
  obtain ops' completed where recorded: "recorded = (ops', completed)" by (cases recorded)
  have owned: "pg_owned (sy_view s n)" by (rule pg_owned_reachable [OF reachable])
  then have inv: "pg_inv (sy_view s n)" by (simp add: pg_owned_def)
  have fresh': "dict_get (db_publications (pj_db (sy_view s n))) (pe_approval_event_id e) = None"
    using fresh by (simp add: sy_view_def)
  with owned have none: "\<forall>i. dict_get (db_operations (pj_db (sy_view s n))) (pe_approval_event_id e, i) = None"
    unfolding pg_owned_def by blast
  from pg_begin_recorded [OF inv none fresh' begun [unfolded recorded]]
  have j: "pg_recorded sha e ops j" and res: "recorded = (ops, [])" by (simp_all add: recorded)
  have "pg_recorded sha e ops (sy_view (sy_put s n j) n)"
    by (rule pg_recorded_db [OF j]) (simp add: sy_view_def sy_put_def)
  from sy_run_recorded [OF later this] have "pg_recorded sha e ops (sy_view s' m)" .
  from pg_recorded_run_recorded [OF this] have "pg_recorded_run sha (sy_db s') e =
    Inr (Some (map (restored_operation \<circ> jsonb_operation) ops,
      map op_id (filter (\<lambda>x. pg_status (sy_view s' m) (pe_approval_event_id e) (op_id x) = Some ''applied'') ops)))"
    by (simp add: sy_view_def)
  with res show ?thesis ..
qed

theorem begun_run_resumes_witness:
  "(([ex_create], []) = ([ex_create], [] :: string list)) \<and> pg_recorded_run ex_sha (sy_db ex_applied) ex_envelope =
    Inr (Some (map (restored_operation \<circ> jsonb_operation) [ex_create],
      map op_id (filter (\<lambda>x. pg_status (sy_view ex_applied 2) (pe_approval_event_id ex_envelope) (op_id x)
        = Some ''applied'') [ex_create])))"
proof (rule begun_run_resumes [OF ex_fenced_reachable])
  show "dict_get (db_publications (sy_db ex_fenced)) (pe_approval_event_id ex_envelope) = None" by code_simp
  have "fst (pg_begin ex_sha ex_envelope [ex_create] (sy_view ex_fenced 1)) = Inr ([ex_create], [])" by code_simp
  then show "pg_begin ex_sha ex_envelope [ex_create] (sy_view ex_fenced 1) = (Inr ([ex_create], []),
      snd (pg_begin ex_sha ex_envelope [ex_create] (sy_view ex_fenced 1)))"
    by (metis prod.collapse)
  have step1: "pg_step ex_sha ex_begun (sy_put ex_begun 1 (snd (pg_intent ex_create (sy_view ex_begun 1))))"
    by (rule pg_step.step [OF call_intent [OF surjective_pairing]])
  have step2: "pg_step ex_sha (sy_put ex_begun 1 (snd (pg_intent ex_create (sy_view ex_begun 1)))) ex_applied"
    unfolding ex_applied_def Let_def by (rule pg_step.step [OF call_outcome [OF surjective_pairing]])
  from step1 step2 show "sy_run ex_sha (sy_put ex_fenced 1
      (snd (pg_begin ex_sha ex_envelope [ex_create] (sy_view ex_fenced 1)))) ex_applied"
    unfolding sy_run_def ex_begun_def [symmetric] by (metis converse_rtranclp_into_rtranclp rtranclp.rtrancl_refl)
qed

end
