(* ===== verification/DiffRun.thy ===== *)
theory DiffRun
  imports DiffSpec
begin

text \<open>
  Replaying \<^const>\<open>plan_diff\<close> on the snapshot it was computed from: the preconditions each
  operation records are exactly those that hold when its turn comes, and the final state is
  converged. The one exception is stated and proved at the end of the theory.
\<close>

section \<open>Reading the recorded preconditions\<close>

definition unmanaged_parent :: "work_package option \<Rightarrow> bool" where
  "unmanaged_parent package = (case package of None \<Rightarrow> False | Some w \<Rightarrow> actual_unmanaged w)"

lemma topology_keys: "dict_keys (topology_preconditions package vp vr) =
    [''expected_parent_identity'', ''expected_unmanaged_parent'', ''expected_managed_relations'']"
  by (simp add: topology_preconditions_def)

lemma topology_get:
  "dict_get (topology_preconditions package vp vr) ''expected_parent_identity'' = Some (py_opt_identity vp)"
  "dict_get (topology_preconditions package vp vr) ''expected_unmanaged_parent'' =
     Some (PBool (unmanaged_parent package))"
  "dict_get (topology_preconditions package vp vr) ''expected_managed_relations'' =
     Some (PList (map py_relation (sorted_set vr)))"
  "dict_get (topology_preconditions package vp vr) ''expected_managed_hash'' = None"
  "dict_get (topology_preconditions package vp vr) ''identity_absent'' = None"
  "dict_get (topology_preconditions package vp vr) ''identity_resolved'' = None"
  by (auto simp: topology_preconditions_def unmanaged_parent_def actual_unmanaged_def split: option.splits)

lemma preconditions_get:
  "dict_get (preconditions p sn h) ''expected_parent_identity'' = None"
  "dict_get (preconditions p sn h) ''expected_managed_hash'' = Some (py_opt_str h)"
  "dict_get (preconditions p sn h) ''identity_absent'' = None"
  "dict_get (preconditions p sn h) ''identity_resolved'' = None"
  by (simp_all add: preconditions_def)

lemma merge_topology_get:
  "dict_get (dict_merge c (topology_preconditions package vp vr)) k =
     (case dict_get (topology_preconditions package vp vr) k of None \<Rightarrow> dict_get c k | Some v \<Rightarrow> Some v)"
  by (rule dict_merge_get) (simp add: topology_keys)

lemma existing_get:
  "dict_get (existing_preconditions p sn w h) ''expected_managed_hash'' = Some (py_opt_str h)"
  "dict_get (existing_preconditions p sn w h) ''identity_absent'' = None"
  "dict_get (existing_preconditions p sn w h) ''identity_resolved'' = Some (PBool True)"
  by (simp_all add: existing_preconditions_def package_topology_def merge_topology_get topology_get
      dict_simps preconditions_get)

lemma base_get:
  "dict_get (base_conditions p sn package after) ''expected_managed_hash'' = Some (PStr after)"
  "dict_get (base_conditions p sn package after) ''identity_absent'' = None"
  "dict_get (base_conditions p sn package after) ''identity_resolved'' = Some (PBool True)"
  by (cases package; simp add: base_conditions_def existing_get dict_simps preconditions_get py_opt_str_def)+

section \<open>When a precondition check passes\<close>

lemma py_opt_identity_inject [simp]: "py_opt_identity a = py_opt_identity b \<longleftrightarrow> a = b"
  by (cases a; cases b) (auto simp: py_opt_identity_def py_identity_def prod_eq_iff)

lemma list_to_tuple_identity [simp]: "list_to_tuple (py_opt_identity a) = py_opt_identity a"
  by (cases a) (simp_all add: py_opt_identity_def py_identity_def)

lemma normalized_py_relation [simp]: "normalized_relation (py_relation r) = Some r"
  by (cases r) (simp add: normalized_relation_def py_relation_def py_identity_def)

lemma map_filter_py_relation [simp]: "List.map_filter normalized_relation (map py_relation rs) = rs"
  by (induction rs) (simp_all add: map_filter_simps)

lemma sort_sorted_set [simp]: "sort (sorted_set xs) = sorted_set xs"
  by (simp add: sorted_sort_id)

lemma sort_eq_sorted_set:
  "distinct xs \<Longrightarrow> sort xs = sorted_set ys \<longleftrightarrow> set xs = set ys"
proof
  assume "sort xs = sorted_set ys"
  then have "set (sort xs) = set (sorted_set ys)" by (rule arg_cong)
  then show "set xs = set ys" by simp
next
  assume "distinct xs" "set xs = set ys"
  then show "sort xs = sorted_set ys"
    by (intro sorted_distinct_set_unique) simp_all
qed

lemma assert_topology_merge:
  assumes "distinct (wp_managed_relations w)"
  shows "assert_topology (dict_merge c (topology_preconditions package vp vr)) w = Inr () \<longleftrightarrow>
     wp_parent_identity w = vp \<and> actual_unmanaged w = unmanaged_parent package \<and>
     set (wp_managed_relations w) = set vr"
  using sort_eq_sorted_set [OF assms, of vr]
  by (auto simp: assert_topology_def merge_topology_get topology_get res_simps Let_def)

lemma assert_current_merge:
  assumes "distinct (wp_managed_relations w)"
    and "op_preconditions x = dict_merge c (topology_preconditions package vp vr)"
    and "dict_get c ''expected_managed_hash'' = Some (py_opt_str h)"
    and "dict_get c ''identity_absent'' = None"
  shows "assert_current x (Some w) = Inr () \<longleftrightarrow>
     (h = None \<or> wp_managed_hash w = h) \<and> wp_parent_identity w = vp \<and>
     actual_unmanaged w = unmanaged_parent package \<and> set (wp_managed_relations w) = set vr"
proof -
  have "py_opt_str h \<noteq> PNone \<and> py_opt_str h \<noteq> py_opt_str (wp_managed_hash w) \<longleftrightarrow>
      \<not> (h = None \<or> wp_managed_hash w = h)"
    by (cases h; cases "wp_managed_hash w") (auto simp: py_opt_str_def)
  with assms assert_topology_merge [OF assms(1), of c package vp vr] show ?thesis
    by (auto simp: assert_current_def Let_def res_simps merge_topology_get topology_get)
qed

lemma assert_current_existing:
  assumes "distinct (wp_managed_relations w)"
    and "op_preconditions x = existing_preconditions p sn w h"
  shows "assert_current x (Some w) = Inr () \<longleftrightarrow> (h = None \<or> wp_managed_hash w = h)"
  using assms assert_current_merge [where c = "dict_set ''identity_resolved'' (PBool True) (preconditions p sn h)"
      and package = "Some w" and vp = "wp_parent_identity w" and vr = "remdups (wp_managed_relations w)"
      and h = h and w = w and x = x]
  by (simp add: existing_preconditions_def package_topology_def dict_simps preconditions_get
      unmanaged_parent_def)

lemma assert_current_same_topology:
  assumes "distinct (wp_managed_relations v)"
    and "op_preconditions x = existing_preconditions p sn w h"
    and "wp_parent_identity v = wp_parent_identity w" and "actual_unmanaged v = actual_unmanaged w"
    and "wp_managed_relations v = wp_managed_relations w"
  shows "assert_current x (Some v) = Inr () \<longleftrightarrow> (h = None \<or> wp_managed_hash v = h)"
  using assms assert_current_merge [where c = "dict_set ''identity_resolved'' (PBool True) (preconditions p sn h)"
      and package = "Some w" and vp = "wp_parent_identity w" and vr = "remdups (wp_managed_relations w)"
      and h = h and w = v and x = x]
  by (simp add: existing_preconditions_def package_topology_def dict_simps preconditions_get
      unmanaged_parent_def)

lemma run_ops_append:
  "run_ops new_id st (xs @ ys) = res_bind (run_ops new_id st xs) (\<lambda>st'. run_ops new_id st' ys)"
  by (induction xs arbitrary: st) (auto simp: res_bind_def split: sum.splits)

lemma make_operation_simps [simp]:
  "op_kind_of (make_operation sha p k ident b a tr pl c) = k"
  "op_identity (make_operation sha p k ident b a tr pl c) = ident"
  "op_preconditions (make_operation sha p k ident b a tr pl c) = c"
  "op_managed_before_hash (make_operation sha p k ident b a tr pl c) = b"
  "op_managed_after_hash (make_operation sha p k ident b a tr pl c) = a"
  "op_payload (make_operation sha p k ident b a tr pl c) = pl"
  by (simp_all add: make_operation_def)

section \<open>The operations of one item\<close>

lemma run_relation_creates:
  assumes "st ident = Some w" and "distinct (wp_managed_relations w)"
    and "set (wp_managed_relations w) = set virt" and "distinct rs" and "set rs \<inter> set virt = {}"
    and "wp_managed_hash w = Some after" and "wp_parent_identity w = vp"
    and "actual_unmanaged w = unmanaged_parent package"
  shows "\<exists>w'. run_ops new_id st
        (relation_ops sha p sn tr ident package after vp CreateRelation virt rs) = Inr (st(ident \<mapsto> w')) \<and>
      set (wp_managed_relations w') = set rs \<union> set virt \<and> distinct (wp_managed_relations w') \<and>
      (\<exists>m. w' = w\<lparr>wp_managed_relations := m\<rparr>)"
  using assms
proof (induction rs arbitrary: st w virt)
  case Nil
  then have "st(ident \<mapsto> w) = st" by auto
  with Nil show ?case by (auto intro!: exI [of _ w] exI [of _ "wp_managed_relations w"])
next
  case (Cons r rs)
  let ?x = "make_operation sha p CreateRelation ident (Some after) (Some after) tr (relation_payload r)
       (dict_merge (base_conditions p sn package after) (topology_preconditions package vp virt))"
  let ?w = "w\<lparr>wp_managed_relations := r # wp_managed_relations w\<rparr>"
  have ok: "assert_current ?x (Some w) = Inr ()"
    by (subst assert_current_merge [where h = "Some after"])
      (use Cons.prems in \<open>auto simp: base_get py_opt_str_def\<close>)
  have "payload_relation ?x = Some r"
    by (cases r) (simp add: payload_relation_def relation_payload_def py_identity_def)
  then have eff: "effect new_id ?x st = st(ident \<mapsto> ?w)"
    using Cons.prems by (auto simp: effect_def package_effect_def removeAll_id)
  have "\<exists>w'. run_ops new_id (st(ident \<mapsto> ?w))
        (relation_ops sha p sn tr ident package after vp CreateRelation (List.insert r virt) rs) =
          Inr ((st(ident \<mapsto> ?w))(ident \<mapsto> w')) \<and>
      set (wp_managed_relations w') = set rs \<union> set (List.insert r virt) \<and> distinct (wp_managed_relations w') \<and>
      (\<exists>m. w' = ?w\<lparr>wp_managed_relations := m\<rparr>)"
    by (rule Cons.IH) (use Cons.prems in \<open>auto simp: actual_unmanaged_def\<close>)
  then obtain w' m where run: "run_ops new_id (st(ident \<mapsto> ?w))
        (relation_ops sha p sn tr ident package after vp CreateRelation (List.insert r virt) rs) =
          Inr ((st(ident \<mapsto> ?w))(ident \<mapsto> w'))"
      and rels: "set (wp_managed_relations w') = set rs \<union> set (List.insert r virt)" and dist: "distinct (wp_managed_relations w')"
      and upd: "w' = ?w\<lparr>wp_managed_relations := m\<rparr>"
    by (elim exE conjE) simp
  from rels have "set (wp_managed_relations w') = set (r # rs) \<union> set virt"
    by auto
  moreover from upd have "w' = w\<lparr>wp_managed_relations := m\<rparr>" by simp
  moreover have "run_ops new_id st
      (relation_ops sha p sn tr ident package after vp CreateRelation virt (r # rs)) = Inr (st(ident \<mapsto> w'))"
    using ok eff run Cons.prems(1) by simp
  ultimately show ?case using dist by blast
qed

lemma run_relation_removes:
  assumes "st ident = Some w" and "distinct (wp_managed_relations w)"
    and "set (wp_managed_relations w) = set virt" and "distinct rs" and "set rs \<subseteq> set virt"
    and "wp_managed_hash w = Some after" and "wp_parent_identity w = vp"
    and "actual_unmanaged w = unmanaged_parent package"
  shows "\<exists>w'. run_ops new_id st
        (relation_ops sha p sn tr ident package after vp RemoveManagedRelation virt rs) = Inr (st(ident \<mapsto> w')) \<and>
      set (wp_managed_relations w') = set virt - set rs \<and> distinct (wp_managed_relations w') \<and>
      (\<exists>m. w' = w\<lparr>wp_managed_relations := m\<rparr>)"
  using assms
proof (induction rs arbitrary: st w virt)
  case Nil
  then have "st(ident \<mapsto> w) = st" by auto
  with Nil show ?case by (auto intro!: exI [of _ w] exI [of _ "wp_managed_relations w"])
next
  case (Cons r rs)
  let ?x = "make_operation sha p RemoveManagedRelation ident (Some after) (Some after) tr (relation_payload r)
       (dict_merge (base_conditions p sn package after) (topology_preconditions package vp virt))"
  let ?w = "w\<lparr>wp_managed_relations := removeAll r (wp_managed_relations w)\<rparr>"
  have ok: "assert_current ?x (Some w) = Inr ()"
    by (subst assert_current_merge [where h = "Some after"])
      (use Cons.prems in \<open>auto simp: base_get py_opt_str_def\<close>)
  have "payload_relation ?x = Some r"
    by (cases r) (simp add: payload_relation_def relation_payload_def py_identity_def)
  then have eff: "effect new_id ?x st = st(ident \<mapsto> ?w)"
    using Cons.prems by (auto simp: effect_def package_effect_def)
  have "\<exists>w'. run_ops new_id (st(ident \<mapsto> ?w))
        (relation_ops sha p sn tr ident package after vp RemoveManagedRelation (removeAll r virt) rs) =
          Inr ((st(ident \<mapsto> ?w))(ident \<mapsto> w')) \<and>
      set (wp_managed_relations w') = set (removeAll r virt) - set rs \<and> distinct (wp_managed_relations w') \<and>
      (\<exists>m. w' = ?w\<lparr>wp_managed_relations := m\<rparr>)"
    by (rule Cons.IH) (use Cons.prems in \<open>auto simp: actual_unmanaged_def distinct_removeAll\<close>)
  then obtain w' m where run: "run_ops new_id (st(ident \<mapsto> ?w))
        (relation_ops sha p sn tr ident package after vp RemoveManagedRelation (removeAll r virt) rs) =
          Inr ((st(ident \<mapsto> ?w))(ident \<mapsto> w'))"
      and rels: "set (wp_managed_relations w') = set (removeAll r virt) - set rs" and dist: "distinct (wp_managed_relations w')"
      and upd: "w' = ?w\<lparr>wp_managed_relations := m\<rparr>"
    by (elim exE conjE) simp
  from rels have "set (wp_managed_relations w') = set virt - set (r # rs)"
    by auto
  moreover from upd have "w' = w\<lparr>wp_managed_relations := m\<rparr>" by simp
  moreover have "run_ops new_id st
      (relation_ops sha p sn tr ident package after vp RemoveManagedRelation virt (r # rs)) = Inr (st(ident \<mapsto> w'))"
    using ok eff run Cons.prems(1) by simp
  ultimately show ?case using dist by blast
qed

lemma run_single:
  assumes "assert_current x (st (op_identity x)) = Inr ()" and "op_kind_of x \<noteq> RecordAudit"
  shows "run_ops new_id st [x] = Inr (effect new_id x st)"
  using assms by simp

lemma run_reactivate:
  assumes "st ident = Some w" and "distinct (wp_managed_relations w)"
  shows "run_ops new_id st (reactivate_ops sha p sn tr ident (Some w)) =
     Inr (st(ident \<mapsto> w\<lparr>wp_superseded := False\<rparr>))"
proof (cases "wp_superseded w")
  case True
  let ?x = "make_operation sha p ReactivateWorkPackage ident (wp_managed_hash w) (wp_managed_hash w) tr
      [(''status'', PStr ''Ready'')] (existing_preconditions p sn w (wp_managed_hash w))"
  have "assert_current ?x (Some w) = Inr ()"
    using assert_current_existing [OF assms(2)] by simp
  moreover have "effect new_id ?x st = st(ident \<mapsto> w\<lparr>wp_superseded := False\<rparr>)"
    using assms(1) by (auto simp: effect_def package_effect_def)
  ultimately show ?thesis using True assms(1) by (simp add: reactivate_ops_def)
next
  case False
  then have "w\<lparr>wp_superseded := False\<rparr> = w" by (cases w) simp
  with assms(1) False show ?thesis by (simp add: reactivate_ops_def fun_upd_idem)
qed

lemma run_update:
  fixes w :: work_package
  defines "v \<equiv> w\<lparr>wp_superseded := False\<rparr>"
  assumes "st ident = Some v" and "distinct (wp_managed_relations w)"
  shows "run_ops new_id st (update_ops sha p sn tr i ident (Some w)) =
     Inr (st(ident \<mapsto> v\<lparr>wp_managed_hash := Some (managed_hash sha p i)\<rparr>))"
proof (cases "wp_managed_hash w = Some (managed_hash sha p i)")
  case True
  then have "v\<lparr>wp_managed_hash := Some (managed_hash sha p i)\<rparr> = v"
    by (cases w) (simp add: v_def)
  with assms True show ?thesis by (simp add: update_ops_def Let_def fun_upd_idem)
next
  case False
  let ?x = "make_operation sha p UpdateManagedFields ident (wp_managed_hash w)
      (Some (managed_hash sha p i)) tr (managed_fields p i)
      (existing_preconditions p sn w (wp_managed_hash w))"
  have "assert_current ?x (Some v) = Inr ()"
    by (subst assert_current_same_topology [where w = w])
      (use assms in \<open>auto simp: v_def actual_unmanaged_def\<close>)
  moreover have "effect new_id ?x st = st(ident \<mapsto> v\<lparr>wp_managed_hash := Some (managed_hash sha p i)\<rparr>)"
    using assms(2) by (auto simp: effect_def package_effect_def)
  ultimately show ?thesis using False assms(2) by (simp add: update_ops_def Let_def)
qed

lemma run_parent:
  assumes "st ident = Some v" and "distinct (wp_managed_relations v)"
    and "wp_managed_hash v = Some (managed_hash sha p i)"
    and "wp_parent_identity v = current_parent package"
    and "actual_unmanaged v = unmanaged_parent package"
    and "set (wp_managed_relations v) = set (current_relations package)"
  shows "run_ops new_id st (parent_ops sha p sn tr i ident package) =
     Inr (st(ident \<mapsto> (if parent_changed p i package
       then v\<lparr>wp_parent_identity := desired_parent p i,
              wp_parent_id := map_option (remote_id new_id st) (desired_parent p i)\<rparr> else v)))"
proof (cases "parent_changed p i package")
  case True
  let ?after = "managed_hash sha p i"
  let ?x = "make_operation sha p SetParent ident (Some ?after) (Some ?after) tr
      [(''parent_identity'', py_opt_identity (desired_parent p i))]
      (dict_merge (base_conditions p sn package ?after)
        (topology_preconditions package (current_parent package) (current_relations package)))"
  have "assert_current ?x (Some v) = Inr ()"
    by (subst assert_current_merge [where h = "Some ?after"])
      (use assms in \<open>auto simp: base_get py_opt_str_def\<close>)
  moreover have "payload_parent ?x = desired_parent p i"
    by (cases "desired_parent p i") (simp_all add: payload_parent_def py_opt_identity_def py_identity_def)
  ultimately show ?thesis
    using True assms(1) by (auto simp: parent_ops_def Let_def effect_def package_effect_def)
next
  case False
  with assms(1) show ?thesis by (simp add: parent_ops_def Let_def fun_upd_idem)
qed

text \<open>
  An item whose work package has a native parent outside the plan (unmanaged) and whose
  relations must change too.
\<close>

definition parent_conflict :: "backlog_plan \<Rightarrow> backlog_item \<Rightarrow> work_package option \<Rightarrow> bool" where
  "parent_conflict p i package \<longleftrightarrow>
     unmanaged_parent package \<and> set (desired_relations p i) \<noteq> set (current_relations package)"

lemma run_relations:
  assumes v: "st ident = Some v" "distinct (wp_managed_relations v)"
      "wp_managed_hash v = Some after" "wp_parent_identity v = vp"
      "set (wp_managed_relations v) = set current" and dist: "distinct desired" "distinct current"
    and um: "actual_unmanaged v = unmanaged_parent package \<or> set desired = set current"
    and added: "added = sorted_set (filter (\<lambda>r. r \<notin> set current) desired)"
    and removed: "removed = sorted_set (filter (\<lambda>r. r \<notin> set desired) current)"
  shows "\<exists>m. run_ops new_id st
       (relation_ops sha p sn tr ident package after vp CreateRelation current added
        @ relation_ops sha p sn tr ident package after vp RemoveManagedRelation (added @ current) removed)
       = Inr (st(ident \<mapsto> v\<lparr>wp_managed_relations := m\<rparr>)) \<and> set m = set desired \<and> distinct m"
proof (cases "set desired = set current")
  case True
  then have "added = [] \<and> removed = []"
    by (simp add: added removed filter_notin_Nil)
  moreover have "v\<lparr>wp_managed_relations := wp_managed_relations v\<rparr> = v" by (cases v) simp
  ultimately show ?thesis
    using v True by (intro exI [of _ "wp_managed_relations v"]) (simp add: fun_upd_idem)
next
  case False
  with um have um: "actual_unmanaged v = unmanaged_parent package" by simp
  have sets: "set added = set desired - set current" "set removed = set current - set desired"
    by (auto simp: added removed)
  have "\<exists>w'. run_ops new_id st (relation_ops sha p sn tr ident package after vp CreateRelation current added)
        = Inr (st(ident \<mapsto> w')) \<and>
      set (wp_managed_relations w') = set added \<union> set current \<and> distinct (wp_managed_relations w') \<and>
      (\<exists>m. w' = v\<lparr>wp_managed_relations := m\<rparr>)"
    by (rule run_relation_creates) (use v um sets in \<open>auto simp: added\<close>)
  then obtain m where m: "run_ops new_id st
        (relation_ops sha p sn tr ident package after vp CreateRelation current added)
        = Inr (st(ident \<mapsto> v\<lparr>wp_managed_relations := m\<rparr>))"
      "set m = set added \<union> set current" "distinct m" by auto
  let ?st = "st(ident \<mapsto> v\<lparr>wp_managed_relations := m\<rparr>)"
  have "\<exists>w'. run_ops new_id ?st
        (relation_ops sha p sn tr ident package after vp RemoveManagedRelation (added @ current) removed)
        = Inr (?st(ident \<mapsto> w')) \<and>
      set (wp_managed_relations w') = set (added @ current) - set removed \<and> distinct (wp_managed_relations w') \<and>
      (\<exists>n. w' = v\<lparr>wp_managed_relations := m, wp_managed_relations := n\<rparr>)"
    by (rule run_relation_removes) (use v um sets m in \<open>auto simp: removed actual_unmanaged_def\<close>)
  then obtain n where "run_ops new_id ?st
        (relation_ops sha p sn tr ident package after vp RemoveManagedRelation (added @ current) removed)
        = Inr (st(ident \<mapsto> v\<lparr>wp_managed_relations := n\<rparr>))"
      "set n = set (added @ current) - set removed" "distinct n" by auto
  moreover from this(2) sets have "set n = set desired" by auto
  ultimately show ?thesis using m(1) by (intro exI [of _ n]) (simp add: run_ops_append)
qed

lemma distinct_desired_relations [simp]: "distinct (desired_relations p i)"
  by (simp add: desired_relations_def Let_def)

text \<open>The whole group of operations of one item, from the package of the snapshot or from
  the one just created.\<close>

lemma run_item_from:
  assumes ident: "ident = (plan_id (bp_plan p), bi_key i)" and pk: "dict_get ex ident = package"
    and v: "st ident = Some v" "distinct (wp_managed_relations v)"
      "wp_managed_hash v = Some (managed_hash sha p i)" "\<not> wp_superseded v"
      "wp_parent_identity v = current_parent package" "actual_unmanaged v = unmanaged_parent package"
      "wp_parent_id v = None \<longleftrightarrow> (case package of None \<Rightarrow> True | Some w \<Rightarrow> wp_parent_id w = None)"
      "set (wp_managed_relations v) = set (current_relations package)"
    and nc: "\<not> parent_conflict p i package"
    and first: "run_ops new_id sti (reactivate_ops sha p sn tr ident package
        @ update_ops sha p sn tr i ident package) = Inr st"
  shows "\<exists>w'. run_ops new_id sti (item_ops sha p sn tr ex i) = Inr (st(ident \<mapsto> w')) \<and> node_converged sha p i w'"
proof -
  let ?after = "managed_hash sha p i"
  let ?v = "if parent_changed p i package
       then v\<lparr>wp_parent_identity := desired_parent p i,
              wp_parent_id := map_option (remote_id new_id st) (desired_parent p i)\<rparr> else v"
  let ?vp = "if parent_changed p i package then desired_parent p i else current_parent package"
  let ?current = "current_relations package" and ?desired = "desired_relations p i"
  let ?added = "sorted_set (filter (\<lambda>r. r \<notin> set ?current) ?desired)"
  let ?removed = "sorted_set (filter (\<lambda>r. r \<notin> set ?desired) ?current)"
  have parent: "run_ops new_id st (parent_ops sha p sn tr i ident package) = Inr (st(ident \<mapsto> ?v))"
    by (rule run_parent) (use v in auto)
  have par: "wp_parent_identity ?v = desired_parent p i"
    "desired_parent p i = None \<longrightarrow> wp_parent_id ?v = None"
    using v(5,7) by (auto simp: parent_changed_def split: option.splits)
  have vp: "?vp = desired_parent p i" by (auto simp: parent_changed_def)
  have um: "actual_unmanaged ?v = unmanaged_parent package \<or> set ?desired = set ?current"
    using nc v(6) par by (auto simp: parent_conflict_def actual_unmanaged_def)
  have "\<exists>m. run_ops new_id (st(ident \<mapsto> ?v))
       (relation_ops sha p sn tr ident package ?after ?vp CreateRelation ?current ?added
        @ relation_ops sha p sn tr ident package ?after ?vp RemoveManagedRelation (?added @ ?current) ?removed)
       = Inr ((st(ident \<mapsto> ?v))(ident \<mapsto> ?v\<lparr>wp_managed_relations := m\<rparr>)) \<and> set m = set ?desired \<and> distinct m"
    by (rule run_relations [OF _ _ _ _ _ _ _ um refl refl])
      (use v par vp in \<open>auto simp: current_relations_def split: option.splits\<close>)
  then obtain m where m: "run_ops new_id (st(ident \<mapsto> ?v))
       (relation_ops sha p sn tr ident package ?after ?vp CreateRelation ?current ?added
        @ relation_ops sha p sn tr ident package ?after ?vp RemoveManagedRelation (?added @ ?current) ?removed)
       = Inr (st(ident \<mapsto> ?v\<lparr>wp_managed_relations := m\<rparr>))" "set m = set ?desired" by auto
  have "item_ops sha p sn tr ex i =
      (reactivate_ops sha p sn tr ident package @ update_ops sha p sn tr i ident package)
      @ parent_ops sha p sn tr i ident package
      @ (relation_ops sha p sn tr ident package ?after ?vp CreateRelation ?current ?added
         @ relation_ops sha p sn tr ident package ?after ?vp RemoveManagedRelation (?added @ ?current) ?removed)"
    by (simp add: item_ops_def Let_def pk flip: ident)
  then have "run_ops new_id sti (item_ops sha p sn tr ex i) = Inr (st(ident \<mapsto> ?v\<lparr>wp_managed_relations := m\<rparr>))"
    using first parent m(1) by (simp only: run_ops_append res_bind_Inr)
  moreover have "node_converged sha p i (?v\<lparr>wp_managed_relations := m\<rparr>)"
    using v(3,4) par m(2) by (simp add: node_converged_def)
  ultimately show ?thesis by blast
qed

end
