(* ===== verification/DiffConverges.thy ===== *)
theory DiffConverges
  imports DiffRun
begin

text \<open>
  The two results on replaying a diff: it converges when no item both sits under an
  unmanaged native parent and changes relations, and it stops with a rejected precondition
  when one does.
\<close>

lemma run_item_existing:
  assumes pk: "dict_get ex (plan_id (bp_plan p), bi_key i) = Some w"
    and st: "st (plan_id (bp_plan p), bi_key i) = Some w" and dist: "distinct (wp_managed_relations w)"
    and nc: "\<not> parent_conflict p i (Some w)"
  shows "\<exists>w'. run_ops new_id st (item_ops sha p sn tr ex i) =
       Inr (st((plan_id (bp_plan p), bi_key i) \<mapsto> w')) \<and> node_converged sha p i w'"
proof -
  let ?ident = "(plan_id (bp_plan p), bi_key i)"
  let ?v = "w\<lparr>wp_superseded := False, wp_managed_hash := Some (managed_hash sha p i)\<rparr>"
  have first: "run_ops new_id st (reactivate_ops sha p sn tr ?ident (Some w)
      @ update_ops sha p sn tr i ?ident (Some w)) = Inr (st(?ident \<mapsto> ?v))"
    using run_reactivate [where st = st and ident = ?ident, OF st dist]
      run_update [of "st(?ident \<mapsto> w\<lparr>wp_superseded := False\<rparr>)" ?ident w] dist
    by (simp add: run_ops_append)
  have "\<exists>w'. run_ops new_id st (item_ops sha p sn tr ex i) = Inr ((st(?ident \<mapsto> ?v))(?ident \<mapsto> w')) \<and>
      node_converged sha p i w'"
    by (rule run_item_from [where sti = st and st = "st(?ident \<mapsto> ?v)" and v = ?v, OF refl pk _ _ _ _ _ _ _ _ nc first])
      (use dist in \<open>auto simp: current_parent_def current_relations_def unmanaged_parent_def actual_unmanaged_def\<close>)
  then show ?thesis by simp
qed

lemma run_item_created:
  assumes pk: "dict_get ex (plan_id (bp_plan p), bi_key i) = None"
    and st: "st (plan_id (bp_plan p), bi_key i) =
      Some (created_package n (plan_id (bp_plan p), bi_key i) (Some (managed_hash sha p i)))"
  shows "\<exists>w'. run_ops new_id st (item_ops sha p sn tr ex i) =
       Inr (st((plan_id (bp_plan p), bi_key i) \<mapsto> w')) \<and> node_converged sha p i w'"
proof -
  let ?ident = "(plan_id (bp_plan p), bi_key i)"
  have first: "run_ops new_id st (reactivate_ops sha p sn tr ?ident None
      @ update_ops sha p sn tr i ?ident None) = Inr st"
    by (simp add: reactivate_ops_def update_ops_def)
  show ?thesis
    by (rule run_item_from [OF refl pk st _ _ _ _ _ _ _ _ first])
      (auto simp: created_package_def current_parent_def current_relations_def unmanaged_parent_def
        actual_unmanaged_def parent_conflict_def)
qed

lemma run_create:
  assumes "st (plan_id (bp_plan p), bi_key i) = dict_get ex (plan_id (bp_plan p), bi_key i)"
  shows "run_ops new_id st (create_ops sha p sn tr ex i) =
     Inr (st((plan_id (bp_plan p), bi_key i) \<mapsto>
       (case dict_get ex (plan_id (bp_plan p), bi_key i) of Some w \<Rightarrow> w
        | None \<Rightarrow> created_package (new_id (plan_id (bp_plan p), bi_key i)) (plan_id (bp_plan p), bi_key i)
            (Some (managed_hash sha p i)))))"
proof (cases "dict_get ex (plan_id (bp_plan p), bi_key i)")
  case None
  let ?x = "make_operation sha p CreateWorkPackage (plan_id (bp_plan p), bi_key i) None
      (Some (managed_hash sha p i)) tr (create_fields p i)
      (dict_set ''identity_absent'' (PBool True) (preconditions p sn None))"
  have "assert_current ?x None = Inr ()"
    by (simp add: assert_current_def Let_def dict_simps preconditions_get)
  with None assms show ?thesis by (simp add: create_ops_def effect_def Let_def)
next
  case (Some w)
  with assms show ?thesis by (simp add: create_ops_def fun_upd_idem)
qed

lemma run_supersede:
  assumes "st ident = Some w" and "distinct (wp_managed_relations w)"
  shows "run_ops new_id st (supersede_ops sha p sn tr (ident, w)) =
     Inr (st(ident \<mapsto> (if fst ident = plan_id (bp_plan p) \<and> snd ident \<notin> set (item_keys p)
                        then w\<lparr>wp_superseded := True\<rparr> else w)))"
proof (cases "supersede_ops sha p sn tr (ident, w) = []")
  case True
  then have "fst ident \<noteq> plan_id (bp_plan p) \<or> snd ident \<in> set (item_keys p) \<or> wp_superseded w"
    by (simp only: supersede_ops_Nil)
  then have "(if fst ident = plan_id (bp_plan p) \<and> snd ident \<notin> set (item_keys p)
      then w\<lparr>wp_superseded := True\<rparr> else w) = w"
    by (cases w) auto
  with True assms(1) show ?thesis by (simp add: fun_upd_idem)
next
  case False
  let ?x = "make_operation sha p MarkSuperseded ident (wp_managed_hash w) (wp_managed_hash w) tr
      [(''superseded'', PBool True)] (existing_preconditions p sn w (wp_managed_hash w))"
  from False have c: "fst ident = plan_id (bp_plan p)" "snd ident \<notin> set (item_keys p)" "\<not> wp_superseded w"
    using supersede_ops_Nil [of sha p sn tr ident w] by auto
  then have "supersede_ops sha p sn tr (ident, w) = [?x]"
    by (simp add: supersede_ops_def)
  moreover have "assert_current ?x (Some w) = Inr ()"
    using assert_current_existing [OF assms(2)] by simp
  ultimately show ?thesis
    using c assms(1) by (auto simp: effect_def package_effect_def)
qed

text \<open>
  A pass over units that each touch one identity of their own: if every unit runs from any
  state that has its initial value, the whole pass runs, each unit's identity gets its
  result and every other identity is untouched.
\<close>

lemma run_units:
  assumes "\<And>u st. u \<in> set us \<Longrightarrow> st (idn u) = pre u \<Longrightarrow>
      \<exists>v. run_ops new_id st (ops u) = Inr (st(idn u := v)) \<and> Q u v"
    and "distinct (map idn us)" and "\<forall>u \<in> set us. st (idn u) = pre u"
  shows "\<exists>st'. run_ops new_id st (concat (map ops us)) = Inr st' \<and>
      (\<forall>u \<in> set us. Q u (st' (idn u))) \<and> (\<forall>k. k \<notin> idn ` set us \<longrightarrow> st' k = st k)"
  using assms
proof (induction us arbitrary: st)
  case Nil
  then show ?case by simp
next
  case (Cons u us)
  have "u \<in> set (u # us)" and "st (idn u) = pre u" using Cons.prems(3) by simp_all
  from Cons.prems(1) [where st = st, OF this]
  obtain v where v: "run_ops new_id st (ops u) = Inr (st(idn u := v))" "Q u v" by blast
  have "\<exists>st'. run_ops new_id (st(idn u := v)) (concat (map ops us)) = Inr st' \<and>
      (\<forall>u \<in> set us. Q u (st' (idn u))) \<and> (\<forall>k. k \<notin> idn ` set us \<longrightarrow> st' k = (st(idn u := v)) k)"
  proof (rule Cons.IH)
    show "\<forall>a \<in> set us. (st(idn u := v)) (idn a) = pre a"
      using Cons.prems(2,3) by (metis fun_upd_apply image_eqI distinct.simps(2) list.set_intros(2)
          list.simps(9) set_map)
  qed (use Cons.prems in auto)
  then obtain st' where st': "run_ops new_id (st(idn u := v)) (concat (map ops us)) = Inr st'"
      "\<forall>u \<in> set us. Q u (st' (idn u))" "\<forall>k. k \<notin> idn ` set us \<longrightarrow> st' k = (st(idn u := v)) k" by blast
  moreover have "st' (idn u) = v"
    using st'(3) Cons.prems(2) by (metis distinct.simps(2) fun_upd_same list.simps(9) set_map)
  ultimately show ?case using v by (intro exI [of _ st']) (auto simp: run_ops_append)
qed

text \<open>The final audit operation has no effect and no precondition on a work package.\<close>

lemma run_audit:
  "run_ops new_id st [make_operation sha p RecordAudit ident None None tr payload (preconditions p sn None)] = Inr st"
  by (simp add: assert_current_def Let_def preconditions_get effect_def)

definition diffable :: "backlog_plan \<Rightarrow> (identity, work_package) dict \<Rightarrow> bool" where
  "diffable p ex \<longleftrightarrow> distinct (item_keys p) \<and>
     (\<forall>(k, w) \<in> set ex. distinct (wp_managed_relations w)) \<and>
     (\<forall>i \<in> set (bp_items p). \<not> parent_conflict p i (dict_get ex (plan_id (bp_plan p), bi_key i)))"

lemma plan_diff_converges:
  assumes ids: "identities sn = Inr ex" and ok: "diffable p ex"
    and diff: "plan_diff sha p sn tr = Inr xs"
  shows "\<exists>st. run_ops new_id (dict_get ex) xs = Inr st \<and> converged sha p st"
proof -
  let ?pid = "plan_id (bp_plan p)"
  let ?idn = "\<lambda>i. (?pid, bi_key i)"
  let ?items = "sort_key bi_key (bp_items p)"
  let ?created = "\<lambda>i. case dict_get ex (?idn i) of Some w \<Rightarrow> w
        | None \<Rightarrow> created_package (new_id (?idn i)) (?idn i) (Some (managed_hash sha p i))"
  have keys: "distinct (map ?idn ?items)"
  proof -
    have "distinct (map bi_key ?items)"
      using ok by (simp add: diffable_def distinct_map inj_on_def)
    then show ?thesis by (simp add: distinct_map inj_on_def)
  qed
  have dist_rel: "distinct (wp_managed_relations w)" if "dict_get ex k = Some w" for k w
    using ok map_of_SomeD [OF that] by (auto simp: diffable_def)
  \<comment> \<open>First pass.\<close>
  have "\<exists>st1. run_ops new_id (dict_get ex) (concat (map (create_ops sha p sn tr ex) ?items)) = Inr st1 \<and>
      (\<forall>i \<in> set ?items. st1 (?idn i) = Some (?created i)) \<and>
      (\<forall>k. k \<notin> ?idn ` set ?items \<longrightarrow> st1 k = dict_get ex k)"
    by (rule run_units [where pre = "\<lambda>i. dict_get ex (?idn i)" and Q = "\<lambda>i v. v = Some (?created i)"])
      (use keys in \<open>auto simp: run_create\<close>)
  then obtain st1 where st1: "run_ops new_id (dict_get ex) (concat (map (create_ops sha p sn tr ex) ?items)) = Inr st1"
      "\<forall>i \<in> set ?items. st1 (?idn i) = Some (?created i)"
      "\<forall>k. k \<notin> ?idn ` set ?items \<longrightarrow> st1 k = dict_get ex k" by blast
  \<comment> \<open>Second pass.\<close>
  have item: "\<exists>v. run_ops new_id st (item_ops sha p sn tr ex i) = Inr (st(?idn i := v)) \<and>
      (\<exists>w. v = Some w \<and> node_converged sha p i w)"
    if "i \<in> set ?items" and "st (?idn i) = Some (?created i)" for i st
  proof (cases "dict_get ex (?idn i)")
    case None
    with that have "st (?idn i) = Some (created_package (new_id (?idn i)) (?idn i) (Some (managed_hash sha p i)))"
      by simp
    from run_item_created [where st = st, OF None this] show ?thesis by blast
  next
    case (Some w)
    with that ok have "\<not> parent_conflict p i (Some w)" by (auto simp: diffable_def)
    with run_item_existing [where st = st, OF Some _ dist_rel [OF Some]] that Some show ?thesis by fastforce
  qed
  have "\<exists>st2. run_ops new_id st1 (concat (map (item_ops sha p sn tr ex) ?items)) = Inr st2 \<and>
      (\<forall>i \<in> set ?items. \<exists>w. st2 (?idn i) = Some w \<and> node_converged sha p i w) \<and>
      (\<forall>k. k \<notin> ?idn ` set ?items \<longrightarrow> st2 k = st1 k)"
    by (rule run_units [where pre = "\<lambda>i. Some (?created i)"
        and Q = "\<lambda>i v. \<exists>w. v = Some w \<and> node_converged sha p i w"])
      (use keys item st1(2) in auto)
  then obtain st2 where st2: "run_ops new_id st1 (concat (map (item_ops sha p sn tr ex) ?items)) = Inr st2"
      "\<forall>i \<in> set ?items. \<exists>w. st2 (?idn i) = Some w \<and> node_converged sha p i w"
      "\<forall>k. k \<notin> ?idn ` set ?items \<longrightarrow> st2 k = st1 k" by blast
  \<comment> \<open>Third pass: only work packages outside the plan change.\<close>
  let ?gone = "\<lambda>k w. fst k = ?pid \<and> snd k \<notin> set (item_keys p)"
  let ?sorted = "sort_key fst ex"
  have dex: "distinct (dict_keys ex)" by (rule identities_Some(2) [OF ids])
  have "\<exists>st3. run_ops new_id st2 (concat (map (supersede_ops sha p sn tr) ?sorted)) = Inr st3 \<and>
      (\<forall>u \<in> set ?sorted. st3 (fst u) = (if ?gone (fst u) (snd u) then Some ((snd u)\<lparr>wp_superseded := True\<rparr>) else st2 (fst u))) \<and>
      (\<forall>k. k \<notin> fst ` set ?sorted \<longrightarrow> st3 k = st2 k)"
  proof (rule run_units [where pre = "\<lambda>u. st2 (fst u)"])
    show "distinct (map fst ?sorted)" using dex by (simp add: distinct_map inj_on_def)
  next
    fix u and st :: remote
    assume u: "u \<in> set ?sorted" and st: "st (fst u) = st2 (fst u)"
    obtain k w where kw: "u = (k, w)" by (cases u)
    with u dex have get: "dict_get ex k = Some w" by simp
    show "\<exists>v. run_ops new_id st (supersede_ops sha p sn tr u) = Inr (st(fst u := v)) \<and>
        v = (if ?gone (fst u) (snd u) then Some ((snd u)\<lparr>wp_superseded := True\<rparr>) else st2 (fst u))"
    proof (cases "?gone k w")
      case True
      then have "k \<notin> ?idn ` set ?items" by (cases k) auto
      then have "st2 k = dict_get ex k" using st2(3) st1(3) by metis
      with get st kw have "st k = Some w" by simp
      from run_supersede [where st = st, OF this dist_rel [OF get]] True kw show ?thesis by simp
    next
      case False
      then have "supersede_ops sha p sn tr (k, w) = []" by (auto simp: supersede_ops_def)
      with False kw st show ?thesis by (auto simp: fun_upd_idem)
    qed
  qed simp
  then obtain st3 where st3: "run_ops new_id st2 (concat (map (supersede_ops sha p sn tr) ?sorted)) = Inr st3"
      "\<forall>u \<in> set ?sorted. st3 (fst u) = (if ?gone (fst u) (snd u) then Some ((snd u)\<lparr>wp_superseded := True\<rparr>) else st2 (fst u))"
      "\<forall>k. k \<notin> fst ` set ?sorted \<longrightarrow> st3 k = st2 k" by blast
  have run: "run_ops new_id (dict_get ex) xs = Inr st3"
    using diff ids st1(1) st2(1) st3(1) run_audit
    by (auto simp: plan_diff_def Let_def run_ops_append)
  have "\<exists>w. st3 (?idn i) = Some w \<and> node_converged sha p i w" if "i \<in> set (bp_items p)" for i
  proof -
    have "st3 (?idn i) = st2 (?idn i)"
      using that st3(2,3) by (cases "?idn i \<in> fst ` set ?sorted") auto
    with st2(2) that show ?thesis by simp
  qed
  moreover have "wp_superseded w" if "st3 (?pid, k) = Some w" and "k \<notin> set (item_keys p)" for k w
  proof (cases "(?pid, k) \<in> fst ` set ex")
    case True
    then obtain w0 where "((?pid, k), w0) \<in> set ?sorted" by auto
    with st3(2) that have "Some w = Some (w0\<lparr>wp_superseded := True\<rparr>)" by fastforce
    then show ?thesis by simp
  next
    case False
    with that st3(3) st2(3) st1(3) have "dict_get ex (?pid, k) = Some w" by (auto simp: image_iff)
    with False show ?thesis by (force dest: map_of_SomeD)
  qed
  ultimately show ?thesis using run by (auto simp: converged_def)
qed

section \<open>The conflict\<close>

text \<open>
  A relation operation records \<^verbatim>\<open>expected_unmanaged_parent\<close> from the snapshot, although
  the \<^verbatim>\<open>set_parent\<close> operation in front of it has replaced the unmanaged parent: its check
  fails on every work package whose parent is the desired one.
\<close>

lemma relation_op_rejects:
  assumes x: "x \<in> set (relation_ops sha p sn tr ident package after vp kind virt rs)"
    and um: "unmanaged_parent package" and w: "\<not> actual_unmanaged w"
  shows "assert_current x (Some w) \<noteq> Inr ()"
  using x
proof (induction rs arbitrary: virt)
  case Nil
  then show ?case by simp
next
  case (Cons r rs)
  let ?c = "dict_merge (base_conditions p sn package after) (topology_preconditions package vp virt)"
  have "assert_topology ?c w \<noteq> Inr ()"
    using um w by (auto simp: assert_topology_def merge_topology_get topology_get res_simps Let_def)
  then have "assert_current (make_operation sha p kind ident (Some after) (Some after) tr (relation_payload r) ?c)
      (Some w) \<noteq> Inr ()"
    by (auto simp: assert_current_def Let_def res_simps)
  with Cons show ?case by auto
qed

lemma parent_conflict_rejects:
  assumes pk: "dict_get ex (plan_id (bp_plan p), bi_key i) = Some w"
    and conflict: "parent_conflict p i (Some w)"
    and replaced: "wp_parent_identity v = desired_parent p i"
      "desired_parent p i = None \<longrightarrow> wp_parent_id v = None"
  shows "\<exists>x \<in> set (item_ops sha p sn tr ex i).
     op_kind_of x \<in> {CreateRelation, RemoveManagedRelation} \<and> assert_current x (Some v) \<noteq> Inr ()"
proof -
  let ?ident = "(plan_id (bp_plan p), bi_key i)" and ?after = "managed_hash sha p i"
  let ?vp = "if parent_changed p i (Some w) then desired_parent p i else current_parent (Some w)"
  let ?current = "current_relations (Some w)" and ?desired = "desired_relations p i"
  let ?added = "sorted_set (filter (\<lambda>r. r \<notin> set ?current) ?desired)"
  let ?removed = "sorted_set (filter (\<lambda>r. r \<notin> set ?desired) ?current)"
  let ?C = "relation_ops sha p sn tr ?ident (Some w) ?after ?vp CreateRelation ?current ?added"
  let ?R = "relation_ops sha p sn tr ?ident (Some w) ?after ?vp RemoveManagedRelation (?added @ ?current) ?removed"
  have kinds: "op_kind_of x = kind"
    if "x \<in> set (relation_ops sha p sn tr ident package after vp kind virt rs)"
    for x ident package after vp kind virt rs
    using that by (induction rs arbitrary: virt) auto
  from conflict have "\<not> (set ?desired \<subseteq> set ?current \<and> set ?current \<subseteq> set ?desired)"
    and um: "unmanaged_parent (Some w)"
    by (auto simp: parent_conflict_def)
  then have "?C @ ?R \<noteq> []" by (auto simp: filter_notin_Nil)
  then obtain x where "x \<in> set (?C @ ?R)" by (meson last_in_set)
  then have x: "x \<in> set ?C \<or> x \<in> set ?R" unfolding set_append by blast
  have "\<not> actual_unmanaged v"
    using replaced by (auto simp: actual_unmanaged_def)
  with um x have "assert_current x (Some v) \<noteq> Inr ()"
    using relation_op_rejects by blast
  moreover from x have "op_kind_of x \<in> {CreateRelation, RemoveManagedRelation}"
    using kinds by blast
  moreover from x have "x \<in> set (item_ops sha p sn tr ex i)"
    by (auto simp: item_ops_def Let_def pk)
  ultimately show ?thesis by blast
qed

end
