(* ===== verification/Reconcile.thy ===== *)
theory Reconcile
  imports DiffSpec "HOL-Library.Multiset"
begin

text \<open>
  \<^verbatim>\<open>src/planning_platform/reconciliation.py\<close>, the comparison of a published plan with the
  present state of OpenProject, and \<^verbatim>\<open>src/planning_platform/graph.py\<close>, the Mermaid
  rendering of a plan.
\<close>

section \<open>Reconciliation\<close>

datatype finding_code =
    Missing
  | ManagedDrift
  | Superseded
  | StaleSnapshot
  | IdentityConflict
  | UnapprovedPlan

record finding =
  fd_code :: finding_code
  fd_message :: string
  fd_node_key :: "string option"
  fd_safe_repair :: bool

record report =
  rp_findings :: "finding list"
  rp_safe_repairs :: "publication_operation list"

definition node_finding :: "finding_code \<Rightarrow> string \<Rightarrow> string \<Rightarrow> finding" where
  "node_finding code message key =
     \<lparr>fd_code = code, fd_message = message, fd_node_key = Some key, fd_safe_repair = True\<rparr>"

definition refusal :: "finding_code \<Rightarrow> string \<Rightarrow> report" where
  "refusal code message =
     \<lparr>rp_findings = [\<lparr>fd_code = code, fd_message = message, fd_node_key = None, fd_safe_repair = False\<rparr>],
      rp_safe_repairs = []\<rparr>"

text \<open>\<^verbatim>\<open>approved_commit or plan.plan.approved_planning_commit\<close>: an empty string is false.\<close>

definition effective_commit :: "backlog_plan \<Rightarrow> string option \<Rightarrow> string option" where
  "effective_commit p approved =
     (case approved of
        Some c \<Rightarrow> if c = [] then plan_approved_planning_commit (bp_plan p) else Some c
      | None \<Rightarrow> plan_approved_planning_commit (bp_plan p))"

definition item_findings ::
  "(string \<Rightarrow> string) \<Rightarrow> backlog_plan \<Rightarrow> (identity, work_package) dict \<Rightarrow> backlog_item \<Rightarrow> finding list" where
  "item_findings sha p existing i =
     (case dict_get existing (plan_id (bp_plan p), bi_key i) of
        None \<Rightarrow> [node_finding Missing ''managed work package is missing'' (bi_key i)]
      | Some w \<Rightarrow>
          if wp_managed_hash w \<noteq> Some (managed_hash sha p i) \<or> wp_superseded w
          then [node_finding ManagedDrift ''managed fields differ from plan'' (bi_key i)] else [])"

definition removed_findings :: "backlog_plan \<Rightarrow> identity \<times> work_package \<Rightarrow> finding list" where
  "removed_findings p = (\<lambda>(ident, w).
     if fst ident = plan_id (bp_plan p) \<and> snd ident \<notin> set (item_keys p) \<and> \<not> wp_superseded w
     then [node_finding Superseded ''removed plan node needs superseding'' (snd ident)] else [])"

definition snapshot_current :: "backlog_plan \<Rightarrow> snapshot \<Rightarrow> bool" where
  "snapshot_current p sn \<longleftrightarrow>
     sn_sha256 sn = sr_sha256 (plan_openproject_snapshot (bp_plan p)) \<and>
     sn_etag sn = sr_etag (plan_openproject_snapshot (bp_plan p))"

definition reconcile ::
  "(string \<Rightarrow> string) \<Rightarrow> backlog_plan \<Rightarrow> snapshot \<Rightarrow> string \<Rightarrow> string option \<Rightarrow> exn + report" where
  "reconcile sha plan sn trace approved =
     (case effective_commit plan approved of
        None \<Rightarrow> Inr (refusal UnapprovedPlan ''reconciliation requires the immutable approved planning commit'')
      | Some c \<Rightarrow>
          let p = with_approved_commit plan c in
          (case identities sn of
             Inl e \<Rightarrow> if is_value_error e then Inr (refusal IdentityConflict (exn_message e)) else Inl e
           | Inr existing \<Rightarrow>
               if \<not> snapshot_current p sn
               then Inr (refusal StaleSnapshot ''snapshot differs from plan publication base'')
               else res_bind (plan_diff sha p sn trace) (\<lambda>repairs.
                 Inr \<lparr>rp_findings = concat (map (item_findings sha p existing) (bp_items p))
                        @ concat (map (removed_findings p) existing),
                      rp_safe_repairs = repairs\<rparr>)))"

section \<open>What the findings say of the repairs\<close>

definition reported :: "finding_code \<Rightarrow> report \<Rightarrow> string set" where
  "reported code r = {k. \<exists>f \<in> set (rp_findings r). fd_code f = code \<and> fd_node_key f = Some k}"

definition repaired :: "op_kind set \<Rightarrow> report \<Rightarrow> string set" where
  "repaired kinds r = {snd (op_identity x) | x. x \<in> set (rp_safe_repairs r) \<and> op_kind_of x \<in> kinds}"

lemma make_operation_fields [simp]:
  "op_kind_of (make_operation sha p kind ident b a tr payload conditions) = kind"
  "op_identity (make_operation sha p kind ident b a tr payload conditions) = ident"
  by (simp_all add: make_operation_def)

lemma set_relation_ops:
  "x \<in> set (relation_ops sha p sn tr ident package after vp kind virt rs) \<Longrightarrow>
    op_kind_of x = kind \<and> op_identity x = ident"
  by (induction rs arbitrary: virt) auto

definition has_op :: "publication_operation list \<Rightarrow> op_kind \<Rightarrow> identity \<Rightarrow> bool" where
  "has_op ops kind ident \<longleftrightarrow> (\<exists>x \<in> set ops. op_kind_of x = kind \<and> op_identity x = ident)"

lemma has_op_append: "has_op (xs @ ys) kind ident \<longleftrightarrow> has_op xs kind ident \<or> has_op ys kind ident"
  by (auto simp: has_op_def)

lemma has_op_concat:
  "has_op (concat (map f xs)) kind ident \<longleftrightarrow> (\<exists>x \<in> set xs. has_op (f x) kind ident)"
  by (auto simp: has_op_def)

lemma has_op_create:
  "has_op (create_ops sha p sn tr ex i) kind ident \<longleftrightarrow> kind = CreateWorkPackage \<and>
     ident = (plan_id (bp_plan p), bi_key i) \<and> dict_get ex ident = None"
  by (auto simp: has_op_def create_ops_def Let_def)

lemma has_op_relations:
  "kind' \<noteq> kind \<Longrightarrow> \<not> has_op (relation_ops sha p sn tr ident' package after vp kind' virt rs) kind ident"
  unfolding has_op_def by (blast dest: set_relation_ops)

lemma has_op_reactivate:
  "has_op (reactivate_ops sha p sn tr ident' pk) kind ident \<longleftrightarrow> kind = ReactivateWorkPackage \<and>
     ident = ident' \<and> (\<exists>w. pk = Some w \<and> wp_superseded w)"
  by (auto simp: has_op_def reactivate_ops_def split: option.splits)

lemma has_op_update:
  "has_op (update_ops sha p sn tr i ident' pk) kind ident \<longleftrightarrow> kind = UpdateManagedFields \<and>
     ident = ident' \<and> (\<exists>w. pk = Some w \<and> wp_managed_hash w \<noteq> Some (managed_hash sha p i))"
  by (auto simp: has_op_def update_ops_def Let_def split: option.splits)

lemma has_op_parent: "kind \<noteq> SetParent \<Longrightarrow> \<not> has_op (parent_ops sha p sn tr i ident' pk) kind ident"
  by (auto simp: has_op_def parent_ops_def Let_def)

lemma has_op_item:
  assumes "kind \<in> {CreateWorkPackage, UpdateManagedFields, ReactivateWorkPackage, MarkSuperseded}"
  shows "has_op (item_ops sha p sn tr ex i) kind ident \<longleftrightarrow> ident = (plan_id (bp_plan p), bi_key i) \<and>
    (\<exists>w. dict_get ex ident = Some w \<and>
      (kind = UpdateManagedFields \<and> wp_managed_hash w \<noteq> Some (managed_hash sha p i) \<or>
       kind = ReactivateWorkPackage \<and> wp_superseded w))"
proof -
  have other: "kind \<noteq> SetParent" "CreateRelation \<noteq> kind" "RemoveManagedRelation \<noteq> kind"
    using assms by auto
  show ?thesis
    unfolding item_ops_def Let_def has_op_append has_op_reactivate has_op_update
    by (auto simp: has_op_parent [OF other(1)] has_op_relations [OF other(2)] has_op_relations [OF other(3)])
qed

lemma has_op_supersede:
  "has_op (supersede_ops sha p sn tr u) kind ident \<longleftrightarrow> kind = MarkSuperseded \<and> ident = fst u \<and>
     fst ident = plan_id (bp_plan p) \<and> snd ident \<notin> set (item_keys p) \<and> \<not> wp_superseded (snd u)"
proof -
  obtain ident' w where "u = (ident', w)" by (cases u)
  then show ?thesis by (auto simp: has_op_def supersede_ops_def)
qed

lemma has_op_plan_diff:
  assumes "identities sn = Inr ex" and "plan_diff sha p sn tr = Inr ops" and "kind \<noteq> RecordAudit"
  shows "has_op ops kind ident \<longleftrightarrow>
    (\<exists>i \<in> set (bp_items p). has_op (create_ops sha p sn tr ex i) kind ident \<or>
       has_op (item_ops sha p sn tr ex i) kind ident) \<or>
    (\<exists>u \<in> set ex. has_op (supersede_ops sha p sn tr u) kind ident)"
proof -
  have audit: "\<not> has_op (if c then [] else [make_operation sha p RecordAudit i b a tr d e]) kind ident" for c i b a d e
    using assms(3) by (simp add: has_op_def)
  have "ops = (let operations = concat (map (create_ops sha p sn tr ex) (sort_key bi_key (bp_items p)))
             @ concat (map (item_ops sha p sn tr ex) (sort_key bi_key (bp_items p)))
             @ concat (map (supersede_ops sha p sn tr) (sort_key fst ex))
       in operations @
            (if operations = [] then []
             else [make_operation sha p RecordAudit (plan_id (bp_plan p), ''_audit'') None None tr
                     [(''operation_ids'', PList (map (\<lambda>x. PStr (op_id x)) operations))]
                     (preconditions p sn None)]))"
    using assms(1,2) by (simp add: plan_diff_def Let_def)
  then show ?thesis
    by (simp only: Let_def has_op_append has_op_concat audit simp_thms set_sort) blast
qed

lemma repaired_has_op:
  "repaired kinds r = {k. \<exists>kind \<in> kinds. \<exists>q. has_op (rp_safe_repairs r) kind (q, k)}"
  unfolding repaired_def has_op_def by (force simp: prod_eq_iff)

definition finds :: "finding list \<Rightarrow> finding_code \<Rightarrow> string \<Rightarrow> bool" where
  "finds fs code k \<longleftrightarrow> (\<exists>f \<in> set fs. fd_code f = code \<and> fd_node_key f = Some k)"

lemma finds_simps [simp]:
  "finds [] code k \<longleftrightarrow> False"
  "finds [node_finding code' m k'] code k \<longleftrightarrow> code' = code \<and> k' = k"
  by (auto simp: finds_def node_finding_def)

lemma finds_append: "finds (xs @ ys) code k \<longleftrightarrow> finds xs code k \<or> finds ys code k"
  by (auto simp: finds_def)

lemma finds_concat: "finds (concat (map f xs)) code k \<longleftrightarrow> (\<exists>x \<in> set xs. finds (f x) code k)"
  by (auto simp: finds_def)

lemma finds_item:
  "finds (item_findings sha p ex i) code k \<longleftrightarrow> k = bi_key i \<and>
     (case dict_get ex (plan_id (bp_plan p), k) of
        None \<Rightarrow> code = Missing
      | Some w \<Rightarrow> code = ManagedDrift \<and> (wp_managed_hash w \<noteq> Some (managed_hash sha p i) \<or> wp_superseded w))"
  by (auto simp: item_findings_def split: option.splits)

lemma finds_removed:
  "finds (removed_findings p u) code k \<longleftrightarrow> code = Superseded \<and> fst u = (plan_id (bp_plan p), k) \<and>
     k \<notin> set (item_keys p) \<and> \<not> wp_superseded (snd u)"
  by (cases u) (auto simp: removed_findings_def)

lemma findings_of_repairs:
  assumes "reconcile sha plan sn tr approved = Inr r"
  shows "reported Missing r = repaired {CreateWorkPackage} r"
    and "reported ManagedDrift r = repaired {UpdateManagedFields, ReactivateWorkPackage} r"
    and "reported Superseded r = repaired {MarkSuperseded} r"
proof -
  have refused: "reported code (refusal code' m) = {} \<and> repaired kinds (refusal code' m) = {}" for code code' m kinds
    by (simp add: reported_def repaired_def refusal_def)
  have "reported Missing r = repaired {CreateWorkPackage} r \<and>
    reported ManagedDrift r = repaired {UpdateManagedFields, ReactivateWorkPackage} r \<and>
    reported Superseded r = repaired {MarkSuperseded} r"
  proof (cases "\<exists>code m. r = refusal code m")
    case True
    then show ?thesis using refused by auto
  next
    case False
    then obtain c ex repairs where c: "effective_commit plan approved = Some c"
      and ids: "identities sn = Inr ex"
      and diff: "plan_diff sha (with_approved_commit plan c) sn tr = Inr repairs"
      and r: "r = \<lparr>rp_findings = concat (map (item_findings sha (with_approved_commit plan c) ex)
            (bp_items (with_approved_commit plan c))) @ concat (map (removed_findings (with_approved_commit plan c)) ex),
          rp_safe_repairs = repairs\<rparr>"
      using assms by (auto simp: reconcile_def Let_def res_simps split: option.splits sum.splits if_splits)
    have findings: "rp_findings r = concat (map (item_findings sha (with_approved_commit plan c) ex)
            (bp_items (with_approved_commit plan c))) @ concat (map (removed_findings (with_approved_commit plan c)) ex)"
      using r by simp
    have ops: "rp_safe_repairs r = repairs" using r by simp
    have F: "reported code r = {k. finds (rp_findings r) code k}" for code
      by (simp add: reported_def finds_def)
    note D = has_op_plan_diff [OF ids diff]
    show ?thesis
      unfolding F repaired_has_op ops findings finds_append finds_concat finds_item finds_removed
      by (auto simp: D has_op_create has_op_item has_op_supersede prod_eq_iff split: option.splits)
  qed
  then show "reported Missing r = repaired {CreateWorkPackage} r"
    and "reported ManagedDrift r = repaired {UpdateManagedFields, ReactivateWorkPackage} r"
    and "reported Superseded r = repaired {MarkSuperseded} r" by simp_all
qed

section \<open>The Mermaid graph\<close>

text \<open>\<^verbatim>\<open>re.sub(r"[^A-Za-z0-9 _.-]", "", value)\<close>.\<close>

definition is_label_char :: "char \<Rightarrow> bool" where
  "is_label_char c \<longleftrightarrow> is_upper_char c \<or> is_lower_char c \<or> is_digit_char c \<or> c \<in> set '' _.-''"

definition mermaid_label :: "string \<Rightarrow> string" where
  "mermaid_label value = filter is_label_char value"

definition node_line :: "backlog_item \<Rightarrow> string" where
  "node_line i = ''    '' @ bi_key i @ ''[\"'' @ mermaid_label (bi_title i) @ ''\"]''"

definition item_edges :: "backlog_item \<Rightarrow> (string \<times> string \<times> string) list" where
  "item_edges i =
     (case bi_parent i of None \<Rightarrow> [] | Some q \<Rightarrow> if q = [] then [] else [(q, bi_key i, ''contains'')])
     @ map (\<lambda>d. (d, bi_key i, ''blocks'')) (bi_blocked_by i)
     @ map (\<lambda>d. (d, bi_key i, ''preferred order'')) (bi_sequence_after i)
     @ map (\<lambda>r. (bi_key i, r, ''related'')) (bi_related_to i)
     @ map (\<lambda>d. (d, bi_key i, ''decision required'')) (bi_decision_required i)
     @ map (\<lambda>d. (d, bi_key i, ''governs'')) (bi_decisions i)"

definition edge_line :: "string \<times> string \<times> string \<Rightarrow> string" where
  "edge_line = (\<lambda>(source, target, label). ''    '' @ source @ '' -->|'' @ label @ ''| '' @ target)"

definition render_mermaid :: "backlog_plan \<Rightarrow> string" where
  "render_mermaid p =
     py_join nl (''flowchart TD'' # map node_line (sort_key bi_key (bp_items p))
       @ map edge_line (sort (concat (map item_edges (bp_items p))))) @ nl"

lemma mset_concat_map:
  "mset xs = mset ys \<Longrightarrow> mset (concat (map f xs)) = mset (concat (map f ys))"
  by (metis map_map mset_concat mset_map sum_mset_sum_list)

lemma render_mermaid_stable:
  assumes "mset (bp_items p) = mset (bp_items q)" and "distinct (item_keys p)"
  shows "render_mermaid p = render_mermaid q"
proof -
  have "set (bp_items p) = set (bp_items q)" using assms(1) by (metis set_mset_mset)
  moreover have "distinct (item_keys q)" using assms by (metis mset_eq_imp_distinct_iff mset_map)
  ultimately have items: "sort_key bi_key (bp_items p) = sort_key bi_key (bp_items q)"
    using assms(2) by (intro map_sorted_distinct_set_unique [of bi_key]) (auto simp: distinct_map)
  have "sort (concat (map item_edges (bp_items p))) = sort (concat (map item_edges (bp_items q)))"
    using mset_concat_map [OF assms(1), of item_edges] by (metis sorted_list_of_multiset_mset)
  with items show ?thesis by (simp add: render_mermaid_def)
qed

lemma mermaid_label_chars: "c \<in> set (mermaid_label v) \<Longrightarrow> is_label_char c"
  by (simp add: mermaid_label_def)

end
