(* ===== verification/PlanProperties.thy ===== *)
theory PlanProperties
  imports Examples DiffConverges Reconcile
begin

text \<open>
  The properties of plans and of what is computed from them: the validator
  (\<^verbatim>\<open>validation.py\<close>), the replan boundary (\<^verbatim>\<open>replan.py\<close>), the generated description
  (\<^verbatim>\<open>openproject.py\<close>), the diff (\<^verbatim>\<open>diff.py\<close>), reconciliation and rendering.
\<close>

section \<open>Validation\<close>

text \<open>
  C20: \<^verbatim>\<open>validate_plan\<close> decides well-formedness: it always returns a list of issues, and the
  list is empty exactly when the plan satisfies the declarative specification.
\<close>

theorem validator_decides:
  "\<exists>issues. validate_plan schema_error p = Inr issues \<and>
     (issues = []) = plan_well_formed schema_error p"
proof -
  obtain iss where iss: "validate_plan schema_error p = Inr iss" using validate_plan_returns by blast
  with validate_plan_Nil [of schema_error p] show ?thesis by auto
qed

text \<open>
  C21: \<^verbatim>\<open>_has_cycle\<close> terminates on every graph whose targets are nodes, and answers exactly
  whether the edge relation has a cycle.
\<close>

theorem cycle_check_exact:
  assumes "graph_closed edges"
  shows "has_cycle edges = Some (\<not> acyclic (edge_rel edges))"
  using assms by (rule has_cycle_iff)

definition ex_graph :: graph where
  "ex_graph = [(''a'', [''b'']), (''b'', [''c'']), (''c'', [''a'']), (''d'', [])]"

lemma ex_graph_closed: "graph_closed ex_graph"
  by (auto simp: graph_closed_def edge_rel_def ex_graph_def split: if_splits)

theorem cycle_check_exact_witness:
  "has_cycle ex_graph = Some True \<and> \<not> acyclic (edge_rel ex_graph)"
proof -
  have "has_cycle ex_graph = Some True" by code_simp
  with cycle_check_exact [OF ex_graph_closed] show ?thesis by simp
qed

section \<open>Replanning\<close>

definition ex_prior :: backlog_plan where "ex_prior = ex_plan"

definition ex_base :: string where "ex_base = replicate 40 (CHR ''f'')"

text \<open>The proposal rewords an affected task and adds one below the selected root.\<close>

definition ex_proposed :: backlog_plan where
  "ex_proposed = \<lparr>bp_schema_version = ''1'', bp_plan = ex_meta 2 None,
     bp_items = [ex_item ''epic-one'' Epic None,
                 (ex_item ''task-one'' Task (Some ''epic-one''))
                   \<lparr>bi_blocked_by := [''task-two''], bi_objective := ''Ship it again''\<rparr>,
                 ex_item ''task-two'' Task (Some ''epic-one''),
                 ex_item ''task-new'' Task (Some ''epic-one'')]\<rparr>"

definition ex_affected :: "string list" where "ex_affected = [''epic-one'', ''task-one'']"

definition ex_bounded :: backlog_plan where
  "ex_bounded = projr (apply_replan_boundary ex_prior ex_proposed ex_base [''epic-one''] ex_affected)"

lemma ex_bounded_applied:
  "apply_replan_boundary ex_prior ex_proposed ex_base [''epic-one''] ex_affected = Inr ex_bounded"
  by code_simp

lemma ex_bounded_valid: "validate_replan_candidate ex_prior ex_bounded ex_base [''epic-one''] ex_affected = Inr ()"
  by (rule apply_replan_boundary_Inr(1) [OF ex_bounded_applied])

text \<open>
  C22: A replan never touches protected nodes: once a candidate is accepted, every node of the
  prior plan outside the affected closure is the same item, and the fields and hash that
  OpenProject holds for it stay what the prior plan published under its base commit,
  whatever commit the candidate is approved at.
\<close>

theorem replan_protects_nodes:
  assumes "validate_replan_candidate prior candidate base selected affected = Inr ()"
    and "i \<in> set (bp_items prior)" and "bi_key i \<notin> set affected" and "distinct (item_keys prior)"
  shows "dict_get (by_key candidate) (bi_key i) = Some i \<and>
    managed_hash sha (with_approved_commit candidate approved) i =
    managed_hash sha (with_approved_commit prior base) i"
proof -
  have key: "bi_key i \<in> set (item_keys prior)" using assms(2) by simp
  have "dict_get (by_key prior) (bi_key i) = Some i"
    using assms(2,4) by (rule by_key_unique [rotated])
  with validated_protected(1) [OF assms(1) key assms(3)]
  have same: "dict_get (by_key candidate) (bi_key i) = Some i" by simp
  have binding: "effective_node_binding candidate (Some approved) (bi_key i) =
      effective_node_binding prior (Some base) (bi_key i)"
    by (rule validated_protected(2) [OF assms(1) key assms(3)])
  have "effective_node_binding (with_approved_commit q c) = effective_node_binding q" for q c
    by (intro ext) (simp add: effective_node_binding_def with_approved_commit_def split: option.split)
  moreover have "plan_id (bp_plan candidate) = plan_id (bp_plan prior)"
    by (rule check_descentD [OF validate_replan_candidateD(2) [OF assms(1)]])
  ultimately have "managed_hash sha (with_approved_commit candidate approved) i =
      managed_hash sha (with_approved_commit prior base) i"
    using binding by (intro managed_hash_cong) (simp_all add: with_approved_commit_def)
  with same show ?thesis ..
qed

theorem replan_protects_nodes_witness:
  "dict_get (by_key ex_bounded) (bi_key (ex_item ''task-two'' Task (Some ''epic-one''))) =
     Some (ex_item ''task-two'' Task (Some ''epic-one'')) \<and>
   managed_hash ex_sha (with_approved_commit ex_bounded ''c1'') (ex_item ''task-two'' Task (Some ''epic-one'')) =
   managed_hash ex_sha (with_approved_commit ex_prior ex_base) (ex_item ''task-two'' Task (Some ''epic-one''))"
  by (rule replan_protects_nodes [OF ex_bounded_valid]) code_simp+

text \<open>
  C23: What a replan may touch is owned by the selected roots: in an accepted candidate every
  node that is new, or affected and not itself a root, has a selected ancestor reached along
  parents, and an affected node of the prior plan keeps the owner it had.
\<close>

theorem replan_owned:
  assumes "validate_replan_candidate prior candidate base selected affected = Inr ()"
    and "k \<in> set (item_keys candidate)" and "k \<notin> set selected"
    and "k \<in> set affected \<or> k \<notin> set (item_keys prior)"
  shows "\<exists>r n. r \<in> set selected \<and> owned_by (by_key candidate) selected n k r \<and>
    (k \<in> set (item_keys prior) \<longrightarrow> (\<exists>m. owned_by (by_key prior) selected m k r))"
proof -
  note D = validate_replan_candidateD [OF assms(1)]
  obtain r where r: "selected_root_owner k (by_key candidate) selected = Some r"
    using check_rootedD [OF D(7) assms(2,3,4)] by blast
  then obtain n where n: "owned_by (by_key candidate) selected n k r" by (auto simp: selected_root_owner_iff)
  have "\<exists>m. owned_by (by_key prior) selected m k r" if "k \<in> set (item_keys prior)"
    using check_ownershipD [OF D(6) _ assms(3) that assms(2)] assms(4) that r
    by (auto simp: selected_root_owner_iff simp del: set_map)
  with n owned_by_root [OF n] show ?thesis by blast
qed

theorem replan_owned_witness:
  "\<exists>r n. r \<in> set [''epic-one''] \<and> owned_by (by_key ex_bounded) [''epic-one''] n ''task-one'' r \<and>
    (''task-one'' \<in> set (item_keys ex_prior) \<longrightarrow> (\<exists>m. owned_by (by_key ex_prior) [''epic-one''] m ''task-one'' r))"
  by (rule replan_owned [OF ex_bounded_valid]) code_simp+

text \<open>
  \<^verbatim>\<open>apply_replan_boundary\<close> returns only candidates that pass
  \<^verbatim>\<open>validate_replan_candidate\<close>, built from the prior plan's items outside the affected closure and the
  proposal's items inside it or new, in that order, under the proposal's later version.
\<close>

theorem replan_boundary_applied:
  assumes "apply_replan_boundary prior proposed base selected affected = Inr bounded"
  shows "validate_replan_candidate prior bounded base selected affected = Inr () \<and>
    bp_items bounded = overlay_items prior proposed affected \<and>
    plan_version (bp_plan prior) < plan_version (bp_plan bounded) \<and>
    build_replan_scope prior base selected affected = Inr (the (plan_replan (bp_plan bounded)))"
proof -
  note A = apply_replan_boundary_Inr [OF assms]
  note D = validate_replan_candidateD [OF A(1)]
  show ?thesis using A(1,2) check_descentD(2) [OF D(2)] D(3) by auto
qed

theorem replan_boundary_applied_witness:
  "validate_replan_candidate ex_prior ex_bounded ex_base [''epic-one''] ex_affected = Inr () \<and>
    bp_items ex_bounded = overlay_items ex_prior ex_proposed ex_affected \<and>
    plan_version (bp_plan ex_prior) < plan_version (bp_plan ex_bounded) \<and>
    build_replan_scope ex_prior ex_base [''epic-one''] ex_affected = Inr (the (plan_replan (bp_plan ex_bounded)))"
  by (rule replan_boundary_applied [OF ex_bounded_applied])

section \<open>The generated description\<close>

text \<open>
  \<^verbatim>\<open>replace_generated_description\<close> rewrites the marked region and nothing else: text in
  front of the opening marker and behind the closing marker is kept as it is; without
  markers the generated text is appended to the whole (right-stripped) description.
\<close>

theorem human_text_kept:
  assumes "replace_generated_description current generated = Inr r"
  shows "if py_count generated_open current = 0 \<and> py_count generated_close current = 0
    then r = (if py_strip current = [] then generated else py_rstrip current @ nl @ nl @ generated)
    else \<exists>front region back. current = front @ region @ back \<and> is_prefix_of generated_open region \<and>
      (\<exists>body. region = body @ generated_close) \<and> r = front @ generated @ back"
  using replace_generated_region [OF assms] replace_generated_fresh [of current generated] assms
  by auto

theorem human_text_kept_witness:
  "if py_count generated_open (''note '' @ generated_open @ ''x'' @ generated_close @ '' end'') = 0 \<and>
      py_count generated_close (''note '' @ generated_open @ ''x'' @ generated_close @ '' end'') = 0
   then ''note y end'' = (if py_strip (''note '' @ generated_open @ ''x'' @ generated_close @ '' end'') = [] then ''y''
     else py_rstrip (''note '' @ generated_open @ ''x'' @ generated_close @ '' end'') @ nl @ nl @ ''y'')
   else \<exists>front region back. ''note '' @ generated_open @ ''x'' @ generated_close @ '' end'' = front @ region @ back \<and>
      is_prefix_of generated_open region \<and> (\<exists>body. region = body @ generated_close) \<and> ''note y end'' = front @ ''y'' @ back"
  by (rule human_text_kept) code_simp

section \<open>The diff\<close>

text \<open>
  C19: \<^verbatim>\<open>plan_diff\<close> is empty exactly when OpenProject already holds the plan: every item has a
  work package with the managed hash, parent and relations the plan asks for, not superseded,
  and every other work package of the plan is superseded.
\<close>

theorem diff_empty_iff_converged:
  assumes "identities sn = Inr ex"
  shows "plan_diff sha p sn trace = Inr [] \<longleftrightarrow> converged sha p (dict_get ex)"
  using assms by (rule plan_diff_Nil)

definition ex_snapshot :: "work_package list \<Rightarrow> snapshot" where
  "ex_snapshot ws = \<lparr>sn_captured_at = ''t1'', sn_etag = ''e0'', sn_sha256 = ''s0'', sn_work_packages = ws\<rparr>"

theorem diff_empty_iff_converged_witness:
  "plan_diff ex_sha ex_small_plan (ex_snapshot [created_package 1 (''alpha'', ''epic-one'') (Some ''h'')]) ''trace-1''
     = Inr [] \<longleftrightarrow>
   converged ex_sha ex_small_plan (dict_get [((''alpha'', ''epic-one''), created_package 1 (''alpha'', ''epic-one'') (Some ''h''))])"
  by (rule diff_empty_iff_converged) code_simp

text \<open>
  C18: The operations of \<^verbatim>\<open>plan_diff\<close> reach the plan: replayed in order on the snapshot they
  were computed from, each passes its own preconditions on the state its predecessors leave,
  and the result is converged, unless a work package with an unmanaged native parent also
  has a relation changed.
\<close>

theorem diff_reaches_plan:
  assumes "identities sn = Inr ex" and "diffable p ex" and "plan_diff sha p sn trace = Inr ops"
  shows "\<exists>st. run_ops new_id (dict_get ex) ops = Inr st \<and> converged sha p st"
  using assms by (rule plan_diff_converges)

text \<open>An empty project and a work package of an earlier plan that is to be superseded.\<close>

definition ex_gone :: work_package where
  "ex_gone = (created_package 9 (''alpha'', ''task-gone'') (Some ''x''))\<lparr>wp_managed_relations := [(''mutex'', ''alpha'', ''task-old'')]\<rparr>"

theorem diff_reaches_plan_witness:
  "\<exists>st. run_ops (\<lambda>_. 5) (dict_get [((''alpha'', ''task-gone''), ex_gone)])
      (projr (plan_diff ex_sha ex_small_plan (ex_snapshot [ex_gone]) ''trace-1'')) = Inr st \<and>
    converged ex_sha ex_small_plan st"
proof (rule diff_reaches_plan [where sn = "ex_snapshot [ex_gone]" and trace = "''trace-1''"])
  show "identities (ex_snapshot [ex_gone]) = Inr [((''alpha'', ''task-gone''), ex_gone)]" by code_simp
  then show "plan_diff ex_sha ex_small_plan (ex_snapshot [ex_gone]) ''trace-1'' =
      Inr (projr (plan_diff ex_sha ex_small_plan (ex_snapshot [ex_gone]) ''trace-1''))"
    by (simp add: plan_diff_def Let_def)
  show "diffable ex_small_plan [((''alpha'', ''task-gone''), ex_gone)]" by code_simp
qed

text \<open>
  C29: A work package under an unmanaged native parent whose relations change is rejected
  half-way: once its \<^verbatim>\<open>set_parent\<close> has taken effect, some relation operation of the same diff
  fails its precondition on every state of the work package with the desired parent.
\<close>

theorem stale_parent_condition_rejects:
  assumes "dict_get ex (plan_id (bp_plan p), bi_key i) = Some w" and "parent_conflict p i (Some w)"
    and "wp_parent_identity v = desired_parent p i" and "desired_parent p i = None \<longrightarrow> wp_parent_id v = None"
  shows "\<exists>x \<in> set (item_ops sha p sn trace ex i).
    op_kind_of x \<in> {CreateRelation, RemoveManagedRelation} \<and> assert_current x (Some v) \<noteq> Inr ()"
  using assms by (rule parent_conflict_rejects)

definition ex_native :: work_package where
  "ex_native = (created_package 1 (''alpha'', ''task-one'') (Some ''h''))\<lparr>wp_parent_id := Some 77\<rparr>"

theorem stale_parent_condition_rejects_witness:
  "\<exists>x \<in> set (item_ops ex_sha ex_plan (ex_snapshot [ex_native]) ''trace-1'' [((''alpha'', ''task-one''), ex_native)]
       (bp_items ex_plan ! 1)).
    op_kind_of x \<in> {CreateRelation, RemoveManagedRelation} \<and>
    assert_current x (Some (ex_native\<lparr>wp_parent_id := Some 2, wp_parent_identity := Some (''alpha'', ''epic-one'')\<rparr>)) \<noteq> Inr ()"
  by (rule stale_parent_condition_rejects [where w = ex_native]) code_simp+

section \<open>Reconciliation and rendering\<close>

text \<open>
  C30: A reconciliation report is consistent: the nodes it reports as missing, drifted or to be
  superseded are exactly those its repairs create, update or reactivate, and supersede. Drift
  of the hierarchy and of relations is repaired but not reported.
\<close>

theorem findings_match_repairs:
  assumes "reconcile sha plan sn trace approved = Inr r"
  shows "reported Missing r = repaired {CreateWorkPackage} r \<and>
    reported ManagedDrift r = repaired {UpdateManagedFields, ReactivateWorkPackage} r \<and>
    reported Superseded r = repaired {MarkSuperseded} r"
  using findings_of_repairs [OF assms] by simp

definition ex_reconciled :: report where
  "ex_reconciled = projr (reconcile ex_sha ex_small_plan (ex_snapshot [ex_gone]) ''trace-1'' (Some ex_base))"

lemma ex_reconciled: "reconcile ex_sha ex_small_plan (ex_snapshot [ex_gone]) ''trace-1'' (Some ex_base) = Inr ex_reconciled"
proof -
  have "identities (ex_snapshot [ex_gone]) = Inr [((''alpha'', ''task-gone''), ex_gone)]" by code_simp
  moreover have "snapshot_current (with_approved_commit ex_small_plan ex_base) (ex_snapshot [ex_gone])" by code_simp
  moreover have "effective_commit ex_small_plan (Some ex_base) = Some ex_base" by code_simp
  ultimately show ?thesis by (simp add: ex_reconciled_def reconcile_def Let_def plan_diff_def)
qed

theorem findings_match_repairs_witness:
  "reported Missing ex_reconciled = repaired {CreateWorkPackage} ex_reconciled \<and>
    reported ManagedDrift ex_reconciled = repaired {UpdateManagedFields, ReactivateWorkPackage} ex_reconciled \<and>
    reported Superseded ex_reconciled = repaired {MarkSuperseded} ex_reconciled \<and>
    ''epic-one'' \<in> reported Missing ex_reconciled"
proof -
  have "identities (ex_snapshot [ex_gone]) = Inr [((''alpha'', ''task-gone''), ex_gone)]" by code_simp
  moreover have "snapshot_current (with_approved_commit ex_small_plan ex_base) (ex_snapshot [ex_gone])" by code_simp
  moreover have "effective_commit ex_small_plan (Some ex_base) = Some ex_base" by code_simp
  ultimately have "node_finding Missing ''managed work package is missing'' ''epic-one'' \<in> set (rp_findings ex_reconciled)"
    by (simp add: ex_reconciled_def reconcile_def Let_def plan_diff_def item_findings_def ex_small_plan_def
        ex_item_def with_approved_commit_def ex_meta_def)
  then have "''epic-one'' \<in> reported Missing ex_reconciled" by (force simp: reported_def node_finding_def)
  with findings_match_repairs [OF ex_reconciled] show ?thesis by blast
qed

text \<open>
  The Mermaid rendering is stable: it depends on the items of a plan, not on the order
  they are listed in.
\<close>

theorem mermaid_stable:
  assumes "mset (bp_items p) = mset (bp_items q)" and "distinct (item_keys p)"
  shows "render_mermaid p = render_mermaid q"
  using assms by (rule render_mermaid_stable)

theorem mermaid_stable_witness:
  "render_mermaid ex_plan = render_mermaid (ex_plan\<lparr>bp_items := rev (bp_items ex_plan)\<rparr>)"
  by (rule mermaid_stable) (simp, code_simp)

section \<open>Stored operations\<close>


end
