(* ===== verification/Dedupe.thy ===== *)
theory Dedupe
  imports Journal
begin

text \<open>
  Replay-safe deliveries: the event envelope of \<^verbatim>\<open>src/planning_platform/lifecycle/models.py\<close>
  and the two deduplicators of \<^verbatim>\<open>src/planning_platform/lifecycle/dedupe.py\<close> with the contract
  they share. Fresh UUIDs are arguments, as are the clock readings (\<^verbatim>\<open>clock_timestamp()\<close>
  of the database, \<^verbatim>\<open>now\<close> for the in-memory class). The database is the table
  \<^verbatim>\<open>delivery_deduplications\<close> with its primary key and its unique pair, and the advisory
  locks, each held by the connection registered under a claim token.
\<close>

section \<open>Event envelopes\<close>

record event_envelope =
  ev_event_id :: string
  ev_event_type :: string
  ev_source :: string
  ev_source_delivery_id :: string
  ev_occurred_at :: int
  ev_received_at :: int
  ev_trace_id :: string
  ev_idempotency_key :: string
  ev_actor_kind :: string
  ev_actor_id :: string
  ev_subject :: pydict
  ev_signature_verified :: bool
  ev_signature_algorithm :: string
  ev_payload :: pyval

definition is_key_char :: "char \<Rightarrow> bool" where
  "is_key_char c \<longleftrightarrow> is_lower_char c \<or> is_digit_char c \<or> c \<in> set '':._/-''"

text \<open>\<^verbatim>\<open>^[a-z0-9][a-z0-9:._/-]{7,255}$\<close>.\<close>

definition valid_idempotency_key :: "string \<Rightarrow> bool" where
  "valid_idempotency_key s \<longleftrightarrow> 8 \<le> length s \<and> length s \<le> 256
     \<and> (is_lower_char (hd s) \<or> is_digit_char (hd s)) \<and> list_all is_key_char s"

definition canonical_payload_sha256 :: "(string \<Rightarrow> string) \<Rightarrow> pyval \<Rightarrow> string" where
  "canonical_payload_sha256 sha payload = sha (dumps payload)"

definition delivery_idempotency_key :: "(string \<Rightarrow> string) \<Rightarrow> string \<Rightarrow> string \<Rightarrow> pyval \<Rightarrow> string" where
  "delivery_idempotency_key sha source delivery_id payload =
     ''event:'' @ source @ '':'' @ delivery_id @ '':'' @ take 16 (canonical_payload_sha256 sha payload)"

text \<open>\<^verbatim>\<open>uuid5(NAMESPACE_URL, name)\<close> is the argument \<open>uuid5\<close>.\<close>

definition envelope_for_delivery ::
  "(string \<Rightarrow> string) \<Rightarrow> (string \<Rightarrow> string) \<Rightarrow> string \<Rightarrow> string \<Rightarrow> string \<Rightarrow> int \<Rightarrow> int
    \<Rightarrow> string \<times> string \<Rightarrow> pydict \<Rightarrow> bool \<times> string \<Rightarrow> pyval \<Rightarrow> exn + event_envelope" where
  "envelope_for_delivery sha uuid5 event_type source delivery_id occurred received actor subject signature payload =
     (let key = delivery_idempotency_key sha source delivery_id payload;
          seed = source @ '':'' @ delivery_id
      in res_bind (raise_if (delivery_id = [] \<or> 255 < length delivery_id)
           (ValueError ''source_delivery_id'')) (\<lambda>_.
         res_bind (raise_if (\<not> valid_idempotency_key key) (ValueError ''idempotency_key'')) (\<lambda>_.
         Inr \<lparr>ev_event_id = uuid5 (''event:'' @ seed), ev_event_type = event_type, ev_source = source,
              ev_source_delivery_id = delivery_id, ev_occurred_at = occurred, ev_received_at = received,
              ev_trace_id = uuid5 (''trace:'' @ seed), ev_idempotency_key = key,
              ev_actor_kind = fst actor, ev_actor_id = snd actor, ev_subject = subject,
              ev_signature_verified = fst signature,
              ev_signature_algorithm = snd signature, ev_payload = payload\<rparr>)))"

section \<open>Claims\<close>

record delivery_claim =
  dc_acquired :: bool
  dc_state :: string
  dc_lease_expires_at :: "int option"
  dc_claim_token :: "string option"

text \<open>A claim that was acquired, and one that was not.\<close>

definition claim_granted :: "int \<Rightarrow> string \<Rightarrow> delivery_claim" where
  "claim_granted expires token = \<lparr>dc_acquired = True, dc_state = ''claimed'',
     dc_lease_expires_at = Some expires, dc_claim_token = Some token\<rparr>"

definition claim_refused :: "string \<Rightarrow> int option \<Rightarrow> delivery_claim" where
  "claim_refused st lease = \<lparr>dc_acquired = False, dc_state = st, dc_lease_expires_at = lease,
     dc_claim_token = None\<rparr>"

section \<open>The in-memory deduplicator\<close>

record mem_dedupe =
  md_lease :: int
  md_deliveries :: "(string, string \<times> int option \<times> string option) dict"
  md_fences :: "(string, string) dict"

definition md_set :: "event_envelope \<Rightarrow> string \<times> int option \<times> string option \<Rightarrow> mem_dedupe \<Rightarrow> mem_dedupe" where
  "md_set e v d = d\<lparr>md_deliveries := dict_set (ev_idempotency_key e) v (md_deliveries d)\<rparr>"

definition md_fence :: "event_envelope \<Rightarrow> string \<Rightarrow> mem_dedupe \<Rightarrow> mem_dedupe" where
  "md_fence e token d = d\<lparr>md_fences := dict_set (ev_idempotency_key e) token (md_fences d)\<rparr>"

definition md_release_fence :: "event_envelope \<Rightarrow> string \<Rightarrow> mem_dedupe \<Rightarrow> mem_dedupe" where
  "md_release_fence e token d =
     (if dict_get (md_fences d) (ev_idempotency_key e) = Some token
      then d\<lparr>md_fences := dict_del (ev_idempotency_key e) (md_fences d)\<rparr> else d)"

text \<open>\<^verbatim>\<open>state[0] != "claimed" or state[1] is None or state[1] > now\<close>.\<close>

definition not_claimable :: "string \<Rightarrow> int option \<Rightarrow> int \<Rightarrow> bool" where
  "not_claimable st lease now \<longleftrightarrow> st \<noteq> ''claimed'' \<or> (case lease of None \<Rightarrow> True | Some l \<Rightarrow> l > now)"

definition md_grant :: "event_envelope \<Rightarrow> string \<Rightarrow> int \<Rightarrow> (mem_dedupe, delivery_claim) action" where
  "md_grant e token now d =
     (Inr (claim_granted (now + md_lease d) token),
      md_fence e token (md_set e (''claimed'', Some (now + md_lease d), Some token) d))"

definition md_claim :: "event_envelope \<Rightarrow> string \<Rightarrow> int \<Rightarrow> (mem_dedupe, delivery_claim) action" where
  "md_claim e token now d =
     (let st = dict_get (md_deliveries d) (ev_idempotency_key e) in
      if dict_get (md_fences d) (ev_idempotency_key e) \<noteq> None then
        (Inr (case st of None \<Rightarrow> claim_refused ''claimed'' None
              | Some (s, lease, tok) \<Rightarrow> claim_refused s lease), d)
      else case st of
        Some (s, lease, tok) \<Rightarrow>
          if not_claimable s lease now then (Inr (claim_refused s lease), d) else md_grant e token now d
      | None \<Rightarrow> md_grant e token now d)"

definition md_require_claimed :: "event_envelope \<Rightarrow> string \<Rightarrow> mem_dedupe \<Rightarrow> exn + unit" where
  "md_require_claimed e token d =
     raise_if
       ((case dict_get (md_deliveries d) (ev_idempotency_key e) of
           None \<Rightarrow> True
         | Some (s, lease, tok) \<Rightarrow> s \<noteq> ''claimed'' \<or> tok \<noteq> Some token)
        \<or> dict_get (md_fences d) (ev_idempotency_key e) \<noteq> Some token)
       (ValueError ''delivery is not currently claimed'')"

definition md_renew :: "event_envelope \<Rightarrow> string \<Rightarrow> int \<Rightarrow> (mem_dedupe, delivery_claim) action" where
  "md_renew e token now d =
     (case md_require_claimed e token d of
        Inl x \<Rightarrow> (Inl x, d)
      | Inr u \<Rightarrow> (Inr (claim_granted (now + md_lease d) token),
                 md_set e (''claimed'', Some (now + md_lease d), Some token) d))"

text \<open>The end of a claim: a required reason, the claim, the new row, the fence.\<close>

definition md_end ::
  "string option \<Rightarrow> string \<times> int option \<times> string option \<Rightarrow> event_envelope \<Rightarrow> string \<Rightarrow> (mem_dedupe, unit) action" where
  "md_end reason row e token d =
     (if reason = Some [] then (Inl (ValueError ''reason is required''), d)
      else case md_require_claimed e token d of
        Inl x \<Rightarrow> (Inl x, d)
      | Inr u \<Rightarrow> (Inr (), md_release_fence e token (md_set e row d)))"

definition md_complete :: "event_envelope \<Rightarrow> string \<Rightarrow> int \<Rightarrow> (mem_dedupe, unit) action" where
  "md_complete e token now = md_end None (''completed'', None, None) e token"

definition md_retry :: "event_envelope \<Rightarrow> string \<Rightarrow> string \<Rightarrow> int \<Rightarrow> (mem_dedupe, unit) action" where
  "md_retry e token reason now = md_end (Some reason) (''claimed'', Some now, Some token) e token"

definition md_dead_letter :: "event_envelope \<Rightarrow> string \<Rightarrow> string \<Rightarrow> int \<Rightarrow> (mem_dedupe, unit) action" where
  "md_dead_letter e token reason now = md_end (Some reason) (''dead_letter'', None, None) e token"

definition md_restore_dead_letter :: "event_envelope \<Rightarrow> string \<Rightarrow> string \<Rightarrow> int \<Rightarrow> (mem_dedupe, unit) action" where
  "md_restore_dead_letter e token reason now = md_end (Some reason) (''dead_letter'', None, None) e token"

definition md_recover_dead_letter ::
  "event_envelope \<Rightarrow> string \<Rightarrow> string \<Rightarrow> string \<Rightarrow> int \<Rightarrow> (mem_dedupe, delivery_claim) action" where
  "md_recover_dead_letter e token operator reason now d =
     (if py_strip operator = [] \<or> py_strip reason = []
      then (Inl (ValueError ''dead-letter recovery requires an operator and reason''), d)
      else case dict_get (md_deliveries d) (ev_idempotency_key e) of
        None \<Rightarrow> (Inl (ValueError ''delivery is not dead-lettered''), d)
      | Some (s, lease, tok) \<Rightarrow>
          if s \<noteq> ''dead_letter'' then (Inl (ValueError ''delivery is not dead-lettered''), d)
          else if dict_get (md_fences d) (ev_idempotency_key e) \<noteq> None
          then (Inl (ValueError ''delivery side-effect fence is still active''), d)
          else md_grant e token now d)"

section \<open>The PostgreSQL deduplicator\<close>

record delivery_row =
  dr_event_id :: string
  dr_source :: string
  dr_source_delivery_id :: string
  dr_payload_sha256 :: string
  dr_state :: string
  dr_lease_expires_at :: "int option"
  dr_claim_token :: "string option"
  dr_dead_letter_reason :: "string option"

text \<open>
  \<open>pd_locks\<close> maps a locked key to the claim token its connection is registered under;
  \<open>pd_fences\<close> is the \<^verbatim>\<open>_fences\<close> dictionary of this instance.
\<close>

record pg_dedupe =
  pd_lease :: int
  pd_rows :: "(string, delivery_row) dict"
  pd_locks :: "(string, string) dict"
  pd_fences :: "(string, string) dict"

definition pd_set :: "event_envelope \<Rightarrow> delivery_row \<Rightarrow> pg_dedupe \<Rightarrow> pg_dedupe" where
  "pd_set e row d = d\<lparr>pd_rows := dict_set (ev_idempotency_key e) row (pd_rows d)\<rparr>"

definition pd_acquire_fence :: "event_envelope \<Rightarrow> string \<Rightarrow> pg_dedupe \<Rightarrow> bool \<times> pg_dedupe" where
  "pd_acquire_fence e token d =
     (if dict_get (pd_locks d) (ev_idempotency_key e) \<noteq> None then (False, d)
      else (True, d\<lparr>pd_locks := dict_set (ev_idempotency_key e) token (pd_locks d),
                    pd_fences := dict_set token (ev_idempotency_key e) (pd_fences d)\<rparr>))"

text \<open>Closing the connection gives the lock back.\<close>

definition pd_release_fence :: "event_envelope \<Rightarrow> string \<Rightarrow> pg_dedupe \<Rightarrow> pg_dedupe" where
  "pd_release_fence e token d =
     (if dict_get (pd_fences d) token = Some (ev_idempotency_key e)
      then d\<lparr>pd_fences := dict_del token (pd_fences d),
             pd_locks := (if dict_get (pd_locks d) (ev_idempotency_key e) = Some token
                          then dict_del (ev_idempotency_key e) (pd_locks d) else pd_locks d)\<rparr>
      else d)"

text \<open>\<^verbatim>\<open>UNIQUE (source, source_delivery_id)\<close> over the rows of other keys.\<close>

definition pd_unique_violation :: "event_envelope \<Rightarrow> pg_dedupe \<Rightarrow> bool" where
  "pd_unique_violation e d \<longleftrightarrow>
     list_ex (\<lambda>(k, row). k \<noteq> ev_idempotency_key e \<and> dr_source row = ev_source e
       \<and> dr_source_delivery_id row = ev_source_delivery_id e) (pd_rows d)"

text \<open>
  \<^verbatim>\<open>INSERT ... ON CONFLICT (idempotency_key) DO UPDATE ... WHERE state = 'claimed' AND
  lease_expires_at <= clock_timestamp()\<close>: the row, when inserted or updated.
\<close>

definition pd_upsert :: "string \<Rightarrow> event_envelope \<Rightarrow> string \<Rightarrow> int \<Rightarrow> pg_dedupe \<Rightarrow> exn + pg_dedupe option" where
  "pd_upsert payload_sha e token clock d =
     (case dict_get (pd_rows d) (ev_idempotency_key e) of
        None \<Rightarrow>
          if pd_unique_violation e d then Inl (DatabaseError ''unique constraint violation'')
          else Inr (Some (pd_set e
            \<lparr>dr_event_id = ev_event_id e, dr_source = ev_source e,
             dr_source_delivery_id = ev_source_delivery_id e, dr_payload_sha256 = payload_sha,
             dr_state = ''claimed'', dr_lease_expires_at = Some (clock + pd_lease d),
             dr_claim_token = Some token, dr_dead_letter_reason = None\<rparr> d))
      | Some row \<Rightarrow>
          if not_claimable (dr_state row) (dr_lease_expires_at row) clock then Inr None
          else Inr (Some (pd_set e
            (row\<lparr>dr_state := ''claimed'', dr_lease_expires_at := Some (clock + pd_lease d),
                 dr_claim_token := Some token, dr_dead_letter_reason := None\<rparr>) d)))"

definition pd_observed :: "event_envelope \<Rightarrow> pg_dedupe \<Rightarrow> delivery_claim" where
  "pd_observed e d =
     (case dict_get (pd_rows d) (ev_idempotency_key e) of
        None \<Rightarrow> claim_refused ''claimed'' None
      | Some row \<Rightarrow> claim_refused (dr_state row) (dr_lease_expires_at row))"

text \<open>\<open>sha\<close> is applied to the serialized event without \<^verbatim>\<open>received_at\<close>, which is \<open>body\<close>.\<close>

definition pd_claim ::
  "(event_envelope \<Rightarrow> string) \<Rightarrow> event_envelope \<Rightarrow> string \<Rightarrow> int \<Rightarrow> (pg_dedupe, delivery_claim) action" where
  "pd_claim payload_sha e token clock d =
     (case pd_acquire_fence e token d of
        (False, d1) \<Rightarrow> (Inr (pd_observed e d1), d1)
      | (True, d1) \<Rightarrow>
          (case pd_upsert (payload_sha e) e token clock d1 of
             Inl x \<Rightarrow> (Inl x, pd_release_fence e token d1)
           | Inr None \<Rightarrow> (Inr (pd_observed e d1), pd_release_fence e token d1)
           | Inr (Some d2) \<Rightarrow> (Inr (claim_granted (clock + pd_lease d1) token), d2)))"

text \<open>\<^verbatim>\<open>UPDATE ... WHERE idempotency_key = %s AND state = 'claimed' AND claim_token = %s\<close>.\<close>

definition pd_update_claimed ::
  "event_envelope \<Rightarrow> string \<Rightarrow> (delivery_row \<Rightarrow> delivery_row) \<Rightarrow> pg_dedupe \<Rightarrow> pg_dedupe option" where
  "pd_update_claimed e token f d =
     (case dict_get (pd_rows d) (ev_idempotency_key e) of
        None \<Rightarrow> None
      | Some row \<Rightarrow> if dr_state row = ''claimed'' \<and> dr_claim_token row = Some token
                   then Some (pd_set e (f row) d) else None)"

definition pd_renew :: "event_envelope \<Rightarrow> string \<Rightarrow> int \<Rightarrow> (pg_dedupe, delivery_claim) action" where
  "pd_renew e token clock d =
     (case pd_update_claimed e token (dr_lease_expires_at_update (\<lambda>_. Some (clock + pd_lease d))) d of
        None \<Rightarrow> (Inl (ValueError ''delivery claim ownership was lost''), d)
      | Some d' \<Rightarrow> (Inr (claim_granted (clock + pd_lease d) token), d'))"

text \<open>An update of a claimed row; the fence is released in any case.\<close>

definition pd_end :: "event_envelope \<Rightarrow> string \<Rightarrow> (delivery_row \<Rightarrow> delivery_row) \<Rightarrow> (pg_dedupe, unit) action" where
  "pd_end e token f d =
     (case pd_update_claimed e token f d of
        None \<Rightarrow> (Inl (ValueError ''delivery is not currently claimed''), pd_release_fence e token d)
      | Some d' \<Rightarrow> (Inr (), pd_release_fence e token d'))"

definition pd_finalize :: "event_envelope \<Rightarrow> string \<Rightarrow> string \<Rightarrow> string option \<Rightarrow> (pg_dedupe, unit) action" where
  "pd_finalize e token st reason = pd_end e token
     (\<lambda>row. row\<lparr>dr_state := st, dr_lease_expires_at := None, dr_claim_token := None,
               dr_dead_letter_reason := reason\<rparr>)"

definition reason_ok :: "string \<Rightarrow> bool" where
  "reason_ok reason \<longleftrightarrow> reason \<noteq> [] \<and> length reason \<le> 1024"

definition pd_complete :: "event_envelope \<Rightarrow> string \<Rightarrow> int \<Rightarrow> (pg_dedupe, unit) action" where
  "pd_complete e token clock = pd_finalize e token ''completed'' None"

definition pd_retry :: "event_envelope \<Rightarrow> string \<Rightarrow> string \<Rightarrow> int \<Rightarrow> (pg_dedupe, unit) action" where
  "pd_retry e token reason clock d =
     (if \<not> reason_ok reason then (Inl (ValueError ''retry reason must be between 1 and 1024 characters''), d)
      else pd_end e token (\<lambda>row. row\<lparr>dr_lease_expires_at := Some clock, dr_dead_letter_reason := Some reason\<rparr>) d)"

definition pd_dead_letter :: "event_envelope \<Rightarrow> string \<Rightarrow> string \<Rightarrow> int \<Rightarrow> (pg_dedupe, unit) action" where
  "pd_dead_letter e token reason clock d =
     (if \<not> reason_ok reason then (Inl (ValueError ''dead-letter reason must be between 1 and 1024 characters''), d)
      else pd_finalize e token ''dead_letter'' (Some reason) d)"

definition pd_restore_dead_letter :: "event_envelope \<Rightarrow> string \<Rightarrow> string \<Rightarrow> int \<Rightarrow> (pg_dedupe, unit) action" where
  "pd_restore_dead_letter e token reason clock d =
     (if \<not> reason_ok reason
      then (Inl (ValueError ''dead-letter recovery failure reason must be between 1 and 1024 characters''), d)
      else pd_finalize e token ''dead_letter'' (Some reason) d)"

definition pd_recover_dead_letter ::
  "event_envelope \<Rightarrow> string \<Rightarrow> string \<Rightarrow> string \<Rightarrow> int \<Rightarrow> (pg_dedupe, delivery_claim) action" where
  "pd_recover_dead_letter e token operator reason clock d =
     (if py_strip operator = [] \<or> 255 < length operator
      then (Inl (ValueError ''dead-letter recovery operator is required''), d)
      else if py_strip reason = [] \<or> 1024 < length reason
      then (Inl (ValueError ''dead-letter recovery reason is required''), d)
      else case pd_acquire_fence e token d of
        (False, d1) \<Rightarrow> (Inl (ValueError ''delivery side-effect fence is still active''), d1)
      | (True, d1) \<Rightarrow>
          (case dict_get (pd_rows d1) (ev_idempotency_key e) of
             None \<Rightarrow> (Inl (ValueError ''delivery is not dead-lettered''), pd_release_fence e token d1)
           | Some row \<Rightarrow>
               if dr_state row = ''dead_letter'' \<and> dr_event_id row = ev_event_id e
               then (Inr (claim_granted (clock + pd_lease d1) token),
                     pd_set e (row\<lparr>dr_state := ''claimed'', dr_lease_expires_at := Some (clock + pd_lease d1),
                       dr_claim_token := Some token,
                       dr_dead_letter_reason := Some (take 1024 (''recovered by '' @ operator @ '': '' @ reason))\<rparr>) d1)
               else (Inl (ValueError ''delivery is not dead-lettered''), pd_release_fence e token d1)))"

text \<open>\<^verbatim>\<open>close\<close>: every connection this instance holds is closed.\<close>

definition pd_close :: "pg_dedupe \<Rightarrow> pg_dedupe" where
  "pd_close d = d\<lparr>pd_locks := filter (\<lambda>(k, token). dict_get (pd_fences d) token \<noteq> Some k) (pd_locks d),
                  pd_fences := []\<rparr>"

section \<open>The DeliveryDeduplicator protocol\<close>

record 's dedupe_ops =
  do_claim :: "event_envelope \<Rightarrow> string \<Rightarrow> int \<Rightarrow> ('s, delivery_claim) action"
  do_renew :: "event_envelope \<Rightarrow> string \<Rightarrow> int \<Rightarrow> ('s, delivery_claim) action"
  do_complete :: "event_envelope \<Rightarrow> string \<Rightarrow> int \<Rightarrow> ('s, unit) action"
  do_retry :: "event_envelope \<Rightarrow> string \<Rightarrow> string \<Rightarrow> int \<Rightarrow> ('s, unit) action"
  do_dead_letter :: "event_envelope \<Rightarrow> string \<Rightarrow> string \<Rightarrow> int \<Rightarrow> ('s, unit) action"
  do_restore :: "event_envelope \<Rightarrow> string \<Rightarrow> string \<Rightarrow> int \<Rightarrow> ('s, unit) action"
  do_recover :: "event_envelope \<Rightarrow> string \<Rightarrow> string \<Rightarrow> string \<Rightarrow> int \<Rightarrow> ('s, delivery_claim) action"
  do_release :: "event_envelope \<Rightarrow> string \<Rightarrow> 's \<Rightarrow> 's"

definition mem_dedupe_ops :: "mem_dedupe dedupe_ops" where
  "mem_dedupe_ops = \<lparr>do_claim = md_claim, do_renew = md_renew, do_complete = md_complete,
     do_retry = md_retry, do_dead_letter = md_dead_letter, do_restore = md_restore_dead_letter,
     do_recover = md_recover_dead_letter, do_release = md_release_fence\<rparr>"

definition pg_dedupe_ops :: "(event_envelope \<Rightarrow> string) \<Rightarrow> pg_dedupe dedupe_ops" where
  "pg_dedupe_ops payload_sha = \<lparr>do_claim = pd_claim payload_sha, do_renew = pd_renew,
     do_complete = pd_complete, do_retry = pd_retry, do_dead_letter = pd_dead_letter,
     do_restore = pd_restore_dead_letter, do_recover = pd_recover_dead_letter,
     do_release = pd_release_fence\<rparr>"

text \<open>The calls of the protocol as data; a call has an event and a claim token.\<close>

datatype delivery_call =
    Claim int
  | Renew int
  | Complete int
  | Retry string int
  | DeadLetter string int
  | Restore string int
  | Recover string string int
  | Release

text \<open>A call succeeds when it does not raise and, for a claim, when it is acquired.\<close>

definition claimed_ok :: "exn + delivery_claim \<Rightarrow> bool" where
  "claimed_ok r = (case r of Inl _ \<Rightarrow> False | Inr c \<Rightarrow> dc_acquired c)"

definition unit_ok :: "exn + unit \<Rightarrow> bool" where
  "unit_ok r = (case r of Inl _ \<Rightarrow> False | Inr _ \<Rightarrow> True)"

fun run_call :: "'s dedupe_ops \<Rightarrow> event_envelope \<Rightarrow> string \<Rightarrow> delivery_call \<Rightarrow> 's \<Rightarrow> bool \<times> 's" where
  "run_call D e t (Claim now) s = (case do_claim D e t now s of (r, s') \<Rightarrow> (claimed_ok r, s'))"
| "run_call D e t (Renew now) s = (case do_renew D e t now s of (r, s') \<Rightarrow> (claimed_ok r, s'))"
| "run_call D e t (Complete now) s = (case do_complete D e t now s of (r, s') \<Rightarrow> (unit_ok r, s'))"
| "run_call D e t (Retry reason now) s = (case do_retry D e t reason now s of (r, s') \<Rightarrow> (unit_ok r, s'))"
| "run_call D e t (DeadLetter reason now) s = (case do_dead_letter D e t reason now s of (r, s') \<Rightarrow> (unit_ok r, s'))"
| "run_call D e t (Restore reason now) s = (case do_restore D e t reason now s of (r, s') \<Rightarrow> (unit_ok r, s'))"
| "run_call D e t (Recover operator reason now) s =
     (case do_recover D e t operator reason now s of (r, s') \<Rightarrow> (claimed_ok r, s'))"
| "run_call D e t Release s = (True, do_release D e t s)"

fun is_complete :: "delivery_call \<Rightarrow> bool" where
  "is_complete (Complete _) = True"
| "is_complete _ = False"

fun takes_claim :: "delivery_call \<Rightarrow> bool" where
  "takes_claim (Claim _) = True"
| "takes_claim (Recover _ _ _) = True"
| "takes_claim _ = False"

text \<open>A history of calls, and what succeeded of it.\<close>

type_synonym history = "(event_envelope \<times> string \<times> delivery_call) list"

fun run_history :: "'s dedupe_ops \<Rightarrow> history \<Rightarrow> 's \<Rightarrow> (string \<times> string \<times> delivery_call) list \<times> 's" where
  "run_history D [] s = ([], s)"
| "run_history D ((e, t, c) # h) s =
     (case run_call D e t c s of (success, s1) \<Rightarrow>
        (case run_history D h s1 of (made, s') \<Rightarrow>
           (if success then (ev_idempotency_key e, t, c) # made else made, s')))"

text \<open>The completions of a key that succeeded.\<close>

definition completions :: "string \<Rightarrow> (string \<times> string \<times> delivery_call) list \<Rightarrow> nat" where
  "completions key made = length (filter (\<lambda>(k, t, c). k = key \<and> is_complete c) made)"

text \<open>
  The contract: \<open>delivery\<close> is the recorded state with its token, \<open>fence\<close> the token that fences
  a key. A call touches its own key only; a completed delivery stays so; a claim is granted
  only for an unfenced, unfinished key and takes the fence; a fence goes only by its own
  token; a completion needs the token on record, and nothing else completes a delivery;
  while a token both fences a key and is on record for it, other tokens do not change the record;
  a renewal moves the lease only.
\<close>

locale delivery_deduplicator =
  fixes D :: "'s dedupe_ops"
    and delivery :: "'s \<Rightarrow> string \<Rightarrow> (string \<times> string option) option"
    and fence :: "'s \<Rightarrow> string \<Rightarrow> string option"
  assumes frame_law: "run_call D e t c s = (success, s') \<Longrightarrow> k \<noteq> ev_idempotency_key e \<Longrightarrow>
      delivery s' k = delivery s k \<and> fence s' k = fence s k"
    and completed_law: "run_call D e t c s = (success, s') \<Longrightarrow>
      map_option fst (delivery s k) = Some ''completed'' \<Longrightarrow> delivery s' k = delivery s k"
    and fence_law: "run_call D e t c s = (success, s') \<Longrightarrow> fence s k = Some t' \<Longrightarrow> t' \<noteq> t \<Longrightarrow>
      fence s' k = Some t'"
    and claim_law: "run_call D e t c s = (True, s') \<Longrightarrow> takes_claim c \<Longrightarrow>
      fence s (ev_idempotency_key e) = None \<and> fence s' (ev_idempotency_key e) = Some t \<and>
      map_option fst (delivery s (ev_idempotency_key e)) \<noteq> Some ''completed'' \<and>
      delivery s' (ev_idempotency_key e) = Some (''claimed'', Some t)"
    and complete_law: "run_call D e t c s = (True, s') \<Longrightarrow> is_complete c \<Longrightarrow>
      delivery s (ev_idempotency_key e) = Some (''claimed'', Some t) \<and>
      delivery s' (ev_idempotency_key e) = Some (''completed'', None)"
    and completing_law: "run_call D e t c s = (success, s') \<Longrightarrow> \<not> (success \<and> is_complete c) \<Longrightarrow>
      map_option fst (delivery s' k) = Some ''completed'' \<Longrightarrow> delivery s' k = delivery s k"
    and owner_law: "run_call D e t c s = (success, s') \<Longrightarrow> fence s k = Some t' \<Longrightarrow> t' \<noteq> t \<Longrightarrow>
      delivery s k = Some (st, Some t') \<Longrightarrow> delivery s' k = delivery s k"
    and renew_law: "run_call D e t (Renew now) s = (success, s') \<Longrightarrow>
      delivery s' k = delivery s k \<and> fence s' k = fence s k"
begin

lemma history_completed:
  "run_history D h s = (made, s') \<Longrightarrow> map_option fst (delivery s k) = Some ''completed'' \<Longrightarrow>
     completions k made = 0 \<and> delivery s' k = delivery s k"
proof (induction h arbitrary: s made s')
  case Nil
  then show ?case by (simp add: completions_def)
next
  case (Cons call h)
  obtain e t c where call: "call = (e, t, c)" by (cases call)
  obtain success s1 where run: "run_call D e t c s = (success, s1)" by (cases "run_call D e t c s")
  obtain made1 s2 where rest: "run_history D h s1 = (made1, s2)" by (cases "run_history D h s1")
  from completed_law [OF run Cons.prems(2)] have same: "delivery s1 k = delivery s k" .
  with Cons.prems(2) have "map_option fst (delivery s1 k) = Some ''completed''" by simp
  note IH = Cons.IH [OF rest this]
  have "\<not> (success \<and> ev_idempotency_key e = k \<and> is_complete c)"
    using complete_law [of e t c s s1] run Cons.prems(2) by auto
  then show ?case
    using Cons.prems(1) IH same by (auto simp: call run rest completions_def split: if_splits)
qed

lemma history_completions:
  "run_history D h s = (made, s') \<Longrightarrow> completions k made \<le> 1"
proof (induction h arbitrary: s made s')
  case Nil
  then show ?case by (simp add: completions_def)
next
  case (Cons call h)
  obtain e t c where call: "call = (e, t, c)" by (cases call)
  obtain success s1 where run: "run_call D e t c s = (success, s1)" by (cases "run_call D e t c s")
  obtain made1 s2 where rest: "run_history D h s1 = (made1, s2)" by (cases "run_history D h s1")
  show ?case
  proof (cases "success \<and> ev_idempotency_key e = k \<and> is_complete c")
    case True
    with complete_law [of e t c s s1] run have "map_option fst (delivery s1 k) = Some ''completed''" by auto
    from history_completed [OF rest this] have "completions k made1 = 0" by simp
    with Cons.prems True show ?thesis by (auto simp: call run rest completions_def)
  next
    case False
    with Cons.prems Cons.IH [OF rest] show ?thesis
      by (auto simp: call run rest completions_def split: if_splits)
  qed
qed

text \<open>While a token fences a key, calls with other tokens neither take the key nor free it.\<close>

lemma history_fenced:
  "run_history D h s = (made, s') \<Longrightarrow> fence s k = Some t \<Longrightarrow> \<forall>(e, t', c) \<in> set h. t' \<noteq> t \<Longrightarrow>
     fence s' k = Some t \<and> (\<forall>(k', t', c) \<in> set made. takes_claim c \<longrightarrow> k' \<noteq> k)"
proof (induction h arbitrary: s made s')
  case Nil
  then show ?case by simp
next
  case (Cons call h)
  obtain e t' c where call: "call = (e, t', c)" by (cases call)
  obtain success s1 where run: "run_call D e t' c s = (success, s1)" by (cases "run_call D e t' c s")
  obtain made1 s2 where rest: "run_history D h s1 = (made1, s2)" by (cases "run_history D h s1")
  from Cons.prems(3) call have "t' \<noteq> t" by simp
  then have fenced: "fence s1 k = Some t" using fence_law [OF run Cons.prems(2)] by simp
  have "\<not> (success \<and> takes_claim c \<and> ev_idempotency_key e = k)"
    using claim_law [of e t' c s s1] run Cons.prems(2) by auto
  moreover have "fence s2 k = Some t \<and> (\<forall>(k', t', c) \<in> set made1. takes_claim c \<longrightarrow> k' \<noteq> k)"
    using Cons.IH [OF rest fenced] Cons.prems(3) by simp
  ultimately show ?case
    using Cons.prems(1) by (auto simp: call run rest split: if_splits)
qed

lemma history_owned:
  "run_history D h s = (made, s') \<Longrightarrow> fence s k = Some t \<Longrightarrow> delivery s k = Some (st, Some t) \<Longrightarrow>
     \<forall>(e, t', c) \<in> set h. t' \<noteq> t \<Longrightarrow> fence s' k = Some t \<and> delivery s' k = Some (st, Some t)"
proof (induction h arbitrary: s made s')
  case Nil
  then show ?case by simp
next
  case (Cons call h)
  obtain e t' c where call: "call = (e, t', c)" by (cases call)
  obtain success s1 where run: "run_call D e t' c s = (success, s1)" by (cases "run_call D e t' c s")
  obtain made1 s2 where rest: "run_history D h s1 = (made1, s2)" by (cases "run_history D h s1")
  from Cons.prems(4) call have other: "t \<noteq> t'" by auto
  have "fence s1 k = Some t" and "delivery s1 k = Some (st, Some t)"
    using fence_law [OF run Cons.prems(2) other] owner_law [OF run Cons.prems(2) other Cons.prems(3)] Cons.prems(3)
    by simp_all
  from Cons.IH [OF rest this] Cons.prems(1,4) show ?case by (auto simp: call run rest split: if_splits)
qed

end

section \<open>Both deduplicators keep the contract\<close>

definition md_delivery :: "mem_dedupe \<Rightarrow> string \<Rightarrow> (string \<times> string option) option" where
  "md_delivery d k = map_option (\<lambda>(st, lease, tok). (st, tok)) (dict_get (md_deliveries d) k)"

definition md_fence_of :: "mem_dedupe \<Rightarrow> string \<Rightarrow> string option" where
  "md_fence_of d k = dict_get (md_fences d) k"

definition pd_delivery :: "pg_dedupe \<Rightarrow> string \<Rightarrow> (string \<times> string option) option" where
  "pd_delivery d k = map_option (\<lambda>row. (dr_state row, dr_claim_token row)) (dict_get (pd_rows d) k)"

definition pd_fence_of :: "pg_dedupe \<Rightarrow> string \<Rightarrow> string option" where
  "pd_fence_of d k = dict_get (pd_locks d) k"

lemmas md_defs = mem_dedupe_ops_def md_claim_def md_grant_def md_renew_def md_end_def md_complete_def
  md_retry_def md_dead_letter_def md_restore_dead_letter_def md_recover_dead_letter_def
  md_release_fence_def md_require_claimed_def md_set_def md_fence_def md_delivery_def md_fence_of_def
  claimed_ok_def unit_ok_def claim_granted_def claim_refused_def not_claimable_def raise_if_def Let_def

lemmas pd_defs = pg_dedupe_ops_def pd_claim_def pd_acquire_fence_def pd_upsert_def pd_renew_def pd_end_def
  pd_finalize_def pd_complete_def pd_retry_def pd_dead_letter_def pd_restore_dead_letter_def
  pd_recover_dead_letter_def pd_release_fence_def pd_update_claimed_def pd_set_def pd_observed_def
  pd_delivery_def pd_fence_of_def claimed_ok_def unit_ok_def claim_granted_def claim_refused_def
  not_claimable_def Let_def

lemma md_frame:
  "run_call mem_dedupe_ops e t c s = (success, s') \<Longrightarrow> k \<noteq> ev_idempotency_key e \<Longrightarrow>
    md_delivery s' k = md_delivery s k \<and> md_fence_of s' k = md_fence_of s k"
  by (cases c) (auto simp: md_defs dict_simps split: option.splits if_splits)

lemma pd_frame:
  "run_call (pg_dedupe_ops sha) e t c s = (success, s') \<Longrightarrow> k \<noteq> ev_idempotency_key e \<Longrightarrow>
    pd_delivery s' k = pd_delivery s k \<and> pd_fence_of s' k = pd_fence_of s k"
  by (cases c) (auto simp: pd_defs dict_simps split: option.splits if_splits sum.splits)

lemma md_completed:
  "run_call mem_dedupe_ops e t c s = (success, s') \<Longrightarrow>
    map_option fst (md_delivery s k) = Some ''completed'' \<Longrightarrow> md_delivery s' k = md_delivery s k"
  by (cases c; cases "k = ev_idempotency_key e")
     (auto simp: md_defs dict_simps split: option.splits if_splits prod.splits)

lemma pd_completed:
  "run_call (pg_dedupe_ops sha) e t c s = (success, s') \<Longrightarrow>
    map_option fst (pd_delivery s k) = Some ''completed'' \<Longrightarrow> pd_delivery s' k = pd_delivery s k"
  by (cases c; cases "k = ev_idempotency_key e")
     (auto simp: pd_defs dict_simps split: option.splits if_splits sum.splits)

lemma md_fence_kept:
  "run_call mem_dedupe_ops e t c s = (success, s') \<Longrightarrow> md_fence_of s k = Some t' \<Longrightarrow> t' \<noteq> t \<Longrightarrow>
    md_fence_of s' k = Some t'"
  by (cases c; cases "k = ev_idempotency_key e")
     (auto simp: md_defs dict_simps split: option.splits if_splits prod.splits)

lemma pd_fence_kept:
  "run_call (pg_dedupe_ops sha) e t c s = (success, s') \<Longrightarrow> pd_fence_of s k = Some t' \<Longrightarrow> t' \<noteq> t \<Longrightarrow>
    pd_fence_of s' k = Some t'"
  by (cases c; cases "k = ev_idempotency_key e")
     (auto simp: pd_defs dict_simps split: option.splits if_splits sum.splits)

lemma md_granted:
  "run_call mem_dedupe_ops e t c s = (True, s') \<Longrightarrow> takes_claim c \<Longrightarrow>
    md_fence_of s (ev_idempotency_key e) = None \<and> md_fence_of s' (ev_idempotency_key e) = Some t \<and>
    map_option fst (md_delivery s (ev_idempotency_key e)) \<noteq> Some ''completed'' \<and>
    md_delivery s' (ev_idempotency_key e) = Some (''claimed'', Some t)"
  by (cases c) (auto simp: md_defs dict_simps split: option.splits if_splits prod.splits)

lemma pd_granted:
  "run_call (pg_dedupe_ops sha) e t c s = (True, s') \<Longrightarrow> takes_claim c \<Longrightarrow>
    pd_fence_of s (ev_idempotency_key e) = None \<and> pd_fence_of s' (ev_idempotency_key e) = Some t \<and>
    map_option fst (pd_delivery s (ev_idempotency_key e)) \<noteq> Some ''completed'' \<and>
    pd_delivery s' (ev_idempotency_key e) = Some (''claimed'', Some t)"
  by (cases c) (auto simp: pd_defs dict_simps split: option.splits if_splits sum.splits)

lemma md_completes:
  "run_call mem_dedupe_ops e t c s = (True, s') \<Longrightarrow> is_complete c \<Longrightarrow>
    md_delivery s (ev_idempotency_key e) = Some (''claimed'', Some t) \<and>
    md_delivery s' (ev_idempotency_key e) = Some (''completed'', None)"
  by (cases c) (auto simp: md_defs dict_simps split: option.splits if_splits prod.splits)

lemma pd_completes:
  "run_call (pg_dedupe_ops sha) e t c s = (True, s') \<Longrightarrow> is_complete c \<Longrightarrow>
    pd_delivery s (ev_idempotency_key e) = Some (''claimed'', Some t) \<and>
    pd_delivery s' (ev_idempotency_key e) = Some (''completed'', None)"
  by (cases c) (auto simp: pd_defs dict_simps split: option.splits if_splits sum.splits)

lemma md_completing:
  "run_call mem_dedupe_ops e t c s = (success, s') \<Longrightarrow> \<not> (success \<and> is_complete c) \<Longrightarrow>
    map_option fst (md_delivery s' k) = Some ''completed'' \<Longrightarrow> md_delivery s' k = md_delivery s k"
  by (cases c; cases "k = ev_idempotency_key e")
     (auto simp: md_defs dict_simps split: option.splits if_splits prod.splits)

lemma pd_completing:
  "run_call (pg_dedupe_ops sha) e t c s = (success, s') \<Longrightarrow> \<not> (success \<and> is_complete c) \<Longrightarrow>
    map_option fst (pd_delivery s' k) = Some ''completed'' \<Longrightarrow> pd_delivery s' k = pd_delivery s k"
  by (cases c; cases "k = ev_idempotency_key e")
     (auto simp: pd_defs dict_simps split: option.splits if_splits sum.splits)

lemma md_owner:
  "run_call mem_dedupe_ops e t c s = (success, s') \<Longrightarrow> md_fence_of s k = Some t' \<Longrightarrow> t' \<noteq> t \<Longrightarrow>
    md_delivery s k = Some (st, Some t') \<Longrightarrow> md_delivery s' k = md_delivery s k"
  by (cases c; cases "k = ev_idempotency_key e")
     (auto simp: md_defs dict_simps split: option.splits if_splits prod.splits)

lemma pd_owner:
  "run_call (pg_dedupe_ops sha) e t c s = (success, s') \<Longrightarrow> pd_fence_of s k = Some t' \<Longrightarrow> t' \<noteq> t \<Longrightarrow>
    pd_delivery s k = Some (st, Some t') \<Longrightarrow> pd_delivery s' k = pd_delivery s k"
  by (cases c; cases "k = ev_idempotency_key e")
     (auto simp: pd_defs dict_simps split: option.splits if_splits sum.splits)

lemma md_renewal:
  "run_call mem_dedupe_ops e t (Renew now) s = (success, s') \<Longrightarrow>
    md_delivery s' k = md_delivery s k \<and> md_fence_of s' k = md_fence_of s k"
  by (cases "k = ev_idempotency_key e")
     (auto simp: md_defs dict_simps split: option.splits if_splits prod.splits)

lemma pd_renewal:
  "run_call (pg_dedupe_ops sha) e t (Renew now) s = (success, s') \<Longrightarrow>
    pd_delivery s' k = pd_delivery s k \<and> pd_fence_of s' k = pd_fence_of s k"
  by (cases "k = ev_idempotency_key e")
     (auto simp: pd_defs dict_simps split: option.splits if_splits sum.splits)

interpretation mem_dedup: delivery_deduplicator mem_dedupe_ops md_delivery md_fence_of
  by unfold_locales (fact md_frame md_completed md_fence_kept md_granted md_completes md_completing md_owner md_renewal)+

interpretation pg_dedup: delivery_deduplicator "pg_dedupe_ops payload_sha" pd_delivery pd_fence_of
  by unfold_locales (fact pd_frame pd_completed pd_fence_kept pd_granted pd_completes pd_completing pd_owner pd_renewal)+

end
