(* ===== verification/Worker.thy ===== *)
theory Worker
  imports Complex_Main Dedupe Publisher
begin

text \<open>
  \<^verbatim>\<open>src/planning_platform/lifecycle/worker.py\<close>, the execution of one delivery under a
  claim, with the cancellation bridges of \<^verbatim>\<open>lifecycle/concurrency.py\<close>, and the gate of
  \<^verbatim>\<open>lifecycle/runners.py\<close>. What asyncio decides is data: the heartbeats that fall due
  before the effect ends, how the effect ends (a cancellation is an exception), the heartbeats
  that still run while the claim is being settled, and the calls other workers make in between.
\<close>

section \<open>Executing a claimed delivery\<close>

text \<open>\<^verbatim>\<open>type(error).__name__\<close>.\<close>

fun exn_name :: "exn \<Rightarrow> string" where
  "exn_name (ValueError _) = ''ValueError''"
| "exn_name (KeyError _) = ''KeyError''"
| "exn_name (TypeError _) = ''TypeError''"
| "exn_name (RuntimeError _) = ''RuntimeError''"
| "exn_name AssertionError = ''AssertionError''"
| "exn_name (PublicationRejected _) = ''PublicationRejected''"
| "exn_name (SemanticValidationError _) = ''SemanticValidationError''"
| "exn_name (PublicationJournalMismatch _) = ''PublicationJournalMismatch''"
| "exn_name (AmbiguousPublicationEffect _) = ''AmbiguousPublicationEffect''"
| "exn_name (DatabaseError _) = ''DatabaseError''"
| "exn_name (OpenProjectPublicationError _) = ''OpenProjectPublicationError''"
| "exn_name (OpenProjectConflict _) = ''OpenProjectConflict''"
| "exn_name (IdempotencyConflict _) = ''IdempotencyConflict''"
| "exn_name (IdempotencyInProgress _) = ''IdempotencyInProgress''"
| "exn_name (LifecycleStoreMismatch _) = ''LifecycleStoreMismatch''"
| "exn_name (LifecycleEventRejected _) = ''LifecycleEventRejected''"
| "exn_name (LifecycleGateRejected _) = ''LifecycleGateRejected''"
| "exn_name (AttributeError _) = ''AttributeError''"
| "exn_name (GitHubAdapterError _) = ''GitHubAdapterError''"
| "exn_name (PlannerClientError _) = ''PlannerClientError''"
| "exn_name (PlannerThreadNotFound _) = ''PlannerThreadNotFound''"
| "exn_name (RecoveryPayloadRejected _) = ''RecoveryPayloadRejected''"
| "exn_name (AlertDeliveryRejected _) = ''AlertDeliveryRejected''"
| "exn_name (HttpTransportError _) = ''TransportError''"
| "exn_name CancelledError = ''CancelledError''"

text \<open>\<^verbatim>\<open>max(1.0, min(60.0, initial_seconds / 3))\<close>.\<close>

definition heartbeat_seconds :: "rat \<Rightarrow> rat" where
  "heartbeat_seconds initial = max 1 (min 60 (initial / 3))"

datatype failure_mode = FailRetry | FailDeadLetter

record 'r run_plan =
  rp_beats :: "(history \<times> int) list"
  rp_others :: history
  rp_outcome :: "exn + 'r"
  rp_late :: "int list"
  rp_now :: int

text \<open>The calls of other workers, and the heartbeat loop: it ends with its first exception.\<close>

definition interfere :: "'s dedupe_ops \<Rightarrow> history \<Rightarrow> 's \<Rightarrow> 's" where
  "interfere D h s = snd (run_history D h s)"

fun heartbeat :: "'s dedupe_ops \<Rightarrow> event_envelope \<Rightarrow> string \<Rightarrow> (history \<times> int) list \<Rightarrow> 's \<Rightarrow> exn option \<times> 's" where
  "heartbeat D e token [] s = (None, s)"
| "heartbeat D e token ((h, now) # beats) s =
     (case do_renew D e token now (interfere D h s) of
        (Inl x, s') \<Rightarrow> (Some x, s')
      | (Inr c, s') \<Rightarrow> heartbeat D e token beats s')"

definition fail_delivery ::
  "'s dedupe_ops \<Rightarrow> failure_mode \<Rightarrow> event_envelope \<Rightarrow> string \<Rightarrow> exn \<Rightarrow> int \<Rightarrow> ('s, unit) action" where
  "fail_delivery D mode e token error now =
     (case mode of
        FailDeadLetter \<Rightarrow> do_restore D e token (''recovery failed: '' @ exn_name error) now
      | FailRetry \<Rightarrow> do_retry D e token (exn_name error) now)"

text \<open>
  The inner \<^verbatim>\<open>try\<close>: the effect, its failure or its completion. A \<^verbatim>\<open>ValueError\<close> of
  the failure call is suppressed.
\<close>

definition settle_delivery ::
  "'s dedupe_ops \<Rightarrow> failure_mode \<Rightarrow> event_envelope \<Rightarrow> string \<Rightarrow> int \<Rightarrow> exn + 'r \<Rightarrow> ('s, 'r) action" where
  "settle_delivery D mode e token now outcome s =
     (case outcome of
        Inl error \<Rightarrow>
          (case fail_delivery D mode e token error now s of
             (Inl x, s') \<Rightarrow> (Inl (if is_value_error x then error else x), s')
           | (Inr u, s') \<Rightarrow> (Inl error, s'))
      | Inr v \<Rightarrow>
          (case do_complete D e token now s of
             (Inl x, s') \<Rightarrow> (Inl x, s')
           | (Inr u, s') \<Rightarrow> (Inr v, s')))"

definition execute_claimed_delivery ::
  "'s dedupe_ops \<Rightarrow> event_envelope \<Rightarrow> delivery_claim \<Rightarrow> failure_mode \<Rightarrow> 'r run_plan \<Rightarrow> ('s, 'r) action" where
  "execute_claimed_delivery D e claim mode plan s =
     (case (dc_acquired claim, dc_claim_token claim, dc_lease_expires_at claim) of
        (True, Some token, Some lease) \<Rightarrow>
          (case heartbeat D e token (rp_beats plan) s of
             (Some x, s1) \<Rightarrow>
               (case settle_delivery D mode e token (rp_now plan) (Inl x) s1 of
                  (r, s2) \<Rightarrow> (r, do_release D e token s2))
           | (None, s1) \<Rightarrow>
               (case settle_delivery D mode e token (rp_now plan) (rp_outcome plan)
                       (interfere D (rp_others plan) s1) of
                  (r, s2) \<Rightarrow> (r, do_release D e token
                    (snd (heartbeat D e token (map (Pair []) (rp_late plan)) s2)))))
      | _ \<Rightarrow> (Inl (ValueError ''delivery effect requires an acquired claim token''), s))"

section \<open>Executing a delivery\<close>

datatype 'r delivery_result = Deduplicated string | Effect 'r

text \<open>The cleanup of a claim whose caller was cancelled while it ran.\<close>

definition cancel_claim :: "'s dedupe_ops \<Rightarrow> event_envelope \<Rightarrow> delivery_claim \<Rightarrow> int \<Rightarrow> 's \<Rightarrow> 's" where
  "cancel_claim D e acquired now s =
     (case (dc_acquired acquired, dc_claim_token acquired) of
        (True, Some token) \<Rightarrow>
          do_release D e token (snd (do_retry D e token ''claim acquisition cancelled'' now s))
      | _ \<Rightarrow> s)"

text \<open>
  \<^verbatim>\<open>acquire_sync_owned\<close>: an exception of the claim is raised as it is; a cancelled caller
  raises \<^verbatim>\<open>CancelledError\<close> after the cleanup, whatever the cleanup raises.
\<close>

definition acquire_owned ::
  "'s dedupe_ops \<Rightarrow> event_envelope \<Rightarrow> string \<Rightarrow> int \<Rightarrow> bool \<Rightarrow> ('s, delivery_claim) action" where
  "acquire_owned D e token now cancelled s =
     (case do_claim D e token now s of
        (Inl x, s') \<Rightarrow> (Inl x, s')
      | (Inr claim, s') \<Rightarrow>
          if cancelled then (Inl CancelledError, cancel_claim D e claim now s') else (Inr claim, s'))"

definition execute_delivery ::
  "'s dedupe_ops \<Rightarrow> event_envelope \<Rightarrow> string \<Rightarrow> int \<Rightarrow> bool \<Rightarrow> 'r run_plan \<Rightarrow> ('s, 'r delivery_result) action" where
  "execute_delivery D e token now cancelled plan s =
     (if \<not> ev_signature_verified e
      then (Inl (ValueError ''Windmill lifecycle jobs require a verified event envelope''), s)
      else case acquire_owned D e token now cancelled s of
        (Inl x, s') \<Rightarrow> (Inl x, s')
      | (Inr claim, s') \<Rightarrow>
          if \<not> dc_acquired claim then (Inr (Deduplicated (dc_state claim)), s')
          else (case execute_claimed_delivery D e claim FailRetry plan s' of
            (Inl x, s2) \<Rightarrow> (Inl x, s2) | (Inr v, s2) \<Rightarrow> (Inr (Effect v), s2)))"

section \<open>The publication gate\<close>

record publication_command =
  pc_artifact :: loaded_artifact
  pc_envelope :: publication_envelope
  pc_approved_by_merge :: bool
  pc_merge_commit :: string
  pc_replan_context :: "replan_context option"

definition new_publication_command ::
  "loaded_artifact \<Rightarrow> publication_envelope \<Rightarrow> bool \<Rightarrow> string \<Rightarrow> replan_context option \<Rightarrow> exn + publication_command" where
  "new_publication_command artifact envelope approved commit_sha context =
     res_bind (raise_if (\<not> approved)
       (LifecycleGateRejected ''OpenProject publication requires a merged planning PR'')) (\<lambda>_.
     res_bind (raise_if (commit_sha \<noteq> pe_approved_commit envelope)
       (LifecycleGateRejected ''merge commit and immutable publication commit differ'')) (\<lambda>_.
     Inr \<lparr>pc_artifact = artifact, pc_envelope = envelope, pc_approved_by_merge = approved,
          pc_merge_commit = commit_sha, pc_replan_context = context\<rparr>))"

definition run_publication ::
  "(string \<Rightarrow> string) \<Rightarrow> (backlog_plan \<Rightarrow> string option) \<Rightarrow> 'j journal_ops \<Rightarrow> 'a adapter_ops \<Rightarrow> publication_command
    \<Rightarrow> ('j \<times> 'a, publish_result) action" where
  "run_publication sha schema_error J A command =
     publish sha schema_error (Some J) A (pc_artifact command) (pc_envelope command) True (pc_replan_context command)"

section \<open>What a run leaves behind\<close>

context delivery_deduplicator
begin

definition owns :: "event_envelope \<Rightarrow> string \<Rightarrow> 's \<Rightarrow> bool" where
  "owns e t s \<longleftrightarrow> fence s (ev_idempotency_key e) = Some t \<and>
     delivery s (ev_idempotency_key e) = Some (''claimed'', Some t)"

definition is_done :: "event_envelope \<Rightarrow> 's \<Rightarrow> bool" where
  "is_done e s \<longleftrightarrow> map_option fst (delivery s (ev_idempotency_key e)) = Some ''completed''"

lemma owns_not_done: "owns e t s \<Longrightarrow> \<not> is_done e s"
  by (simp add: owns_def is_done_def)

lemma interfere_owned:
  assumes "owns e t s" and "\<forall>(e', t', c) \<in> set h. t' \<noteq> t"
  shows "owns e t (interfere D h s)"
proof -
  obtain made s' where "run_history D h s = (made, s')" by (cases "run_history D h s")
  with history_owned [OF this _ _ assms(2)] assms(1) show ?thesis
    unfolding owns_def interfere_def by simp
qed

lemma renew_same:
  assumes "do_renew D e t now s = (r, s')"
  shows "owns e' t' s' = owns e' t' s" and "is_done e' s' = is_done e' s"
proof -
  have "run_call D e t (Renew now) s = (claimed_ok r, s')" using assms by simp
  from renew_law [OF this] show "owns e' t' s' = owns e' t' s" and "is_done e' s' = is_done e' s"
    by (simp_all add: owns_def is_done_def)
qed

lemma heartbeat_owned:
  "heartbeat D e t beats s = (x, s') \<Longrightarrow> owns e t s \<Longrightarrow> \<forall>(h, now) \<in> set beats. \<forall>(e', t', c) \<in> set h. t' \<noteq> t \<Longrightarrow>
     owns e t s'"
proof (induction beats arbitrary: s x s')
  case Nil
  then show ?case by simp
next
  case (Cons beat beats)
  obtain h now where beat: "beat = (h, now)" by (cases beat)
  obtain r s1 where renew: "do_renew D e t now (interfere D h s) = (r, s1)"
    by (cases "do_renew D e t now (interfere D h s)")
  from Cons.prems(2,3) beat have "owns e t (interfere D h s)" by (intro interfere_owned) simp_all
  then have "owns e t s1" using renew_same [OF renew] by simp
  with Cons renew beat show ?case by (auto split: sum.splits)
qed

lemma heartbeat_done: "is_done e' (snd (heartbeat D e t (map (Pair []) late) s)) = is_done e' s"
proof (induction late arbitrary: s)
  case Nil
  then show ?case by simp
next
  case (Cons now late)
  obtain r s1 where renew: "do_renew D e t now s = (r, s1)" by (cases "do_renew D e t now s")
  have "interfere D [] s = s" by (simp add: interfere_def)
  then have "snd (heartbeat D e t (map (Pair []) (now # late)) s) =
      (case r of Inl x \<Rightarrow> s1 | Inr c \<Rightarrow> snd (heartbeat D e t (map (Pair []) late) s1))"
    by (simp add: renew split: sum.split)
  with Cons.IH [of s1] renew_same(2) [OF renew] show ?case by (metis sum.case_eq_if)
qed

lemma release_done: "is_done e' (do_release D e t s) \<longleftrightarrow> is_done e' s"
proof -
  have run: "run_call D e t Release s = (True, do_release D e t s)" by simp
  let ?k = "ev_idempotency_key e'"
  have other: "\<not> (True \<and> is_complete Release)" by simp
  show ?thesis
  proof
    assume "is_done e' (do_release D e t s)"
    moreover from this have "delivery (do_release D e t s) ?k = delivery s ?k"
      unfolding is_done_def by (rule completing_law [OF run other])
    ultimately show "is_done e' s" unfolding is_done_def by (simp only:)
  next
    assume "is_done e' s"
    moreover from this have "delivery (do_release D e t s) ?k = delivery s ?k"
      unfolding is_done_def by (rule completed_law [OF run])
    ultimately show "is_done e' (do_release D e t s)" unfolding is_done_def by (simp only:)
  qed
qed

lemma settle_done:
  assumes "settle_delivery D mode e t now outcome s = (r, s')" and "owns e t s"
  shows "is_done e s' \<longleftrightarrow> (\<exists>v. r = Inr v)"
proof (cases outcome)
  case (Inl error)
  obtain q s1 where fail: "fail_delivery D mode e t error now s = (q, s1)"
    by (cases "fail_delivery D mode e t error now s")
  have "\<not> is_done e s1"
  proof (cases mode)
    case FailRetry
    with fail have "run_call D e t (Retry (exn_name error) now) s = (unit_ok q, s1)"
      by (simp add: fail_delivery_def)
    from completing_law [OF this] owns_not_done [OF assms(2)] show ?thesis by (auto simp: is_done_def)
  next
    case FailDeadLetter
    with fail have "run_call D e t (Restore (''recovery failed: '' @ exn_name error) now) s = (unit_ok q, s1)"
      by (simp add: fail_delivery_def)
    from completing_law [OF this] owns_not_done [OF assms(2)] show ?thesis by (auto simp: is_done_def)
  qed
  with assms(1) Inl fail show ?thesis by (auto simp: settle_delivery_def split: sum.splits)
next
  case (Inr v)
  obtain q s1 where complete: "do_complete D e t now s = (q, s1)" by (cases "do_complete D e t now s")
  then have run: "run_call D e t (Complete now) s = (unit_ok q, s1)" by simp
  show ?thesis
  proof (cases q)
    case (Inl x)
    with completing_law [OF run] owns_not_done [OF assms(2)] have "\<not> is_done e s1"
      by (auto simp: is_done_def unit_ok_def)
    with assms(1) \<open>outcome = Inr v\<close> Inl complete show ?thesis by (auto simp: settle_delivery_def)
  next
    case (Inr u)
    with complete_law [of e t "Complete now" s s1] run have "is_done e s1" by (simp add: is_done_def unit_ok_def)
    with assms(1) \<open>outcome = Inr v\<close> Inr complete show ?thesis by (auto simp: settle_delivery_def)
  qed
qed

lemma execute_done:
  fixes plan :: "'r run_plan"
  assumes run: "execute_claimed_delivery D e claim mode plan s = (r, s')"
    and claim: "dc_claim_token claim = Some t" and owned: "owns e t s"
    and beats: "\<forall>(h, now) \<in> set (rp_beats plan). \<forall>(e', t', c) \<in> set h. t' \<noteq> t"
    and others: "\<forall>(e', t', c) \<in> set (rp_others plan). t' \<noteq> t"
  shows "is_done e s' \<longleftrightarrow> (\<exists>v. r = Inr v)"
proof (cases "dc_acquired claim \<and> dc_lease_expires_at claim \<noteq> None")
  case False
  with run claim owns_not_done [OF owned] show ?thesis
    by (auto simp: execute_claimed_delivery_def split: bool.splits option.splits)
next
  case True
  then obtain lease where lease: "dc_acquired claim" "dc_lease_expires_at claim = Some lease" by blast
  obtain x s1 where beat: "heartbeat D e t (rp_beats plan) s = (x, s1)" by (cases "heartbeat D e t (rp_beats plan) s")
  have owned1: "owns e t s1" by (rule heartbeat_owned [OF beat owned beats])
  show ?thesis
  proof (cases x)
    case None
    have owned2: "owns e t (interfere D (rp_others plan) s1)" by (rule interfere_owned [OF owned1 others])
    obtain q s2 where settle: "settle_delivery D mode e t (rp_now plan) (rp_outcome plan)
        (interfere D (rp_others plan) s1) = (q, s2)"
      by (cases "settle_delivery D mode e t (rp_now plan) (rp_outcome plan) (interfere D (rp_others plan) s1)")
    have "r = q" and "s' = do_release D e t (snd (heartbeat D e t (map (Pair []) (rp_late plan)) s2))"
      using run claim lease beat None settle by (simp_all add: execute_claimed_delivery_def)
    with settle_done [OF settle owned2] show ?thesis
      by (simp add: release_done heartbeat_done)
  next
    case (Some error)
    obtain q s2 where settle: "settle_delivery D mode e t (rp_now plan) (Inl error :: exn + 'r) s1 = (q, s2)"
      by (cases "settle_delivery D mode e t (rp_now plan) (Inl error :: exn + 'r) s1")
    have "r = q" and "s' = do_release D e t s2"
      using run claim lease beat Some settle by (simp_all add: execute_claimed_delivery_def)
    with settle_done [OF settle owned1] show ?thesis by (simp add: release_done)
  qed
qed

end

section \<open>Fences and redelivery with PostgreSQL\<close>

definition pd_registered :: "event_envelope \<Rightarrow> string \<Rightarrow> pg_dedupe \<Rightarrow> bool" where
  "pd_registered e t s \<longleftrightarrow> pg_dedup.owns e t s \<and> dict_get (pd_fences s) t = Some (ev_idempotency_key e)"

lemma pg_dedupe_sel [simp]:
  "do_claim (pg_dedupe_ops sha) = pd_claim sha" "do_renew (pg_dedupe_ops sha) = pd_renew"
  "do_complete (pg_dedupe_ops sha) = pd_complete" "do_retry (pg_dedupe_ops sha) = pd_retry"
  "do_release (pg_dedupe_ops sha) = pd_release_fence"
  by (simp_all add: pg_dedupe_ops_def)

lemma pd_call_kept:
  "run_call (pg_dedupe_ops sha) e t' c s = (success, s') \<Longrightarrow>
    pd_lease s' = pd_lease s \<and> (t' \<noteq> t \<longrightarrow> dict_get (pd_fences s') t = dict_get (pd_fences s) t)"
  by (cases c) (auto simp: pd_defs dict_simps split: option.splits if_splits sum.splits)

lemma pd_history_kept:
  "run_history (pg_dedupe_ops sha) h s = (made, s') \<Longrightarrow> \<forall>(e, t', c) \<in> set h. t' \<noteq> t \<Longrightarrow>
    pd_lease s' = pd_lease s \<and> dict_get (pd_fences s') t = dict_get (pd_fences s) t"
proof (induction h arbitrary: s made s')
  case Nil
  then show ?case by simp
next
  case (Cons call h)
  obtain e t' c where call: "call = (e, t', c)" by (cases call)
  obtain success s1 where run: "run_call (pg_dedupe_ops sha) e t' c s = (success, s1)"
    by (cases "run_call (pg_dedupe_ops sha) e t' c s")
  obtain made1 s2 where rest: "run_history (pg_dedupe_ops sha) h s1 = (made1, s2)"
    by (cases "run_history (pg_dedupe_ops sha) h s1")
  from Cons.IH [OF rest] Cons.prems pd_call_kept [OF run, of t] show ?case
    by (auto simp: call run rest split: if_splits)
qed

lemma pd_interfere:
  assumes "pd_registered e t s" and "\<forall>(e', t', c) \<in> set h. t' \<noteq> t"
  shows "pd_registered e t (interfere (pg_dedupe_ops sha) h s)"
    and "pd_lease (interfere (pg_dedupe_ops sha) h s) = pd_lease s"
proof -
  obtain made s' where run: "run_history (pg_dedupe_ops sha) h s = (made, s')"
    by (cases "run_history (pg_dedupe_ops sha) h s")
  from pd_history_kept [OF run assms(2)] pg_dedup.interfere_owned [OF _ assms(2), of e s sha] assms(1)
  show "pd_registered e t (interfere (pg_dedupe_ops sha) h s)"
    and "pd_lease (interfere (pg_dedupe_ops sha) h s) = pd_lease s"
    by (simp_all add: pd_registered_def interfere_def run)
qed

lemma pd_owned_row:
  assumes "pg_dedup.owns e t s"
  obtains row where "dict_get (pd_rows s) (ev_idempotency_key e) = Some row" "dr_state row = ''claimed''"
    "dr_claim_token row = Some t" "dict_get (pd_locks s) (ev_idempotency_key e) = Some t"
  using assms by (auto simp: pg_dedup.owns_def pd_delivery_def pd_fence_of_def)

lemma pd_renew_registered:
  assumes "pd_registered e t s"
  obtains c s' where "pd_renew e t now s = (Inr c, s')" "pd_registered e t s'" "pd_lease s' = pd_lease s"
proof -
  from assms have owned: "pg_dedup.owns e t s" by (simp add: pd_registered_def)
  from owned obtain row where "dict_get (pd_rows s) (ev_idempotency_key e) = Some row"
    "dr_state row = ''claimed''" "dr_claim_token row = Some t" by (rule pd_owned_row)
  then obtain c s' where renew: "pd_renew e t now s = (Inr c, s')"
    by (simp add: pd_renew_def pd_update_claimed_def)
  have "do_renew (pg_dedupe_ops undefined) e t now s = (Inr c, s')" using renew by simp
  from pg_dedup.renew_same(1) [OF this, of e t] owned have "pg_dedup.owns e t s'" by simp
  moreover have "pd_fences s' = pd_fences s" "pd_lease s' = pd_lease s"
    using renew by (auto simp: pd_renew_def pd_update_claimed_def pd_set_def split: option.splits if_splits)
  ultimately have "pd_registered e t s'" using assms by (simp add: pd_registered_def)
  with renew \<open>pd_lease s' = pd_lease s\<close> show thesis using that by blast
qed

lemma pd_heartbeat_registered:
  "pd_registered e t s \<Longrightarrow> \<forall>(h, now) \<in> set beats. \<forall>(e', t', c) \<in> set h. t' \<noteq> t \<Longrightarrow>
     \<exists>s'. heartbeat (pg_dedupe_ops sha) e t beats s = (None, s') \<and> pd_registered e t s' \<and> pd_lease s' = pd_lease s"
proof (induction beats arbitrary: s)
  case Nil
  then show ?case by simp
next
  case (Cons beat beats)
  obtain h now where beat: "beat = (h, now)" by (cases beat)
  with Cons.prems have h: "\<forall>(e', t', c) \<in> set h. t' \<noteq> t" by simp
  note I = pd_interfere [OF Cons.prems(1) h, of sha]
  obtain c s1 where renew: "pd_renew e t now (interfere (pg_dedupe_ops sha) h s) = (Inr c, s1)"
      "pd_registered e t s1" "pd_lease s1 = pd_lease s"
    using pd_renew_registered [OF I(1), of now] I(2) by metis
  from Cons.IH [OF renew(2)] Cons.prems(2) renew show ?case by (auto simp: beat)
qed

text \<open>Given back: nobody fences the key, and its lease ends by \<open>c\<close>.\<close>

definition pd_given_back :: "event_envelope \<Rightarrow> string \<Rightarrow> int \<Rightarrow> pg_dedupe \<Rightarrow> bool" where
  "pd_given_back e t c s \<longleftrightarrow> dict_get (pd_locks s) (ev_idempotency_key e) = None \<and>
     dict_get (pd_fences s) t = None \<and>
     (\<exists>row l. dict_get (pd_rows s) (ev_idempotency_key e) = Some row \<and> dr_state row = ''claimed'' \<and>
        dr_lease_expires_at row = Some l \<and> l \<le> c)"

lemma reason_ok_name: "reason_ok (exn_name x)"
  by (cases x) (simp_all add: reason_ok_def)

lemma pd_retry_gives_back:
  assumes "pd_registered e t s" and "now \<le> c"
  obtains s' where "pd_retry e t (exn_name x) now s = (Inr (), s')" "pd_given_back e t c s'" "pd_lease s' = pd_lease s"
proof -
  from assms(1) have "pg_dedup.owns e t s" and reg: "dict_get (pd_fences s) t = Some (ev_idempotency_key e)"
    by (simp_all add: pd_registered_def)
  from this(1) obtain row where "dict_get (pd_rows s) (ev_idempotency_key e) = Some row"
    "dr_state row = ''claimed''" "dr_claim_token row = Some t" "dict_get (pd_locks s) (ev_idempotency_key e) = Some t"
    by (rule pd_owned_row)
  with reg assms(2) show thesis
    using that by (auto simp: pd_retry_def reason_ok_name pd_end_def pd_update_claimed_def pd_set_def
        pd_release_fence_def pd_given_back_def dict_simps)
qed

lemma pd_late_given_back:
  "pd_given_back e t c s \<Longrightarrow> \<forall>l \<in> set late. l + pd_lease s \<le> c \<Longrightarrow>
     pd_given_back e t c (snd (heartbeat (pg_dedupe_ops sha) e t (map (Pair []) late) s))"
proof (induction late arbitrary: s)
  case Nil
  then show ?case by simp
next
  case (Cons now late)
  obtain r s1 where renew: "pd_renew e t now s = (r, s1)" by (cases "pd_renew e t now s")
  have same: "interfere (pg_dedupe_ops sha) [] s = s" by (simp add: interfere_def)
  have "pd_given_back e t c s1 \<and> pd_lease s1 = pd_lease s"
    using renew Cons.prems by (auto simp: pd_renew_def pd_update_claimed_def pd_set_def pd_given_back_def dict_simps
        split: option.splits if_splits)
  with Cons.IH [of s1] Cons.prems(2) show ?case
    by (cases r) (simp_all add: same renew)
qed

lemma pd_given_back_claim:
  assumes "pd_given_back e t c s"
  shows "fst (run_call (pg_dedupe_ops sha) e t2 (Claim c) s)"
  using assms by (auto simp: pd_given_back_def pd_claim_def pd_acquire_fence_def pd_upsert_def
      not_claimable_def claimed_ok_def claim_granted_def split: option.splits)

lemma pd_failed_run_claimable:
  assumes registered: "pd_registered e t s"
    and claim: "claim = \<lparr>dc_acquired = True, dc_state = st, dc_lease_expires_at = Some lease, dc_claim_token = Some t\<rparr>"
    and run: "execute_claimed_delivery (pg_dedupe_ops sha) e claim FailRetry plan s = (Inl x, s')"
    and beats: "\<forall>(h, now) \<in> set (rp_beats plan). \<forall>(e', t', c) \<in> set h. t' \<noteq> t"
    and others: "\<forall>(e', t', c) \<in> set (rp_others plan). t' \<noteq> t"
    and time: "rp_now plan \<le> c" "\<forall>l \<in> set (rp_late plan). l + pd_lease s \<le> c"
  shows "fst (run_call (pg_dedupe_ops sha) e t2 (Claim c) s')"
proof -
  let ?D = "pg_dedupe_ops sha"
  obtain s1 where beat: "heartbeat ?D e t (rp_beats plan) s = (None, s1)" "pd_registered e t s1" "pd_lease s1 = pd_lease s"
    using pd_heartbeat_registered [OF registered beats] by blast
  note I = pd_interfere [OF beat(2) others, of sha]
  obtain q s2 where settle: "settle_delivery ?D FailRetry e t (rp_now plan) (rp_outcome plan) (interfere ?D (rp_others plan) s1) = (q, s2)"
    by (cases "settle_delivery ?D FailRetry e t (rp_now plan) (rp_outcome plan) (interfere ?D (rp_others plan) s1)")
  have q: "q = Inl x" and s': "s' = do_release ?D e t (snd (heartbeat ?D e t (map (Pair []) (rp_late plan)) s2))"
    using run beat settle by (simp_all add: execute_claimed_delivery_def claim)
  have "\<exists>error. rp_outcome plan = Inl error"
  proof (cases "rp_outcome plan")
    case (Inr v)
    from I(1) have "pg_dedup.owns e t (interfere ?D (rp_others plan) s1)" by (simp add: pd_registered_def)
    then obtain row where "dict_get (pd_rows (interfere ?D (rp_others plan) s1)) (ev_idempotency_key e) = Some row"
      "dr_state row = ''claimed''" "dr_claim_token row = Some t" by (rule pd_owned_row)
    then have "\<exists>s3. pd_complete e t (rp_now plan) (interfere ?D (rp_others plan) s1) = (Inr (), s3)"
      by (simp add: pd_complete_def pd_finalize_def pd_end_def pd_update_claimed_def)
    with settle Inr q show ?thesis by (auto simp: settle_delivery_def)
  qed auto
  then obtain error where error: "rp_outcome plan = Inl error" ..
  obtain s3 where "pd_retry e t (exn_name error) (rp_now plan) (interfere ?D (rp_others plan) s1) = (Inr (), s3)"
    and given: "pd_given_back e t c s3" and lease: "pd_lease s3 = pd_lease s"
    using pd_retry_gives_back [OF I(1) time(1), of error] I(2) beat(3) by metis
  with settle error have "s2 = s3" by (simp add: settle_delivery_def fail_delivery_def)
  with pd_late_given_back [OF given] time(2) lease
  have back2: "pd_given_back e t c (snd (heartbeat ?D e t (map (Pair []) (rp_late plan)) s2))" by simp
  then have "s' = snd (heartbeat ?D e t (map (Pair []) (rp_late plan)) s2)"
    by (simp add: s' pd_release_fence_def pd_given_back_def)
  with pd_given_back_claim [OF back2] show ?thesis by simp
qed

section \<open>A whole delivery\<close>

lemma pd_claim_acquired:
  "pd_claim sha e t now s = (Inr claim, s') \<Longrightarrow> dc_acquired claim \<Longrightarrow> dc_claim_token claim = Some t"
  by (auto simp: pd_claim_def pd_observed_def claim_granted_def claim_refused_def
      split: prod.splits bool.splits sum.splits option.splits)

lemma pd_not_newly_completed:
  assumes "run_call (pg_dedupe_ops sha) e t c s = (success, s')" and "\<not> is_complete c"
    and "map_option fst (pd_delivery s' k) = Some ''completed''"
  shows "map_option fst (pd_delivery s k) = Some ''completed''"
  using pg_dedup.completing_law [OF assms(1) _ assms(3)] assms(2,3) by simp

lemma pd_cancel_not_completed:
  assumes "map_option fst (pd_delivery (cancel_claim (pg_dedupe_ops sha) e claim now s) k) = Some ''completed''"
  shows "map_option fst (pd_delivery s k) = Some ''completed''"
proof (cases "dc_acquired claim \<and> dc_claim_token claim \<noteq> None")
  case False
  with assms show ?thesis by (auto simp: cancel_claim_def split: bool.splits option.splits)
next
  case True
  then obtain token where token: "dc_acquired claim" "dc_claim_token claim = Some token" by blast
  obtain q s1 where retry: "pd_retry e token ''claim acquisition cancelled'' now s = (q, s1)"
    by (cases "pd_retry e token ''claim acquisition cancelled'' now s")
  have r1: "run_call (pg_dedupe_ops sha) e token (Retry ''claim acquisition cancelled'' now) s = (unit_ok q, s1)"
    by (simp add: retry)
  have r2: "run_call (pg_dedupe_ops sha) e token Release s1 = (True, pd_release_fence e token s1)" by simp
  have "cancel_claim (pg_dedupe_ops sha) e claim now s = pd_release_fence e token s1"
    by (simp add: cancel_claim_def token retry)
  with assms pd_not_newly_completed [OF r2] pd_not_newly_completed [OF r1] show ?thesis by simp
qed

lemma pd_execute_delivery_done:
  assumes run: "execute_delivery (pg_dedupe_ops sha) e t now cancelled plan s = (r, s')"
    and beats: "\<forall>(h, now) \<in> set (rp_beats plan). \<forall>(e', t', c) \<in> set h. t' \<noteq> t"
    and others: "\<forall>(e', t', c) \<in> set (rp_others plan). t' \<noteq> t"
  shows "(\<exists>v. r = Inr (Effect v)) \<longleftrightarrow>
    map_option fst (pd_delivery s (ev_idempotency_key e)) \<noteq> Some ''completed'' \<and>
    map_option fst (pd_delivery s' (ev_idempotency_key e)) = Some ''completed''"
proof -
  let ?D = "pg_dedupe_ops sha"
  obtain q s1 where claim: "pd_claim sha e t now s = (q, s1)" by (cases "pd_claim sha e t now s")
  then have call: "run_call ?D e t (Claim now) s = (claimed_ok q, s1)" by simp
  have kept: "map_option fst (pd_delivery s1 k) = Some ''completed'' \<Longrightarrow> map_option fst (pd_delivery s k) = Some ''completed''"
    for k using pd_not_newly_completed [OF call] by simp
  show ?thesis
  proof (cases "ev_signature_verified e")
    case False
    with run show ?thesis by (auto simp: execute_delivery_def)
  next
    case verified: True
    show ?thesis
    proof (cases "\<exists>claim. q = Inr claim \<and> \<not> cancelled \<and> dc_acquired claim")
      case False
      have "\<nexists>v. r = Inr (Effect v)"
        using run verified False by (auto simp: execute_delivery_def acquire_owned_def claim split: sum.splits if_splits)
      moreover have "s' = s1 \<or> (\<exists>c. s' = cancel_claim ?D e c now s1)"
        using run verified False by (auto simp: execute_delivery_def acquire_owned_def claim split: sum.splits if_splits)
      ultimately show ?thesis using kept pd_cancel_not_completed [of sha e _ now s1] by blast
    next
      case True
      then obtain c where c: "q = Inr c" "\<not> cancelled" "dc_acquired c" by blast
      then have ok: "claimed_ok q" by (simp add: claimed_ok_def)
      from pg_dedup.claim_law [OF call [unfolded ok [THEN eqTrueI]]]
      have fresh: "map_option fst (pd_delivery s (ev_idempotency_key e)) \<noteq> Some ''completed''"
        and owned: "pg_dedup.owns e t s1" by (simp_all add: pg_dedup.owns_def)
      obtain q2 where exec: "execute_claimed_delivery ?D e c FailRetry plan s1 = (q2, s')"
        and r: "r = (case q2 of Inl x \<Rightarrow> Inl x | Inr v \<Rightarrow> Inr (Effect v))"
        using run verified c by (auto simp: execute_delivery_def acquire_owned_def claim split: sum.splits prod.splits)
      have token: "dc_claim_token c = Some t" using pd_claim_acquired claim c by simp
      from pg_dedup.execute_done [OF exec token owned beats others]
      have "map_option fst (pd_delivery s' (ev_idempotency_key e)) = Some ''completed'' \<longleftrightarrow> (\<exists>v. q2 = Inr v)"
        by (simp add: pg_dedup.is_done_def)
      with fresh r show ?thesis by (cases q2) auto
    qed
  qed
qed

lemma heartbeat_within_lease:
  "1 \<le> heartbeat_seconds initial \<and> heartbeat_seconds initial \<le> 60 \<and>
   (3 \<le> initial \<longrightarrow> 3 * heartbeat_seconds initial \<le> initial)"
  by (auto simp: heartbeat_seconds_def max_def min_def)

end
