(* ===== verification/DeliveryProperties.thy ===== *)
theory DeliveryProperties
  imports Worker Examples
begin

text \<open>
  What the deliveries' deduplicators guarantee over whole histories of calls by any number of
  workers: a delivery is completed at most once, and never claimed while it is fenced. Then what
  the worker makes of them: its result and the record agree, and a failed delivery comes back.
\<close>

section \<open>Exactly-once completion\<close>

text \<open>
  C25: A delivery is completed at most once with the PostgreSQL deduplicator, whatever calls are
  made with whatever tokens and clock readings, from any state: at most one
  \<^verbatim>\<open>complete\<close> of a key succeeds, and none after the key is recorded as completed.
\<close>

theorem pg_completed_once:
  "completions key (fst (run_history (pg_dedupe_ops payload_sha) h s)) \<le> 1 \<and>
   (map_option fst (pd_delivery s key) = Some ''completed'' \<longrightarrow>
      completions key (fst (run_history (pg_dedupe_ops payload_sha) h s)) = 0)"
  using pg_dedup.history_completions [of payload_sha h s _ _ key]
    pg_dedup.history_completed [of payload_sha h s _ _ key]
  by (metis surjective_pairing)

definition ex_event :: "string \<Rightarrow> event_envelope" where
  "ex_event key = \<lparr>ev_event_id = ''event-1'', ev_event_type = ''alert'', ev_source = ''alertmanager'',
     ev_source_delivery_id = ''d-1'', ev_occurred_at = 0, ev_received_at = 1, ev_trace_id = ''trace-1'',
     ev_idempotency_key = key, ev_actor_kind = ''system'', ev_actor_id = ''am'', ev_subject = [],
     ev_signature_verified = True, ev_signature_algorithm = ''internal'', ev_payload = PDict []\<rparr>"

definition ex_dedupe :: pg_dedupe where
  "ex_dedupe = \<lparr>pd_lease = 600, pd_rows = [], pd_locks = [], pd_fences = []\<rparr>"

definition ex_payload_sha :: "event_envelope \<Rightarrow> string" where
  "ex_payload_sha e = ''h''"

text \<open>Two workers: the second claims after the first completed, and completes in vain.\<close>

definition ex_history :: history where
  "ex_history = [(ex_event ''event:a:1'', ''t1'', Claim 0), (ex_event ''event:a:1'', ''t1'', Complete 5),
     (ex_event ''event:a:1'', ''t2'', Claim 9), (ex_event ''event:a:1'', ''t2'', Complete 10)]"

lemma ex_history_completions:
  "completions ''event:a:1'' (fst (run_history (pg_dedupe_ops ex_payload_sha) ex_history ex_dedupe)) = 1"
  by code_simp

theorem pg_completed_once_witness:
  "completions ''event:a:1'' (fst (run_history (pg_dedupe_ops ex_payload_sha) ex_history
      (snd (run_history (pg_dedupe_ops ex_payload_sha) ex_history ex_dedupe)))) = 0"
proof -
  let ?s = "snd (run_history (pg_dedupe_ops ex_payload_sha) ex_history ex_dedupe)"
  have "map_option fst (pd_delivery ?s ''event:a:1'') = Some ''completed''" by code_simp
  with pg_completed_once [where s = ?s] show ?thesis by blast
qed

text \<open>
  The in-memory deduplicator completes a delivery at most once under the same histories.
\<close>

theorem mem_completed_once:
  "completions key (fst (run_history mem_dedupe_ops h s)) \<le> 1"
  using mem_dedup.history_completions [of h s _ _ key] by (metis surjective_pairing)

section \<open>Exclusive processing\<close>

text \<open>
  C26: While a worker's token fences a delivery, nobody else gets it: through any calls with
  other tokens (claims, lease expiries, dead-letter recoveries, releases) the fence stays with
  the token, and none of them acquires the delivery, even after its lease has run out.
\<close>

theorem fenced_delivery_exclusive:
  assumes "pd_fence_of s key = Some token" and "\<forall>(e, t, c) \<in> set h. t \<noteq> token"
  shows "pd_fence_of (snd (run_history (pg_dedupe_ops payload_sha) h s)) key = Some token \<and>
    (\<forall>(k, t, c) \<in> set (fst (run_history (pg_dedupe_ops payload_sha) h s)). takes_claim c \<longrightarrow> k \<noteq> key)"
proof -
  obtain made s' where run: "run_history (pg_dedupe_ops payload_sha) h s = (made, s')" by (rule prod.exhaust)
  from pg_dedup.history_fenced [OF run assms] show ?thesis unfolding run by simp
qed

definition ex_claimed :: pg_dedupe where
  "ex_claimed = snd (run_history (pg_dedupe_ops ex_payload_sha) [(ex_event ''event:a:1'', ''t1'', Claim 0)] ex_dedupe)"

theorem fenced_delivery_exclusive_witness:
  "pd_fence_of (snd (run_history (pg_dedupe_ops ex_payload_sha) (drop 2 ex_history) ex_claimed)) ''event:a:1''
     = Some ''t1'' \<and>
   filter (\<lambda>(k, t, c). takes_claim c \<and> k = ''event:a:1'')
     (fst (run_history (pg_dedupe_ops ex_payload_sha) (drop 2 ex_history) ex_claimed)) = []"
proof -
  have "pd_fence_of ex_claimed ''event:a:1'' = Some ''t1''" and "\<forall>(e, t, c) \<in> set (drop 2 ex_history). t \<noteq> ''t1''"
    by code_simp+
  from fenced_delivery_exclusive [OF this, of ex_payload_sha] show ?thesis
    by (auto simp: filter_empty_conv)
qed

section \<open>The worker\<close>


text \<open>A run with a heartbeat, during which another worker claims and completes in vain.\<close>

definition ex_plan_run :: "exn + nat \<Rightarrow> nat run_plan" where
  "ex_plan_run outcome = \<lparr>rp_beats = [(drop 2 ex_history, 60)], rp_others = drop 2 ex_history,
     rp_outcome = outcome, rp_late = [], rp_now = 70\<rparr>"

lemma ex_plan_run_tokens:
  "\<forall>(h, n) \<in> set (rp_beats (ex_plan_run outcome)). \<forall>(e', t', c) \<in> set h. t' \<noteq> ''t1''"
  "\<forall>(e', t', c) \<in> set (rp_others (ex_plan_run outcome)). t' \<noteq> ''t1''"
  by (simp_all add: ex_plan_run_def ex_history_def)

definition ex_executed :: "exn + nat \<Rightarrow> (exn + nat delivery_result) \<times> pg_dedupe" where
  "ex_executed outcome = execute_delivery (pg_dedupe_ops ex_payload_sha) (ex_event ''event:a:1'') ''t1'' 0 False
     (ex_plan_run outcome) ex_dedupe"


text \<open>
  A failed delivery is not lost: when the effect of a claimed delivery fails, another
  worker acquires the delivery at once, from the moment the failure was recorded, or from the end of the
  last lease a late heartbeat still took.
\<close>

theorem failed_delivery_comes_back:
  assumes "pd_fence_of s (ev_idempotency_key e) = Some token"
    and "pd_delivery s (ev_idempotency_key e) = Some (''claimed'', Some token)"
    and "dict_get (pd_fences s) token = Some (ev_idempotency_key e)"
    and "execute_claimed_delivery (pg_dedupe_ops payload_sha) e (claim_granted lease token) FailRetry plan s = (Inl x, s')"
    and "\<forall>(h, n) \<in> set (rp_beats plan). \<forall>(e', t', c) \<in> set h. t' \<noteq> token"
    and "\<forall>(e', t', c) \<in> set (rp_others plan). t' \<noteq> token"
    and "rp_now plan \<le> clock" and "\<forall>l \<in> set (rp_late plan). l + pd_lease s \<le> clock"
  shows "fst (run_call (pg_dedupe_ops payload_sha) e token' (Claim clock) s')"
proof (rule pd_failed_run_claimable [OF _ claim_granted_def assms(4-8)])
  show "pd_registered e token s" using assms(1-3) by (simp add: pd_registered_def pg_dedup.owns_def)
qed

theorem failed_delivery_comes_back_witness:
  "fst (run_call (pg_dedupe_ops ex_payload_sha) (ex_event ''event:a:1'') ''t3'' (Claim 70)
     (snd (execute_claimed_delivery (pg_dedupe_ops ex_payload_sha) (ex_event ''event:a:1'') (claim_granted 600 ''t1'')
        FailRetry (ex_plan_run (Inl CancelledError)) ex_claimed)))"
proof (rule failed_delivery_comes_back [OF _ _ _ _ ex_plan_run_tokens])
  show "execute_claimed_delivery (pg_dedupe_ops ex_payload_sha) (ex_event ''event:a:1'') (claim_granted 600 ''t1'')
      FailRetry (ex_plan_run (Inl CancelledError)) ex_claimed = (Inl CancelledError,
        snd (execute_claimed_delivery (pg_dedupe_ops ex_payload_sha) (ex_event ''event:a:1'') (claim_granted 600 ''t1'')
        FailRetry (ex_plan_run (Inl CancelledError)) ex_claimed))"
    by code_simp
qed code_simp+

text \<open>
  The heartbeat keeps within the lease: a lease of at least three seconds is renewed at
  least three times before it would end, and the interval stays between a second and a minute.
\<close>

theorem heartbeat_bounds:
  "1 \<le> heartbeat_seconds initial \<and> heartbeat_seconds initial \<le> 60 \<and>
   (3 \<le> initial \<longrightarrow> 3 * heartbeat_seconds initial \<le> initial)"
  by (rule heartbeat_within_lease)

theorem heartbeat_bounds_witness: "3 * heartbeat_seconds 90 \<le> 90"
  using heartbeat_bounds [of 90] by simp

end
