(* ===== verification/Idempotency.thy ===== *)
theory Idempotency
  imports Actions Json
begin

text \<open>
  \<^verbatim>\<open>src/planning_platform/planner/idempotency.py\<close>: leased claims on planner requests, in
  memory and in PostgreSQL. The table \<^verbatim>\<open>planner_idempotency\<close> and the dictionary
  \<^verbatim>\<open>_records\<close> hold the same columns, \<^verbatim>\<open>planner_resume_bindings\<close> and
  \<^verbatim>\<open>_resume_bindings\<close> the same pairs, so both repositories work on one type of state;
  their operations are translated separately. A call is one transaction: the code serializes
  them by an asyncio lock or by the advisory lock on the thread. Fresh tokens are arguments, as
  are the clocks: \<open>clock\<close> is the reading of the process, \<open>dbnow\<close> is \<^verbatim>\<open>now()\<close> of
  the database.
\<close>

section \<open>Data\<close>

datatype claim_kind = StartClaim | ResumeClaim

record resume_binding =
  rsb_interrupt_id :: string
  rsb_comment_id :: int
  rsb_comment_created_at :: int

record idem_claim =
  ic_kind :: claim_kind
  ic_key :: string
  ic_body_hash :: string
  ic_thread_id :: string
  ic_token :: string
  ic_lease_expires_at :: int
  ic_recovered :: bool

datatype claim_result = ClaimGranted idem_claim | Replay pyval

record idem_record =
  ir_kind :: claim_kind
  ir_body_hash :: string
  ir_thread_id :: string
  ir_state :: string
  ir_token :: string
  ir_lease_expires_at :: int
  ir_response :: "pyval option"
  ir_abandoned_by :: "string option"
  ir_abandonment_reason :: "string option"

record idem_state =
  is_lease :: int
  is_records :: "(string, idem_record) dict"
  is_bindings :: "(string \<times> int, string \<times> resume_binding) dict"

record claim_request =
  rq_kind :: claim_kind
  rq_key :: string
  rq_body_hash :: string
  rq_thread_id :: string
  rq_binding :: "resume_binding option"

section \<open>Shared tests\<close>

text \<open>\<^verbatim>\<open>_validate_identity\<close> and \<^verbatim>\<open>_validate_row_identity\<close>.\<close>

definition validate_identity :: "idem_record \<Rightarrow> claim_request \<Rightarrow> exn + unit" where
  "validate_identity r q =
     raise_if (ir_kind r \<noteq> rq_kind q \<or> ir_body_hash r \<noteq> rq_body_hash q \<or> ir_thread_id r \<noteq> rq_thread_id q)
       (IdempotencyConflict ''idempotency key was reused across kind, thread, or request body'')"

text \<open>The first unfinished record of the thread.\<close>

definition thread_owner :: "string \<Rightarrow> (string, idem_record) dict \<Rightarrow> idem_record option" where
  "thread_owner thread records =
     find (\<lambda>r. ir_thread_id r = thread \<and> ir_state r = ''in_progress'') (map snd records)"

definition thread_started :: "string \<Rightarrow> (string, idem_record) dict \<Rightarrow> bool" where
  "thread_started thread records =
     list_ex (\<lambda>r. ir_kind r = StartClaim \<and> ir_thread_id r = thread) (map snd records)"

definition new_record :: "claim_request \<Rightarrow> string \<Rightarrow> int \<Rightarrow> idem_record" where
  "new_record q token expires =
     \<lparr>ir_kind = rq_kind q, ir_body_hash = rq_body_hash q, ir_thread_id = rq_thread_id q,
      ir_state = ''in_progress'', ir_token = token, ir_lease_expires_at = expires, ir_response = None,
      ir_abandoned_by = None, ir_abandonment_reason = None\<rparr>"

definition granted :: "claim_request \<Rightarrow> string \<Rightarrow> int \<Rightarrow> bool \<Rightarrow> claim_result" where
  "granted q token expires recovered = ClaimGranted
     \<lparr>ic_kind = rq_kind q, ic_key = rq_key q, ic_body_hash = rq_body_hash q, ic_thread_id = rq_thread_id q,
      ic_token = token, ic_lease_expires_at = expires, ic_recovered = recovered\<rparr>"

definition put_record :: "string \<Rightarrow> idem_record \<Rightarrow> idem_state \<Rightarrow> idem_state" where
  "put_record key r s = s\<lparr>is_records := dict_set key r (is_records s)\<rparr>"

section \<open>The in-memory repository\<close>

definition im_assert_binding :: "claim_request \<Rightarrow> idem_state \<Rightarrow> exn + unit" where
  "im_assert_binding q s =
     (case rq_binding q of None \<Rightarrow> Inr ()
      | Some b \<Rightarrow>
          (case dict_get (is_bindings s) (rq_thread_id q, rsb_comment_id b) of None \<Rightarrow> Inr ()
           | Some (h, b') \<Rightarrow> raise_if (h \<noteq> rq_body_hash q \<or> b' \<noteq> b)
               (IdempotencyConflict ''comment was already bound to a different resume'')))"

text \<open>A known key.\<close>

definition im_reclaim :: "claim_request \<Rightarrow> string \<Rightarrow> int \<Rightarrow> idem_record \<Rightarrow> (idem_state, claim_result) action" where
  "im_reclaim q token clock r s =
     (case validate_identity r q of
        Inl e \<Rightarrow> (Inl e, s)
      | Inr u \<Rightarrow>
          if ir_state r = ''completed'' then
            (case ir_response r of None \<Rightarrow> (Inl AssertionError, s) | Some v \<Rightarrow> (Inr (Replay v), s))
          else if ir_state r = ''abandoned'' then
            (Inl (IdempotencyConflict ''idempotency claim was terminally abandoned''), s)
          else if ir_lease_expires_at r > clock then (Inl (IdempotencyInProgress (ir_lease_expires_at r)), s)
          else (Inr (granted q token (clock + is_lease s) True),
                put_record (rq_key q) (r\<lparr>ir_token := token, ir_lease_expires_at := clock + is_lease s\<rparr>) s))"

definition im_insert :: "claim_request \<Rightarrow> string \<Rightarrow> int \<Rightarrow> (idem_state, claim_result) action" where
  "im_insert q token clock s =
     (let s1 = put_record (rq_key q) (new_record q token (clock + is_lease s)) s in
      (Inr (granted q token (clock + is_lease s) False),
       (case rq_binding q of None \<Rightarrow> s1
        | Some b \<Rightarrow> s1\<lparr>is_bindings := dict_set (rq_thread_id q, rsb_comment_id b) (rq_body_hash q, b) (is_bindings s1)\<rparr>)))"

definition im_claim :: "claim_request \<Rightarrow> string \<Rightarrow> int \<Rightarrow> (idem_state, claim_result) action" where
  "im_claim q token clock s =
     (case dict_get (is_records s) (rq_key q) of
        Some r \<Rightarrow> im_reclaim q token clock r s
      | None \<Rightarrow>
          (case thread_owner (rq_thread_id q) (is_records s) of
             Some r \<Rightarrow>
               (Inl (if ir_lease_expires_at r > clock then IdempotencyInProgress (ir_lease_expires_at r)
                     else IdempotencyConflict
                       ''planning thread has an unfinished mutation owned by another idempotency key''), s)
           | None \<Rightarrow>
               if rq_kind q = StartClaim \<and> thread_started (rq_thread_id q) (is_records s)
               then (Inl (IdempotencyConflict ''planning thread was already claimed''), s)
               else (case im_assert_binding q s of
                 Inl e \<Rightarrow> (Inl e, s)
               | Inr u \<Rightarrow> im_insert q token clock s)))"

text \<open>The record a claim still holds.\<close>

definition held_record :: "idem_claim \<Rightarrow> idem_state \<Rightarrow> idem_record option" where
  "held_record c s =
     (case dict_get (is_records s) (ic_key c) of
        None \<Rightarrow> None
      | Some r \<Rightarrow> if ir_state r = ''in_progress'' \<and> ir_token r = ic_token c then Some r else None)"

definition im_finalize :: "idem_claim \<Rightarrow> pyval \<Rightarrow> (idem_state, unit) action" where
  "im_finalize c response s =
     (case held_record c s of
        None \<Rightarrow> (Inl (IdempotencyConflict ''idempotency claim was lost before finalize''), s)
      | Some r \<Rightarrow> (Inr (), put_record (ic_key c) (r\<lparr>ir_state := ''completed'', ir_response := Some response\<rparr>) s))"

definition im_renew :: "idem_claim \<Rightarrow> int \<Rightarrow> (idem_state, int) action" where
  "im_renew c clock s =
     (case held_record c s of
        None \<Rightarrow> (Inl (IdempotencyConflict ''idempotency claim was lost during renewal''), s)
      | Some r \<Rightarrow> (Inr (clock + is_lease s), put_record (ic_key c) (r\<lparr>ir_lease_expires_at := clock + is_lease s\<rparr>) s))"

text \<open>\<open>clock\<close> is read for the lease test, \<open>later\<close> for the new lease.\<close>

definition im_abandon ::
  "string \<Rightarrow> string \<Rightarrow> resume_binding \<Rightarrow> string \<Rightarrow> string \<Rightarrow> int \<Rightarrow> int \<Rightarrow> (idem_state, unit) action" where
  "im_abandon key thread b operator reason clock later s =
     (let op = py_strip operator; why = py_strip reason in
      if op = [] \<or> why = [] then
        (Inl (ValueError ''terminal resume abandonment requires an operator and reason''), s)
      else case dict_get (is_records s) key of
        None \<Rightarrow> (Inl (IdempotencyConflict ''resume claim does not match the requested thread''), s)
      | Some r \<Rightarrow>
          if ir_kind r \<noteq> ResumeClaim \<or> ir_thread_id r \<noteq> thread
          then (Inl (IdempotencyConflict ''resume claim does not match the requested thread''), s)
          else if dict_get (is_bindings s) (thread, rsb_comment_id b) \<noteq> Some (ir_body_hash r, b)
          then (Inl (IdempotencyConflict ''resume claim does not match the requested binding''), s)
          else if ir_state r = ''completed''
          then (Inl (IdempotencyConflict ''completed resume cannot be abandoned''), s)
          else if ir_state r = ''abandoned'' then
            (if ir_abandoned_by r \<noteq> Some op \<or> ir_abandonment_reason r \<noteq> Some why
             then (Inl (IdempotencyConflict ''abandonment attribution conflicts with durable claim''), s)
             else (Inr (), s))
          else if ir_lease_expires_at r > clock then (Inl (IdempotencyInProgress (ir_lease_expires_at r)), s)
          else (Inr (), put_record key (r\<lparr>ir_state := ''abandoned'', ir_token := [], ir_lease_expires_at := later,
                  ir_abandoned_by := Some op, ir_abandonment_reason := Some why\<rparr>) s))"

definition im_completed_matches :: "string \<Rightarrow> string \<Rightarrow> resume_binding \<Rightarrow> idem_state \<Rightarrow> bool" where
  "im_completed_matches key thread b s =
     (case dict_get (is_records s) key of
        None \<Rightarrow> False
      | Some r \<Rightarrow> ir_kind r = ResumeClaim \<and> ir_thread_id r = thread \<and> ir_state r = ''completed''
          \<and> dict_get (is_bindings s) (thread, rsb_comment_id b) = Some (ir_body_hash r, b))"

section \<open>The PostgreSQL repository\<close>

definition ip_binding_differs :: "string \<Rightarrow> resume_binding \<Rightarrow> string \<times> resume_binding \<Rightarrow> bool" where
  "ip_binding_differs body_hash b row \<longleftrightarrow>
     fst row \<noteq> body_hash \<or> rsb_interrupt_id (snd row) \<noteq> rsb_interrupt_id b
       \<or> rsb_comment_created_at (snd row) \<noteq> rsb_comment_created_at b"

definition ip_assert_binding :: "claim_request \<Rightarrow> idem_state \<Rightarrow> exn + unit" where
  "ip_assert_binding q s =
     (case rq_binding q of None \<Rightarrow> Inr ()
      | Some b \<Rightarrow>
          (case dict_get (is_bindings s) (rq_thread_id q, rsb_comment_id b) of None \<Rightarrow> Inr ()
           | Some row \<Rightarrow> raise_if (ip_binding_differs (rq_body_hash q) b row)
               (IdempotencyConflict ''comment was already bound to a different resume'')))"

definition ip_reclaim :: "claim_request \<Rightarrow> string \<Rightarrow> int \<Rightarrow> int \<Rightarrow> idem_record \<Rightarrow> (idem_state, claim_result) action" where
  "ip_reclaim q token clock dbnow row s =
     (case validate_identity row q of
        Inl e \<Rightarrow> (Inl e, s)
      | Inr u \<Rightarrow>
          if ir_state row = ''completed'' then
            (case ir_response row of
               None \<Rightarrow> (Inl (TypeError ''NoneType object is not iterable''), s)
             | Some v \<Rightarrow> (Inr (Replay v), s))
          else if ir_state row = ''abandoned'' then
            (Inl (IdempotencyConflict ''idempotency claim was terminally abandoned''), s)
          else if ir_lease_expires_at row > clock then (Inl (IdempotencyInProgress (ir_lease_expires_at row)), s)
          else (Inr (granted q token (dbnow + is_lease s) True),
                put_record (rq_key q) (row\<lparr>ir_token := token, ir_lease_expires_at := dbnow + is_lease s\<rparr>) s))"

text \<open>
  The two inserts of a new claim in one transaction: the binding has its primary key and no
  \<^verbatim>\<open>ON CONFLICT\<close>, so a binding that is there already aborts both.
\<close>

definition ip_insert :: "claim_request \<Rightarrow> string \<Rightarrow> int \<Rightarrow> (idem_state, claim_result) action" where
  "ip_insert q token dbnow s =
     (let s1 = put_record (rq_key q) (new_record q token (dbnow + is_lease s)) s;
          grant = granted q token (dbnow + is_lease s) False
      in case rq_binding q of
        None \<Rightarrow> (Inr grant, s1)
      | Some b \<Rightarrow>
          if dict_get (is_bindings s1) (rq_thread_id q, rsb_comment_id b) \<noteq> None
          then (Inl (DatabaseError ''unique constraint violation''), s)
          else (Inr grant, s1\<lparr>is_bindings :=
                 dict_set (rq_thread_id q, rsb_comment_id b) (rq_body_hash q, b) (is_bindings s1)\<rparr>))"

definition ip_claim :: "claim_request \<Rightarrow> string \<Rightarrow> int \<Rightarrow> int \<Rightarrow> (idem_state, claim_result) action" where
  "ip_claim q token clock dbnow s =
     (case dict_get (is_records s) (rq_key q) of
        Some row \<Rightarrow> ip_reclaim q token clock dbnow row s
      | None \<Rightarrow>
          (case thread_owner (rq_thread_id q) (is_records s) of
             Some row \<Rightarrow>
               (Inl (if ir_lease_expires_at row > clock then IdempotencyInProgress (ir_lease_expires_at row)
                     else IdempotencyConflict
                       ''planning thread has an unfinished mutation owned by another idempotency key''), s)
           | None \<Rightarrow>
               if rq_kind q = StartClaim \<and> thread_started (rq_thread_id q) (is_records s)
               then (Inl (IdempotencyConflict ''planning thread was already claimed''), s)
               else (case ip_assert_binding q s of
                 Inl e \<Rightarrow> (Inl e, s)
               | Inr u \<Rightarrow> ip_insert q token dbnow s)))"

text \<open>\<^verbatim>\<open>UPDATE ... WHERE idempotency_key = %s AND claim_token = %s AND state = 'in_progress'\<close>.\<close>

definition ip_update_held :: "idem_claim \<Rightarrow> (idem_record \<Rightarrow> idem_record) \<Rightarrow> idem_state \<Rightarrow> idem_state option" where
  "ip_update_held c f s =
     (case dict_get (is_records s) (ic_key c) of
        None \<Rightarrow> None
      | Some row \<Rightarrow> if ir_token row = ic_token c \<and> ir_state row = ''in_progress''
                   then Some (put_record (ic_key c) (f row) s) else None)"

definition ip_finalize :: "idem_claim \<Rightarrow> pyval \<Rightarrow> (idem_state, unit) action" where
  "ip_finalize c response s =
     (case ip_update_held c (\<lambda>row. row\<lparr>ir_state := ''completed'', ir_response := Some response\<rparr>) s of
        None \<Rightarrow> (Inl (IdempotencyConflict ''idempotency claim was lost before finalize''), s)
      | Some s' \<Rightarrow> (Inr (), s'))"

definition ip_renew :: "idem_claim \<Rightarrow> int \<Rightarrow> (idem_state, int) action" where
  "ip_renew c dbnow s =
     (case ip_update_held c (\<lambda>row. row\<lparr>ir_lease_expires_at := dbnow + is_lease s\<rparr>) s of
        None \<Rightarrow> (Inl (IdempotencyConflict ''idempotency claim was lost during renewal''), s)
      | Some s' \<Rightarrow> (Inr (dbnow + is_lease s), s'))"

definition ip_abandon ::
  "string \<Rightarrow> string \<Rightarrow> resume_binding \<Rightarrow> string \<Rightarrow> string \<Rightarrow> int \<Rightarrow> int \<Rightarrow> (idem_state, unit) action" where
  "ip_abandon key thread b operator reason clock dbnow s =
     (let op = py_strip operator; why = py_strip reason in
      if op = [] \<or> 255 < length operator then
        (Inl (ValueError ''terminal resume abandonment operator is required''), s)
      else if why = [] \<or> 1024 < length reason then
        (Inl (ValueError ''terminal resume abandonment reason is required''), s)
      else case dict_get (is_records s) key of
        None \<Rightarrow> (Inl (IdempotencyConflict ''resume claim does not match the requested thread''), s)
      | Some row \<Rightarrow>
          if ir_kind row \<noteq> ResumeClaim \<or> ir_thread_id row \<noteq> thread
          then (Inl (IdempotencyConflict ''resume claim does not match the requested thread''), s)
          else if (case dict_get (is_bindings s) (thread, rsb_comment_id b) of
                     None \<Rightarrow> True | Some rb \<Rightarrow> ip_binding_differs (ir_body_hash row) b rb)
          then (Inl (IdempotencyConflict ''resume claim does not match the requested binding''), s)
          else if ir_state row = ''completed''
          then (Inl (IdempotencyConflict ''completed resume cannot be abandoned''), s)
          else if ir_state row = ''abandoned'' then
            (if ir_abandoned_by row \<noteq> Some op \<or> ir_abandonment_reason row \<noteq> Some why
             then (Inl (IdempotencyConflict ''abandonment attribution conflicts with durable claim''), s)
             else (Inr (), s))
          else if ir_lease_expires_at row > clock then (Inl (IdempotencyInProgress (ir_lease_expires_at row)), s)
          else if ir_state row \<noteq> ''in_progress''
          then (Inl (IdempotencyConflict ''resume claim could not be abandoned''), s)
          else (Inr (), put_record key (row\<lparr>ir_state := ''abandoned'', ir_response := None, ir_token := [],
                  ir_lease_expires_at := dbnow, ir_abandoned_by := Some op, ir_abandonment_reason := Some why\<rparr>) s))"

text \<open>The join of both tables on thread and request hash.\<close>

definition ip_completed_matches :: "string \<Rightarrow> string \<Rightarrow> resume_binding \<Rightarrow> idem_state \<Rightarrow> bool" where
  "ip_completed_matches key thread b s =
     (case dict_get (is_records s) key of
        None \<Rightarrow> False
      | Some row \<Rightarrow> ir_kind row = ResumeClaim \<and> ir_thread_id row = thread \<and> ir_state row = ''completed''
          \<and> (case dict_get (is_bindings s) (thread, rsb_comment_id b) of
               None \<Rightarrow> False | Some rb \<Rightarrow> \<not> ip_binding_differs (ir_body_hash row) b rb))"

section \<open>The IdempotencyRepository protocol\<close>

record 's idem_ops =
  io_claim :: "claim_request \<Rightarrow> string \<Rightarrow> int \<Rightarrow> int \<Rightarrow> ('s, claim_result) action"
  io_finalize :: "idem_claim \<Rightarrow> pyval \<Rightarrow> ('s, unit) action"
  io_renew :: "idem_claim \<Rightarrow> int \<Rightarrow> int \<Rightarrow> ('s, int) action"
  io_abandon :: "string \<Rightarrow> string \<Rightarrow> resume_binding \<Rightarrow> string \<Rightarrow> string \<Rightarrow> int \<Rightarrow> int \<Rightarrow> ('s, unit) action"
  io_completed_matches :: "string \<Rightarrow> string \<Rightarrow> resume_binding \<Rightarrow> 's \<Rightarrow> bool"

definition mem_idem_ops :: "idem_state idem_ops" where
  "mem_idem_ops = \<lparr>io_claim = (\<lambda>q token clock dbnow. im_claim q token clock), io_finalize = im_finalize,
     io_renew = (\<lambda>c clock dbnow. im_renew c clock), io_abandon = im_abandon,
     io_completed_matches = im_completed_matches\<rparr>"

definition pg_idem_ops :: "idem_state idem_ops" where
  "pg_idem_ops = \<lparr>io_claim = ip_claim, io_finalize = ip_finalize, io_renew = (\<lambda>c clock dbnow. ip_renew c dbnow),
     io_abandon = ip_abandon, io_completed_matches = ip_completed_matches\<rparr>"

datatype idem_call =
    IdemClaim claim_request string int int
  | IdemFinalize idem_claim pyval
  | IdemRenew idem_claim int int
  | IdemAbandon string string resume_binding string string int int

datatype idem_result = ClaimResult claim_result | Finished | Renewed int | Failed exn

fun run_idem :: "'s idem_ops \<Rightarrow> idem_call \<Rightarrow> 's \<Rightarrow> idem_result \<times> 's" where
  "run_idem R (IdemClaim q token clock dbnow) s =
     (case io_claim R q token clock dbnow s of (Inl e, s') \<Rightarrow> (Failed e, s') | (Inr c, s') \<Rightarrow> (ClaimResult c, s'))"
| "run_idem R (IdemFinalize c v) s =
     (case io_finalize R c v s of (Inl e, s') \<Rightarrow> (Failed e, s') | (Inr u, s') \<Rightarrow> (Finished, s'))"
| "run_idem R (IdemRenew c clock dbnow) s =
     (case io_renew R c clock dbnow s of (Inl e, s') \<Rightarrow> (Failed e, s') | (Inr n, s') \<Rightarrow> (Renewed n, s'))"
| "run_idem R (IdemAbandon key thread b operator reason clock dbnow) s =
     (case io_abandon R key thread b operator reason clock dbnow s of
        (Inl e, s') \<Rightarrow> (Failed e, s') | (Inr u, s') \<Rightarrow> (Finished, s'))"

fun call_key :: "idem_call \<Rightarrow> string" where
  "call_key (IdemClaim q _ _ _) = rq_key q"
| "call_key (IdemFinalize c _) = ic_key c"
| "call_key (IdemRenew c _ _) = ic_key c"
| "call_key (IdemAbandon key _ _ _ _ _ _) = key"

fun run_idem_calls :: "'s idem_ops \<Rightarrow> idem_call list \<Rightarrow> 's \<Rightarrow> (idem_call \<times> idem_result) list \<times> 's" where
  "run_idem_calls R [] s = ([], s)"
| "run_idem_calls R (c # cs) s =
     (case run_idem R c s of (r, s1) \<Rightarrow>
        (case run_idem_calls R cs s1 of (rs, s') \<Rightarrow> ((c, r) # rs, s')))"

fun finalizes :: "string \<Rightarrow> idem_call \<Rightarrow> bool" where
  "finalizes key (IdemFinalize c _) \<longleftrightarrow> ic_key c = key"
| "finalizes _ _ \<longleftrightarrow> False"

lemma finalizes_iff: "finalizes key c \<longleftrightarrow> (\<exists>ic v. c = IdemFinalize ic v \<and> ic_key ic = key)"
  by (cases c) auto

definition finalized :: "string \<Rightarrow> (idem_call \<times> idem_result) list \<Rightarrow> nat" where
  "finalized key rs = length (filter (\<lambda>(c, r). finalizes key c \<and> r = Finished) rs)"

definition same_request :: "idem_record \<Rightarrow> claim_request \<Rightarrow> bool" where
  "same_request r q \<longleftrightarrow> ir_kind r = rq_kind q \<and> ir_body_hash r = rq_body_hash q \<and> ir_thread_id r = rq_thread_id q"

text \<open>
  The contract, in terms of the record \<open>view\<close> shows for a key: a call touches its own key; a
  finished record is final; finalizing needs the token on record; nothing else completes a
  record; tokens come from claims; a finished request is replayed.
\<close>

locale idempotency_repository =
  fixes R :: "'s idem_ops" and view :: "'s \<Rightarrow> string \<Rightarrow> idem_record option" and wf :: "'s \<Rightarrow> bool"
  assumes wf_law: "wf s \<Longrightarrow> run_idem R c s = (r, s') \<Longrightarrow> wf s'"
    and frame_law: "run_idem R c s = (r, s') \<Longrightarrow> k \<noteq> call_key c \<Longrightarrow> view s' k = view s k"
    and final_law: "wf s \<Longrightarrow> run_idem R c s = (r, s') \<Longrightarrow> view s k = Some x \<Longrightarrow> ir_state x \<noteq> ''in_progress'' \<Longrightarrow>
      view s' k = Some x"
    and finalize_law: "run_idem R (IdemFinalize ic v) s = (Finished, s') \<Longrightarrow>
      \<exists>x. view s (ic_key ic) = Some x \<and> ir_state x = ''in_progress'' \<and> ir_token x = ic_token ic \<and>
        view s' (ic_key ic) = Some (x\<lparr>ir_state := ''completed'', ir_response := Some v\<rparr>)"
    and token_law: "run_idem R c s = (r, s') \<Longrightarrow> view s' k = Some y \<Longrightarrow> ir_state y = ''in_progress'' \<Longrightarrow>
      (\<exists>x. view s k = Some x \<and> ir_state x = ''in_progress'' \<and> ir_token x = ir_token y) \<or>
      (\<exists>q clock dbnow. c = IdemClaim q (ir_token y) clock dbnow \<and> rq_key q = k)"
    and replay_law: "wf s \<Longrightarrow> run_idem R (IdemClaim q token clock dbnow) s = (r, s') \<Longrightarrow>
      view s (rq_key q) = Some x \<Longrightarrow> ir_state x = ''completed'' \<Longrightarrow> same_request x q \<Longrightarrow>
      \<exists>v. ir_response x = Some v \<and> r = ClaimResult (Replay v)"
begin

lemma calls_wf: "wf s \<Longrightarrow> run_idem_calls R cs s = (rs, s') \<Longrightarrow> wf s'"
proof (induction cs arbitrary: s rs s')
  case (Cons c cs)
  obtain r s1 where run: "run_idem R c s = (r, s1)" by (cases "run_idem R c s")
  from Cons wf_law [OF Cons.prems(1) run] run show ?case by (auto split: prod.splits)
qed simp

lemma calls_final:
  "wf s \<Longrightarrow> run_idem_calls R cs s = (rs, s') \<Longrightarrow> view s k = Some x \<Longrightarrow> ir_state x \<noteq> ''in_progress'' \<Longrightarrow>
     view s' k = Some x \<and> finalized k rs = 0"
proof (induction cs arbitrary: s rs s')
  case Nil
  then show ?case by (auto simp: finalized_def)
next
  case (Cons c cs)
  obtain r s1 where run: "run_idem R c s = (r, s1)" by (cases "run_idem R c s")
  obtain rs1 s2 where rest: "run_idem_calls R cs s1 = (rs1, s2)" by (cases "run_idem_calls R cs s1")
  have "\<not> ((\<exists>ic v. c = IdemFinalize ic v \<and> ic_key ic = k) \<and> r = Finished)"
    using finalize_law [of _ _ s s1] run Cons.prems(3,4) by fastforce
  moreover have "view s2 k = Some x \<and> finalized k rs1 = 0"
    using Cons.IH [OF wf_law [OF Cons.prems(1) run] rest final_law [OF Cons.prems(1) run Cons.prems(3,4)] Cons.prems(4)] .
  ultimately show ?case using Cons.prems(2) by (auto simp: run rest finalized_def finalizes_iff)
qed

lemma calls_finalized:
  "wf s \<Longrightarrow> run_idem_calls R cs s = (rs, s') \<Longrightarrow> finalized k rs \<le> 1"
proof (induction cs arbitrary: s rs s')
  case Nil
  then show ?case by (auto simp: finalized_def)
next
  case (Cons c cs)
  obtain r s1 where run: "run_idem R c s = (r, s1)" by (cases "run_idem R c s")
  obtain rs1 s2 where rest: "run_idem_calls R cs s1 = (rs1, s2)" by (cases "run_idem_calls R cs s1")
  have wf1: "wf s1" by (rule wf_law [OF Cons.prems(1) run])
  show ?case
  proof (cases "(\<exists>ic v. c = IdemFinalize ic v \<and> ic_key ic = k) \<and> r = Finished")
    case True
    then obtain ic v where fin: "run_idem R (IdemFinalize ic v) s = (Finished, s1)" "ic_key ic = k"
      using run by auto
    from finalize_law [OF fin(1)] obtain x where "view s1 k = Some (x\<lparr>ir_state := ''completed'', ir_response := Some v\<rparr>)"
      using fin(2) by auto
    from calls_final [OF wf1 rest this] have "finalized k rs1 = 0" by simp
    with Cons.prems(2) show ?thesis by (auto simp: run rest finalized_def finalizes_iff)
  next
    case False
    with Cons.prems(2) Cons.IH [OF wf1 rest] show ?thesis by (auto simp: run rest finalized_def finalizes_iff)
  qed
qed

text \<open>A finished request is replayed after any calls.\<close>

lemma calls_replay:
  assumes wf: "wf s" and calls: "run_idem_calls R cs s = (rs, s')"
    and finished: "view s (rq_key q) = Some x" "ir_state x = ''completed''" "same_request x q"
  shows "\<exists>v. ir_response x = Some v \<and> fst (run_idem R (IdemClaim q token clock dbnow) s') = ClaimResult (Replay v)"
proof -
  have "view s' (rq_key q) = Some x" using calls_final [OF wf calls finished(1)] finished(2) by simp
  from replay_law [OF calls_wf [OF wf calls] surjective_pairing this finished(2,3)] show ?thesis by simp
qed

text \<open>A claim whose token is no longer on record never finalizes, as long as the token is not issued again.\<close>

lemma calls_stale:
  "run_idem_calls R cs s = (rs, s') \<Longrightarrow>
   (\<forall>x. view s (ic_key c) = Some x \<longrightarrow> ir_state x = ''in_progress'' \<longrightarrow> ir_token x \<noteq> ic_token c) \<Longrightarrow>
   \<forall>q clock dbnow. IdemClaim q (ic_token c) clock dbnow \<notin> set cs \<Longrightarrow>
   (\<forall>v. (IdemFinalize c v, Finished) \<notin> set rs) \<and>
   (\<forall>x. view s' (ic_key c) = Some x \<longrightarrow> ir_state x = ''in_progress'' \<longrightarrow> ir_token x \<noteq> ic_token c)"
proof (induction cs arbitrary: s rs s')
  case Nil
  then show ?case by simp
next
  case (Cons call cs)
  obtain r s1 where run: "run_idem R call s = (r, s1)" by (cases "run_idem R call s")
  obtain rs1 s2 where rest: "run_idem_calls R cs s1 = (rs1, s2)" by (cases "run_idem_calls R cs s1")
  have "ir_token y \<noteq> ic_token c" if y: "view s1 (ic_key c) = Some y" "ir_state y = ''in_progress''" for y
  proof
    assume same: "ir_token y = ic_token c"
    from token_law [OF run y] consider (held) x where "view s (ic_key c) = Some x" "ir_state x = ''in_progress''"
        "ir_token x = ir_token y" | (issued) q clock dbnow where "call = IdemClaim q (ir_token y) clock dbnow" by blast
    then show False
    proof cases
      case held
      with Cons.prems(2) same show ?thesis by simp
    next
      case issued
      with Cons.prems(3) same show ?thesis by (metis list.set_intros(1))
    qed
  qed
  with Cons.IH [OF rest] Cons.prems(3) have IH: "(\<forall>v. (IdemFinalize c v, Finished) \<notin> set rs1) \<and>
      (\<forall>x. view s2 (ic_key c) = Some x \<longrightarrow> ir_state x = ''in_progress'' \<longrightarrow> ir_token x \<noteq> ic_token c)" by simp
  moreover have "\<not> (call = IdemFinalize c v \<and> r = Finished)" for v
  proof
    assume "call = IdemFinalize c v \<and> r = Finished"
    with run have "run_idem R (IdemFinalize c v) s = (Finished, s1)" by simp
    from finalize_law [OF this] Cons.prems(2) show False by blast
  qed
  moreover from Cons.prems(1) have "rs = (call, r) # rs1" "s' = s2" by (simp_all add: run rest)
  ultimately show ?case by simp blast
qed

end

section \<open>The steps both repositories take\<close>

text \<open>
  What a call may answer and do: the specification of one transaction. A refusal changes nothing;
  every other answer belongs to one rule.
\<close>

definition open_record :: "idem_record \<Rightarrow> bool" where
  "open_record r \<longleftrightarrow> ir_state r \<noteq> ''completed'' \<and> ir_state r \<noteq> ''abandoned''"

definition with_claim :: "claim_request \<Rightarrow> idem_record \<Rightarrow> idem_state \<Rightarrow> idem_state" where
  "with_claim q r s =
     (case rq_binding q of None \<Rightarrow> put_record (rq_key q) r s
      | Some b \<Rightarrow> (put_record (rq_key q) r s)
          \<lparr>is_bindings := dict_set (rq_thread_id q, rsb_comment_id b) (rq_body_hash q, b) (is_bindings s)\<rparr>)"

inductive idem_step :: "idem_call \<Rightarrow> idem_result \<Rightarrow> idem_state \<Rightarrow> idem_state \<Rightarrow> bool" where
  refused: "idem_step c (Failed e) s s"
| replayed: "dict_get (is_records s) (rq_key q) = Some x \<Longrightarrow> ir_state x = ''completed'' \<Longrightarrow> same_request x q \<Longrightarrow>
    ir_response x = Some v \<Longrightarrow> idem_step (IdemClaim q token clock dbnow) (ClaimResult (Replay v)) s s"
| reclaimed: "dict_get (is_records s) (rq_key q) = Some x \<Longrightarrow> open_record x \<Longrightarrow> same_request x q \<Longrightarrow>
    ir_lease_expires_at x \<le> clock \<Longrightarrow>
    idem_step (IdemClaim q token clock dbnow) (ClaimResult (granted q token expires True)) s
      (put_record (rq_key q) (x\<lparr>ir_token := token, ir_lease_expires_at := expires\<rparr>) s)"
| claimed: "dict_get (is_records s) (rq_key q) = None \<Longrightarrow> thread_owner (rq_thread_id q) (is_records s) = None \<Longrightarrow>
    (rq_kind q = StartClaim \<longrightarrow> \<not> thread_started (rq_thread_id q) (is_records s)) \<Longrightarrow>
    idem_step (IdemClaim q token clock dbnow) (ClaimResult (granted q token expires False)) s
      (with_claim q (new_record q token expires) s)"
| completed: "dict_get (is_records s) (ic_key c) = Some x \<Longrightarrow> ir_state x = ''in_progress'' \<Longrightarrow> ir_token x = ic_token c \<Longrightarrow>
    idem_step (IdemFinalize c v) Finished s
      (put_record (ic_key c) (x\<lparr>ir_state := ''completed'', ir_response := Some v\<rparr>) s)"
| renewed: "dict_get (is_records s) (ic_key c) = Some x \<Longrightarrow> ir_state x = ''in_progress'' \<Longrightarrow> ir_token x = ic_token c \<Longrightarrow>
    idem_step (IdemRenew c clock dbnow) (Renewed expires) s
      (put_record (ic_key c) (x\<lparr>ir_lease_expires_at := expires\<rparr>) s)"
| abandoned_again: "dict_get (is_records s) key = Some x \<Longrightarrow> ir_state x = ''abandoned'' \<Longrightarrow>
    idem_step (IdemAbandon key thread b operator reason clock dbnow) Finished s s"
| abandoned: "dict_get (is_records s) key = Some x \<Longrightarrow> open_record x \<Longrightarrow> ir_kind x = ResumeClaim \<Longrightarrow>
    ir_lease_expires_at x \<le> clock \<Longrightarrow> response = None \<or> response = ir_response x \<Longrightarrow>
    idem_step (IdemAbandon key thread b operator reason clock dbnow) Finished s
      (put_record key (x\<lparr>ir_state := ''abandoned'', ir_response := response, ir_token := [], ir_lease_expires_at := released,
         ir_abandoned_by := Some (py_strip operator), ir_abandonment_reason := Some (py_strip reason)\<rparr>) s)"

inductive_cases finalize_stepE: "idem_step (IdemFinalize c v) Finished s s'"

lemmas claim_steps = refused replayed reclaimed claimed
lemmas idem_tests = validate_identity_def raise_if_def same_request_def open_record_def

lemma im_insert_with_claim:
  "im_insert q token clock s = (Inr (granted q token (clock + is_lease s) False),
     with_claim q (new_record q token (clock + is_lease s)) s)"
  by (simp add: im_insert_def with_claim_def put_record_def Let_def split: option.split)

lemma ip_insert_with_claim:
  "ip_insert q token dbnow s =
     (if rq_binding q \<noteq> None \<and> dict_get (is_bindings s) (rq_thread_id q, rsb_comment_id (the (rq_binding q))) \<noteq> None
      then (Inl (DatabaseError ''unique constraint violation''), s)
      else (Inr (granted q token (dbnow + is_lease s) False), with_claim q (new_record q token (dbnow + is_lease s)) s))"
  by (simp add: ip_insert_def with_claim_def put_record_def Let_def split: option.split)

lemma mem_claim_step:
  "run_idem mem_idem_ops (IdemClaim q token clock dbnow) s = (r, s') \<Longrightarrow> idem_step (IdemClaim q token clock dbnow) r s s'"
  by (auto simp: mem_idem_ops_def im_claim_def im_reclaim_def im_insert_with_claim idem_tests not_less
      intro: claim_steps split: option.splits if_splits sum.splits)

lemma pg_claim_step:
  "run_idem pg_idem_ops (IdemClaim q token clock dbnow) s = (r, s') \<Longrightarrow> idem_step (IdemClaim q token clock dbnow) r s s'"
  by (auto simp: pg_idem_ops_def ip_claim_def ip_reclaim_def ip_insert_with_claim idem_tests not_less
      intro: claim_steps split: option.splits if_splits sum.splits)

lemma abandoned_keep:
  assumes "dict_get (is_records s) key = Some x" "open_record x" "ir_kind x = ResumeClaim" "ir_lease_expires_at x \<le> clock"
  shows "idem_step (IdemAbandon key thread b operator reason clock dbnow) Finished s
      (put_record key (x\<lparr>ir_state := ''abandoned'', ir_token := [], ir_lease_expires_at := released,
         ir_abandoned_by := Some (py_strip operator), ir_abandonment_reason := Some (py_strip reason)\<rparr>) s)"
proof -
  have "x\<lparr>ir_state := ''abandoned'', ir_response := ir_response x, ir_token := [], ir_lease_expires_at := released,
         ir_abandoned_by := Some (py_strip operator), ir_abandonment_reason := Some (py_strip reason)\<rparr> =
       x\<lparr>ir_state := ''abandoned'', ir_token := [], ir_lease_expires_at := released,
         ir_abandoned_by := Some (py_strip operator), ir_abandonment_reason := Some (py_strip reason)\<rparr>"
    by (cases x) simp
  with abandoned [OF assms, of "ir_response x" thread b operator reason dbnow released] show ?thesis by simp
qed

lemma mem_step: "run_idem mem_idem_ops c s = (r, s') \<Longrightarrow> idem_step c r s s'"
proof (cases c)
  case IdemClaim
  then show "run_idem mem_idem_ops c s = (r, s') \<Longrightarrow> ?thesis" by (simp add: mem_claim_step)
qed (auto simp: mem_idem_ops_def im_finalize_def im_renew_def im_abandon_def held_record_def Let_def idem_tests not_less
      intro: refused completed renewed abandoned_again abandoned_keep split: option.splits if_splits sum.splits)

lemma pg_step: "run_idem pg_idem_ops c s = (r, s') \<Longrightarrow> idem_step c r s s'"
proof (cases c)
  case IdemClaim
  then show "run_idem pg_idem_ops c s = (r, s') \<Longrightarrow> ?thesis" by (simp add: pg_claim_step)
qed (auto simp: pg_idem_ops_def ip_finalize_def ip_renew_def ip_abandon_def ip_update_held_def Let_def idem_tests not_less
      intro: refused completed renewed abandoned_again abandoned split: option.splits if_splits sum.splits)

section \<open>The invariant\<close>

definition record_ok :: "idem_record \<Rightarrow> bool" where
  "record_ok r \<longleftrightarrow> ir_state r \<in> {''in_progress'', ''completed'', ''abandoned''} \<and>
     (ir_response r \<noteq> None \<longleftrightarrow> ir_state r = ''completed'') \<and>
     (ir_state r = ''abandoned'' \<longleftrightarrow> ir_abandoned_by r \<noteq> None) \<and>
     (ir_state r = ''abandoned'' \<longleftrightarrow> ir_abandonment_reason r \<noteq> None)"

text \<open>Two records that may not both exist: two unfinished ones, or two starts, of one thread.\<close>

definition rivals :: "idem_record \<Rightarrow> idem_record \<Rightarrow> bool" where
  "rivals r r' \<longleftrightarrow> ir_thread_id r = ir_thread_id r' \<and>
     (ir_state r = ''in_progress'' \<and> ir_state r' = ''in_progress'' \<or> ir_kind r = StartClaim \<and> ir_kind r' = StartClaim)"

definition records_ok :: "(string \<Rightarrow> idem_record option) \<Rightarrow> bool" where
  "records_ok m \<longleftrightarrow> (\<forall>k r. m k = Some r \<longrightarrow> record_ok r) \<and>
     (\<forall>k k' r r'. m k = Some r \<longrightarrow> m k' = Some r' \<longrightarrow> rivals r r' \<longrightarrow> k = k')"

definition bindings_ok :: "(string \<times> int \<Rightarrow> (string \<times> resume_binding) option) \<Rightarrow> bool" where
  "bindings_ok m \<longleftrightarrow> (\<forall>t n h b. m (t, n) = Some (h, b) \<longrightarrow> rsb_comment_id b = n)"

definition idem_wf :: "idem_state \<Rightarrow> bool" where
  "idem_wf s \<longleftrightarrow> records_ok (dict_get (is_records s)) \<and> bindings_ok (dict_get (is_bindings s))"

lemma records_ok_update:
  assumes m: "records_ok m" and r: "record_ok r" and alone: "\<And>k' r'. m k' = Some r' \<Longrightarrow> rivals r r' \<Longrightarrow> k' = k"
  shows "records_ok (m(k \<mapsto> r))"
proof -
  have "rivals r' r \<Longrightarrow> rivals r r'" for r' by (auto simp: rivals_def)
  with m r alone show ?thesis unfolding records_ok_def by (auto split: if_splits)
qed

text \<open>A record replaced by a later state of itself.\<close>

lemma records_ok_advance:
  assumes m: "records_ok m" and x: "m k = Some x" and r: "record_ok r"
    and same: "ir_kind r = ir_kind x" "ir_thread_id r = ir_thread_id x"
    and later: "ir_state r = ''in_progress'' \<Longrightarrow> ir_state x = ''in_progress''"
  shows "records_ok (m(k \<mapsto> r))"
proof (rule records_ok_update [OF m r])
  fix k' r'
  assume r': "m k' = Some r'" "rivals r r'"
  then have "rivals x r'" using same later by (auto simp: rivals_def)
  with m x r' show "k' = k" unfolding records_ok_def by blast
qed

lemma idem_wf_advance:
  assumes wf: "idem_wf s" and x: "dict_get (is_records s) k = Some x" and "record_ok r"
    "ir_kind r = ir_kind x" "ir_thread_id r = ir_thread_id x" "ir_state r = ''in_progress'' \<Longrightarrow> ir_state x = ''in_progress''"
  shows "idem_wf (put_record k r s)"
  using records_ok_advance [where m = "dict_get (is_records s)", OF _ x assms(3-6)] wf by (simp add: idem_wf_def put_record_def dict_simps fun_upd_def)

lemma idem_wf_record: "idem_wf s \<Longrightarrow> dict_get (is_records s) k = Some x \<Longrightarrow> record_ok x"
  by (auto simp: idem_wf_def records_ok_def)

lemma thread_owner_None:
  "thread_owner t d = None \<Longrightarrow> dict_get d k = Some r \<Longrightarrow> ir_thread_id r = t \<Longrightarrow> ir_state r \<noteq> ''in_progress''"
  by (force simp: thread_owner_def find_None_iff dest: map_of_SomeD)

lemma not_thread_started:
  "\<not> thread_started t d \<Longrightarrow> dict_get d k = Some r \<Longrightarrow> ir_thread_id r = t \<Longrightarrow> ir_kind r \<noteq> StartClaim"
  by (force simp: thread_started_def list_ex_iff dest: map_of_SomeD)

lemma claimed_wf:
  assumes wf: "idem_wf s" and free: "thread_owner (rq_thread_id q) (is_records s) = None"
    and first: "rq_kind q = StartClaim \<longrightarrow> \<not> thread_started (rq_thread_id q) (is_records s)"
  shows "idem_wf (with_claim q (new_record q token expires) s)"
proof -
  let ?r = "new_record q token expires"
  have "records_ok ((dict_get (is_records s))(rq_key q \<mapsto> ?r))"
  proof (rule records_ok_update)
    show "records_ok (dict_get (is_records s))" using wf by (simp add: idem_wf_def)
    show "record_ok ?r" by (simp add: record_ok_def new_record_def)
    fix k' r'
    assume r': "dict_get (is_records s) k' = Some r'" "rivals ?r r'"
    then have t: "ir_thread_id r' = rq_thread_id q" by (simp add: rivals_def new_record_def)
    have "ir_state r' \<noteq> ''in_progress''" by (rule thread_owner_None [OF free r'(1) t])
    moreover have "rq_kind q = StartClaim \<Longrightarrow> ir_kind r' \<noteq> StartClaim"
      using first not_thread_started [OF _ r'(1) t] by blast
    ultimately show "k' = rq_key q" using r'(2) by (simp add: rivals_def new_record_def)
  qed
  then show ?thesis using wf
    by (auto simp: idem_wf_def with_claim_def put_record_def dict_simps fun_upd_def bindings_ok_def split: option.splits)
qed

lemma idem_step_wf: "idem_step c r s s' \<Longrightarrow> idem_wf s \<Longrightarrow> idem_wf s'"
proof (induction rule: idem_step.induct)
  case (claimed s q token clock dbnow expires)
  then show ?case by (simp add: claimed_wf)
next
  case (reclaimed s q x clock token dbnow expires)
  with idem_wf_record [OF reclaimed(5,1)] show ?case
    by (intro idem_wf_advance [OF reclaimed(5,1)]) (auto simp: record_ok_def)
next
  case (completed s c x v)
  with idem_wf_record [OF completed(4,1)] show ?case
    by (intro idem_wf_advance [OF completed(4,1)]) (auto simp: record_ok_def)
next
  case (renewed s c x clock dbnow expires)
  with idem_wf_record [OF renewed(4,1)] show ?case
    by (intro idem_wf_advance [OF renewed(4,1)]) (auto simp: record_ok_def)
next
  case (abandoned s key x clock response thread b operator reason dbnow released)
  with idem_wf_record [OF abandoned(6,1)] show ?case
    by (intro idem_wf_advance [OF abandoned(6,1)]) (auto simp: record_ok_def open_record_def)
qed auto

section \<open>The laws\<close>

definition record_of :: "idem_state \<Rightarrow> string \<Rightarrow> idem_record option" where
  "record_of s k = dict_get (is_records s) k"

lemma record_of_put [simp]: "record_of (put_record key r s) = (record_of s)(key \<mapsto> r)"
  by (rule ext) (simp add: record_of_def put_record_def dict_simps)

lemma record_of_claim [simp]: "record_of (with_claim q r s) = (record_of s)(rq_key q \<mapsto> r)"
  by (rule ext) (simp add: record_of_def with_claim_def put_record_def dict_simps split: option.split)

lemma step_frame: "idem_step c r s s' \<Longrightarrow> k \<noteq> call_key c \<Longrightarrow> record_of s' k = record_of s k"
  by (induction rule: idem_step.induct) auto

lemma step_final:
  "idem_step c r s s' \<Longrightarrow> idem_wf s \<Longrightarrow> record_of s k = Some x \<Longrightarrow> ir_state x \<noteq> ''in_progress'' \<Longrightarrow> record_of s' k = Some x"
proof (induction rule: idem_step.induct)
  case (reclaimed s q y clock token dbnow expires)
  with idem_wf_record [OF reclaimed(5,1)] show ?case by (auto simp: record_of_def record_ok_def open_record_def)
next
  case (abandoned s key y clock response thread b operator reason dbnow released)
  with idem_wf_record [OF abandoned(6,1)] show ?case by (auto simp: record_of_def record_ok_def open_record_def)
qed (auto simp: record_of_def)

lemma step_finalize:
  "idem_step (IdemFinalize ic v) Finished s s' \<Longrightarrow>
   \<exists>x. record_of s (ic_key ic) = Some x \<and> ir_state x = ''in_progress'' \<and> ir_token x = ic_token ic \<and>
     record_of s' (ic_key ic) = Some (x\<lparr>ir_state := ''completed'', ir_response := Some v\<rparr>)"
  by (erule finalize_stepE) (auto simp: record_of_def)

lemma step_token:
  "idem_step c r s s' \<Longrightarrow> record_of s' k = Some y \<Longrightarrow> ir_state y = ''in_progress'' \<Longrightarrow>
   (\<exists>x. record_of s k = Some x \<and> ir_state x = ''in_progress'' \<and> ir_token x = ir_token y) \<or>
   (\<exists>q clock dbnow. c = IdemClaim q (ir_token y) clock dbnow \<and> rq_key q = k)"
  by (induction rule: idem_step.induct) (auto simp: record_of_def new_record_def split: if_splits)

lemma completed_response:
  "idem_wf s \<Longrightarrow> record_of s k = Some x \<Longrightarrow> ir_state x = ''completed'' \<Longrightarrow> \<exists>v. ir_response x = Some v"
  by (auto simp: record_of_def record_ok_def dest: idem_wf_record)

interpretation mem_idem: idempotency_repository mem_idem_ops record_of idem_wf
proof (unfold_locales, goal_cases)
  case (1 s c r s') then show ?case by (rule idem_step_wf [OF mem_step, rotated])
next
  case (2 c s r s' k) then show ?case by (rule step_frame [OF mem_step])
next
  case (3 s c r s' k x) then show ?case by (metis step_final mem_step)
next
  case (4 ic v s s') then show ?case by (rule step_finalize [OF mem_step])
next
  case (5 c s r s' k y) then show ?case by (rule step_token [OF mem_step])
next
  case (6 s q token clock dbnow r s' x)
  from completed_response [OF 6(1,3,4)] 6 show ?case
    by (auto simp: mem_idem_ops_def im_claim_def im_reclaim_def idem_tests record_of_def)
qed

interpretation pg_idem: idempotency_repository pg_idem_ops record_of idem_wf
proof (unfold_locales, goal_cases)
  case (1 s c r s') then show ?case by (rule idem_step_wf [OF pg_step, rotated])
next
  case (2 c s r s' k) then show ?case by (rule step_frame [OF pg_step])
next
  case (3 s c r s' k x) then show ?case by (metis step_final pg_step)
next
  case (4 ic v s s') then show ?case by (rule step_finalize [OF pg_step])
next
  case (5 c s r s' k y) then show ?case by (rule step_token [OF pg_step])
next
  case (6 s q token clock dbnow r s' x)
  from completed_response [OF 6(1,3,4)] 6 show ?case
    by (auto simp: pg_idem_ops_def ip_claim_def ip_reclaim_def idem_tests record_of_def)
qed

section \<open>Agreement of the repositories\<close>

lemma binding_differs: "rsb_comment_id b = rsb_comment_id b' \<Longrightarrow> ip_binding_differs h b (h', b') \<longleftrightarrow> (h', b') \<noteq> (h, b)"
  by (cases b; cases b') (auto simp: ip_binding_differs_def)

lemma bindings_at:
  "idem_wf s \<Longrightarrow> dict_get (is_bindings s) (t, n) = Some (h, b) \<Longrightarrow> rsb_comment_id b = n"
  by (auto simp: idem_wf_def bindings_ok_def)

lemma assert_binding_eq: "idem_wf s \<Longrightarrow> ip_assert_binding q s = im_assert_binding q s"
  unfolding ip_assert_binding_def im_assert_binding_def
  by (auto split: option.split simp: binding_differs bindings_at raise_if_def)

text \<open>Where the two agree: one clock, an attribution both accept, and no binding inserted twice.\<close>

fun portable :: "idem_call \<Rightarrow> idem_state \<Rightarrow> bool" where
  "portable (IdemClaim q _ clock dbnow) s \<longleftrightarrow> clock = dbnow \<and>
     (dict_get (is_records s) (rq_key q) \<noteq> None \<or>
      (case rq_binding q of None \<Rightarrow> True
       | Some b \<Rightarrow> dict_get (is_bindings s) (rq_thread_id q, rsb_comment_id b) = None))"
| "portable (IdemFinalize _ _) s \<longleftrightarrow> True"
| "portable (IdemRenew _ clock dbnow) s \<longleftrightarrow> clock = dbnow"
| "portable (IdemAbandon _ _ _ operator reason clock dbnow) s \<longleftrightarrow> clock = dbnow \<and>
     py_strip operator \<noteq> [] \<and> py_strip reason \<noteq> [] \<and> length operator \<le> 255 \<and> length reason \<le> 1024"

lemma reclaim_agree:
  "idem_wf s \<Longrightarrow> dict_get (is_records s) (rq_key q) = Some x \<Longrightarrow> ip_reclaim q token now now x s = im_reclaim q token now x s"
  using completed_response [of s "rq_key q" x]
  by (auto simp: ip_reclaim_def im_reclaim_def record_of_def split: sum.split option.split)

lemma claim_agree:
  assumes wf: "idem_wf s" and ok: "portable (IdemClaim q token now now) s"
  shows "ip_claim q token now now s = im_claim q token now s"
proof (cases "dict_get (is_records s) (rq_key q)")
  case None
  with ok have "ip_insert q token now s = im_insert q token now s"
    by (simp add: ip_insert_with_claim im_insert_with_claim split: option.splits)
  with None wf show ?thesis
    by (auto simp: ip_claim_def im_claim_def assert_binding_eq split: option.split sum.split)
next
  case (Some x)
  with wf show ?thesis by (simp add: ip_claim_def im_claim_def reclaim_agree)
qed

lemma update_held: "ip_update_held c f s = map_option (\<lambda>r. put_record (ic_key c) (f r) s) (held_record c s)"
  by (simp add: ip_update_held_def held_record_def split: option.split)

lemma finalize_agree: "ip_finalize c v s = im_finalize c v s"
  by (simp add: ip_finalize_def im_finalize_def update_held split: option.split)

lemma renew_agree: "ip_renew c now s = im_renew c now s"
  by (simp add: ip_renew_def im_renew_def update_held split: option.split)

lemma binding_lookup_agree:
  assumes wf: "idem_wf s"
  shows "(case dict_get (is_bindings s) (t, rsb_comment_id b) of None \<Rightarrow> True | Some rb \<Rightarrow> ip_binding_differs h b rb) \<longleftrightarrow>
    dict_get (is_bindings s) (t, rsb_comment_id b) \<noteq> Some (h, b)"
  using bindings_at [OF wf] by (auto simp: binding_differs split: option.split)

lemma abandoned_record:
  "record_ok x \<Longrightarrow> ir_state x \<noteq> ''completed'' \<Longrightarrow> x\<lparr>ir_state := st, ir_response := None\<rparr> = x\<lparr>ir_state := st\<rparr>"
  by (cases x) (auto simp: record_ok_def)

lemma abandon_agree:
  assumes wf: "idem_wf s" and ok: "portable (IdemAbandon key thread b operator reason now now) s"
  shows "ip_abandon key thread b operator reason now now s = im_abandon key thread b operator reason now now s"
proof (cases "dict_get (is_records s) key")
  case None
  with ok show ?thesis by (simp add: ip_abandon_def im_abandon_def Let_def)
next
  case (Some x)
  from idem_wf_record [OF wf Some] have x: "record_ok x" .
  then have st: "ir_state x \<noteq> ''completed'' \<Longrightarrow> ir_state x \<noteq> ''abandoned'' \<Longrightarrow> ir_state x = ''in_progress''"
    by (auto simp: record_ok_def)
  from ok have "\<not> (py_strip operator = [] \<or> 255 < length operator)" "\<not> (py_strip reason = [] \<or> 1024 < length reason)"
    "\<not> (py_strip operator = [] \<or> py_strip reason = [])" by auto
  with Some st x show ?thesis
    unfolding ip_abandon_def im_abandon_def Let_def binding_lookup_agree [OF wf]
    by (simp add: abandoned_record binding_lookup_agree [OF wf])
qed

text \<open>The case the agreement leaves out: an identical binding that is there already.\<close>

lemma rebinding_splits:
  assumes "dict_get (is_records s) (rq_key q) = None" "thread_owner (rq_thread_id q) (is_records s) = None"
    and "rq_kind q = ResumeClaim" "rq_binding q = Some b"
    and "dict_get (is_bindings s) (rq_thread_id q, rsb_comment_id b) = Some (rq_body_hash q, b)"
  shows "fst (im_claim q token clock s) = Inr (granted q token (clock + is_lease s) False)"
    and "ip_claim q token clock dbnow s = (Inl (DatabaseError ''unique constraint violation''), s)"
  using assms by (simp_all add: im_claim_def ip_claim_def im_assert_binding_def ip_assert_binding_def raise_if_def
      ip_binding_differs_def im_insert_with_claim ip_insert_with_claim)

section \<open>Properties\<close>

definition no_requests :: "int \<Rightarrow> idem_state" where
  "no_requests lease = \<lparr>is_lease = lease, is_records = [], is_bindings = []\<rparr>"

lemma no_requests_wf: "idem_wf (no_requests lease)"
  by (simp add: no_requests_def idem_wf_def records_ok_def bindings_ok_def)

text \<open>
  C32: whatever calls either repository serves, starting without requests, at most one finalization
  of a key succeeds, and no thread has two unfinished requests or two start requests.
\<close>

theorem request_completes_once:
  assumes "R = mem_idem_ops \<or> R = pg_idem_ops"
    and "run_idem_calls R cs (no_requests lease) = (rs, s)"
  shows "finalized k rs \<le> 1 \<and>
    (\<forall>key x key' x'. record_of s key = Some x \<and> record_of s key' = Some x' \<and> rivals x x' \<longrightarrow> key = key')"
proof -
  have "finalized k rs \<le> 1" "idem_wf s"
    using assms mem_idem.calls_finalized pg_idem.calls_finalized mem_idem.calls_wf pg_idem.calls_wf no_requests_wf by blast+
  then show ?thesis by (auto simp: idem_wf_def records_ok_def record_of_def)
qed

text \<open>
  C33: a completed request keeps its record through any later calls, and every later claim for the
  same key, kind, thread and body answers the stored response.
\<close>

theorem completed_request_replayed:
  assumes R: "R = mem_idem_ops \<or> R = pg_idem_ops" and wf: "idem_wf s"
    and calls: "run_idem_calls R cs s = (rs, s')"
    and x: "record_of s (rq_key q) = Some x" "ir_state x = ''completed''" "same_request x q"
  shows "record_of s' (rq_key q) = Some x \<and>
    (\<exists>v. ir_response x = Some v \<and> fst (run_idem R (IdemClaim q token clock dbnow) s') = ClaimResult (Replay v))"
  using R
proof
  assume R: "R = mem_idem_ops"
  have "ir_state x \<noteq> ''in_progress''" using x(2) by simp
  with mem_idem.calls_final [OF wf calls [unfolded R] x(1)] mem_idem.calls_replay [OF wf calls [unfolded R] x] R
  show ?thesis by simp
next
  assume R: "R = pg_idem_ops"
  have "ir_state x \<noteq> ''in_progress''" using x(2) by simp
  with pg_idem.calls_final [OF wf calls [unfolded R] x(1)] pg_idem.calls_replay [OF wf calls [unfolded R] x] R
  show ?thesis by simp
qed

text \<open>
  once a claim's token is off its record, because another process recovered the lease, no later
  finalization with that claim succeeds as long as the token is not drawn again.
\<close>

theorem lost_claim_never_finalizes:
  assumes "R = mem_idem_ops \<or> R = pg_idem_ops" and "run_idem_calls R cs s = (rs, s')"
    and "\<forall>x. record_of s (ic_key c) = Some x \<longrightarrow> ir_state x = ''in_progress'' \<longrightarrow> ir_token x \<noteq> ic_token c"
    and "\<forall>q clock dbnow. IdemClaim q (ic_token c) clock dbnow \<notin> set cs"
  shows "(IdemFinalize c v, Finished) \<notin> set rs"
  using assms mem_idem.calls_stale [of cs s rs s' c] pg_idem.calls_stale [of cs s rs s' c] by blast


section \<open>Witnesses\<close>

definition ex_resume :: "string \<Rightarrow> string \<Rightarrow> claim_request" where
  "ex_resume key h = \<lparr>rq_kind = ResumeClaim, rq_key = key, rq_body_hash = h, rq_thread_id = ''t'',
     rq_binding = Some \<lparr>rsb_interrupt_id = ''i'', rsb_comment_id = 7, rsb_comment_created_at = 1\<rparr>\<rparr>"

definition ex_held :: idem_claim where
  "ex_held = \<lparr>ic_kind = ResumeClaim, ic_key = ''k'', ic_body_hash = ''h'', ic_thread_id = ''t'', ic_token = ''a'',
     ic_lease_expires_at = 30, ic_recovered = False\<rparr>"

text \<open>Claimed by one process, recovered by another after the lease, finalized by the second only.\<close>

definition ex_calls :: "idem_call list" where
  "ex_calls = [IdemClaim (ex_resume ''k'' ''h'') ''a'' 0 0, IdemClaim (ex_resume ''k'' ''h'') ''b'' 31 31,
     IdemFinalize ex_held PNone, IdemFinalize (ex_held\<lparr>ic_token := ''b''\<rparr>) PNone]"

definition ex_completed :: idem_state where
  "ex_completed = snd (run_idem_calls mem_idem_ops ex_calls (no_requests 30))"

lemma ex_completed_wf: "idem_wf ex_completed"
  unfolding ex_completed_def by (rule mem_idem.calls_wf [OF no_requests_wf surjective_pairing])

lemma request_completes_once_witness:
  "finalized ''k'' (fst (run_idem_calls mem_idem_ops ex_calls (no_requests 30))) \<le> 1 \<and>
   finalized ''k'' (fst (run_idem_calls mem_idem_ops ex_calls (no_requests 30))) = 1"
proof
  show "finalized ''k'' (fst (run_idem_calls mem_idem_ops ex_calls (no_requests 30))) \<le> 1"
    using request_completes_once [OF disjI1 [OF refl] surjective_pairing, of "''k''" ex_calls 30] by blast
  show "finalized ''k'' (fst (run_idem_calls mem_idem_ops ex_calls (no_requests 30))) = 1" by code_simp
qed

lemma completed_request_replayed_witness:
  "fst (run_idem mem_idem_ops (IdemClaim (ex_resume ''k'' ''h'') ''c'' 90 90)
     (snd (run_idem_calls mem_idem_ops [IdemFinalize ex_held PNone] ex_completed))) = ClaimResult (Replay PNone)"
proof -
  have "record_of ex_completed ''k'' = Some ((new_record (ex_resume ''k'' ''h'') ''b'' 61)\<lparr>ir_state := ''completed'', ir_response := Some PNone\<rparr>)"
    by code_simp
  with completed_request_replayed [OF disjI1 [OF refl] ex_completed_wf surjective_pairing, where q = "ex_resume ''k'' ''h''"
      and cs = "[IdemFinalize ex_held PNone]" and token = "''c''" and clock = 90 and dbnow = 90]
  show ?thesis by (simp add: ex_resume_def new_record_def same_request_def)
qed

lemma lost_claim_never_finalizes_witness:
  "(IdemFinalize ex_held PNone, Finished) \<notin>
     set (fst (run_idem_calls pg_idem_ops (drop 2 ex_calls) (snd (run_idem_calls pg_idem_ops (take 2 ex_calls) (no_requests 30)))))"
proof (rule lost_claim_never_finalizes [OF disjI2 [OF refl] surjective_pairing])
  have "record_of (snd (run_idem_calls pg_idem_ops (take 2 ex_calls) (no_requests 30))) ''k'' = Some (new_record (ex_resume ''k'' ''h'') ''b'' 61)"
    by code_simp
  then show "\<forall>x. record_of (snd (run_idem_calls pg_idem_ops (take 2 ex_calls) (no_requests 30))) (ic_key ex_held) = Some x \<longrightarrow>
      ir_state x = ''in_progress'' \<longrightarrow> ir_token x \<noteq> ic_token ex_held"
    by (simp add: ex_held_def new_record_def)
  show "\<forall>q clock dbnow. IdemClaim q (ic_token ex_held) clock dbnow \<notin> set (drop 2 ex_calls)"
    by (simp add: ex_calls_def)
qed


end
