(* ===== verification/Commands.thy ===== *)
theory Commands
  imports Prelude
begin

text \<open>
  The command gate of \<^verbatim>\<open>src/evals/scoring.py\<close>: which validation commands of a plan
  count as safe. A command line is split as \<^verbatim>\<open>shlex.split\<close> of the standard library
  splits it (POSIX mode, no comments), an observation suffix is dropped, and the tool and its
  arguments must be on an allowlist. \<open>escapes\<close> says what the gate must keep out.
\<close>

section \<open>Splitting a command line\<close>

definition squote :: char where "squote = CHR 0x27"
definition dquote :: char where "dquote = CHR 0x22"
definition backslash :: char where "backslash = CHR 0x5C"
definition slash :: char where "slash = CHR 0x2F"

lemmas char_consts = squote_def dquote_def backslash_def slash_def

definition is_shlex_space :: "char \<Rightarrow> bool" where
  "is_shlex_space c \<longleftrightarrow> c \<in> {CHR 0x20, CHR 0x09, CHR 0x0D, CHR 0x0A}"

definition is_quote :: "char \<Rightarrow> bool" where
  "is_quote c \<longleftrightarrow> c = squote \<or> c = dquote"

datatype shlex_state = Between | InWord | InQuote char | Escaping shlex_state

definition shlex_emit :: "string \<Rightarrow> bool \<Rightarrow> string list \<Rightarrow> string list" where
  "shlex_emit token quoted acc = (if token = [] \<and> \<not> quoted then acc else acc @ [token])"

text \<open>
  The character loop of \<^verbatim>\<open>read_token\<close>: the state, the token read so far, whether it was
  quoted, and the tokens already returned.
\<close>

fun shlex_loop :: "shlex_state \<Rightarrow> string \<Rightarrow> bool \<Rightarrow> string list \<Rightarrow> string \<Rightarrow> exn + string list" where
  "shlex_loop Between token quoted acc [] = Inr (shlex_emit token quoted acc)"
| "shlex_loop Between token quoted acc (c # cs) =
     (if is_shlex_space c then
        (if token \<noteq> [] \<or> quoted then shlex_loop Between [] False (shlex_emit token quoted acc) cs
         else shlex_loop Between token quoted acc cs)
      else if c = backslash then shlex_loop (Escaping InWord) token quoted acc cs
      else if is_quote c then shlex_loop (InQuote c) token quoted acc cs
      else shlex_loop InWord [c] quoted acc cs)"
| "shlex_loop InWord token quoted acc [] = Inr (shlex_emit token quoted acc)"
| "shlex_loop InWord token quoted acc (c # cs) =
     (if is_shlex_space c then
        (if token \<noteq> [] \<or> quoted then shlex_loop Between [] False (shlex_emit token quoted acc) cs
         else shlex_loop Between token quoted acc cs)
      else if is_quote c then shlex_loop (InQuote c) token quoted acc cs
      else if c = backslash then shlex_loop (Escaping InWord) token quoted acc cs
      else shlex_loop InWord (token @ [c]) quoted acc cs)"
| "shlex_loop (InQuote q) token quoted acc [] = Inl (ValueError ''No closing quotation'')"
| "shlex_loop (InQuote q) token quoted acc (c # cs) =
     (if c = q then shlex_loop InWord token True acc cs
      else if c = backslash \<and> q = dquote then shlex_loop (Escaping (InQuote q)) token True acc cs
      else shlex_loop (InQuote q) (token @ [c]) True acc cs)"
| "shlex_loop (Escaping st) token quoted acc [] = Inl (ValueError ''No escaped character'')"
| "shlex_loop (Escaping st) token quoted acc (c # cs) =
     shlex_loop st (token @ (case st of InQuote q \<Rightarrow> if c \<noteq> backslash \<and> c \<noteq> q then [backslash] else [] | _ \<Rightarrow> []) @ [c])
       quoted acc cs"

definition shlex_split :: "string \<Rightarrow> exn + string list" where
  "shlex_split s = shlex_loop Between [] False [] s"

section \<open>Values inside the workspace\<close>

text \<open>\<^verbatim>\<open>str.partition\<close> at a character.\<close>

definition py_partition :: "char \<Rightarrow> string \<Rightarrow> string \<times> bool \<times> string" where
  "py_partition c s = (takeWhile (\<lambda>x. x \<noteq> c) s, c \<in> set s, drop 1 (dropWhile (\<lambda>x. x \<noteq> c) s))"

text \<open>\<^verbatim>\<open>re.split\<close> at single characters of a class, and at runs of them.\<close>

fun split_at :: "(char \<Rightarrow> bool) \<Rightarrow> string \<Rightarrow> string list" where
  "split_at p [] = [[]]"
| "split_at p (c # cs) =
     (if p c then [] # split_at p cs
      else case split_at p cs of [] \<Rightarrow> [[c]] | w # ws \<Rightarrow> (c # w) # ws)"

function split_runs :: "(char \<Rightarrow> bool) \<Rightarrow> string \<Rightarrow> string list" where
  "split_runs p s =
     (let rest = dropWhile (\<lambda>c. \<not> p c) s in
      takeWhile (\<lambda>c. \<not> p c) s # (if rest = [] then [] else split_runs p (dropWhile p rest)))"
  by pat_completeness auto

lemma length_dropWhile_runs:
  "dropWhile (\<lambda>c. \<not> p c) s \<noteq> [] \<Longrightarrow> length (dropWhile p (dropWhile (\<lambda>c. \<not> p c) s)) < length s"
proof (induction s)
  case (Cons c s)
  show ?case
  proof (cases "p c")
    case True
    with length_dropWhile_le [of p s] show ?thesis by simp
  next
    case False
    with Cons show ?thesis by simp
  qed
qed simp

termination split_runs
  by (relation "measure (\<lambda>(p, s). length s)") (auto simp: length_dropWhile_runs)

declare split_runs.simps [simp del]

definition strip_chars :: "(char \<Rightarrow> bool) \<Rightarrow> string \<Rightarrow> string" where
  "strip_chars p s = rev (dropWhile p (rev (dropWhile p s)))"

definition is_value_separator :: "char \<Rightarrow> bool" where
  "is_value_separator c \<longleftrightarrow> c \<in> {CHR ''='', CHR '','', CHR '':''} \<or> is_space c"

text \<open>The characters of \<^verbatim>\<open>candidate.strip\<close>: blanks, quotes, braces and square brackets.\<close>

definition is_wrapping :: "char \<Rightarrow> bool" where
  "is_wrapping c \<longleftrightarrow> c \<in> {CHR 0x20, CHR 0x09, CHR 0x0D, CHR 0x0A, squote, dquote,
     CHR 0x7B, CHR 0x7D, CHR 0x5B, CHR 0x5D}"

definition is_letter :: "char \<Rightarrow> bool" where
  "is_letter c \<longleftrightarrow> is_lower_char c \<or> is_upper_char c"

fun windows_absolute :: "string \<Rightarrow> bool" where
  "windows_absolute (a # b # c # _) \<longleftrightarrow> is_letter a \<and> b = CHR '':'' \<and> (c = backslash \<or> c = slash)"
| "windows_absolute _ \<longleftrightarrow> False"

definition is_scheme_char :: "char \<Rightarrow> bool" where
  "is_scheme_char c \<longleftrightarrow> is_letter c \<or> is_digit_char c \<or> c \<in> {CHR ''+'', CHR ''.'', CHR ''-''}"

fun uri_path :: "string \<Rightarrow> bool" where
  "uri_path (a # s) \<longleftrightarrow> is_letter a \<and> is_prefix_of ''://'' (dropWhile is_scheme_char s)"
| "uri_path [] \<longleftrightarrow> False"

definition is_path_separator :: "char \<Rightarrow> bool" where
  "is_path_separator c \<longleftrightarrow> c = slash \<or> c = backslash"

definition candidate_is_safe :: "string \<Rightarrow> bool" where
  "candidate_is_safe raw =
     (case strip_chars is_wrapping raw of
        [] \<Rightarrow> True
      | c # s \<Rightarrow>
          c \<notin> {slash, backslash, CHR 0x7E, CHR 0x40} \<and> \<not> windows_absolute (c # s) \<and>
          \<not> uri_path (c # s) \<and> \<not> is_prefix_of ''file:'' (py_casefold (c # s)) \<and>
          ''..'' \<notin> set (split_at is_path_separator (c # s)))"

definition workspace_value_is_syntax_safe :: "string \<Rightarrow> bool" where
  "workspace_value_is_syntax_safe value = list_all candidate_is_safe (value # split_runs is_value_separator value)"

section \<open>Options and positional arguments\<close>

fun action_after_global_options :: "string set \<Rightarrow> string set \<Rightarrow> string list \<Rightarrow> (string \<times> string list) option" where
  "action_after_global_options flags opts [] = None"
| "action_after_global_options flags opts (a # rest) =
     (if \<not> is_prefix_of ''-'' a then Some (a, rest)
      else if a \<in> flags then action_after_global_options flags opts rest
      else case py_partition CHR ''='' a of (opt, sep, v) \<Rightarrow>
        if opt \<notin> opts then None
        else if sep then
          (if v = [] \<or> \<not> workspace_value_is_syntax_safe v then None else action_after_global_options flags opts rest)
        else (case rest of
            [] \<Rightarrow> None
          | w # rest' \<Rightarrow>
              if is_prefix_of ''-'' w \<or> \<not> workspace_value_is_syntax_safe w then None
              else action_after_global_options flags opts rest'))"

text \<open>The loop of \<^verbatim>\<open>_arguments_are_allowlisted\<close> with its variable \<^verbatim>\<open>expecting_value\<close>.\<close>

fun allowlist_loop :: "string set \<Rightarrow> string set \<Rightarrow> bool \<Rightarrow> bool \<Rightarrow> string list \<Rightarrow> bool" where
  "allowlist_loop flags opts positionals expecting [] = (\<not> expecting)"
| "allowlist_loop flags opts positionals expecting (a # rest) =
     (if expecting then
        \<not> (is_prefix_of ''-'' a \<or> \<not> workspace_value_is_syntax_safe a) \<and> allowlist_loop flags opts positionals False rest
      else if \<not> is_prefix_of ''-'' a then
        \<not> (\<not> positionals \<or> \<not> workspace_value_is_syntax_safe a) \<and> allowlist_loop flags opts positionals False rest
      else case py_partition CHR ''='' a of (opt, sep, v) \<Rightarrow>
        if a \<in> flags then
          \<not> (sep \<and> \<not> workspace_value_is_syntax_safe v) \<and> allowlist_loop flags opts positionals False rest
        else if opt \<notin> opts then False
        else if sep then
          \<not> (v = [] \<or> \<not> workspace_value_is_syntax_safe v) \<and> allowlist_loop flags opts positionals False rest
        else allowlist_loop flags opts positionals True rest)"

definition arguments_are_allowlisted :: "string list \<Rightarrow> string set \<Rightarrow> string set \<Rightarrow> bool \<Rightarrow> bool" where
  "arguments_are_allowlisted arguments flags value_options allow_positionals =
     allowlist_loop flags value_options allow_positionals False arguments"

section \<open>The tools\<close>

definition kubectl_read_actions :: "string set" where
  "kubectl_read_actions = {''api-resources'', ''api-versions'', ''cluster-info'', ''describe'', ''diff'', ''explain'',
     ''get'', ''logs'', ''options'', ''top'', ''version'', ''wait''}"

definition git_read_actions :: "string set" where
  "git_read_actions = {''diff'', ''grep'', ''log'', ''ls-files'', ''rev-parse'', ''show'', ''status''}"

definition pytest_arguments_are_safe :: "string list \<Rightarrow> bool" where
  "pytest_arguments_are_safe arguments = arguments_are_allowlisted arguments
     {''-q'', ''--quiet'', ''-v'', ''-vv'', ''--verbose'', ''-x'', ''--exitfirst'', ''-s'', ''--collect-only'', ''--co'',
      ''--disable-warnings'', ''--strict-markers'', ''--strict-config'', ''--no-header'', ''--no-summary''}
     {''-k'', ''-m'', ''--capture'', ''--color'', ''--maxfail'', ''--tb''} True"

definition mypy_arguments :: "string list \<Rightarrow> bool" where
  "mypy_arguments lowered = arguments_are_allowlisted lowered
     {''--check-untyped-defs'', ''--disallow-untyped-defs'', ''--no-error-summary'', ''--pretty'', ''--show-error-codes'',
      ''--strict'', ''--version'', ''--warn-unused-ignores''}
     {''--exclude'', ''--platform'', ''--python-version''} True"

definition pyright_arguments :: "string list \<Rightarrow> bool" where
  "pyright_arguments lowered = arguments_are_allowlisted lowered
     {''--stats'', ''--verbose'', ''--version'', ''--warnings''}
     {''--level'', ''--pythonplatform'', ''--pythonversion''} True"

definition shellcheck_arguments :: "string list \<Rightarrow> bool" where
  "shellcheck_arguments lowered = arguments_are_allowlisted lowered
     {''--check-sourced'', ''--external-sources'', ''--norc'', ''-a'', ''-x''}
     {''--color'', ''--exclude'', ''--format'', ''--severity'', ''--shell'', ''-e'', ''-f'', ''-s'', ''-S''} True"

definition yamllint_arguments :: "string list \<Rightarrow> bool" where
  "yamllint_arguments lowered = arguments_are_allowlisted lowered
     {''--no-warnings'', ''--strict'', ''-s''} {''--config-data'', ''--format'', ''-d'', ''-f''} True"

definition ruff_flags :: "string set" where
  "ruff_flags = {''--isolated'', ''--no-cache'', ''--preview'', ''--quiet'', ''--silent'', ''--verbose''}"

definition ruff_values :: "string set" where
  "ruff_values = {''--exclude'', ''--extend-exclude'', ''--target-version''}"

definition ruff_arguments :: "string list \<Rightarrow> bool" where
  "ruff_arguments lowered =
     (case lowered of [] \<Rightarrow> False
      | action # tail \<Rightarrow>
          if action = ''check'' then arguments_are_allowlisted tail
            (ruff_flags \<union> {''--diff'', ''--exit-non-zero-on-fix'', ''--exit-zero'', ''--no-fix'', ''--no-unsafe-fixes'',
               ''--show-files'', ''--show-settings'', ''--statistics''})
            (ruff_values \<union> {''--extend-ignore'', ''--extend-select'', ''--ignore'', ''--output-format'', ''--select''}) True
          else action = ''format'' \<and> ''--check'' \<in> set tail \<and>
            arguments_are_allowlisted tail (ruff_flags \<union> {''--check'', ''--diff''})
              (ruff_values \<union> {''--line-length'', ''--range''}) True)"

definition kubectl_arguments :: "string list \<Rightarrow> bool" where
  "kubectl_arguments lowered =
     (case action_after_global_options
        {''--disable-compression'', ''--insecure-skip-tls-verify'', ''--match-server-version'', ''--warnings-as-errors''}
        {''--as'', ''--as-group'', ''--cluster'', ''--context'', ''--namespace'', ''--request-timeout'', ''--server'',
         ''--user'', ''--v'', ''--vmodule'', ''-n'', ''-s''} lowered of
        None \<Rightarrow> False
      | Some (action, tail) \<Rightarrow>
          action \<in> kubectl_read_actions \<and>
          arguments_are_allowlisted tail
            {''--all-namespaces'', ''--ignore-not-found'', ''--prefix'', ''--previous'', ''--server-side'', ''--show-labels'',
             ''--show-managed-fields'', ''--timestamps'', ''--watch'', ''-a'', ''-p'', ''-w''}
            {''--chunk-size'', ''--container'', ''--field-manager'', ''--field-selector'', ''--limit-bytes'', ''--output'',
             ''--selector'', ''--since'', ''--since-time'', ''--sort-by'', ''--tail'', ''-c'', ''-l'', ''-o''} True)"

definition tofu_arguments :: "string list \<Rightarrow> bool" where
  "tofu_arguments lowered =
     (case action_after_global_options {} {''-chdir''} lowered of
        None \<Rightarrow> False
      | Some (action, tail) \<Rightarrow>
          if action = ''fmt'' then
            list_ex (\<lambda>a. a \<in> {''-check'', ''--check'', ''-check=true'', ''--check=true''}) tail \<and>
            arguments_are_allowlisted tail
              {''--check'', ''--check=true'', ''-check'', ''-check=true'', ''-diff'', ''-list'', ''-no-color'', ''-recursive'',
               ''-write=false''} {} True
          else if action = ''validate'' then
            arguments_are_allowlisted tail {''-json'', ''-no-color''} {''-test-directory''} True
          else action = ''version'' \<and> arguments_are_allowlisted tail {''-json''} {} False)"

definition git_arguments :: "string list \<Rightarrow> bool" where
  "git_arguments lowered =
     (if list_ex (\<lambda>a. a = ''-c'' \<or> is_prefix_of ''-c='' a) lowered then False
      else case action_after_global_options {''--no-pager''} {} lowered of
        None \<Rightarrow> False
      | Some (action, tail) \<Rightarrow>
          action \<in> git_read_actions \<and>
          arguments_are_allowlisted tail
            {''--branch'', ''--cached'', ''--check'', ''--exit-code'', ''--is-inside-work-tree'', ''--line-number'',
             ''--name-only'', ''--name-status'', ''--no-ext-diff'', ''--no-patch'', ''--no-textconv'', ''--oneline'', ''--patch'',
             ''--porcelain'', ''--quiet'', ''--short'', ''--show-toplevel'', ''--staged'', ''--stat'', ''--untracked'',
             ''-b'', ''-i'', ''-n'', ''-p'', ''-s''}
            {''--diff-filter'', ''--format'', ''--max-count'', ''--regexp'', ''--relative'', ''--unified'',
             ''--untracked-files'', ''-e''} True)"

definition helm_arguments :: "string list \<Rightarrow> bool" where
  "helm_arguments lowered =
     (case lowered of [] \<Rightarrow> False
      | action # tail \<Rightarrow>
          action \<in> {''lint'', ''template'', ''version''} \<and>
          arguments_are_allowlisted tail {''--debug'', ''--quiet'', ''--strict'', ''--with-subcharts''}
            {''--api-versions'', ''--kube-version'', ''--name-template'', ''--namespace'', ''--set'', ''--set-json'',
             ''--set-string''} True)"

definition go_arguments :: "string list \<Rightarrow> bool" where
  "go_arguments lowered =
     (case lowered of [] \<Rightarrow> False
      | action # tail \<Rightarrow>
          if action = ''version'' then tail = []
          else if action = ''vet'' then arguments_are_allowlisted tail {''-json'', ''-v''} {''-tags''} True
          else action = ''test'' \<and>
            arguments_are_allowlisted tail {''-cover'', ''-failfast'', ''-json'', ''-race'', ''-short'', ''-v''}
              {''-bench'', ''-benchtime'', ''-count'', ''-parallel'', ''-run'', ''-tags'', ''-timeout''} True)"

definition cargo_arguments :: "string list \<Rightarrow> bool" where
  "cargo_arguments lowered =
     (case lowered of [] \<Rightarrow> False
      | action # tail \<Rightarrow>
          if action \<in> {''check'', ''clippy'', ''test''} then
            arguments_are_allowlisted tail
              {''--all-features'', ''--all-targets'', ''--frozen'', ''--locked'', ''--no-default-features'', ''--offline'',
               ''--quiet'', ''--verbose'', ''--workspace'', ''-q'', ''-v''}
              {''--features'', ''--jobs'', ''--package'', ''-j'', ''-p''} True
          else action = ''fmt'' \<and> ''--check'' \<in> set tail \<and>
            arguments_are_allowlisted tail {''--all'', ''--check'', ''--quiet'', ''--verbose'', ''-q'', ''-v''}
              {''--package'', ''-p''} True)"

definition allowed_validation_tool :: "string \<Rightarrow> string list \<Rightarrow> bool" where
  "allowed_validation_tool executable arguments =
     (let lowered = map py_casefold arguments in
      if executable \<in> {''pytest'', ''py.test''} then pytest_arguments_are_safe arguments
      else if executable = ''mypy'' then mypy_arguments lowered
      else if executable = ''pyright'' then pyright_arguments lowered
      else if executable = ''shellcheck'' then shellcheck_arguments lowered
      else if executable = ''yamllint'' then yamllint_arguments lowered
      else if executable = ''ruff'' then ruff_arguments lowered
      else if executable = ''kubectl'' then kubectl_arguments lowered
      else if executable \<in> {''tofu'', ''terraform''} then tofu_arguments lowered
      else if executable = ''git'' then git_arguments lowered
      else if executable = ''helm'' then helm_arguments lowered
      else if executable = ''go'' then go_arguments lowered
      else if executable = ''cargo'' then cargo_arguments lowered
      else False)"

section \<open>The gate\<close>

definition is_shell_control :: "char \<Rightarrow> bool" where
  "is_shell_control c \<longleftrightarrow> c \<in> {CHR 0x0A, CHR 0x0D, CHR 0x3B, CHR 0x26, CHR 0x7C, CHR 0x60, CHR 0x3C, CHR 0x3E,
     CHR 0x24, CHR 0x28, CHR 0x29}"

definition observation_suffixes :: "string list list" where
  "observation_suffixes =
     [[''returns'', ''exit'', ''code'', ''zero''], [''returns'', ''exit'', ''code'', ''0''], [''exit'', ''code'', ''zero''],
      [''exit'', ''code'', ''0''], [''exits'', ''zero''], [''exits'', ''0'']]"

definition has_suffix :: "string list \<Rightarrow> string list \<Rightarrow> bool" where
  "has_suffix tokens suffix \<longleftrightarrow> drop (length tokens - length suffix) (map py_casefold tokens) = suffix"

definition without_observation_suffix :: "string list \<Rightarrow> string list" where
  "without_observation_suffix tokens =
     (case find (has_suffix tokens) observation_suffixes of
        None \<Rightarrow> tokens
      | Some suffix \<Rightarrow> take (length tokens - length suffix) tokens)"

definition nonempty_digits :: "string \<Rightarrow> bool" where
  "nonempty_digits s \<longleftrightarrow> s \<noteq> [] \<and> list_all is_digit_char s"

text \<open>\<^verbatim>\<open>python(?:\d+(?:\.\d+)*)?\<close> matched against the whole string.\<close>

definition is_python_executable :: "string \<Rightarrow> bool" where
  "is_python_executable s \<longleftrightarrow> is_prefix_of ''python'' s \<and>
     (let version = drop 6 s in version = [] \<or> list_all nonempty_digits (split_at (\<lambda>c. c = CHR ''.'') version))"

definition has_path_separator :: "string \<Rightarrow> bool" where
  "has_path_separator s \<longleftrightarrow> slash \<in> set s \<or> backslash \<in> set s"

definition tokens_are_safe :: "string list \<Rightarrow> bool" where
  "tokens_are_safe tokens =
     (case tokens of [] \<Rightarrow> False
      | tool # arguments \<Rightarrow>
          if has_path_separator tool then False
          else if is_python_executable (py_casefold tool) then
            (case arguments of
               minus_m # m # rest \<Rightarrow>
                 minus_m = ''-m'' \<and> \<not> has_path_separator m \<and> allowed_validation_tool (py_casefold m) rest
             | _ \<Rightarrow> False)
          else allowed_validation_tool (py_casefold tool) arguments)"

definition command_is_safe :: "string \<Rightarrow> bool" where
  "command_is_safe command =
     (if py_strip command = [] \<or> list_ex is_shell_control command then False
      else case shlex_split command of
        Inl e \<Rightarrow> False
      | Inr tokens \<Rightarrow> tokens_are_safe (without_observation_suffix tokens))"

end
