(* ===== verification/CommandSafety.thy ===== *)
theory CommandSafety
  imports Commands
begin

text \<open>
  What the command gate keeps out: \<open>escapes\<close> says when a path leaves the workspace, \<open>confined\<close>
  that neither a value nor one of its parts does. Every token of an accepted command is confined.
  The option loop is the grammar \<open>allowlisted\<close>, and a plain command line is read back as the
  words it was printed from.
\<close>

section \<open>Escaping a workspace\<close>

text \<open>A component \<^verbatim>\<open>..\<close> of a path.\<close>

definition climbs :: "string \<Rightarrow> bool" where
  "climbs v \<longleftrightarrow> (\<exists>a b. v = a @ ''..'' @ b \<and> (a = [] \<or> is_path_separator (last a)) \<and> (b = [] \<or> is_path_separator (hd b)))"

definition rooted :: "string \<Rightarrow> bool" where
  "rooted v \<longleftrightarrow> v \<noteq> [] \<and> hd v \<in> {slash, backslash, CHR 0x7E, CHR 0x40}"

definition escapes :: "string \<Rightarrow> bool" where
  "escapes v \<longleftrightarrow> climbs v \<or> rooted v \<or> windows_absolute v \<or> uri_path v"

definition confined :: "string \<Rightarrow> bool" where
  "confined v \<longleftrightarrow> (\<forall>w \<in> set (v # split_runs is_value_separator v). \<not> escapes w)"

definition argument_confined :: "string \<Rightarrow> bool" where
  "argument_confined a \<longleftrightarrow>
     (if is_prefix_of ''-'' a then (case py_partition CHR ''='' a of (opt, sep, v) \<Rightarrow> sep \<longrightarrow> confined v) else confined a)"

lemma split_at_nonempty [simp]: "split_at p s \<noteq> []"
  by (induction s) (auto split: list.split)

lemma split_at_hd: "split_at p s = takeWhile (\<lambda>c. \<not> p c) s # (if list_all (\<lambda>c. \<not> p c) s then [] else split_at p (tl (dropWhile (\<lambda>c. \<not> p c) s)))"
  by (induction s) auto

lemma split_at_append: "p c \<Longrightarrow> split_at p (a @ c # b) = split_at p a @ split_at p b"
proof (induction a)
  case (Cons x a)
  then show ?case by (cases "split_at p a") auto
qed simp

lemma split_at_plain: "list_all (\<lambda>c. \<not> p c) s \<Longrightarrow> split_at p s = [s]"
  by (induction s) auto

lemma climbs_component:
  assumes "climbs v"
  shows "''..'' \<in> set (split_at is_path_separator v)"
proof -
  from assms obtain a b where v: "v = a @ ''..'' @ b"
    and a: "a = [] \<or> is_path_separator (last a)" and b: "b = [] \<or> is_path_separator (hd b)"
    by (auto simp: climbs_def)
  have "''..'' \<in> set (split_at is_path_separator (''..'' @ b))"
  proof (cases b)
    case Nil
    then show ?thesis by (simp add: is_path_separator_def char_consts)
  next
    case (Cons c b')
    with b have "split_at is_path_separator (''..'' @ b) = split_at is_path_separator ''..'' @ split_at is_path_separator b'"
      by (simp only: Cons split_at_append) simp
    then show ?thesis by (simp add: is_path_separator_def char_consts)
  qed
  moreover have "set (split_at is_path_separator w) \<subseteq> set (split_at is_path_separator (a @ w))" for w
  proof (cases a rule: rev_cases)
    case (snoc a' c)
    with a show ?thesis by (simp add: split_at_append)
  qed simp
  ultimately show ?thesis using v by blast
qed

text \<open>Wrapping characters are no part of what makes a value escape.\<close>

lemma wrapping_plain:
  assumes "is_wrapping c"
  shows "\<not> is_path_separator c" "c \<noteq> CHR ''.''" "c \<noteq> CHR '':''" "\<not> is_letter c" "\<not> is_scheme_char c" "c \<notin> {slash, backslash, CHR 0x7E, CHR 0x40}"
  using assms by (auto simp: is_wrapping_def is_path_separator_def char_consts is_letter_def is_scheme_char_def
      is_lower_char_def is_upper_char_def is_digit_char_def)

lemma strip_chars_split:
  "\<exists>l r. s = l @ strip_chars p s @ r \<and> list_all p l \<and> list_all p r"
proof -
  let ?t = "dropWhile p s"
  have "s = takeWhile p s @ rev (takeWhile p (rev ?t) @ dropWhile p (rev ?t))" by simp
  then have "s = takeWhile p s @ strip_chars p s @ rev (takeWhile p (rev ?t))"
    by (simp only: rev_append strip_chars_def)
  moreover have "list_all p (takeWhile p s)" "list_all p (rev (takeWhile p (rev ?t)))"
    by (auto simp: list_all_iff dest: set_takeWhileD)
  ultimately show ?thesis by blast
qed

lemma rstrip_keeps: "\<exists>r. s = rev (dropWhile p (rev s)) @ r \<and> list_all p r"
proof -
  have "s = rev (takeWhile p (rev s) @ dropWhile p (rev s))" by simp
  then have "s = rev (dropWhile p (rev s)) @ rev (takeWhile p (rev s))" by (simp only: rev_append)
  moreover have "list_all p (rev (takeWhile p (rev s)))" by (auto simp: list_all_iff dest: set_takeWhileD)
  ultimately show ?thesis by blast
qed

lemma strip_chars_keep_front:
  assumes "s = a @ b" "a \<noteq> []" "\<not> p (hd a)" "\<not> p (last a)"
  shows "\<exists>b'. strip_chars p s = a @ b'"
proof -
  have "dropWhile p s = s" using assms by (cases a) auto
  moreover obtain a' c where a': "a = a' @ [c]" using assms(2) by (cases a rule: rev_cases) auto
  moreover have "dropWhile p (rev s) = dropWhile p (rev b) @ rev a \<or> dropWhile p (rev s) = rev a"
    using assms(1,4) a' by (auto simp: dropWhile_append)
  ultimately show ?thesis unfolding strip_chars_def by auto
qed

lemma strip_keeps_climb:
  assumes "climbs v"
  shows "climbs (strip_chars is_wrapping v)"
proof -
  from assms obtain a b where v: "v = a @ ''..'' @ b"
    and a: "a = [] \<or> is_path_separator (last a)" and b: "b = [] \<or> is_path_separator (hd b)"
    by (auto simp: climbs_def)
  let ?a = "dropWhile is_wrapping a" and ?b = "rev (dropWhile is_wrapping (rev b))"
  have dot: "\<not> is_wrapping CHR ''.''" using wrapping_plain(2) by blast
  have left: "dropWhile is_wrapping v = ?a @ ''..'' @ b" using v dot by (simp add: dropWhile_append) 
  have "strip_chars is_wrapping v = ?a @ ''..'' @ ?b"
    unfolding strip_chars_def left using dot by (auto simp: dropWhile_append)
  moreover have "?a = [] \<or> is_path_separator (last ?a)"
    using a wrapping_plain(1) by (cases a rule: rev_cases) (auto simp: dropWhile_append)
  moreover have "?b = [] \<or> is_path_separator (hd ?b)"
    using b wrapping_plain(1) by (cases b) (auto simp: dropWhile_append)
  ultimately show ?thesis unfolding climbs_def by blast
qed

lemma candidate_safe_climbs: "candidate_is_safe v \<Longrightarrow> \<not> climbs v"
  using climbs_component [OF strip_keeps_climb, of v]
  by (auto simp: candidate_is_safe_def split: list.splits)

lemma candidate_safe_rooted: "candidate_is_safe v \<Longrightarrow> \<not> rooted v"
proof
  assume safe: "candidate_is_safe v" and "rooted v"
  then obtain c s where v: "v = [c] @ s" "c \<in> {slash, backslash, CHR 0x7E, CHR 0x40}"
    by (cases v) (auto simp: rooted_def)
  then have "\<not> is_wrapping c" using wrapping_plain(6) by blast
  with strip_chars_keep_front [OF v(1), of is_wrapping] obtain b' where "strip_chars is_wrapping v = c # b'" by auto
  with safe v(2) show False by (simp add: candidate_is_safe_def)
qed

lemma candidate_safe_windows: "candidate_is_safe v \<Longrightarrow> \<not> windows_absolute v"
proof
  assume safe: "candidate_is_safe v" and "windows_absolute v"
  then obtain a c s where v: "v = [a, CHR '':'', c] @ s" "is_letter a" "is_path_separator c"
    by (cases v rule: windows_absolute.cases) (auto simp: is_path_separator_def)
  with wrapping_plain(1,4) have "\<not> is_wrapping a" "\<not> is_wrapping c" by blast+
  with strip_chars_keep_front [OF v(1), of is_wrapping] obtain b' where "strip_chars is_wrapping v = a # CHR '':'' # c # b'" by auto
  with safe v(2,3) show False by (auto simp: candidate_is_safe_def is_path_separator_def)
qed

lemma candidate_safe_uri: "candidate_is_safe v \<Longrightarrow> \<not> uri_path v"
proof
  assume safe: "candidate_is_safe v" and uri: "uri_path v"
  then obtain a s where a: "v = a # s" "is_letter a" "is_prefix_of ''://'' (dropWhile is_scheme_char s)"
    by (cases v) auto
  then obtain t where t: "dropWhile is_scheme_char s = ''://'' @ t" by (auto simp: is_prefix_of_iff)
  let ?u = "takeWhile is_scheme_char s"
  have v: "v = (a # ?u @ ''://'') @ t"
    using a(1) takeWhile_dropWhile_id [of is_scheme_char s] by (simp only: t append_assoc append_Cons)
  have "\<not> is_wrapping a" using a(2) wrapping_plain(4) by blast
  moreover have "\<not> is_wrapping CHR ''/''" by (simp add: is_wrapping_def char_consts)
  ultimately obtain b' where b': "strip_chars is_wrapping v = a # ?u @ ''://'' @ b'"
    using strip_chars_keep_front [OF v, of is_wrapping] by auto
  have "dropWhile is_scheme_char (?u @ ''://'' @ b') = ''://'' @ b'"
    by (subst dropWhile_append2) (auto simp: is_scheme_char_def is_letter_def is_lower_char_def is_upper_char_def is_digit_char_def
        dest: set_takeWhileD)
  with b' a(2) have "uri_path (strip_chars is_wrapping v)" by simp
  with safe b' show False by (simp add: candidate_is_safe_def)
qed

lemma safe_value_confined: "workspace_value_is_syntax_safe v \<Longrightarrow> confined v"
  using candidate_safe_climbs candidate_safe_rooted candidate_safe_windows candidate_safe_uri
  unfolding workspace_value_is_syntax_safe_def confined_def escapes_def list_all_iff by blast

section \<open>Case folding\<close>

lemma lower_char_invariant:
  assumes "\<forall>n \<in> set [65..<91]. P (char_of (n + 32 :: nat)) = P (char_of n)"
  shows "P (lower_char c) = P c"
proof (cases "65 \<le> (of_char c :: nat) \<and> (of_char c :: nat) \<le> 90")
  case True
  then have "(of_char c :: nat) \<in> set [65..<91]" unfolding set_upt by simp
  with assms have "P (char_of ((of_char c :: nat) + 32)) = P (char_of (of_char c :: nat))" by blast
  with True show ?thesis by (simp add: lower_char_def)
qed (auto simp: lower_char_def Let_def)

lemma lower_char_fixed:
  assumes "(of_char d :: nat) < 65 \<or> 90 < (of_char d :: nat) \<and> (of_char d :: nat) < 97 \<or> 122 < (of_char d :: nat)"
  shows "(lower_char c = d) = (c = d)"
proof (cases "65 \<le> (of_char c :: nat) \<and> (of_char c :: nat) \<le> 90")
  case True
  then have "(of_char (lower_char c) :: nat) = of_char c + 32" by (simp add: lower_char_def of_char_of)
  with True assms have "(of_char (lower_char c) :: nat) \<noteq> of_char d" "(of_char c :: nat) \<noteq> of_char d" by linarith+
  then show ?thesis by auto
qed (auto simp: lower_char_def Let_def)

lemma lower_char_special [simp]:
  "(lower_char c = CHR ''.'') = (c = CHR ''.'')" "(lower_char c = CHR '':'') = (c = CHR '':'')"
  "(lower_char c = CHR ''='') = (c = CHR ''='')" "(lower_char c = CHR ''-'') = (c = CHR ''-'')"
  "(lower_char c = CHR '','') = (c = CHR '','')" "(lower_char c = CHR ''+'') = (c = CHR ''+'')"
  "(lower_char c = CHR 0x7E) = (c = CHR 0x7E)" "(lower_char c = CHR 0x40) = (c = CHR 0x40)"
  "(lower_char c = slash) = (c = slash)" "(lower_char c = backslash) = (c = backslash)"
  by (rule lower_char_fixed, simp add: char_consts)+

lemma lower_char_letter [simp]: "is_letter (lower_char c) = is_letter c"
  by (rule lower_char_invariant [of "\<lambda>c. is_letter c"])
    (simp add: is_letter_def is_lower_char_def is_upper_char_def of_char_of set_upt)

lemma lower_char_digit [simp]: "is_digit_char (lower_char c) = is_digit_char c" "is_space (lower_char c) = is_space c"
  by (simp_all add: lower_char_def is_digit_char_def is_space_def Let_def of_char_of)

lemma lower_char_class [simp]:
  "is_value_separator (lower_char c) = is_value_separator c" "is_path_separator (lower_char c) = is_path_separator c"
  "is_scheme_char (lower_char c) = is_scheme_char c"
  by (simp_all add: is_value_separator_def is_path_separator_def is_scheme_char_def)

lemma lower_char_separators:
  "(CHR '':'' = lower_char c) = (CHR '':'' = c)" "(CHR ''/'' = lower_char c) = (CHR ''/'' = c)"
  "(CHR ''-'' = lower_char c) = (CHR ''-'' = c)" "(CHR ''='' = lower_char c) = (CHR ''='' = c)"
  by (subst (1 2) eq_commute, simp add: lower_char_fixed)+

lemma hd_map_lower [simp]: "s \<noteq> [] \<Longrightarrow> hd (map lower_char s) = lower_char (hd s)"
  by (rule list.map_sel(1))

lemma lower_climbs: "climbs (map lower_char v) \<longleftrightarrow> climbs v"
proof
  assume "climbs v"
  then obtain a b where v: "v = a @ ''..'' @ b" and ab: "a = [] \<or> is_path_separator (last a)" "b = [] \<or> is_path_separator (hd b)"
    by (auto simp: climbs_def)
  have dot: "lower_char CHR ''.'' = CHR ''.''" by simp
  have "map lower_char v = map lower_char a @ ''..'' @ map lower_char b" by (simp add: v dot)
  moreover have "map lower_char a = [] \<or> is_path_separator (last (map lower_char a))"
    "map lower_char b = [] \<or> is_path_separator (hd (map lower_char b))"
    using ab by (cases a rule: rev_cases; cases b; simp)+
  ultimately show "climbs (map lower_char v)" unfolding climbs_def by blast
next
  assume "climbs (map lower_char v)"
  then obtain a b where v: "map lower_char v = a @ ''..'' @ b" and ab: "a = [] \<or> is_path_separator (last a)" "b = [] \<or> is_path_separator (hd b)"
    by (auto simp: climbs_def)
  from v obtain a' w where w: "v = a' @ w" "a = map lower_char a'" "''..'' @ b = map lower_char w"
    by (metis map_eq_append_conv)
  from w(3) [symmetric] obtain m b' where m: "w = m @ b'" "map lower_char m = ''..''" "map lower_char b' = b"
    by (metis map_eq_append_conv)
  from m(2) have "m = ''..''" by (auto simp: map_eq_Cons_conv)
  note v' = w(1) [unfolded m(1)] w(2) m(3)
  moreover have "a' = [] \<or> is_path_separator (last a')" "b' = [] \<or> is_path_separator (hd b')"
    using ab by (cases a' rule: rev_cases; cases b'; simp add: v'(2) v'(3) [symmetric])+
  ultimately show "climbs v" unfolding climbs_def using v'(1) \<open>m = ''..''\<close> by blast
qed

lemma lower_rooted: "rooted (map lower_char v) \<longleftrightarrow> rooted v"
  by (auto simp: rooted_def)

lemma lower_windows: "windows_absolute (map lower_char v) \<longleftrightarrow> windows_absolute v"
  by (cases v rule: windows_absolute.cases) auto

lemma lower_prefix:
  "\<forall>c \<in> set p. \<forall>x. (c = lower_char x) = (c = x) \<Longrightarrow> is_prefix_of p (map lower_char s) = is_prefix_of p s"
  by (induction p s rule: is_prefix_of.induct) simp_all

lemma lower_uri: "uri_path (map lower_char v) \<longleftrightarrow> uri_path v"
proof (cases v)
  case (Cons a s)
  have "dropWhile is_scheme_char (map lower_char s) = map lower_char (dropWhile is_scheme_char s)"
    by (simp add: dropWhile_map comp_def)
  moreover have "is_prefix_of ''://'' (map lower_char (dropWhile is_scheme_char s)) = is_prefix_of ''://'' (dropWhile is_scheme_char s)"
    by (rule lower_prefix) (simp add: lower_char_separators)
  ultimately show ?thesis using Cons by simp
qed simp

lemma lower_escapes: "escapes (map lower_char v) \<longleftrightarrow> escapes v"
  by (simp add: escapes_def lower_climbs lower_rooted lower_windows lower_uri)

lemma split_runs_lower:
  "split_runs is_value_separator (map lower_char s) = map (map lower_char) (split_runs is_value_separator s)"
proof (induction "length s" arbitrary: s rule: less_induct)
  case less
  let ?rest = "dropWhile (\<lambda>c. \<not> is_value_separator c) s"
  have drops: "dropWhile (\<lambda>c. \<not> is_value_separator c) (map lower_char s) = map lower_char ?rest"
    "dropWhile is_value_separator (map lower_char t) = map lower_char (dropWhile is_value_separator t)"
    "takeWhile (\<lambda>c. \<not> is_value_separator c) (map lower_char s) = map lower_char (takeWhile (\<lambda>c. \<not> is_value_separator c) s)" for t
    by (simp_all add: dropWhile_map takeWhile_map comp_def)
  show ?case
    using less [of "dropWhile is_value_separator ?rest"] length_dropWhile_runs [of is_value_separator s]
    by (subst (1 2) split_runs.simps) (simp add: Let_def drops)
qed

lemma lower_confined: "confined (py_casefold v) \<longleftrightarrow> confined v"
  by (simp add: confined_def py_casefold_def split_runs_lower lower_escapes)

lemma lower_argument: "argument_confined (py_casefold a) \<longleftrightarrow> argument_confined a"
proof -
  have "is_prefix_of ''-'' (map lower_char a) = is_prefix_of ''-'' a"
    by (rule lower_prefix) (simp add: lower_char_separators)
  moreover have "py_partition CHR ''='' (map lower_char a) =
      (map lower_char (takeWhile (\<lambda>x. x \<noteq> CHR ''='') a), CHR ''='' \<in> set a, map lower_char (drop 1 (dropWhile (\<lambda>x. x \<noteq> CHR ''='') a)))"
    by (simp add: py_partition_def takeWhile_map dropWhile_map comp_def drop_map image_iff lower_char_separators)
  ultimately show ?thesis
    by (simp add: argument_confined_def py_casefold_def py_partition_def lower_confined [unfolded py_casefold_def])
qed

section \<open>Every token of an accepted command is confined\<close>

lemma partition_plain: "CHR ''='' \<notin> set a \<Longrightarrow> \<not> fst (snd (py_partition CHR ''='' a))"
  by (simp add: py_partition_def)

lemma partition_value: "py_partition CHR ''='' a = (opt, sep, v) \<Longrightarrow> is_prefix_of ''-'' a \<Longrightarrow> (sep \<longrightarrow> confined v) \<Longrightarrow> argument_confined a"
  by (simp add: argument_confined_def)

lemma positional_confined: "\<not> is_prefix_of ''-'' a \<Longrightarrow> workspace_value_is_syntax_safe a \<Longrightarrow> argument_confined a"
  by (simp add: argument_confined_def safe_value_confined)

lemma allowlist_loop_confined:
  "allowlist_loop flags opts pos expecting args \<Longrightarrow> \<forall>a \<in> set args. argument_confined a"
proof (induction flags opts pos expecting args rule: allowlist_loop.induct)
  case (2 flags opts pos expecting a rest)
  obtain opt sep v where part: "py_partition CHR ''='' a = (opt, sep, v)" by (cases "py_partition CHR ''='' a")
  have "argument_confined a"
    using 2(6) part positional_confined [of a] partition_value [OF part] safe_value_confined [of v]
    by (auto split: if_splits)
  moreover have "\<forall>a \<in> set rest. argument_confined a"
    using 2 part by (auto split: if_splits)
  ultimately show ?case by simp
qed simp

lemma allowlisted_confined:
  "arguments_are_allowlisted args flags opts pos \<Longrightarrow> \<forall>a \<in> set args. argument_confined a"
  unfolding arguments_are_allowlisted_def by (rule allowlist_loop_confined)

text \<open>What the option prefix of an accepted command consists of.\<close>

lemma global_options_step:
  assumes "action_after_global_options flags opts (a # rest) = Some result"
  shows "\<not> is_prefix_of ''-'' a \<and> result = (a, rest) \<or>
    is_prefix_of ''-'' a \<and> a \<in> flags \<and> action_after_global_options flags opts rest = Some result \<or>
    is_prefix_of ''-'' a \<and> argument_confined a \<and> (action_after_global_options flags opts rest = Some result \<or>
      (\<exists>w rest'. rest = w # rest' \<and> argument_confined w \<and> action_after_global_options flags opts rest' = Some result))"
proof -
  obtain opt sep v where part: "py_partition CHR ''='' a = (opt, sep, v)" by (cases "py_partition CHR ''='' a")
  show ?thesis
  proof (cases "\<not> is_prefix_of ''-'' a \<or> a \<in> flags")
    case True
    with assms show ?thesis by (auto split: if_splits)
  next
    case option: False
    then have dash: "is_prefix_of ''-'' a" by simp
    show ?thesis
    proof (cases sep)
      case True
      with assms option part have "workspace_value_is_syntax_safe v" "action_after_global_options flags opts rest = Some result"
        by (simp_all split: if_splits)
      with dash partition_value [OF part dash] safe_value_confined show ?thesis by blast
    next
      case False
      with assms option part obtain w rest' where "rest = w # rest'" "\<not> is_prefix_of ''-'' w"
        "workspace_value_is_syntax_safe w" "action_after_global_options flags opts rest' = Some result"
        by (simp split: list.splits if_splits)
      with dash False partition_value [OF part dash] positional_confined show ?thesis by blast
    qed
  qed
qed

lemma global_options_confined:
  assumes flags: "\<forall>f \<in> flags. CHR ''='' \<notin> set f"
  shows "action_after_global_options flags opts args = Some (action, tail) \<Longrightarrow>
    argument_confined action \<Longrightarrow> \<forall>a \<in> set tail. argument_confined a \<Longrightarrow> \<forall>a \<in> set args. argument_confined a"
proof (induction "length args" arbitrary: args rule: less_induct)
  case less
  show ?case
  proof (cases args)
    case (Cons a rest)
    have "argument_confined a" if "is_prefix_of ''-'' a" "a \<in> flags"
      using that flags by (auto simp: argument_confined_def py_partition_def)
    with global_options_step [OF less.prems(1) [unfolded Cons]] less.prems(2,3) less.hyps [of rest] less.hyps [of "tl rest"] Cons
    show ?thesis by auto
  qed simp
qed

text \<open>Words of letters, digits, dots and dashes that begin with a letter or digit are confined.\<close>

definition is_word :: "string \<Rightarrow> bool" where
  "is_word s \<longleftrightarrow> s \<noteq> [] \<and> (is_letter (hd s) \<or> is_digit_char (hd s)) \<and> list_all is_scheme_char s"

lemma scheme_char_plain:
  assumes "is_scheme_char c"
  shows "\<not> is_value_separator c" "\<not> is_path_separator c" "c \<noteq> CHR '':''" "c \<notin> {slash, backslash, CHR 0x7E, CHR 0x40}"
  using assms by (auto simp: is_scheme_char_def is_letter_def is_lower_char_def is_upper_char_def is_digit_char_def
      is_value_separator_def is_space_def is_path_separator_def char_consts Let_def)

lemma split_runs_plain: "list_all (\<lambda>c. \<not> p c) s \<Longrightarrow> split_runs p s = [s]"
  by (subst split_runs.simps) (simp add: dropWhile_eq_Nil_conv list_all_iff)

lemma word_confined:
  assumes "is_word s"
  shows "argument_confined s"
proof -
  have all: "list_all is_scheme_char s" and first: "s \<noteq> []" "is_letter (hd s) \<or> is_digit_char (hd s)" using assms by (auto simp: is_word_def)
  have "hd s \<noteq> CHR ''-''" using first(2) by (auto simp: is_letter_def is_lower_char_def is_upper_char_def is_digit_char_def Let_def)
  then have dash: "\<not> is_prefix_of ''-'' s" using first(1) by (cases s) auto
  have "split_at is_path_separator s = [s]" using all scheme_char_plain(2) by (intro split_at_plain) (auto simp: list_all_iff)
  moreover have "s \<noteq> ''..''" using first(2) by (auto simp: is_letter_def is_lower_char_def is_upper_char_def is_digit_char_def Let_def)
  ultimately have "\<not> climbs s" using climbs_component [of s] by auto
  moreover have "\<not> rooted s"
    using all first(1) scheme_char_plain(4) by (cases s) (auto simp: rooted_def)
  moreover have "\<not> windows_absolute s"
    using all scheme_char_plain(3) by (cases s rule: windows_absolute.cases) auto
  moreover have "dropWhile is_scheme_char (tl s) = []" using all by (cases s) (auto simp: list_all_iff dropWhile_eq_Nil_conv)
  then have "\<not> uri_path s" by (cases s) (auto simp del: dropWhile_eq_Nil_conv)
  moreover have "split_runs is_value_separator s = [s]"
    using all scheme_char_plain(1) by (intro split_runs_plain) (auto simp: list_all_iff)
  ultimately have "confined s" by (simp add: confined_def escapes_def)
  with dash show ?thesis by (simp add: argument_confined_def)
qed

lemmas word_chars = is_word_def is_scheme_char_def is_letter_def is_lower_char_def is_upper_char_def is_digit_char_def Let_def

lemma kubectl_actions_words: "a \<in> kubectl_read_actions \<Longrightarrow> argument_confined a"
  by (rule word_confined) (auto simp: kubectl_read_actions_def word_chars)

lemma git_actions_words: "a \<in> git_read_actions \<Longrightarrow> argument_confined a"
  by (rule word_confined) (auto simp: git_read_actions_def word_chars)

lemma action_words:
  "a \<in> {''check'', ''format'', ''fmt'', ''validate'', ''version'', ''lint'', ''template'', ''vet'', ''test'', ''clippy''} \<Longrightarrow>
   argument_confined a"
  by (rule word_confined) (auto simp: word_chars)

lemma simple_tools_confined:
  "mypy_arguments as \<Longrightarrow> \<forall>a \<in> set as. argument_confined a"
  "pyright_arguments as \<Longrightarrow> \<forall>a \<in> set as. argument_confined a"
  "shellcheck_arguments as \<Longrightarrow> \<forall>a \<in> set as. argument_confined a"
  "yamllint_arguments as \<Longrightarrow> \<forall>a \<in> set as. argument_confined a"
  "pytest_arguments_are_safe as \<Longrightarrow> \<forall>a \<in> set as. argument_confined a"
  unfolding mypy_arguments_def pyright_arguments_def shellcheck_arguments_def yamllint_arguments_def pytest_arguments_are_safe_def
  by (erule allowlisted_confined)+

lemma ruff_confined: "ruff_arguments as \<Longrightarrow> \<forall>a \<in> set as. argument_confined a"
proof (cases as)
  case (Cons action tail)
  assume ok: "ruff_arguments as"
  with Cons have "action \<in> {''check'', ''format''}" by (auto simp: ruff_arguments_def split: if_splits)
  moreover have "\<forall>a \<in> set tail. argument_confined a"
    using ok Cons allowlisted_confined by (simp only: ruff_arguments_def list.case split: if_splits) blast+
  ultimately show ?thesis using Cons action_words by auto
qed simp

lemma helm_confined: "helm_arguments as \<Longrightarrow> \<forall>a \<in> set as. argument_confined a"
proof (cases as)
  case (Cons action tail)
  assume ok: "helm_arguments as"
  with Cons have "action \<in> {''lint'', ''template'', ''version''}" by (simp only: helm_arguments_def list.case)
  moreover have "\<forall>a \<in> set tail. argument_confined a"
    using ok Cons allowlisted_confined by (simp only: helm_arguments_def list.case) blast
  ultimately show ?thesis using Cons action_words by auto
qed simp

lemma go_confined: "go_arguments as \<Longrightarrow> \<forall>a \<in> set as. argument_confined a"
proof (cases as)
  case (Cons action tail)
  assume ok: "go_arguments as"
  with Cons have "action \<in> {''version'', ''vet'', ''test''}" by (auto simp: go_arguments_def split: if_splits)
  moreover have "\<forall>a \<in> set tail. argument_confined a"
    using ok Cons allowlisted_confined by (simp only: go_arguments_def list.case split: if_splits) (simp, blast+)
  ultimately show ?thesis using Cons action_words by auto
qed simp

lemma cargo_confined: "cargo_arguments as \<Longrightarrow> \<forall>a \<in> set as. argument_confined a"
proof (cases as)
  case (Cons action tail)
  assume ok: "cargo_arguments as"
  with Cons have "action \<in> {''check'', ''clippy'', ''test'', ''fmt''}" by (auto simp: cargo_arguments_def split: if_splits)
  moreover have "\<forall>a \<in> set tail. argument_confined a"
    using ok Cons allowlisted_confined by (simp only: cargo_arguments_def list.case split: if_splits) blast+
  ultimately show ?thesis using Cons action_words by auto
qed simp

lemma parsed_confined:
  assumes parsed: "case action_after_global_options flags opts as of None \<Rightarrow> False | Some (action, tail) \<Rightarrow> P action tail"
    and flags: "\<forall>f \<in> flags. CHR ''='' \<notin> set f"
    and parts: "\<And>action tail. P action tail \<Longrightarrow> argument_confined action \<and> (\<forall>a \<in> set tail. argument_confined a)"
  shows "\<forall>a \<in> set as. argument_confined a"
proof -
  from parsed obtain action tail where "action_after_global_options flags opts as = Some (action, tail)" "P action tail"
    by (auto split: option.splits)
  with global_options_confined [OF flags] parts show ?thesis by blast
qed

lemma kubectl_confined: "kubectl_arguments as \<Longrightarrow> \<forall>a \<in> set as. argument_confined a"
  unfolding kubectl_arguments_def
  by (erule parsed_confined) (simp, use allowlisted_confined kubectl_actions_words in blast)

lemma git_confined: "git_arguments as \<Longrightarrow> \<forall>a \<in> set as. argument_confined a"
  unfolding git_arguments_def
  by (split if_split_asm, simp, erule parsed_confined) (simp, use allowlisted_confined git_actions_words in blast)

lemma tofu_confined: "tofu_arguments as \<Longrightarrow> \<forall>a \<in> set as. argument_confined a"
  unfolding tofu_arguments_def
proof (erule parsed_confined)
  fix action tail
  assume ok: "if action = ''fmt'' then
            list_ex (\<lambda>a. a \<in> {''-check'', ''--check'', ''-check=true'', ''--check=true''}) tail \<and>
            arguments_are_allowlisted tail
              {''--check'', ''--check=true'', ''-check'', ''-check=true'', ''-diff'', ''-list'', ''-no-color'', ''-recursive'',
               ''-write=false''} {} True
          else if action = ''validate'' then
            arguments_are_allowlisted tail {''-json'', ''-no-color''} {''-test-directory''} True
          else action = ''version'' \<and> arguments_are_allowlisted tail {''-json''} {} False"
  then have "action \<in> {''fmt'', ''validate'', ''version''}" by (simp only: split: if_splits) simp_all
  moreover from ok have "\<forall>a \<in> set tail. argument_confined a" using allowlisted_confined by (simp only: split: if_splits) blast+
  ultimately show "argument_confined action \<and> (\<forall>a \<in> set tail. argument_confined a)" using action_words by auto
qed simp

text \<open>The gate judges the arguments in lower case, \<^verbatim>\<open>pytest\<close> excepted.\<close>

lemma lowered_confined: "\<forall>a \<in> set (map py_casefold as). argument_confined a \<Longrightarrow> \<forall>a \<in> set as. argument_confined a"
  by (simp add: lower_argument)

lemma if_elim: "(if c then a else b) \<Longrightarrow> (c \<Longrightarrow> a \<Longrightarrow> P) \<Longrightarrow> (\<not> c \<Longrightarrow> b \<Longrightarrow> P) \<Longrightarrow> P"
  by (cases c) simp_all

lemmas tools_confined = simple_tools_confined(1-4) ruff_confined kubectl_confined tofu_confined git_confined helm_confined
  go_confined cargo_confined

lemma tool_confined: "allowed_validation_tool tool as \<Longrightarrow> \<forall>a \<in> set as. argument_confined a"
  unfolding allowed_validation_tool_def Let_def
  by (elim if_elim FalseE; (erule simple_tools_confined(5) | (rule lowered_confined, erule tools_confined)))

definition validation_tools :: "string set" where
  "validation_tools = {''pytest'', ''py.test'', ''mypy'', ''pyright'', ''shellcheck'', ''yamllint'', ''ruff'', ''kubectl'',
     ''tofu'', ''terraform'', ''git'', ''helm'', ''go'', ''cargo''}"

lemma tool_listed: "allowed_validation_tool tool as \<Longrightarrow> tool \<in> validation_tools"
  unfolding allowed_validation_tool_def validation_tools_def Let_def by (elim if_elim FalseE) auto

lemma tool_words: "tool \<in> validation_tools \<Longrightarrow> argument_confined tool"
  by (rule word_confined) (auto simp: validation_tools_def word_chars)

section \<open>Tokens\<close>

text \<open>Characters of the tokens are characters of the line; a state after a backslash has read one.\<close>

fun escaped_in :: "(char \<Rightarrow> bool) \<Rightarrow> shlex_state \<Rightarrow> bool" where
  "escaped_in P (Escaping st) \<longleftrightarrow> P backslash \<and> escaped_in P st"
| "escaped_in P _ \<longleftrightarrow> True"

lemma shlex_loop_chars:
  "shlex_loop st token quoted acc cs = Inr ts \<Longrightarrow> list_all P cs \<Longrightarrow> list_all P token \<Longrightarrow> escaped_in P st \<Longrightarrow>
   list_all (list_all P) acc \<Longrightarrow> list_all (list_all P) ts"
proof (induction st token quoted acc cs rule: shlex_loop.induct)
  case (8 st token quoted acc c cs)
  then show ?case by (simp split: shlex_state.splits if_splits)
qed (auto simp: shlex_emit_def split: if_split_asm)

lemma shlex_split_chars: "shlex_split s = Inr ts \<Longrightarrow> t \<in> set ts \<Longrightarrow> set t \<subseteq> set s"
  using shlex_loop_chars [of Between "[]" False "[]" s ts "\<lambda>c. c \<in> set s"] by (auto simp: shlex_split_def list_all_iff)

lemma safe_tokens_cases:
  assumes "tokens_are_safe tokens"
  obtains (tool) tool as where "tokens = tool # as" "allowed_validation_tool (py_casefold tool) as"
  | (module) tool m rest where "tokens = tool # ''-m'' # m # rest" "is_python_executable (py_casefold tool)"
      "allowed_validation_tool (py_casefold m) rest"
proof (cases tokens)
  case t: (Cons tool as)
  show thesis
  proof (cases "is_python_executable (py_casefold tool)")
    case True
    with assms t have "case as of minus_m # m # rest \<Rightarrow>
        minus_m = ''-m'' \<and> \<not> has_path_separator m \<and> allowed_validation_tool (py_casefold m) rest | _ \<Rightarrow> False"
      by (simp add: tokens_are_safe_def split: if_split_asm)
    then obtain m rest where "as = ''-m'' # m # rest" "allowed_validation_tool (py_casefold m) rest"
      by (cases as; cases "tl as") simp_all
    with t True module show thesis by blast
  next
    case False
    with assms t tool show thesis by (simp add: tokens_are_safe_def split: if_split_asm)
  qed
qed (use assms in \<open>simp add: tokens_are_safe_def\<close>)

lemma safe_tokens_tool:
  assumes "tokens_are_safe tokens"
  shows "\<exists>tool \<in> set tokens. py_casefold tool \<in> validation_tools"
  using assms by (cases rule: safe_tokens_cases) (auto dest: tool_listed)

lemma python_word: "is_python_executable s \<Longrightarrow> is_word s"
proof -
  assume s: "is_python_executable s"
  then obtain v where v: "s = ''python'' @ v" by (auto simp: is_python_executable_def is_prefix_of_iff)
  have "list_all is_scheme_char v"
  proof (cases "v = []")
    case False
    with s v have parts: "list_all nonempty_digits (split_at (\<lambda>c. c = CHR ''.'') v)"
      by (simp add: is_python_executable_def Let_def)
    then have "list_all (list_all is_digit_char) (split_at (\<lambda>c. c = CHR ''.'') v)"
      by (auto simp: list_all_iff nonempty_digits_def)
    then show ?thesis
      by (induction v) (auto simp: is_scheme_char_def split: if_splits list.splits)
  qed simp
  with v show ?thesis by (simp add: word_chars)
qed

lemma suffix_words: "suffix \<in> set observation_suffixes \<Longrightarrow> a \<in> set suffix \<Longrightarrow> argument_confined a"
proof -
  assume "suffix \<in> set observation_suffixes" "a \<in> set suffix"
  then have "a \<in> {''returns'', ''exit'', ''code'', ''zero'', ''exits'', ''0''}" by (auto simp: observation_suffixes_def)
  then show ?thesis by (intro word_confined) (auto simp: word_chars)
qed

lemma confined_by_case: "argument_confined (py_casefold a) \<Longrightarrow> argument_confined a"
  by (simp add: lower_argument)

lemma tokens_confined:
  assumes "tokens_are_safe tokens"
  shows "\<forall>a \<in> set tokens. argument_confined a"
  using assms
proof (cases rule: safe_tokens_cases)
  case (tool tool as)
  have "argument_confined tool" by (rule confined_by_case [OF tool_words [OF tool_listed [OF tool(2)]]])
  with tool tool_confined [OF tool(2)] show ?thesis by simp
next
  case (module tool m rest)
  have "argument_confined tool" by (rule confined_by_case [OF word_confined [OF python_word [OF module(2)]]])
  moreover have "argument_confined m" by (rule confined_by_case [OF tool_words [OF tool_listed [OF module(3)]]])
  moreover have "argument_confined ''-m''" by (simp add: argument_confined_def py_partition_def)
  ultimately show ?thesis using module tool_confined [OF module(3)] by simp
qed

lemma without_suffix_split:
  "\<exists>suffix. tokens = without_observation_suffix tokens @ suffix \<and> (\<forall>a \<in> set suffix. argument_confined a)"
proof (cases "find (has_suffix tokens) observation_suffixes")
  case None
  then show ?thesis by (intro exI [of _ "[]"]) (simp add: without_observation_suffix_def)
next
  case (Some suffix)
  then have s: "has_suffix tokens suffix" "suffix \<in> set observation_suffixes"
    by (auto simp: find_Some_iff)
  let ?rest = "drop (length tokens - length suffix) tokens"
  have "map py_casefold ?rest = suffix" using s(1) by (simp add: has_suffix_def drop_map)
  then have "py_casefold a \<in> set suffix" if "a \<in> set ?rest" for a using that by (metis imageI set_map)
  with suffix_words [OF s(2)] have "\<forall>a \<in> set ?rest. argument_confined a" by (blast intro: confined_by_case)
  with Some show ?thesis by (intro exI [of _ ?rest]) (simp add: without_observation_suffix_def)
qed



section \<open>The option loop as a grammar\<close>

inductive allowlisted :: "string set \<Rightarrow> string set \<Rightarrow> bool \<Rightarrow> string list \<Rightarrow> bool" for flags opts positionals where
  nothing: "allowlisted flags opts positionals []"
| positional: "positionals \<Longrightarrow> \<not> is_prefix_of ''-'' a \<Longrightarrow> workspace_value_is_syntax_safe a \<Longrightarrow>
    allowlisted flags opts positionals rest \<Longrightarrow> allowlisted flags opts positionals (a # rest)"
| flag: "is_prefix_of ''-'' a \<Longrightarrow> a \<in> flags \<Longrightarrow> py_partition CHR ''='' a = (opt, sep, v) \<Longrightarrow>
    (sep \<longrightarrow> workspace_value_is_syntax_safe v) \<Longrightarrow>
    allowlisted flags opts positionals rest \<Longrightarrow> allowlisted flags opts positionals (a # rest)"
| assigned: "is_prefix_of ''-'' a \<Longrightarrow> a \<notin> flags \<Longrightarrow> py_partition CHR ''='' a = (opt, True, v) \<Longrightarrow> opt \<in> opts \<Longrightarrow>
    v \<noteq> [] \<Longrightarrow> workspace_value_is_syntax_safe v \<Longrightarrow>
    allowlisted flags opts positionals rest \<Longrightarrow> allowlisted flags opts positionals (a # rest)"
| separate: "is_prefix_of ''-'' a \<Longrightarrow> a \<notin> flags \<Longrightarrow> py_partition CHR ''='' a = (opt, False, v) \<Longrightarrow> opt \<in> opts \<Longrightarrow>
    \<not> is_prefix_of ''-'' w \<Longrightarrow> workspace_value_is_syntax_safe w \<Longrightarrow>
    allowlisted flags opts positionals rest \<Longrightarrow> allowlisted flags opts positionals (a # w # rest)"

inductive_cases allowlisted_ConsE: "allowlisted flags opts positionals (a # rest)"

lemma allowlisted_expecting:
  "allowlist_loop flags opts pos True as \<longleftrightarrow>
     (\<exists>w rest. as = w # rest \<and> \<not> is_prefix_of ''-'' w \<and> workspace_value_is_syntax_safe w \<and> allowlist_loop flags opts pos False rest)"
  by (cases as) auto

lemma allowlist_loop_sound: "allowlist_loop flags opts pos False as \<Longrightarrow> allowlisted flags opts pos as"
proof (induction "length as" arbitrary: as rule: less_induct)
  case less
  show ?case
  proof (cases as)
    case Nil
    show ?thesis unfolding Nil by (rule allowlisted.nothing)
  next
    case (Cons a rest)
    obtain opt sep v where part: "py_partition CHR ''='' a = (opt, sep, v)" by (cases "py_partition CHR ''='' a")
    have IH: "allowlist_loop flags opts pos False r \<Longrightarrow> length r < length as \<Longrightarrow> allowlisted flags opts pos r" for r
      using less.hyps by blast
    consider (word) "\<not> is_prefix_of ''-'' a" | (flag) "is_prefix_of ''-'' a" "a \<in> flags"
      | (assigned) "is_prefix_of ''-'' a" "a \<notin> flags" "sep" | (separate) "is_prefix_of ''-'' a" "a \<notin> flags" "\<not> sep" by blast
    then show ?thesis
    proof cases
      case word
      with less.prems Cons IH [of rest] show ?thesis by (auto intro: allowlisted.positional)
    next
      case flag
      with less.prems Cons part IH [of rest] show ?thesis by (auto intro: allowlisted.flag)
    next
      case assigned
      with less.prems Cons part have "opt \<in> opts" "v \<noteq> []" "workspace_value_is_syntax_safe v" "allowlist_loop flags opts pos False rest"
        by (auto split: if_splits)
      with assigned part Cons IH [of rest] show ?thesis by (auto intro: allowlisted.assigned)
    next
      case separate
      with less.prems Cons part have "opt \<in> opts" "allowlist_loop flags opts pos True rest"
        by (auto split: if_splits)
      then obtain w rest' where w: "rest = w # rest'" "\<not> is_prefix_of ''-'' w" "workspace_value_is_syntax_safe w"
        "allowlist_loop flags opts pos False rest'" unfolding allowlisted_expecting by blast
      from separate part have "py_partition CHR ''='' a = (opt, False, v)" by simp
      from allowlisted.separate [OF separate(1,2) this \<open>opt \<in> opts\<close> w(2,3) IH [OF w(4)]] Cons w(1) show ?thesis by simp
    qed
  qed
qed

lemma allowlist_loop_complete: "allowlisted flags opts pos as \<Longrightarrow> allowlist_loop flags opts pos False as"
  by (induction rule: allowlisted.induct) auto

text \<open>
  the argument loop accepts exactly the argument lists of the grammar: positionals where they
  are allowed, flags, options with an attached value and options with a separate value, every
  value safe; an option at the end without its value is refused.
\<close>

theorem arguments_follow_grammar:
  "arguments_are_allowlisted arguments flags value_options allow_positionals =
     allowlisted flags value_options allow_positionals arguments"
  unfolding arguments_are_allowlisted_def using allowlist_loop_sound allowlist_loop_complete by blast

section \<open>Plain command lines\<close>

definition shlex_plain :: "char \<Rightarrow> bool" where
  "shlex_plain c \<longleftrightarrow> \<not> is_space c \<and> \<not> is_quote c \<and> c \<noteq> backslash"

definition plain_word :: "string \<Rightarrow> bool" where
  "plain_word w \<longleftrightarrow> w \<noteq> [] \<and> list_all shlex_plain w"

lemma shlex_plain_no_space: "shlex_plain c \<Longrightarrow> \<not> is_shlex_space c"
  by (auto simp: shlex_plain_def is_shlex_space_def is_space_def Let_def)

lemma py_strip_Nil: "py_strip s = [] \<longleftrightarrow> list_all is_space s"
proof
  assume "py_strip s = []"
  then have "list_all is_space (dropWhile is_space s)"
    by (simp add: py_strip_def py_rstrip_def py_lstrip_def list_all_iff)
  then show "list_all is_space s"
    by (induction s) (auto split: if_splits)
next
  assume "list_all is_space s"
  then have "dropWhile is_space s = []" by (induction s) simp_all
  then show "py_strip s = []" by (simp add: py_strip_def py_rstrip_def py_lstrip_def del: dropWhile_eq_Nil_conv)
qed

lemma shlex_plain_word:
  "list_all shlex_plain w \<Longrightarrow> shlex_loop InWord token quoted acc (w @ cs) = shlex_loop InWord (token @ w) quoted acc cs"
  by (induction w arbitrary: token) (simp_all add: shlex_plain_no_space, simp add: shlex_plain_def)

lemma shlex_begin_word:
  assumes "plain_word w"
  shows "shlex_loop Between [] False acc (w @ cs) = shlex_loop InWord w False acc cs"
proof (cases w)
  case (Cons c w')
  with assms have "shlex_plain c" "list_all shlex_plain w'" by (simp_all add: plain_word_def)
  with Cons shlex_plain_word [of w' "[c]" False acc cs] show ?thesis by (simp add: shlex_plain_no_space) (simp add: shlex_plain_def)
qed (use assms in \<open>simp add: plain_word_def\<close>)

lemma shlex_words:
  "\<forall>w \<in> set ws. plain_word w \<Longrightarrow> shlex_loop Between [] False acc (py_join '' '' ws) = Inr (acc @ ws)"
proof (induction ws arbitrary: acc rule: induct_list012)
  case 1
  then show ?case by (simp add: shlex_emit_def)
next
  case (2 w)
  then have "plain_word w" "w \<noteq> []" by (simp_all add: plain_word_def)
  with shlex_begin_word [of w acc "[]"] show ?case by (simp add: shlex_emit_def)
next
  case (3 w w' ws)
  then have w: "plain_word w" "w \<noteq> []" by (simp_all add: plain_word_def)
  have space: "is_shlex_space CHR '' ''" by (simp add: is_shlex_space_def)
  have "shlex_loop Between [] False acc (py_join '' '' (w # w' # ws)) =
      shlex_loop Between [] False (acc @ [w]) (py_join '' '' (w' # ws))"
    using shlex_begin_word [OF w(1)] w(2) space by (simp add: shlex_emit_def)
  with 3 show ?case by simp
qed

text \<open>
  A list of nonempty words without blanks, quotes and backslashes is read back from its
  spaced-out command line, so without control characters the gate judges exactly these words.
\<close>

theorem plain_command_read:
  assumes "\<forall>w \<in> set ws. plain_word w" and "\<not> list_ex is_shell_control (py_join '' '' ws)"
  shows "shlex_split (py_join '' '' ws) = Inr ws \<and>
    command_is_safe (py_join '' '' ws) = tokens_are_safe (without_observation_suffix ws)"
proof -
  have split: "shlex_split (py_join '' '' ws) = Inr ws"
    using shlex_words [OF assms(1), of "[]"] by (simp add: shlex_split_def)
  have "tokens_are_safe (without_observation_suffix ws) = False" if "ws = []"
    using that by (simp add: without_observation_suffix_def tokens_are_safe_def split: option.split)
  moreover have "py_strip (py_join '' '' ws) \<noteq> []" if "ws \<noteq> []"
  proof -
    from that obtain w ws' where ws: "ws = w # ws'" by (cases ws) auto
    with assms(1) obtain c w' where "w = c # w'" "\<not> is_space c" by (cases w) (auto simp: plain_word_def shlex_plain_def)
    with ws show ?thesis by (cases ws') (simp_all add: py_strip_Nil)
  qed
  ultimately show ?thesis using split assms(2)
    by (cases "ws = []") (simp_all add: command_is_safe_def py_strip_Nil)
qed

lemma plain_command_read_witness:
  "shlex_split (py_join '' '' [''git'', ''status'', ''--short'']) = Inr [''git'', ''status'', ''--short''] \<and>
   command_is_safe (py_join '' '' [''git'', ''status'', ''--short'']) =
     tokens_are_safe (without_observation_suffix [''git'', ''status'', ''--short''])"
  by (rule plain_command_read) (simp_all add: plain_word_def shlex_plain_def is_space_def is_quote_def char_consts is_shell_control_def)

end
