(* ===== verification/Scoring.thy ===== *)
theory Scoring
  imports Complex_Main Commands Examples
begin

text \<open>
  \<^verbatim>\<open>score_plan\<close> of \<^verbatim>\<open>src/evals/scoring.py\<close>: eight quality scores of a plan. The
  regular expressions are a datatype whose matcher returns every remainder a match can leave,
  applied to the case-folded text for the flag \<^verbatim>\<open>(?i)\<close>. A score is the exact quotient; the
  rounding of floating-point division is not modelled.
\<close>

section \<open>Regular expressions\<close>

datatype regex = Lit string | Class "char \<Rightarrow> bool" | Run "char \<Rightarrow> bool" | Alt regex regex | Opt regex | Then regex regex

fun run_rests :: "(char \<Rightarrow> bool) \<Rightarrow> string \<Rightarrow> string list" where
  "run_rests p [] = [[]]"
| "run_rests p (c # s) = (if p c then run_rests p s else []) @ [c # s]"

fun regex_rests :: "regex \<Rightarrow> string \<Rightarrow> string list" where
  "regex_rests (Lit w) s = (if is_prefix_of w s then [drop (length w) s] else [])"
| "regex_rests (Class p) s = (case s of [] \<Rightarrow> [] | c # t \<Rightarrow> if p c then [t] else [])"
| "regex_rests (Run p) s = run_rests p s"
| "regex_rests (Alt a b) s = regex_rests a s @ regex_rests b s"
| "regex_rests (Opt a) s = regex_rests a s @ [s]"
| "regex_rests (Then a b) s = concat (map (regex_rests b) (regex_rests a s))"

fun regex_search :: "regex \<Rightarrow> string \<Rightarrow> bool" where
  "regex_search r [] = (regex_rests r [] \<noteq> [])"
| "regex_search r (c # s) = (regex_rests r (c # s) \<noteq> [] \<or> regex_search r s)"

definition is_word_char :: "char \<Rightarrow> bool" where
  "is_word_char c \<longleftrightarrow> is_letter c \<or> is_digit_char c \<or> c = CHR 0x5F"

text \<open>\<^verbatim>\<open>\b(...|...)\b\<close> over words that begin and end with a word character.\<close>

fun word_search :: "string list \<Rightarrow> bool \<Rightarrow> string \<Rightarrow> bool" where
  "word_search ws inside [] = False"
| "word_search ws inside (c # s) =
     (\<not> inside \<and> list_ex (\<lambda>w. is_prefix_of w (c # s) \<and>
        (case drop (length w) (c # s) of [] \<Rightarrow> True | d # _ \<Rightarrow> \<not> is_word_char d)) ws
      \<or> word_search ws (is_word_char c) s)"

definition observable_pattern :: regex where
  "observable_pattern =
     (let gap = Then (Run is_space) (Then (Opt (Alt (Lit ''is'') (Lit ''=''))) (Run is_space));
          digit = Class is_digit_char in
      Alt (Then (Then (Lit ''exit'') (Opt (Alt (Lit ''s'') (Lit '' code'')))) (Then gap (Alt (Lit ''zero'') (Lit ''0''))))
     (Alt (Then (Lit ''status'') (Then gap (Then digit (Then digit digit))))
     (Alt (Lit ''metric'') (Alt (Lit ''exists'') (Alt (Lit ''equals'') (Alt (Lit ''returns'') (Alt (Lit ''below'')
     (Alt (Lit ''above'') (Alt (Lit ''<'') (Alt (Lit ''>'') (Lit ''check run'')))))))))))"

definition is_observable :: "string \<Rightarrow> bool" where
  "is_observable s = regex_search observable_pattern (py_casefold s)"

definition is_vague :: "string \<Rightarrow> bool" where
  "is_vague s = word_search [''manual'', ''looks good'', ''works'', ''done'', ''success'', ''as expected'', ''tbd'']
     False (py_casefold s)"

definition is_overbroad :: "string \<Rightarrow> bool" where
  "is_overbroad s = word_search [''everything'', ''all systems'', ''entire platform'', ''every subsystem'', ''one indivisible'']
     False (py_casefold s)"

section \<open>Scores\<close>

record evaluation_score =
  es_verticality :: rat
  es_boundedness :: rat
  es_dependency_integrity :: rat
  es_observability :: rat
  es_command_safety :: rat
  es_coverage :: rat
  es_duplication :: rat
  es_unnecessary_serialization :: rat

definition overall :: "evaluation_score \<Rightarrow> rat" where
  "overall s = (es_verticality s + es_boundedness s + es_dependency_integrity s + es_observability s +
     es_command_safety s + es_coverage s + es_duplication s + es_unnecessary_serialization s) / 8"

definition executable_items :: "backlog_plan \<Rightarrow> backlog_item list" where
  "executable_items p = filter (\<lambda>i. bi_type i \<in> {Story, Task, Investigation, Bug}) (bp_items p)"

definition count_where :: "('a \<Rightarrow> bool) \<Rightarrow> 'a list \<Rightarrow> nat" where
  "count_where p xs = length (filter p xs)"

definition ratio :: "nat \<Rightarrow> nat \<Rightarrow> rat" where
  "ratio n d = of_nat n / of_nat (max 1 d)"

definition title_and_objective :: "backlog_item \<Rightarrow> string" where
  "title_and_objective i = bi_title i @ '' '' @ bi_objective i"

definition is_vertical :: "backlog_item \<Rightarrow> bool" where
  "is_vertical i \<longleftrightarrow> bi_acceptance_criteria i \<noteq> [] \<and> \<not> is_overbroad (title_and_objective i) \<and>
     list_ex (\<lambda>c. is_observable (ac_observation c)) (bi_acceptance_criteria i)"

definition is_bounded :: "backlog_item \<Rightarrow> bool" where
  "is_bounded i \<longleftrightarrow> \<not> is_overbroad (title_and_objective i) \<and>
     \<not> (bi_risk i \<in> {RiskHigh, RiskCritical} \<and> ae_eligible (bi_agent_eligibility i))"

definition item_commands :: "backlog_item \<Rightarrow> string list" where
  "item_commands i = bi_validation_commands i @
     (if rp_kind (bi_result_predicate i) = PrCommand then [rp_expression (bi_result_predicate i)] else [])"

definition command_safe :: "backlog_plan \<Rightarrow> (string, bool) dict" where
  "command_safe p =
     dict_of bi_key (\<lambda>i. \<not> list_ex (\<lambda>c. \<not> command_is_safe c) (item_commands i)) (executable_items p)"

definition is_observed :: "(string, bool) dict \<Rightarrow> backlog_item \<Rightarrow> bool" where
  "is_observed safe i \<longleftrightarrow>
     list_all (\<lambda>c. is_observable (ac_observation c) \<and> \<not> is_vague (ac_observation c)) (bi_acceptance_criteria i) \<and>
     bi_required_evidence i \<noteq> [] \<and> is_observable (rp_expression (bi_result_predicate i)) \<and>
     dict_get safe (bi_key i) = Some True"

definition coverage :: "backlog_plan \<Rightarrow> string set option \<Rightarrow> rat" where
  "coverage p expected_requirements =
     (case expected_requirements of
        None \<Rightarrow> 0
      | Some expected \<Rightarrow>
          if set (concat (map bi_source_requirements (bp_items p))) - expected \<noteq> {} \<or>
             list_ex (\<lambda>i. set (bi_source_requirements i) \<inter> expected = {}) (executable_items p)
          then 0
          else ratio (card (set (concat (map bi_source_requirements (executable_items p))) \<inter> expected)) (card expected))"

definition titles :: "backlog_plan \<Rightarrow> string list" where
  "titles p = map (\<lambda>i. py_strip (py_casefold (bi_title i))) (bp_items p)"

definition ordering_edges :: "backlog_plan \<Rightarrow> nat" where
  "ordering_edges p = sum_list (map (\<lambda>i. length (bi_sequence_after i) + length (bi_blocked_by i)) (bp_items p))"

definition score_plan ::
  "(backlog_plan \<Rightarrow> string option) \<Rightarrow> backlog_plan \<Rightarrow> string set option \<Rightarrow> exn + evaluation_score" where
  "score_plan schema_error p expected =
     (let executable = executable_items p;
          n = length (bp_items p);
          d = length executable;
          safe = command_safe p
      in res_bind (validate_plan schema_error p) (\<lambda>issues. Inr
        \<lparr>es_verticality = ratio (count_where is_vertical executable) d,
         es_boundedness = ratio (count_where is_bounded executable) d,
         es_dependency_integrity = (if issues = [] then 1 else 0),
         es_observability = ratio (count_where (is_observed safe) executable) d,
         es_command_safety = ratio (count_where (\<lambda>b. b) (map snd safe)) d,
         es_coverage = min 1 (coverage p expected),
         es_duplication = ratio (card (set (titles p))) n,
         es_unnecessary_serialization = max 0 (1 - ratio (ordering_edges p) (n * (n - 1) div 2))\<rparr>))"

section \<open>Bounds\<close>

definition unit_interval :: "rat \<Rightarrow> bool" where
  "unit_interval x \<longleftrightarrow> 0 \<le> x \<and> x \<le> 1"

lemma ratio_unit: "n \<le> d \<Longrightarrow> unit_interval (ratio n d)"
  by (simp add: unit_interval_def ratio_def divide_le_eq le_max_iff_disj)

lemma ratio_one: "0 < d \<Longrightarrow> ratio n d = 1 \<longleftrightarrow> n = d"
  by (auto simp: ratio_def max_def divide_eq_1_iff)

lemma ratio_nonneg: "0 \<le> ratio n d"
  by (simp add: ratio_def)

lemma count_where_le: "count_where p xs \<le> length xs"
  by (simp add: count_where_def)

lemma length_dict_of: "length (dict_of f g xs) \<le> length xs"
proof -
  have "length (dict_of f g xs) = card (fst ` set (dict_of f g xs))"
    using distinct_card [OF distinct_dict_of [of f g xs]] by simp
  also have "\<dots> \<le> length xs" by (simp add: dict_simps) (metis card_length length_map list.set_map)
  finally show ?thesis .
qed

lemma coverage_nonneg: "0 \<le> coverage p expected"
  by (simp add: coverage_def ratio_nonneg split: option.split)

lemma titles_card: "card (set (titles p)) \<le> length (bp_items p)"
  using card_length [of "titles p"] by (simp add: titles_def)

lemma safe_commands_count: "count_where (\<lambda>b. b) (map snd (command_safe p)) \<le> length (executable_items p)"
  using count_where_le [of "\<lambda>b. b" "map snd (command_safe p)"] length_dict_of [of bi_key _ "executable_items p"]
  unfolding command_safe_def by (metis le_trans length_map)

text \<open>
  every plan gets a score, each of the eight scores and their mean lies between 0 and 1.
\<close>

theorem score_in_unit_interval:
  "\<exists>s. score_plan schema_error p expected = Inr s \<and>
     list_all unit_interval [es_verticality s, es_boundedness s, es_dependency_integrity s, es_observability s,
       es_command_safety s, es_coverage s, es_duplication s, es_unnecessary_serialization s, overall s]"
proof -
  obtain issues where "validate_plan schema_error p = Inr issues" using validate_plan_returns by blast
  then obtain s where s: "score_plan schema_error p expected = Inr s" by (simp add: score_plan_def Let_def)
  have "list_all unit_interval [es_verticality s, es_boundedness s, es_dependency_integrity s, es_observability s,
       es_command_safety s, es_coverage s, es_duplication s, es_unnecessary_serialization s]"
    using s ratio_unit [OF count_where_le] ratio_unit [OF safe_commands_count] ratio_unit [OF titles_card]
      coverage_nonneg [of p expected] ratio_nonneg
    by (auto simp: score_plan_def Let_def res_simps unit_interval_def)
  moreover from this have "unit_interval (overall s)" by (simp add: unit_interval_def overall_def)
  ultimately show ?thesis using s by simp
qed

text \<open>
  With distinct keys and something to execute, the command safety score is 1 exactly when the
  gate accepts every validation command and every result predicate that is a command; a single
  refused command lowers it.
\<close>

theorem full_command_safety:
  assumes "distinct (map bi_key (bp_items p))" and "executable_items p \<noteq> []"
    and "score_plan schema_error p expected = Inr s"
  shows "es_command_safety s = 1 \<longleftrightarrow> (\<forall>i \<in> set (executable_items p). \<forall>c \<in> set (item_commands i). command_is_safe c)"
proof -
  let ?ok = "\<lambda>i. \<not> list_ex (\<lambda>c. \<not> command_is_safe c) (item_commands i)"
  have "distinct (map bi_key (executable_items p))"
    using assms(1) by (simp add: executable_items_def distinct_map_filter)
  then have "map snd (command_safe p) = map ?ok (executable_items p)"
    by (simp add: command_safe_def dict_of_distinct comp_def)
  then have "count_where (\<lambda>b. b) (map snd (command_safe p)) = count_where ?ok (executable_items p)"
    by (simp add: count_where_def filter_map comp_def)
  then have "es_command_safety s = ratio (count_where ?ok (executable_items p)) (length (executable_items p))"
    using assms(3) by (auto simp: score_plan_def Let_def res_simps)
  moreover have "ratio (count_where q xs) (length xs) = 1 \<longleftrightarrow> (\<forall>x \<in> set xs. q x)" if "xs \<noteq> []" for q :: "backlog_item \<Rightarrow> bool" and xs
  proof -
    have "ratio (count_where q xs) (length xs) = 1 \<longleftrightarrow> length (filter q xs) = length xs"
      using that by (simp add: ratio_one count_where_def)
    also have "\<dots> \<longleftrightarrow> (\<forall>x \<in> set xs. q x)" using length_filter_less [of _ xs q] by fastforce
    finally show ?thesis .
  qed
  ultimately show ?thesis using assms(2) by (simp add: list_ex_iff)
qed

lemma full_command_safety_witness:
  "\<exists>s. score_plan (\<lambda>_. None) ex_plan None = Inr s \<and>
     (es_command_safety s = 1 \<longleftrightarrow> (\<forall>i \<in> set (executable_items ex_plan). \<forall>c \<in> set (item_commands i). command_is_safe c))"
proof -
  obtain s where s: "score_plan (\<lambda>_. None) ex_plan None = Inr s"
    using ex_plan_valid by (simp add: score_plan_def Let_def)
  have "distinct (map bi_key (bp_items ex_plan))" "executable_items ex_plan \<noteq> []" by code_simp+
  from full_command_safety [OF this s] s show ?thesis by blast
qed

end
