(* ===== verification/LifecycleStore.thy ===== *)
theory LifecycleStore
  imports Dedupe
begin

text \<open>
  \<^verbatim>\<open>PostgresLifecycleStore\<close> of \<^verbatim>\<open>src/planning_platform/lifecycle/store.py\<close>:
  the runs of plans as a state machine in a table. A method is one transaction; an
  \<^verbatim>\<open>UPDATE\<close> is a guarded replacement of the row with the given key, subject to the
  \<^verbatim>\<open>CHECK\<close> and \<^verbatim>\<open>UNIQUE\<close> constraints of the schema, and an exception leaves the
  database as it was. The delivery rows are those of the deduplicator, whose table the store reads.
\<close>

section \<open>Rows\<close>

datatype run_state =
  RunPlanning | RunNeedsInput | RunPrOpen | RunPublishing | RunPublished | RunBlocked | RunFailed

fun run_state_str :: "run_state \<Rightarrow> string" where
  "run_state_str RunPlanning = ''planning''"
| "run_state_str RunNeedsInput = ''needs_input''"
| "run_state_str RunPrOpen = ''pr_open''"
| "run_state_str RunPublishing = ''publishing''"
| "run_state_str RunPublished = ''published''"
| "run_state_str RunBlocked = ''blocked''"
| "run_state_str RunFailed = ''failed''"

record plan_run =
  lr_idea_id :: int
  lr_plan_id :: string
  lr_plan_version :: int
  lr_thread_id :: string
  lr_repository :: string
  lr_base_branch :: string
  lr_artifact_prefix :: string
  lr_backlog_path :: string
  lr_snapshot_sha256 :: string
  lr_snapshot_etag :: string
  lr_state :: run_state
  lr_start_request :: string
  lr_pending_resume :: "string option"
  lr_planning_commit :: "string option"
  lr_pr_number :: "int option"
  lr_pr_url :: "string option"
  lr_approved_commit :: "string option"
  lr_evidence_sha256 :: "string option"
  lr_blob_sha1 :: "string option"
  lr_backlog_sha256 :: "string option"

text \<open>A row of \<^verbatim>\<open>plan_runs\<close>: the columns of \<^verbatim>\<open>_SELECT\<close> and \<^verbatim>\<open>updated_at\<close>.\<close>

record run_row = plan_run +
  rr_updated_at :: int

type_synonym run_key = "string \<times> int"

definition run_key :: "('a) plan_run_scheme \<Rightarrow> run_key" where
  "run_key r = (lr_plan_id r, lr_plan_version r)"

text \<open>\<^verbatim>\<open>_restore\<close>: the row without its time stamp; the column types rule out its shape error.\<close>

definition restore_run :: "run_row \<Rightarrow> plan_run" where
  "restore_run r = plan_run.truncate r"

record pr_association =
  pa_repository :: string
  pa_number :: int
  pa_plan_id :: string
  pa_node_key :: string
  pa_work_package_id :: int
  pa_url :: string
  pa_head_sha :: string
  pa_head_observed_at :: int
  pa_state :: string
  pa_merged_commit :: "string option"
  pa_successful_check_sha :: "string option"

record audit_row =
  au_event_id :: string
  au_trace_id :: string
  au_action :: string
  au_outcome :: string
  au_details :: "(string, pyval) dict"

record lifecycle_db =
  ld_runs :: "(run_key, run_row) dict"
  ld_audit :: "audit_row list"
  ld_associations :: "(string \<times> int, pr_association) dict"
  ld_deliveries :: "(string, delivery_row) dict"

section \<open>The constraints of the schema\<close>

definition optionally :: "('a \<Rightarrow> bool) \<Rightarrow> 'a option \<Rightarrow> bool" where
  "optionally p v = (case v of None \<Rightarrow> True | Some x \<Rightarrow> p x)"

definition int4_positive :: "int \<Rightarrow> bool" where
  "int4_positive n \<longleftrightarrow> 0 < n \<and> n < 2 ^ 31"

definition run_checks :: "('a) plan_run_scheme \<Rightarrow> bool" where
  "run_checks r \<longleftrightarrow> 0 < lr_idea_id r \<and> lr_idea_id r < 2 ^ 63 \<and> int4_positive (lr_plan_version r) \<and>
     hex_of_length 64 (lr_snapshot_sha256 r) \<and>
     optionally (hex_of_length 40) (lr_planning_commit r) \<and> optionally int4_positive (lr_pr_number r) \<and>
     optionally (hex_of_length 40) (lr_approved_commit r) \<and> optionally (hex_of_length 64) (lr_evidence_sha256 r) \<and>
     optionally (hex_of_length 40) (lr_blob_sha1 r) \<and> optionally (hex_of_length 64) (lr_backlog_sha256 r) \<and>
     (lr_pr_number r = None \<longleftrightarrow> lr_pr_url r = None)"

text \<open>Two different rows that a unique constraint or the partial index keeps apart.\<close>

definition runs_collide :: "('a) plan_run_scheme \<Rightarrow> ('b) plan_run_scheme \<Rightarrow> bool" where
  "runs_collide r s \<longleftrightarrow> run_key r = run_key s \<or> lr_thread_id r = lr_thread_id s \<or>
     lr_idea_id r = lr_idea_id s \<and> lr_plan_version r = lr_plan_version s \<or>
     lr_repository r = lr_repository s \<and> lr_pr_number r \<noteq> None \<and> lr_pr_number r = lr_pr_number s"

definition is_github_char :: "char \<Rightarrow> bool" where
  "is_github_char c \<longleftrightarrow> is_lower_char c \<or> is_upper_char c \<or> is_digit_char c \<or> c \<in> {CHR ''_'', CHR ''.'', CHR ''-''}"

text \<open>\<^verbatim>\<open>[A-Za-z0-9_.-]+/[A-Za-z0-9_.-]+\<close>; no character of the two parts is a slash.\<close>

definition is_repository_name :: "string \<Rightarrow> bool" where
  "is_repository_name s \<longleftrightarrow>
     (let owner = takeWhile is_github_char s; rest = dropWhile is_github_char s in
      owner \<noteq> [] \<and> (case rest of [] \<Rightarrow> False | c # name \<Rightarrow> c = CHR ''/'' \<and> name \<noteq> [] \<and> list_all is_github_char name))"

definition association_checks :: "pr_association \<Rightarrow> bool" where
  "association_checks a \<longleftrightarrow> is_repository_name (pa_repository a) \<and> int4_positive (pa_number a) \<and>
     pa_plan_id a \<noteq> [] \<and> pa_node_key a \<noteq> [] \<and> 0 < pa_work_package_id a \<and> pa_work_package_id a < 2 ^ 63 \<and>
     is_prefix_of ''https://github.com/'' (pa_url a) \<and> hex_of_length 40 (pa_head_sha a) \<and>
     pa_state a \<in> {''open'', ''closed''} \<and> optionally (hex_of_length 40) (pa_merged_commit a) \<and>
     optionally (hex_of_length 40) (pa_successful_check_sha a) \<and>
     (pa_successful_check_sha a = None \<or> pa_successful_check_sha a = Some (pa_head_sha a)) \<and>
     (pa_merged_commit a = None \<or> pa_state a = ''closed'')"

text \<open>
  \<^verbatim>\<open>UPDATE plan_runs SET ... WHERE key AND guard RETURNING ...\<close>: nothing when no row matches,
  an exception when the new row breaks a constraint.
\<close>

definition store_row :: "run_row \<Rightarrow> lifecycle_db \<Rightarrow> lifecycle_db" where
  "store_row r d = d\<lparr>ld_runs := dict_set (run_key r) r (ld_runs d)\<rparr>"

definition update_run ::
  "run_key \<Rightarrow> (run_row \<Rightarrow> bool) \<Rightarrow> (run_row \<Rightarrow> run_row) \<Rightarrow> int \<Rightarrow> (lifecycle_db, run_row option) action" where
  "update_run key guard f now d =
     (case dict_get (ld_runs d) key of
        None \<Rightarrow> (Inr None, d)
      | Some r \<Rightarrow>
          if \<not> guard r then (Inr None, d)
          else let r' = (f r)\<lparr>rr_updated_at := now\<rparr> in
            if \<not> run_checks r' \<or> list_ex (\<lambda>(k, s). k \<noteq> key \<and> runs_collide r' s) (ld_runs d)
            then (Inl (DatabaseError ''constraint violation''), d)
            else (Inr (Some r'), store_row r' d))"

text \<open>The pattern of most methods: the updated row, or a mismatch when no row matched.\<close>

definition update_or_mismatch ::
  "run_key \<Rightarrow> (run_row \<Rightarrow> bool) \<Rightarrow> (run_row \<Rightarrow> run_row) \<Rightarrow> int \<Rightarrow> string \<Rightarrow> (lifecycle_db, plan_run) action" where
  "update_or_mismatch key guard f now message d =
     (case update_run key guard f now d of
        (Inl e, d') \<Rightarrow> (Inl e, d')
      | (Inr None, d') \<Rightarrow> (Inl (LifecycleStoreMismatch message), d')
      | (Inr (Some r), d') \<Rightarrow> (Inr (restore_run r), d'))"

definition same_or_null :: "'a option \<Rightarrow> 'a \<Rightarrow> bool" where
  "same_or_null v x \<longleftrightarrow> v = None \<or> v = Some x"

section \<open>Runs\<close>

definition store_get :: "string \<Rightarrow> int \<Rightarrow> lifecycle_db \<Rightarrow> plan_run option" where
  "store_get plan version d = map_option restore_run (dict_get (ld_runs d) (plan, version))"

text \<open>The row \<^verbatim>\<open>begin\<close> inserts: the columns it does not name are null.\<close>

definition new_run_row :: "plan_run \<Rightarrow> int \<Rightarrow> run_row" where
  "new_run_row r now = plan_run.extend
     (r\<lparr>lr_state := RunPlanning, lr_pending_resume := None, lr_planning_commit := None, lr_pr_number := None,
        lr_pr_url := None, lr_approved_commit := None, lr_evidence_sha256 := None, lr_blob_sha1 := None,
        lr_backlog_sha256 := None\<rparr>) (run_row.fields now)"

definition same_binding :: "plan_run \<Rightarrow> plan_run \<Rightarrow> bool" where
  "same_binding r s \<longleftrightarrow> lr_idea_id r = lr_idea_id s \<and> lr_plan_id r = lr_plan_id s \<and>
     lr_plan_version r = lr_plan_version s \<and> lr_thread_id r = lr_thread_id s \<and> lr_repository r = lr_repository s \<and>
     lr_base_branch r = lr_base_branch s \<and> lr_artifact_prefix r = lr_artifact_prefix s \<and>
     lr_backlog_path r = lr_backlog_path s \<and> lr_snapshot_sha256 r = lr_snapshot_sha256 s \<and>
     lr_snapshot_etag r = lr_snapshot_etag s \<and> lr_start_request r = lr_start_request s"

definition store_begin :: "plan_run \<Rightarrow> int \<Rightarrow> (lifecycle_db, plan_run) action" where
  "store_begin run now d =
     (if lr_state run \<noteq> RunPlanning then (Inl (ValueError ''a new lifecycle run must start in planning''), d)
      else let row = new_run_row run now in
        if \<not> run_checks row then (Inl (DatabaseError ''constraint violation''), d)
        else let inserted = \<not> list_ex (\<lambda>(k, s). runs_collide row s) (ld_runs d);
                 d' = (if inserted then store_row row d else d)
          in case (if inserted then Some row else dict_get (ld_runs d) (run_key run)) of
            None \<Rightarrow> (Inl (RuntimeError ''lifecycle run insert could not be observed''), d')
          | Some found \<Rightarrow>
              if \<not> same_binding (restore_run found) run
              then (Inl (LifecycleStoreMismatch ''plan run replay changed an immutable binding''), d')
              else (Inr (restore_run found), d'))"

definition record_pull_request ::
  "string \<Rightarrow> int \<Rightarrow> string \<Rightarrow> int \<Rightarrow> string \<Rightarrow> int \<Rightarrow> (lifecycle_db, plan_run) action" where
  "record_pull_request plan version planning_commit number url now =
     update_or_mismatch (plan, version)
       (\<lambda>r. lr_state r \<in> {RunPlanning, RunNeedsInput, RunPrOpen} \<and>
          (lr_planning_commit r = None \<or>
           lr_planning_commit r = Some planning_commit \<and> lr_pr_number r = Some number \<and> lr_pr_url r = Some url))
       (\<lambda>r. r\<lparr>lr_planning_commit := Some planning_commit, lr_pr_number := Some number, lr_pr_url := Some url,
              lr_state := RunPrOpen\<rparr>)
       now ''planning PR conflicts with the durable run''"

fun transitions :: "run_state \<Rightarrow> run_state set" where
  "transitions RunPlanning = {RunPlanning, RunNeedsInput, RunPrOpen, RunBlocked, RunFailed}"
| "transitions RunNeedsInput = {RunNeedsInput, RunPlanning, RunPrOpen, RunBlocked, RunFailed}"
| "transitions RunPrOpen = {RunPrOpen, RunPublishing, RunBlocked, RunFailed}"
| "transitions RunPublishing = {RunPublishing, RunPublished, RunBlocked, RunFailed}"
| "transitions RunPublished = {RunPublished}"
| "transitions RunBlocked = {RunBlocked, RunPlanning, RunFailed}"
| "transitions RunFailed = {RunFailed}"

definition set_run_state :: "plan_run \<Rightarrow> run_state \<Rightarrow> int \<Rightarrow> (lifecycle_db, plan_run) action" where
  "set_run_state run state now d =
     (if state \<notin> transitions (lr_state run)
      then (Inl (LifecycleStoreMismatch (''invalid lifecycle transition from '' @ run_state_str (lr_state run) @
              '' to '' @ run_state_str state)), d)
      else case update_run (run_key run) (\<lambda>r. lr_state r = lr_state run) (\<lambda>r. r\<lparr>lr_state := state\<rparr>) now d of
        (Inl e, d') \<Rightarrow> (Inl e, d')
      | (Inr (Some r), d') \<Rightarrow> (Inr (restore_run r), d')
      | (Inr None, d') \<Rightarrow>
          (case store_get (lr_plan_id run) (lr_plan_version run) d' of
             Some current \<Rightarrow>
               if lr_state current = state then (Inr current, d')
               else (Inl (LifecycleStoreMismatch ''lifecycle run changed before its state transition''), d')
           | None \<Rightarrow> (Inl (LifecycleStoreMismatch ''lifecycle run changed before its state transition''), d')))"

definition approve_for_publication :: "plan_run \<Rightarrow> string \<Rightarrow> string \<Rightarrow> int \<Rightarrow> (lifecycle_db, plan_run) action" where
  "approve_for_publication run merge_commit evidence now d =
     (if lr_state run \<notin> {RunPrOpen, RunPublishing}
      then (Inl (LifecycleStoreMismatch (''cannot approve publication from lifecycle state '' @ run_state_str (lr_state run))), d)
      else update_or_mismatch (run_key run)
        (\<lambda>r. lr_state r \<in> {RunPrOpen, RunPublishing} \<and> same_or_null (lr_approved_commit r) merge_commit \<and>
             same_or_null (lr_evidence_sha256 r) evidence)
        (\<lambda>r. r\<lparr>lr_state := RunPublishing, lr_approved_commit := Some merge_commit, lr_evidence_sha256 := Some evidence\<rparr>)
        now ''planning approval evidence conflicts with the durable run'' d)"

definition record_pending_resume :: "plan_run \<Rightarrow> string \<Rightarrow> int \<Rightarrow> (lifecycle_db, plan_run) action" where
  "record_pending_resume run request now d =
     (if request = [] then (Inl (ValueError ''pending planner resume request is required''), d)
      else update_or_mismatch (run_key run)
        (\<lambda>r. lr_state r = RunNeedsInput \<and> same_or_null (lr_pending_resume r) request)
        (\<lambda>r. r\<lparr>lr_pending_resume := Some request\<rparr>)
        now ''pending planner resume conflicts with durable lifecycle state'' d)"

definition clear_pending_resume :: "plan_run \<Rightarrow> string \<Rightarrow> int \<Rightarrow> (lifecycle_db, plan_run) action" where
  "clear_pending_resume run request now d =
     (case update_run (run_key run) (\<lambda>r. lr_pending_resume r = Some request) (\<lambda>r. r\<lparr>lr_pending_resume := None\<rparr>) now d of
        (Inl e, d') \<Rightarrow> (Inl e, d')
      | (Inr (Some r), d') \<Rightarrow> (Inr (restore_run r), d')
      | (Inr None, d') \<Rightarrow>
          (case store_get (lr_plan_id run) (lr_plan_version run) d' of
             Some current \<Rightarrow>
               if lr_pending_resume current = None then (Inr current, d')
               else (Inl (LifecycleStoreMismatch ''pending planner resume could not be cleared''), d')
           | None \<Rightarrow> (Inl (LifecycleStoreMismatch ''pending planner resume could not be cleared''), d')))"

definition record_publication_binding ::
  "plan_run \<Rightarrow> string \<Rightarrow> string \<Rightarrow> string \<Rightarrow> int \<Rightarrow> (lifecycle_db, plan_run) action" where
  "record_publication_binding run approved_commit blob backlog now =
     update_or_mismatch (run_key run)
       (\<lambda>r. lr_state r \<in> {RunPrOpen, RunPublishing, RunPublished} \<and> same_or_null (lr_approved_commit r) approved_commit \<and>
            (lr_blob_sha1 r = None \<and> lr_backlog_sha256 r = None \<or>
             lr_blob_sha1 r = Some blob \<and> lr_backlog_sha256 r = Some backlog))
       (\<lambda>r. r\<lparr>lr_approved_commit := Some approved_commit, lr_blob_sha1 := Some blob, lr_backlog_sha256 := Some backlog\<rparr>)
       now ''publication artifact binding conflicts with the durable run''"

section \<open>Queries\<close>

definition by_pull_request :: "string \<Rightarrow> int \<Rightarrow> lifecycle_db \<Rightarrow> plan_run option" where
  "by_pull_request repository number d =
     map_option restore_run (find (\<lambda>r. lr_repository r = repository \<and> lr_pr_number r = Some number) (map snd (ld_runs d)))"

text \<open>\<^verbatim>\<open>ORDER BY plan_version DESC LIMIT 1\<close>: the first row of the greatest version.\<close>

definition newest :: "run_row list \<Rightarrow> run_row option" where
  "newest rs = fold (\<lambda>r best. case best of None \<Rightarrow> Some r
     | Some b \<Rightarrow> if lr_plan_version b < lr_plan_version r then Some r else best) rs None"

definition latest_for_idea :: "int \<Rightarrow> lifecycle_db \<Rightarrow> plan_run option" where
  "latest_for_idea idea d = map_option restore_run (newest (filter (\<lambda>r. lr_idea_id r = idea) (map snd (ld_runs d))))"

definition latest_published :: "string \<Rightarrow> lifecycle_db \<Rightarrow> plan_run option" where
  "latest_published plan d = map_option restore_run
     (newest (filter (\<lambda>r. lr_plan_id r = plan \<and> lr_state r = RunPublished) (map snd (ld_runs d))))"

definition all_runs :: "lifecycle_db \<Rightarrow> plan_run list" where
  "all_runs d = map restore_run (sort_key lr_idea_id (sort_key lr_plan_version (map snd (ld_runs d))))"

definition active_runs :: "lifecycle_db \<Rightarrow> plan_run list" where
  "active_runs d = map restore_run (sort_key lr_idea_id (sort_key lr_plan_version
     (filter (\<lambda>r. lr_state r \<notin> {RunPublished, RunFailed}) (map snd (ld_runs d)))))"

text \<open>\<^verbatim>\<open>SELECT DISTINCT ON (plan_id) ... ORDER BY plan_id, plan_version DESC\<close>, counted.\<close>

definition stale_thread_count :: "int \<Rightarrow> lifecycle_db \<Rightarrow> nat" where
  "stale_thread_count cutoff d =
     (let rows = map snd (ld_runs d) in
      length (filter
        (\<lambda>plan. case newest (filter (\<lambda>r. lr_plan_id r = plan) rows) of
           None \<Rightarrow> False
         | Some r \<Rightarrow> lr_state r \<notin> {RunPublished, RunFailed} \<and> rr_updated_at r \<le> cutoff)
        (remdups (map lr_plan_id rows))))"

section \<open>The audit trail\<close>

definition store_audit ::
  "string \<Rightarrow> string \<Rightarrow> string \<Rightarrow> string \<Rightarrow> (string, pyval) dict \<Rightarrow> lifecycle_db \<Rightarrow> lifecycle_db" where
  "store_audit event trace act outcome details d =
     (if list_ex (\<lambda>a. au_event_id a = event \<and> au_action a = act \<and> au_outcome a = outcome) (ld_audit d) then d
      else d\<lparr>ld_audit := ld_audit d @
             [\<lparr>au_event_id = event, au_trace_id = trace, au_action = act, au_outcome = outcome, au_details = details\<rparr>]\<rparr>)"

text \<open>\<^verbatim>\<open>details->>key\<close> of the scalars the store writes.\<close>

definition details_text :: "(string, pyval) dict \<Rightarrow> string \<Rightarrow> string option" where
  "details_text details key =
     (case dict_get details key of
        Some (PStr s) \<Rightarrow> Some s
      | Some (PInt n) \<Rightarrow> Some (show_int n)
      | _ \<Rightarrow> None)"

definition has_details :: "(string, pyval) dict \<Rightarrow> (string \<times> string) list \<Rightarrow> bool" where
  "has_details details kvs \<longleftrightarrow> list_all (\<lambda>(k, v). details_text details k = Some v) kvs"

text \<open>\<^verbatim>\<open>@>\<close> and equality of two flat JSON objects.\<close>

definition details_contain :: "(string, pyval) dict \<Rightarrow> (string, pyval) dict \<Rightarrow> bool" where
  "details_contain details part \<longleftrightarrow> list_all (\<lambda>(k, v). dict_get details k = Some v) part"

definition details_equal :: "(string, pyval) dict \<Rightarrow> (string, pyval) dict \<Rightarrow> bool" where
  "details_equal a b \<longleftrightarrow> details_contain a b \<and> details_contain b a"

section \<open>Operator recoveries\<close>

definition settled_delivery :: "string \<Rightarrow> delivery_row \<Rightarrow> bool" where
  "settled_delivery state r \<longleftrightarrow> dr_state r = state \<and> dr_lease_expires_at r = None \<and> dr_claim_token r = None"

definition no_pull_request :: "('a) plan_run_scheme \<Rightarrow> bool" where
  "no_pull_request r \<longleftrightarrow> lr_planning_commit r = None \<and> lr_pr_number r = None \<and> lr_pr_url r = None"

definition nothing_approved :: "('a) plan_run_scheme \<Rightarrow> bool" where
  "nothing_approved r \<longleftrightarrow> lr_approved_commit r = None \<and> lr_evidence_sha256 r = None \<and> lr_blob_sha1 r = None \<and>
     lr_backlog_sha256 r = None"

definition terminal_delivery :: "string \<Rightarrow> lifecycle_db \<Rightarrow> delivery_row option" where
  "terminal_delivery key d = dict_get (ld_deliveries d) key"

text \<open>A nonempty text of the first matching audit row.\<close>

definition audited_text :: "string \<Rightarrow> (audit_row \<Rightarrow> bool) \<Rightarrow> lifecycle_db \<Rightarrow> string option" where
  "audited_text key matches d =
     (case find matches (ld_audit d) of
        None \<Rightarrow> None
      | Some a \<Rightarrow> (case details_text (au_details a) key of Some (c # cs) \<Rightarrow> Some (c # cs) | _ \<Rightarrow> None))"

definition completed_terminal_resume_abandonment ::
  "string \<Rightarrow> int \<Rightarrow> string \<Rightarrow> string \<Rightarrow> string \<Rightarrow> string \<Rightarrow> lifecycle_db \<Rightarrow> string option" where
  "completed_terminal_resume_abandonment plan version thread key operator reason d =
     (case (dict_get (ld_runs d) (plan, version), dict_get (ld_deliveries d) key) of
        (Some r, Some row) \<Rightarrow>
          if lr_thread_id r = thread \<and> lr_state r = RunNeedsInput \<and> lr_pending_resume r = None \<and> no_pull_request r \<and>
             settled_delivery ''dead_letter'' row
          then audited_text ''interrupt_id''
            (\<lambda>a. au_event_id a = dr_event_id row \<and> au_action a = ''terminal_resume_abandonment'' \<and>
                 au_outcome a = ''restored_interrupt'' \<and>
                 has_details (au_details a) [(''idempotency_key'', key), (''plan_id'', plan), (''plan_version'', show_int version),
                   (''thread_id'', thread), (''operator'', operator), (''reason'', reason)]) d
          else None
      | _ \<Rightarrow> None)"

definition abandonment_details ::
  "string \<Rightarrow> string \<Rightarrow> string \<Rightarrow> plan_run \<Rightarrow> string \<Rightarrow> (string, pyval) dict" where
  "abandonment_details key operator reason run interrupt =
     [(''idempotency_key'', PStr key), (''operator'', PStr operator), (''reason'', PStr reason),
      (''plan_id'', PStr (lr_plan_id run)), (''plan_version'', PInt (lr_plan_version run)),
      (''thread_id'', PStr (lr_thread_id run)), (''interrupt_id'', PStr interrupt)]"

definition complete_terminal_resume_abandonment ::
  "plan_run \<Rightarrow> string \<Rightarrow> string \<Rightarrow> string \<Rightarrow> string \<Rightarrow> string \<Rightarrow> string \<Rightarrow> int \<Rightarrow> (lifecycle_db, plan_run) action" where
  "complete_terminal_resume_abandonment run request key trace interrupt operator reason now d =
     (let mismatch = Inl (LifecycleStoreMismatch ''terminal resume abandonment conflicts with durable lifecycle state'');
          details = abandonment_details key operator reason run interrupt;
          audit = (\<lambda>event. store_audit event trace ''terminal_resume_abandonment'' ''restored_interrupt'' details)
      in case dict_get (ld_deliveries d) key of
        None \<Rightarrow> (Inl (LifecycleStoreMismatch ''terminal resume delivery is not dead-lettered and unfenced''), d)
      | Some row \<Rightarrow>
          if \<not> settled_delivery ''dead_letter'' row
          then (Inl (LifecycleStoreMismatch ''terminal resume delivery is not dead-lettered and unfenced''), d)
          else case update_run (run_key run)
              (\<lambda>r. lr_thread_id r = lr_thread_id run \<and> lr_state r = RunNeedsInput \<and> lr_pending_resume r = Some request \<and>
                   no_pull_request r \<and> nothing_approved r)
              (\<lambda>r. r\<lparr>lr_pending_resume := None\<rparr>) now d of
            (Inl e, d') \<Rightarrow> (Inl e, d)
          | (Inr (Some r), d') \<Rightarrow> (Inr (restore_run r), audit (dr_event_id row) d')
          | (Inr None, d') \<Rightarrow>
              (case dict_get (ld_runs d) (run_key run) of
                 None \<Rightarrow> (mismatch, d)
               | Some r \<Rightarrow>
                   if lr_thread_id r = lr_thread_id run \<and> lr_state r = RunNeedsInput \<and> lr_pending_resume r = None \<and>
                      list_ex (\<lambda>a. au_event_id a = dr_event_id row \<and> au_action a = ''terminal_resume_abandonment'' \<and>
                        au_outcome a = ''restored_interrupt'' \<and>
                        has_details (au_details a) [(''idempotency_key'', key), (''operator'', operator), (''reason'', reason),
                          (''plan_id'', lr_plan_id run), (''plan_version'', show_int (lr_plan_version run)),
                          (''thread_id'', lr_thread_id run), (''interrupt_id'', interrupt)]) (ld_audit d)
                   then (Inr (restore_run r), audit (dr_event_id row) d)
                   else (mismatch, d)))"

definition correction_details ::
  "string \<Rightarrow> int \<Rightarrow> string \<Rightarrow> string \<Rightarrow> string \<Rightarrow> int \<Rightarrow> string \<Rightarrow> string \<Rightarrow> string \<Rightarrow> (string, pyval) dict" where
  "correction_details plan version thread key interrupt comment created operator reason =
     [(''plan_id'', PStr plan), (''plan_version'', PInt version), (''thread_id'', PStr thread), (''idempotency_key'', PStr key),
      (''interrupt_id'', PStr interrupt), (''comment_id'', PInt comment), (''comment_created_at'', PStr created),
      (''operator'', PStr operator), (''reason'', PStr reason)]"

text \<open>The time stamp of the comment is its \<^verbatim>\<open>isoformat()\<close>.\<close>

definition completed_critique_correction ::
  "string \<Rightarrow> int \<Rightarrow> string \<Rightarrow> string \<Rightarrow> string \<Rightarrow> int \<Rightarrow> string \<Rightarrow> string \<Rightarrow> string \<Rightarrow> lifecycle_db \<Rightarrow> string option" where
  "completed_critique_correction plan version thread key interrupt comment created operator reason d =
     (case (dict_get (ld_runs d) (plan, version), dict_get (ld_deliveries d) key) of
        (Some r, Some row) \<Rightarrow>
          if lr_thread_id r = thread \<and> lr_state r = RunNeedsInput \<and> lr_pending_resume r = None \<and> no_pull_request r \<and>
             nothing_approved r \<and> settled_delivery ''completed'' row
          then audited_text ''new_interrupt_id''
            (\<lambda>a. au_event_id a = dr_event_id row \<and> au_action a = ''failed_critique_correction'' \<and>
                 au_outcome a = ''needs_input'' \<and>
                 details_contain (au_details a)
                   (correction_details plan version thread key interrupt comment created operator reason)) d
          else None
      | _ \<Rightarrow> None)"

definition complete_critique_correction ::
  "plan_run \<Rightarrow> string \<Rightarrow> string \<Rightarrow> int \<Rightarrow> string \<Rightarrow> string \<Rightarrow> string \<Rightarrow> string \<Rightarrow> int \<Rightarrow> (lifecycle_db, plan_run) action" where
  "complete_critique_correction run key interrupt comment created new_interrupt operator reason now d =
     (let details = correction_details (lr_plan_id run) (lr_plan_version run) (lr_thread_id run) key interrupt comment created
            operator reason @ [(''new_interrupt_id'', PStr new_interrupt)];
          mismatch = Inl (LifecycleStoreMismatch ''critique correction conflicts with durable lifecycle state'');
          audit = (\<lambda>event. store_audit event event ''failed_critique_correction'' ''needs_input'' details)
      in case dict_get (ld_deliveries d) key of
        None \<Rightarrow> (Inl (LifecycleStoreMismatch ''critique correction delivery is not completed''), d)
      | Some row \<Rightarrow>
          if \<not> settled_delivery ''completed'' row
          then (Inl (LifecycleStoreMismatch ''critique correction delivery is not completed''), d)
          else case update_run (run_key run)
              (\<lambda>r. lr_thread_id r = lr_thread_id run \<and> lr_state r = RunFailed \<and> lr_pending_resume r = None \<and>
                   no_pull_request r \<and> nothing_approved r)
              (\<lambda>r. r\<lparr>lr_state := RunNeedsInput\<rparr>) now d of
            (Inl e, d') \<Rightarrow> (Inl e, d)
          | (Inr (Some r), d') \<Rightarrow> (Inr (restore_run r), audit (dr_event_id row) d')
          | (Inr None, d') \<Rightarrow>
              (case dict_get (ld_runs d) (run_key run) of
                 None \<Rightarrow> (mismatch, d)
               | Some r \<Rightarrow>
                   if lr_thread_id r = lr_thread_id run \<and> lr_state r = RunNeedsInput \<and>
                      list_ex (\<lambda>a. au_event_id a = dr_event_id row \<and> au_action a = ''failed_critique_correction'' \<and>
                        au_outcome a = ''needs_input'' \<and> details_equal (au_details a) details) (ld_audit d)
                   then (Inr (restore_run r), audit (dr_event_id row) d)
                   else (mismatch, d)))"

end
