(* ===== verification/Associations.thy ===== *)
theory Associations
  imports LifecycleStore
begin

text \<open>
  Implementation pull requests in \<^verbatim>\<open>src/planning_platform/lifecycle/store.py\<close>: a pull
  request is bound once to a work package, its head and state follow the latest observation, its
  merge is final, and a successful check counts for the current head only.
\<close>

section \<open>Operations\<close>

definition validate_implementation_values ::
  "string \<Rightarrow> int \<Rightarrow> string \<Rightarrow> string \<Rightarrow> int \<Rightarrow> string \<Rightarrow> string \<Rightarrow> string \<Rightarrow> string option \<Rightarrow> exn + unit" where
  "validate_implementation_values repository number plan node package url head state merged =
     res_bind (raise_if (\<not> is_repository_name repository) (ValueError ''implementation PR repository is invalid'')) (\<lambda>_.
     res_bind (raise_if (number \<le> 0 \<or> package \<le> 0) (ValueError ''implementation PR identifiers must be positive'')) (\<lambda>_.
     res_bind (raise_if (plan = [] \<or> node = []) (ValueError ''implementation PR plan identity is required'')) (\<lambda>_.
     res_bind (raise_if (\<not> is_prefix_of ''https://github.com/'' url)
       (ValueError ''implementation PR URL must be a GitHub HTTPS URL'')) (\<lambda>_.
     res_bind (raise_if (\<not> hex_of_length 40 head)
       (ValueError ''implementation PR head must be a full commit SHA'')) (\<lambda>_.
     res_bind (raise_if (\<not> optionally (hex_of_length 40) merged)
       (ValueError ''implementation PR merge commit must be a full commit SHA'')) (\<lambda>_.
     res_bind (raise_if (state \<notin> {''open'', ''closed''})
       (ValueError ''implementation PR state must be open or closed'')) (\<lambda>_.
     raise_if (merged \<noteq> None \<and> state \<noteq> ''closed'')
       (ValueError ''a merged implementation PR must be closed''))))))))"

definition store_association :: "pr_association \<Rightarrow> lifecycle_db \<Rightarrow> lifecycle_db" where
  "store_association a d = d\<lparr>ld_associations := dict_set (pa_repository a, pa_number a) a (ld_associations d)\<rparr>"

text \<open>What the observation may not contradict, and the facts it leaves.\<close>

definition observation_conflict :: "pr_association \<Rightarrow> pr_association \<Rightarrow> exn + unit" where
  "observation_conflict current seen =
     res_bind (raise_if (\<not> (pa_plan_id current = pa_plan_id seen \<and> pa_node_key current = pa_node_key seen \<and>
          pa_work_package_id current = pa_work_package_id seen \<and> pa_url current = pa_url seen))
       (LifecycleStoreMismatch ''implementation PR replay changed its work-package identity'')) (\<lambda>_.
     res_bind (raise_if (pa_merged_commit current \<noteq> None \<and> pa_merged_commit seen \<noteq> None \<and>
          pa_merged_commit current \<noteq> pa_merged_commit seen)
       (LifecycleStoreMismatch ''implementation PR replay changed its merge commit'')) (\<lambda>_.
     res_bind (raise_if (pa_head_observed_at seen = pa_head_observed_at current \<and>
          (pa_head_sha seen \<noteq> pa_head_sha current \<or> pa_state seen \<noteq> pa_state current))
       (LifecycleStoreMismatch ''implementation PR has conflicting facts at one observation time'')) (\<lambda>_.
     raise_if (pa_merged_commit current \<noteq> None \<and> pa_head_sha seen \<noteq> pa_head_sha current)
       (LifecycleStoreMismatch ''merged implementation PR replay changed its head''))))"

definition next_facts :: "pr_association \<Rightarrow> pr_association \<Rightarrow> pr_association" where
  "next_facts current seen =
     (let advance = (pa_merged_commit current = None \<and> pa_merged_commit seen = None \<and>
            pa_head_observed_at current < pa_head_observed_at seen \<and>
            (pa_head_sha seen \<noteq> pa_head_sha current \<or> pa_state seen \<noteq> pa_state current));
          next_merge = (if truthy_str (pa_merged_commit current) then pa_merged_commit current else pa_merged_commit seen);
          moved = (if advance
            then current\<lparr>pa_head_sha := pa_head_sha seen, pa_head_observed_at := pa_head_observed_at seen,
              pa_state := pa_state seen,
              pa_successful_check_sha := (if pa_head_sha seen \<noteq> pa_head_sha current then None
                else pa_successful_check_sha current)\<rparr>
            else current)
      in moved\<lparr>pa_state := (if next_merge \<noteq> None then ''closed'' else pa_state moved), pa_merged_commit := next_merge\<rparr>)"

text \<open>
  The arguments of \<^verbatim>\<open>bind_implementation_pull_request\<close> are the fields of \<open>seen\<close>; a row that
  is not there is inserted with them first.
\<close>

definition bind_implementation_pull_request :: "pr_association \<Rightarrow> (lifecycle_db, pr_association) action" where
  "bind_implementation_pull_request seen d =
     (case validate_implementation_values (pa_repository seen) (pa_number seen) (pa_plan_id seen) (pa_node_key seen)
         (pa_work_package_id seen) (pa_url seen) (pa_head_sha seen) (pa_state seen) (pa_merged_commit seen) of
        Inl e \<Rightarrow> (Inl e, d)
      | Inr u \<Rightarrow>
          let fresh = seen\<lparr>pa_successful_check_sha := None\<rparr> in
          if \<not> association_checks fresh then (Inl (DatabaseError ''constraint violation''), d)
          else let current = (case dict_get (ld_associations d) (pa_repository seen, pa_number seen) of
                 None \<Rightarrow> fresh | Some a \<Rightarrow> a) in
            (case observation_conflict current seen of
               Inl e \<Rightarrow> (Inl e, d)
             | Inr u \<Rightarrow>
                 let next = next_facts current seen in
                 if \<not> association_checks next then (Inl (DatabaseError ''constraint violation''), d)
                 else (Inr next, store_association next d)))"

definition record_implementation_check_result ::
  "string \<Rightarrow> int \<Rightarrow> string \<Rightarrow> bool \<Rightarrow> (lifecycle_db, pr_association option) action" where
  "record_implementation_check_result repository number head passed d =
     (if \<not> hex_of_length 40 head then (Inl (ValueError ''implementation check head must be a full commit SHA''), d)
      else case dict_get (ld_associations d) (repository, number) of
        None \<Rightarrow> (Inr None, d)
      | Some a \<Rightarrow>
          if pa_head_sha a \<noteq> head then (Inr None, d)
          else let a' = a\<lparr>pa_successful_check_sha := (if passed then Some head else None)\<rparr> in
            if \<not> association_checks a' then (Inl (DatabaseError ''constraint violation''), d)
            else (Inr (Some a'), store_association a' d))"

definition by_implementation_pull_request :: "string \<Rightarrow> int \<Rightarrow> lifecycle_db \<Rightarrow> pr_association option" where
  "by_implementation_pull_request repository number d = dict_get (ld_associations d) (repository, number)"

definition implementation_associations :: "lifecycle_db \<Rightarrow> pr_association list" where
  "implementation_associations d =
     sort_key pa_repository (sort_key pa_number (map snd (ld_associations d)))"

section \<open>Facts\<close>

text \<open>Rows under their keys, satisfying the constraints.\<close>

definition associations_ok :: "lifecycle_db \<Rightarrow> bool" where
  "associations_ok d \<longleftrightarrow> (\<forall>k a. dict_get (ld_associations d) k = Some a \<longrightarrow>
     k = (pa_repository a, pa_number a) \<and> association_checks a)"

lemma next_facts_fixed [simp]:
  "pa_repository (next_facts c s) = pa_repository c" "pa_number (next_facts c s) = pa_number c"
  "pa_plan_id (next_facts c s) = pa_plan_id c" "pa_node_key (next_facts c s) = pa_node_key c"
  "pa_work_package_id (next_facts c s) = pa_work_package_id c" "pa_url (next_facts c s) = pa_url c"
  by (simp_all add: next_facts_def Let_def)

lemma merged_truthy: "association_checks a \<Longrightarrow> truthy_str (pa_merged_commit a) \<longleftrightarrow> pa_merged_commit a \<noteq> None"
  by (auto simp: truthy_str_iff association_checks_def optionally_def hex_of_length_def)

lemma association_constraints:
  assumes "associations_ok d" and "dict_get (ld_associations d) k = Some a"
  shows "association_checks a" and "k = (pa_repository a, pa_number a)"
  using assms by (cases k; auto simp: associations_ok_def)+

lemma associations_ok_store: "associations_ok d \<Longrightarrow> association_checks a \<Longrightarrow> associations_ok (store_association a d)"
  by (simp add: associations_ok_def store_association_def dict_simps)

lemma bind_result:
  assumes "bind_implementation_pull_request seen d = (Inr a, d')"
  shows "\<exists>current. current = (case dict_get (ld_associations d) (pa_repository seen, pa_number seen) of
        None \<Rightarrow> seen\<lparr>pa_successful_check_sha := None\<rparr> | Some c \<Rightarrow> c) \<and>
     association_checks (seen\<lparr>pa_successful_check_sha := None\<rparr>) \<and>
     validate_implementation_values (pa_repository seen) (pa_number seen) (pa_plan_id seen) (pa_node_key seen)
         (pa_work_package_id seen) (pa_url seen) (pa_head_sha seen) (pa_state seen) (pa_merged_commit seen) = Inr () \<and>
     observation_conflict current seen = Inr () \<and> a = next_facts current seen \<and> association_checks a \<and>
     d' = store_association a d"
  using assms by (auto simp: bind_implementation_pull_request_def Let_def split: sum.splits if_splits)

definition same_identity :: "pr_association \<Rightarrow> pr_association \<Rightarrow> bool" where
  "same_identity a b \<longleftrightarrow> pa_repository a = pa_repository b \<and> pa_number a = pa_number b \<and> pa_plan_id a = pa_plan_id b \<and>
     pa_node_key a = pa_node_key b \<and> pa_work_package_id a = pa_work_package_id b \<and> pa_url a = pa_url b"

text \<open>\<open>b\<close> is a later state of \<open>a\<close>.\<close>

definition later_facts :: "pr_association \<Rightarrow> pr_association \<Rightarrow> bool" where
  "later_facts a b \<longleftrightarrow> same_identity a b \<and> pa_head_observed_at a \<le> pa_head_observed_at b \<and>
     (pa_merged_commit a \<noteq> None \<longrightarrow> pa_merged_commit b = pa_merged_commit a \<and> pa_head_sha b = pa_head_sha a \<and> pa_state b = ''closed'')"

lemma later_facts_trans: "later_facts a b \<Longrightarrow> later_facts b c \<Longrightarrow> later_facts a c"
  by (auto simp: later_facts_def same_identity_def)

lemma later_facts_refl: "association_checks a \<Longrightarrow> later_facts a a"
  by (auto simp: later_facts_def same_identity_def association_checks_def)

lemma later_facts_next:
  assumes "association_checks c"
  shows "later_facts c (next_facts c s)"
  using merged_truthy [OF assms] assms
  by (auto simp: later_facts_def same_identity_def next_facts_def Let_def association_checks_def)

datatype association_call = BindPr pr_association | RecordCheck string int string bool

fun run_association :: "association_call \<Rightarrow> lifecycle_db \<Rightarrow> lifecycle_db" where
  "run_association (BindPr seen) d = snd (bind_implementation_pull_request seen d)"
| "run_association (RecordCheck repository number head passed) d =
     snd (record_implementation_check_result repository number head passed d)"

lemma run_association_cases:
  assumes "associations_ok d"
  shows "run_association c d = d \<or> (\<exists>a. run_association c d = store_association a d \<and> association_checks a \<and>
    (\<forall>b. dict_get (ld_associations d) (pa_repository a, pa_number a) = Some b \<longrightarrow> later_facts b a))"
proof (cases c)
  case (BindPr seen)
  obtain r d' where run: "bind_implementation_pull_request seen d = (r, d')" by (cases "bind_implementation_pull_request seen d")
  show ?thesis
  proof (cases r)
    case (Inl e)
    with run have "d' = d"
      by (auto simp: bind_implementation_pull_request_def Let_def split: sum.splits if_splits)
    with run BindPr show ?thesis by simp
  next
    case (Inr a)
    from bind_result [OF run [unfolded Inr]] obtain current where current:
        "current = (case dict_get (ld_associations d) (pa_repository seen, pa_number seen) of
            None \<Rightarrow> seen\<lparr>pa_successful_check_sha := None\<rparr> | Some c \<Rightarrow> c)"
        "a = next_facts current seen" "association_checks a" "d' = store_association a d" by blast
    then have "later_facts b a" if "dict_get (ld_associations d) (pa_repository a, pa_number a) = Some b" for b
      using that later_facts_next association_constraints [OF assms]
      by (cases "dict_get (ld_associations d) (pa_repository seen, pa_number seen)") (auto simp del: next_facts_fixed, simp_all)
    with current run BindPr show ?thesis by auto
  qed
next
  case (RecordCheck repository number head passed)
  show ?thesis
  proof (cases "dict_get (ld_associations d) (repository, number)")
    case None
    with RecordCheck show ?thesis by (simp add: record_implementation_check_result_def)
  next
    case (Some a)
    from association_constraints [OF assms Some] have "repository = pa_repository a" "number = pa_number a" by simp_all
    with Some RecordCheck association_constraints(1) [OF assms Some] show ?thesis
      by (auto simp: record_implementation_check_result_def Let_def later_facts_def same_identity_def association_checks_def)
  qed
qed

lemma run_association_step:
  assumes "associations_ok d"
  shows "associations_ok (run_association c d) \<and> (\<forall>k a. dict_get (ld_associations d) k = Some a \<longrightarrow>
    (\<exists>b. dict_get (ld_associations (run_association c d)) k = Some b \<and> later_facts a b))"
proof -
  have refl: "later_facts a a" if "dict_get (ld_associations d) k = Some a" for k a
    by (rule later_facts_refl [OF association_constraints(1) [OF assms that]])
  from run_association_cases [OF assms, of c] show ?thesis
  proof
    assume "run_association c d = d"
    with assms refl show ?thesis by auto
  next
    assume "\<exists>a. run_association c d = store_association a d \<and> association_checks a \<and>
      (\<forall>b. dict_get (ld_associations d) (pa_repository a, pa_number a) = Some b \<longrightarrow> later_facts b a)"
    then obtain a where a: "run_association c d = store_association a d" "association_checks a"
      "\<forall>b. dict_get (ld_associations d) (pa_repository a, pa_number a) = Some b \<longrightarrow> later_facts b a" by blast
    then show ?thesis
      using associations_ok_store [OF assms a(2)] refl by (auto simp: store_association_def dict_simps)
  qed
qed

lemma run_associations_later:
  assumes "associations_ok d"
  shows "associations_ok (fold run_association calls d) \<and>
    (\<forall>k a. dict_get (ld_associations d) k = Some a \<longrightarrow>
      (\<exists>b. dict_get (ld_associations (fold run_association calls d)) k = Some b \<and> later_facts a b))"
  using assms
proof (induction calls arbitrary: d)
  case Nil
  then show ?case using later_facts_refl association_constraints(1) by (metis fold_simps(1))
next
  case (Cons c calls)
  note step = run_association_step [OF Cons.prems, of c]
  from Cons.IH [OF conjunct1 [OF step]] step show ?case
    unfolding fold_simps by (blast intro: later_facts_trans)
qed

text \<open>
  C38: from any valid table, after any observations and check results in any order, every row
  satisfies the constraints (a successful check is that of the current head), no row is lost or
  rebound to another work package, observation times never go back, and once a merge is recorded
  the merge commit, the head and the closed state are final.
\<close>

theorem associations_only_advance:
  assumes "associations_ok d"
  shows "associations_ok (fold run_association calls d) \<and>
    (\<forall>k a. dict_get (ld_associations d) k = Some a \<longrightarrow>
      (\<exists>b. dict_get (ld_associations (fold run_association calls d)) k = Some b \<and> later_facts a b))"
  using assms by (rule run_associations_later)

section \<open>Replayed observations\<close>

lemma dict_set_again: "dict_set k v (dict_set k v d) = dict_set k v d"
  by (induction d) auto

lemma store_again: "store_association a (store_association a d) = store_association a d"
  by (simp add: store_association_def dict_set_again)

lemma stored_association: "dict_get (ld_associations (store_association a d)) (pa_repository a, pa_number a) = Some a"
  by (simp add: store_association_def dict_simps)

text \<open>The facts after an observation, and why observing the same again changes none of them.\<close>

definition advances :: "pr_association \<Rightarrow> pr_association \<Rightarrow> bool" where
  "advances c seen \<longleftrightarrow> pa_merged_commit c = None \<and> pa_merged_commit seen = None \<and>
     pa_head_observed_at c < pa_head_observed_at seen \<and> (pa_head_sha seen \<noteq> pa_head_sha c \<or> pa_state seen \<noteq> pa_state c)"

lemma next_facts_fields:
  assumes "association_checks c" and "a = next_facts c seen"
  shows "pa_merged_commit a = (if pa_merged_commit c = None then pa_merged_commit seen else pa_merged_commit c)"
    "pa_head_observed_at a = (if advances c seen then pa_head_observed_at seen else pa_head_observed_at c)"
    "pa_head_sha a = (if advances c seen then pa_head_sha seen else pa_head_sha c)"
    "pa_state a = (if pa_merged_commit a \<noteq> None then ''closed'' else if advances c seen then pa_state seen else pa_state c)"
  using merged_truthy [OF assms(1)] by (auto simp: assms(2) next_facts_def Let_def advances_def)

lemma next_facts_again:
  assumes "association_checks c" and a: "a = next_facts c seen" "association_checks a"
  shows "next_facts a seen = a"
proof -
  note facts = next_facts_fields [OF assms(1,2)]
  have settled: "\<not> (pa_merged_commit a = None \<and> pa_merged_commit seen = None \<and>
      pa_head_observed_at a < pa_head_observed_at seen \<and> (pa_head_sha seen \<noteq> pa_head_sha a \<or> pa_state seen \<noteq> pa_state a))"
    using facts by (auto simp: advances_def split: if_splits)
  have keep: "b\<lparr>pa_state := pa_state b, pa_merged_commit := pa_merged_commit b\<rparr> = b" for b :: pr_association by (cases b) simp
  have merge: "(if truthy_str (pa_merged_commit a) then pa_merged_commit a else pa_merged_commit seen) = pa_merged_commit a"
    using merged_truthy [OF a(2)] facts(1) by (cases "pa_merged_commit c = None") auto
  have state: "(if pa_merged_commit a \<noteq> None then ''closed'' else pa_state a) = pa_state a"
    using facts(4) by (cases "pa_merged_commit a = None") simp_all
  have "next_facts a seen = a\<lparr>pa_state := pa_state a, pa_merged_commit := pa_merged_commit a\<rparr>"
    unfolding next_facts_def Let_def if_not_P [OF settled] merge state ..
  then show ?thesis by (simp only: keep)
qed

lemma next_facts_same_time:
  assumes checks: "association_checks c" and a: "a = next_facts c seen" and agree: "observation_conflict c seen = Inr ()"
    and closed: "pa_merged_commit seen \<noteq> None \<Longrightarrow> pa_state seen = ''closed''"
    and time: "pa_head_observed_at seen = pa_head_observed_at a"
  shows "pa_head_sha seen = pa_head_sha a \<and> pa_state seen = pa_state a"
proof (cases "advances c seen")
  case True
  with next_facts_fields [OF checks a] show ?thesis by (simp add: advances_def)
next
  case False
  note facts = next_facts_fields [OF checks a]
  from False have old: "pa_head_observed_at a = pa_head_observed_at c" "pa_head_sha a = pa_head_sha c"
    "pa_state a = (if pa_merged_commit a \<noteq> None then ''closed'' else pa_state c)"
    using facts(2-4) unfolding if_not_P [OF False] by (simp_all only:)
  with time agree have now: "pa_head_sha seen = pa_head_sha c" "pa_state seen = pa_state c"
    by (auto simp: observation_conflict_def res_simps)
  have "pa_merged_commit c \<noteq> None \<Longrightarrow> pa_state c = ''closed''" using checks by (auto simp: association_checks_def)
  with facts(1) closed now(2) have "pa_merged_commit a \<noteq> None \<Longrightarrow> pa_state seen = ''closed''"
    by (cases "pa_merged_commit c = None") simp_all
  with old now show ?thesis by (cases "pa_merged_commit a = None") simp_all
qed

lemma conflict_again:
  assumes checks: "association_checks c" and a: "a = next_facts c seen" and agree: "observation_conflict c seen = Inr ()"
    and closed: "pa_merged_commit seen \<noteq> None \<Longrightarrow> pa_state seen = ''closed''"
  shows "observation_conflict a seen =
    (if pa_merged_commit seen \<noteq> None \<and> pa_head_sha seen \<noteq> pa_head_sha a
     then Inl (LifecycleStoreMismatch ''merged implementation PR replay changed its head'') else Inr ())"
proof -
  note facts = next_facts_fields [OF checks a]
  have ident: "pa_plan_id c = pa_plan_id seen" "pa_node_key c = pa_node_key seen"
      "pa_work_package_id c = pa_work_package_id seen" "pa_url c = pa_url seen"
    and merges: "pa_merged_commit c = None \<or> pa_merged_commit seen = None \<or> pa_merged_commit c = pa_merged_commit seen"
    and head: "pa_merged_commit c \<noteq> None \<Longrightarrow> pa_head_sha seen = pa_head_sha c"
    using agree by (auto simp: observation_conflict_def res_simps)
  have merged: "pa_merged_commit a = None \<or> pa_merged_commit seen = None \<or> pa_merged_commit a = pa_merged_commit seen"
    using merges facts(1) by (cases "pa_merged_commit c = None") auto
  have stale: "pa_merged_commit a \<noteq> None \<and> pa_head_sha seen \<noteq> pa_head_sha a \<longleftrightarrow>
      pa_merged_commit seen \<noteq> None \<and> pa_head_sha seen \<noteq> pa_head_sha a"
    using head facts(1,3) by (cases "pa_merged_commit c = None"; cases "pa_merged_commit seen = None") (auto simp: advances_def)
  show ?thesis
    using ident merged stale next_facts_same_time [OF checks a agree closed]
    by (auto simp: observation_conflict_def a raise_if_def)
qed

text \<open>
  C39: repeating an accepted observation changes nothing and answers the same association, with one
  exception: a merge that was first seen together with a new head was accepted without recording
  that head, and every repetition of it is refused as a changed head.
\<close>

theorem observation_replay:
  assumes ok: "associations_ok d" and bound: "bind_implementation_pull_request seen d = (Inr a, d')"
  shows "bind_implementation_pull_request seen d' =
    (if pa_merged_commit seen = None \<or> pa_head_sha seen = pa_head_sha a then Inr a
     else Inl (LifecycleStoreMismatch ''merged implementation PR replay changed its head''), d')"
proof -
  let ?fresh = "seen\<lparr>pa_successful_check_sha := None\<rparr>"
  from bind_result [OF bound] obtain c where c: "c = (case dict_get (ld_associations d) (pa_repository seen, pa_number seen) of
        None \<Rightarrow> ?fresh | Some c \<Rightarrow> c)" and fresh: "association_checks ?fresh"
    and valid: "validate_implementation_values (pa_repository seen) (pa_number seen) (pa_plan_id seen) (pa_node_key seen)
         (pa_work_package_id seen) (pa_url seen) (pa_head_sha seen) (pa_state seen) (pa_merged_commit seen) = Inr ()"
    and agree: "observation_conflict c seen = Inr ()" and a: "a = next_facts c seen" "association_checks a"
    and d': "d' = store_association a d" by blast
  have checks: "association_checks c" and key: "pa_repository c = pa_repository seen" "pa_number c = pa_number seen"
    using c fresh association_constraints [OF ok] by (auto split: option.splits)
  have closed: "pa_merged_commit seen \<noteq> None \<Longrightarrow> pa_state seen = ''closed''"
    using fresh by (auto simp: association_checks_def)
  have current: "(case dict_get (ld_associations d') (pa_repository seen, pa_number seen) of None \<Rightarrow> ?fresh | Some c \<Rightarrow> c) = a"
    using stored_association [of a d] key by (simp add: d' a(1))
  show ?thesis
    using valid fresh current conflict_again [OF checks a(1) agree closed] next_facts_again [OF checks a] a(2) store_again [of a d]
    by (auto simp: bind_implementation_pull_request_def Let_def d')
qed

section \<open>Witnesses\<close>

definition no_lifecycle :: lifecycle_db where
  "no_lifecycle = \<lparr>ld_runs = [], ld_audit = [], ld_associations = [], ld_deliveries = []\<rparr>"

definition ex_seen :: "string \<Rightarrow> int \<Rightarrow> string \<Rightarrow> string option \<Rightarrow> pr_association" where
  "ex_seen head observed state merged =
     \<lparr>pa_repository = ''org/repo'', pa_number = 7, pa_plan_id = ''alpha'', pa_node_key = ''task-one'', pa_work_package_id = 12,
      pa_url = ''https://github.com/org/repo/pull/7'', pa_head_sha = head, pa_head_observed_at = observed, pa_state = state,
      pa_merged_commit = merged, pa_successful_check_sha = None\<rparr>"

definition ex_head :: "char \<Rightarrow> string" where "ex_head c = replicate 40 c"

definition ex_opened :: lifecycle_db where
  "ex_opened = snd (bind_implementation_pull_request (ex_seen (ex_head CHR ''a'') 10 ''open'' None) no_lifecycle)"

text \<open>Merged at a head the table has not seen.\<close>

definition ex_merge :: pr_association where
  "ex_merge = ex_seen (ex_head CHR ''b'') 20 ''closed'' (Some (ex_head CHR ''c''))"

lemma ex_opened_ok: "associations_ok ex_opened"
  using run_association_step [of no_lifecycle "BindPr (ex_seen (ex_head CHR ''a'') 10 ''open'' None)"]
  by (simp add: ex_opened_def associations_ok_def no_lifecycle_def)

lemma associations_only_advance_witness:
  "associations_ok (fold run_association [BindPr ex_merge, RecordCheck ''org/repo'' 7 (ex_head CHR ''a'') True] ex_opened)"
  using associations_only_advance [OF ex_opened_ok] by blast

lemma observation_replay_witness:
  "bind_implementation_pull_request ex_merge (snd (bind_implementation_pull_request ex_merge ex_opened)) =
     (Inl (LifecycleStoreMismatch ''merged implementation PR replay changed its head''),
      snd (bind_implementation_pull_request ex_merge ex_opened))"
proof -
  have "bind_implementation_pull_request ex_merge ex_opened =
      (Inr (ex_seen (ex_head CHR ''a'') 10 ''closed'' (Some (ex_head CHR ''c''))),
       snd (bind_implementation_pull_request ex_merge ex_opened))" by code_simp
  from observation_replay [OF ex_opened_ok this] show ?thesis
    by (simp add: ex_merge_def ex_seen_def ex_head_def numeral_eq_Suc)
qed

end
