(* ===== verification/LifecycleRuns.thy ===== *)
theory LifecycleRuns
  imports Associations
begin

text \<open>
  What the lifecycle store promises of its runs: every call moves a run along the transition
  table or along the one edge of a critique correction, never changes its binding, and never
  takes back a planning pull request, an approval or a publication binding once recorded.
\<close>

section \<open>The state machine of a run\<close>

inductive run_edge :: "run_state \<Rightarrow> run_state \<Rightarrow> bool" where
  table: "t \<in> transitions s \<Longrightarrow> run_edge s t"
| corrected: "run_edge RunFailed RunNeedsInput"

inductive_simps run_edge_published [simp]: "run_edge RunPublished t"

definition keeps :: "'a option \<Rightarrow> 'a option \<Rightarrow> bool" where
  "keeps v w \<longleftrightarrow> v = None \<or> w = v"

lemma keeps_simps [simp]: "keeps None w" "keeps v v" "keeps (Some x) w \<longleftrightarrow> w = Some x"
  by (auto simp: keeps_def)

lemma keeps_trans: "keeps u v \<Longrightarrow> keeps v w \<Longrightarrow> keeps u w"
  by (auto simp: keeps_def)

definition run_later :: "run_row \<Rightarrow> run_row \<Rightarrow> bool" where
  "run_later a b \<longleftrightarrow> same_binding (restore_run a) (restore_run b) \<and> run_edge\<^sup>*\<^sup>* (lr_state a) (lr_state b) \<and>
     keeps (lr_planning_commit a) (lr_planning_commit b) \<and> keeps (lr_pr_number a) (lr_pr_number b) \<and>
     keeps (lr_pr_url a) (lr_pr_url b) \<and> keeps (lr_approved_commit a) (lr_approved_commit b) \<and>
     keeps (lr_evidence_sha256 a) (lr_evidence_sha256 b) \<and> keeps (lr_blob_sha1 a) (lr_blob_sha1 b) \<and>
     keeps (lr_backlog_sha256 a) (lr_backlog_sha256 b)"

lemma restore_run_simps [simp]:
  "lr_idea_id (restore_run r) = lr_idea_id r" "lr_plan_id (restore_run r) = lr_plan_id r"
  "lr_plan_version (restore_run r) = lr_plan_version r" "lr_thread_id (restore_run r) = lr_thread_id r"
  "lr_repository (restore_run r) = lr_repository r" "lr_base_branch (restore_run r) = lr_base_branch r"
  "lr_artifact_prefix (restore_run r) = lr_artifact_prefix r" "lr_backlog_path (restore_run r) = lr_backlog_path r"
  "lr_snapshot_sha256 (restore_run r) = lr_snapshot_sha256 r" "lr_snapshot_etag (restore_run r) = lr_snapshot_etag r"
  "lr_state (restore_run r) = lr_state r" "lr_start_request (restore_run r) = lr_start_request r"
  "lr_pending_resume (restore_run r) = lr_pending_resume r" "lr_pr_number (restore_run r) = lr_pr_number r"
  "lr_approved_commit (restore_run r) = lr_approved_commit r"
  by (simp_all add: restore_run_def plan_run.defs)

lemma same_binding_refl [simp]: "same_binding r r"
  by (simp add: same_binding_def)

lemma run_later_refl [simp]: "run_later a a"
  by (simp add: run_later_def)

lemma run_later_trans: "run_later a b \<Longrightarrow> run_later b c \<Longrightarrow> run_later a c"
  unfolding run_later_def by (auto intro: keeps_trans rtranclp_trans simp: same_binding_def)

section \<open>Valid tables\<close>

text \<open>The constraints hold, and what is only ever written together is null together.\<close>

definition run_complete :: "('a) plan_run_scheme \<Rightarrow> bool" where
  "run_complete r \<longleftrightarrow> run_checks r \<and> (lr_planning_commit r = None \<longleftrightarrow> lr_pr_number r = None) \<and>
     (lr_pr_number r = None \<longleftrightarrow> lr_pr_url r = None) \<and>
     (lr_blob_sha1 r = None \<longleftrightarrow> lr_backlog_sha256 r = None)"

definition runs_ok :: "lifecycle_db \<Rightarrow> bool" where
  "runs_ok d \<longleftrightarrow> (\<forall>k r. dict_get (ld_runs d) k = Some r \<longrightarrow> k = run_key r \<and> run_complete r) \<and>
     (\<forall>k k' r s. dict_get (ld_runs d) k = Some r \<longrightarrow> dict_get (ld_runs d) k' = Some s \<longrightarrow> k \<noteq> k' \<longrightarrow> \<not> runs_collide r s)"

definition runs_advance :: "lifecycle_db \<Rightarrow> lifecycle_db \<Rightarrow> bool" where
  "runs_advance d d' \<longleftrightarrow> runs_ok d' \<and>
     (\<forall>k a. dict_get (ld_runs d) k = Some a \<longrightarrow> (\<exists>b. dict_get (ld_runs d') k = Some b \<and> run_later a b))"

lemma runs_okD:
  assumes "runs_ok d" "dict_get (ld_runs d) k = Some r"
  shows "k = run_key r" "run_complete r"
  using assms unfolding runs_ok_def by blast+

lemma runs_advance_same: "runs_ok d \<Longrightarrow> ld_runs d' = ld_runs d \<Longrightarrow> runs_advance d d'"
  by (auto simp: runs_advance_def runs_ok_def)

lemma collide_sym: "runs_collide r s \<longleftrightarrow> runs_collide s r"
  unfolding runs_collide_def by metis

lemma runs_ok_store_row:
  assumes ok: "runs_ok d" and r: "run_complete r"
    and apart: "\<And>k s. dict_get (ld_runs d) k = Some s \<Longrightarrow> k \<noteq> run_key r \<Longrightarrow> \<not> runs_collide r s"
  shows "runs_ok (store_row r d)"
proof -
  have get: "dict_get (ld_runs (store_row r d)) k = (if k = run_key r then Some r else dict_get (ld_runs d) k)" for k
    by (simp add: store_row_def dict_simps)
  have "\<not> runs_collide a b" if "dict_get (ld_runs (store_row r d)) k = Some a" "dict_get (ld_runs (store_row r d)) k' = Some b" "k \<noteq> k'" for k k' a b
  proof (cases "k = run_key r")
    case True
    with that get apart [of k' b] show ?thesis by simp
  next
    case False
    show ?thesis
    proof (cases "k' = run_key r")
      case True
      with that get apart [of k a] False collide_sym [of r a] show ?thesis by simp
    next
      case other: False
      with that get False have "dict_get (ld_runs d) k = Some a" "dict_get (ld_runs d) k' = Some b" by simp_all
      with ok that(3) show ?thesis unfolding runs_ok_def by blast
    qed
  qed
  moreover have "k = run_key a \<and> run_complete a" if "dict_get (ld_runs (store_row r d)) k = Some a" for k a
    using that runs_okD [OF ok] r get by (auto split: if_splits)
  ultimately show ?thesis unfolding runs_ok_def by blast
qed

lemma not_list_ex_get: "\<not> list_ex (\<lambda>(k, s). P k s) d \<Longrightarrow> dict_get d k = Some s \<Longrightarrow> \<not> P k s"
  by (auto simp: list_ex_iff dest: map_of_SomeD)

lemma update_run_cases:
  assumes "update_run key guard f now d = (res, d')"
  obtains (unchanged) "d' = d"
  | (updated) r where "dict_get (ld_runs d) key = Some r" "guard r" "d' = store_row ((f r)\<lparr>rr_updated_at := now\<rparr>) d"
      "run_checks ((f r)\<lparr>rr_updated_at := now\<rparr>)"
      "\<not> list_ex (\<lambda>(k, s). k \<noteq> key \<and> runs_collide ((f r)\<lparr>rr_updated_at := now\<rparr>) s) (ld_runs d)"
  using assms by (auto simp: update_run_def Let_def split: option.splits if_splits)

text \<open>A guarded update keeps the promise if its new row does.\<close>

lemma update_run_advance:
  assumes ok: "runs_ok d" and run: "update_run key guard f now d = (res, d')"
    and change: "\<And>r. key = run_key r \<Longrightarrow> guard r \<Longrightarrow> run_complete r \<Longrightarrow> run_checks (f r) \<Longrightarrow>
      run_key (f r) = key \<and> run_complete (f r) \<and> run_later r (f r)"
  shows "runs_advance d d'"
  using run
proof (cases rule: update_run_cases)
  case unchanged
  with ok show ?thesis by (simp add: runs_advance_same)
next
  case (updated r)
  let ?r = "(f r)\<lparr>rr_updated_at := now\<rparr>"
  have same: "run_checks ?r = run_checks (f r)" "run_complete ?r = run_complete (f r)" "run_key ?r = run_key (f r)"
    "run_later r ?r = run_later r (f r)"
    by (simp_all add: run_checks_def run_complete_def run_key_def run_later_def same_binding_def restore_run_def plan_run.defs)
  have new: "run_key ?r = key" "run_complete ?r" "run_later r ?r"
    using change [OF runs_okD(1) [OF ok updated(1)] updated(2) runs_okD(2) [OF ok updated(1)]] updated(4) same by simp_all
  have "runs_ok (store_row ?r d)"
    using not_list_ex_get [OF updated(5)] new by (intro runs_ok_store_row [OF ok]) auto
  then show ?thesis
    using updated(1,3) new by (auto simp: runs_advance_def store_row_def dict_simps)
qed

section \<open>Every call advances the runs\<close>

datatype store_call =
    BeginRun plan_run
  | RecordPullRequest string int string int string
  | SetRunState plan_run run_state
  | ApproveRun plan_run string string
  | RecordPending plan_run string
  | ClearPending plan_run string
  | RecordBinding plan_run string string string
  | AbandonResume plan_run string string string string string string
  | CorrectCritique plan_run string string int string string string string
  | AuditEntry string string string string "(string, pyval) dict"
  | AssociationCall association_call
  | OtherDeliveries "(string, delivery_row) dict"

text \<open>\<open>OtherDeliveries\<close> is a step of the deduplicator, which owns that table.\<close>

fun run_store :: "store_call \<times> int \<Rightarrow> lifecycle_db \<Rightarrow> lifecycle_db" where
  "run_store (BeginRun r, now) d = snd (store_begin r now d)"
| "run_store (RecordPullRequest p v c n u, now) d = snd (record_pull_request p v c n u now d)"
| "run_store (SetRunState r s, now) d = snd (set_run_state r s now d)"
| "run_store (ApproveRun r c e, now) d = snd (approve_for_publication r c e now d)"
| "run_store (RecordPending r q, now) d = snd (record_pending_resume r q now d)"
| "run_store (ClearPending r q, now) d = snd (clear_pending_resume r q now d)"
| "run_store (RecordBinding r c b s, now) d = snd (record_publication_binding r c b s now d)"
| "run_store (AbandonResume r q k t i oper why, now) d =
     snd (complete_terminal_resume_abandonment r q k t i oper why now d)"
| "run_store (CorrectCritique r k i c at n oper why, now) d =
     snd (complete_critique_correction r k i c at n oper why now d)"
| "run_store (AuditEntry e t a x ds, now) d = store_audit e t a x ds d"
| "run_store (AssociationCall c, now) d = run_association c d"
| "run_store (OtherDeliveries rows, now) d = d\<lparr>ld_deliveries := rows\<rparr>"

lemma edge_of_table: "t \<in> transitions s \<Longrightarrow> run_edge\<^sup>*\<^sup>* s t"
  by (rule r_into_rtranclp) (rule run_edge.table)

lemmas run_change = run_key_def run_complete_def run_later_def same_binding_def restore_run_def plan_run.defs
  same_or_null_def no_pull_request_def nothing_approved_def

lemma update_or_mismatch_db: "snd (update_or_mismatch key guard f now m d) = snd (update_run key guard f now d)"
  by (auto simp: update_or_mismatch_def split: prod.splits sum.splits option.splits)

lemma update_run_error: "update_run key guard f now d = (Inl e, d') \<Longrightarrow> d' = d"
  by (auto simp: update_run_def Let_def split: option.splits if_splits)

lemma audit_runs [simp]: "ld_runs (store_audit e t a x ds d) = ld_runs d"
  by (simp add: store_audit_def)

lemma runs_advance_cong: "runs_advance d d' \<Longrightarrow> ld_runs d'' = ld_runs d' \<Longrightarrow> runs_advance d d''"
  by (simp add: runs_advance_def runs_ok_def)

lemma begin_advances:
  assumes ok: "runs_ok d"
  shows "runs_advance d (snd (store_begin run now d))"
proof -
  let ?row = "new_run_row run now"
  have "snd (store_begin run now d) =
      (if lr_state run = RunPlanning \<and> run_checks ?row \<and> \<not> list_ex (\<lambda>(k, s). runs_collide ?row s) (ld_runs d)
       then store_row ?row d else d)"
    by (simp add: store_begin_def Let_def split: option.split)
  then consider "snd (store_begin run now d) = d"
    | "run_checks ?row" "\<not> list_ex (\<lambda>(k, s). runs_collide ?row s) (ld_runs d)" "snd (store_begin run now d) = store_row ?row d"
    by (auto split: if_splits)
  then show ?thesis
  proof cases
    case 1
    with ok show ?thesis by (simp add: runs_advance_same)
  next
    case 2
    have complete: "run_complete ?row" using 2(1) by (simp add: run_complete_def new_run_row_def plan_run.defs run_row.defs)
    have apart: "\<not> runs_collide ?row s" if "dict_get (ld_runs d) k = Some s" for k s
      using not_list_ex_get [OF 2(2) that] .
    have "runs_ok (store_row ?row d)" by (rule runs_ok_store_row [OF ok complete]) (rule apart)
    moreover have "k \<noteq> run_key ?row" if "dict_get (ld_runs d) k = Some a" for k a
      using apart [OF that] runs_okD(1) [OF ok that] by (auto simp: runs_collide_def)
    ultimately show ?thesis using 2(3) by (auto simp: runs_advance_def store_row_def dict_simps)
  qed
qed

lemma record_pull_request_advances: "runs_ok d \<Longrightarrow> runs_advance d (snd (record_pull_request p v c n u now d))"
  unfolding record_pull_request_def update_or_mismatch_db
  by (erule update_run_advance [OF _ surjective_pairing]) (auto simp: run_change intro!: edge_of_table)

lemma set_run_state_advances: "runs_ok d \<Longrightarrow> runs_advance d (snd (set_run_state r s now d))"
proof (cases "s \<in> transitions (lr_state r)")
  case True
  assume ok: "runs_ok d"
  have "snd (set_run_state r s now d) = snd (update_run (run_key r) (\<lambda>x. lr_state x = lr_state r) (\<lambda>x. x\<lparr>lr_state := s\<rparr>) now d)"
    using True by (auto simp: set_run_state_def split: prod.splits sum.splits option.splits)
  moreover have "runs_advance d (snd (update_run (run_key r) (\<lambda>x. lr_state x = lr_state r) (\<lambda>x. x\<lparr>lr_state := s\<rparr>) now d))"
    by (rule update_run_advance [OF ok surjective_pairing]) (use True in \<open>auto simp: run_change intro!: edge_of_table\<close>)
  ultimately show ?thesis by simp
qed (simp add: set_run_state_def runs_advance_same)

lemma approve_advances: "runs_ok d \<Longrightarrow> runs_advance d (snd (approve_for_publication r c e now d))"
proof (cases "lr_state r \<in> {RunPrOpen, RunPublishing}")
  case True
  assume ok: "runs_ok d"
  have "snd (approve_for_publication r c e now d) = snd (update_run (run_key r)
        (\<lambda>r. lr_state r \<in> {RunPrOpen, RunPublishing} \<and> same_or_null (lr_approved_commit r) c \<and>
             same_or_null (lr_evidence_sha256 r) e)
        (\<lambda>r. r\<lparr>lr_state := RunPublishing, lr_approved_commit := Some c, lr_evidence_sha256 := Some e\<rparr>) now d)"
    using True by (simp only: approve_for_publication_def update_or_mismatch_db if_False simp_thms)
  then show ?thesis
    by (simp only:) (rule update_run_advance [OF ok surjective_pairing], auto simp: run_change intro!: edge_of_table)
qed (simp add: approve_for_publication_def runs_advance_same)

lemma record_pending_advances: "runs_ok d \<Longrightarrow> runs_advance d (snd (record_pending_resume r q now d))"
proof (cases "q = []")
  case False
  assume ok: "runs_ok d"
  have "snd (record_pending_resume r q now d) = snd (update_run (run_key r)
        (\<lambda>r. lr_state r = RunNeedsInput \<and> same_or_null (lr_pending_resume r) q) (\<lambda>r. r\<lparr>lr_pending_resume := Some q\<rparr>) now d)"
    using False by (simp add: record_pending_resume_def update_or_mismatch_db)
  then show ?thesis
    by (simp only:) (rule update_run_advance [OF ok surjective_pairing], auto simp: run_change run_checks_def)
qed (simp add: record_pending_resume_def runs_advance_same)

lemma clear_pending_advances: "runs_ok d \<Longrightarrow> runs_advance d (snd (clear_pending_resume r q now d))"
proof -
  assume ok: "runs_ok d"
  have "snd (clear_pending_resume r q now d) = snd (update_run (run_key r)
      (\<lambda>r. lr_pending_resume r = Some q) (\<lambda>r. r\<lparr>lr_pending_resume := None\<rparr>) now d)"
    by (auto simp: clear_pending_resume_def split: prod.splits sum.splits option.splits)
  then show ?thesis
    by (simp only:) (rule update_run_advance [OF ok surjective_pairing], auto simp: run_change)
qed

lemma record_binding_advances: "runs_ok d \<Longrightarrow> runs_advance d (snd (record_publication_binding r c b s now d))"
  unfolding record_publication_binding_def update_or_mismatch_db
  by (erule update_run_advance [OF _ surjective_pairing]) (auto simp: run_change)

lemma abandon_resume_advances:
  assumes ok: "runs_ok d"
  shows "runs_advance d (snd (complete_terminal_resume_abandonment r q k t i oper why now d))"
proof -
  let ?u = "update_run (run_key r) (\<lambda>x. lr_thread_id x = lr_thread_id r \<and> lr_state x = RunNeedsInput \<and>
      lr_pending_resume x = Some q \<and> no_pull_request x \<and> nothing_approved x) (\<lambda>x. x\<lparr>lr_pending_resume := None\<rparr>) now d"
  have u: "runs_advance d (snd ?u)"
    by (rule update_run_advance [OF ok surjective_pairing]) (auto simp: run_change)
  obtain res d' where run: "?u = (res, d')" by (cases ?u)
  have "ld_runs (snd (complete_terminal_resume_abandonment r q k t i oper why now d)) \<in> {ld_runs d, ld_runs d'}"
    by (simp add: complete_terminal_resume_abandonment_def Let_def run split: option.split sum.split)
  then show ?thesis using u run runs_advance_cong runs_advance_same [OF ok] by auto
qed

lemma correct_critique_advances:
  assumes ok: "runs_ok d"
  shows "runs_advance d (snd (complete_critique_correction r k i c at n oper why now d))"
proof -
  let ?u = "update_run (run_key r) (\<lambda>x. lr_thread_id x = lr_thread_id r \<and> lr_state x = RunFailed \<and>
      lr_pending_resume x = None \<and> no_pull_request x \<and> nothing_approved x) (\<lambda>x. x\<lparr>lr_state := RunNeedsInput\<rparr>) now d"
  have u: "runs_advance d (snd ?u)"
    by (rule update_run_advance [OF ok surjective_pairing])
      (auto simp: run_change intro: r_into_rtranclp run_edge.corrected)
  obtain res d' where run: "?u = (res, d')" by (cases ?u)
  have "ld_runs (snd (complete_critique_correction r k i c at n oper why now d)) \<in> {ld_runs d, ld_runs d'}"
    by (simp add: complete_critique_correction_def Let_def run split: option.split sum.split)
  then show ?thesis using u run runs_advance_cong runs_advance_same [OF ok] by auto
qed

lemma store_association_runs [simp]: "ld_runs (store_association a d) = ld_runs d"
  by (simp add: store_association_def)

lemma association_runs [simp]: "ld_runs (run_association c d) = ld_runs d"
proof (cases c)
  case (BindPr seen)
  then show ?thesis by (simp add: bind_implementation_pull_request_def Let_def split: sum.split)
next
  case (RecordCheck repository number head passed)
  then show ?thesis by (simp add: record_implementation_check_result_def Let_def split: option.split)
qed

lemma run_store_advances: "runs_ok d \<Longrightarrow> runs_advance d (run_store c d)"
  by (induction c d rule: run_store.induct)
    (simp_all add: begin_advances record_pull_request_advances set_run_state_advances approve_advances record_pending_advances
      clear_pending_advances record_binding_advances abandon_resume_advances correct_critique_advances runs_advance_same)

lemma run_edges_published: "run_edge\<^sup>*\<^sup>* s t \<Longrightarrow> s = RunPublished \<Longrightarrow> t = RunPublished"
  by (induction rule: rtranclp_induct) auto

lemma runs_ok_calls: "runs_ok d \<Longrightarrow> runs_ok (fold run_store calls d)"
proof (induction calls arbitrary: d)
  case (Cons c calls)
  then have "runs_ok (run_store c d)" using run_store_advances by (simp add: runs_advance_def)
  then show ?case using Cons.IH by simp
qed simp

lemma no_lifecycle_ok: "runs_ok no_lifecycle"
  by (simp add: runs_ok_def no_lifecycle_def)

section \<open>Properties\<close>



section \<open>Witness\<close>

definition ex_run :: plan_run where
  "ex_run = \<lparr>lr_idea_id = 7, lr_plan_id = ''alpha'', lr_plan_version = 1, lr_thread_id = ''thread'', lr_repository = ''org/repo'',
     lr_base_branch = ''main'', lr_artifact_prefix = ''p'', lr_backlog_path = ''p/b'', lr_snapshot_sha256 = replicate 64 CHR ''a'',
     lr_snapshot_etag = ''e'', lr_state = RunPlanning, lr_start_request = ''c'', lr_pending_resume = None,
     lr_planning_commit = None, lr_pr_number = None, lr_pr_url = None, lr_approved_commit = None, lr_evidence_sha256 = None,
     lr_blob_sha1 = None, lr_backlog_sha256 = None\<rparr>"

definition ex_begun :: lifecycle_db where
  "ex_begun = fold run_store [(BeginRun ex_run, 1), (RecordPullRequest ''alpha'' 1 (ex_head CHR ''b'') 3 ''u'', 2)] no_lifecycle"


end
