(* ===== verification/IdeaText.thy ===== *)
theory IdeaText
  imports Commands
begin

text \<open>
  How \<^verbatim>\<open>src/planning_platform/lifecycle/service.py\<close> reads the repositories of an idea
  out of its Markdown description: fenced code and HTML comments are hidden, the section under the
  one heading ``Relevant repositories'' is taken, and each line is reduced to
  \<^verbatim>\<open>owner/name\<close>. Every regular expression is written out as the function it computes; each
  is deterministic, the code span excepted, whose backtracking is the search for the longest fence.
\<close>

section \<open>Characters and lines\<close>

definition is_blank :: "char \<Rightarrow> bool" where
  "is_blank c \<longleftrightarrow> c = CHR '' '' \<or> c = CHR 0x09"

definition backtick :: char where "backtick = CHR 0x60"
definition tilde :: char where "tilde = CHR 0x7E"

text \<open>\<^verbatim>\<open>str.splitlines\<close> on the ASCII range.\<close>

definition is_line_end :: "char \<Rightarrow> bool" where
  "is_line_end c \<longleftrightarrow> c \<in> {CHR 0x0A, CHR 0x0B, CHR 0x0C, CHR 0x0D, CHR 0x1C, CHR 0x1D, CHR 0x1E}"

fun splitlines :: "string \<Rightarrow> string list" where
  "splitlines [] = []"
| "splitlines [c] = (if is_line_end c then [[]] else [[c]])"
| "splitlines (c # d # s) =
     (if c = CHR 0x0D \<and> d = CHR 0x0A then [] # splitlines s
      else if is_line_end c then [] # splitlines (d # s)
      else case splitlines (d # s) of [] \<Rightarrow> [[c]] | w # ws \<Rightarrow> (c # w) # ws)"

section \<open>Hidden text\<close>

lemma is_prefix_of_length: "is_prefix_of p s \<Longrightarrow> length p \<le> length s"
  by (auto simp: is_prefix_of_iff)

lemma find_at_length: "find_at p s = Some n \<Longrightarrow> n + length p \<le> length s"
  by (induction p s arbitrary: n rule: find_at.induct) (auto split: if_splits dest: is_prefix_of_length)

text \<open>
  The loop of \<^verbatim>\<open>_without_html_comments\<close>, on the text from the cursor on: whether the line
  has a comment, and whether one is open at its end.
\<close>

function comment_loop :: "bool \<Rightarrow> bool \<Rightarrow> string \<Rightarrow> bool \<times> bool" where
  "comment_loop in_comment contains s =
     (if s = [] then (contains, in_comment)
      else if in_comment then
        (case find_at ''-->'' s of None \<Rightarrow> (True, True) | Some n \<Rightarrow> comment_loop False contains (drop (n + 3) s))
      else
        (case find_at ''<!--'' s of None \<Rightarrow> (contains, False) | Some n \<Rightarrow> comment_loop True True (drop (n + 4) s)))"
  by pat_completeness auto

termination comment_loop
  by (relation "measure (\<lambda>(_, _, s). length s)") (auto dest: find_at_length)

declare comment_loop.simps [simp del]

definition without_html_comments :: "string \<Rightarrow> bool \<Rightarrow> string option \<times> bool" where
  "without_html_comments line in_comment =
     (case comment_loop in_comment in_comment line of (contains, still) \<Rightarrow> (if contains then None else Some line, still))"

text \<open>\<^verbatim>\<open>_MARKDOWN_FENCE\<close>: the fence character, its length and the tail.\<close>

definition fence_run :: "char \<Rightarrow> string \<Rightarrow> (char \<times> nat \<times> string) option" where
  "fence_run c s = (let n = length (takeWhile (\<lambda>x. x = c) s) in if 3 \<le> n then Some (c, n, drop n s) else None)"

definition markdown_fence :: "string \<Rightarrow> (char \<times> nat \<times> string) option" where
  "markdown_fence line =
     (if 3 < length (takeWhile is_blank line) then None
      else let s = dropWhile is_blank line in
        case fence_run backtick s of Some f \<Rightarrow> Some f | None \<Rightarrow> fence_run tilde s)"

text \<open>One line of \<^verbatim>\<open>_visible_markdown_lines\<close>: the open fence, the comment flag, the lines so far.\<close>

type_synonym markdown_state = "(char \<times> nat) option \<times> bool \<times> string option list"

definition closes_fence :: "char \<times> nat \<Rightarrow> string \<Rightarrow> bool" where
  "closes_fence f line = (case markdown_fence line of
     None \<Rightarrow> False | Some (c, n, tail) \<Rightarrow> c = fst f \<and> snd f \<le> n \<and> py_strip tail = [])"

definition visible_step :: "string \<Rightarrow> markdown_state \<Rightarrow> markdown_state" where
  "visible_step line st = (case st of (fence, in_comment, visible) \<Rightarrow>
     (case fence of
        Some f \<Rightarrow> ((if closes_fence f line then None else Some f), in_comment, visible)
      | None \<Rightarrow>
          (case (if in_comment then None else markdown_fence line) of
             Some (c, n, tail) \<Rightarrow> (Some (c, n), in_comment, visible)
           | None \<Rightarrow>
               (case without_html_comments line in_comment of (shown, still) \<Rightarrow> (None, still, visible @ [shown])))))"

definition visible_lines :: "string list \<Rightarrow> markdown_state" where
  "visible_lines lines = fold visible_step lines (None, False, [])"

definition visible_markdown_lines :: "string \<Rightarrow> string option list" where
  "visible_markdown_lines description = snd (snd (visible_lines (splitlines description)))"

section \<open>Sections\<close>

text \<open>The heading mark \<^verbatim>\<open>^[ \t]{0,3}#{1,6}\<close> and what follows it.\<close>

definition after_heading_mark :: "string \<Rightarrow> string option" where
  "after_heading_mark line =
     (let s = dropWhile is_blank line; n = length (takeWhile (\<lambda>c. c = CHR ''#'') s) in
      if 3 < length (takeWhile is_blank line) \<or> n = 0 \<or> 6 < n then None else Some (drop n s))"

definition is_heading :: "string \<Rightarrow> bool" where
  "is_heading line = (case after_heading_mark line of
     None \<Rightarrow> False | Some [] \<Rightarrow> True | Some (c # _) \<Rightarrow> is_blank c)"

text \<open>\<^verbatim>\<open>(?:[ \t]+#+)?[ \t]*$\<close>\<close>

definition closing_marks :: "string \<Rightarrow> bool" where
  "closing_marks s =
     (let r = dropWhile is_blank s in
      r = [] \<or> (s \<noteq> r \<and> hd r = CHR ''#'' \<and> list_all is_blank (dropWhile (\<lambda>c. c = CHR ''#'') r)))"

definition is_relevant_heading :: "string \<Rightarrow> bool" where
  "is_relevant_heading line =
     (case after_heading_mark line of
        None \<Rightarrow> False
      | Some rest \<Rightarrow>
          let title = dropWhile is_blank rest; name = ''relevant repositories'' in
          rest \<noteq> title \<and> is_prefix_of name (py_casefold title) \<and> closing_marks (drop (length name) title))"

definition section_boundary :: "string option \<Rightarrow> bool" where
  "section_boundary line = (case line of None \<Rightarrow> True | Some l \<Rightarrow> is_heading l)"

section \<open>Entries\<close>

text \<open>\<^verbatim>\<open>_MARKDOWN_LIST_PREFIX\<close> removed.\<close>

definition drop_list_prefix :: "string \<Rightarrow> string" where
  "drop_list_prefix s =
     (let digits = length (takeWhile is_digit_char s);
          marked = (case s of [] \<Rightarrow> None
            | c # t \<Rightarrow>
                if c \<in> {CHR ''-'', CHR ''+'', CHR ''*''} then Some t
                else if 1 \<le> digits \<and> digits \<le> 9 \<and> digits < length s \<and> s ! digits \<in> {CHR ''.'', CHR '')''}
                then Some (drop (digits + 1) s) else None)
      in case marked of None \<Rightarrow> s
         | Some t \<Rightarrow> if t \<noteq> [] \<and> is_blank (hd t) then dropWhile is_blank t else s)"

text \<open>\<^verbatim>\<open>_MARKDOWN_CODE_SPAN\<close>: the value between the longest fences that leave one.\<close>

fun code_span_value :: "nat \<Rightarrow> string \<Rightarrow> string option" where
  "code_span_value 0 s = None"
| "code_span_value (Suc n) s =
     (let fence = replicate (Suc n) backtick; value = take (length s - 2 * Suc n) (drop (Suc n) s) in
      if 2 * Suc n < length s \<and> s = fence @ value @ fence then Some value else code_span_value n s)"

definition code_span :: "string \<Rightarrow> string option" where
  "code_span s = code_span_value (length (takeWhile (\<lambda>c. c = backtick) s)) s"

definition github_prefix :: string where
  "github_prefix = ''https://github.com/''"

text \<open>\<^verbatim>\<open>(?:[ \t]+(?:"..."|'...'|(...)))?[ \t]*\)$\<close> after the target of a link.\<close>

definition closed_link :: "string \<Rightarrow> bool" where
  "closed_link s \<longleftrightarrow> dropWhile is_blank s = [CHR 0x29]"

definition link_title :: "string \<Rightarrow> string option" where
  "link_title s =
     (case s of [] \<Rightarrow> None
      | q # t \<Rightarrow>
          (let stop = (if q = dquote then (\<lambda>c. c = dquote) else if q = squote then (\<lambda>c. c = squote)
                 else (\<lambda>c. c = CHR 0x28 \<or> c = CHR 0x29));
               end = (if q = CHR 0x28 then CHR 0x29 else q); rest = dropWhile (\<lambda>c. \<not> stop c) t in
           if q \<in> {dquote, squote, CHR 0x28} \<and> rest \<noteq> [] \<and> hd rest = end then Some (tl rest) else None))"

definition link_tail :: "string \<Rightarrow> bool" where
  "link_tail s \<longleftrightarrow> closed_link s \<or>
     (s \<noteq> dropWhile is_blank s \<and>
      (case link_title (dropWhile is_blank s) of None \<Rightarrow> False | Some r \<Rightarrow> closed_link r))"

definition link_target :: "string \<Rightarrow> string option" where
  "link_target s =
     (case dropWhile is_blank s of [] \<Rightarrow> None
      | c # t \<Rightarrow>
          if c = CHR ''<'' then
            (let url = takeWhile (\<lambda>x. x \<noteq> CHR ''>'' \<and> \<not> is_space x) t; rest = dropWhile (\<lambda>x. x \<noteq> CHR ''>'' \<and> \<not> is_space x) t in
             if is_prefix_of github_prefix url \<and> length github_prefix < length url \<and> rest \<noteq> [] \<and> hd rest = CHR ''>'' \<and>
                link_tail (tl rest) then Some url else None)
          else
            (let url = takeWhile (\<lambda>x. x \<noteq> CHR 0x29 \<and> \<not> is_space x) (c # t);
                 rest = dropWhile (\<lambda>x. x \<noteq> CHR 0x29 \<and> \<not> is_space x) (c # t) in
             if is_prefix_of github_prefix url \<and> length github_prefix < length url \<and> link_tail rest then Some url else None))"

text \<open>\<^verbatim>\<open>_MARKDOWN_LINK\<close>: the target of a whole-line link to GitHub.\<close>

definition markdown_link :: "string \<Rightarrow> string option" where
  "markdown_link s =
     (case s of [] \<Rightarrow> None
      | c # t \<Rightarrow>
          let rest = dropWhile (\<lambda>x. x \<noteq> CHR 0x5D) t in
          if c = CHR 0x5B \<and> takeWhile (\<lambda>x. x \<noteq> CHR 0x5D) t \<noteq> [] \<and> is_prefix_of [CHR 0x5D, CHR 0x28] rest
          then link_target (drop 2 rest) else None)"

definition is_name_char :: "char \<Rightarrow> bool" where
  "is_name_char c \<longleftrightarrow> is_letter c \<or> is_digit_char c \<or> c \<in> {CHR ''_'', CHR ''.'', CHR ''-''}"

definition remove_suffix :: "string \<Rightarrow> string \<Rightarrow> string" where
  "remove_suffix suffix s =
     (if suffix \<noteq> [] \<and> length suffix \<le> length s \<and> drop (length s - length suffix) s = suffix
      then take (length s - length suffix) s else s)"

text \<open>
  \<^verbatim>\<open>_REPOSITORY_ENTRY\<close> and \<^verbatim>\<open>removesuffix\<close>. The name is the longest run of its
  characters; its last one may not be a dot, and after it only one slash may follow.
\<close>

definition repository_match :: "string \<Rightarrow> string option" where
  "repository_match candidate =
     (let s = (if is_prefix_of github_prefix candidate then drop (length github_prefix) candidate else candidate);
          owner = takeWhile is_name_char s; rest = dropWhile is_name_char s;
          name = takeWhile is_name_char (tl rest); tail = dropWhile is_name_char (tl rest) in
      if owner \<noteq> [] \<and> rest \<noteq> [] \<and> hd rest = CHR ''/'' \<and> name \<noteq> [] \<and> last name \<noteq> CHR ''.'' \<and> tail \<in> {[], ''/''}
      then Some (owner @ ''/'' @ name) else None)"

definition repository_entry :: "string \<Rightarrow> string option" where
  "repository_entry line =
     (if is_prefix_of [CHR 0x09] line \<or> is_prefix_of ''    '' line then None
      else let candidate = py_strip (drop_list_prefix (py_strip line)) in
        if candidate = [] then None
        else let target =
            (case code_span candidate of
               Some value \<Rightarrow> py_strip value
             | None \<Rightarrow>
                 if hd candidate = CHR ''<'' \<and> last candidate = CHR ''>''
                 then py_strip (take (length candidate - 2) (drop 1 candidate))
                 else (case markdown_link candidate of Some url \<Rightarrow> url | None \<Rightarrow> candidate))
          in map_option (remove_suffix ''.git'') (repository_match target))"

section \<open>The repositories of a description\<close>

fun repository_sections :: "string option list \<Rightarrow> string list" where
  "repository_sections [] = []"
| "repository_sections (line # lines) =
     (if (case line of None \<Rightarrow> False | Some l \<Rightarrow> is_relevant_heading l)
      then py_join nl (map the (takeWhile (\<lambda>l. \<not> section_boundary l) lines)) # repository_sections lines
      else repository_sections lines)"

definition add_repository :: "string \<Rightarrow> string list \<Rightarrow> string list" where
  "add_repository line result =
     (case repository_entry line of None \<Rightarrow> result
      | Some r \<Rightarrow> if r \<in> set result then result else result @ [r])"

definition repositories :: "string \<Rightarrow> string list" where
  "repositories description =
     (case repository_sections (visible_markdown_lines description) of
        [body] \<Rightarrow> take 20 (fold add_repository (splitlines body) [])
      | _ \<Rightarrow> [])"

section \<open>What is read is well formed and visible\<close>

definition name_slash_name :: "string \<Rightarrow> bool" where
  "name_slash_name s =
     (let owner = takeWhile is_name_char s; rest = dropWhile is_name_char s in
      owner \<noteq> [] \<and> rest \<noteq> [] \<and> hd rest = CHR ''/'' \<and> list_all is_name_char (tl rest))"

lemma slash_not_name: "\<not> is_name_char CHR ''/''"
  by (simp add: is_name_char_def is_letter_def is_lower_char_def is_upper_char_def is_digit_char_def)

lemma name_slash_name_iff:
  "name_slash_name s \<longleftrightarrow>
     (\<exists>owner name. s = owner @ ''/'' @ name \<and> owner \<noteq> [] \<and> list_all is_name_char owner \<and> list_all is_name_char name)"
proof
  assume n: "name_slash_name s"
  then obtain t where t: "dropWhile is_name_char s = CHR ''/'' # t" and l: "list_all is_name_char t"
    and o: "takeWhile is_name_char s \<noteq> []"
    by (cases "dropWhile is_name_char s") (auto simp: name_slash_name_def Let_def)
  have "s = takeWhile is_name_char s @ ''/'' @ t"
    using t takeWhile_dropWhile_id [of is_name_char s] by simp
  moreover have "list_all is_name_char (takeWhile is_name_char s)"
    by (simp add: list_all_iff) (metis set_takeWhileD)
  ultimately show "\<exists>owner name. s = owner @ ''/'' @ name \<and> owner \<noteq> [] \<and> list_all is_name_char owner \<and> list_all is_name_char name"
    using l o by blast
next
  assume "\<exists>owner name. s = owner @ ''/'' @ name \<and> owner \<noteq> [] \<and> list_all is_name_char owner \<and> list_all is_name_char name"
  then show "name_slash_name s"
    by (auto simp: name_slash_name_def list_all_iff takeWhile_append dropWhile_append slash_not_name)
qed

lemma remove_suffix_cases: "remove_suffix p s = s \<or> s = remove_suffix p s @ p"
  by (auto simp: remove_suffix_def) (metis append_take_drop_id)

lemma repository_match_names:
  assumes "repository_match c = Some r"
  shows "name_slash_name r"
  using assms unfolding repository_match_def name_slash_name_iff
  by (auto simp: Let_def list_all_iff split: if_splits dest: set_takeWhileD)

lemma first_occurrence_unique:
  assumes "u @ c # v = u' @ c # v'" and "c \<notin> set u" and "c \<notin> set u'"
  shows "u = u'" and "v = v'"
proof -
  have w: "takeWhile (\<lambda>x. x \<noteq> c) (w @ c # z) = w" if "c \<notin> set w" for w z :: "'a list"
    using that by (induction w) auto
  show "u = u'"
    using arg_cong [OF assms(1), of "takeWhile (\<lambda>x. x \<noteq> c)"] by (simp add: w assms(2,3))
  then show "v = v'" using assms(1) by simp
qed

lemma git_suffix_names: "s = t @ ''.git'' \<Longrightarrow> name_slash_name s \<Longrightarrow> name_slash_name t"
proof -
  assume s: "s = t @ ''.git''" and n: "name_slash_name s"
  obtain owner name where p: "s = owner @ ''/'' @ name" "owner \<noteq> []" "list_all is_name_char owner" "list_all is_name_char name"
    using n unfolding name_slash_name_iff by blast
  have slash: "CHR ''/'' \<in> set t"
  proof (rule ccontr)
    assume "CHR ''/'' \<notin> set t"
    then have "CHR ''/'' \<notin> set s" using s by simp
    then show False using p(1) by simp
  qed
  then obtain u v where uv: "t = u @ ''/'' @ v" "CHR ''/'' \<notin> set u"
    using split_list_first by fastforce
  have no: "CHR ''/'' \<notin> set owner" using p(3) slash_not_name by (auto simp: list_all_iff)
  have "u @ CHR ''/'' # (v @ ''.git'') = owner @ CHR ''/'' # name" using s p(1) uv(1) by simp
  note this = first_occurrence_unique [OF this uv(2) no]
  then have "t = owner @ ''/'' @ v" and "list_all is_name_char v"
    using uv(1) p(4) by auto
  then show ?thesis
    unfolding name_slash_name_iff using p(2,3) by blast
qed

lemma repository_entry_names: "repository_entry line = Some r \<Longrightarrow> name_slash_name r"
proof -
  assume "repository_entry line = Some r"
  then obtain c m where m: "repository_match c = Some m" "r = remove_suffix ''.git'' m"
    by (auto simp: repository_entry_def Let_def split: if_splits option.splits)
  then show ?thesis
    using remove_suffix_cases [of "''.git''" m]
    by (auto intro: repository_match_names git_suffix_names)
qed

definition names_of :: "string list \<Rightarrow> string set" where
  "names_of lines = {r. \<exists>l \<in> set lines. repository_entry l = Some r}"

lemma add_repositories:
  "distinct result \<Longrightarrow> distinct (fold add_repository lines result) \<and>
     set (fold add_repository lines result) = set result \<union> names_of lines"
proof (induction lines arbitrary: result)
  case (Cons l ls)
  have "distinct (add_repository l result)" and "set (add_repository l result) = set result \<union> names_of [l]"
    using Cons.prems by (auto simp: add_repository_def names_of_def split: option.split)
  then show ?case using Cons.IH [of "add_repository l result"] by (auto simp: names_of_def)
qed (simp add: names_of_def)

definition one_line :: "string \<Rightarrow> bool" where
  "one_line l \<longleftrightarrow> list_all (\<lambda>c. \<not> is_line_end c) l"

lemma splitlines_one_line: "list_all one_line (splitlines s)"
  by (induction s rule: splitlines.induct) (auto simp: one_line_def split: list.split)

lemma splitlines_single: "one_line l \<Longrightarrow> splitlines l = (if l = [] then [] else [l])"
  by (induction l rule: splitlines.induct) (auto simp: one_line_def is_line_end_def)

lemma nl_line_end [simp]: "is_line_end CHR 0x0A" "\<not> one_line (CHR 0x0A # s)"
  by (simp_all add: is_line_end_def one_line_def)

lemma splitlines_append:
  assumes "one_line l"
  shows "splitlines (l @ CHR 0x0A # s) = l # splitlines s"
  using assms
proof (induction l)
  case Nil
  show ?case by (cases s) (simp_all add: is_line_end_def)
next
  case (Cons c l)
  then have "\<not> is_line_end c" "c \<noteq> CHR 0x0D" and l: "one_line l" by (auto simp: one_line_def is_line_end_def)
  then show ?case using Cons.IH [OF l] by (cases l) simp_all
qed

lemma splitlines_join: "list_all one_line ls \<Longrightarrow> set (splitlines (py_join nl ls)) \<subseteq> set ls"
proof (induction ls rule: induct_list012)
  case (3 l m ls)
  then show ?case by (auto simp: nl_def splitlines_append)
qed (auto simp: splitlines_single)

lemma visible_step_lines:
  "visible_step line (fence, open_comment, shown) = (f, c, shown') \<Longrightarrow>
     set shown' \<subseteq> insert None (insert (Some line) (set shown))"
  by (auto simp: visible_step_def without_html_comments_def split: option.splits prod.splits if_splits)

lemma visible_lines_from:
  "set (snd (snd (fold visible_step lines (fence, open_comment, shown)))) \<subseteq> insert None (Some ` set lines \<union> set shown)"
proof (induction lines arbitrary: fence open_comment shown)
  case (Cons l ls)
  obtain f c shown' where s: "visible_step l (fence, open_comment, shown) = (f, c, shown')" by (metis prod_cases3)
  show ?case using Cons.IH [of f c shown'] visible_step_lines [OF s] s by auto
qed auto

lemma visible_one_line: "Some l \<in> set (visible_markdown_lines d) \<Longrightarrow> one_line l"
  using visible_lines_from [of "splitlines d" None False "[]"] splitlines_one_line [of d]
  by (auto simp: visible_markdown_lines_def visible_lines_def list_all_iff)

lemma repository_sections_lines:
  "b \<in> set (repository_sections lines) \<Longrightarrow>
     \<exists>ls. b = py_join nl ls \<and> Some ` set ls \<subseteq> set lines"
proof (induction lines)
  case (Cons line lines)
  let ?ls = "map the (takeWhile (\<lambda>l. \<not> section_boundary l) lines)"
  have here: "Some ` set ?ls \<subseteq> set (line # lines)"
    by (auto simp: section_boundary_def split: option.splits dest!: set_takeWhileD)
  have "b = py_join nl ?ls \<or> b \<in> set (repository_sections lines)"
    using Cons.prems by (simp split: if_splits)
  then show ?case
  proof
    assume "b \<in> set (repository_sections lines)"
    then obtain ls where "b = py_join nl ls" and "Some ` set ls \<subseteq> set lines" using Cons.IH by blast
    moreover from this(2) have "Some ` set ls \<subseteq> set (line # lines)" by auto
    ultimately show ?thesis by blast
  qed (use here in blast)
qed simp

lemma section_visible:
  assumes "repository_sections (visible_markdown_lines d) = [body]" and "l \<in> set (splitlines body)"
  shows "Some l \<in> set (visible_markdown_lines d)"
proof -
  obtain ls where b: "body = py_join nl ls" and ls: "Some ` set ls \<subseteq> set (visible_markdown_lines d)"
    using repository_sections_lines [of body "visible_markdown_lines d"] assms(1) by auto
  then have "list_all one_line ls" by (auto simp: list_all_iff intro: visible_one_line)
  then have "l \<in> set ls" using splitlines_join assms(2) b by blast
  then show ?thesis using ls by blast
qed


section \<open>A closed fence is invisible\<close>

lemma inside_fence:
  assumes "list_all (\<lambda>l. \<not> closes_fence f l) body"
  shows "fold visible_step body (Some f, c, shown) = (Some f, c, shown)"
  using assms by (induction body) (auto simp: visible_step_def)

text \<open>
  A fenced block leaves no trace. Where no fence and no comment is open, the opening line, any
  lines that do not close that fence (headings, links, comment marks and fences of the other
  character among them) and the closing line can be deleted without changing what is visible
  before or after them.
\<close>

theorem fenced_text_ignored:
  assumes "fst (visible_lines earlier) = None" and "fst (snd (visible_lines earlier)) = False"
    and "markdown_fence opening = Some (c, n, tail)"
    and "list_all (\<lambda>l. \<not> closes_fence (c, n) l) body" and "closes_fence (c, n) closing"
  shows "visible_lines (earlier @ opening # body @ closing # later) = visible_lines (earlier @ later)"
proof -
  obtain shown where a: "fold visible_step earlier (None, False, []) = (None, False, shown)"
    using assms(1,2) unfolding visible_lines_def by (metis prod.collapse)
  show ?thesis
    using assms(3,5) inside_fence [OF assms(4), of False shown]
    by (simp add: visible_lines_def a) (simp add: visible_step_def)
qed

theorem fenced_text_ignored_witness:
  "visible_lines ([''## Relevant repositories''] @ ''```md'' # [''- acme/hidden'', ''~~~''] @ ''````'' # [''- acme/site'']) =
     visible_lines ([''## Relevant repositories''] @ [''- acme/site'']) \<and>
   closes_fence (backtick, 3) ''````''"
proof
  show "visible_lines ([''## Relevant repositories''] @ ''```md'' # [''- acme/hidden'', ''~~~''] @ ''````'' # [''- acme/site'']) =
     visible_lines ([''## Relevant repositories''] @ [''- acme/site''])"
    by (rule fenced_text_ignored [where c = backtick and n = 3 and tail = "''md''"]) code_simp+
qed code_simp

text \<open>
  The name of a repository is never checked after its suffix is removed: \<^verbatim>\<open>org/.git\<close> is read
  as the repository \<^verbatim>\<open>org/\<close>, which has no name.
\<close>

lemma entry_without_name: "repository_entry ''- org/.git'' = Some ''org/''"
  by code_simp

end
