(* ===== verification/GitHubEvidence.thy ===== *)
theory GitHubEvidence
  imports LifecycleStore Actions Envelope
begin

text \<open>
  The evidence of a pull request: the models of \<^verbatim>\<open>src/planning_platform/github_models.py\<close>
  and, of \<^verbatim>\<open>src/planning_platform/github_adapter.py\<close>, the request functions, the decoding of
  a pull request and \<^verbatim>\<open>pull_request_evidence\<close> with its bounded pagination. GitHub itself is a
  parameter (\<open>github\<close>): the installation token, one HTTP exchange, the integers pydantic accepts
  for a field of type \<^verbatim>\<open>int\<close>, the instants ISO 8601 texts name (\<open>Some None\<close> without a time zone)
  and the two digests.
\<close>

section \<open>Models\<close>

record github_pull =
  gp_repository :: string
  gp_number :: int
  gp_url :: string
  gp_head_sha :: string
  gp_state :: string
  gp_merged :: bool
  gp_merge_commit :: "string option"

record check_evidence =
  ce_id :: int
  ce_name :: string
  ce_head_sha :: string
  ce_app_id :: int
  ce_app_slug :: string
  ce_status :: string
  ce_conclusion :: "string option"
  ce_details_url :: "string option"

record review_evidence =
  rv_id :: int
  rv_actor_id :: int
  rv_login :: string
  rv_state :: string
  rv_submitted_at :: int
  rv_commit_sha :: string

record pull_request_evidence =
  pe_repository :: string
  pe_number :: int
  pe_head_sha :: string
  pe_pr_state :: string
  pe_merged :: bool
  pe_merge_commit :: "string option"
  pe_reviews :: "review_evidence list"
  pe_checks :: "check_evidence list"

text \<open>The property \<^verbatim>\<open>approvals\<close>.\<close>

definition approvals :: "pull_request_evidence \<Rightarrow> nat" where
  "approvals ev = length (filter (\<lambda>r. rv_state r = ''APPROVED'' \<and> rv_commit_sha r = pe_head_sha ev) (pe_reviews ev))"

definition check_succeeded :: "check_evidence \<Rightarrow> bool" where
  "check_succeeded c \<longleftrightarrow> ce_status c = ''completed'' \<and> ce_conclusion c = Some ''success''"

definition trusted_check :: "string \<Rightarrow> pull_request_evidence \<Rightarrow> check_evidence \<Rightarrow> bool" where
  "trusted_check app ev c \<longleftrightarrow> ce_app_slug c = app \<and> ce_head_sha c = pe_head_sha ev"

definition required_checks_pass :: "string list \<Rightarrow> string \<Rightarrow> pull_request_evidence \<Rightarrow> bool" where
  "required_checks_pass required app ev =
     (let grouped = group_pairs (map (\<lambda>c. (ce_name c, c)) (filter (trusted_check app ev) (pe_checks ev))) in
      list_all (\<lambda>name. case dict_get grouped name of
          None \<Rightarrow> False
        | Some cs \<Rightarrow> cs \<noteq> [] \<and> list_all check_succeeded cs) required)"

section \<open>Requests\<close>

record http_reply =
  rp_status :: int
  rp_json :: "pyval option"

record 'w github =
  gh_token :: "('w, string) action"
  gh_http :: "string \<Rightarrow> string \<Rightarrow> string \<Rightarrow> pyval option \<Rightarrow> ('w, http_reply) action"
  gh_int :: "pyval \<Rightarrow> int option"
  gh_instant :: "string \<Rightarrow> int option option"
  gh_sha1 :: "string \<Rightarrow> string"
  gh_sha256 :: "string \<Rightarrow> string"

text \<open>A JSON null decodes to \<^verbatim>\<open>None\<close>, as a missing resource does.\<close>

definition request_or_none ::
  "'w github \<Rightarrow> string \<Rightarrow> string \<Rightarrow> pyval option \<Rightarrow> ('w, pyval option) action" where
  "request_or_none gh verb path body =
     act_bind (gh_token gh) (\<lambda>token.
     act_bind (gh_http gh verb path token body) (\<lambda>reply.
     if rp_status reply = 404 then act_return None
     else if rp_status reply < 200 \<or> 300 \<le> rp_status reply
     then act_raise (GitHubAdapterError (''GitHub API request failed with status '' @ show_int (rp_status reply)))
     else case rp_json reply of
       None \<Rightarrow> act_raise (GitHubAdapterError ''GitHub API response is not JSON'')
     | Some PNone \<Rightarrow> act_return None
     | Some v \<Rightarrow> act_return (Some v)))"

definition request :: "'w github \<Rightarrow> string \<Rightarrow> string \<Rightarrow> pyval option \<Rightarrow> ('w, pyval) action" where
  "request gh verb path body =
     act_bind (request_or_none gh verb path body) (\<lambda>result.
     case result of
       None \<Rightarrow> act_raise (GitHubAdapterError ''GitHub resource was not found'')
     | Some v \<Rightarrow> act_return v)"

definition github_get :: "'w github \<Rightarrow> string \<Rightarrow> ('w, pyval) action" where
  "github_get gh path = request gh ''GET'' path None"

text \<open>\<^verbatim>\<open>value.get(key)\<close> on a decoded object.\<close>

definition obj_get :: "pydict \<Rightarrow> string \<Rightarrow> pyval" where
  "obj_get d key = (case dict_get d key of None \<Rightarrow> PNone | Some v \<Rightarrow> v)"

text \<open>The isinstance tests of the code, and a field of type \<^verbatim>\<open>str | None\<close>.\<close>

fun as_int :: "pyval \<Rightarrow> int option" where "as_int (PInt n) = Some n" | "as_int _ = None"
fun as_str :: "pyval \<Rightarrow> string option" where "as_str (PStr s) = Some s" | "as_str _ = None"
fun as_dict :: "pyval \<Rightarrow> pydict option" where "as_dict (PDict d) = Some d" | "as_dict _ = None"
fun as_list :: "pyval \<Rightarrow> pyval list option" where "as_list (PList vs) = Some vs" | "as_list _ = None"

definition opt_str_field :: "(string \<Rightarrow> bool) \<Rightarrow> pyval \<Rightarrow> string option option" where
  "opt_str_field p v = (if v = PNone then Some None
     else case as_str v of None \<Rightarrow> None | Some s \<Rightarrow> if p s then Some (Some s) else None)"

definition need :: "exn \<Rightarrow> 'a option \<Rightarrow> exn + 'a" where
  "need e v = (case v of None \<Rightarrow> Inl e | Some x \<Rightarrow> Inr x)"

lemma need_simps [res_simps]: "need e v = Inr x \<longleftrightarrow> v = Some x" "need e v = Inl e' \<longleftrightarrow> v = None \<and> e' = e"
  by (auto simp: need_def split: option.split)

lemma need_apply [simp]: "need e (Some x) = Inr x" "need e None = Inl e"
  by (simp_all add: need_def)

section \<open>Pull requests\<close>

text \<open>\<^verbatim>\<open>_pull_request\<close>: a missing key and a refused field raise the same error.\<close>

definition pull_merged :: "pydict \<Rightarrow> bool" where
  "pull_merged v = py_truthy (Some (case dict_get v ''merged'' of Some m \<Rightarrow> m | None \<Rightarrow> PBool (obj_get v ''merged_at'' \<noteq> PNone)))"

definition decode_pull :: "(pyval \<Rightarrow> int option) \<Rightarrow> string \<Rightarrow> pyval \<Rightarrow> exn + github_pull" where
  "decode_pull int_of repository value =
     (let invalid = GitHubAdapterError ''GitHub pull request fields are invalid'' in
      res_bind (need (GitHubAdapterError ''GitHub pull request response is malformed'') (as_dict value)) (\<lambda>v.
      res_bind (need (GitHubAdapterError ''GitHub pull request has no head'') (as_dict (obj_get v ''head''))) (\<lambda>head.
      res_bind (need invalid (Option.bind (dict_get v ''number'') int_of)) (\<lambda>number.
      res_bind (need invalid (as_str (obj_get v ''html_url''))) (\<lambda>url.
      res_bind (need invalid (as_str (obj_get head ''sha''))) (\<lambda>sha.
      res_bind (need invalid (as_str (obj_get v ''state''))) (\<lambda>state.
      res_bind (need invalid (opt_str_field (hex_of_length 40) (obj_get v ''merge_commit_sha''))) (\<lambda>merge.
      res_bind (raise_if (\<not> (is_repository_name repository \<and> 1 \<le> number \<and> is_prefix_of ''https://'' url \<and>
          hex_of_length 40 sha \<and> state \<in> {''open'', ''closed''})) invalid) (\<lambda>_.
      Inr \<lparr>gp_repository = repository, gp_number = number, gp_url = url, gp_head_sha = sha, gp_state = state,
        gp_merged = pull_merged v, gp_merge_commit = merge\<rparr>)))))))))"

section \<open>Pages\<close>

definition malformed_reviews :: exn where
  "malformed_reviews = GitHubAdapterError ''GitHub review evidence is malformed''"

definition malformed_checks :: exn where
  "malformed_checks = GitHubAdapterError ''GitHub check evidence is malformed''"

definition repo_path :: "string \<Rightarrow> string \<Rightarrow> string" where
  "repo_path repository rest = ''/repos/'' @ repository @ rest"

text \<open>\<^verbatim>\<open>for page in range(1, 11) ... else raise\<close>: \<open>left\<close> counts the pages that remain.\<close>

fun review_pages :: "'w github \<Rightarrow> string \<Rightarrow> int \<Rightarrow> nat \<Rightarrow> int \<Rightarrow> pyval list \<Rightarrow> ('w, pyval list) action" where
  "review_pages gh repository number 0 page reviews =
     act_raise (GitHubAdapterError ''GitHub review evidence exceeds the bounded pagination limit'')"
| "review_pages gh repository number (Suc left) page reviews =
     act_bind (github_get gh (repo_path repository
         (''/pulls/'' @ show_int number @ ''/reviews?per_page=100&page='' @ show_int page))) (\<lambda>value.
     case as_list value of
       Some vs \<Rightarrow>
         if length vs < 100 then act_return (reviews @ vs)
         else review_pages gh repository number left (page + 1) (reviews @ vs)
     | None \<Rightarrow> act_raise malformed_reviews)"

fun check_pages ::
  "'w github \<Rightarrow> string \<Rightarrow> string \<Rightarrow> nat \<Rightarrow> int \<Rightarrow> int option \<Rightarrow> pyval list \<Rightarrow> ('w, int option \<times> pyval list) action" where
  "check_pages gh repository head 0 page known values =
     act_raise (GitHubAdapterError ''GitHub check evidence exceeds the bounded pagination limit'')"
| "check_pages gh repository head (Suc left) page known values =
     act_bind (github_get gh (repo_path repository
         (''/commits/'' @ head @ ''/check-runs?filter=latest&per_page=100&page='' @ show_int page))) (\<lambda>checks.
     case (Option.bind (as_dict checks) (\<lambda>d. as_list (obj_get d ''check_runs'')),
           Option.bind (as_dict checks) (\<lambda>d. as_int (obj_get d ''total_count''))) of
       (Some vs, Some n) \<Rightarrow>
         if n < 0 then act_raise malformed_checks
         else if known \<noteq> None \<and> known \<noteq> Some n
         then act_raise (GitHubAdapterError ''GitHub check evidence changed during pagination'')
         else if length vs < 100 then act_return (Some n, values @ vs)
         else check_pages gh repository head left (page + 1) (Some n) (values @ vs)
     | _ \<Rightarrow> act_raise malformed_checks)"

section \<open>Reviews\<close>

text \<open>Membership in a set of strings raises on a value Python cannot hash.\<close>

fun unhashable :: "pyval \<Rightarrow> bool" where
  "unhashable (PList vs) = True"
| "unhashable (PDict kvs) = True"
| "unhashable v = False"

type_synonym review_order = "int \<times> int \<times> nat"

text \<open>
  One review of the loop: \<open>None\<close> where the code goes on to the next one (a bot, a pending review,
  a mere comment), else its place in the order and the evidence.
\<close>

definition decode_review ::
  "(string \<Rightarrow> int option option) \<Rightarrow> nat \<Rightarrow> pyval \<Rightarrow> exn + (review_order \<times> review_evidence) option" where
  "decode_review instant index review =
     res_bind (need malformed_reviews (as_dict review)) (\<lambda>r.
     res_bind (need malformed_reviews (as_dict (obj_get r ''user''))) (\<lambda>user.
     if obj_get user ''type'' \<noteq> PStr ''User'' then Inr None
     else if unhashable (obj_get r ''state'') then Inl (TypeError ''unhashable type'')
     else if obj_get r ''state'' \<in> {PStr ''PENDING'', PStr ''COMMENTED''} then Inr None
     else
       res_bind (need malformed_reviews (as_int (obj_get user ''id''))) (\<lambda>actor.
       res_bind (need malformed_reviews (as_int (obj_get r ''id''))) (\<lambda>n.
       res_bind (need malformed_reviews (as_str (obj_get user ''login''))) (\<lambda>login.
       res_bind (need malformed_reviews (as_str (obj_get r ''submitted_at''))) (\<lambda>submitted.
       res_bind (need malformed_reviews (as_str (obj_get r ''state''))) (\<lambda>state.
       res_bind (need malformed_reviews (as_str (obj_get r ''commit_id''))) (\<lambda>sha.
       res_bind (raise_if (state \<notin> {''APPROVED'', ''CHANGES_REQUESTED'', ''DISMISSED''}) malformed_reviews) (\<lambda>_.
       res_bind (need malformed_reviews (instant submitted)) (\<lambda>at.
       res_bind (raise_if (\<not> (1 \<le> n \<and> 1 \<le> actor \<and> login \<noteq> [] \<and> hex_of_length 40 sha)) malformed_reviews) (\<lambda>_.
       res_bind (need (GitHubAdapterError ''GitHub review evidence timestamp has no timezone'') at) (\<lambda>t.
       Inr (Some ((t, n, index), \<lparr>rv_id = n, rv_actor_id = actor, rv_login = login, rv_state = state,
         rv_submitted_at = t, rv_commit_sha = sha\<rparr>))))))))))))))"

type_synonym review_table = "(int, review_order \<times> review_evidence) dict"

definition keep_latest :: "review_order \<times> review_evidence \<Rightarrow> review_table \<Rightarrow> review_table" where
  "keep_latest entry table =
     (case dict_get table (rv_actor_id (snd entry)) of
        None \<Rightarrow> dict_set (rv_actor_id (snd entry)) entry table
      | Some current \<Rightarrow>
          if fst current < fst entry then dict_set (rv_actor_id (snd entry)) entry table else table)"

fun latest_reviews ::
  "(string \<Rightarrow> int option option) \<Rightarrow> nat \<Rightarrow> pyval list \<Rightarrow> review_table \<Rightarrow> exn + review_table" where
  "latest_reviews instant index [] table = Inr table"
| "latest_reviews instant index (r # rs) table =
     res_bind (decode_review instant index r) (\<lambda>entry.
     latest_reviews instant (Suc index) rs (case entry of None \<Rightarrow> table | Some e \<Rightarrow> keep_latest e table))"

definition evidence_reviews :: "(string \<Rightarrow> int option option) \<Rightarrow> pyval list \<Rightarrow> exn + review_evidence list" where
  "evidence_reviews instant reviews =
     res_bind (latest_reviews instant 0 reviews []) (\<lambda>table. Inr (map (\<lambda>(k, e). snd e) table))"

section \<open>Checks\<close>

definition decode_check :: "pyval \<Rightarrow> exn + check_evidence" where
  "decode_check entry =
     res_bind (need malformed_checks (as_dict entry)) (\<lambda>c.
     res_bind (need malformed_checks (as_dict (obj_get c ''app''))) (\<lambda>app.
     res_bind (need malformed_checks (as_int (obj_get c ''id''))) (\<lambda>n.
     res_bind (need malformed_checks (as_str (obj_get c ''name''))) (\<lambda>name.
     res_bind (need malformed_checks (as_str (obj_get c ''head_sha''))) (\<lambda>head.
     res_bind (need malformed_checks (as_int (obj_get app ''id''))) (\<lambda>app_id.
     res_bind (need malformed_checks (as_str (obj_get app ''slug''))) (\<lambda>slug.
     res_bind (raise_if (unhashable (obj_get c ''status'')) (TypeError ''unhashable type'')) (\<lambda>_.
     res_bind (need malformed_checks (as_str (obj_get c ''status''))) (\<lambda>status.
     res_bind (need malformed_checks (opt_str_field (\<lambda>_. True) (obj_get c ''conclusion''))) (\<lambda>conclusion.
     res_bind (need malformed_checks (opt_str_field (\<lambda>_. True) (obj_get c ''details_url''))) (\<lambda>url.
     res_bind (raise_if (\<not> (status \<in> {''queued'', ''in_progress'', ''completed''} \<and> 1 \<le> n \<and> name \<noteq> [] \<and>
         hex_of_length 40 head \<and> 1 \<le> app_id \<and> slug \<noteq> [])) malformed_checks) (\<lambda>_.
     Inr \<lparr>ce_id = n, ce_name = name, ce_head_sha = head, ce_app_id = app_id, ce_app_slug = slug,
       ce_status = status, ce_conclusion = conclusion, ce_details_url = url\<rparr>))))))))))))"

section \<open>The evidence of a pull request\<close>

definition pull_request_evidence ::
  "'w github \<Rightarrow> string \<Rightarrow> int \<Rightarrow> string option \<Rightarrow> ('w, pull_request_evidence) action" where
  "pull_request_evidence gh repository number expected =
     act_bind (github_get gh (repo_path repository (''/pulls/'' @ show_int number))) (\<lambda>value.
     act_bind (act_lift (decode_pull (gh_int gh) repository value)) (\<lambda>pull.
     act_bind (act_lift (raise_if (expected \<noteq> None \<and> expected \<noteq> Some (gp_head_sha pull))
       (GitHubAdapterError ''pull request evidence is stale for the expected commit''))) (\<lambda>_.
     act_bind (review_pages gh repository number 10 1 []) (\<lambda>reviews.
     act_bind (check_pages gh repository (gp_head_sha pull) 10 1 None []) (\<lambda>(known, values).
     act_bind (act_lift (raise_if (known \<noteq> Some (int (length values)))
       (GitHubAdapterError ''GitHub check evidence is incomplete''))) (\<lambda>_.
     act_bind (act_lift (evidence_reviews (gh_instant gh) reviews)) (\<lambda>latest.
     act_bind (act_lift (res_map decode_check values)) (\<lambda>checks.
     act_lift
       (if 1 \<le> number
        then Inr \<lparr>pe_repository = repository, pe_number = number, pe_head_sha = gp_head_sha pull, pe_pr_state = gp_state pull,
               pe_merged = gp_merged pull, pe_merge_commit = gp_merge_commit pull, pe_reviews = latest, pe_checks = checks\<rparr>
        else Inl (ValueError ''pull request evidence is invalid''))))))))))"

section \<open>One vote per person\<close>

text \<open>The reviews that count, with their place in the order.\<close>

fun decisive :: "(string \<Rightarrow> int option option) \<Rightarrow> nat \<Rightarrow> pyval list \<Rightarrow> (review_order \<times> review_evidence) list" where
  "decisive instant index [] = []"
| "decisive instant index (r # rs) =
     (case decode_review instant index r of
        Inr (Some e) \<Rightarrow> e # decisive instant (Suc index) rs
      | _ \<Rightarrow> decisive instant (Suc index) rs)"

text \<open>The greatest entries of their voter; a map that holds them.\<close>

definition is_latest :: "('e \<Rightarrow> 'k) \<Rightarrow> ('e \<Rightarrow> 'o::linorder) \<Rightarrow> 'e set \<Rightarrow> 'e \<Rightarrow> bool" where
  "is_latest voter rank seen e \<longleftrightarrow> e \<in> seen \<and> (\<forall>e' \<in> seen. voter e' = voter e \<longrightarrow> rank e' \<le> rank e)"

definition holds_latest :: "('e \<Rightarrow> 'k) \<Rightarrow> ('e \<Rightarrow> 'o::linorder) \<Rightarrow> 'e set \<Rightarrow> ('k \<Rightarrow> 'e option) \<Rightarrow> bool" where
  "holds_latest voter rank seen m \<longleftrightarrow>
     (\<forall>k e. m k = Some e \<longrightarrow> is_latest voter rank seen e \<and> voter e = k) \<and> (\<forall>e \<in> seen. m (voter e) \<noteq> None)"

lemma holds_latest_first:
  assumes "holds_latest voter rank seen m" and "m (voter x) = None"
  shows "holds_latest voter rank (insert x seen) (m(voter x \<mapsto> x))"
  using assms by (auto simp: holds_latest_def is_latest_def)

lemma holds_latest_replace:
  assumes "holds_latest voter rank seen m" and "m (voter x) = Some c" and "rank c < rank x"
  shows "holds_latest voter rank (insert x seen) (m(voter x \<mapsto> x))"
  using assms by (fastforce simp: holds_latest_def is_latest_def)

lemma holds_latest_keep:
  assumes "holds_latest voter rank seen m" and "m (voter x) = Some c" and "\<not> rank c < rank x"
  shows "holds_latest voter rank (insert x seen) m"
  using assms by (auto simp: holds_latest_def is_latest_def)

lemma holds_latest_ran:
  assumes "holds_latest voter rank seen m" and "inj_on rank seen"
  shows "ran m = {e. is_latest voter rank seen e}"
proof (rule set_eqI)
  fix e
  show "e \<in> ran m \<longleftrightarrow> e \<in> {e. is_latest voter rank seen e}"
  proof
    assume "e \<in> {e. is_latest voter rank seen e}"
    then have e: "is_latest voter rank seen e" by simp
    then obtain c where c: "m (voter e) = Some c" using assms(1) by (auto simp: holds_latest_def is_latest_def)
    then have "is_latest voter rank seen c" "voter c = voter e" using assms(1) by (auto simp: holds_latest_def)
    with e have "rank c = rank e" "c \<in> seen" "e \<in> seen" by (auto simp: is_latest_def intro: order_antisym)
    then have "c = e" using assms(2) by (auto dest: inj_onD)
    then show "e \<in> ran m" using c by (auto simp: ran_def)
  qed (use assms(1) in \<open>auto simp: holds_latest_def ran_def\<close>)
qed

abbreviation reviewer :: "review_order \<times> review_evidence \<Rightarrow> int" where
  "reviewer e \<equiv> rv_actor_id (snd e)"

lemma keep_latest_holds:
  assumes "holds_latest reviewer fst seen (dict_get table)"
  shows "holds_latest reviewer fst (insert x seen) (dict_get (keep_latest x table))"
proof (cases "dict_get table (reviewer x)")
  case None
  then show ?thesis using holds_latest_first [OF assms None] by (simp add: keep_latest_def dict_simps fun_upd_def)
next
  case (Some c)
  then show ?thesis
    using holds_latest_replace [OF assms Some] holds_latest_keep [OF assms Some]
    by (simp add: keep_latest_def dict_simps fun_upd_def)
qed

lemma keep_latest_distinct: "distinct (dict_keys table) \<Longrightarrow> distinct (dict_keys (keep_latest x table))"
  by (auto simp: keep_latest_def intro: distinct_dict_set split: option.split)

lemma empty_holds: "holds_latest voter rank {} (dict_get [])"
  by (simp add: holds_latest_def)

lemma latest_reviews_holds:
  assumes "latest_reviews instant index rs table = Inr result"
    and "holds_latest reviewer fst seen (dict_get table)" and "distinct (dict_keys table)"
  shows "holds_latest reviewer fst (seen \<union> set (decisive instant index rs)) (dict_get result) \<and> distinct (dict_keys result)"
  using assms
proof (induction rs arbitrary: index table seen)
  case Nil
  then show ?case by simp
next
  case (Cons r rs)
  from Cons.prems(1) obtain entry where d: "decode_review instant index r = Inr entry"
    and rest: "latest_reviews instant (Suc index) rs (case entry of None \<Rightarrow> table | Some e \<Rightarrow> keep_latest e table) = Inr result"
    by (auto simp: res_simps)
  show ?case
  proof (cases entry)
    case None
    with Cons.IH [OF rest] Cons.prems(2,3) d show ?thesis by simp
  next
    case (Some e)
    with Cons.IH [OF rest, of "insert e seen"] keep_latest_holds [OF Cons.prems(2)] keep_latest_distinct [OF Cons.prems(3)] d
    show ?thesis by simp
  qed
qed

lemma decode_review_position: "decode_review instant index r = Inr (Some e) \<Longrightarrow> snd (snd (fst e)) = index"
  by (auto simp: decode_review_def res_simps split: if_splits)

lemma decisive_positions:
  "e \<in> set (decisive instant index rs) \<Longrightarrow> index \<le> snd (snd (fst e))"
proof (induction rs arbitrary: index)
  case (Cons r rs)
  then show ?case
    using Cons.IH [of "Suc index"]
    by (auto split: sum.splits option.splits dest: decode_review_position Suc_leD)
qed simp

lemma decisive_order: "inj_on fst (set (decisive instant index rs))"
proof (induction rs arbitrary: index)
  case (Cons r rs)
  note IH = Cons.IH [of "Suc index"]
  have late: "Suc index \<le> snd (snd (fst e))" if "e \<in> set (decisive instant (Suc index) rs)" for e
    using decisive_positions [OF that] .
  show ?case
  proof (cases "decode_review instant index r")
    case (Inr entry)
    show ?thesis
    proof (cases entry)
      case (Some e)
      then have "snd (snd (fst e)) = index" using Inr decode_review_position by blast
      then have "fst e \<noteq> fst x" if "x \<in> set (decisive instant (Suc index) rs)" for x
        using late [OF that] by auto
      with IH Some Inr show ?thesis by (fastforce simp: inj_on_insert)
    qed (use IH Inr in simp)
  qed (use IH in simp)
qed simp

text \<open>
  C11: One vote per person. The reviews of the evidence are, for each human reviewer, exactly the
  last decisive one (approval, change request or dismissal) in the order of submission, then of
  identifier, then of position: nobody is counted twice, a later change request replaces an
  approval, and neither a bot nor a comment counts.
\<close>

theorem latest_review_per_user:
  assumes "evidence_reviews instant reviews = Inr latest"
  shows "distinct (map rv_actor_id latest) \<and>
    set latest = snd ` {e. is_latest reviewer fst (set (decisive instant 0 reviews)) e}"
proof -
  obtain table where t: "latest_reviews instant 0 reviews [] = Inr table" and l: "latest = map (\<lambda>p. snd (snd p)) table"
    using assms by (auto simp: evidence_reviews_def res_simps case_prod_beta')
  have ok: "holds_latest reviewer fst (set (decisive instant 0 reviews)) (dict_get table)" and d: "distinct (dict_keys table)"
    using latest_reviews_holds [OF t empty_holds] by simp_all
  have entries: "ran (dict_get table) = snd ` set table"
    using d by (force simp: ran_def image_iff)
  have "reviewer (snd p) = fst p" if "p \<in> set table" for p
  proof -
    have "dict_get table (fst p) = Some (snd p)" using d that by simp
    then show ?thesis using ok unfolding holds_latest_def by blast
  qed
  then have "map rv_actor_id latest = dict_keys table" by (simp add: l)
  moreover have "set latest = snd ` ran (dict_get table)" by (simp add: l entries image_image)
  ultimately show ?thesis
    using d holds_latest_ran [OF ok decisive_order] by simp
qed

section \<open>Required checks\<close>

text \<open>
  C12: The required checks pass exactly when every required name has a check run of the trusted app
  at the head commit, and all its runs there are completed successfully: a run of another app, of an
  older commit or one that is still queued never helps, and one failed run is enough to refuse.
\<close>

theorem required_checks_exact:
  "required_checks_pass required app ev \<longleftrightarrow>
     list_all (\<lambda>name. let runs = filter (\<lambda>c. ce_name c = name \<and> ce_app_slug c = app \<and> ce_head_sha c = pe_head_sha ev) (pe_checks ev)
       in runs \<noteq> [] \<and> list_all (\<lambda>c. ce_status c = ''completed'' \<and> ce_conclusion c = Some ''success'') runs) required"
proof -
  have runs: "map snd (filter (\<lambda>p. fst p = name) (map (\<lambda>c. (ce_name c, c)) (filter (trusted_check app ev) (pe_checks ev)))) =
      filter (\<lambda>c. ce_name c = name \<and> ce_app_slug c = app \<and> ce_head_sha c = pe_head_sha ev) (pe_checks ev)" for name
    by (induction "pe_checks ev" rule: list.induct) (auto simp: filter_map comp_def conj_commute trusted_check_def)
  show ?thesis
    unfolding required_checks_pass_def Let_def group_pairs_get runs
    by (auto simp: list_all_iff check_succeeded_def)
qed

section \<open>What the evidence was read from\<close>

lemma act_bind_Inr: "act_bind m f s = (Inr x, s') \<longleftrightarrow> (\<exists>y t. m s = (Inr y, t) \<and> f y t = (Inr x, s'))"
  by (auto simp: act_bind_def split: prod.split sum.split)

lemma act_lift_Inr: "act_lift r s = (Inr x, s') \<longleftrightarrow> r = Inr x \<and> s' = s"
  by (auto simp: act_lift_def)

lemma act_return_Inr: "act_return r s = (Inr x, s') \<longleftrightarrow> r = x \<and> s' = s"
  by (auto simp: act_return_def)

lemma act_raise_Inr [simp]: "\<not> (act_raise e s = (Inr x, s'))"
  by (simp add: act_raise_def)

lemmas act_Inr = act_bind_Inr act_lift_Inr act_return_Inr

lemma decode_pull_sound:
  assumes "decode_pull int_of repository value = Inr p"
  shows "gp_repository p = repository \<and> hex_of_length 40 (gp_head_sha p) \<and> gp_state p \<in> {''open'', ''closed''} \<and>
    optionally (hex_of_length 40) (gp_merge_commit p)"
  using assms
  by (auto simp: decode_pull_def Let_def res_simps opt_str_field_def optionally_def split: if_splits option.splits)

lemma pull_request_evidence_sound:
  assumes "pull_request_evidence gh repository number expected w = (Inr ev, w')"
  shows "(expected = None \<or> expected = Some (pe_head_sha ev)) \<and> hex_of_length 40 (pe_head_sha ev) \<and>
    pe_repository ev = repository \<and> pe_number ev = number \<and> optionally (hex_of_length 40) (pe_merge_commit ev) \<and>
    pe_pr_state ev \<in> {''open'', ''closed''}"
  using assms
  by (auto simp: pull_request_evidence_def act_Inr res_simps split: if_splits dest!: decode_pull_sound)

section \<open>Witness\<close>

text \<open>A person approves and later asks for changes; a bot approves and is ignored.\<close>

definition ex_instant :: "string \<Rightarrow> int option option" where
  "ex_instant text = Some (Some (int (length text)))"

definition ex_commit_sha :: string where
  "ex_commit_sha = replicate 40 CHR ''a''"

definition ex_raw_review :: "int \<Rightarrow> string \<Rightarrow> int \<Rightarrow> string \<Rightarrow> string \<Rightarrow> pyval" where
  "ex_raw_review actor kind n state at = PDict
     [(''id'', PInt n), (''user'', PDict [(''id'', PInt actor), (''login'', PStr ''someone''), (''type'', PStr kind)]),
      (''state'', PStr state), (''submitted_at'', PStr at), (''commit_id'', PStr ex_commit_sha)]"

definition ex_reviews :: "pyval list" where
  "ex_reviews = [ex_raw_review 5 ''User'' 11 ''APPROVED'' ''t'', ex_raw_review 5 ''User'' 12 ''CHANGES_REQUESTED'' ''tt'',
     ex_raw_review 9 ''Bot'' 13 ''APPROVED'' ''ttt'']"

definition ex_vote :: review_evidence where
  "ex_vote = \<lparr>rv_id = 12, rv_actor_id = 5, rv_login = ''someone'', rv_state = ''CHANGES_REQUESTED'', rv_submitted_at = 2,
     rv_commit_sha = ex_commit_sha\<rparr>"

lemma latest_review_per_user_witness:
  "distinct (map rv_actor_id [ex_vote]) \<and>
   set [ex_vote] = snd ` {e. is_latest reviewer fst (set (decisive ex_instant 0 ex_reviews)) e}"
proof -
  have "evidence_reviews ex_instant ex_reviews = Inr [ex_vote]" by code_simp
  from latest_review_per_user [OF this] show ?thesis .
qed

end
