(* ===== verification/GitHubArtifacts.thy ===== *)
theory GitHubArtifacts
  imports GitHubEvidence Commands
begin

text \<open>
  Artifacts of \<^verbatim>\<open>src/planning_platform/github_adapter.py\<close>: reading one file bound to a
  commit, a blob and a digest, snapshots of several files within a byte bound, the choice of the
  planning context, and the planning commit, branch and pull request. Bytes are lists of
  characters; base64 (strict, as with \<^verbatim>\<open>validate=True\<close>) and UTF-8 are written out.
\<close>

section \<open>Base64 and UTF-8\<close>

definition b64_char :: "nat \<Rightarrow> char" where
  "b64_char n = char_of
     (if n < 26 then 65 + n else if n < 52 then 71 + n else if n < 62 then n - 4 else if n = 62 then 43 else 47)"

definition b64_value :: "char \<Rightarrow> nat option" where
  "b64_value c = (let n = of_char c :: nat in
     if 65 \<le> n \<and> n \<le> 90 then Some (n - 65) else if 97 \<le> n \<and> n \<le> 122 then Some (n - 71)
     else if 48 \<le> n \<and> n \<le> 57 then Some (n + 4) else if n = 43 then Some 62 else if n = 47 then Some 63 else None)"

definition pad :: char where "pad = CHR 0x3D"

fun b64encode :: "string \<Rightarrow> string" where
  "b64encode [] = []"
| "b64encode [a] = (let m = of_char a :: nat in [b64_char (m div 4), b64_char (m mod 4 * 16), pad, pad])"
| "b64encode [a, b] = (let m = of_char a :: nat; n = of_char b in
     [b64_char (m div 4), b64_char (m mod 4 * 16 + n div 16), b64_char (n mod 16 * 4), pad])"
| "b64encode (a # b # c # s) = (let m = of_char a :: nat; n = of_char b; k = of_char c in
     b64_char (m div 4) # b64_char (m mod 4 * 16 + n div 16) # b64_char (n mod 16 * 4 + k div 64) #
     b64_char (k mod 64) # b64encode s)"

fun b64decode :: "string \<Rightarrow> string option" where
  "b64decode [] = Some []"
| "b64decode (p # q # r # s # rest) =
     (case (b64_value p, b64_value q) of
        (Some a, Some b) \<Rightarrow>
          if rest = [] \<and> r = pad \<and> s = pad then Some [char_of (a * 4 + b div 16)]
          else (case b64_value r of
              None \<Rightarrow> None
            | Some c \<Rightarrow>
                if rest = [] \<and> s = pad then Some [char_of (a * 4 + b div 16), char_of (b mod 16 * 16 + c div 4)]
                else (case b64_value s of
                    None \<Rightarrow> None
                  | Some d \<Rightarrow> map_option (\<lambda>t. char_of (a * 4 + b div 16) # char_of (b mod 16 * 16 + c div 4) #
                      char_of (c mod 4 * 64 + d) # t) (b64decode rest)))
      | _ \<Rightarrow> None)"
| "b64decode s = None"

definition is_continuation :: "char \<Rightarrow> bool" where
  "is_continuation c \<longleftrightarrow> (let n = of_char c :: nat in 128 \<le> n \<and> n \<le> 191)"

text \<open>The range of the second byte after a leading byte of three or four.\<close>

definition second_byte :: "nat \<Rightarrow> char \<Rightarrow> bool" where
  "second_byte lead c \<longleftrightarrow> (let n = of_char c :: nat in
     (if lead = 224 then 160 else if lead = 240 then 144 else 128) \<le> n \<and>
     n \<le> (if lead = 237 then 159 else if lead = 244 then 143 else 191))"

fun utf8_valid :: "string \<Rightarrow> bool" where
  "utf8_valid [] = True"
| "utf8_valid (a # s) =
     (let n = of_char a :: nat in
      if n < 128 then utf8_valid s
      else if 194 \<le> n \<and> n \<le> 223 then (case s of b # t \<Rightarrow> is_continuation b \<and> utf8_valid t | _ \<Rightarrow> False)
      else if 224 \<le> n \<and> n \<le> 239 then
        (case s of b # c # t \<Rightarrow> second_byte n b \<and> is_continuation c \<and> utf8_valid t | _ \<Rightarrow> False)
      else if 240 \<le> n \<and> n \<le> 244 then
        (case s of b # c # d # t \<Rightarrow> second_byte n b \<and> is_continuation c \<and> is_continuation d \<and> utf8_valid t | _ \<Rightarrow> False)
      else False)"

definition utf8_length :: "string \<Rightarrow> nat" where
  "utf8_length s = length (filter (\<lambda>c. \<not> is_continuation c) s)"

section \<open>Paths\<close>

text \<open>\<^verbatim>\<open>PurePosixPath(value)\<close>: its root, its other parts and its text.\<close>

definition posix_root :: "string \<Rightarrow> string" where
  "posix_root value = (let n = length (takeWhile (\<lambda>c. c = slash) value) in
     if n = 0 then [] else if n = 2 then ''//'' else ''/'')"

definition posix_parts :: "string \<Rightarrow> string list" where
  "posix_parts value = filter (\<lambda>p. p \<noteq> [] \<and> p \<noteq> ''.'') (split_at (\<lambda>c. c = slash) value)"

definition posix_text :: "string \<Rightarrow> string" where
  "posix_text value = (let text = posix_root value @ py_join ''/'' (posix_parts value) in if text = [] then ''.'' else text)"

definition posix_name :: "string \<Rightarrow> string" where
  "posix_name value = (if posix_parts value = [] then [] else last (posix_parts value))"

definition artifact_path :: "string \<Rightarrow> exn + string" where
  "artifact_path value =
     (if value = [] \<or> 512 < length value \<or> posix_root value \<noteq> [] \<or> posix_text value \<noteq> value \<or>
         list_ex (\<lambda>p. p \<in> {[], ''.'', ''..''}) (posix_parts value)
      then Inl (ValueError ''planning artifact path must be canonical and repository-relative'') else Inr value)"

section \<open>Trees and blobs\<close>

definition no_attribute :: exn where
  "no_attribute = AttributeError ''get''"

definition get_or :: "pydict \<Rightarrow> string \<Rightarrow> pyval \<Rightarrow> pyval" where
  "get_or d key v = (case dict_get d key of None \<Rightarrow> v | Some x \<Rightarrow> x)"

text \<open>\<^verbatim>\<open>commit.get("commit", {}).get("tree", {})\<close> and the tree identifier in it.\<close>

definition nested_tree :: "pydict \<Rightarrow> exn + pyval" where
  "nested_tree commit_object =
     res_bind (need no_attribute (as_dict (get_or commit_object ''commit'' (PDict [])))) (\<lambda>c.
     Inr (get_or c ''tree'' (PDict [])))"

definition tree_sha :: "string \<Rightarrow> pyval \<Rightarrow> exn + string" where
  "tree_sha message tree =
     (case Option.bind (as_dict tree) (\<lambda>d. as_str (obj_get d ''sha'')) of
        Some s \<Rightarrow> if length s = 40 then Inr s else Inl (GitHubAdapterError message)
      | None \<Rightarrow> Inl (GitHubAdapterError message))"

definition is_blob_entry :: "string \<Rightarrow> pyval \<Rightarrow> bool" where
  "is_blob_entry path entry = (case as_dict entry of None \<Rightarrow> False
     | Some d \<Rightarrow> obj_get d ''path'' = PStr path \<and> obj_get d ''type'' = PStr ''blob'')"

definition drop_newlines :: "string \<Rightarrow> string" where
  "drop_newlines s = filter (\<lambda>c. c \<noteq> CHR 0x0A) s"

text \<open>\<^verbatim>\<open>sha1(f"blob {len(content)}\0".encode() + content)\<close>.\<close>

definition git_blob_sha :: "'w github \<Rightarrow> string \<Rightarrow> string" where
  "git_blob_sha gh content = gh_sha1 gh (''blob '' @ show_nat (length content) @ [CHR 0x00] @ content)"

definition commit_path :: "string \<Rightarrow> string \<Rightarrow> string" where
  "commit_path repository sha = repo_path repository (''/commits/'' @ sha)"

definition tree_path :: "string \<Rightarrow> string \<Rightarrow> string" where
  "tree_path repository sha = repo_path repository (''/git/trees/'' @ sha @ ''?recursive=1'')"

definition blob_path :: "string \<Rightarrow> string \<Rightarrow> string" where
  "blob_path repository sha = repo_path repository (''/git/blobs/'' @ sha)"

section \<open>One immutable artifact\<close>

record artifact_binding =
  ab_repository :: string
  ab_commit_sha :: string
  ab_path :: string
  ab_blob_sha :: string
  ab_content_sha256 :: string

definition new_binding :: "string \<Rightarrow> string \<Rightarrow> string \<Rightarrow> string \<Rightarrow> string \<Rightarrow> exn + artifact_binding" where
  "new_binding repository sha path blob digest =
     (if is_repository_name repository \<and> hex_of_length 40 sha \<and> 1 \<le> length path \<and> length path \<le> 512 \<and>
         hex_of_length 40 blob \<and> hex_of_length 64 digest
      then Inr \<lparr>ab_repository = repository, ab_commit_sha = sha, ab_path = path, ab_blob_sha = blob, ab_content_sha256 = digest\<rparr>
      else Inl (ValueError ''immutable artifact binding is invalid''))"

definition read_immutable_artifact :: "'w github \<Rightarrow> artifact_binding \<Rightarrow> ('w, string) action" where
  "read_immutable_artifact gh b =
     act_bind (github_get gh (commit_path (ab_repository b) (ab_commit_sha b))) (\<lambda>commit_value.
     act_bind (act_lift (need no_attribute (as_dict commit_value))) (\<lambda>commit_object.
     act_bind (act_lift (raise_if (obj_get commit_object ''sha'' \<noteq> PStr (ab_commit_sha b))
       (GitHubAdapterError ''GitHub commit response does not match requested immutable SHA''))) (\<lambda>_.
     act_bind (act_lift (nested_tree commit_object)) (\<lambda>tree.
     act_bind (act_lift (tree_sha ''GitHub commit has no immutable tree SHA'' tree)) (\<lambda>sha.
     act_bind (github_get gh (tree_path (ab_repository b) sha)) (\<lambda>tree_value.
     act_bind (act_lift (need no_attribute (as_dict tree_value))) (\<lambda>tree_response.
     act_bind (act_lift (raise_if (obj_get tree_response ''truncated'' = PBool True)
       (GitHubAdapterError ''GitHub tree response is truncated and cannot bind an artifact''))) (\<lambda>_.
     act_bind (act_lift (need (GitHubAdapterError ''GitHub tree response is malformed'')
       (as_list (obj_get tree_response ''tree'')))) (\<lambda>entries.
     act_bind (act_lift (raise_if
         (map (\<lambda>e. Option.bind (as_dict e) (\<lambda>d. Some (obj_get d ''sha''))) (filter (is_blob_entry (ab_path b)) entries)
            \<noteq> [Some (PStr (ab_blob_sha b))])
       (GitHubAdapterError ''artifact path does not resolve to the approved blob''))) (\<lambda>_.
     act_bind (github_get gh (blob_path (ab_repository b) (ab_blob_sha b))) (\<lambda>blob_value.
     act_bind (act_lift (need no_attribute (as_dict blob_value))) (\<lambda>blob.
     act_bind (act_lift (raise_if (obj_get blob ''sha'' \<noteq> PStr (ab_blob_sha b) \<or> obj_get blob ''encoding'' \<noteq> PStr ''base64'')
       (GitHubAdapterError ''GitHub blob response is malformed or mismatched''))) (\<lambda>_.
     act_bind (act_lift (need (GitHubAdapterError ''GitHub blob has no content'') (as_str (obj_get blob ''content'')))) (\<lambda>encoded.
     act_bind (act_lift (need (GitHubAdapterError ''GitHub blob content is not valid base64'')
       (b64decode (drop_newlines encoded)))) (\<lambda>content.
     act_bind (act_lift (raise_if (git_blob_sha gh content \<noteq> ab_blob_sha b)
       (GitHubAdapterError ''GitHub blob bytes do not match blob SHA''))) (\<lambda>_.
     act_bind (act_lift (raise_if (gh_sha256 gh content \<noteq> ab_content_sha256 b)
       (GitHubAdapterError ''GitHub blob bytes do not match artifact SHA-256''))) (\<lambda>_.
     act_return content)))))))))))))))))"

text \<open>\<^verbatim>\<open>artifact_binding\<close>: one path at one commit, resolved and then read back.\<close>

definition entry_sha :: "pyval \<Rightarrow> string option" where
  "entry_sha entry = Option.bind (as_dict entry) (\<lambda>d. as_str (obj_get d ''sha''))"

definition resolve_artifact_binding :: "'w github \<Rightarrow> string \<Rightarrow> string \<Rightarrow> string \<Rightarrow> ('w, artifact_binding) action" where
  "resolve_artifact_binding gh repository sha path =
     act_bind (act_lift (artifact_path path)) (\<lambda>canonical.
     act_bind (github_get gh (commit_path repository sha)) (\<lambda>commit_value.
     act_bind (act_lift (case as_dict commit_value of
         Some d \<Rightarrow> if obj_get d ''sha'' = PStr sha then Inr d
           else Inl (GitHubAdapterError ''artifact binding commit does not match requested SHA'')
       | None \<Rightarrow> Inl (GitHubAdapterError ''artifact binding commit does not match requested SHA''))) (\<lambda>commit_object.
     act_bind (act_lift (nested_tree commit_object)) (\<lambda>tree.
     act_bind (act_lift (tree_sha ''artifact binding commit has no immutable tree'' tree)) (\<lambda>tree_id.
     act_bind (github_get gh (tree_path repository tree_id)) (\<lambda>document.
     act_bind (act_lift (case as_dict document of
         Some d \<Rightarrow> if obj_get d ''truncated'' = PBool True
           then Inl (GitHubAdapterError ''artifact binding tree is malformed or truncated'') else Inr d
       | None \<Rightarrow> Inl (GitHubAdapterError ''artifact binding tree is malformed or truncated''))) (\<lambda>tree_object.
     act_bind (act_lift (case filter (\<lambda>e. is_blob_entry canonical e \<and> entry_sha e \<noteq> None)
           (case as_list (obj_get tree_object ''tree'') of None \<Rightarrow> [] | Some es \<Rightarrow> es) of
         [entry] \<Rightarrow> need (GitHubAdapterError ''artifact binding path is absent or duplicated'') (entry_sha entry)
       | _ \<Rightarrow> Inl (GitHubAdapterError ''artifact binding path is absent or duplicated''))) (\<lambda>blob_sha.
     act_bind (github_get gh (blob_path repository blob_sha)) (\<lambda>blob_value.
     act_bind (act_lift (case as_dict blob_value of
         None \<Rightarrow> Inl (GitHubAdapterError ''artifact binding blob is malformed'')
       | Some blob \<Rightarrow>
           if obj_get blob ''sha'' \<noteq> PStr blob_sha \<or> obj_get blob ''encoding'' \<noteq> PStr ''base64''
           then Inl (GitHubAdapterError ''artifact binding blob is malformed'')
           else need (GitHubAdapterError ''artifact binding blob is malformed'') (as_str (obj_get blob ''content'')))) (\<lambda>encoded.
     act_bind (act_lift (need (GitHubAdapterError ''artifact binding blob is not valid base64'')
       (b64decode (drop_newlines encoded)))) (\<lambda>content.
     act_bind (act_lift (new_binding repository sha canonical blob_sha (gh_sha256 gh content))) (\<lambda>binding.
     act_bind (read_immutable_artifact gh binding) (\<lambda>_.
     act_return binding)))))))))))))"

section \<open>Snapshots of several files\<close>

record repository_file =
  rf_path :: string
  rf_sha256 :: string
  rf_content :: string

record repository_snapshot =
  rs_name :: string
  rs_commit :: string
  rs_sha256 :: string
  rs_files :: "repository_file list"

text \<open>The content is the UTF-8 encoding of the string; its bound counts code points.\<close>

definition new_repository_file :: "'w github \<Rightarrow> string \<Rightarrow> string \<Rightarrow> exn + repository_file" where
  "new_repository_file gh path content =
     (if 1 \<le> length path \<and> length path \<le> 512 \<and> hex_of_length 64 (gh_sha256 gh content) \<and> utf8_length content \<le> 262144
      then Inr \<lparr>rf_path = path, rf_sha256 = gh_sha256 gh content, rf_content = content\<rparr>
      else Inl (ValueError ''repository file is invalid''))"

definition repository_snapshot_digest :: "(string \<Rightarrow> string) \<Rightarrow> string \<Rightarrow> string \<Rightarrow> repository_file list \<Rightarrow> string" where
  "repository_snapshot_digest sha name commit_id files = canonical_hash sha (PDict
     [(''name'', PStr name), (''commit'', PStr commit_id),
      (''files'', PList (map (\<lambda>f. PDict [(''path'', PStr (rf_path f)), (''sha256'', PStr (rf_sha256 f))]) (sort_key rf_path files)))])"

text \<open>The validators of \<^verbatim>\<open>RepositorySnapshot\<close>; the digest is computed from the same values.\<close>

definition new_repository_snapshot :: "'w github \<Rightarrow> string \<Rightarrow> string \<Rightarrow> repository_file list \<Rightarrow> exn + repository_snapshot" where
  "new_repository_snapshot gh name commit_id files =
     (let digest = repository_snapshot_digest (gh_sha256 gh) name commit_id files in
      if is_repository_name name \<and> hex_of_length 40 commit_id \<and> hex_of_length 64 digest \<and> length files \<le> 500 \<and>
         distinct (map rf_path files)
      then Inr \<lparr>rs_name = name, rs_commit = commit_id, rs_sha256 = digest, rs_files = files\<rparr>
      else Inl (ValueError ''repository snapshot is invalid''))"

text \<open>\<^verbatim>\<open>by_path\<close>: the blob entries with a textual path and identifier, by their path.\<close>

definition entry_path :: "pyval \<Rightarrow> string option" where
  "entry_path entry = Option.bind (as_dict entry) (\<lambda>d.
     if obj_get d ''type'' = PStr ''blob'' \<and> as_str (obj_get d ''sha'') \<noteq> None then as_str (obj_get d ''path'') else None)"

definition entries_by_path :: "pyval list \<Rightarrow> (string, pyval) dict" where
  "entries_by_path entries =
     dict_of (\<lambda>e. the (entry_path e)) (\<lambda>e. e) (filter (\<lambda>e. entry_path e \<noteq> None) entries)"

definition declared_size :: "pyval \<Rightarrow> int option" where
  "declared_size entry = Option.bind (as_dict entry) (\<lambda>d. as_int (obj_get d ''size''))"

text \<open>The loop over the paths: the bytes read so far, and the files.\<close>

fun snapshot_files ::
  "'w github \<Rightarrow> string \<Rightarrow> int \<Rightarrow> (string, pyval) dict \<Rightarrow> int \<Rightarrow> string list \<Rightarrow> ('w, repository_file list) action" where
  "snapshot_files gh repository bound by_path seen [] = act_return []"
| "snapshot_files gh repository bound by_path seen (path # paths) =
     act_bind (act_lift (need (GitHubAdapterError ''repository snapshot path is absent'') (dict_get by_path path))) (\<lambda>entry.
     act_bind (act_lift (raise_if (case declared_size entry of None \<Rightarrow> False | Some n \<Rightarrow> n < 0 \<or> bound - seen < n)
       (GitHubAdapterError ''repository snapshot exceeds its byte bound''))) (\<lambda>_.
     act_bind (act_lift (need no_attribute (entry_sha entry))) (\<lambda>blob_sha.
     act_bind (github_get gh (blob_path repository blob_sha)) (\<lambda>blob_value.
     act_bind (act_lift (case as_dict blob_value of
         None \<Rightarrow> Inl (GitHubAdapterError ''repository snapshot blob is malformed'')
       | Some blob \<Rightarrow>
           if obj_get blob ''encoding'' \<noteq> PStr ''base64'' then Inl (GitHubAdapterError ''repository snapshot blob is malformed'')
           else need (GitHubAdapterError ''repository snapshot blob has no content'') (as_str (obj_get blob ''content'')))) (\<lambda>encoded.
     act_bind (act_lift (case b64decode (drop_newlines encoded) of
         Some c \<Rightarrow> if utf8_valid c then Inr c
           else Inl (GitHubAdapterError ''repository snapshot files must be valid UTF-8'')
       | None \<Rightarrow> Inl (GitHubAdapterError ''repository snapshot files must be valid UTF-8''))) (\<lambda>content.
     act_bind (act_lift (raise_if (git_blob_sha gh content \<noteq> blob_sha)
       (GitHubAdapterError ''repository snapshot blob bytes do not match SHA''))) (\<lambda>_.
     act_bind (act_lift (raise_if (bound < seen + int (length content))
       (GitHubAdapterError ''repository snapshot exceeds its byte bound''))) (\<lambda>_.
     act_bind (act_lift (new_repository_file gh path content)) (\<lambda>file.
     act_bind (snapshot_files gh repository bound by_path (seen + int (length content)) paths) (\<lambda>files.
     act_return (file # files)))))))))))"

definition dict_field :: "pyval \<Rightarrow> string \<Rightarrow> pyval" where
  "dict_field v key = (case as_dict v of None \<Rightarrow> PNone | Some d \<Rightarrow> obj_get d key)"

text \<open>The entries of a whole tree; \<open>message\<close> names the document in the errors.\<close>

definition whole_tree :: "string \<Rightarrow> pyval \<Rightarrow> exn + pyval list" where
  "whole_tree message document =
     (case as_dict document of
        None \<Rightarrow> Inl (GitHubAdapterError (message @ '' is malformed or truncated''))
      | Some d \<Rightarrow>
          if obj_get d ''truncated'' = PBool True then Inl (GitHubAdapterError (message @ '' is malformed or truncated''))
          else need (GitHubAdapterError (message @ '' has no entries'')) (as_list (obj_get d ''tree'')))"

definition repository_snapshot :: "'w github \<Rightarrow> string \<Rightarrow> string \<Rightarrow> string list \<Rightarrow> int \<Rightarrow> ('w, repository_snapshot) action" where
  "repository_snapshot gh repository commit_id paths bound =
     act_bind (act_lift (raise_if (paths = [] \<or> 500 < length paths \<or> bound \<le> 0)
       (ValueError ''repository snapshot paths and size must be bounded''))) (\<lambda>_.
     act_bind (act_lift (res_map artifact_path paths)) (\<lambda>canonical.
     act_bind (act_lift (raise_if (\<not> distinct canonical) (ValueError ''repository snapshot paths must be unique''))) (\<lambda>_.
     act_bind (github_get gh (commit_path repository commit_id)) (\<lambda>commit_value.
     act_bind (act_lift (raise_if (as_dict commit_value = None \<or> dict_field commit_value ''sha'' \<noteq> PStr commit_id)
       (GitHubAdapterError ''repository snapshot commit does not match requested SHA''))) (\<lambda>_.
     act_bind (act_lift (tree_sha ''repository snapshot commit has no immutable tree''
       (dict_field (dict_field commit_value ''commit'') ''tree''))) (\<lambda>sha.
     act_bind (github_get gh (tree_path repository sha)) (\<lambda>tree.
     act_bind (act_lift (whole_tree ''repository snapshot tree'' tree)) (\<lambda>entries.
     act_bind (snapshot_files gh repository bound (entries_by_path entries) 0 canonical) (\<lambda>files.
     act_lift (new_repository_snapshot gh repository commit_id files))))))))))"

section \<open>The planning context\<close>

definition ref_sha :: "pyval \<Rightarrow> pyval" where
  "ref_sha value = dict_field (dict_field value ''object'') ''sha''"

definition full_sha :: "string \<Rightarrow> pyval \<Rightarrow> exn + string" where
  "full_sha message v = (case as_str v of
     Some s \<Rightarrow> if length s = 40 then Inr s else Inl (GitHubAdapterError message)
   | None \<Rightarrow> Inl (GitHubAdapterError message))"

definition repository_head :: "'w github \<Rightarrow> string \<Rightarrow> ('w, string \<times> string) action" where
  "repository_head gh repository =
     act_bind (github_get gh (''/repos/'' @ repository)) (\<lambda>metadata.
     act_bind (act_lift (case as_str (dict_field metadata ''default_branch'') of
         Some b \<Rightarrow> if b = [] then Inl (GitHubAdapterError ''GitHub repository has no default branch'') else Inr b
       | None \<Rightarrow> Inl (GitHubAdapterError ''GitHub repository has no default branch''))) (\<lambda>branch.
     act_bind (github_get gh (repo_path repository (''/git/ref/heads/'' @ branch))) (\<lambda>reference.
     act_bind (act_lift (full_sha ''GitHub default branch has no immutable head'' (ref_sha reference))) (\<lambda>sha.
     act_return (branch, sha)))))"

definition is_suffix_of :: "string \<Rightarrow> string \<Rightarrow> bool" where
  "is_suffix_of p s = is_prefix_of (rev p) (rev s)"

definition context_score :: "string \<Rightarrow> nat" where
  "context_score path =
     (let name = py_casefold (posix_name path); ends = (\<lambda>ts. list_ex (\<lambda>t. is_suffix_of t path) ts) in
      if name = ''agents.md'' then 0
      else if CHR ''/'' \<notin> set path \<and> is_prefix_of ''readme'' name then 1
      else if CHR ''/'' \<notin> set path \<and> name \<in> {''pyproject.toml'', ''package.json'', ''cargo.toml'', ''go.mod'', ''makefile''} then 2
      else if is_prefix_of ''docs/'' path \<and> ends [''.md'', ''.yaml'', ''.yml''] then 3
      else if is_prefix_of ''.github/workflows/'' path \<and> ends [''.yaml'', ''.yml''] then 4
      else if ends [''.py'', ''.ts'', ''.tsx'', ''.go'', ''.rs'', ''.tf'', ''.yaml'', ''.yml''] then 5
      else 99)"

definition context_candidate :: "pyval \<Rightarrow> string option" where
  "context_candidate entry = Option.bind (as_dict entry) (\<lambda>d.
     if obj_get d ''type'' \<noteq> PStr ''blob'' then None
     else case as_str (obj_get d ''path'') of
         None \<Rightarrow> None
       | Some path \<Rightarrow>
           if (case declared_size entry of None \<Rightarrow> False | Some n \<Rightarrow> 262144 < n) then None
           else if context_score path < 99 then Some path else None)"

definition select_context :: "nat \<Rightarrow> pyval list \<Rightarrow> string list" where
  "select_context max_files entries =
     take max_files (sort_key (\<lambda>p. (context_score p, p)) (List.map_filter context_candidate entries))"

definition context_snapshot :: "'w github \<Rightarrow> string \<Rightarrow> nat \<Rightarrow> ('w, string \<times> repository_snapshot) action" where
  "context_snapshot gh repository max_files =
     act_bind (act_lift (raise_if (max_files < 1 \<or> 500 < max_files)
       (ValueError ''context snapshot file bound must be between 1 and 500''))) (\<lambda>_.
     act_bind (repository_head gh repository) (\<lambda>(branch, commit_id).
     act_bind (github_get gh (commit_path repository commit_id)) (\<lambda>commit_value.
     act_bind (act_lift (case as_dict commit_value of None \<Rightarrow> Inr (PDict []) | Some d \<Rightarrow> nested_tree d)) (\<lambda>tree.
     act_bind (act_lift (tree_sha ''repository context commit has no immutable tree'' tree)) (\<lambda>sha.
     act_bind (github_get gh (tree_path repository sha)) (\<lambda>document.
     act_bind (act_lift (whole_tree ''repository context tree'' document)) (\<lambda>entries.
     act_bind (act_lift (raise_if (select_context max_files entries = [])
       (GitHubAdapterError ''repository has no bounded textual planning context''))) (\<lambda>_.
     act_bind (repository_snapshot gh repository commit_id (select_context max_files entries) 2097152) (\<lambda>snapshot.
     act_return (branch, snapshot))))))))))"

section \<open>The planning commit, its branch and its pull request\<close>

record planning_branch =
  br_repository :: string
  br_name :: string
  br_commit_sha :: string

text \<open>\<^verbatim>\<open>^planning/[a-z0-9][a-z0-9._/-]{2,120}$\<close>\<close>

definition is_branch_char :: "char \<Rightarrow> bool" where
  "is_branch_char c \<longleftrightarrow> is_lower_char c \<or> is_digit_char c \<or> c \<in> {CHR ''.'', CHR ''_'', CHR ''/'', CHR ''-''}"

definition is_planning_branch :: "string \<Rightarrow> bool" where
  "is_planning_branch s \<longleftrightarrow> is_prefix_of ''planning/'' s \<and>
     (case drop 9 s of [] \<Rightarrow> False
      | c # t \<Rightarrow> (is_lower_char c \<or> is_digit_char c) \<and> 2 \<le> length t \<and> length t \<le> 120 \<and> list_all is_branch_char t)"

definition new_branch :: "string \<Rightarrow> string \<Rightarrow> string \<Rightarrow> exn + planning_branch" where
  "new_branch repository name sha =
     (if is_repository_name repository \<and> is_planning_branch name \<and> hex_of_length 40 sha
      then Inr \<lparr>br_repository = repository, br_name = name, br_commit_sha = sha\<rparr>
      else Inl (ValueError ''planning branch is invalid''))"

definition zero_sha :: string where
  "zero_sha = replicate 40 CHR ''0''"

definition encoded_name :: "string \<Rightarrow> string" where
  "encoded_name name = concat (map (\<lambda>c. if c = CHR ''/'' then ''%2F'' else [c]) name)"

definition branch_path :: "string \<Rightarrow> string \<Rightarrow> string" where
  "branch_path repository name = repo_path repository (''/git/ref/heads/'' @ encoded_name name)"

definition ensure_planning_branch :: "'w github \<Rightarrow> planning_branch \<Rightarrow> ('w, planning_branch) action" where
  "ensure_planning_branch gh b =
     act_bind (request_or_none gh ''GET'' (branch_path (br_repository b) (br_name b)) None) (\<lambda>result.
     act_bind (case result of
         None \<Rightarrow> request gh ''POST'' (repo_path (br_repository b) ''/git/refs'')
           (Some (PDict [(''ref'', PStr (''refs/heads/'' @ br_name b)), (''sha'', PStr (br_commit_sha b))]))
       | Some r \<Rightarrow> act_return r) (\<lambda>reference.
     if ref_sha reference \<noteq> PStr (br_commit_sha b)
     then act_raise (GitHubAdapterError ''planning branch exists at an unexpected immutable commit'')
     else act_return b))"

fun verify_artifacts :: "'w github \<Rightarrow> planning_branch \<Rightarrow> (string, string option) dict \<Rightarrow> (string, string) dict \<Rightarrow> ('w, unit) action" where
  "verify_artifacts gh b by_path [] = act_return ()"
| "verify_artifacts gh b by_path ((path, content) # rest) =
     act_bind (act_lift (raise_if (dict_get by_path path \<noteq> Some (Some (git_blob_sha gh content)))
       (GitHubAdapterError ''planning artifact is absent or has unexpected bytes''))) (\<lambda>_.
     act_bind (act_lift (new_binding (br_repository b) (br_commit_sha b) path (git_blob_sha gh content) (gh_sha256 gh content))) (\<lambda>binding.
     act_bind (read_immutable_artifact gh binding) (\<lambda>_.
     verify_artifacts gh b by_path rest)))"

definition verify_commit_artifacts :: "'w github \<Rightarrow> planning_branch \<Rightarrow> (string, string) dict \<Rightarrow> ('w, unit) action" where
  "verify_commit_artifacts gh b artifacts =
     act_bind (github_get gh (commit_path (br_repository b) (br_commit_sha b))) (\<lambda>commit_value.
     act_bind (act_lift (case as_dict commit_value of None \<Rightarrow> Inr (PDict []) | Some d \<Rightarrow> nested_tree d)) (\<lambda>tree.
     act_bind (act_lift (tree_sha ''planning commit has no immutable tree'' tree)) (\<lambda>sha.
     act_bind (github_get gh (tree_path (br_repository b) sha)) (\<lambda>document.
     act_bind (act_lift (whole_tree ''planning commit tree'' document)) (\<lambda>entries.
     verify_artifacts gh b (map (\<lambda>(path, e). (path, entry_sha e)) (entries_by_path entries)) artifacts)))))"

text \<open>One blob per artifact, in the order of the paths; the entries of the new tree.\<close>

fun create_blobs :: "'w github \<Rightarrow> string \<Rightarrow> (string, string) dict \<Rightarrow> ('w, pyval list) action" where
  "create_blobs gh repository [] = act_return []"
| "create_blobs gh repository ((path, content) # rest) =
     act_bind (request gh ''POST'' (repo_path repository ''/git/blobs'')
         (Some (PDict [(''content'', PStr (b64encode content)), (''encoding'', PStr ''base64'')]))) (\<lambda>blob.
     act_bind (act_lift (raise_if (dict_field blob ''sha'' \<noteq> PStr (git_blob_sha gh content))
       (GitHubAdapterError ''GitHub created an unexpected artifact blob''))) (\<lambda>_.
     act_bind (create_blobs gh repository rest) (\<lambda>entries.
     act_return (PDict [(''path'', PStr path), (''mode'', PStr ''100644''), (''type'', PStr ''blob''),
       (''sha'', PStr (git_blob_sha gh content))] # entries))))"

definition create_planning_commit ::
  "'w github \<Rightarrow> string \<Rightarrow> string \<Rightarrow> (string, string) dict \<Rightarrow> string \<Rightarrow> ('w, string) action" where
  "create_planning_commit gh repository base artifacts message =
     act_bind (github_get gh (repo_path repository (''/git/ref/heads/'' @ base))) (\<lambda>base_ref.
     act_bind (act_lift (full_sha ''GitHub base branch has no immutable commit'' (ref_sha base_ref))) (\<lambda>base_sha.
     act_bind (github_get gh (repo_path repository (''/git/commits/'' @ base_sha))) (\<lambda>base_commit.
     act_bind (act_lift (full_sha ''GitHub base commit has no immutable tree''
       (dict_field (dict_field base_commit ''tree'') ''sha''))) (\<lambda>base_tree.
     act_bind (create_blobs gh repository (sort_key fst artifacts)) (\<lambda>entries.
     act_bind (request gh ''POST'' (repo_path repository ''/git/trees'')
       (Some (PDict [(''base_tree'', PStr base_tree), (''tree'', PList entries)]))) (\<lambda>tree.
     act_bind (act_lift (full_sha ''GitHub created tree has no immutable SHA'' (dict_field tree ''sha''))) (\<lambda>sha.
     act_bind (request gh ''POST'' (repo_path repository ''/git/commits'')
       (Some (PDict [(''message'', PStr message), (''tree'', PStr sha), (''parents'', PList [PStr base_sha])]))) (\<lambda>created.
     act_lift (full_sha ''GitHub created commit has no immutable SHA'' (dict_field created ''sha''))))))))))"

text \<open>
  \<^verbatim>\<open>artifacts\<close> is a mapping, so its paths are distinct and the check for paths that coincide
  after normalization compares the two lengths; \<^verbatim>\<open>_artifact_path\<close> returns its argument.
\<close>

definition ensure_planning_commit ::
  "'w github \<Rightarrow> string \<Rightarrow> string \<Rightarrow> string \<Rightarrow> (string, string) dict \<Rightarrow> string \<Rightarrow> ('w, planning_branch) action" where
  "ensure_planning_commit gh repository name base artifacts message =
     act_bind (act_lift (raise_if (artifacts = [] \<or> py_strip message = [])
       (ValueError ''planning commit requires artifacts and a commit message''))) (\<lambda>_.
     act_bind (act_lift (res_map (\<lambda>(path, content). res_bind (artifact_path path) (\<lambda>p. Inr (p, content))) artifacts)) (\<lambda>pairs.
     let normalized = dict_of fst snd pairs in
     act_bind (act_lift (raise_if (length normalized \<noteq> length artifacts)
       (ValueError ''planning artifact paths are duplicated after normalization''))) (\<lambda>_.
     act_bind (act_lift (new_branch repository name zero_sha)) (\<lambda>probe.
     act_bind (request_or_none gh ''GET'' (branch_path repository (br_name probe)) None) (\<lambda>existing.
     case existing of
       Some reference \<Rightarrow>
         act_bind (act_lift (need (GitHubAdapterError ''existing planning branch has no commit SHA'')
           (as_str (ref_sha reference)))) (\<lambda>sha.
         act_bind (act_lift (new_branch repository name sha)) (\<lambda>branch.
         act_bind (verify_commit_artifacts gh branch normalized) (\<lambda>_.
         act_return branch)))
     | None \<Rightarrow>
         act_bind (create_planning_commit gh repository base normalized message) (\<lambda>commit_sha.
         act_bind (act_lift (new_branch repository name commit_sha)) (\<lambda>branch.
         act_bind (ensure_planning_branch gh branch) (\<lambda>_.
         act_bind (verify_commit_artifacts gh branch normalized) (\<lambda>_.
         act_return branch)))))))))"

definition ensure_planning_pull_request ::
  "'w github \<Rightarrow> planning_branch \<Rightarrow> string \<Rightarrow> string \<Rightarrow> string \<Rightarrow> ('w, github_pull) action" where
  "ensure_planning_pull_request gh b base title body =
     act_bind (github_get gh (repo_path (br_repository b)
       (''/pulls?state=open&head='' @ takeWhile (\<lambda>c. c \<noteq> CHR ''/'') (br_repository b) @ '':'' @ br_name b))) (\<lambda>result.
     act_bind (case as_list result of
         None \<Rightarrow> act_raise (GitHubAdapterError ''GitHub pull request search is malformed'')
       | Some [] \<Rightarrow> request gh ''POST'' (repo_path (br_repository b) ''/pulls'')
           (Some (PDict [(''title'', PStr title), (''head'', PStr (br_name b)), (''base'', PStr base), (''body'', PStr body)]))
       | Some [pull] \<Rightarrow> act_return pull
       | Some _ \<Rightarrow> act_raise (GitHubAdapterError ''more than one open planning pull request exists'')) (\<lambda>pull.
     act_bind (act_lift (decode_pull (gh_int gh) (br_repository b) pull)) (\<lambda>model.
     if gp_head_sha model \<noteq> br_commit_sha b
     then act_raise (GitHubAdapterError ''planning PR head does not match immutable planning branch'')
     else act_return model)))"

end
