(* ===== verification/ArtifactFacts.thy ===== *)
theory ArtifactFacts
  imports GitHubArtifacts
begin

text \<open>
  What the artifact operations guarantee: the accepted paths, the bytes behind an immutable
  binding, the byte bound of a snapshot, and that a planning commit is only returned after every
  artifact has been read back from it.
\<close>

section \<open>Base64\<close>

lemma b64_value_char: "n < 64 \<Longrightarrow> b64_value (b64_char n) = Some n"
  by (auto simp: b64_value_def b64_char_def Let_def)

lemma b64_char_not_pad: "n < 64 \<Longrightarrow> b64_char n \<noteq> pad"
  using b64_value_char [of n] by (auto simp: b64_value_def pad_def)

text \<open>Splitting three bytes into four digits and back.\<close>

lemma digit_bounds:
  fixes m n k :: nat
  assumes "m < 256" and "n < 256" and "k < 256"
  shows "m div 4 < 64" and "m mod 4 * 16 < 64" and "m mod 4 * 16 + n div 16 < 64" and "n mod 16 * 4 < 64"
    and "n mod 16 * 4 + k div 64 < 64" and "k mod 64 < 64"
proof -
  have "m mod 4 < 4" "n mod 16 < 16" "n div 16 < 16" "k div 64 < 4" "m div 4 < 64" "k mod 64 < 64" using assms by simp_all
  then show "m div 4 < 64" and "m mod 4 * 16 < 64" and "m mod 4 * 16 + n div 16 < 64" and "n mod 16 * 4 < 64"
    and "n mod 16 * 4 + k div 64 < 64" and "k mod 64 < 64" by simp_all
qed

lemma digit_joins:
  fixes m n k :: nat
  assumes "n < 256" and "k < 256"
  shows "m div 4 * 4 + m mod 4 * 16 div 16 = m" and "m div 4 * 4 + (m mod 4 * 16 + n div 16) div 16 = m"
    and "(m mod 4 * 16 + n div 16) mod 16 * 16 + n mod 16 * 4 div 4 = n"
    and "(m mod 4 * 16 + n div 16) mod 16 * 16 + (n mod 16 * 4 + k div 64) div 4 = n"
    and "(n mod 16 * 4 + k div 64) mod 4 * 64 + k mod 64 = k"
proof -
  have "n div 16 < 16" "k div 64 < 4" using assms by simp_all
  then show "m div 4 * 4 + m mod 4 * 16 div 16 = m" and "m div 4 * 4 + (m mod 4 * 16 + n div 16) div 16 = m"
    and "(m mod 4 * 16 + n div 16) mod 16 * 16 + n mod 16 * 4 div 4 = n"
    and "(m mod 4 * 16 + n div 16) mod 16 * 16 + (n mod 16 * 4 + k div 64) div 4 = n"
    and "(n mod 16 * 4 + k div 64) mod 4 * 64 + k mod 64 = k"
    by (simp_all add: mult.commute)
qed

lemma of_char_bound: "(of_char c :: nat) < 256"
  using nat_of_char_less_256 [of c] by simp

lemmas digit_simps = b64_value_char b64_char_not_pad digit_bounds [OF of_char_bound of_char_bound of_char_bound]
  digit_joins [OF of_char_bound of_char_bound]

lemma b64_roundtrip: "b64decode (b64encode s) = Some s"
proof (induction s rule: b64encode.induct)
  case (2 a)
  show ?case by (simp add: Let_def digit_simps)
next
  case (3 a b)
  have "n div 16 < 16" if "n < 256" for n :: nat using that by simp
  note this [OF of_char_bound [of b]]
  then show ?case by (simp add: Let_def digit_simps)
next
  case (4 a b c s)
  have "n div 16 < 16" "n div 64 < 4" if "n < 256" for n :: nat using that by simp_all
  note this(1) [OF of_char_bound [of b]] this(2) [OF of_char_bound [of c]]
  with 4 show ?case by (simp add: Let_def digit_simps)
qed simp

section \<open>Paths\<close>

lemma split_at_not_Nil: "split_at p s \<noteq> []"
  by (cases "(p, s)" rule: split_at.cases) (auto split: list.split)

lemma join_split: "py_join ''/'' (split_at (\<lambda>c. c = slash) s) = s"
proof (induction s)
  case (Cons c s)
  obtain w ws where split: "split_at (\<lambda>c. c = slash) s = w # ws"
    using split_at_not_Nil by (meson neq_Nil_conv)
  show ?case
  proof (cases "c = slash")
    case True
    with Cons split show ?thesis by (cases ws) (auto simp: slash_def)
  next
    case False
    with Cons split show ?thesis by (cases ws) auto
  qed
qed simp

lemma join_length: "length (py_join ''/'' ws) = sum_list (map (\<lambda>w. Suc (length w)) ws) - 1"
  by (induction "''/''" ws rule: py_join.induct) auto

text \<open>Dropping a component shortens the joined text, unless everything is dropped.\<close>

lemma filtered_length:
  "sum_list (map (\<lambda>w. Suc (length w)) (filter p ws)) \<le> sum_list (map (\<lambda>w. Suc (length (w :: string))) ws)"
  by (induction ws) auto

lemma filtered_length_strict:
  "filter p ws \<noteq> ws \<Longrightarrow>
    sum_list (map (\<lambda>w. Suc (length w)) (filter p ws)) < sum_list (map (\<lambda>w. Suc (length (w :: string))) ws)"
proof (induction ws)
  case (Cons w ws)
  then show ?case using filtered_length [of p ws] by (auto simp: less_Suc_eq_le)
qed simp

lemma posix_root_relative: "posix_root s = [] \<longleftrightarrow> s = [] \<or> hd s \<noteq> slash"
  by (cases s) (auto simp: posix_root_def Let_def)

abbreviation good_component :: "string \<Rightarrow> bool" where
  "good_component p \<equiv> p \<notin> {[], ''.'', ''..''}"

lemma posix_parts_whole:
  assumes "py_join ''/'' (posix_parts v) = v" and "v \<noteq> []"
  shows "posix_parts v = split_at (\<lambda>c. c = slash) v"
proof (rule ccontr)
  let ?size = "\<lambda>ws. sum_list (map (\<lambda>w. Suc (length (w :: string))) ws)"
  assume "posix_parts v \<noteq> split_at (\<lambda>c. c = slash) v"
  then have "?size (posix_parts v) < ?size (split_at (\<lambda>c. c = slash) v)"
    unfolding posix_parts_def by (rule filtered_length_strict)
  moreover have "?size (posix_parts v) - 1 = ?size (split_at (\<lambda>c. c = slash) v) - 1"
    using arg_cong [OF assms(1), of length] arg_cong [OF join_split [of v], of length] by (simp only: join_length)
  ultimately have "?size (posix_parts v) = 0" by linarith
  then have "posix_parts v = []" by (cases "posix_parts v") simp_all
  with assms show False by simp
qed

text \<open>
  C14: \<^verbatim>\<open>_artifact_path\<close> returns its argument or refuses it, and accepts exactly the paths of at
  most 512 characters all of whose components between slashes are neither empty nor a dot nor two
  dots, so none that is absolute, leaves the repository or has a second spelling. The one exception
  is the path of a single dot, which has no components in \<^verbatim>\<open>PurePosixPath\<close> and slips through.
\<close>

theorem artifact_path_exact:
  "artifact_path v = (if v = ''.'' \<or> (length v \<le> 512 \<and> list_all good_component (split_at (\<lambda>c. c = slash) v)) then Inr v
     else Inl (ValueError ''planning artifact path must be canonical and repository-relative''))"
proof -
  let ?split = "split_at (\<lambda>c. c = slash) v"
  have "(v \<noteq> [] \<and> length v \<le> 512 \<and> posix_root v = [] \<and> posix_text v = v \<and> \<not> list_ex (\<lambda>p. p \<in> {[], ''.'', ''..''}) (posix_parts v)) \<longleftrightarrow>
      v = ''.'' \<or> (length v \<le> 512 \<and> list_all good_component ?split)"
    (is "?accepted \<longleftrightarrow> ?spec")
  proof
    assume a: ?accepted
    show ?spec
    proof (cases "py_join ''/'' (posix_parts v) = v")
      case True
      with a have "posix_parts v = ?split" using posix_parts_whole by blast
      with a show ?thesis by (auto simp: list_ex_iff list_all_iff)
    next
      case False
      with a show ?thesis by (auto simp: posix_text_def Let_def split: if_splits)
    qed
  next
    assume ?spec
    then show ?accepted
    proof
      assume "v = ''.''"
      then show ?thesis by (simp add: posix_text_def posix_root_def posix_parts_def slash_def Let_def)
    next
      assume s: "length v \<le> 512 \<and> list_all good_component ?split"
      then have parts: "posix_parts v = ?split" unfolding posix_parts_def by (intro filter_True) (auto simp: list_all_iff)
      have "v \<noteq> []" and "posix_root v = []"
        using s by (cases v; auto simp: posix_root_relative)+
      moreover from this have "posix_text v = v" by (simp add: posix_text_def parts join_split)
      ultimately show ?thesis using s parts by (auto simp: list_ex_iff list_all_iff)
    qed
  qed
  then show ?thesis by (auto simp: artifact_path_def)
qed

section \<open>Bytes behind a binding\<close>

text \<open>
  The bytes returned for an immutable binding are those of the approved blob and digest,
  whatever GitHub answers: the identifier of the blob and the SHA-256 are recomputed from the bytes.
\<close>

theorem immutable_bytes:
  assumes "read_immutable_artifact gh b w = (Inr content, w')"
  shows "git_blob_sha gh content = ab_blob_sha b \<and> gh_sha256 gh content = ab_content_sha256 b"
  using assms by (auto simp: read_immutable_artifact_def act_Inr res_simps)

lemma new_binding_fields:
  "new_binding repository sha path blob digest = Inr b \<Longrightarrow>
     b = \<lparr>ab_repository = repository, ab_commit_sha = sha, ab_path = path, ab_blob_sha = blob, ab_content_sha256 = digest\<rparr>"
  by (simp add: new_binding_def split: if_splits)

text \<open>At some moment the commit served the path with these bytes' identifier and digest.\<close>

definition served :: "'w github \<Rightarrow> string \<Rightarrow> string \<Rightarrow> string \<times> string \<Rightarrow> bool" where
  "served gh repository sha artifact \<longleftrightarrow> (\<exists>w w' read.
     read_immutable_artifact gh \<lparr>ab_repository = repository, ab_commit_sha = sha, ab_path = fst artifact,
       ab_blob_sha = git_blob_sha gh (snd artifact), ab_content_sha256 = gh_sha256 gh (snd artifact)\<rparr> w = (Inr read, w'))"

lemma servedI:
  "read_immutable_artifact gh \<lparr>ab_repository = repository, ab_commit_sha = sha, ab_path = path,
     ab_blob_sha = git_blob_sha gh content, ab_content_sha256 = gh_sha256 gh content\<rparr> w = (Inr read, w') \<Longrightarrow>
   served gh repository sha (path, content)"
  unfolding served_def fst_conv snd_conv by blast

lemma verify_artifacts_read:
  assumes "verify_artifacts gh b by_path artifacts w = (Inr u, w')"
  shows "list_all (served gh (br_repository b) (br_commit_sha b)) artifacts"
  using assms
  by (induction artifacts arbitrary: w) (auto simp: act_Inr res_simps dest!: new_binding_fields intro: servedI)

lemma dict_of_pairs: "distinct (map fst pairs) \<Longrightarrow> dict_of fst snd pairs = pairs"
  by (simp add: dict_of_distinct)

lemma dict_of_length: "length (dict_of f g xs) = length xs \<Longrightarrow> distinct (map f xs)"
proof -
  assume l: "length (dict_of f g xs) = length xs"
  have "card (f ` set xs) = length (dict_keys (dict_of f g xs))"
    using distinct_card [OF distinct_dict_of [of f g xs]] set_dict_of [of f g xs] by simp
  with l show ?thesis by (simp add: card_distinct)
qed

text \<open>
  C13: A planning commit is only returned after every artifact has been read back from it: whether
  the branch existed or was created, for each path the commit served bytes with the blob identifier
  and the digest of the artifact, so a branch left behind by another run or altered since is refused.
\<close>

theorem planning_commit_verified:
  assumes "ensure_planning_commit gh repository name base artifacts message w = (Inr branch, w')"
  shows "br_repository branch = repository \<and> br_name branch = name \<and> is_planning_branch name \<and>
    list_all (served gh repository (br_commit_sha branch)) artifacts"
proof -
  have fields: "br_repository x = repository \<and> br_name x = name \<and> is_planning_branch name"
    if "new_branch repository name sha = Inr x" for sha x
    using that by (auto simp: new_branch_def split: if_splits)
  have same: "pairs = artifacts"
    if "res_map (\<lambda>(path, content). res_bind (artifact_path path) (\<lambda>p. Inr (p, content))) artifacts = Inr pairs" for pairs
    using that by (induction artifacts arbitrary: pairs) (auto simp: res_simps artifact_path_def split: if_splits)
  from assms obtain pairs t existing where pairs: "res_map (\<lambda>(path, content). res_bind (artifact_path path) (\<lambda>p. Inr (p, content))) artifacts = Inr pairs"
    and len: "length (dict_of fst snd pairs) = length artifacts"
    and rest: "(case existing of
       Some reference \<Rightarrow>
         act_bind (act_lift (need (GitHubAdapterError ''existing planning branch has no commit SHA'')
           (as_str (ref_sha reference)))) (\<lambda>sha.
         act_bind (act_lift (new_branch repository name sha)) (\<lambda>branch.
         act_bind (verify_commit_artifacts gh branch (dict_of fst snd pairs)) (\<lambda>_.
         act_return branch)))
     | None \<Rightarrow>
         act_bind (create_planning_commit gh repository base (dict_of fst snd pairs) message) (\<lambda>commit_sha.
         act_bind (act_lift (new_branch repository name commit_sha)) (\<lambda>branch.
         act_bind (ensure_planning_branch gh branch) (\<lambda>_.
         act_bind (verify_commit_artifacts gh branch (dict_of fst snd pairs)) (\<lambda>_.
         act_return branch))))) t = (Inr branch, w')"
    unfolding ensure_planning_commit_def Let_def act_Inr res_simps by blast
  have "\<exists>sha v1 v2. new_branch repository name sha = Inr branch \<and>
      verify_commit_artifacts gh branch (dict_of fst snd pairs) v1 = (Inr (), v2)"
    using rest by (cases existing) (auto simp: act_Inr)
  then obtain sha v1 v2 where new: "new_branch repository name sha = Inr branch"
    and ver: "verify_commit_artifacts gh branch (dict_of fst snd pairs) v1 = (Inr (), v2)" by blast
  have "dict_of fst snd pairs = artifacts"
    using len same [OF pairs] by (metis dict_of_length dict_of_pairs)
  with ver obtain t by_path where "verify_artifacts gh branch by_path artifacts t = (Inr (), v2)"
    by (auto simp: verify_commit_artifacts_def act_Inr)
  from verify_artifacts_read [OF this] new fields show ?thesis by auto
qed

section \<open>Bounded snapshots\<close>

lemma new_repository_file_fields:
  "new_repository_file gh path content = Inr f \<Longrightarrow>
     rf_path f = path \<and> rf_content f = content \<and> rf_sha256 f = gh_sha256 gh content \<and> utf8_length content \<le> 262144"
  by (auto simp: new_repository_file_def split: if_splits)

definition file_ok :: "'w github \<Rightarrow> (string, pyval) dict \<Rightarrow> repository_file \<Rightarrow> bool" where
  "file_ok gh by_path f \<longleftrightarrow> utf8_valid (rf_content f) \<and> utf8_length (rf_content f) \<le> 262144 \<and>
     rf_sha256 f = gh_sha256 gh (rf_content f) \<and>
     Option.bind (dict_get by_path (rf_path f)) entry_sha = Some (git_blob_sha gh (rf_content f))"

lemma snapshot_files_ok:
  assumes "snapshot_files gh repository bound by_path seen paths w = (Inr files, w')" and "seen \<le> bound"
  shows "map rf_path files = paths \<and> seen + sum_list (map (\<lambda>f. int (length (rf_content f))) files) \<le> bound \<and>
    list_all (file_ok gh by_path) files"
  using assms
proof (induction paths arbitrary: seen w files)
  case Nil
  then show ?case by (simp add: act_Inr)
next
  case (Cons path paths)
  from Cons.prems(1) obtain entry sha content f rest v1 where
      entry: "dict_get by_path path = Some entry" "entry_sha entry = Some sha"
    and content: "utf8_valid content" "git_blob_sha gh content = sha" "seen + int (length content) \<le> bound"
    and made: "new_repository_file gh path content = Inr f"
    and rest: "snapshot_files gh repository bound by_path (seen + int (length content)) paths v1 = (Inr rest, w')"
    and files: "files = f # rest"
    by (auto simp: act_Inr res_simps not_less split: option.splits if_splits)
  from Cons.IH [OF rest content(3)] new_repository_file_fields [OF made] entry content files
  show ?case by (simp add: file_ok_def)
qed

text \<open>
  A repository snapshot holds exactly the requested files in their order, at most 500 of them
  and at most the given number of bytes together; each is valid UTF-8 of at most 262144 characters
  and has the blob identifier that the tree of the commit lists for its path.
\<close>

theorem snapshot_bounded:
  assumes "repository_snapshot gh repository commit_id paths bound w = (Inr snapshot, w')"
  shows "map rf_path (rs_files snapshot) = paths \<and> distinct paths \<and> length paths \<le> 500 \<and>
    sum_list (map (\<lambda>f. int (length (rf_content f))) (rs_files snapshot)) \<le> bound \<and>
    (\<exists>entries. list_all (file_ok gh (entries_by_path entries)) (rs_files snapshot))"
proof -
  have same: "canonical = ps" if "res_map artifact_path ps = Inr canonical" for ps canonical
    using that by (induction ps arbitrary: canonical) (auto simp: res_simps artifact_path_def split: if_splits)
  from assms obtain canonical entries files v1 v2 where guards: "length paths \<le> 500" "0 < bound" "distinct canonical"
    and canonical: "res_map artifact_path paths = Inr canonical"
    and files: "snapshot_files gh repository bound (entries_by_path entries) 0 canonical v1 = (Inr files, v2)"
    and snapshot: "new_repository_snapshot gh repository commit_id files = Inr snapshot"
    by (auto simp: repository_snapshot_def act_Inr res_simps not_le not_less)
  from snapshot have "rs_files snapshot = files"
    by (auto simp: new_repository_snapshot_def Let_def split: if_splits)
  with snapshot_files_ok [OF files] guards same [OF canonical] show ?thesis by auto
qed

section \<open>Witnesses\<close>

text \<open>
  A GitHub with one commit, one file and constant digests, which answers every request with one
  document that has the fields of a commit, a tree, a blob and a reference.
\<close>

definition ex_document :: pyval where
  "ex_document = PDict
     [(''sha'', PStr ex_commit_sha), (''commit'', PDict [(''tree'', PDict [(''sha'', PStr ex_commit_sha)])]),
      (''tree'', PList [PDict [(''path'', PStr ''plan.md''), (''type'', PStr ''blob''), (''sha'', PStr ex_commit_sha)]]),
      (''encoding'', PStr ''base64''), (''content'', PStr ''aGk=''), (''object'', PDict [(''sha'', PStr ex_commit_sha)])]"

definition ex_github :: "unit github" where
  "ex_github = \<lparr>gh_token = act_return ''token'', gh_http = (\<lambda>verb path token body. act_return \<lparr>rp_status = 200, rp_json = Some ex_document\<rparr>),
     gh_int = as_int, gh_instant = ex_instant, gh_sha1 = (\<lambda>s. ex_commit_sha), gh_sha256 = (\<lambda>s. replicate 64 CHR ''b'')\<rparr>"

definition ex_artifact_binding :: artifact_binding where
  "ex_artifact_binding = \<lparr>ab_repository = ''org/repo'', ab_commit_sha = ex_commit_sha, ab_path = ''plan.md'',
     ab_blob_sha = ex_commit_sha, ab_content_sha256 = replicate 64 CHR ''b''\<rparr>"

lemma ex_read: "read_immutable_artifact ex_github ex_artifact_binding () = (Inr ''hi'', ())"
  by code_simp

lemma immutable_bytes_witness:
  "git_blob_sha ex_github ''hi'' = ex_commit_sha \<and> gh_sha256 ex_github ''hi'' = replicate 64 CHR ''b''"
  using immutable_bytes [OF ex_read] by (simp add: ex_artifact_binding_def)

definition ex_branch :: "string \<Rightarrow> planning_branch" where
  "ex_branch sha = \<lparr>br_repository = ''o/r'', br_name = ''planning/abc'', br_commit_sha = sha\<rparr>"

lemma ex_branch_steps:
  "artifact_path ''plan.md'' = Inr ''plan.md''"
  "new_branch ''o/r'' ''planning/abc'' zero_sha = Inr (ex_branch zero_sha)"
  "new_branch ''o/r'' ''planning/abc'' ex_commit_sha = Inr (ex_branch ex_commit_sha)"
  "request_or_none ex_github ''GET'' (branch_path ''o/r'' ''planning/abc'') None () = (Inr (Some ex_document), ())"
  "as_str (ref_sha ex_document) = Some ex_commit_sha"
  "verify_commit_artifacts ex_github (ex_branch ex_commit_sha) [(''plan.md'', ''hi'')] () = (Inr (), ())"
  "py_strip ''plan'' = ''plan''"
  by code_simp+

lemma planning_commit_verified_witness:
  "is_planning_branch ''planning/abc'' \<and> list_all (served ex_github ''o/r'' ex_commit_sha) [(''plan.md'', ''hi'')]"
proof -
  have "ensure_planning_commit ex_github ''o/r'' ''planning/abc'' ''main'' [(''plan.md'', ''hi'')] ''plan'' () =
      (Inr (ex_branch ex_commit_sha), ())"
    by (simp add: ensure_planning_commit_def act_bind_def act_lift_def act_return_def dict_of_def Let_def ex_branch_steps ex_branch_def [of zero_sha])
  from planning_commit_verified [OF this] show ?thesis by (simp add: ex_branch_def)
qed

definition ex_file :: repository_file where
  "ex_file = \<lparr>rf_path = ''plan.md'', rf_sha256 = replicate 64 CHR ''b'', rf_content = ''hi''\<rparr>"

definition ex_entries :: "pyval list" where
  "ex_entries = [PDict [(''path'', PStr ''plan.md''), (''type'', PStr ''blob''), (''sha'', PStr ex_commit_sha)]]"

lemma ex_snapshot_steps:
  "github_get ex_github (commit_path ''o/r'' ex_commit_sha) () = (Inr ex_document, ())"
  "github_get ex_github (tree_path ''o/r'' ex_commit_sha) () = (Inr ex_document, ())"
  "as_dict ex_document = None \<longleftrightarrow> False" "dict_field ex_document ''sha'' = PStr ex_commit_sha"
  "tree_sha message (dict_field (dict_field ex_document ''commit'') ''tree'') = Inr ex_commit_sha"
  "whole_tree message ex_document = Inr ex_entries"
  "dict_get (entries_by_path ex_entries) ''plan.md'' = Some (hd ex_entries)"
  "declared_size (hd ex_entries) = None" "entry_sha (hd ex_entries) = Some ex_commit_sha"
  "github_get ex_github (blob_path ''o/r'' ex_commit_sha) () = (Inr ex_document, ())"
  "(case as_dict ex_document of None \<Rightarrow> Inl e
     | Some blob \<Rightarrow> if obj_get blob ''encoding'' \<noteq> PStr ''base64'' then Inl e
         else need e' (as_str (obj_get blob ''content''))) = Inr ''aGk=''"
  "b64decode (drop_newlines ''aGk='') = Some ''hi''" "utf8_valid ''hi''" "git_blob_sha ex_github ''hi'' = ex_commit_sha"
  "is_repository_name ''o/r''" "hex_of_length 40 ex_commit_sha" "hex_of_length 64 (replicate 64 CHR ''b'')"
  by code_simp+

lemma ex_digest: "repository_snapshot_digest (gh_sha256 ex_github) name sha files = replicate 64 CHR ''b''"
  by (simp add: repository_snapshot_digest_def canonical_hash_def ex_github_def)

lemma snapshot_bounded_witness:
  "\<exists>snapshot :: repository_snapshot. map rf_path (rs_files snapshot) = [''plan.md''] \<and>
     sum_list (map (\<lambda>f. int (length (rf_content f))) (rs_files snapshot)) \<le> 100"
proof -
  have "utf8_length ''hi'' = 2" by code_simp
  then have read_file: "new_repository_file ex_github ''plan.md'' ''hi'' = Inr ex_file"
    using ex_snapshot_steps(17) by (simp add: new_repository_file_def ex_file_def ex_github_def)
  have files: "snapshot_files ex_github ''o/r'' 100 (entries_by_path ex_entries) 0 [''plan.md''] () = (Inr [ex_file], ())"
    by (simp add: act_bind_def act_lift_def act_return_def ex_snapshot_steps(7-14) read_file)
  have made: "new_repository_snapshot ex_github ''o/r'' ex_commit_sha [ex_file] = Inr
      \<lparr>rs_name = ''o/r'', rs_commit = ex_commit_sha, rs_sha256 = replicate 64 CHR ''b'', rs_files = [ex_file]\<rparr>"
    unfolding new_repository_snapshot_def Let_def ex_digest using ex_snapshot_steps(15-17) by simp
  have "\<exists>snapshot. repository_snapshot ex_github ''o/r'' ex_commit_sha [''plan.md''] 100 () = (Inr snapshot, ())"
    by (simp add: repository_snapshot_def act_bind_def act_lift_def act_return_def ex_branch_steps(1) ex_snapshot_steps(1-6) files made
      del: snapshot_files.simps)
  then obtain snapshot where "repository_snapshot ex_github ''o/r'' ex_commit_sha [''plan.md''] 100 () = (Inr snapshot, ())" ..
  note s = snapshot_bounded [OF this]
  show ?thesis
    by (rule exI [of _ snapshot], rule conjI [OF conjunct1 [OF s] conjunct1 [OF conjunct2 [OF conjunct2 [OF conjunct2 [OF s]]]]])
qed

end
