(* ===== verification/LifecycleState.thy ===== *)
theory LifecycleState
  imports Adapter GitHubEvidence
begin

text \<open>
  The two writes of \<^verbatim>\<open>OpenProjectPublicationAdapter\<close> the lifecycle makes beside publication
  (\<^verbatim>\<open>src/planning_platform/openproject_adapter.py\<close>): \<^verbatim>\<open>set_lifecycle_state\<close>, which
  changes the status and the evidence state of a work package and nothing else, and
  \<^verbatim>\<open>ensure_comment\<close>, which adds a comment marked with its idempotency key once. The exchanges
  with OpenProject are the parameter \<open>lifecycle_remote\<close>.
\<close>

section \<open>Status and evidence\<close>

record state_change =
  sc_lock_version :: int
  sc_status_id :: "int option"
  sc_evidence :: "string option"

datatype comment_reply = CommentLost | CommentReply int "pyval option"

record 'w lifecycle_remote =
  lm_get :: "int \<Rightarrow> ('w, work_package) action"
  lm_form :: "int \<Rightarrow> state_change \<Rightarrow> ('w, unit) action"
  lm_patch :: "int \<Rightarrow> state_change \<Rightarrow> 'w \<Rightarrow> http_response \<times> 'w"
  lm_activities :: "int \<Rightarrow> ('w, (pyval \<times> string option) list) action"
  lm_post_comment :: "int \<Rightarrow> string \<Rightarrow> 'w \<Rightarrow> comment_reply \<times> 'w"

type_synonym status_table = "(string, int) dict"

definition status_id_of :: "work_package \<Rightarrow> pyval" where
  "status_id_of w = obj_get (wp_human_fields w) ''status_id''"

definition wanted_status :: "status_table \<Rightarrow> string option \<Rightarrow> exn + int option" where
  "wanted_status statuses status = (case status of
     None \<Rightarrow> Inr None
   | Some s \<Rightarrow> (case dict_get statuses s of
       None \<Rightarrow> Inl (ValueError (''unknown configured lifecycle status: '' @ s)) | Some n \<Rightarrow> Inr (Some n)))"

text \<open>What differs from the work package just read.\<close>

definition status_change :: "work_package \<Rightarrow> int option \<Rightarrow> int option" where
  "status_change current wanted = (case wanted of
     None \<Rightarrow> None | Some n \<Rightarrow> if status_id_of current = PInt n then None else Some n)"

definition evidence_change :: "work_package \<Rightarrow> string option \<Rightarrow> string option" where
  "evidence_change current wanted = (case wanted of
     None \<Rightarrow> None | Some e \<Rightarrow> if wp_evidence_state current = Some e then None else Some e)"

definition set_lifecycle_state ::
  "status_table \<Rightarrow> 'w lifecycle_remote \<Rightarrow> int \<Rightarrow> string option \<Rightarrow> string option \<Rightarrow> ('w, work_package) action" where
  "set_lifecycle_state statuses lm package status evidence =
     act_bind (act_lift (raise_if (status = None \<and> evidence = None)
       (ValueError ''at least one lifecycle field is required''))) (\<lambda>_.
     act_bind (lm_get lm package) (\<lambda>current.
     act_bind (act_lift (wanted_status statuses status)) (\<lambda>wanted.
     act_bind (act_lift (raise_if (case evidence of None \<Rightarrow> False | Some e \<Rightarrow> e = [] \<or> 255 < length e)
       (ValueError ''evidence state must be between 1 and 255 characters''))) (\<lambda>_.
     let change = \<lparr>sc_lock_version = wp_lock_version current, sc_status_id = status_change current wanted,
       sc_evidence = evidence_change current evidence\<rparr> in
     if sc_status_id change = None \<and> sc_evidence change = None then act_return current
     else
       act_bind (lm_form lm package change) (\<lambda>_.
       act_bind (commit (lm_patch lm package change)) (\<lambda>response.
       case response of
         TransportLost \<Rightarrow> act_raise (HttpTransportError ''OpenProject lifecycle update was lost'')
       | HttpResponse code body err \<Rightarrow>
           if code = 409 then act_raise (OpenProjectConflict ''OpenProject lifecycle update conflicted'')
           else if code \<noteq> 200
           then act_raise (OpenProjectPublicationError (''OpenProject lifecycle update returned '' @ show_int code))
           else (case body of
               None \<Rightarrow> act_raise (OpenProjectPublicationError ''OpenProject returned an unexpected JSON document'')
             | Some verified \<Rightarrow>
                 if wanted \<noteq> None \<and> status_change verified wanted \<noteq> None
                 then act_raise (OpenProjectPublicationError ''OpenProject lifecycle status postcondition is absent'')
                 else if evidence \<noteq> None \<and> wp_evidence_state verified \<noteq> evidence
                 then act_raise (OpenProjectPublicationError ''OpenProject lifecycle evidence postcondition is absent'')
                 else act_return verified)))))))"

section \<open>Comments\<close>

definition is_comment_key :: "string \<Rightarrow> bool" where
  "is_comment_key key \<longleftrightarrow> (case key of [] \<Rightarrow> False
     | c # t \<Rightarrow> (is_lower_char c \<or> is_digit_char c) \<and> 7 \<le> length t \<and> length t \<le> 255 \<and> list_all is_key_char t)"

definition comment_marker :: "string \<Rightarrow> string" where
  "comment_marker key = ''<!-- planning-platform:comment:'' @ key @ '' -->''"

definition rendered_comment :: "string \<Rightarrow> string \<Rightarrow> string" where
  "rendered_comment body key = py_rstrip body @ nl @ nl @ comment_marker key"

text \<open>\<^verbatim>\<open>existing()\<close>: the identifier of the one activity that carries the marker.\<close>

fun marked_activities :: "string \<Rightarrow> (pyval \<times> string option) list \<Rightarrow> exn + int list" where
  "marked_activities marker [] = Inr []"
| "marked_activities marker ((identifier, raw) # rest) =
     (if (case raw of None \<Rightarrow> False | Some text \<Rightarrow> py_in marker text)
      then (case identifier of
          PInt n \<Rightarrow> if n \<le> 0 then Inl (OpenProjectPublicationError ''marker-bound activity has an invalid ID'')
            else res_bind (marked_activities marker rest) (\<lambda>ids. Inr (n # ids))
        | _ \<Rightarrow> Inl (OpenProjectPublicationError ''marker-bound activity has an invalid ID''))
      else marked_activities marker rest)"

definition existing_comment :: "'w lifecycle_remote \<Rightarrow> int \<Rightarrow> string \<Rightarrow> ('w, int option) action" where
  "existing_comment lm package marker =
     act_bind (lm_activities lm package) (\<lambda>activities.
     act_bind (act_lift (marked_activities marker activities)) (\<lambda>found.
     case found of
       [] \<Rightarrow> act_return None
     | [n] \<Rightarrow> act_return (Some n)
     | _ \<Rightarrow> act_raise (OpenProjectPublicationError ''duplicate marker-bound OpenProject comments exist'')))"

definition recovered_comment :: "'w lifecycle_remote \<Rightarrow> int \<Rightarrow> string \<Rightarrow> string \<Rightarrow> ('w, int) action" where
  "recovered_comment lm package marker message =
     act_bind (existing_comment lm package marker) (\<lambda>recovered.
     case recovered of Some n \<Rightarrow> act_return n | None \<Rightarrow> act_raise (AmbiguousPublicationEffect message))"

text \<open>\<^verbatim>\<open>commit\<close> for the reply of a POST of a comment.\<close>

definition post_comment :: "('w \<Rightarrow> comment_reply \<times> 'w) \<Rightarrow> ('w, comment_reply) action" where
  "post_comment post w = (case post w of (reply, w') \<Rightarrow> (Inr reply, w'))"

definition ensure_comment :: "'w lifecycle_remote \<Rightarrow> int \<Rightarrow> string \<Rightarrow> string \<Rightarrow> ('w, int) action" where
  "ensure_comment lm package body key =
     act_bind (act_lift (raise_if (py_strip body = [] \<or> 65536 < length body)
       (ValueError ''OpenProject comment must be non-empty and bounded''))) (\<lambda>_.
     act_bind (act_lift (raise_if (\<not> is_comment_key key)
       (ValueError ''OpenProject comment idempotency key is invalid''))) (\<lambda>_.
     act_bind (existing_comment lm package (comment_marker key)) (\<lambda>found.
     case found of
       Some n \<Rightarrow> act_return n
     | None \<Rightarrow>
         act_bind (post_comment (lm_post_comment lm package (rendered_comment body key))) (\<lambda>reply.
         case reply of
           CommentLost \<Rightarrow> recovered_comment lm package (comment_marker key)
             ''OpenProject comment response was lost and its marker is absent''
         | CommentReply code identifier \<Rightarrow>
             if code \<noteq> 201 then
               if possibly_committed code then recovered_comment lm package (comment_marker key)
                 ''OpenProject comment returned a possibly committed server failure''
               else act_raise (OpenProjectPublicationError (''OpenProject comment returned '' @ show_int code))
             else (case identifier of
                 None \<Rightarrow> act_raise (OpenProjectPublicationError ''OpenProject returned an unexpected JSON document'')
               | Some v \<Rightarrow>
                   (case (case v of PInt n \<Rightarrow> if 0 < n then Some n else None | _ \<Rightarrow> None) of
                      Some n \<Rightarrow> act_return n
                    | None \<Rightarrow> recovered_comment lm package (comment_marker key)
                        ''OpenProject acknowledged a comment without a verifiable marker''))))))"

end
