(* ===== verification/ReplanRequest.thy ===== *)
theory ReplanRequest
  imports Examples GitHubArtifacts
begin

text \<open>
  The partial replan an operator authorizes: \<^verbatim>\<open>ReplanContext\<close> and
  \<^verbatim>\<open>StartPlanRequest\<close> of \<^verbatim>\<open>src/planning_platform/planner/models.py\<close> with their
  validators, and \<^verbatim>\<open>_prior_descendant_keys\<close> of \<^verbatim>\<open>lifecycle/service.py\<close>, which
  derives the affected nodes from the selected roots. Both closures are shown to be the
  descendants of the roots.
\<close>

section \<open>Descendants\<close>

definition expand_closure :: "backlog_item list \<Rightarrow> string set \<Rightarrow> string set" where
  "expand_closure items closure =
     closure \<union> set (map bi_key (filter (\<lambda>i. case bi_parent i of None \<Rightarrow> False | Some p \<Rightarrow> p \<in> closure) items))"

function descendant_closure :: "backlog_item list \<Rightarrow> string set \<Rightarrow> string set" where
  "descendant_closure items closure =
     (let expanded = expand_closure items closure in
      if expanded = closure then closure else descendant_closure items expanded)"
  by pat_completeness auto
termination
proof (relation "measure (\<lambda>(items, closure). card (set (map bi_key items) - closure))", goal_cases)
  case 1
  then show ?case by simp
next
  case (2 items closure x)
  then obtain k where k: "k \<in> set (map bi_key items)" "k \<notin> closure" "k \<in> x"
    by (auto simp: expand_closure_def)
  have "set (map bi_key items) - x \<subset> set (map bi_key items) - closure"
    using k 2 by (auto simp: expand_closure_def)
  then show ?case by (simp add: psubset_card_mono)
qed

declare descendant_closure.simps [simp del]

definition prior_descendant_keys :: "backlog_plan \<Rightarrow> string set \<Rightarrow> string list" where
  "prior_descendant_keys prior roots =
     map bi_key (filter (\<lambda>i. bi_key i \<in> descendant_closure (bp_items prior) roots) (bp_items prior))"

section \<open>The request\<close>

record replan_request =
  rq_prior_plan :: backlog_plan
  rq_base_commit :: string
  rq_selected_roots :: "string list"
  rq_affected_keys :: "string list"
  rq_reason :: string

text \<open>The walk from one root upwards: whether it meets another selected root.\<close>

function root_nested ::
  "(string, backlog_item) dict \<Rightarrow> string list \<Rightarrow> string list \<Rightarrow> string option \<Rightarrow> bool" where
  "root_nested prior roots seen current =
     (case current of
        None \<Rightarrow> False
      | Some c \<Rightarrow>
          if c \<in> set seen then False
          else if c \<in> set roots then True
          else (case dict_get prior c of
              None \<Rightarrow> False
            | Some i \<Rightarrow> root_nested prior roots (c # seen) (bi_parent i)))"
  by pat_completeness auto
termination
proof (relation "measure (\<lambda>(prior, roots, seen, current). length (filter (\<lambda>k. k \<notin> set seen) (dict_keys prior)))", goal_cases)
  case 1
  then show ?case by simp
next
  case (2 prior roots seen current c i)
  then have "c \<in> set (dict_keys prior)" by (force dest: map_of_SomeD)
  from length_filter_notin_Cons [OF this 2(2)] show ?case by simp
qed

declare root_nested.simps [simp del]

definition check_replan_request :: "replan_request \<Rightarrow> exn + unit" where
  "check_replan_request q =
     (let prior = by_key (rq_prior_plan q); roots = rq_selected_roots q in
      res_bind (raise_if (\<not> distinct roots \<or> list_ex (\<lambda>k. dict_get prior k = None) roots)
        (ValueError ''replan selected roots must be unique prior node keys'')) (\<lambda>_.
      res_bind (raise_if (\<not> distinct (rq_affected_keys q))
        (ValueError ''replan affected node keys must be unique'')) (\<lambda>_.
      res_bind (res_iter (\<lambda>root. raise_if (root_nested prior roots [root] (Option.bind (dict_get prior root) bi_parent))
        (ValueError ''replan selected roots must not be nested'')) roots) (\<lambda>_.
      raise_if (set (rq_affected_keys q) \<noteq> descendant_closure (bp_items (rq_prior_plan q)) (set roots))
        (ValueError ''replan affected node keys must equal the selected-root descendant closure'')))))"

text \<open>The fields of the two classes, then the validators.\<close>

definition new_replan_request :: "replan_request \<Rightarrow> exn + replan_request" where
  "new_replan_request q =
     res_bind (raise_if (\<not> (hex_of_length 40 (rq_base_commit q) \<and> rq_selected_roots q \<noteq> [] \<and> rq_affected_keys q \<noteq> [] \<and>
         list_all is_stable_node_key (rq_selected_roots q) \<and> list_all is_stable_node_key (rq_affected_keys q) \<and>
         rq_reason q \<noteq> [] \<and> length (rq_reason q) \<le> 4096)) (ValueError ''replan context is invalid'')) (\<lambda>_.
     res_bind (check_replan_request q) (\<lambda>_. Inr q))"

record idea_snapshot =
  is_work_package_id :: int
  is_lock_version :: int
  is_updated_at :: int
  is_title :: string
  is_description :: string

record start_request =
  sq_idempotency_key :: string
  sq_trace_id :: string
  sq_idea :: idea_snapshot
  sq_plan_id :: string
  sq_plan_version :: int
  sq_idea_sha256 :: string
  sq_captured_at :: string
  sq_etag :: string
  sq_snapshot_sha256 :: string
  sq_repositories :: "repository_snapshot list"
  sq_replan :: "replan_request option"

text \<open>
  The model validator of \<^verbatim>\<open>StartPlanRequest\<close>; the digest of the idea and the bound on the
  serialized size are pydantic's text of the request, here \<open>digest\<close> and \<open>fits\<close>.
\<close>

definition new_start_request :: "(start_request \<Rightarrow> string) \<Rightarrow> (start_request \<Rightarrow> bool) \<Rightarrow> start_request \<Rightarrow> exn + start_request" where
  "new_start_request digest fits r =
     res_bind (raise_if (digest r \<noteq> sq_idea_sha256 r) (ValueError ''Idea fields do not match idea_sha256'')) (\<lambda>_.
     res_bind (raise_if (case sq_replan r of None \<Rightarrow> False
         | Some q \<Rightarrow> let prior = bp_plan (rq_prior_plan q) in
             plan_id prior \<noteq> sq_plan_id r \<or> sq_plan_version r \<le> plan_version prior \<or>
             si_work_package_id (plan_source_idea prior) \<noteq> is_work_package_id (sq_idea r))
       (ValueError ''replan context does not bind an earlier plan for this Idea'')) (\<lambda>_.
     res_bind (raise_if (\<not> fits r) (ValueError ''planner request exceeds its size bound'')) (\<lambda>_. Inr r)))"

section \<open>The closure is the set of descendants\<close>

definition child_of :: "backlog_item list \<Rightarrow> (string \<times> string) set" where
  "child_of items = {(k, p). \<exists>i \<in> set items. bi_key i = k \<and> bi_parent i = Some p}"

lemma expand_closure_image: "expand_closure items closure = closure \<union> {k. \<exists>p \<in> closure. (k, p) \<in> child_of items}"
  by (auto simp: expand_closure_def child_of_def image_iff split: option.splits)

lemma closure_closed:
  assumes "expand_closure items closure = closure" and "(k, r) \<in> (child_of items)\<^sup>*" and "r \<in> closure"
  shows "k \<in> closure"
  using assms(2,3)
proof (induction rule: converse_rtrancl_induct)
  case (step x y)
  then have "x \<in> expand_closure items closure" by (auto simp: expand_closure_image)
  with assms(1) show ?case by simp
qed

lemma descendants_expand:
  "{k. \<exists>r \<in> expand_closure items closure. (k, r) \<in> (child_of items)\<^sup>*} = {k. \<exists>r \<in> closure. (k, r) \<in> (child_of items)\<^sup>*}"
  by (auto simp: expand_closure_image intro: rtrancl_into_rtrancl)

lemma descendant_closure_exact:
  "descendant_closure items roots = {k. \<exists>r \<in> roots. (k, r) \<in> (child_of items)\<^sup>*}"
proof (induction items roots rule: descendant_closure.induct)
  case (1 items closure)
  show ?case
  proof (cases "expand_closure items closure = closure")
    case True
    then show ?thesis
      using closure_closed [OF True] by (auto simp: descendant_closure.simps [of items closure])
  next
    case False
    with 1 [OF refl False] descendants_expand [of items closure] show ?thesis
      by (simp add: descendant_closure.simps [of items closure] Let_def)
  qed
qed

text \<open>
  C15: The scope the service derives from the selected roots is the scope the request demands: the
  loop ends, the affected keys are exactly the roots and their descendants in the order of the
  prior plan, and a request built from them is refused only for its roots (unknown, repeated or
  nested ones), never for its affected keys.
\<close>

theorem derived_scope_accepted:
  assumes "distinct (map bi_key (bp_items prior))"
    and "set roots \<subseteq> set (map bi_key (bp_items prior))" and "distinct roots"
  shows "set (prior_descendant_keys prior (set roots)) = {k. \<exists>r \<in> set roots. (k, r) \<in> (child_of (bp_items prior))\<^sup>*} \<and>
    check_replan_request \<lparr>rq_prior_plan = prior, rq_base_commit = commit_id, rq_selected_roots = roots,
        rq_affected_keys = prior_descendant_keys prior (set roots), rq_reason = reason\<rparr> =
      raise_if (list_ex (\<lambda>root. root_nested (by_key prior) roots [root] (Option.bind (dict_get (by_key prior) root) bi_parent)) roots)
        (ValueError ''replan selected roots must not be nested'')"
proof -
  let ?closure = "descendant_closure (bp_items prior) (set roots)"
  have "?closure \<subseteq> set (map bi_key (bp_items prior))"
  proof
    fix k
    assume "k \<in> ?closure"
    then obtain r where r: "r \<in> set roots" "(k, r) \<in> (child_of (bp_items prior))\<^sup>*"
      by (auto simp: descendant_closure_exact)
    from r(2) show "k \<in> set (map bi_key (bp_items prior))"
      by (rule converse_rtranclE) (use r(1) assms(2) in \<open>auto simp: child_of_def\<close>)
  qed
  then have keys: "set (prior_descendant_keys prior (set roots)) = ?closure"
    by (auto simp: prior_descendant_keys_def)
  have "distinct (prior_descendant_keys prior (set roots))"
    using assms(1) by (simp add: prior_descendant_keys_def distinct_map_filter)
  moreover have "\<not> list_ex (\<lambda>k. dict_get (by_key prior) k = None) roots"
    using assms(2) by (auto simp: list_ex_iff dict_get_None by_key_def set_dict_of)
  moreover have "res_iter (\<lambda>r. raise_if (p r) e) rs = raise_if (list_ex p rs) e" for p and e :: exn and rs :: "string list"
    by (induction rs) (auto simp: raise_if_def)
  ultimately show ?thesis
    using keys assms(3) by (auto simp: check_replan_request_def descendant_closure_exact raise_if_def Let_def)
qed

theorem derived_scope_accepted_witness:
  "set (prior_descendant_keys ex_plan (set [''epic-one''])) = {k. \<exists>r \<in> set [''epic-one'']. (k, r) \<in> (child_of (bp_items ex_plan))\<^sup>*} \<and>
   check_replan_request \<lparr>rq_prior_plan = ex_plan, rq_base_commit = ex_commit_sha, rq_selected_roots = [''epic-one''],
     rq_affected_keys = prior_descendant_keys ex_plan (set [''epic-one'']), rq_reason = ''scope''\<rparr> = Inr ()"
proof -
  have keys: "map bi_key (bp_items ex_plan) = [''epic-one'', ''task-one'', ''task-two'']" by code_simp
  have flat: "list_ex (\<lambda>root. root_nested (by_key ex_plan) [''epic-one''] [root]
      (Option.bind (dict_get (by_key ex_plan) root) bi_parent)) [''epic-one''] = False"
    by code_simp
  note accepted = derived_scope_accepted [of ex_plan "[''epic-one'']" ex_commit_sha "''scope''", unfolded keys flat raise_if_False]
  show ?thesis by (rule accepted) simp_all
qed

end
