(* ===== verification/PlannerTypes.thy ===== *)
theory PlannerTypes
  imports ReplanRequest
begin

text \<open>
  The contract between the lifecycle and the planner: the requests and responses of
  \<^verbatim>\<open>src/planning_platform/planner/models.py\<close> with their validators, and the client of
  \<^verbatim>\<open>src/planning_platform/lifecycle/planner_client.py\<close>.
\<close>

section \<open>Requests\<close>

record planner_event =
  pl_idempotency_key :: string
  pl_trace_id :: string

record resume_request =
  rr_event :: planner_event
  rr_interrupt_id :: string
  rr_comment_id :: int
  rr_comment_created_at :: int
  rr_answer :: string

definition new_resume_request :: "(resume_request \<Rightarrow> bool) \<Rightarrow> resume_request \<Rightarrow> exn + resume_request" where
  "new_resume_request fits r =
     res_bind (raise_if (\<not> (8 \<le> length (pl_idempotency_key (rr_event r)) \<and> length (pl_idempotency_key (rr_event r)) \<le> 255 \<and>
         rr_interrupt_id r \<noteq> [] \<and> 1 \<le> rr_comment_id r \<and> rr_answer r \<noteq> [] \<and> length (rr_answer r) \<le> 65536))
       (ValueError ''resume request is invalid'')) (\<lambda>_.
     res_bind (raise_if (\<not> fits r) (ValueError ''planner request exceeds its size bound'')) (\<lambda>_. Inr r))"

text \<open>The request of an operator: abandon a terminal resume, or reopen a failed critique.\<close>

record operator_request =
  or_idempotency_key :: string
  or_interrupt_id :: string
  or_comment_id :: int
  or_comment_created_at :: int
  or_operator :: string
  or_reason :: string

definition operator_request_ok :: "operator_request \<Rightarrow> bool" where
  "operator_request_ok r \<longleftrightarrow> 8 \<le> length (or_idempotency_key r) \<and> length (or_idempotency_key r) \<le> 255 \<and>
     or_interrupt_id r \<noteq> [] \<and> length (or_interrupt_id r) \<le> 255 \<and> 1 \<le> or_comment_id r \<and>
     or_operator r \<noteq> [] \<and> length (or_operator r) \<le> 255 \<and> or_reason r \<noteq> [] \<and> length (or_reason r) \<le> 1024"

definition new_abandon_request :: "operator_request \<Rightarrow> exn + operator_request" where
  "new_abandon_request r =
     (if operator_request_ok r then Inr r else Inl (ValueError ''terminal resume abandonment request is invalid''))"

text \<open>\<^verbatim>\<open>[A-Za-z0-9][A-Za-z0-9_.:@/-]{0,254}\<close>\<close>

definition is_alnum_char :: "char \<Rightarrow> bool" where
  "is_alnum_char c \<longleftrightarrow> is_lower_char c \<or> is_digit_char c \<or> (CHR ''A'' \<le> c \<and> c \<le> CHR ''Z'')"

definition is_operator_name :: "string \<Rightarrow> bool" where
  "is_operator_name s \<longleftrightarrow> (case s of [] \<Rightarrow> False
     | c # t \<Rightarrow> is_alnum_char c \<and> length t \<le> 254 \<and> list_all (\<lambda>d. is_alnum_char d \<or> d \<in> set ''_.:@/-'') t)"

definition new_convert_request :: "operator_request \<Rightarrow> exn + operator_request" where
  "new_convert_request r =
     res_bind (raise_if (\<not> operator_request_ok r \<or> \<not> is_operator_name (or_operator r))
       (ValueError ''critique correction request is invalid'')) (\<lambda>_.
     res_bind (raise_if (list_ex (\<lambda>c. c \<in> {CHR 0x0D, CHR 0x0A, CHR ''{'', CHR ''}''}) (or_reason r))
       (ValueError ''critique correction reason must be bounded plain text'')) (\<lambda>_. Inr r))"

section \<open>The start request\<close>

definition new_idea_snapshot :: "idea_snapshot \<Rightarrow> exn + idea_snapshot" where
  "new_idea_snapshot i =
     (if 1 \<le> is_work_package_id i \<and> 0 \<le> is_lock_version i \<and> is_title i \<noteq> [] \<and> length (is_description i) \<le> 65536
      then Inr i else Inl (ValueError ''Idea snapshot is invalid''))"

text \<open>\<^verbatim>\<open>^[a-z0-9][a-z0-9-]{2,63}$\<close>\<close>

definition is_plan_id :: "string \<Rightarrow> bool" where
  "is_plan_id s \<longleftrightarrow> (case s of [] \<Rightarrow> False
     | c # t \<Rightarrow> (is_lower_char c \<or> is_digit_char c) \<and> 2 \<le> length t \<and> length t \<le> 63 \<and>
         list_all (\<lambda>d. is_lower_char d \<or> is_digit_char d \<or> d = CHR ''-'') t)"

definition start_fields_ok :: "start_request \<Rightarrow> bool" where
  "start_fields_ok r \<longleftrightarrow> 8 \<le> length (sq_idempotency_key r) \<and> length (sq_idempotency_key r) \<le> 255 \<and> is_plan_id (sq_plan_id r) \<and>
     1 \<le> sq_plan_version r \<and> hex_of_length 64 (sq_idea_sha256 r) \<and> sq_etag r \<noteq> [] \<and> hex_of_length 64 (sq_snapshot_sha256 r) \<and>
     sq_repositories r \<noteq> [] \<and> length (sq_repositories r) \<le> 20"

definition build_start_request :: "(start_request \<Rightarrow> string) \<Rightarrow> (start_request \<Rightarrow> bool) \<Rightarrow> start_request \<Rightarrow> exn + start_request" where
  "build_start_request digest fits r =
     res_bind (raise_if (\<not> start_fields_ok r) (ValueError ''start request is invalid'')) (\<lambda>_. new_start_request digest fits r)"

section \<open>Responses\<close>

record pending_interrupt =
  pi_interrupt_id :: string
  pi_questions :: "string list"
  pi_impact :: string
  pi_created_at :: int

text \<open>The manifest as the pairs of path and SHA-256.\<close>

record plan_response =
  ps_thread_id :: string
  ps_status :: string
  ps_trace_id :: string
  ps_interrupt :: "pending_interrupt option"
  ps_manifest :: "(string \<times> string) list"

record artifact_content =
  ac_path :: string
  ac_sha256 :: string
  ac_content :: string

section \<open>The client\<close>

datatype planner_body =
    NoBody
  | StartBody start_request
  | ResumeBody resume_request
  | OperatorBody operator_request

text \<open>
  \<open>pc_http\<close> is the HTTP exchange with the planner, \<open>pc_response\<close> and \<open>pc_bundle\<close> are pydantic's
  reading of a JSON object as a response and as a bundle.
\<close>

record 'w planner_client =
  pc_http :: "string \<Rightarrow> string \<Rightarrow> planner_body \<Rightarrow> ('w, http_reply) action"
  pc_response :: "pydict \<Rightarrow> exn + plan_response"
  pc_bundle :: "pydict \<Rightarrow> exn + artifact_content list"

definition planner_request :: "'w planner_client \<Rightarrow> string \<Rightarrow> string \<Rightarrow> planner_body \<Rightarrow> ('w, pydict) action" where
  "planner_request pc verb path body =
     act_bind (pc_http pc verb path body) (\<lambda>reply.
     if rp_status reply = 404 then act_raise (PlannerThreadNotFound ''planner thread was not found'')
     else if 400 \<le> rp_status reply
     then act_raise (PlannerClientError (''planner request failed with status '' @ show_int (rp_status reply)))
     else case rp_json reply of
       None \<Rightarrow> act_raise (PlannerClientError ''planner response is not JSON'')
     | Some v \<Rightarrow> act_lift (need (PlannerClientError ''planner response must be an object'') (as_dict v)))"

definition planner_call :: "'w planner_client \<Rightarrow> string \<Rightarrow> string \<Rightarrow> planner_body \<Rightarrow> ('w, plan_response) action" where
  "planner_call pc verb path body = act_bind (planner_request pc verb path body) (\<lambda>v. act_lift (pc_response pc v))"

definition planner_start :: "'w planner_client \<Rightarrow> start_request \<Rightarrow> ('w, plan_response) action" where
  "planner_start pc r = planner_call pc ''POST'' ''/v1/plans'' (StartBody r)"

definition planner_get :: "'w planner_client \<Rightarrow> string \<Rightarrow> ('w, plan_response) action" where
  "planner_get pc thread = planner_call pc ''GET'' (''/v1/plans/'' @ thread) NoBody"

definition planner_resume :: "'w planner_client \<Rightarrow> string \<Rightarrow> resume_request \<Rightarrow> ('w, plan_response) action" where
  "planner_resume pc thread r = planner_call pc ''POST'' (''/v1/plans/'' @ thread @ ''/resume'') (ResumeBody r)"

definition planner_abandon :: "'w planner_client \<Rightarrow> string \<Rightarrow> operator_request \<Rightarrow> ('w, plan_response) action" where
  "planner_abandon pc thread r =
     planner_call pc ''POST'' (''/v1/plans/'' @ thread @ ''/abandon-terminal-resume'') (OperatorBody r)"

definition planner_convert :: "'w planner_client \<Rightarrow> string \<Rightarrow> operator_request \<Rightarrow> ('w, plan_response) action" where
  "planner_convert pc thread r =
     planner_call pc ''POST'' (''/v1/plans/'' @ thread @ ''/convert-failed-critique-to-interrupt'') (OperatorBody r)"

definition planner_artifacts :: "'w planner_client \<Rightarrow> string \<Rightarrow> ('w, artifact_content list) action" where
  "planner_artifacts pc thread =
     act_bind (planner_request pc ''GET'' (''/v1/plans/'' @ thread @ ''/artifacts'') NoBody) (\<lambda>v. act_lift (pc_bundle pc v))"

text \<open>\<^verbatim>\<open>try: get  except PlannerThreadNotFound: start\<close>\<close>

definition get_or_start :: "'w planner_client \<Rightarrow> string \<Rightarrow> (exn + start_request) \<Rightarrow> ('w, plan_response) action" where
  "get_or_start pc thread recovered =
     act_catch (planner_get pc thread) (\<lambda>e. case e of
       PlannerThreadNotFound m \<Rightarrow> act_bind (act_lift recovered) (planner_start pc)
     | _ \<Rightarrow> act_raise e)"

end
