(* ===== verification/ServiceBase.thy ===== *)
theory ServiceBase
  imports LifecycleState PlannerTypes Associations IdeaText
begin

text \<open>
  What every handler of \<^verbatim>\<open>LifecycleService\<close> (\<^verbatim>\<open>src/planning_platform/lifecycle/service.py\<close>)
  works with: its collaborators, its state (the lifecycle database, a publication journal and the
  OpenProject adapter, whose world GitHub shares), reading an event, recovering the request of a
  run, the artifact of a published plan, and the audited outcome.
\<close>

section \<open>Collaborators and state\<close>

text \<open>
  \<open>sv_parse\<close> is the schema and pydantic reading of a YAML document. The recovery cipher seals and
  opens the requests of a thread (\<open>sv_open_request\<close>, \<open>sv_open_resume\<close> decrypt and parse);
  \<open>sv_read_package\<close> reads one HAL document; \<open>sv_request_digest\<close> and \<open>sv_start_fits\<close>,
  \<open>sv_resume_fits\<close> are the digest and the size of pydantic's text of a request; \<open>sv_iso\<close> writes an
  instant, \<open>sv_text\<close> is Python's text of a value that is not a string, \<open>sv_now\<close> is the clock.
\<close>

record ('w, 'j) service =
  sv_github :: "'w github"
  sv_remote :: "'w openproject_remote"
  sv_lifecycle :: "'w lifecycle_remote"
  sv_config :: op_config
  sv_statuses :: status_table
  sv_journal :: "'j journal_ops"
  sv_open_journal :: "'j \<Rightarrow> 'j"
  sv_sha :: "string \<Rightarrow> string"
  sv_schema_error :: "backlog_plan \<Rightarrow> string option"
  sv_parse :: "string \<Rightarrow> exn + backlog_plan"
  sv_open_request :: "string \<Rightarrow> string \<Rightarrow> exn + start_request"
  sv_iso :: "int \<Rightarrow> string"
  sv_now :: "'w \<Rightarrow> int"
  sv_required_checks :: "(string, string list) dict"
  sv_planner :: "'w planner_client"
  sv_open_resume :: "string \<Rightarrow> string \<Rightarrow> exn + resume_request"
  sv_seal_start :: "string \<Rightarrow> start_request \<Rightarrow> ('w, string) action"
  sv_seal_resume :: "string \<Rightarrow> resume_request \<Rightarrow> ('w, string) action"
  sv_read_package :: "int \<Rightarrow> ('w, pydict) action"
  sv_planning_repository :: string
  sv_request_digest :: "start_request \<Rightarrow> string"
  sv_start_fits :: "start_request \<Rightarrow> bool"
  sv_resume_fits :: "resume_request \<Rightarrow> bool"
  sv_sanitize :: "string \<Rightarrow> string"
  sv_text :: "pyval \<Rightarrow> string"
  sv_uuid5 :: "string \<Rightarrow> string"
  sv_correction_lock :: "string \<Rightarrow> int \<Rightarrow> ('w, unit) action"
  sv_correction_unlock :: "'w \<Rightarrow> 'w"
  sv_implementation_stale_after :: int
  sv_thread_stale_after :: int

type_synonym ('w, 'j) service_state = "lifecycle_db \<times> ('j \<times> 'w openproject_adapter)"

definition on_world :: "('w, 'r) action \<Rightarrow> (('w, 'j) service_state, 'r) action" where
  "on_world m = on_snd (on_snd (with_world m))"

definition on_publication :: "('j \<times> 'w openproject_adapter, 'r) action \<Rightarrow> (('w, 'j) service_state, 'r) action" where
  "on_publication m = on_snd m"

text \<open>A query of the lifecycle store, and an update at the present time.\<close>

definition store_query :: "(lifecycle_db \<Rightarrow> 'r) \<Rightarrow> (('w, 'j) service_state, 'r) action" where
  "store_query f s = (Inr (f (fst s)), s)"

definition store_update ::
  "('w, 'j) service \<Rightarrow> (int \<Rightarrow> (lifecycle_db, 'r) action) \<Rightarrow> (('w, 'j) service_state, 'r) action" where
  "store_update sv f s = on_fst (f (sv_now sv (ad_world (snd (snd s))))) s"

definition rejected :: "string \<Rightarrow> exn" where
  "rejected message = LifecycleEventRejected message"

definition reject_if :: "bool \<Rightarrow> string \<Rightarrow> ('s, unit) action" where
  "reject_if c message = act_lift (raise_if c (rejected message))"

section \<open>Reading an event\<close>

definition event_payload :: "event_envelope \<Rightarrow> pydict" where
  "event_payload e = (case as_dict (ev_payload e) of None \<Rightarrow> [] | Some d \<Rightarrow> d)"

definition payload_object :: "pydict \<Rightarrow> string \<Rightarrow> exn + pydict" where
  "payload_object payload key = need (rejected (''event payload has no '' @ key @ '' object'')) (as_dict (obj_get payload key))"

definition positive_int :: "pyval \<Rightarrow> string \<Rightarrow> exn + int" where
  "positive_int value label = (case as_int value of
     Some n \<Rightarrow> if n \<le> 0 then Inl (rejected (label @ '' must be a positive integer'')) else Inr n
   | None \<Rightarrow> Inl (rejected (label @ '' must be a positive integer'')))"

definition full_commit :: "pyval \<Rightarrow> string option" where
  "full_commit v = (case as_str v of Some s \<Rightarrow> if hex_of_length 40 s then Some s else None | None \<Rightarrow> None)"

definition nonnegative_int :: "pyval \<Rightarrow> string \<Rightarrow> exn + int" where
  "nonnegative_int value label = (case as_int value of
     Some n \<Rightarrow> if n < 0 then Inl (rejected (label @ '' must be a nonnegative integer'')) else Inr n
   | None \<Rightarrow> Inl (rejected (label @ '' must be a nonnegative integer'')))"

definition timestamp :: "('w, 'j) service \<Rightarrow> pyval \<Rightarrow> string \<Rightarrow> exn + int" where
  "timestamp sv value label =
     res_bind (need (rejected (label @ '' must be an RFC3339 timestamp'')) (as_str value)) (\<lambda>text.
     res_bind (need (rejected (label @ '' must be an RFC3339 timestamp'')) (gh_instant (sv_github sv) text)) (\<lambda>parsed.
     need (rejected (label @ '' must include a timezone'')) parsed))"

definition titled_link :: "pydict \<Rightarrow> string \<Rightarrow> exn + string" where
  "titled_link value key =
     need (rejected (''work package has no '' @ key @ '' title''))
       (as_str (dict_field (dict_field (obj_get value ''_links'') key) ''title''))"

text \<open>\<^verbatim>\<open>str(v)\<close>, and the default of \<^verbatim>\<open>value.get(key, "")\<close>.\<close>

definition str_of :: "('w, 'j) service \<Rightarrow> pyval \<Rightarrow> string" where
  "str_of sv v = (case as_str v of Some s \<Rightarrow> s | None \<Rightarrow> sv_text sv v)"

definition text_get :: "pydict \<Rightarrow> string \<Rightarrow> pyval" where
  "text_get d key = (case dict_get d key of None \<Rightarrow> PStr [] | Some v \<Rightarrow> v)"

definition description_of :: "('w, 'j) service \<Rightarrow> pydict \<Rightarrow> string" where
  "description_of sv value =
     (let v = (case as_dict (text_get value ''description'') of Some d \<Rightarrow> text_get d ''raw'' | None \<Rightarrow> text_get value ''description'')
      in if py_truthy (Some v) then str_of sv v else [])"

section \<open>The audited outcome\<close>

record lifecycle_outcome =
  lo_action :: string
  lo_outcome :: string
  lo_plan_id :: "string option"
  lo_plan_version :: "int option"
  lo_work_package_id :: "int option"
  lo_pull_request_number :: "int option"
  lo_operation_count :: "nat option"
  lo_applied_count :: "nat option"
  lo_resumed :: "bool option"

definition new_outcome :: "string \<Rightarrow> string \<Rightarrow> lifecycle_outcome" where
  "new_outcome act outcome = \<lparr>lo_action = act, lo_outcome = outcome, lo_plan_id = None, lo_plan_version = None,
     lo_work_package_id = None, lo_pull_request_number = None, lo_operation_count = None, lo_applied_count = None,
     lo_resumed = None\<rparr>"

definition detail :: "string \<Rightarrow> ('a \<Rightarrow> pyval) \<Rightarrow> 'a option \<Rightarrow> pydict" where
  "detail key f v = (case v of None \<Rightarrow> [] | Some x \<Rightarrow> [(key, f x)])"

definition outcome_details :: "lifecycle_outcome \<Rightarrow> pydict" where
  "outcome_details o' =
     [(''action'', PStr (lo_action o')), (''outcome'', PStr (lo_outcome o'))] @
     detail ''plan_id'' PStr (lo_plan_id o') @ detail ''plan_version'' PInt (lo_plan_version o') @
     detail ''work_package_id'' PInt (lo_work_package_id o') @
     detail ''pull_request_number'' PInt (lo_pull_request_number o') @
     detail ''operation_count'' (\<lambda>n. PInt (int n)) (lo_operation_count o') @
     detail ''applied_operation_count'' (\<lambda>n. PInt (int n)) (lo_applied_count o') @
     detail ''resumed'' PBool (lo_resumed o')"

definition finish :: "event_envelope \<Rightarrow> lifecycle_outcome \<Rightarrow> (('w, 'j) service_state, lifecycle_outcome) action" where
  "finish e o' s = (Inr o', (store_audit (ev_event_id e) (ev_trace_id e) (lo_action o') (lo_outcome o')
     (outcome_details o') (fst s), snd s))"

section \<open>Artifacts of a run\<close>

text \<open>\<^verbatim>\<open>load_artifact_bytes\<close> of \<^verbatim>\<open>src/planning_platform/loader.py\<close>.\<close>

definition load_artifact_bytes :: "('w, 'j) service \<Rightarrow> string \<Rightarrow> exn + loaded_artifact" where
  "load_artifact_bytes sv raw = res_bind (sv_parse sv raw) (\<lambda>plan.
     Inr \<lparr>la_plan = plan, la_sha256 = gh_sha256 (sv_github sv) raw, la_blob_sha1 = git_blob_sha (sv_github sv) raw\<rparr>)"

definition recover_start_request :: "('w, 'j) service \<Rightarrow> plan_run \<Rightarrow> exn + start_request" where
  "recover_start_request sv run =
     (case sv_open_request sv (lr_thread_id run) (lr_start_request run) of
        Inr r \<Rightarrow> Inr r
      | Inl e \<Rightarrow> if is_value_error e then Inl (rejected ''lifecycle run has no recoverable planner start request'') else Inl e)"

definition same_plan :: "loaded_artifact \<Rightarrow> plan_run \<Rightarrow> bool" where
  "same_plan a run \<longleftrightarrow> plan_id (bp_plan (la_plan a)) = lr_plan_id run \<and> plan_version (bp_plan (la_plan a)) = lr_plan_version run \<and>
     si_work_package_id (plan_source_idea (bp_plan (la_plan a))) = lr_idea_id run"

definition published_artifact :: "('w, 'j) service \<Rightarrow> plan_run \<Rightarrow> (('w, 'j) service_state, loaded_artifact) action" where
  "published_artifact sv run =
     (case (lr_approved_commit run, lr_blob_sha1 run, lr_backlog_sha256 run) of
        (Some sha, Some blob, Some digest) \<Rightarrow>
          act_bind (reject_if (lr_state run \<noteq> RunPublished \<or> lr_evidence_sha256 run = None)
            ''active published plan is missing immutable artifact bindings'') (\<lambda>_.
          act_bind (act_lift (new_binding (lr_repository run) sha (lr_backlog_path run) blob digest)) (\<lambda>binding.
          act_bind (on_world (read_immutable_artifact (sv_github sv) binding)) (\<lambda>raw.
          act_bind (act_lift (load_artifact_bytes sv raw)) (\<lambda>a.
          act_bind (reject_if (\<not> same_plan a run \<or> la_blob_sha1 a \<noteq> blob \<or> la_sha256 a \<noteq> digest)
            ''active published artifact does not match its lifecycle binding'') (\<lambda>_.
          act_return a)))))
      | _ \<Rightarrow> act_raise (rejected ''active published plan is missing immutable artifact bindings''))"

end
