(* ===== verification/MergeGate.thy ===== *)
theory MergeGate
  imports ServiceBase
begin

text \<open>
  The merge of a planning pull request (\<^verbatim>\<open>_pull_request\<close> of
  \<^verbatim>\<open>src/planning_platform/lifecycle/service.py\<close>): the approval evidence is read from GitHub
  and recorded, the merged backlog is bound and published, and the run ends published or blocked.
\<close>

section \<open>Approval\<close>

definition required_planning_checks :: "string list" where
  "required_planning_checks = [''planning-backlog-validation'']"

text \<open>\<^verbatim>\<open>evidence.model_dump(mode="json")\<close>.\<close>

definition review_json :: "(int \<Rightarrow> string) \<Rightarrow> review_evidence \<Rightarrow> pyval" where
  "review_json text_of r = PDict
     [(''id'', PInt (rv_id r)), (''actor_id'', PInt (rv_actor_id r)), (''actor_login'', PStr (rv_login r)),
      (''state'', PStr (rv_state r)), (''submitted_at'', PStr (text_of (rv_submitted_at r))), (''commit_sha'', PStr (rv_commit_sha r))]"

definition check_json :: "check_evidence \<Rightarrow> pyval" where
  "check_json c = PDict
     [(''id'', PInt (ce_id c)), (''name'', PStr (ce_name c)), (''head_sha'', PStr (ce_head_sha c)),
      (''app_id'', PInt (ce_app_id c)), (''app_slug'', PStr (ce_app_slug c)), (''status'', PStr (ce_status c)),
      (''conclusion'', py_opt_str (ce_conclusion c)), (''details_url'', py_opt_str (ce_details_url c))]"

definition evidence_json :: "(int \<Rightarrow> string) \<Rightarrow> pull_request_evidence \<Rightarrow> pyval" where
  "evidence_json text_of ev = PDict
     [(''repository'', PStr (pe_repository ev)), (''number'', PInt (pe_number ev)), (''head_sha'', PStr (pe_head_sha ev)),
      (''state'', PStr (pe_pr_state ev)), (''merged'', PBool (pe_merged ev)),
      (''merge_commit_sha'', py_opt_str (pe_merge_commit ev)),
      (''reviews'', PList (map (review_json text_of) (pe_reviews ev))), (''checks'', PList (map check_json (pe_checks ev)))]"

definition evidence_digest :: "('w, 'j) service \<Rightarrow> pull_request_evidence \<Rightarrow> string" where
  "evidence_digest sv ev = canonical_hash (gh_sha256 (sv_github sv)) (evidence_json (sv_iso sv) ev)"

definition check_approval :: "pull_request_evidence \<Rightarrow> string \<Rightarrow> exn + unit" where
  "check_approval ev merge_sha =
     res_bind (raise_if (\<not> pe_merged ev \<or> pe_merge_commit ev \<noteq> Some merge_sha)
       (rejected ''GitHub merge evidence does not match the planning webhook'')) (\<lambda>_.
     res_bind (raise_if (approvals ev < 1) (rejected ''planning PR has no current human approval'')) (\<lambda>_.
     raise_if (\<not> required_checks_pass required_planning_checks ''github-actions'' ev)
       (rejected ''planning PR required validator check is not successful'')))"

definition approved_run ::
  "('w, 'j) service \<Rightarrow> string \<Rightarrow> plan_run \<Rightarrow> string \<Rightarrow> (('w, 'j) service_state, plan_run) action" where
  "approved_run sv repository run merge_sha =
     (if lr_state run = RunPrOpen \<or> (lr_state run = RunPublishing \<and> lr_evidence_sha256 run = None) then
        (case (lr_planning_commit run, lr_pr_number run) of
           (Some head, Some number) \<Rightarrow>
             act_bind (reject_if (lr_approved_commit run \<noteq> None \<and> lr_approved_commit run \<noteq> Some merge_sha)
               ''legacy publication merge does not match its durable binding'') (\<lambda>_.
             act_bind (on_world (pull_request_evidence (sv_github sv) repository number (Some head))) (\<lambda>ev.
             act_bind (act_lift (check_approval ev merge_sha)) (\<lambda>_.
             store_update sv (approve_for_publication run merge_sha (evidence_digest sv ev)))))
         | _ \<Rightarrow> act_raise (rejected ''planning PR has no durable head and pull-request binding''))
      else if lr_state run \<noteq> RunPublishing \<or> lr_approved_commit run \<noteq> Some merge_sha \<or> lr_evidence_sha256 run = None
      then act_raise (rejected ''planning publication has no durable verified approval evidence'')
      else act_return run)"

section \<open>The replan context\<close>

definition replan_publication_context ::
  "('w, 'j) service \<Rightarrow> plan_run \<Rightarrow> loaded_artifact \<Rightarrow> (('w, 'j) service_state, replan_context option) action" where
  "replan_publication_context sv run a =
     act_bind (act_lift (recover_start_request sv run)) (\<lambda>req.
     act_bind (reject_if (sq_plan_id req \<noteq> lr_plan_id run \<or> sq_plan_version req \<noteq> lr_plan_version run \<or>
         is_work_package_id (sq_idea req) \<noteq> lr_idea_id run \<or>
         (plan_replan (bp_plan (la_plan a)) = None) \<noteq> (sq_replan req = None))
       ''planning publication changed its durable operator authorization'') (\<lambda>_.
     case (plan_replan (bp_plan (la_plan a)), sq_replan req) of
       (Some scope, Some authorized) \<Rightarrow>
         act_bind (store_query (store_get (plan_id (bp_plan (la_plan a))) (rs_base_plan_version scope))) (\<lambda>base.
         act_bind (store_query (latest_published (plan_id (bp_plan (la_plan a))))) (\<lambda>latest.
         case base of
           None \<Rightarrow> act_raise (rejected ''partial replan publication base is not the latest immutable published plan'')
         | Some b \<Rightarrow>
             (case lr_approved_commit b of
                None \<Rightarrow> act_raise (rejected ''partial replan publication base is not the latest immutable published plan'')
              | Some base_commit \<Rightarrow>
                  act_bind (reject_if (latest \<noteq> Some b)
                    ''partial replan publication base is not the latest immutable published plan'') (\<lambda>_.
                  act_bind (reject_if (plan_id (bp_plan (rq_prior_plan authorized)) \<noteq> plan_id (bp_plan (la_plan a)) \<or>
                      plan_version (bp_plan (rq_prior_plan authorized)) \<noteq> rs_base_plan_version scope \<or>
                      rq_base_commit authorized \<noteq> base_commit)
                    ''partial replan publication changed its durable operator authorization'') (\<lambda>_.
                  act_bind (published_artifact sv b) (\<lambda>base_artifact.
                  act_bind (reject_if (rq_prior_plan authorized \<noteq> la_plan base_artifact)
                    ''partial replan publication base differs from its durable operator request'') (\<lambda>_.
                  act_return (Some \<lparr>rc_base_artifact = base_artifact, rc_base_approved_commit = base_commit,
                    rc_selected_root_keys = rq_selected_roots authorized,
                    rc_affected_node_keys = rq_affected_keys authorized\<rparr>))))))))
     | _ \<Rightarrow> act_return None))"

section \<open>Publication\<close>

definition close_journal :: "('w, 'j) service \<Rightarrow> (('w, 'j) service_state, unit) action" where
  "close_journal sv = on_publication (\<lambda>(j, a). (Inr (), (jo_close (sv_journal sv) j, a)))"

definition open_journal :: "('w, 'j) service \<Rightarrow> (('w, 'j) service_state, unit) action" where
  "open_journal sv = on_publication (\<lambda>(j, a). (Inr (), (sv_open_journal sv j, a)))"

definition is_publication_conflict :: "exn \<Rightarrow> bool" where
  "is_publication_conflict e = (case e of OpenProjectConflict _ \<Rightarrow> True | PublicationJournalMismatch _ \<Rightarrow> True
     | PublicationRejected _ \<Rightarrow> True | _ \<Rightarrow> False)"

text \<open>The body of the \<^verbatim>\<open>try\<close>: whether it resumes, the dry run if it does not, the result.\<close>

definition publication_attempt ::
  "('w, 'j) service \<Rightarrow> loaded_artifact \<Rightarrow> publication_envelope \<Rightarrow> replan_context option
    \<Rightarrow> (('w, 'j) service_state, bool \<times> publish_result option \<times> publish_result) action" where
  "publication_attempt sv a envelope context =
     (let ops = openproject_ops (sv_config sv) (sv_remote sv);
          run = (\<lambda>journal apply. publish (sv_sha sv) (sv_schema_error sv) journal ops a envelope apply context) in
      act_bind (on_publication (on_fst (jo_resume (sv_journal sv) envelope))) (\<lambda>resumed.
      act_bind (if resumed = None then act_bind (on_publication (run None False)) (\<lambda>r. act_return (Some r))
                else act_return None) (\<lambda>dry_run.
      act_bind (on_publication (run (Some (sv_journal sv)) True)) (\<lambda>result.
      act_return (resumed \<noteq> None, dry_run, result)))))"

text \<open>
  The \<^verbatim>\<open>try\<close> with both its handlers: a conflict is returned, any other exception goes on, and
  the journal is closed in every case.
\<close>

definition guarded_publication ::
  "('w, 'j) service \<Rightarrow> loaded_artifact \<Rightarrow> publication_envelope \<Rightarrow> replan_context option
    \<Rightarrow> (('w, 'j) service_state, exn + bool \<times> publish_result option \<times> publish_result) action" where
  "guarded_publication sv a envelope context =
     act_catch
       (act_bind (publication_attempt sv a envelope context) (\<lambda>r.
        act_bind (close_journal sv) (\<lambda>_. act_return (Inr r))))
       (\<lambda>e. act_bind (close_journal sv) (\<lambda>_.
          if is_publication_conflict e then act_return (Inl e) else act_raise e))"

definition block_publication ::
  "('w, 'j) service \<Rightarrow> event_envelope \<Rightarrow> plan_run \<Rightarrow> int \<Rightarrow> exn \<Rightarrow> (('w, 'j) service_state, lifecycle_outcome) action" where
  "block_publication sv e run number err =
     act_bind (store_update sv (set_run_state run RunBlocked)) (\<lambda>blocked.
     act_bind (on_world (set_lifecycle_state (sv_statuses sv) (sv_lifecycle sv) (lr_idea_id run)
       (Some ''Blocked'') (Some ''publication_conflict''))) (\<lambda>_.
     act_bind (on_world (ensure_comment (sv_lifecycle sv) (lr_idea_id run)
       (''Publication is blocked and no approved managed field was overwritten. Conflict: '' @ exn_message err)
       (''publication-blocked:'' @ ev_source_delivery_id e))) (\<lambda>_.
     finish e ((new_outcome ''publish_openproject_graph'' ''blocked'')\<lparr>lo_plan_id := Some (lr_plan_id blocked),
       lo_plan_version := Some (lr_plan_version blocked), lo_work_package_id := Some (lr_idea_id blocked),
       lo_pull_request_number := Some number\<rparr>))))"

definition complete_publication ::
  "('w, 'j) service \<Rightarrow> event_envelope \<Rightarrow> plan_run \<Rightarrow> string \<Rightarrow> int \<Rightarrow> bool \<times> publish_result option \<times> publish_result
    \<Rightarrow> (('w, 'j) service_state, lifecycle_outcome) action" where
  "complete_publication sv e run merge_sha number finished = (case finished of (resumed, dry_run, result) \<Rightarrow>
     act_bind (reject_if (case dry_run of None \<Rightarrow> False | Some d \<Rightarrow> pr_operations d \<noteq> pr_operations result)
       ''publication apply diverged from its approved dry-run'') (\<lambda>_.
     act_bind (store_update sv (set_run_state run RunPublished)) (\<lambda>published.
     act_bind (on_world (ensure_comment (sv_lifecycle sv) (lr_idea_id run)
       (''Published '' @ [backtick] @ lr_plan_id run @ '':v'' @ show_int (lr_plan_version run) @ [backtick] @ '' from merge '' @
        [backtick] @ merge_sha @ [backtick] @ '' with '' @ show_nat (length (pr_operations result)) @ '' deterministic operations.'')
       (''publication:'' @ ev_source_delivery_id e))) (\<lambda>_.
     finish e ((new_outcome ''publish_openproject_graph'' ''published'')\<lparr>lo_plan_id := Some (lr_plan_id published),
       lo_plan_version := Some (lr_plan_version published), lo_work_package_id := Some (lr_idea_id published),
       lo_pull_request_number := Some number, lo_operation_count := Some (length (pr_operations result)),
       lo_applied_count := Some (length (pr_applied_operations result)), lo_resumed := Some resumed\<rparr>)))))"

definition publication_envelope_for ::
  "('w, 'j) service \<Rightarrow> event_envelope \<Rightarrow> plan_run \<Rightarrow> string \<Rightarrow> artifact_binding \<Rightarrow> loaded_artifact \<Rightarrow> publication_envelope" where
  "publication_envelope_for sv e run merge_sha binding a =
     \<lparr>pe_approved_commit = merge_sha, pe_backlog_sha256 = la_sha256 a, pe_artifact_blob_sha1 = ab_blob_sha binding,
      pe_approval_event_id = ev_source_delivery_id e, pe_snapshot_sha256 = lr_snapshot_sha256 run,
      pe_snapshot_etag = lr_snapshot_etag run, pe_trace_id = ev_trace_id e,
      pe_publication_target_sha256 = oc_target_sha256 (sv_config sv),
      pe_publication_identity = plan_publication_identity (bp_plan (la_plan a))\<rparr>"

section \<open>The handler\<close>

text \<open>The backlog of the merge commit, read back from its immutable binding.\<close>

definition merged_backlog ::
  "('w, 'j) service \<Rightarrow> string \<Rightarrow> plan_run \<Rightarrow> string \<Rightarrow> (('w, 'j) service_state, artifact_binding \<times> loaded_artifact) action" where
  "merged_backlog sv repository run merge_sha =
     act_bind (on_world (resolve_artifact_binding (sv_github sv) repository merge_sha (lr_backlog_path run))) (\<lambda>binding.
     act_bind (on_world (read_immutable_artifact (sv_github sv) binding)) (\<lambda>raw.
     act_bind (act_lift (load_artifact_bytes sv raw)) (\<lambda>a.
     act_bind (reject_if (\<not> same_plan a run \<or> plan_publication_identity (bp_plan (la_plan a)) \<noteq>
         lr_plan_id run @ '':v'' @ show_int (lr_plan_version run))
       ''merged backlog conflicts with its durable plan run'') (\<lambda>_.
     act_return (binding, a)))))"

definition publish_merged ::
  "('w, 'j) service \<Rightarrow> event_envelope \<Rightarrow> int \<Rightarrow> string \<Rightarrow> plan_run \<Rightarrow> artifact_binding \<times> loaded_artifact
    \<Rightarrow> (('w, 'j) service_state, lifecycle_outcome) action" where
  "publish_merged sv e number merge_sha run merged =
     act_bind (store_update sv (record_publication_binding run merge_sha (ab_blob_sha (fst merged)) (la_sha256 (snd merged)))) (\<lambda>bound.
     act_bind (replan_publication_context sv bound (snd merged)) (\<lambda>context.
     act_bind (open_journal sv) (\<lambda>_.
     act_bind (guarded_publication sv (snd merged) (publication_envelope_for sv e bound merge_sha (fst merged) (snd merged)) context) (\<lambda>r.
     case r of
       Inl err \<Rightarrow> block_publication sv e bound number err
     | Inr result \<Rightarrow> complete_publication sv e bound merge_sha number result))))"

definition merged_planning_pull_request ::
  "('w, 'j) service \<Rightarrow> event_envelope \<Rightarrow> string \<Rightarrow> int \<Rightarrow> plan_run \<Rightarrow> string
    \<Rightarrow> (('w, 'j) service_state, lifecycle_outcome) action" where
  "merged_planning_pull_request sv e repository number run merge_sha =
     act_bind (approved_run sv repository run merge_sha) (\<lambda>approved.
     act_bind (merged_backlog sv repository approved merge_sha) (\<lambda>merged.
     publish_merged sv e number merge_sha approved merged))"

definition planning_pull_request ::
  "('w, 'j) service \<Rightarrow> event_envelope \<Rightarrow> string \<Rightarrow> int \<Rightarrow> plan_run \<Rightarrow> pydict
    \<Rightarrow> (('w, 'j) service_state, lifecycle_outcome) action" where
  "planning_pull_request sv e repository number run pull =
     (let base = \<lambda>outcome. (new_outcome ''planning_pr'' outcome)\<lparr>lo_plan_id := Some (lr_plan_id run),
            lo_plan_version := Some (lr_plan_version run), lo_pull_request_number := Some number\<rparr> in
      if lr_state run = RunPublished then finish e (base ''already_published'')
      else if obj_get pull ''merged'' \<noteq> PBool True then finish e (base ''not_merged'')
      else (case full_commit (obj_get pull ''merge_commit_sha'') of
          None \<Rightarrow> act_raise (rejected ''merged planning PR has no immutable merge commit'')
        | Some merge_sha \<Rightarrow> merged_planning_pull_request sv e repository number run merge_sha))"

end
