(* ===== verification/ImplementationFlow.thy ===== *)
theory ImplementationFlow
  imports MergeGate
begin

text \<open>
  Implementation pull requests in \<^verbatim>\<open>src/planning_platform/lifecycle/service.py\<close>: the marker that
  names a work package, the first binding to an approved node, check runs, and the projection of
  all pull requests of a work package on its status and evidence state.
\<close>

section \<open>The marker of a work package\<close>

text \<open>
  \<^verbatim>\<open>plan_id=([a-z0-9][a-z0-9-]{2,63}) node_key=([a-z0-9][a-z0-9._-]{0,127}) -->\<close>: no character of the
  groups is a space, so the greedy groups end at the first space.
\<close>

definition marker_group :: "(char \<Rightarrow> bool) \<Rightarrow> nat \<Rightarrow> nat \<Rightarrow> string \<Rightarrow> (string \<times> string) option" where
  "marker_group p least most s = (case takeWhile p s of
     [] \<Rightarrow> None
   | c # t \<Rightarrow> if (is_lower_char c \<or> is_digit_char c) \<and> least \<le> length t \<and> length t \<le> most
       then Some (c # t, dropWhile p s) else None)"

definition strip_prefix :: "string \<Rightarrow> string \<Rightarrow> string option" where
  "strip_prefix p s = (if is_prefix_of p s then Some (drop (length p) s) else None)"

definition is_plan_char :: "char \<Rightarrow> bool" where
  "is_plan_char c \<longleftrightarrow> is_lower_char c \<or> is_digit_char c \<or> c = CHR ''-''"

definition is_marker_node_char :: "char \<Rightarrow> bool" where
  "is_marker_node_char c \<longleftrightarrow> is_lower_char c \<or> is_digit_char c \<or> c \<in> {CHR ''.'', CHR ''_'', CHR ''-''}"

definition marker_here :: "string \<Rightarrow> identity option" where
  "marker_here s =
     Option.bind (strip_prefix ''<!-- planning-platform:work-package plan_id='' s) (\<lambda>s.
     Option.bind (marker_group is_plan_char 2 63 s) (\<lambda>(plan, s).
     Option.bind (strip_prefix '' node_key='' s) (\<lambda>s.
     Option.bind (marker_group is_marker_node_char 0 127 s) (\<lambda>(node, s).
     if is_prefix_of '' -->'' s then Some (plan, node) else None))))"

text \<open>\<^verbatim>\<open>re.search\<close>: the leftmost match.\<close>

fun work_package_marker :: "string \<Rightarrow> identity option" where
  "work_package_marker [] = None"
| "work_package_marker (c # s) = (case marker_here (c # s) of Some i \<Rightarrow> Some i | None \<Rightarrow> work_package_marker s)"

section \<open>The projection\<close>

definition implementation_evidence_passes :: "('w, 'j) service \<Rightarrow> pull_request_evidence \<Rightarrow> bool" where
  "implementation_evidence_passes sv ev = (case dict_get (sv_required_checks sv) (pe_repository ev) of
     None \<Rightarrow> False | Some required \<Rightarrow> required_checks_pass required ''github-actions'' ev)"

definition implementation_projection :: "pr_association list \<Rightarrow> string option \<times> string" where
  "implementation_projection associations =
     (if list_ex (\<lambda>a. pa_merged_commit a \<noteq> None) associations then (Some ''Review'', ''pr_merged'')
      else if list_ex (\<lambda>a. pa_state a = ''open'' \<and> pa_successful_check_sha a = Some (pa_head_sha a)) associations
      then (Some ''Review'', ''check_passed'')
      else if list_ex (\<lambda>a. pa_state a = ''open'') associations then (Some ''In Progress'', ''pr_open'')
      else (None, ''pr_closed''))"

definition status_number :: "status_table \<Rightarrow> string \<Rightarrow> exn + int" where
  "status_number statuses name = need (KeyError name) (dict_get statuses name)"

definition status_ranks :: "status_table \<Rightarrow> exn + (int, nat) dict" where
  "status_ranks statuses =
     res_bind (status_number statuses ''Proposed'') (\<lambda>proposed.
     res_bind (status_number statuses ''Ready'') (\<lambda>ready.
     res_bind (status_number statuses ''In Progress'') (\<lambda>progress.
     res_bind (status_number statuses ''Review'') (\<lambda>review.
     Inr (dict_of fst snd [(proposed, 0), (ready, 0), (progress, 1), (review, 2)])))))"

text \<open>The status to write: only when it ranks above the one just read.\<close>

definition advanced_status :: "status_table \<Rightarrow> work_package \<Rightarrow> string option \<Rightarrow> exn + string option" where
  "advanced_status statuses package desired = (case desired of
     None \<Rightarrow> Inr None
   | Some name \<Rightarrow>
       res_bind (status_ranks statuses) (\<lambda>ranks.
       res_bind (status_number statuses name) (\<lambda>desired_id.
       res_bind (need (KeyError name) (dict_get ranks desired_id)) (\<lambda>desired_rank.
       Inr (case Option.bind (as_int (status_id_of package)) (dict_get ranks) of
           None \<Rightarrow> None
         | Some current_rank \<Rightarrow> if current_rank < desired_rank then Some name else None)))))"

definition write_projection ::
  "('w, 'j) service \<Rightarrow> pr_association list \<Rightarrow> int \<Rightarrow> work_package \<Rightarrow> (('w, 'j) service_state, bool) action" where
  "write_projection sv associations n package =
     act_bind (act_lift (advanced_status (sv_statuses sv) package (fst (implementation_projection associations)))) (\<lambda>status.
     let evidence_state = snd (implementation_projection associations);
         evidence = (if wp_evidence_state package \<noteq> Some evidence_state then Some evidence_state else None) in
     if status = None \<and> evidence = None then act_return False
     else
       act_bind (on_world (set_lifecycle_state (sv_statuses sv) (sv_lifecycle sv) n status evidence)) (\<lambda>_.
       act_return True))"

definition project_implementation_work_package ::
  "('w, 'j) service \<Rightarrow> int \<Rightarrow> (('w, 'j) service_state, bool) action" where
  "project_implementation_work_package sv n =
     act_bind (store_query implementation_associations) (\<lambda>rows.
     let associations = filter (\<lambda>a. pa_work_package_id a = n) rows in
     case associations of
       [] \<Rightarrow> act_raise (LifecycleStoreMismatch ''implementation projection has no durable associations'')
     | a # rest \<Rightarrow>
         act_bind (act_lift (raise_if (\<not> list_all (\<lambda>b. (pa_plan_id b, pa_node_key b) = (pa_plan_id a, pa_node_key a)) rest)
           (LifecycleStoreMismatch ''implementation work package has conflicting plan identities''))) (\<lambda>_.
         act_bind (on_world (resolve (sv_remote sv) (pa_plan_id a, pa_node_key a))) (\<lambda>package.
         case package of
           None \<Rightarrow> act_raise (LifecycleStoreMismatch ''implementation projection work package no longer resolves'')
         | Some w \<Rightarrow>
             if wp_id w \<noteq> n
             then act_raise (LifecycleStoreMismatch ''implementation projection work package no longer resolves'')
             else write_projection sv associations n w)))"

section \<open>Implementation pull requests\<close>

text \<open>What the payload says of the pull request; an association without check.\<close>

definition observed_pull ::
  "event_envelope \<Rightarrow> string \<Rightarrow> identity \<Rightarrow> pydict \<Rightarrow> exn + (int \<Rightarrow> pr_association)" where
  "observed_pull e repository ident pull =
     res_bind (positive_int (obj_get pull ''number'') ''pull request'') (\<lambda>number.
     res_bind (need (rejected ''implementation PR has no immutable head commit'')
       (Option.bind (as_dict (obj_get pull ''head'')) (\<lambda>head. full_commit (obj_get head ''sha'')))) (\<lambda>head_sha.
     let url = ''https://github.com/'' @ repository @ ''/pull/'' @ show_int number;
         merged = (obj_get pull ''merged'' = PBool True) in
     res_bind (raise_if (obj_get pull ''html_url'' \<noteq> PStr url)
       (rejected ''implementation PR has no canonical GitHub URL'')) (\<lambda>_.
     res_bind (need (rejected ''implementation PR has no open or closed state'')
       (Option.bind (as_str (obj_get pull ''state'')) (\<lambda>s. if s \<in> {''open'', ''closed''} then Some s else None))) (\<lambda>state.
     res_bind (if \<not> merged then Inr None
       else res_bind (need (rejected ''merged implementation PR has no merge commit'')
         (full_commit (obj_get pull ''merge_commit_sha''))) (\<lambda>c. Inr (Some c))) (\<lambda>merge_commit.
     res_bind (raise_if (merged \<and> state \<noteq> ''closed'') (rejected ''merged implementation PR is not closed'')) (\<lambda>_.
     Inr (\<lambda>package_id. \<lparr>pa_repository = repository, pa_number = number, pa_plan_id = fst ident, pa_node_key = snd ident,
       pa_work_package_id = package_id, pa_url = url, pa_head_sha = head_sha, pa_head_observed_at = ev_occurred_at e,
       pa_state = state, pa_merged_commit = merge_commit, pa_successful_check_sha = None\<rparr>)))))))"

definition terminal_statuses :: "status_table \<Rightarrow> exn + int list" where
  "terminal_statuses statuses = res_map (status_number statuses) [''Done'', ''Superseded'', ''Rejected'']"

text \<open>The tests on the node of the active plan and on its work package.\<close>

definition approved_node ::
  "('w, 'j) service \<Rightarrow> string \<Rightarrow> identity \<Rightarrow> work_package \<Rightarrow> int list \<Rightarrow> plan_run \<Rightarrow> backlog_plan \<Rightarrow> bool" where
  "approved_node sv repository ident package terminal active plan =
     (case (dict_get (by_key plan) (snd ident), lr_approved_commit active) of
        (Some item, Some approved_commit) \<Rightarrow>
          wp_plan_version package = Some (fst (effective_node_binding plan (Some approved_commit) (bi_key item))) \<and>
          wp_managed_hash package = Some (managed_hash (sv_sha sv) (with_approved_commit plan approved_commit) item) \<and>
          bi_repository item = repository \<and> wp_repository package = Some (bi_repository item) \<and>
          status_id_of package \<notin> PInt ` set terminal
      | _ \<Rightarrow> False)"

definition first_binding ::
  "('w, 'j) service \<Rightarrow> string \<Rightarrow> identity \<Rightarrow> work_package \<Rightarrow> (('w, 'j) service_state, unit) action" where
  "first_binding sv repository ident package =
     act_bind (store_query (latest_published (fst ident))) (\<lambda>active.
     act_bind (case active of None \<Rightarrow> act_return None
       | Some run \<Rightarrow> act_bind (published_artifact sv run) (\<lambda>a. act_return (Some (la_plan a)))) (\<lambda>plan.
     act_bind (act_lift (terminal_statuses (sv_statuses sv))) (\<lambda>terminal.
     reject_if (case (active, plan) of
         (Some run, Some p) \<Rightarrow> \<not> approved_node sv repository ident package terminal run p
       | _ \<Rightarrow> True)
       ''implementation PR does not match an active approved repository node'')))"

definition check_binding ::
  "('w, 'j) service \<Rightarrow> string \<Rightarrow> identity \<Rightarrow> work_package \<Rightarrow> pr_association option \<Rightarrow> (('w, 'j) service_state, unit) action" where
  "check_binding sv repository ident package existing = (case existing of
     None \<Rightarrow> first_binding sv repository ident package
   | Some a \<Rightarrow> act_lift (raise_if (wp_id package \<noteq> pa_work_package_id a)
       (LifecycleStoreMismatch ''implementation PR work-package binding no longer resolves'')))"

definition pull_comment_key :: "('w, 'j) service \<Rightarrow> string \<Rightarrow> int \<Rightarrow> string" where
  "pull_comment_key sv repository number =
     ''implementation-pr:'' @ take 32 (gh_sha256 (sv_github sv) (repository @ ''#'' @ show_int number))"

definition bind_observed ::
  "('w, 'j) service \<Rightarrow> event_envelope \<Rightarrow> work_package \<Rightarrow> pr_association \<Rightarrow> (('w, 'j) service_state, lifecycle_outcome) action" where
  "bind_observed sv e package seen =
     act_bind (store_update sv (\<lambda>now. bind_implementation_pull_request seen)) (\<lambda>a.
     act_bind (on_world (ensure_comment (sv_lifecycle sv) (wp_id package) (''Implementation pull request: '' @ pa_url seen)
       (pull_comment_key sv (pa_repository seen) (pa_number seen)))) (\<lambda>_.
     act_bind (project_implementation_work_package sv (pa_work_package_id a)) (\<lambda>_.
     finish e ((new_outcome ''implementation_pr'' (if pa_merged_commit a \<noteq> None then ''merged'' else pa_state a))
       \<lparr>lo_plan_id := Some (pa_plan_id seen), lo_work_package_id := Some (wp_id package),
        lo_pull_request_number := Some (pa_number seen)\<rparr>))))"

text \<open>The work package and what was observed, once everything before the binding has passed.\<close>

definition checked_pull ::
  "('w, 'j) service \<Rightarrow> event_envelope \<Rightarrow> string \<Rightarrow> identity \<Rightarrow> pydict
    \<Rightarrow> (('w, 'j) service_state, work_package \<times> pr_association) action" where
  "checked_pull sv e repository ident pull =
     act_bind (act_lift (observed_pull e repository ident pull)) (\<lambda>seen.
     act_bind (store_query (by_implementation_pull_request repository (pa_number (seen 0)))) (\<lambda>existing.
     act_bind (act_lift (raise_if (case existing of None \<Rightarrow> False | Some a \<Rightarrow> (pa_plan_id a, pa_node_key a) \<noteq> ident)
       (LifecycleStoreMismatch ''implementation PR replay changed its work-package identity''))) (\<lambda>_.
     act_bind (on_world (resolve (sv_remote sv) ident)) (\<lambda>found.
     act_bind (act_lift (need (rejected ''implementation PR names an unknown work package'') found)) (\<lambda>package.
     act_bind (check_binding sv repository ident package existing) (\<lambda>_.
     act_return (package, seen (wp_id package))))))))"

definition managed_pull_request ::
  "('w, 'j) service \<Rightarrow> event_envelope \<Rightarrow> string \<Rightarrow> identity \<Rightarrow> pydict \<Rightarrow> (('w, 'j) service_state, lifecycle_outcome) action" where
  "managed_pull_request sv e repository ident pull =
     act_bind (checked_pull sv e repository ident pull) (\<lambda>(package, seen). bind_observed sv e package seen)"

definition implementation_pull_request ::
  "('w, 'j) service \<Rightarrow> event_envelope \<Rightarrow> string \<Rightarrow> pydict \<Rightarrow> (('w, 'j) service_state, lifecycle_outcome) action" where
  "implementation_pull_request sv e repository pull =
     (case work_package_marker (case as_str (obj_get pull ''body'') of Some s \<Rightarrow> s | None \<Rightarrow> []) of
        None \<Rightarrow> finish e (new_outcome ''implementation_pr'' ''unmanaged'')
      | Some ident \<Rightarrow> managed_pull_request sv e repository ident pull)"

definition pull_request_event ::
  "('w, 'j) service \<Rightarrow> event_envelope \<Rightarrow> (('w, 'j) service_state, lifecycle_outcome) action" where
  "pull_request_event sv e =
     act_bind (act_lift (payload_object (event_payload e) ''pull_request'')) (\<lambda>pull.
     act_bind (act_lift (payload_object (event_payload e) ''repository'')) (\<lambda>repository_value.
     act_bind (act_lift (need (rejected ''GitHub pull request has no repository identity'')
       (as_str (obj_get repository_value ''full_name'')))) (\<lambda>repository.
     act_bind (act_lift (positive_int (case dict_get pull ''number'' of Some v \<Rightarrow> v
       | None \<Rightarrow> obj_get (event_payload e) ''number'') ''pull request'')) (\<lambda>number.
     act_bind (store_query (by_pull_request repository number)) (\<lambda>run.
     case run of
       None \<Rightarrow> implementation_pull_request sv e repository pull
     | Some r \<Rightarrow> planning_pull_request sv e repository number r pull)))))"

section \<open>Check runs\<close>

definition exact_check :: "pydict \<Rightarrow> bool" where
  "exact_check check \<longleftrightarrow>
     (case as_int (obj_get check ''id'') of Some n \<Rightarrow> 0 < n | None \<Rightarrow> False) \<and> as_str (obj_get check ''name'') \<noteq> None \<and>
     (case as_dict (obj_get check ''app'') of None \<Rightarrow> False
      | Some app \<Rightarrow> as_int (obj_get app ''id'') \<noteq> None \<and> as_str (obj_get app ''slug'') \<noteq> None)"

text \<open>The association of one referenced pull request, refreshed from GitHub: did its checks pass?\<close>

definition refresh_association ::
  "('w, 'j) service \<Rightarrow> event_envelope \<Rightarrow> string \<Rightarrow> pr_association \<Rightarrow> (('w, 'j) service_state, nat) action" where
  "refresh_association sv e head_sha a =
     act_bind (on_world (pull_request_evidence (sv_github sv) (pa_repository a) (pa_number a) (Some head_sha))) (\<lambda>ev.
     act_bind (store_update sv (\<lambda>now. bind_implementation_pull_request
       (a\<lparr>pa_head_sha := pe_head_sha ev, pa_head_observed_at := ev_occurred_at e, pa_state := pe_pr_state ev,
          pa_merged_commit := (if pe_merged ev then pe_merge_commit ev else None)\<rparr>))) (\<lambda>_.
     act_bind (store_update sv (\<lambda>now. record_implementation_check_result (pa_repository a) (pa_number a) head_sha
       (implementation_evidence_passes sv ev))) (\<lambda>recorded.
     case recorded of
       None \<Rightarrow> act_return 0
     | Some b \<Rightarrow>
         act_bind (project_implementation_work_package sv (pa_work_package_id b)) (\<lambda>_.
         act_return (if implementation_evidence_passes sv ev then 1 else 0)))))"

definition check_pull ::
  "('w, 'j) service \<Rightarrow> event_envelope \<Rightarrow> string \<Rightarrow> string \<Rightarrow> int \<Rightarrow> (('w, 'j) service_state, nat) action" where
  "check_pull sv e repository head_sha number =
     act_bind (store_query (by_pull_request repository number)) (\<lambda>run.
     if run \<noteq> None then act_return 1
     else act_bind (store_query (by_implementation_pull_request repository number)) (\<lambda>association.
       case association of
         None \<Rightarrow> act_return 0
       | Some a \<Rightarrow> if pa_head_sha a \<noteq> head_sha then act_return 0
           else refresh_association sv e head_sha (a\<lparr>pa_repository := repository, pa_number := number\<rparr>)))"

fun check_pulls ::
  "('w, 'j) service \<Rightarrow> event_envelope \<Rightarrow> string \<Rightarrow> string \<Rightarrow> pyval list \<Rightarrow> int set \<Rightarrow> nat \<Rightarrow> (('w, 'j) service_state, nat) action" where
  "check_pulls sv e repository head_sha [] seen advanced = act_return advanced"
| "check_pulls sv e repository head_sha (reference # pulls) seen advanced =
     (case Option.bind (as_dict reference) (\<lambda>r. as_int (obj_get r ''number'')) of
        None \<Rightarrow> check_pulls sv e repository head_sha pulls seen advanced
      | Some number \<Rightarrow>
          if number \<le> 0 \<or> number \<in> seen then check_pulls sv e repository head_sha pulls seen advanced
          else act_bind (check_pull sv e repository head_sha number) (\<lambda>n.
            check_pulls sv e repository head_sha pulls (insert number seen) (advanced + n)))"

definition check_run_event ::
  "('w, 'j) service \<Rightarrow> event_envelope \<Rightarrow> (('w, 'j) service_state, lifecycle_outcome) action" where
  "check_run_event sv e =
     act_bind (act_lift (payload_object (event_payload e) ''check_run'')) (\<lambda>check.
     case as_list (obj_get check ''pull_requests'') of
       None \<Rightarrow> finish e (new_outcome ''check_run'' ''no_pull_request'')
     | Some [] \<Rightarrow> finish e (new_outcome ''check_run'' ''no_pull_request'')
     | Some pulls \<Rightarrow>
         act_bind (act_lift (payload_object (event_payload e) ''repository'')) (\<lambda>repository_value.
         act_bind (act_lift (need (rejected ''GitHub check run has no repository identity'')
           (as_str (obj_get repository_value ''full_name'')))) (\<lambda>repository.
         act_bind (act_lift (need (rejected ''GitHub check run has no immutable head commit'')
           (full_commit (obj_get check ''head_sha'')))) (\<lambda>head_sha.
         act_bind (reject_if (\<not> exact_check check) ''GitHub check run has no exact check identity'') (\<lambda>_.
         act_bind (check_pulls sv e repository head_sha pulls {} 0) (\<lambda>advanced.
         finish e (new_outcome ''check_run'' (''successful:'' @ show_nat advanced))))))))"

end
