(* ===== verification/MergeFacts.thy ===== *)
theory MergeFacts
  imports MergeGate LifecycleRuns
begin

text \<open>
  The merge of a planning pull request: which of its steps can publish, what the approval is checked
  against, and which plan is published. A concrete merge that publishes one operation.
\<close>

named_theorems quiet_rules \<open>steps without a publication effect\<close>

section \<open>Steps that publish nothing\<close>

definition sent_effects :: "('w, 'j) service_state \<Rightarrow> string list" where
  "sent_effects s = effect_ids (snd (snd s))"

definition quiet :: "(('w, 'j) service_state, 'r) action \<Rightarrow> bool" where
  "quiet m \<longleftrightarrow> (\<forall>s r s'. m s = (r, s') \<longrightarrow> sent_effects s' = sent_effects s)"

lemma quietD: "quiet m \<Longrightarrow> m s = (r, s') \<Longrightarrow> sent_effects s' = sent_effects s"
  unfolding quiet_def by blast

lemma quiet_return [quiet_rules]: "quiet (act_return x)" "quiet (act_raise e)" "quiet (act_lift r)"
  by (simp_all add: quiet_def act_return_def act_raise_def act_lift_def)

lemma quiet_reject [quiet_rules]: "quiet (reject_if c message)"
  by (simp add: reject_if_def quiet_return)

lemma quiet_query [quiet_rules]: "quiet (store_query f)"
  by (simp add: quiet_def store_query_def)

lemma quiet_update [quiet_rules]: "quiet (store_update sv f)"
  by (auto simp: quiet_def store_update_def on_fst_def sent_effects_def split: prod.splits)

lemma quiet_world [quiet_rules]: "quiet (on_world m)"
  by (auto simp: quiet_def on_world_def on_snd_def sent_effects_def dest!: with_world_effects split: prod.splits)

lemma quiet_finish [quiet_rules]: "quiet (finish e x)"
  by (simp add: quiet_def finish_def sent_effects_def)

lemma quiet_journal [quiet_rules]: "quiet (on_publication (on_fst m))" "quiet (open_journal sv)" "quiet (close_journal sv)"
  by (auto simp: quiet_def on_publication_def on_snd_def on_fst_def open_journal_def close_journal_def sent_effects_def
      split: prod.splits)

lemma quiet_bind [quiet_rules]: "quiet m \<Longrightarrow> (\<And>x. quiet (f x)) \<Longrightarrow> quiet (act_bind m f)"
  unfolding quiet_def act_bind_def by (fastforce split: prod.splits sum.splits)

lemma quiet_if [quiet_rules]: "(c \<Longrightarrow> quiet m) \<Longrightarrow> (\<not> c \<Longrightarrow> quiet m') \<Longrightarrow> quiet (if c then m else m')"
  by simp

lemma quiet_option [quiet_rules]: "quiet m \<Longrightarrow> (\<And>x. quiet (f x)) \<Longrightarrow> quiet (case v of None \<Rightarrow> m | Some x \<Rightarrow> f x)"
  by (cases v) simp_all

lemma quiet_prod [quiet_rules]: "(\<And>x y. quiet (f x y)) \<Longrightarrow> quiet (case p of (x, y) \<Rightarrow> f x y)"
  by (cases p) simp

lemma quiet_published_artifact [quiet_rules]: "quiet (published_artifact sv run)"
  unfolding published_artifact_def by (intro quiet_rules)

lemma quiet_approved_run [quiet_rules]: "quiet (approved_run sv repository run merge_sha)"
  unfolding approved_run_def by (intro quiet_rules)

lemma quiet_replan_context [quiet_rules]: "quiet (replan_publication_context sv run a)"
  unfolding replan_publication_context_def by (intro quiet_rules)

lemma quiet_block [quiet_rules]: "quiet (block_publication sv e run number err)"
  unfolding block_publication_def by (intro quiet_rules)

lemma quiet_complete [quiet_rules]: "quiet (complete_publication sv e run merge_sha number finished)"
  unfolding complete_publication_def by (intro quiet_rules)

text \<open>An effect at the end of a sequence means that every quiet step before it returned.\<close>

lemma loud_bind:
  assumes "act_bind m f s = (r, s')" and "sent_effects s' \<noteq> sent_effects s" and "quiet m"
  obtains x t where "m s = (Inr x, t)" and "f x t = (r, s')" and "sent_effects s' \<noteq> sent_effects t"
proof -
  obtain q t where Pair: "m s = (q, t)" by (meson surj_pair)
  show ?thesis
  proof (cases q)
    case (Inl err)
    with Pair assms quietD [OF assms(3) Pair] show ?thesis by (simp add: act_bind_def)
  next
    case (Inr x)
    with Pair assms quietD [OF assms(3) Pair] show ?thesis by (intro that [of x t]) (simp_all add: act_bind_def)
  qed
qed

section \<open>Approval\<close>

text \<open>
  The evidence a merge needs: the pull request, at the recorded head, was merged as this commit with
  an approval of the head and with the required check successful.
\<close>

definition approving_evidence :: "pull_request_evidence \<Rightarrow> string \<Rightarrow> string \<Rightarrow> bool" where
  "approving_evidence ev head merge_sha \<longleftrightarrow> pe_head_sha ev = head \<and> pe_merged ev \<and> pe_merge_commit ev = Some merge_sha \<and>
     1 \<le> approvals ev \<and> required_checks_pass [''planning-backlog-validation''] ''github-actions'' ev"

lemma check_approval_Inr:
  "check_approval ev merge_sha = Inr () \<longleftrightarrow> pe_merged ev \<and> pe_merge_commit ev = Some merge_sha \<and> 1 \<le> approvals ev \<and>
     required_checks_pass [''planning-backlog-validation''] ''github-actions'' ev"
  by (auto simp: check_approval_def res_simps required_planning_checks_def not_less)

lemma on_world_Inr: "on_world m s = (Inr x, t) \<Longrightarrow> \<exists>w w'. m w = (Inr x, w')"
  by (auto simp: on_world_def on_snd_def with_world_def split: prod.splits)

section \<open>What is published\<close>

lemma quiet_merged_backlog: "quiet (merged_backlog sv repository run merge_sha)"
  unfolding merged_backlog_def by (intro quiet_rules)

lemma read_immutable_blob:
  "read_immutable_artifact gh b w = (Inr content, w') \<Longrightarrow> git_blob_sha gh content = ab_blob_sha b"
  unfolding read_immutable_artifact_def act_Inr res_simps by blast

lemma resolved_binding:
  assumes "resolve_artifact_binding gh repository sha path w = (Inr b, w')"
  shows "ab_repository b = repository \<and> ab_commit_sha b = sha \<and> ab_path b = path"
proof -
  have path: "artifact_path path = Inr p \<Longrightarrow> p = path" for p
    by (simp add: artifact_path_def split: if_splits)
  from assms obtain p blob digest where "artifact_path path = Inr p" "new_binding repository sha p blob digest = Inr b"
    unfolding resolve_artifact_binding_def act_Inr by blast
  then show ?thesis using path by (auto simp: new_binding_def split: if_splits)
qed

text \<open>
  An effect after the approval: what is published is the plan of the run, parsed from bytes GitHub
  served for the backlog path of the merge commit and whose blob identifier was recomputed.
\<close>

definition published_from :: "('w, 'j) service \<Rightarrow> string \<Rightarrow> plan_run \<Rightarrow> string \<Rightarrow> bool" where
  "published_from sv repository run merge_sha \<longleftrightarrow> (\<exists>binding raw artifact w w'.
     read_immutable_artifact (sv_github sv) binding w = (Inr raw, w') \<and> ab_repository binding = repository \<and>
     ab_commit_sha binding = merge_sha \<and> ab_path binding = lr_backlog_path run \<and>
     git_blob_sha (sv_github sv) raw = ab_blob_sha binding \<and>
     load_artifact_bytes sv raw = Inr artifact \<and> same_plan artifact run)"

lemma published_backlog:
  assumes "act_bind (merged_backlog sv repository run merge_sha) (publish_merged sv e number merge_sha run) s = (r, s')"
    and "sent_effects s' \<noteq> sent_effects s"
  shows "published_from sv repository run merge_sha"
proof -
  obtain merged t where merged: "merged_backlog sv repository run merge_sha s = (Inr merged, t)"
    using loud_bind [OF assms quiet_merged_backlog] by blast
  then obtain binding raw u v where binding: "on_world (resolve_artifact_binding (sv_github sv) repository merge_sha (lr_backlog_path run)) s = (Inr binding, u)"
    and raw: "on_world (read_immutable_artifact (sv_github sv) binding) u = (Inr raw, v)"
    and load: "load_artifact_bytes sv raw = Inr (snd merged)" and same: "same_plan (snd merged) run"
    unfolding merged_backlog_def reject_if_def act_Inr res_simps by auto
  obtain w w' where w: "read_immutable_artifact (sv_github sv) binding w = (Inr raw, w')"
    using on_world_Inr [OF raw] by blast
  have "ab_repository binding = repository \<and> ab_commit_sha binding = merge_sha \<and> ab_path binding = lr_backlog_path run"
    using on_world_Inr [OF binding] by (auto dest: resolved_binding)
  with w read_immutable_blob [OF w] load same show ?thesis unfolding published_from_def by blast
qed

section \<open>A merge that publishes\<close>

text \<open>
  The planning pull request 3 of \<^verbatim>\<open>org/repo\<close>, approved by one person at its head and merged,
  with a publication already recorded whose one operation is still planned.
\<close>

definition ex_merge_sha :: string where
  "ex_merge_sha = replicate 40 CHR ''d''"

definition ex_gate_pull :: pyval where
  "ex_gate_pull = PDict [(''number'', PInt 3), (''html_url'', PStr ''https://h''), (''head'', PDict [(''sha'', PStr ex_commit_sha)]),
     (''state'', PStr ''closed''), (''merged'', PBool True), (''merge_commit_sha'', PStr ex_merge_sha)]"

definition ex_gate_checks :: pyval where
  "ex_gate_checks = PDict [(''total_count'', PInt 1), (''check_runs'', PList [PDict
     [(''id'', PInt 1), (''name'', PStr ''planning-backlog-validation''), (''head_sha'', PStr ex_commit_sha),
      (''app'', PDict [(''id'', PInt 2), (''slug'', PStr ''github-actions'')]),
      (''status'', PStr ''completed''), (''conclusion'', PStr ''success'')]])]"

definition ex_gate_document :: pyval where
  "ex_gate_document = PDict
     [(''sha'', PStr ex_merge_sha), (''commit'', PDict [(''tree'', PDict [(''sha'', PStr ex_merge_sha)])]),
      (''tree'', PList [PDict [(''path'', PStr ''p/b''), (''type'', PStr ''blob''), (''sha'', PStr ex_merge_sha)]]),
      (''encoding'', PStr ''base64''), (''content'', PStr ''aGk='')]"

definition ex_gate_answer :: "string \<Rightarrow> pyval" where
  "ex_gate_answer path =
     (if path = ''/repos/org/repo/pulls/3'' then ex_gate_pull
      else if path = ''/repos/org/repo/pulls/3/reviews?per_page=100&page=1'' then PList [ex_raw_review 5 ''User'' 11 ''APPROVED'' ''t'']
      else if is_prefix_of (''/repos/org/repo/commits/'' @ ex_commit_sha) path then ex_gate_checks
      else ex_gate_document)"

definition ex_gate_github :: "work_package list github" where
  "ex_gate_github = \<lparr>gh_token = act_return ''token'',
     gh_http = (\<lambda>verb path token body. act_return \<lparr>rp_status = 200, rp_json = Some (ex_gate_answer path)\<rparr>),
     gh_int = as_int, gh_instant = ex_instant, gh_sha1 = (\<lambda>s. ex_merge_sha), gh_sha256 = (\<lambda>s. replicate 64 CHR ''b'')\<rparr>"

definition ex_gate_plan :: backlog_plan where
  "ex_gate_plan = ex_small_plan\<lparr>bp_plan := (ex_meta 1 None)\<lparr>plan_openproject_snapshot :=
     \<lparr>sr_captured_at = ''t0'', sr_etag = ''e'', sr_sha256 = replicate 64 CHR ''a''\<rparr>\<rparr>\<rparr>"

definition ex_gate_request :: start_request where
  "ex_gate_request = \<lparr>sq_idempotency_key = ''key'', sq_trace_id = ''t'',
     sq_idea = \<lparr>is_work_package_id = 7, is_lock_version = 0, is_updated_at = 0, is_title = ''Idea'', is_description = []\<rparr>,
     sq_plan_id = ''alpha'', sq_plan_version = 1, sq_idea_sha256 = [], sq_captured_at = ''t0'', sq_etag = ''e'',
     sq_snapshot_sha256 = replicate 64 CHR ''a'', sq_repositories = [], sq_replan = None\<rparr>"

definition ex_gate_lifecycle :: "work_package list lifecycle_remote" where
  "ex_gate_lifecycle = \<lparr>lm_get = (\<lambda>n. act_return (created_package n (''alpha'', ''epic-one'') None)), lm_form = (\<lambda>n c. act_return ()),
     lm_patch = (\<lambda>n c ws. (TransportLost, ws)), lm_activities = (\<lambda>n. act_return []),
     lm_post_comment = (\<lambda>n text ws. (CommentReply 201 (Some (PInt 1)), ws))\<rparr>"

definition ex_planner :: "work_package list planner_client" where
  "ex_planner = \<lparr>pc_http = (\<lambda>verb path body. act_return \<lparr>rp_status = 404, rp_json = None\<rparr>),
     pc_response = (\<lambda>v. Inl (ValueError [])), pc_bundle = (\<lambda>v. Inl (ValueError []))\<rparr>"

definition ex_gate_service :: "(work_package list, pg_journal) service" where
  "ex_gate_service = \<lparr>sv_github = ex_gate_github, sv_remote = ex_remote, sv_lifecycle = ex_gate_lifecycle, sv_config = ex_config,
     sv_statuses = [], sv_journal = pg_ops ex_sha, sv_open_journal = (\<lambda>j. j), sv_sha = ex_sha, sv_schema_error = (\<lambda>p. None),
     sv_parse = (\<lambda>raw. Inr ex_gate_plan), sv_open_request = (\<lambda>thread raw. Inr ex_gate_request), sv_iso = (\<lambda>t. ''t''),
     sv_now = (\<lambda>w. 5), sv_required_checks = [], sv_planner = ex_planner,
     sv_open_resume = (\<lambda>thread raw. Inl (RecoveryPayloadRejected [])), sv_seal_start = (\<lambda>thread r. act_return ''c''),
     sv_seal_resume = (\<lambda>thread r. act_return ''c''), sv_read_package = (\<lambda>n. act_return []), sv_planning_repository = ''org/repo'',
     sv_request_digest = sq_idea_sha256, sv_start_fits = (\<lambda>r. True), sv_resume_fits = (\<lambda>r. True), sv_sanitize = (\<lambda>s. s),
     sv_text = (\<lambda>v. []), sv_uuid5 = (\<lambda>s. s), sv_correction_lock = (\<lambda>plan version. act_return ()),
     sv_correction_unlock = (\<lambda>w. w), sv_implementation_stale_after = 1, sv_thread_stale_after = 1\<rparr>"

definition ex_gate_run :: plan_run where
  "ex_gate_run = ex_run\<lparr>lr_state := RunPrOpen, lr_planning_commit := Some ex_commit_sha, lr_pr_number := Some 3, lr_pr_url := Some ''u''\<rparr>"

definition ex_gate_state :: "(work_package list, pg_journal) service_state" where
  "ex_gate_state = (fold run_store [(BeginRun ex_run, 1), (RecordPullRequest ''alpha'' 1 ex_commit_sha 3 ''u'', 2)] no_lifecycle,
     ex_recorded [(ex_create, ''planned'')], ex_adapter)"

definition ex_gate_event :: event_envelope where
  "ex_gate_event = \<lparr>ev_event_id = ''event-1'', ev_event_type = ''github.pull_request'', ev_source = ''github'',
     ev_source_delivery_id = ''event-1'', ev_occurred_at = 0, ev_received_at = 1, ev_trace_id = ''trace-1'',
     ev_idempotency_key = ''event:a:1'', ev_actor_kind = ''system'', ev_actor_id = ''gh'', ev_subject = [],
     ev_signature_verified = True, ev_signature_algorithm = ''github-hmac-sha256'',
     ev_payload = PDict [(''pull_request'', ex_gate_pull), (''repository'', PDict [(''full_name'', PStr ''org/repo'')])]\<rparr>"

definition ex_gate_approved :: plan_run where
  "ex_gate_approved = ex_gate_run\<lparr>lr_state := RunPublishing, lr_approved_commit := Some ex_merge_sha,
     lr_evidence_sha256 := Some (replicate 64 CHR ''b'')\<rparr>"

definition ex_gate_merged :: "artifact_binding \<times> loaded_artifact" where
  "ex_gate_merged = (\<lparr>ab_repository = ''org/repo'', ab_commit_sha = ex_merge_sha, ab_path = ''p/b'',
     ab_blob_sha = ex_merge_sha, ab_content_sha256 = replicate 64 CHR ''b''\<rparr>,
     \<lparr>la_plan = ex_gate_plan, la_sha256 = replicate 64 CHR ''b'', la_blob_sha1 = ex_merge_sha\<rparr>)"

definition ex_gate_ready :: "(work_package list, pg_journal) service_state" where
  "ex_gate_ready = (run_store (ApproveRun ex_gate_run ex_merge_sha (replicate 64 CHR ''b''), 5) (fst ex_gate_state), snd ex_gate_state)"

lemma ex_approved: "approved_run ex_gate_service ''org/repo'' ex_gate_run ex_merge_sha ex_gate_state = (Inr ex_gate_approved, ex_gate_ready)"
  by code_simp

lemma ex_backlog: "merged_backlog ex_gate_service ''org/repo'' ex_gate_approved ex_merge_sha ex_gate_ready =
    (Inr ex_gate_merged, ex_gate_ready)"
  by code_simp

definition ex_gate_bound :: plan_run where
  "ex_gate_bound = ex_gate_approved\<lparr>lr_blob_sha1 := Some ex_merge_sha, lr_backlog_sha256 := Some (replicate 64 CHR ''b'')\<rparr>"

definition ex_gate_started :: "(work_package list, pg_journal) service_state" where
  "ex_gate_started = (run_store (RecordBinding ex_gate_approved ex_merge_sha ex_merge_sha (replicate 64 CHR ''b''), 5) (fst ex_gate_ready),
     snd ex_gate_ready)"

lemma ex_bound: "store_update ex_gate_service (record_publication_binding ex_gate_approved ex_merge_sha ex_merge_sha
    (replicate 64 CHR ''b'')) ex_gate_ready = (Inr ex_gate_bound, ex_gate_started)"
  by code_simp

lemma ex_context: "replan_publication_context ex_gate_service ex_gate_bound (snd ex_gate_merged) ex_gate_started = (Inr None, ex_gate_started)"
  by code_simp

lemma ex_opened: "open_journal ex_gate_service ex_gate_started = (Inr (), ex_gate_started)"
  by code_simp

definition ex_gate_envelope :: publication_envelope where
  "ex_gate_envelope = publication_envelope_for ex_gate_service ex_gate_event ex_gate_bound ex_merge_sha (fst ex_gate_merged) (snd ex_gate_merged)"

definition ex_gate_resumed :: "(exn + (publication_operation list \<times> string list) option) \<times> pg_journal" where
  "ex_gate_resumed = jo_resume (pg_ops ex_sha) ex_gate_envelope (ex_recorded [(ex_create, ''planned'')])"

definition ex_gate_result :: "(exn + publish_result) \<times> pg_journal \<times> work_package list openproject_adapter" where
  "ex_gate_result = publish ex_sha (\<lambda>_. None) (Some (pg_ops ex_sha)) (openproject_ops ex_config ex_remote)
     (snd ex_gate_merged) ex_gate_envelope True None (snd ex_gate_resumed, ex_adapter)"

lemma ex_resumed: "(case fst ex_gate_resumed of Inr (Some (ops, done_ids)) \<Rightarrow> map op_id ops = [''op-1''] | _ \<Rightarrow> False)"
  by code_simp

lemma ex_result: "ex_is_Inr (fst ex_gate_result) \<and> effect_ids (snd (snd ex_gate_result)) = [''op-1'']"
  by code_simp

lemma ex_guarded: "\<exists>result s. guarded_publication ex_gate_service (snd ex_gate_merged) ex_gate_envelope None ex_gate_started =
    (Inr (Inr result), s) \<and> sent_effects s = [''op-1'']"
proof -
  obtain q j where q: "ex_gate_resumed = (q, j)" by (meson surj_pair)
  from ex_resumed obtain ops where "q = Inr (Some ops)" unfolding q by (auto split: sum.splits option.splits)
  then have resumed: "ex_gate_resumed = (Inr (Some ops), j)" using q by simp
  obtain p k a where p: "ex_gate_result = (p, k, a)" by (metis surj_pair)
  from ex_result obtain result where "p = Inr result" "effect_ids a = [''op-1'']"
    unfolding p by (auto simp: ex_is_Inr_def split: sum.splits)
  then have "ex_gate_result = (Inr result, k, a)" "effect_ids a = [''op-1'']" using p by simp_all
  with resumed show ?thesis
    by (simp add: guarded_publication_def publication_attempt_def act_bind_def act_catch_def on_publication_def on_snd_def
        on_fst_def close_journal_def act_return_def ex_gate_result_def ex_gate_resumed_def ex_gate_started_def
        ex_gate_ready_def ex_gate_state_def ex_gate_service_def sent_effects_def Let_def) blast
qed

lemma ex_gate_published:
  "sent_effects (snd (merged_planning_pull_request ex_gate_service ex_gate_event ''org/repo'' 3 ex_gate_run ex_merge_sha ex_gate_state)) = [''op-1'']"
proof -
  obtain result s where guarded: "guarded_publication ex_gate_service (snd ex_gate_merged) ex_gate_envelope None ex_gate_started =
      (Inr (Inr result), s)" "sent_effects s = [''op-1'']" using ex_guarded by blast
  have parts: "ab_blob_sha (fst ex_gate_merged) = ex_merge_sha" "la_sha256 (snd ex_gate_merged) = replicate 64 CHR ''b''"
    by (simp_all add: ex_gate_merged_def)
  have "merged_planning_pull_request ex_gate_service ex_gate_event ''org/repo'' 3 ex_gate_run ex_merge_sha ex_gate_state =
      complete_publication ex_gate_service ex_gate_event ex_gate_bound ex_merge_sha 3 result s"
    by (simp add: merged_planning_pull_request_def publish_merged_def act_bind_def ex_approved ex_backlog parts ex_bound ex_context
        ex_opened guarded flip: ex_gate_envelope_def)
  then show ?thesis using guarded(2) quietD [OF quiet_complete] by (metis surjective_pairing)
qed

end
