(* ===== verification/Frames.thy ===== *)
theory Frames
  imports ServiceBase
begin

text \<open>
  What every step of a handler keeps, whether it returns or raises: a handler moves along a
  preorder on states when all its steps do. The rules are proved once for any preorder.
\<close>

named_theorems step_rules \<open>steps that move along the preorder\<close>

definition moves :: "('s \<Rightarrow> 's \<Rightarrow> bool) \<Rightarrow> ('s, 'r) action \<Rightarrow> bool" where
  "moves R m \<longleftrightarrow> (\<forall>s r s'. m s = (r, s') \<longrightarrow> R s s')"

lemma movesI: "(\<And>s r s'. m s = (r, s') \<Longrightarrow> R s s') \<Longrightarrow> moves R m"
  by (simp add: moves_def)

lemma movesD: "moves R m \<Longrightarrow> m s = (r, s') \<Longrightarrow> R s s'"
  by (simp add: moves_def)

locale step_order =
  fixes R :: "'s \<Rightarrow> 's \<Rightarrow> bool"
  assumes stays: "R s s"
    and follows: "R s t \<Longrightarrow> R t u \<Longrightarrow> R s u"
begin

lemma still [step_rules]: "moves R (act_return x)" "moves R (act_raise e)" "moves R (act_lift r)"
  by (simp_all add: moves_def act_return_def act_raise_def act_lift_def stays)

lemma still_reject [step_rules]: "moves R (reject_if c message)"
  unfolding reject_if_def by (rule still)

lemma sequence [step_rules]: "moves R m \<Longrightarrow> (\<And>x. moves R (f x)) \<Longrightarrow> moves R (act_bind m f)"
  unfolding moves_def act_bind_def by (fastforce split: prod.splits sum.splits intro: follows)

lemma sequence_known: "moves R m \<Longrightarrow> (\<And>x s t. m s = (Inr x, t) \<Longrightarrow> moves R (f x)) \<Longrightarrow> moves R (act_bind m f)"
  unfolding moves_def act_bind_def by (fastforce split: prod.splits sum.splits intro: follows)

text \<open>A change at the end of a sequence comes after its still first step has returned.\<close>

lemma change_later:
  assumes "act_bind m f s = (r, s')" and "\<not> R s s'" and "moves R m"
  obtains x t where "m s = (Inr x, t)" and "f x t = (r, s')" and "\<not> R t s'"
proof -
  obtain q t where first: "m s = (q, t)" by (meson surj_pair)
  with movesD [OF assms(3)] have "R s t" by blast
  with assms(1,2) first follows show ?thesis by (cases q) (auto simp: act_bind_def intro: that)
qed

lemma recovery [step_rules]: "moves R m \<Longrightarrow> (\<And>e. moves R (h e)) \<Longrightarrow> moves R (act_catch m h)"
  unfolding moves_def act_catch_def by (fastforce split: prod.splits sum.splits intro: follows)

lemma choice [step_rules]: "moves R m \<Longrightarrow> moves R m' \<Longrightarrow> moves R (if c then m else m')"
  by simp

lemma choice_option [step_rules]:
  "moves R m \<Longrightarrow> (\<And>x. moves R (f x)) \<Longrightarrow> moves R (case v of None \<Rightarrow> m | Some x \<Rightarrow> f x)"
  by (cases v) simp_all

lemma choice_list [step_rules]:
  "moves R m \<Longrightarrow> (\<And>x xs. moves R (f x xs)) \<Longrightarrow> moves R (case v of [] \<Rightarrow> m | x # xs \<Rightarrow> f x xs)"
  by (cases v) simp_all

lemma choice_pair [step_rules]: "(\<And>x y. moves R (f x y)) \<Longrightarrow> moves R (case p of (x, y) \<Rightarrow> f x y)"
  by (cases p) simp

lemma choice_sum [step_rules]:
  "(\<And>x. moves R (f x)) \<Longrightarrow> (\<And>y. moves R (g y)) \<Longrightarrow> moves R (case v of Inl x \<Rightarrow> f x | Inr y \<Rightarrow> g y)"
  by (cases v) simp_all

end

text \<open>A preorder on the lifecycle database, seen on the state of the service.\<close>

definition on_store :: "(lifecycle_db \<Rightarrow> lifecycle_db \<Rightarrow> bool) \<Rightarrow> ('w, 'j) service_state \<Rightarrow> ('w, 'j) service_state \<Rightarrow> bool" where
  "on_store R s t \<longleftrightarrow> R (fst s) (fst t)"

locale store_order =
  fixes Q :: "lifecycle_db \<Rightarrow> lifecycle_db \<Rightarrow> bool"
  assumes store_stays: "Q d d"
    and store_follows: "Q d d' \<Longrightarrow> Q d' d'' \<Longrightarrow> Q d d''"
    and store_frame: "ld_associations d' = ld_associations d \<Longrightarrow> ld_runs d' = ld_runs d \<Longrightarrow> Q d d'"

sublocale store_order \<subseteq> step_order "on_store Q"
  by unfold_locales (auto simp: on_store_def intro: store_stays store_follows)

context store_order
begin

lemma outside_store [step_rules]:
  "moves (on_store Q) (on_world m)" "moves (on_store Q) (on_publication p)" "moves (on_store Q) (store_query f)"
  by (auto simp: moves_def on_store_def on_world_def on_publication_def on_snd_def store_query_def store_stays
      split: prod.splits)

lemma audited [step_rules]: "moves (on_store Q) (finish e x)"
  by (auto simp: moves_def on_store_def finish_def store_audit_def intro: store_frame)

lemma updated: "(\<And>now d r d'. f now d = (r, d') \<Longrightarrow> Q d d') \<Longrightarrow> moves (on_store Q) (store_update sv f)"
  by (auto simp: moves_def on_store_def store_update_def on_fst_def split: prod.splits)

end

end
