(* ===== verification/ImplementationFacts.thy ===== *)
theory ImplementationFacts
  imports ImplementationFlow MergeFacts Frames
begin

text \<open>
  What the projection of implementation pull requests guarantees, and where it does not: a recorded
  merge decides it for ever, a status is only raised, a successful check needs passing evidence, a
  first binding needs an approved node; but a status closed between the read and the write is lost.
\<close>

section \<open>A merge decides the projection\<close>

definition work_package_pulls :: "int \<Rightarrow> lifecycle_db \<Rightarrow> pr_association list" where
  "work_package_pulls n d = filter (\<lambda>a. pa_work_package_id a = n) (implementation_associations d)"

lemma dict_get_values: "dict_get d k = Some v \<Longrightarrow> v \<in> set (map snd d)"
  by (induction d) (auto split: if_splits)

lemma pulls_member: "dict_get (ld_associations d) k = Some a \<Longrightarrow> a \<in> set (work_package_pulls (pa_work_package_id a) d)"
  using dict_get_values [of "ld_associations d" k a] by (simp add: work_package_pulls_def implementation_associations_def)

lemma merged_projection:
  "a \<in> set associations \<Longrightarrow> pa_merged_commit a \<noteq> None \<Longrightarrow> implementation_projection associations = (Some ''Review'', ''pr_merged'')"
  by (auto simp: implementation_projection_def list_ex_iff)

text \<open>
  C7: Once one pull request of a work package is recorded as merged, the projection of the work
  package is Review with evidence pr_merged after any further observations and check results, of
  this or of other pull requests and in any order.
\<close>

theorem merged_projection_permanent:
  assumes "associations_ok d" and "dict_get (ld_associations d) k = Some a" and "pa_merged_commit a \<noteq> None"
  shows "implementation_projection (work_package_pulls (pa_work_package_id a) (fold run_association calls d)) =
    (Some ''Review'', ''pr_merged'')"
proof -
  from run_associations_later [OF assms(1), of calls] assms(2) obtain b
    where b: "dict_get (ld_associations (fold run_association calls d)) k = Some b" "later_facts a b" by blast
  then have "pa_work_package_id b = pa_work_package_id a" "pa_merged_commit b \<noteq> None"
    using assms(3) by (auto simp: later_facts_def same_identity_def)
  then show ?thesis using merged_projection [OF pulls_member [OF b(1)]] by simp
qed

section \<open>A status is only raised\<close>

definition world_of :: "('w, 'j) service_state \<Rightarrow> 'w" where
  "world_of s = ad_world (snd (snd s))"

lemma on_world_result: "on_world m s = (Inr x, t) \<Longrightarrow> m (world_of s) = (Inr x, world_of t) \<and> fst t = fst s"
  by (auto simp: on_world_def on_snd_def with_world_def world_of_def split: prod.splits)

definition distinct_statuses :: "status_table \<Rightarrow> bool" where
  "distinct_statuses statuses \<longleftrightarrow>
     (\<forall>m n i. dict_get statuses m = Some i \<longrightarrow> dict_get statuses n = Some i \<longrightarrow> m = n)"

lemma distinct_statusesD: "distinct_statuses statuses \<Longrightarrow> dict_get statuses m = Some i \<Longrightarrow> dict_get statuses n = Some i \<Longrightarrow> m = n"
  unfolding distinct_statuses_def by blast

definition has_status :: "status_table \<Rightarrow> work_package \<Rightarrow> string \<Rightarrow> bool" where
  "has_status statuses w name \<longleftrightarrow> (\<exists>i. dict_get statuses name = Some i \<and> status_id_of w = PInt i)"

text \<open>The moves the contract allows.\<close>

definition forward :: "status_table \<Rightarrow> work_package \<Rightarrow> string \<Rightarrow> bool" where
  "forward statuses w name \<longleftrightarrow>
     name = ''In Progress'' \<and> (has_status statuses w ''Proposed'' \<or> has_status statuses w ''Ready'') \<or>
     name = ''Review'' \<and> (has_status statuses w ''Proposed'' \<or> has_status statuses w ''Ready'' \<or> has_status statuses w ''In Progress'')"

lemma as_int_Some: "as_int v = Some n \<longleftrightarrow> v = PInt n"
  by (cases v) auto

lemma has_status_unique:
  "distinct_statuses statuses \<Longrightarrow> has_status statuses w m \<Longrightarrow> has_status statuses w n \<Longrightarrow> m = n"
  unfolding has_status_def distinct_statuses_def by auto

lemma projected_names: "fst (implementation_projection associations) = Some name \<Longrightarrow> name = ''In Progress'' \<or> name = ''Review''"
  by (auto simp: implementation_projection_def split: if_splits)

lemma status_ranks_get:
  assumes "status_ranks statuses = Inr ranks" and "distinct_statuses statuses"
  shows "dict_get ranks i =
    (if dict_get statuses ''Review'' = Some i then Some 2
     else if dict_get statuses ''In Progress'' = Some i then Some 1
     else if dict_get statuses ''Ready'' = Some i \<or> dict_get statuses ''Proposed'' = Some i then Some 0 else None)"
  using assms(1) by (auto simp: status_ranks_def status_number_def res_simps dict_of_def dict_simps)

lemma advanced_status_parts:
  assumes "advanced_status statuses w desired = Inr (Some name)"
  obtains ranks target rank old current where "desired = Some name" and "status_ranks statuses = Inr ranks"
    and "dict_get statuses name = Some target" and "dict_get ranks target = Some rank"
    and "status_id_of w = PInt old" and "dict_get ranks old = Some current" and "current < rank"
  using assms
  by (auto simp: advanced_status_def res_simps status_number_def as_int_Some bind_eq_Some_conv split: option.splits if_splits)

lemma advanced_status_forward:
  assumes "distinct_statuses statuses" and "advanced_status statuses w desired = Inr (Some name)"
    and "name = ''In Progress'' \<or> name = ''Review''"
  shows "forward statuses w name"
proof -
  from assms(2) obtain ranks target rank old current where parts: "status_ranks statuses = Inr ranks"
    "dict_get statuses name = Some target" "dict_get ranks target = Some rank"
    "status_id_of w = PInt old" "dict_get ranks old = Some current" "current < rank"
    by (rule advanced_status_parts)
  note get = status_ranks_get [OF parts(1) assms(1)]
  have "rank = (if name = ''Review'' then 2 else 1)"
    using parts(2,3) assms(1,3) unfolding get distinct_statuses_def by (auto split: if_splits)
  with parts(4-6) assms(3) show ?thesis
    unfolding get forward_def has_status_def by (auto split: if_splits)
qed

text \<open>What one projection does: nothing, or one write of the decided fields.\<close>

definition projected ::
  "('w, 'j) service \<Rightarrow> int \<Rightarrow> ('w, 'j) service_state \<Rightarrow> bool \<Rightarrow> ('w, 'j) service_state \<Rightarrow> work_package \<Rightarrow> string option \<Rightarrow> string option \<Rightarrow> bool" where
  "projected sv n s wrote s' package status evidence \<longleftrightarrow>
     (\<exists>ident w. resolve (sv_remote sv) ident (world_of s) = (Inr (Some package), w) \<and> wp_id package = n \<and>
       (if wrote then \<exists>x. set_lifecycle_state (sv_statuses sv) (sv_lifecycle sv) n status evidence w = (Inr x, world_of s')
        else status = None \<and> evidence = None \<and> world_of s' = w)) \<and> fst s' = fst s"

lemma write_projection_result:
  assumes "write_projection sv associations n package s = (Inr wrote, s')"
  obtains status where "advanced_status (sv_statuses sv) package (fst (implementation_projection associations)) = Inr status"
    and "evidence = (if wp_evidence_state package \<noteq> Some (snd (implementation_projection associations))
      then Some (snd (implementation_projection associations)) else None) \<Longrightarrow>
      wrote \<longleftrightarrow> \<not> (status = None \<and> evidence = None)"
    and "evidence = (if wp_evidence_state package \<noteq> Some (snd (implementation_projection associations))
      then Some (snd (implementation_projection associations)) else None) \<Longrightarrow>
      (if wrote then \<exists>x. set_lifecycle_state (sv_statuses sv) (sv_lifecycle sv) n status evidence (world_of s) = (Inr x, world_of s')
       else world_of s' = world_of s)"
    and "fst s' = fst s"
  using assms unfolding write_projection_def act_Inr
  by (force simp: Let_def act_Inr dest: on_world_result split: if_splits)

text \<open>
  C8: The projection writes what the pull requests of the work package say, and only upwards: from
  the work package it resolved it leaves the status alone, or raises Proposed and Ready to In
  Progress or Review, and In Progress to Review; with distinct statuses a package that reads
  Blocked, Needs Input, Done, Superseded or Rejected keeps its status. Nothing else is written, and
  the store is not touched.
\<close>

theorem projection_only_raises:
  assumes "distinct_statuses (sv_statuses sv)" and "project_implementation_work_package sv n s = (Inr wrote, s')"
  shows "\<exists>package status evidence. projected sv n s wrote s' package status evidence \<and>
    (\<forall>name. status = Some name \<longrightarrow> fst (implementation_projection (work_package_pulls n (fst s))) = Some name \<and>
       forward (sv_statuses sv) package name \<and>
       \<not> list_ex (has_status (sv_statuses sv) package) [''Blocked'', ''Needs Input'', ''Done'', ''Superseded'', ''Rejected'']) \<and>
    (\<forall>e. evidence = Some e \<longrightarrow> e = snd (implementation_projection (work_package_pulls n (fst s))))"
proof -
  let ?rows = "work_package_pulls n (fst s)"
  from assms(2) obtain a rest where rows: "?rows = a # rest"
    by (cases ?rows) (auto simp: project_implementation_work_package_def store_query_def act_bind_def work_package_pulls_def act_raise_def)
  with assms(2) obtain package t where read: "on_world (resolve (sv_remote sv) (pa_plan_id a, pa_node_key a)) s = (Inr (Some package), t)"
    and id: "wp_id package = n" and run: "write_projection sv ?rows n package t = (Inr wrote, s')"
    unfolding project_implementation_work_package_def work_package_pulls_def
    by (auto simp: act_Inr store_query_def Let_def split: option.splits if_splits)
  let ?e = "snd (implementation_projection ?rows)"
  let ?evidence = "if wp_evidence_state package \<noteq> Some ?e then Some ?e else None"
  obtain status where status: "advanced_status (sv_statuses sv) package (fst (implementation_projection ?rows)) = Inr status"
    and wrote: "wrote \<longleftrightarrow> \<not> (status = None \<and> ?evidence = None)"
    and effect: "if wrote then \<exists>x. set_lifecycle_state (sv_statuses sv) (sv_lifecycle sv) n status ?evidence (world_of t) = (Inr x, world_of s')
       else world_of s' = world_of t" and store: "fst s' = fst t"
    using write_projection_result [OF run, of ?evidence] by metis
  have "projected sv n s wrote s' package status ?evidence"
    using on_world_result [OF read] id wrote effect store unfolding projected_def by metis
  moreover have "fst (implementation_projection ?rows) = Some name \<and> forward (sv_statuses sv) package name \<and>
      \<not> list_ex (has_status (sv_statuses sv) package) [''Blocked'', ''Needs Input'', ''Done'', ''Superseded'', ''Rejected'']"
    if "status = Some name" for name
  proof -
    have desired: "fst (implementation_projection ?rows) = Some name"
      using status that by (auto elim: advanced_status_parts)
    then have "forward (sv_statuses sv) package name"
      using advanced_status_forward [OF assms(1)] status that projected_names by blast
    moreover from this have "\<not> list_ex (has_status (sv_statuses sv) package) [''Blocked'', ''Needs Input'', ''Done'', ''Superseded'', ''Rejected'']"
      using has_status_unique [OF assms(1)] by (fastforce simp: forward_def)
    ultimately show ?thesis using desired by simp
  qed
  ultimately show ?thesis by (intro exI [of _ package] exI [of _ status] exI [of _ ?evidence]) auto
qed

section \<open>The window between the read and the write\<close>

lemma set_lifecycle_state_patches:
  assumes "lm_get lm n w = (Inr current, w1)" and "wanted_status statuses status = Inr wanted"
    and "status_change current wanted \<noteq> None" and "evidence = Some e" and "e \<noteq> []" and "length e \<le> 255"
    and "lm_form lm n \<lparr>sc_lock_version = wp_lock_version current, sc_status_id = status_change current wanted,
        sc_evidence = evidence_change current evidence\<rparr> w1 = (Inr (), w2)"
    and "lm_patch lm n \<lparr>sc_lock_version = wp_lock_version current, sc_status_id = status_change current wanted,
        sc_evidence = evidence_change current evidence\<rparr> w2 = (HttpResponse 200 (Some verified) b, w3)"
    and "status_change verified wanted = None" and "wp_evidence_state verified = evidence"
  shows "set_lifecycle_state statuses lm n status evidence w = (Inr verified, w3)"
  using assms
  by (auto simp: set_lifecycle_state_def act_bind_def act_lift_def commit_def act_return_def Let_def)

text \<open>
  C9: The contract says that the projection never overwrites Done, but the decision is taken on one
  read of the work package and the write on another. When the package reads In Progress, a person
  closes it, and only then the write reads it again, the PATCH carries the lock version of the closed
  package and moves it from Done to Review; the server accepts it, since the lock version is current.
\<close>

theorem projection_overwrites_done:
  assumes "distinct_statuses (sv_statuses sv)" and "status_ranks (sv_statuses sv) = Inr ranks"
    and "dict_get (sv_statuses sv) ''Review'' = Some review"
    and "list_ex (\<lambda>a. pa_merged_commit a \<noteq> None) associations"
    and read: "has_status (sv_statuses sv) package ''In Progress''" "wp_evidence_state package = Some ''pr_open''"
    and again: "lm_get (sv_lifecycle sv) n (world_of s) = (Inr closed, w1)"
    and closed: "has_status (sv_statuses sv) closed ''Done''" "wp_evidence_state closed = Some ''pr_open''"
    and form: "lm_form (sv_lifecycle sv) n \<lparr>sc_lock_version = wp_lock_version closed, sc_status_id = Some review,
        sc_evidence = Some ''pr_merged''\<rparr> w1 = (Inr (), w2)"
    and patch: "lm_patch (sv_lifecycle sv) n \<lparr>sc_lock_version = wp_lock_version closed, sc_status_id = Some review,
        sc_evidence = Some ''pr_merged''\<rparr> w2 = (HttpResponse 200 (Some verified) b, w3)"
    and verified: "has_status (sv_statuses sv) verified ''Review''" "wp_evidence_state verified = Some ''pr_merged''"
  shows "\<exists>s'. write_projection sv associations n package s = (Inr True, s') \<and> world_of s' = w3"
proof -
  have projection: "implementation_projection associations = (Some ''Review'', ''pr_merged'')"
    using assms(4) by (simp add: implementation_projection_def)
  obtain old where old: "dict_get (sv_statuses sv) ''In Progress'' = Some old" "status_id_of package = PInt old"
    using read(1) by (auto simp: has_status_def)
  have ranks: "dict_get ranks review = Some 2" "dict_get ranks old = Some 1"
    using status_ranks_get [OF assms(2,1)] assms(1,3) old(1) by (auto simp: distinct_statuses_def)
  then have status: "advanced_status (sv_statuses sv) package (Some ''Review'') = Inr (Some ''Review'')"
    using assms(2,3) old(2) by (simp add: advanced_status_def status_number_def)
  have "dict_get (sv_statuses sv) ''Done'' \<noteq> Some review"
    using distinct_statusesD [OF assms(1,3), of "''Done''"] by auto
  then have "status_change closed (Some review) = Some review"
    using closed(1) by (auto simp: status_change_def has_status_def)
  moreover have "evidence_change closed (Some ''pr_merged'') = Some ''pr_merged''" "status_change verified (Some review) = None"
    using closed(2) verified(1) assms(3) by (auto simp: evidence_change_def status_change_def has_status_def)
  ultimately have "set_lifecycle_state (sv_statuses sv) (sv_lifecycle sv) n (Some ''Review'') (Some ''pr_merged'') (world_of s) =
      (Inr verified, w3)"
    by (intro set_lifecycle_state_patches [OF again _ _ _ _ _ _ _ _ verified(2), where wanted = "Some review" and e = "''pr_merged''"])
      (use form patch assms(3) in \<open>simp_all add: wanted_status_def\<close>)
  then show ?thesis
    using read(2) status
    by (auto simp: write_projection_def projection act_bind_def act_lift_def act_return_def on_world_def on_snd_def
        with_world_def world_of_def Let_def)
qed

section \<open>A successful check needs passing evidence\<close>

definition passing :: "('w, 'j) service \<Rightarrow> string \<times> int \<Rightarrow> string \<Rightarrow> bool" where
  "passing sv k h \<longleftrightarrow> (\<exists>expected ev w w'. pull_request_evidence (sv_github sv) (fst k) (snd k) expected w = (Inr ev, w') \<and>
     pe_head_sha ev = h \<and> implementation_evidence_passes sv ev)"

definition checks_backed :: "('w, 'j) service \<Rightarrow> lifecycle_db \<Rightarrow> lifecycle_db \<Rightarrow> bool" where
  "checks_backed sv d d' \<longleftrightarrow> (associations_ok d \<longrightarrow> associations_ok d' \<and>
     (\<forall>k a h. dict_get (ld_associations d') k = Some a \<longrightarrow> pa_successful_check_sha a = Some h \<longrightarrow>
        (\<exists>b. dict_get (ld_associations d) k = Some b \<and> pa_successful_check_sha b = Some h) \<or> passing sv k h))"

interpretation backed: store_order "checks_backed sv" for sv
proof
  show "checks_backed sv d d" for d by (auto simp: checks_backed_def)
  show "checks_backed sv d d''" if "checks_backed sv d d'" "checks_backed sv d' d''" for d d' d''
    using that unfolding checks_backed_def by blast
  show "checks_backed sv d d'" if "ld_associations d' = ld_associations d" "ld_runs d' = ld_runs d" for d d'
    using that by (auto simp: checks_backed_def associations_ok_def)
qed

lemma stored_backed:
  assumes "association_checks a" and "\<And>h. associations_ok d \<Longrightarrow> pa_successful_check_sha a = Some h \<Longrightarrow>
      (\<exists>b. dict_get (ld_associations d) (pa_repository a, pa_number a) = Some b \<and> pa_successful_check_sha b = Some h)
      \<or> passing sv (pa_repository a, pa_number a) h"
  shows "checks_backed sv d (store_association a d)"
  using assms associations_ok_store [of d a]
  by (auto simp: checks_backed_def store_association_def dict_simps split: if_splits)

lemma next_facts_check: "pa_successful_check_sha (next_facts c s) = Some h \<Longrightarrow> pa_successful_check_sha c = Some h"
  by (auto simp: next_facts_def Let_def split: if_splits)

lemma bind_backed [step_rules]: "moves (on_store (checks_backed sv)) (store_update sv' (\<lambda>now. bind_implementation_pull_request seen))"
proof (rule backed.updated)
  fix d r d'
  assume run: "bind_implementation_pull_request seen d = (r, d')"
  show "checks_backed sv d d'"
  proof (cases r)
    case (Inl e)
    with run have "d' = d" by (auto simp: bind_implementation_pull_request_def Let_def split: sum.splits if_splits)
    then show ?thesis using backed.store_stays by simp
  next
    case (Inr a)
    from bind_result [OF run [unfolded Inr]] obtain current where
      "current = (case dict_get (ld_associations d) (pa_repository seen, pa_number seen) of
          None \<Rightarrow> seen\<lparr>pa_successful_check_sha := None\<rparr> | Some c \<Rightarrow> c)"
      "a = next_facts current seen" "association_checks a" "d' = store_association a d" by blast
    then show ?thesis
      by (auto intro!: stored_backed dest!: next_facts_check split: option.splits dest: association_constraints(2))
  qed
qed

lemma record_backed:
  assumes "passed \<Longrightarrow> passing sv (repository, number) head"
  shows "moves (on_store (checks_backed sv)) (store_update sv' (\<lambda>now. record_implementation_check_result repository number head passed))"
proof (rule backed.updated)
  fix d r d'
  assume run: "record_implementation_check_result repository number head passed d = (r, d')"
  show "checks_backed sv d d'"
  proof (cases "d' = d")
    case False
    with run obtain a where a: "dict_get (ld_associations d) (repository, number) = Some a"
      "d' = store_association (a\<lparr>pa_successful_check_sha := (if passed then Some head else None)\<rparr>) d"
      "association_checks (a\<lparr>pa_successful_check_sha := (if passed then Some head else None)\<rparr>)"
      by (auto simp: record_implementation_check_result_def Let_def split: if_splits option.splits)
    show ?thesis
      unfolding a(2) using assms association_constraints(2) [OF _ a(1)] by (intro stored_backed [OF a(3)]) (auto split: if_splits)
  qed (simp add: backed.store_stays)
qed

lemma project_backed [step_rules]: "moves (on_store (checks_backed sv)) (project_implementation_work_package sv' n)"
  unfolding project_implementation_work_package_def write_projection_def Let_def by (intro step_rules)

lemma evidence_passing:
  assumes "on_world (pull_request_evidence (sv_github sv) repository number (Some head)) s = (Inr ev, t)"
    and "implementation_evidence_passes sv ev"
  shows "passing sv (repository, number) head"
  using on_world_result [OF assms(1)] pull_request_evidence_sound [of "sv_github sv" repository number "Some head" "world_of s" ev "world_of t"] assms(2)
  unfolding passing_def by auto

lemma refresh_backed [step_rules]:
  "moves (on_store (checks_backed sv)) (refresh_association sv e head a)"
  unfolding refresh_association_def
  by (rule backed.sequence_known, rule backed.outside_store)
    (intro step_rules record_backed, erule evidence_passing)

lemma check_pull_backed [step_rules]: "moves (on_store (checks_backed sv)) (check_pull sv e repository head number)"
  unfolding check_pull_def by (intro step_rules)

lemma check_pulls_backed [step_rules]: "moves (on_store (checks_backed sv)) (check_pulls sv e repository head pulls seen n)"
proof (induction pulls arbitrary: seen n)
  case Nil
  show ?case unfolding check_pulls.simps by (intro step_rules)
next
  case (Cons p pulls)
  then show ?case unfolding check_pulls.simps by (intro step_rules)
qed

lemma check_run_backed [step_rules]: "moves (on_store (checks_backed sv)) (check_run_event sv e)"
  unfolding check_run_event_def by (intro step_rules)

section \<open>The first binding\<close>

definition same_associations :: "lifecycle_db \<Rightarrow> lifecycle_db \<Rightarrow> bool" where
  "same_associations d d' \<longleftrightarrow> ld_associations d' = ld_associations d"

interpretation unbound: store_order same_associations
  by unfold_locales (auto simp: same_associations_def)

lemma published_artifact_unbound [step_rules]: "moves (on_store same_associations) (published_artifact sv run)"
  unfolding published_artifact_def by (intro step_rules)

lemma check_binding_unbound [step_rules]: "moves (on_store same_associations) (check_binding sv repository ident package existing)"
  unfolding check_binding_def first_binding_def by (intro step_rules)

lemma project_unbound [step_rules]: "moves (on_store same_associations) (project_implementation_work_package sv n)"
  unfolding project_implementation_work_package_def write_projection_def Let_def by (intro step_rules)

lemma bind_key:
  assumes "associations_ok d" and "bind_implementation_pull_request seen d = (Inr a, d')"
  shows "(pa_repository a, pa_number a) = (pa_repository seen, pa_number seen)"
  using bind_result [OF assms(2)] association_constraints(2) [OF assms(1)] by (auto split: option.splits)

lemma bind_observed_associations:
  assumes "associations_ok (fst s)" and "bind_observed sv e package seen s = (r, s')" and "\<not> on_store same_associations s s'"
  obtains a where "bind_implementation_pull_request seen (fst s) = (Inr a, store_association a (fst s))"
    and "ld_associations (fst s') = dict_set (pa_repository seen, pa_number seen) a (ld_associations (fst s))"
proof -
  obtain q t where bound: "store_update sv (\<lambda>now. bind_implementation_pull_request seen) s = (q, t)" by (meson surj_pair)
  have rest: "moves (on_store same_associations) (act_bind (on_world (ensure_comment (sv_lifecycle sv) (wp_id package)
      (''Implementation pull request: '' @ pa_url seen) (pull_comment_key sv (pa_repository seen) (pa_number seen)))) (\<lambda>_.
      act_bind (project_implementation_work_package sv (pa_work_package_id a)) (\<lambda>_. finish e (x a))))" for a x
    by (intro step_rules)
  show ?thesis
  proof (cases q)
    case (Inl err)
    with bound have "fst t = fst s"
      by (auto simp: store_update_def on_fst_def bind_implementation_pull_request_def Let_def split: prod.splits sum.splits if_splits)
    with Inl bound assms show ?thesis by (auto simp: bind_observed_def act_bind_def on_store_def same_associations_def)
  next
    case (Inr a)
    with bound have run: "bind_implementation_pull_request seen (fst s) = (Inr a, fst t)"
      by (auto simp: store_update_def on_fst_def split: prod.splits)
    from bind_result [OF run] have stored: "fst t = store_association a (fst s)" by auto
    moreover have key: "(pa_repository a, pa_number a) = (pa_repository seen, pa_number seen)"
      using bind_key [OF assms(1) run] .
    moreover have "on_store same_associations t s'"
      using assms(2) bound Inr movesD [OF rest] unfolding bind_observed_def by (simp add: act_bind_def)
    ultimately show ?thesis using run
      by (intro that [of a]) (simp_all add: on_store_def same_associations_def store_association_def)
  qed
qed

text \<open>What was bound stays, however the rest of the handler ends.\<close>

lemma bind_observed_stored:
  assumes "bind_observed sv e package seen s = (r, s')" and "bind_implementation_pull_request seen (fst s) = (Inr a, d')"
  shows "ld_associations (fst s') = ld_associations d'"
proof -
  have "moves (on_store same_associations) (act_bind (on_world (ensure_comment (sv_lifecycle sv) (wp_id package)
      (''Implementation pull request: '' @ pa_url seen) (pull_comment_key sv (pa_repository seen) (pa_number seen)))) (\<lambda>_.
      act_bind (project_implementation_work_package sv (pa_work_package_id a)) (\<lambda>_. finish e x)))" for x
    by (intro step_rules)
  from movesD [OF this] assms show ?thesis
    unfolding bind_observed_def act_bind_def [of "store_update sv _"] store_update_def on_fst_def
    by (fastforce simp: on_store_def same_associations_def split: prod.splits)
qed

lemma managed_when_changed:
  assumes "implementation_pull_request sv e repository pull s = (r, s')" and "\<not> on_store same_associations s s'"
  obtains body ident where "obj_get pull ''body'' = PStr body" and "work_package_marker body = Some ident"
    and "managed_pull_request sv e repository ident pull s = (r, s')"
proof (cases "work_package_marker (case as_str (obj_get pull ''body'') of Some s \<Rightarrow> s | None \<Rightarrow> [])")
  case None
  with assms(1) have "finish e (new_outcome ''implementation_pr'' ''unmanaged'') s = (r, s')"
    by (simp add: implementation_pull_request_def)
  from movesD [OF unbound.audited this] assms(2) show ?thesis by blast
next
  case (Some ident)
  then obtain body where "as_str (obj_get pull ''body'') = Some body" by (auto split: option.splits)
  with Some assms(1) that show ?thesis
    by (cases "obj_get pull ''body''") (auto simp: implementation_pull_request_def)
qed

lemma checked_pull_unbound: "moves (on_store same_associations) (checked_pull sv e repository ident pull)"
  unfolding checked_pull_def by (intro step_rules)

lemma observed_pull_fields:
  assumes "observed_pull e repository ident pull = Inr seen"
  shows "pa_repository (seen n) = repository \<and> pa_number (seen n) = pa_number (seen m) \<and>
    (pa_plan_id (seen n), pa_node_key (seen n)) = ident \<and> pa_work_package_id (seen n) = n"
  using assms by (auto simp: observed_pull_def res_simps Let_def split: if_splits)

lemma first_binding_result:
  assumes "first_binding sv repository ident package s = (Inr v, t)"
  shows "\<exists>run artifact terminal u u'. latest_published (fst ident) (fst s) = Some run \<and>
    published_artifact sv run u = (Inr artifact, u') \<and> terminal_statuses (sv_statuses sv) = Inr terminal \<and>
    approved_node sv repository ident package terminal run (la_plan artifact)"
proof (cases "latest_published (fst ident) (fst s)")
  case None
  with assms show ?thesis
    by (simp add: first_binding_def act_bind_def store_query_def act_return_def act_lift_def reject_if_def split: sum.splits)
next
  case (Some run)
  with assms show ?thesis
    unfolding first_binding_def act_Inr store_query_def reject_if_def res_simps by (fastforce simp: act_Inr res_simps)
qed

lemma checked_pull_repository:
  assumes "checked_pull sv e repository ident pull s = (Inr (package, seen), t)"
  shows "pa_repository seen = repository"
  using assms observed_pull_fields unfolding checked_pull_def act_Inr by blast

text \<open>What has passed when the pull request is not known yet.\<close>

lemma checked_pull_first:
  assumes "checked_pull sv e repository ident pull s = (Inr (package, seen), t)"
    and "dict_get (ld_associations (fst s)) (repository, pa_number seen) = None"
  shows "pa_repository seen = repository \<and> (pa_plan_id seen, pa_node_key seen) = ident \<and> pa_work_package_id seen = wp_id package \<and>
    (\<exists>run artifact terminal t t' w w'. resolve (sv_remote sv) ident w = (Inr (Some package), w') \<and>
      latest_published (fst ident) (fst s) = Some run \<and> published_artifact sv run t = (Inr artifact, t') \<and>
      terminal_statuses (sv_statuses sv) = Inr terminal \<and>
      approved_node sv repository ident package terminal run (la_plan artifact))"
proof -
  obtain f u v where f: "observed_pull e repository ident pull = Inr f" "seen = f (wp_id package)"
    and found: "on_world (resolve (sv_remote sv) ident) s = (Inr (Some package), u)"
    and check: "check_binding sv repository ident package (by_implementation_pull_request repository (pa_number (f 0)) (fst s)) u = (Inr v, t)"
    using assms(1) unfolding checked_pull_def act_Inr res_simps by (auto simp: store_query_def)
  note fields = observed_pull_fields [OF f(1), of "wp_id package" 0]
  then have "by_implementation_pull_request repository (pa_number (f 0)) (fst s) = None"
    using assms(2) f(2) by (simp add: by_implementation_pull_request_def)
  with check have "first_binding sv repository ident package u = (Inr v, t)" by (simp add: check_binding_def)
  note first_binding_result [OF this]
  with fields f(2) on_world_result [OF found] show ?thesis by metis
qed

text \<open>The work package carries the node the approved plan has under its key.\<close>

definition carries_node :: "('w, 'j) service \<Rightarrow> backlog_plan \<Rightarrow> string \<Rightarrow> backlog_item \<Rightarrow> work_package \<Rightarrow> bool" where
  "carries_node sv plan approved_commit item package \<longleftrightarrow>
     wp_managed_hash package = Some (managed_hash (sv_sha sv) (with_approved_commit plan approved_commit) item) \<and>
     wp_plan_version package = Some (fst (effective_node_binding plan (Some approved_commit) (bi_key item))) \<and>
     wp_repository package = Some (bi_repository item) \<and>
     \<not> list_ex (has_status (sv_statuses sv) package) [''Done'', ''Superseded'', ''Rejected'']"

lemma approved_node_carried:
  assumes "approved_node sv repository ident package terminal run plan" and "terminal_statuses (sv_statuses sv) = Inr terminal"
  shows "\<exists>item approved_commit. dict_get (by_key plan) (snd ident) = Some item \<and> lr_approved_commit run = Some approved_commit \<and>
    bi_repository item = repository \<and> carries_node sv plan approved_commit item package"
  using assms
  by (force simp: approved_node_def carries_node_def terminal_statuses_def status_number_def has_status_def res_simps
      split: option.splits)

text \<open>
  C10: A pull request is bound to a work package for the first time only when the marker in its body
  names a node of the latest published plan, read from its immutable artifact, whose repository is
  the repository of the pull request, and whose work package carries the managed hash and the plan
  version of that node and is not Done, Superseded or Rejected.
\<close>

theorem first_binding_approved:
  assumes "associations_ok (fst s)" and "implementation_pull_request sv e repository pull s = (r, s')"
    and "dict_get (ld_associations (fst s)) (repository, number) = None"
    and "dict_get (ld_associations (fst s')) (repository, number) = Some a"
  shows "\<exists>body run artifact package item approved_commit t t' w w'. obj_get pull ''body'' = PStr body \<and>
    work_package_marker body = Some (pa_plan_id a, pa_node_key a) \<and>
    resolve (sv_remote sv) (pa_plan_id a, pa_node_key a) w = (Inr (Some package), w') \<and> wp_id package = pa_work_package_id a \<and>
    latest_published (pa_plan_id a) (fst s) = Some run \<and> published_artifact sv run t = (Inr artifact, t') \<and>
    lr_approved_commit run = Some approved_commit \<and> dict_get (by_key (la_plan artifact)) (pa_node_key a) = Some item \<and>
    bi_repository item = repository \<and> carries_node sv (la_plan artifact) approved_commit item package"
proof -
  have changed: "\<not> on_store same_associations s s'" using assms(3,4) by (auto simp: on_store_def same_associations_def)
  obtain body ident where body: "obj_get pull ''body'' = PStr body" "work_package_marker body = Some ident"
    and managed: "managed_pull_request sv e repository ident pull s = (r, s')"
    by (rule managed_when_changed [OF assms(2) changed])
  obtain package seen t where checked: "checked_pull sv e repository ident pull s = (Inr (package, seen), t)"
    and bind: "bind_observed sv e package seen t = (r, s')" and late: "\<not> on_store same_associations t s'"
  proof (rule unbound.change_later [OF managed [unfolded managed_pull_request_def] changed checked_pull_unbound])
    fix p t
    assume "checked_pull sv e repository ident pull s = (Inr p, t)" "\<not> on_store same_associations t s'"
      "(case p of (package, seen) \<Rightarrow> bind_observed sv e package seen) t = (r, s')"
    then show thesis by (cases p) (auto intro: that)
  qed
  have same: "ld_associations (fst t) = ld_associations (fst s)"
    using movesD [OF checked_pull_unbound checked] by (simp add: on_store_def same_associations_def)
  have ok: "associations_ok (fst t)" using assms(1) same by (simp add: associations_ok_def)
  obtain b where b: "bind_implementation_pull_request seen (fst t) = (Inr b, store_association b (fst t))"
    "ld_associations (fst s') = dict_set (pa_repository seen, pa_number seen) b (ld_associations (fst t))"
    by (rule bind_observed_associations [OF ok bind late])
  have repository: "pa_repository seen = repository"
    using checked_pull_repository [OF checked] .
  have "number = pa_number seen" and "b = a"
    using b(2) same repository assms(3,4) by (auto simp: dict_simps split: if_splits)
  with assms(3) have first: "dict_get (ld_associations (fst s)) (repository, pa_number seen) = None" by simp
  have "pa_plan_id a = pa_plan_id seen" "pa_node_key a = pa_node_key seen" "pa_work_package_id a = pa_work_package_id seen"
    using bind_result [OF b(1)] first same repository \<open>b = a\<close> by auto
  with checked_pull_first [OF checked first] have ident: "ident = (pa_plan_id a, pa_node_key a)" "wp_id package = pa_work_package_id a"
    by auto
  from checked_pull_first [OF checked first, unfolded ident(1) fst_conv] obtain run artifact terminal u u' w w'
    where found: "resolve (sv_remote sv) (pa_plan_id a, pa_node_key a) w = (Inr (Some package), w')"
      "latest_published (pa_plan_id a) (fst s) = Some run" "published_artifact sv run u = (Inr artifact, u')"
    and terminal: "terminal_statuses (sv_statuses sv) = Inr terminal"
    and node: "approved_node sv repository (pa_plan_id a, pa_node_key a) package terminal run (la_plan artifact)" by blast
  from approved_node_carried [OF node terminal] found body ident show ?thesis unfolding snd_conv by blast
qed

section \<open>Witnesses\<close>

lemma merged_projection_permanent_witness:
  "implementation_projection (work_package_pulls 12 (fold run_association [RecordCheck ''org/repo'' 7 (ex_head CHR ''a'') False]
     (snd (bind_implementation_pull_request ex_merge Associations.ex_opened)))) = (Some ''Review'', ''pr_merged'')"
proof -
  let ?a = "ex_seen (ex_head CHR ''a'') 10 ''closed'' (Some (ex_head CHR ''c''))"
  let ?d = "snd (bind_implementation_pull_request ex_merge Associations.ex_opened)"
  have "associations_ok ?d"
    using run_association_step [OF ex_opened_ok, of "BindPr ex_merge"] by simp
  moreover have "dict_get (ld_associations ?d) (''org/repo'', 7) = Some ?a" by code_simp
  ultimately show ?thesis
    using merged_projection_permanent [of ?d "(''org/repo'', 7)" ?a "[RecordCheck ''org/repo'' 7 (ex_head CHR ''a'') False]"]
    by (simp add: ex_seen_def)
qed

definition ex_statuses :: status_table where
  "ex_statuses = [(''Proposed'', 1), (''Ready'', 2), (''In Progress'', 3), (''Review'', 4), (''Done'', 5),
     (''Superseded'', 6), (''Rejected'', 7)]"

lemma ex_statuses_distinct: "distinct_statuses ex_statuses"
  by (auto simp: distinct_statuses_def ex_statuses_def split: if_splits)

definition ex_pulled :: "int \<Rightarrow> string option \<Rightarrow> work_package" where
  "ex_pulled status evidence = (created_package 12 (''alpha'', ''task-one'') None)
     \<lparr>wp_human_fields := [(''status_id'', PInt status)], wp_evidence_state := evidence\<rparr>"

text \<open>A lifecycle remote over a list whose head is the work package; a PATCH needs its lock version.\<close>

definition ex_write :: "state_change \<Rightarrow> work_package \<Rightarrow> work_package" where
  "ex_write c w = w\<lparr>wp_lock_version := wp_lock_version w + 1,
     wp_human_fields := (case sc_status_id c of None \<Rightarrow> wp_human_fields w | Some i \<Rightarrow> [(''status_id'', PInt i)]),
     wp_evidence_state := (case sc_evidence c of None \<Rightarrow> wp_evidence_state w | Some e \<Rightarrow> Some e)\<rparr>"

definition ex_locked_lifecycle :: "work_package list lifecycle_remote" where
  "ex_locked_lifecycle = ex_gate_lifecycle\<lparr>lm_get := (\<lambda>n ws. (Inr (hd ws), ws)),
     lm_patch := (\<lambda>n c ws. if sc_lock_version c = wp_lock_version (hd ws)
       then (HttpResponse 200 (Some (ex_write c (hd ws))) [], [ex_write c (hd ws)]) else (HttpResponse 409 None [], ws))\<rparr>"

definition ex_pull_service :: "(work_package list, pg_journal) service" where
  "ex_pull_service = ex_gate_service\<lparr>sv_statuses := ex_statuses, sv_lifecycle := ex_locked_lifecycle\<rparr>"

definition ex_pull_state :: "lifecycle_db \<Rightarrow> work_package \<Rightarrow> (work_package list, pg_journal) service_state" where
  "ex_pull_state d w = (d, ex_journal, ex_adapter\<lparr>ad_world := [w]\<rparr>)"

lemma ex_pull_service_statuses: "sv_statuses ex_pull_service = ex_statuses"
  by (simp add: ex_pull_service_def)

lemma projection_only_raises_witness:
  "\<exists>s' package status evidence. projected ex_pull_service 12 (ex_pull_state Associations.ex_opened (ex_pulled 2 None)) True s'
     package status evidence \<and> fst s' = Associations.ex_opened"
proof -
  let ?s = "ex_pull_state Associations.ex_opened (ex_pulled 2 None)"
  obtain r s' where run: "project_implementation_work_package ex_pull_service 12 ?s = (r, s')" by (meson surj_pair)
  have "fst (project_implementation_work_package ex_pull_service 12 ?s) = Inr True" by code_simp
  with run have "r = Inr True" by simp
  with projection_only_raises [of ex_pull_service 12 ?s True s'] run ex_statuses_distinct
  obtain package status evidence where "projected ex_pull_service 12 ?s True s' package status evidence"
    by (auto simp: ex_pull_service_statuses)
  moreover from this have "fst s' = Associations.ex_opened" by (auto simp: projected_def ex_pull_state_def)
  ultimately show ?thesis by blast
qed

definition ex_merged_change :: "state_change" where
  "ex_merged_change = \<lparr>sc_lock_version = 0, sc_status_id = Some 4, sc_evidence = Some ''pr_merged''\<rparr>"

lemma projection_overwrites_done_witness:
  "\<exists>s'. write_projection ex_pull_service [ex_merge] 12 (ex_pulled 3 (Some ''pr_open''))
      (ex_pull_state Associations.ex_opened (ex_pulled 5 (Some ''pr_open''))) = (Inr True, s') \<and>
    world_of s' = [ex_write ex_merged_change (ex_pulled 5 (Some ''pr_open''))]"
proof (rule projection_overwrites_done [where review = 4])
  let ?w = "[ex_pulled 5 (Some ''pr_open'')]"
  show "distinct_statuses (sv_statuses ex_pull_service)" by (simp add: ex_pull_service_statuses ex_statuses_distinct)
  show "status_ranks (sv_statuses ex_pull_service) = Inr [(1, 0), (2, 0), (3, 1), (4, 2)]" by code_simp
  show "dict_get (sv_statuses ex_pull_service) ''Review'' = Some 4" by code_simp
  show "list_ex (\<lambda>a. pa_merged_commit a \<noteq> None) [ex_merge]" by (simp add: ex_merge_def ex_seen_def)
  show "has_status (sv_statuses ex_pull_service) (ex_pulled 3 (Some ''pr_open'')) ''In Progress''"
    "has_status (sv_statuses ex_pull_service) (ex_pulled 5 (Some ''pr_open'')) ''Done''"
    "has_status (sv_statuses ex_pull_service) (ex_write ex_merged_change (ex_pulled 5 (Some ''pr_open''))) ''Review''"
    by (simp_all add: has_status_def ex_pull_service_statuses ex_statuses_def ex_pulled_def status_id_of_def ex_write_def
        ex_merged_change_def obj_get_def)
  show "wp_evidence_state (ex_pulled 3 (Some ''pr_open'')) = Some ''pr_open''"
    "wp_evidence_state (ex_pulled 5 (Some ''pr_open'')) = Some ''pr_open''"
    "wp_evidence_state (ex_write ex_merged_change (ex_pulled 5 (Some ''pr_open''))) = Some ''pr_merged''"
    by (simp_all add: ex_pulled_def ex_write_def ex_merged_change_def)
  show "lm_get (sv_lifecycle ex_pull_service) 12 (world_of (ex_pull_state Associations.ex_opened (ex_pulled 5 (Some ''pr_open'')))) =
      (Inr (ex_pulled 5 (Some ''pr_open'')), ?w)"
    by (simp add: ex_pull_service_def ex_locked_lifecycle_def world_of_def ex_pull_state_def)
  show "lm_form (sv_lifecycle ex_pull_service) 12 \<lparr>sc_lock_version = wp_lock_version (ex_pulled 5 (Some ''pr_open'')),
      sc_status_id = Some 4, sc_evidence = Some ''pr_merged''\<rparr> ?w = (Inr (), ?w)"
    by (simp add: ex_pull_service_def ex_locked_lifecycle_def ex_gate_lifecycle_def act_return_def)
  show "lm_patch (sv_lifecycle ex_pull_service) 12 \<lparr>sc_lock_version = wp_lock_version (ex_pulled 5 (Some ''pr_open'')),
      sc_status_id = Some 4, sc_evidence = Some ''pr_merged''\<rparr> ?w =
      (HttpResponse 200 (Some (ex_write ex_merged_change (ex_pulled 5 (Some ''pr_open'')))) [],
       [ex_write ex_merged_change (ex_pulled 5 (Some ''pr_open''))])"
    by (simp add: ex_pull_service_def ex_locked_lifecycle_def ex_merged_change_def ex_pulled_def created_package_def)
qed

text \<open>The published plan of the merge, its one work package ready, and a first pull request for it.\<close>

definition ex_published :: plan_run where
  "ex_published = ex_gate_bound\<lparr>lr_state := RunPublished\<rparr>"

definition ex_published_store :: lifecycle_db where
  "ex_published_store = no_lifecycle\<lparr>ld_runs := [((''alpha'', 1), plan_run.extend ex_published (run_row.fields 6))]\<rparr>"

definition ex_epic :: backlog_item where
  "ex_epic = (ex_item ''epic-one'' Epic None)\<lparr>bi_repository := ''org/repo''\<rparr>"

definition ex_epic_service :: "(work_package list, pg_journal) service" where
  "ex_epic_service = ex_pull_service\<lparr>sv_parse := (\<lambda>raw. Inr (ex_gate_plan\<lparr>bp_items := [ex_epic]\<rparr>))\<rparr>"

definition ex_epic_package :: work_package where
  "ex_epic_package = (created_package 12 (''alpha'', ''epic-one'')
      (Some (managed_hash ex_sha (with_approved_commit (ex_gate_plan\<lparr>bp_items := [ex_epic]\<rparr>) ex_merge_sha) ex_epic)))
     \<lparr>wp_plan_version := Some 1, wp_repository := Some ''org/repo'', wp_human_fields := [(''status_id'', PInt 2)]\<rparr>"

definition ex_body :: string where
  "ex_body = ''x <!-- planning-platform:work-package plan_id=alpha node_key=epic-one -->''"

definition ex_pull_payload :: pydict where
  "ex_pull_payload = [(''number'', PInt 9), (''html_url'', PStr ''https://github.com/org/repo/pull/9''), (''state'', PStr ''open''),
     (''head'', PDict [(''sha'', PStr ex_commit_sha)]),
     (''body'', PStr ex_body)]"

definition ex_observed :: pr_association where
  "ex_observed = \<lparr>pa_repository = ''org/repo'', pa_number = 9, pa_plan_id = ''alpha'', pa_node_key = ''epic-one'', pa_work_package_id = 12,
     pa_url = ''https://github.com/org/repo/pull/9'', pa_head_sha = ex_commit_sha, pa_head_observed_at = 0, pa_state = ''open'',
     pa_merged_commit = None, pa_successful_check_sha = None\<rparr>"

definition ex_pull_start :: "(work_package list, pg_journal) service_state" where
  "ex_pull_start = ex_pull_state ex_published_store ex_epic_package"

lemma ex_marker: "work_package_marker ex_body = Some (''alpha'', ''epic-one'')"
  by code_simp

lemma ex_observed_pull:
  "observed_pull ex_gate_event ''org/repo'' (''alpha'', ''epic-one'') ex_pull_payload = Inr (\<lambda>n. ex_observed\<lparr>pa_work_package_id := n\<rparr>)"
proof -
  have "positive_int (PInt 9) ''pull request'' = Inr 9" "full_commit (PStr ex_commit_sha) = Some ex_commit_sha" "show_int 9 = ''9''"
    by code_simp+
  then show ?thesis
    by (simp add: observed_pull_def ex_pull_payload_def obj_get_def ex_observed_def ex_gate_event_def res_simps need_def raise_if_def Let_def)
qed

lemma ex_unknown: "by_implementation_pull_request ''org/repo'' 9 (fst ex_pull_start) = None"
  by (simp add: by_implementation_pull_request_def ex_pull_start_def ex_pull_state_def ex_published_store_def no_lifecycle_def)

lemma ex_resolved: "on_world (resolve (sv_remote ex_epic_service) (''alpha'', ''epic-one'')) ex_pull_start = (Inr (Some ex_epic_package), ex_pull_start)"
proof -
  have "resolve (sv_remote ex_epic_service) (''alpha'', ''epic-one'') [ex_epic_package] = (Inr (Some ex_epic_package), [ex_epic_package])"
    by code_simp
  then show ?thesis by (simp add: on_world_def on_snd_def with_world_def ex_pull_start_def ex_pull_state_def)
qed

lemma ex_latest: "latest_published ''alpha'' (fst ex_pull_start) = Some ex_published"
  by (simp add: latest_published_def newest_def restore_run_def ex_pull_start_def ex_pull_state_def ex_published_store_def
      no_lifecycle_def plan_run.defs run_row.defs ex_published_def ex_gate_bound_def ex_gate_approved_def ex_gate_run_def ex_run_def)

lemma ex_backlog_read: "read_immutable_artifact ex_gate_github (fst ex_gate_merged) w = (Inr ''hi'', w)"
  by code_simp

lemma ex_fetched: "\<exists>a. published_artifact ex_epic_service ex_published ex_pull_start = (Inr a, ex_pull_start) \<and>
    la_plan a = ex_gate_plan\<lparr>bp_items := [ex_epic]\<rparr>"
proof -
  have github: "sv_github ex_epic_service = ex_gate_github" "sv_parse ex_epic_service raw = Inr (ex_gate_plan\<lparr>bp_items := [ex_epic]\<rparr>)" for raw
    by (simp_all add: ex_epic_service_def ex_pull_service_def ex_gate_service_def)
  have hashes: "git_blob_sha ex_gate_github raw = ex_merge_sha" "gh_sha256 ex_gate_github raw = replicate 64 CHR ''b''" for raw
    by (simp_all add: git_blob_sha_def ex_gate_github_def)
  have read: "on_world (read_immutable_artifact ex_gate_github (fst ex_gate_merged)) ex_pull_start = (Inr ''hi'', ex_pull_start)"
    by (simp add: on_world_def on_snd_def with_world_def ex_pull_start_def ex_pull_state_def ex_backlog_read)
  have binding: "new_binding ''org/repo'' ex_merge_sha ''p/b'' ex_merge_sha (replicate 64 CHR ''b'') = Inr (fst ex_gate_merged)"
    by code_simp
  have run: "lr_approved_commit ex_published = Some ex_merge_sha" "lr_blob_sha1 ex_published = Some ex_merge_sha"
    "lr_backlog_sha256 ex_published = Some (replicate 64 CHR ''b'')" "lr_state ex_published = RunPublished"
    "lr_evidence_sha256 ex_published = Some (replicate 64 CHR ''b'')" "lr_repository ex_published = ''org/repo''"
    "lr_backlog_path ex_published = ''p/b''" "lr_plan_id ex_published = ''alpha''" "lr_plan_version ex_published = 1"
    "lr_idea_id ex_published = 7"
    by (simp_all add: ex_published_def ex_gate_bound_def ex_gate_approved_def ex_gate_run_def ex_run_def)
  have plan: "plan_id (bp_plan ex_gate_plan) = ''alpha''" "plan_version (bp_plan ex_gate_plan) = 1"
    "si_work_package_id (plan_source_idea (bp_plan ex_gate_plan)) = 7"
    by (simp_all add: ex_gate_plan_def ex_small_plan_def ex_meta_def)
  show ?thesis
    using plan by (simp add: published_artifact_def run act_bind_def act_lift_def reject_if_def raise_if_def binding github read
        load_artifact_bytes_def res_simps same_plan_def hashes act_return_def)
qed

lemma ex_first: "first_binding ex_epic_service ''org/repo'' (''alpha'', ''epic-one'') ex_epic_package ex_pull_start = (Inr (), ex_pull_start)"
proof -
  obtain a where a: "published_artifact ex_epic_service ex_published ex_pull_start = (Inr a, ex_pull_start)"
    "la_plan a = ex_gate_plan\<lparr>bp_items := [ex_epic]\<rparr>" using ex_fetched by blast
  let ?p = "ex_gate_plan\<lparr>bp_items := [ex_epic]\<rparr>"
  have plan: "dict_get (by_key ?p) ''epic-one'' = Some ex_epic" by code_simp
  have version: "fst (effective_node_binding ?p (Some ex_merge_sha) (bi_key ex_epic)) = 1" by code_simp
  have commit: "lr_approved_commit ex_published = Some ex_merge_sha"
    by (simp add: ex_published_def ex_gate_bound_def ex_gate_approved_def)
  have package: "wp_plan_version ex_epic_package = Some 1" "wp_repository ex_epic_package = Some ''org/repo''"
    "wp_managed_hash ex_epic_package = Some (managed_hash ex_sha (with_approved_commit ?p ex_merge_sha) ex_epic)"
    "status_id_of ex_epic_package = PInt 2"
    by (simp_all add: ex_epic_package_def status_id_of_def obj_get_def created_package_def)
  have others: "sv_sha ex_epic_service = ex_sha" "bi_repository ex_epic = ''org/repo''"
    by (simp_all add: ex_epic_service_def ex_pull_service_def ex_gate_service_def ex_epic_def)
  have terminal: "terminal_statuses (sv_statuses ex_epic_service) = Inr [5, 6, 7]" by code_simp
  have "approved_node ex_epic_service ''org/repo'' (''alpha'', ''epic-one'') ex_epic_package [5, 6, 7] ex_published (la_plan a)"
    unfolding a(2) by (simp add: approved_node_def plan commit version package others image_iff)
  then show ?thesis
    using ex_latest a(1) terminal
    by (simp add: first_binding_def act_bind_def store_query_def act_return_def act_lift_def reject_if_def raise_if_def)
qed

lemma ex_checked: "checked_pull ex_epic_service ex_gate_event ''org/repo'' (''alpha'', ''epic-one'') ex_pull_payload ex_pull_start =
    (Inr (ex_epic_package, ex_observed), ex_pull_start)"
proof -
  have "wp_id ex_epic_package = 12" "ex_observed\<lparr>pa_work_package_id := 12\<rparr> = ex_observed" "pa_number ex_observed = 9"
    by (simp_all add: ex_epic_package_def created_package_def ex_observed_def)
  then show ?thesis
    by (simp add: checked_pull_def ex_observed_pull act_bind_def act_lift_def store_query_def ex_resolved check_binding_def ex_first
        need_def raise_if_def act_return_def ex_unknown)
qed

lemma ex_stored: "bind_implementation_pull_request ex_observed (fst ex_pull_start) =
    (Inr ex_observed, store_association ex_observed (fst ex_pull_start))"
proof -
  have "validate_implementation_values (pa_repository ex_observed) (pa_number ex_observed) (pa_plan_id ex_observed)
      (pa_node_key ex_observed) (pa_work_package_id ex_observed) (pa_url ex_observed) (pa_head_sha ex_observed)
      (pa_state ex_observed) (pa_merged_commit ex_observed) = Inr ()"
    "association_checks ex_observed" "observation_conflict ex_observed ex_observed = Inr ()"
    "next_facts ex_observed ex_observed = ex_observed" "ex_observed\<lparr>pa_successful_check_sha := None\<rparr> = ex_observed"
    by code_simp+
  moreover have "ld_associations (fst ex_pull_start) = []"
    by (simp add: ex_pull_start_def ex_pull_state_def ex_published_store_def no_lifecycle_def)
  ultimately show ?thesis
    by (simp add: bind_implementation_pull_request_def Let_def)
qed

lemma first_binding_approved_witness:
  "\<exists>(run :: plan_run) (artifact :: loaded_artifact) (package :: work_package) item approved_commit.
     latest_published ''alpha'' ex_published_store = Some run \<and> bi_repository item = ''org/repo'' \<and>
     carries_node ex_epic_service (la_plan artifact) approved_commit item package \<and> wp_id package = 12"
proof -
  obtain r s' where run: "implementation_pull_request ex_epic_service ex_gate_event ''org/repo'' ex_pull_payload ex_pull_start = (r, s')"
    by (meson surj_pair)
  have "obj_get ex_pull_payload ''body'' = PStr ex_body"
    by (simp add: ex_pull_payload_def obj_get_def)
  with run have "bind_observed ex_epic_service ex_gate_event ex_epic_package ex_observed ex_pull_start = (r, s')"
    by (simp add: implementation_pull_request_def ex_marker managed_pull_request_def act_bind_def ex_checked)
  from bind_observed_stored [OF this ex_stored]
  have a: "dict_get (ld_associations (fst s')) (''org/repo'', 9) = Some ex_observed"
    by (simp add: store_association_def ex_observed_def dict_simps)
  have none: "ld_associations (fst ex_pull_start) = []"
    by (simp add: ex_pull_start_def ex_pull_state_def ex_published_store_def no_lifecycle_def)
  then have "associations_ok (fst ex_pull_start)" "dict_get (ld_associations (fst ex_pull_start)) (''org/repo'', 9) = None"
    by (simp_all add: associations_ok_def)
  from first_binding_approved [OF this(1) run this(2) a]
  have "\<exists>(run :: plan_run) (artifact :: loaded_artifact) (package :: work_package) item approved_commit.
      latest_published (pa_plan_id ex_observed) (fst ex_pull_start) = Some run \<and> bi_repository item = ''org/repo'' \<and>
      carries_node ex_epic_service (la_plan artifact) approved_commit item package \<and> wp_id package = pa_work_package_id ex_observed" by blast
  then show ?thesis by (simp add: ex_observed_def ex_pull_start_def ex_pull_state_def)
qed

end
