(* ===== verification/PlannerFlow.thy ===== *)
theory PlannerFlow
  imports MergeGate
begin

text \<open>
  The planning side of \<^verbatim>\<open>LifecycleService\<close> (\<^verbatim>\<open>src/planning_platform/lifecycle/service.py\<close>):
  what a planner response leads to (a question on the Idea, a failure, a planning pull request),
  a changed Idea, an answer of a human, and the two recoveries of an operator.
\<close>

section \<open>A question on the Idea\<close>

definition interrupt_body :: "pending_interrupt \<Rightarrow> string" where
  "interrupt_body i = ''## Planning input required'' @ nl @ nl @ py_join nl (map (\<lambda>q. ''- '' @ q) (pi_questions i)) @ nl @ nl @
     ''**Why this affects the plan:** '' @ pi_impact i"

definition ensure_interrupt_side_effects ::
  "('w, 'j) service \<Rightarrow> plan_run \<Rightarrow> plan_response \<Rightarrow> (('w, 'j) service_state, unit) action" where
  "ensure_interrupt_side_effects sv run response =
     act_bind (act_lift (need (rejected ''planner Needs Input result has no interrupt'') (ps_interrupt response))) (\<lambda>i.
     act_bind (on_world (ensure_comment (sv_lifecycle sv) (lr_idea_id run) (interrupt_body i)
       (''interrupt:'' @ lr_thread_id run @ '':'' @ pi_interrupt_id i))) (\<lambda>_.
     act_bind (on_world (set_lifecycle_state (sv_statuses sv) (sv_lifecycle sv) (lr_idea_id run) (Some ''Needs Input'') None)) (\<lambda>_.
     act_return ())))"

section \<open>The planning pull request\<close>

definition of_run :: "plan_run \<Rightarrow> lifecycle_outcome \<Rightarrow> lifecycle_outcome" where
  "of_run run o' = o'\<lparr>lo_plan_id := Some (lr_plan_id run), lo_plan_version := Some (lr_plan_version run),
     lo_work_package_id := Some (lr_idea_id run)\<rparr>"

definition same_dict :: "(string \<times> string) list \<Rightarrow> (string \<times> string) list \<Rightarrow> bool" where
  "same_dict a b \<longleftrightarrow> list_all (\<lambda>(k, v). dict_get b k = Some v) a \<and> list_all (\<lambda>(k, v). dict_get a k = Some v) b"

text \<open>The artifacts of the bundle under the prefix of the run, once they match the manifest.\<close>

definition bundle_artifacts :: "plan_run \<Rightarrow> plan_response \<Rightarrow> artifact_content list \<Rightarrow> exn + (string, string) dict" where
  "bundle_artifacts run response bundle =
     (let actual = dict_of ac_path ac_sha256 bundle in
      res_bind (raise_if (\<not> same_dict (dict_of fst snd (ps_manifest response)) actual \<or> dict_get actual ''backlog.yaml'' = None)
        (rejected ''planner artifact bundle does not match its manifest'')) (\<lambda>_.
      Inr (dict_of (\<lambda>a. lr_artifact_prefix run @ ''/'' @ ac_path a) ac_content bundle)))"

definition check_backlog :: "('w, 'j) service \<Rightarrow> plan_run \<Rightarrow> backlog_plan \<Rightarrow> exn + unit" where
  "check_backlog sv run p =
     res_bind (raise_if (plan_id (bp_plan p) \<noteq> lr_plan_id run \<or> plan_version (bp_plan p) \<noteq> lr_plan_version run \<or>
         si_work_package_id (plan_source_idea (bp_plan p)) \<noteq> lr_idea_id run \<or> plan_approved_planning_commit (bp_plan p) \<noteq> None)
       (rejected ''planner backlog does not match its lifecycle run'')) (\<lambda>_.
     res_bind (validate_plan (sv_schema_error sv) p) (\<lambda>issues.
     raise_if (issues \<noteq> [])
       (rejected (''planner backlog failed semantic validation ('' @ py_join '','' (sorted_set (map vi_code issues)) @ '')''))))"

definition check_scope :: "('w, 'j) service \<Rightarrow> plan_run \<Rightarrow> backlog_plan \<Rightarrow> exn + unit" where
  "check_scope sv run p =
     res_bind (case sv_open_request sv (lr_thread_id run) (lr_start_request run) of
         Inr r \<Rightarrow> Inr r
       | Inl e \<Rightarrow> Inl (if is_value_error e then rejected ''planner artifact has no recoverable lifecycle request'' else e)) (\<lambda>req.
     case sq_replan req of
       None \<Rightarrow> Inr ()
     | Some q \<Rightarrow>
         (case validate_replan_candidate (rq_prior_plan q) p (rq_base_commit q) (rq_selected_roots q) (rq_affected_keys q) of
            Inr u \<Rightarrow> Inr ()
          | Inl e \<Rightarrow> Inl (if is_value_error e
              then rejected (''planner backlog escaped bounded replan scope: '' @ exn_message e) else e)))"

definition planning_title :: "plan_run \<Rightarrow> string" where
  "planning_title run = lr_plan_id run @ '' v'' @ show_int (lr_plan_version run)"

definition pull_request_body :: "event_envelope \<Rightarrow> plan_run \<Rightarrow> string \<Rightarrow> string" where
  "pull_request_body e run graph =
     (let ticks = replicate 3 backtick in
      ''Approves planning artifacts for '' @ [backtick] @ lr_plan_id run @ '':v'' @ show_int (lr_plan_version run) @ [backtick] @ ''.'' @ nl @ nl @
      ''Source Idea: OpenProject #'' @ show_int (lr_idea_id run) @ nl @
      ''Trace: '' @ [backtick] @ ev_trace_id e @ [backtick] @ nl @ nl @
      ''### Dependency graph'' @ nl @ nl @
      ticks @ ''mermaid'' @ nl @ py_rstrip graph @ nl @ ticks @ nl @ nl @
      ''<!-- planning-platform:planning-pr -->'')"

definition mermaid_artifact :: "artifact_content list \<Rightarrow> string" where
  "mermaid_artifact bundle = (case find (\<lambda>a. ac_path a = ''backlog.mmd'') bundle of None \<Rightarrow> [] | Some a \<Rightarrow> ac_content a)"

text \<open>Everything that must hold of the artifacts before GitHub is touched.\<close>

definition accepted_artifacts ::
  "('w, 'j) service \<Rightarrow> plan_run \<Rightarrow> plan_response \<Rightarrow> artifact_content list \<Rightarrow> exn + (string, string) dict" where
  "accepted_artifacts sv run response bundle =
     res_bind (bundle_artifacts run response bundle) (\<lambda>artifacts.
     res_bind (need (KeyError (lr_backlog_path run)) (dict_get artifacts (lr_backlog_path run))) (\<lambda>raw.
     res_bind (load_artifact_bytes sv raw) (\<lambda>backlog.
     res_bind (check_backlog sv run (la_plan backlog)) (\<lambda>_.
     res_bind (check_scope sv run (la_plan backlog)) (\<lambda>_.
     Inr artifacts)))))"

definition open_planning_pull_request ::
  "('w, 'j) service \<Rightarrow> event_envelope \<Rightarrow> plan_run \<Rightarrow> string \<Rightarrow> (string, string) dict \<Rightarrow> ('w, planning_branch \<times> github_pull) action" where
  "open_planning_pull_request sv e run graph artifacts =
     act_bind (ensure_planning_commit (sv_github sv) (lr_repository run)
       (''planning/'' @ lr_plan_id run @ ''-v'' @ show_int (lr_plan_version run)) (lr_base_branch run) artifacts
       (''planning: '' @ planning_title run)) (\<lambda>branch.
     act_bind (ensure_planning_pull_request (sv_github sv) branch (lr_base_branch run) (''Planning: '' @ planning_title run)
       (pull_request_body e run graph)) (\<lambda>pull.
     act_return (branch, pull)))"

definition prepare_planning_pull_request ::
  "('w, 'j) service \<Rightarrow> event_envelope \<Rightarrow> plan_run \<Rightarrow> plan_response \<Rightarrow> (('w, 'j) service_state, lifecycle_outcome) action" where
  "prepare_planning_pull_request sv e run response =
     act_bind (on_world (planner_artifacts (sv_planner sv) (lr_thread_id run))) (\<lambda>bundle.
     act_bind (act_lift (accepted_artifacts sv run response bundle)) (\<lambda>artifacts.
     act_bind (on_world (open_planning_pull_request sv e run (mermaid_artifact bundle) artifacts)) (\<lambda>(branch, pull).
     act_bind (store_update sv (record_pull_request (lr_plan_id run) (lr_plan_version run) (br_commit_sha branch)
       (gp_number pull) (gp_url pull))) (\<lambda>stored.
     act_bind (on_world (ensure_comment (sv_lifecycle sv) (lr_idea_id run)
       (''Planning artifacts are ready for approval: '' @ gp_url pull)
       (''planning-pr:'' @ lr_plan_id run @ '':v'' @ show_int (lr_plan_version run)))) (\<lambda>_.
     finish e ((of_run stored (new_outcome ''prepare_planning_pr'' ''pr_open''))\<lparr>lo_pull_request_number := lr_pr_number stored\<rparr>))))))"

section \<open>A planner response\<close>

definition planner_interrupted ::
  "('w, 'j) service \<Rightarrow> event_envelope \<Rightarrow> plan_run \<Rightarrow> plan_response \<Rightarrow> (('w, 'j) service_state, lifecycle_outcome) action" where
  "planner_interrupted sv e run response =
     act_bind (ensure_interrupt_side_effects sv run response) (\<lambda>_.
     act_bind (store_update sv (set_run_state run RunNeedsInput)) (\<lambda>_.
     finish e (of_run run (new_outcome ''planner_interrupt'' ''needs_input''))))"

definition failure_comment :: string where
  "failure_comment = ''Planning stopped because the durable planner reported a terminal failure. '' @
     ''Start a new plan version after correcting the input or runtime cause.''"

definition planner_failed ::
  "('w, 'j) service \<Rightarrow> event_envelope \<Rightarrow> plan_run \<Rightarrow> (('w, 'j) service_state, lifecycle_outcome) action" where
  "planner_failed sv e run =
     act_bind (on_world (ensure_comment (sv_lifecycle sv) (lr_idea_id run) failure_comment (''planner-failed:'' @ lr_thread_id run))) (\<lambda>_.
     act_bind (on_world (set_lifecycle_state (sv_statuses sv) (sv_lifecycle sv) (lr_idea_id run) (Some ''Rejected'')
       (Some ''planning_failed''))) (\<lambda>_.
     act_bind (store_update sv (set_run_state run RunFailed)) (\<lambda>failed.
     finish e (of_run failed (new_outcome ''planner_terminal'' ''failed'')))))"

definition handle_planner_response ::
  "('w, 'j) service \<Rightarrow> event_envelope \<Rightarrow> plan_run \<Rightarrow> plan_response \<Rightarrow> (('w, 'j) service_state, lifecycle_outcome) action" where
  "handle_planner_response sv e run response =
     (if ps_thread_id response \<noteq> lr_thread_id run then act_raise (rejected ''planner returned a different durable thread'')
      else if ps_status response = ''needs_input'' then planner_interrupted sv e run response
      else if ps_status response = ''failed'' then planner_failed sv e run
      else if ps_status response \<noteq> ''artifacts_ready''
      then finish e (of_run run (new_outcome ''planner_progress'' (ps_status response)))
      else prepare_planning_pull_request sv e run response)"

section \<open>A changed Idea\<close>

definition event_of :: "event_envelope \<Rightarrow> planner_event" where
  "event_of e = \<lparr>pl_idempotency_key = ev_idempotency_key e, pl_trace_id = ev_trace_id e\<rparr>"

definition thread_of :: "int \<Rightarrow> int \<Rightarrow> string" where
  "thread_of idea version = ''openproject:'' @ show_int idea @ '':planning:'' @ show_int version"

fun repository_contexts :: "'w github \<Rightarrow> string list \<Rightarrow> ('w, repository_snapshot list) action" where
  "repository_contexts gh [] = act_return []"
| "repository_contexts gh (name # names) =
     act_bind (context_snapshot gh name 120) (\<lambda>(branch, snapshot).
     act_bind (repository_contexts gh names) (\<lambda>snapshots. act_return (snapshot # snapshots)))"

text \<open>
  The new run, its request sealed in it, from what was read: both \<^verbatim>\<open>_work_package_changed\<close> and
  \<^verbatim>\<open>_replan_affected_subgraph\<close> build it in these steps.
\<close>

definition new_run ::
  "('w, 'j) service \<Rightarrow> int \<Rightarrow> string \<Rightarrow> int \<Rightarrow> string \<Rightarrow> snapshot \<Rightarrow> plan_run" where
  "new_run sv idea plan version base_branch op_snapshot =
     (let prefix = ''planning/'' @ plan @ ''/v'' @ show_int version in
      \<lparr>lr_idea_id = idea, lr_plan_id = plan, lr_plan_version = version, lr_thread_id = thread_of idea version,
       lr_repository = sv_planning_repository sv, lr_base_branch = base_branch, lr_artifact_prefix = prefix,
       lr_backlog_path = prefix @ ''/backlog.yaml'', lr_snapshot_sha256 = sn_sha256 op_snapshot,
       lr_snapshot_etag = sn_etag op_snapshot, lr_state = RunPlanning, lr_start_request = [], lr_pending_resume = None,
       lr_planning_commit = None, lr_pr_number = None, lr_pr_url = None, lr_approved_commit = None,
       lr_evidence_sha256 = None, lr_blob_sha1 = None, lr_backlog_sha256 = None\<rparr>)"

definition request_of ::
  "('w, 'j) service \<Rightarrow> event_envelope \<Rightarrow> plan_run \<Rightarrow> pydict \<Rightarrow> string \<Rightarrow> snapshot \<Rightarrow> repository_snapshot list
    \<Rightarrow> replan_request option \<Rightarrow> exn + start_request" where
  "request_of sv e run current description op_snapshot contexts replan =
     res_bind (nonnegative_int (obj_get current ''lockVersion'') ''lockVersion'') (\<lambda>lock.
     res_bind (timestamp sv (obj_get current ''updatedAt'') ''updatedAt'') (\<lambda>updated.
     res_bind (new_idea_snapshot \<lparr>is_work_package_id = lr_idea_id run, is_lock_version = lock, is_updated_at = updated,
       is_title = py_strip (str_of sv (text_get current ''subject'')), is_description = description\<rparr>) (\<lambda>idea.
     res_bind (timestamp sv (PStr (sn_captured_at op_snapshot)) ''snapshot captured_at'') (\<lambda>captured.
     let r = \<lparr>sq_idempotency_key = ev_idempotency_key e, sq_trace_id = ev_trace_id e, sq_idea = idea,
       sq_plan_id = lr_plan_id run, sq_plan_version = lr_plan_version run, sq_idea_sha256 = [], sq_captured_at = sv_iso sv captured,
       sq_etag = sn_etag op_snapshot, sq_snapshot_sha256 = sn_sha256 op_snapshot, sq_repositories = contexts, sq_replan = replan\<rparr> in
     build_start_request (sv_request_digest sv) (sv_start_fits sv) (r\<lparr>sq_idea_sha256 := sv_request_digest sv r\<rparr>)))))"

text \<open>Reading the context; then storing the run with its sealed request.\<close>

definition planning_context ::
  "('w, 'j) service \<Rightarrow> string list \<Rightarrow> (('w, 'j) service_state, repository_snapshot list \<times> string \<times> snapshot) action" where
  "planning_context sv names =
     act_bind (on_world (repository_contexts (sv_github sv) names)) (\<lambda>contexts.
     act_bind (on_world (repository_head (sv_github sv) (sv_planning_repository sv))) (\<lambda>(base_branch, head).
     act_bind (on_world (rm_snapshot (sv_remote sv))) (\<lambda>op_snapshot.
     act_return (contexts, base_branch, op_snapshot))))"

definition begin_planning ::
  "('w, 'j) service \<Rightarrow> plan_run \<Rightarrow> start_request \<Rightarrow> (('w, 'j) service_state, plan_run) action" where
  "begin_planning sv run asked =
     act_bind (on_world (sv_seal_start sv (lr_thread_id run) asked)) (\<lambda>ciphertext.
     store_update sv (store_begin (run\<lparr>lr_start_request := ciphertext\<rparr>)))"

definition missing_repository ::
  "('w, 'j) service \<Rightarrow> event_envelope \<Rightarrow> int \<Rightarrow> (('w, 'j) service_state, lifecycle_outcome) action" where
  "missing_repository sv e idea =
     act_bind (on_world (ensure_comment (sv_lifecycle sv) idea
       (''Planning cannot start because **Relevant repositories** does not contain an '' @ [backtick] @ ''owner/repository'' @
        [backtick] @ '' value.'') (ev_idempotency_key e @ '':missing-repository''))) (\<lambda>_.
     act_bind (on_world (set_lifecycle_state (sv_statuses sv) (sv_lifecycle sv) idea (Some ''Needs Input'') None)) (\<lambda>_.
     finish e ((new_outcome ''start_planning'' ''needs_repository'')\<lparr>lo_work_package_id := Some idea\<rparr>)))"

definition start_planning ::
  "('w, 'j) service \<Rightarrow> event_envelope \<Rightarrow> int \<Rightarrow> plan_run option \<Rightarrow> (('w, 'j) service_state, lifecycle_outcome) action" where
  "start_planning sv e idea latest =
     act_bind (on_world (sv_read_package sv idea)) (\<lambda>current.
     let description = description_of sv current; names = repositories description in
     if names = [] then missing_repository sv e idea
     else
       act_bind (planning_context sv names) (\<lambda>(contexts, base_branch, op_snapshot).
       let version = (case latest of None \<Rightarrow> 1 | Some r \<Rightarrow> lr_plan_version r + 1);
           run = new_run sv idea (''idea-'' @ show_int idea) version base_branch op_snapshot in
       act_bind (act_lift (request_of sv e run current description op_snapshot contexts None)) (\<lambda>asked.
       act_bind (begin_planning sv run asked) (\<lambda>stored.
       act_bind (on_world (planner_start (sv_planner sv) asked)) (\<lambda>response.
       handle_planner_response sv e stored response)))))"

definition is_open :: "plan_run \<Rightarrow> bool" where
  "is_open run \<longleftrightarrow> lr_state run \<notin> {RunPublished, RunFailed}"

text \<open>The echo of the service's own status change; an Idea whose plan is already published.\<close>

definition service_echo ::
  "('w, 'j) service \<Rightarrow> event_envelope \<Rightarrow> plan_run option \<Rightarrow> exn + bool" where
  "service_echo sv e latest = (case latest of
     None \<Rightarrow> Inr False
   | Some run \<Rightarrow>
       if ev_actor_kind e = ''service'' \<and> is_open run
       then res_bind (recover_start_request sv run) (\<lambda>req. Inr (sq_idempotency_key req \<noteq> ev_idempotency_key e))
       else Inr False)"

definition after_publication :: "plan_run option \<Rightarrow> lifecycle_db \<Rightarrow> bool" where
  "after_publication latest d = (case latest of
     None \<Rightarrow> False
   | Some run \<Rightarrow> (case latest_published (lr_plan_id run) d of
       None \<Rightarrow> False
     | Some p \<Rightarrow> lr_state run = RunPublished \<or> lr_plan_version p < lr_plan_version run))"

definition continue_planning ::
  "('w, 'j) service \<Rightarrow> event_envelope \<Rightarrow> int \<Rightarrow> plan_run option \<Rightarrow> (('w, 'j) service_state, lifecycle_outcome) action" where
  "continue_planning sv e idea latest = (case latest of
     None \<Rightarrow> start_planning sv e idea None
   | Some run \<Rightarrow>
       if is_open run then
         act_bind (on_world (get_or_start (sv_planner sv) (lr_thread_id run) (recover_start_request sv run))) (\<lambda>response.
         handle_planner_response sv e run response)
       else start_planning sv e idea (Some run))"

definition planning_requested ::
  "('w, 'j) service \<Rightarrow> event_envelope \<Rightarrow> int \<Rightarrow> (('w, 'j) service_state, lifecycle_outcome) action" where
  "planning_requested sv e idea =
     act_bind (store_query (latest_for_idea idea)) (\<lambda>latest.
     act_bind (act_lift (service_echo sv e latest)) (\<lambda>echo.
     if echo then finish e ((of_run (the latest) (new_outcome ''ignore_service_status_echo'' ''ignored_active_run''))
       \<lparr>lo_work_package_id := Some idea\<rparr>)
     else
       act_bind (store_query (after_publication latest)) (\<lambda>published.
       if published then finish e ((of_run (the latest) (new_outcome ''bounded_replan_required''
           (''ignored_after_'' @ run_state_str (lr_state (the latest)))))\<lparr>lo_work_package_id := Some idea\<rparr>)
       else continue_planning sv e idea latest)))"

definition work_package_changed ::
  "('w, 'j) service \<Rightarrow> event_envelope \<Rightarrow> (('w, 'j) service_state, lifecycle_outcome) action" where
  "work_package_changed sv e =
     act_bind (act_lift (payload_object (event_payload e) ''work_package'')) (\<lambda>raw.
     act_bind (act_lift (positive_int (obj_get raw ''id'') ''work-package ID'')) (\<lambda>idea.
     act_bind (act_lift (titled_link raw ''type'')) (\<lambda>kind.
     if py_casefold kind \<noteq> ''idea''
     then finish e ((new_outcome ''ignore_non_idea'' ''ignored'')\<lparr>lo_work_package_id := Some idea\<rparr>)
     else
       act_bind (act_lift (titled_link raw ''status'')) (\<lambda>status.
       if py_casefold status \<noteq> ''planning''
       then finish e ((new_outcome ''ignore_non_planning'' ''ignored'')\<lparr>lo_work_package_id := Some idea\<rparr>)
       else planning_requested sv e idea))))"

section \<open>The answer of a human\<close>

text \<open>\<^verbatim>\<open>href.rstrip("/").rsplit("/", 1)[-1]\<close>, all digits, as a number.\<close>

definition last_segment :: "string \<Rightarrow> string" where
  "last_segment href = rev (takeWhile (\<lambda>c. c \<noteq> CHR ''/'') (dropWhile (\<lambda>c. c = CHR ''/'') (rev href)))"

definition digits_value :: "string \<Rightarrow> int" where
  "digits_value s = fold (\<lambda>c n. 10 * n + (int (of_char c) - 48)) s 0"

definition linked_package :: "pydict \<Rightarrow> exn + int" where
  "linked_package activity =
     need (rejected ''OpenProject comment has no work-package link'')
       (Option.bind (as_str (dict_field (dict_field (obj_get activity ''_links'') ''workPackage'') ''href'')) (\<lambda>href.
        let s = last_segment href in if s \<noteq> [] \<and> list_all is_digit_char s then Some (digits_value s) else None))"

definition open_pending :: "('w, 'j) service \<Rightarrow> plan_run \<Rightarrow> string \<Rightarrow> exn + resume_request" where
  "open_pending sv run ciphertext = (case sv_open_resume sv (lr_thread_id run) ciphertext of
     Inr r \<Rightarrow> Inr r
   | Inl e \<Rightarrow> Inl (if is_value_error e then rejected ''durable lifecycle run has an invalid pending resume'' else e))"

text \<open>A resume that was recorded before: sent again, then cleared.\<close>

definition replay_resume ::
  "('w, 'j) service \<Rightarrow> event_envelope \<Rightarrow> plan_run \<Rightarrow> string \<Rightarrow> (('w, 'j) service_state, lifecycle_outcome) action" where
  "replay_resume sv e run ciphertext =
     act_bind (act_lift (open_pending sv run ciphertext)) (\<lambda>pending.
     act_bind (on_world (planner_resume (sv_planner sv) (lr_thread_id run) pending)) (\<lambda>response.
     act_bind (handle_planner_response sv e run response) (\<lambda>outcome.
     act_bind (store_update sv (clear_pending_resume run ciphertext)) (\<lambda>_.
     act_return outcome))))"

definition answer_request ::
  "('w, 'j) service \<Rightarrow> event_envelope \<Rightarrow> pydict \<Rightarrow> pending_interrupt \<Rightarrow> exn + resume_request" where
  "answer_request sv e activity i =
     res_bind (need (rejected ''OpenProject planning comment is empty'')
       (Option.bind (as_str (dict_field (obj_get activity ''comment'') ''raw'')) (\<lambda>s. if py_strip s = [] then None else Some s))) (\<lambda>answer.
     res_bind (positive_int (obj_get activity ''id'') ''comment ID'') (\<lambda>comment.
     res_bind (timestamp sv (obj_get activity ''createdAt'') ''comment createdAt'') (\<lambda>created.
     new_resume_request (sv_resume_fits sv) \<lparr>rr_event = event_of e, rr_interrupt_id = pi_interrupt_id i,
       rr_comment_id = comment, rr_comment_created_at = created, rr_answer = answer\<rparr>)))"

definition send_answer ::
  "('w, 'j) service \<Rightarrow> event_envelope \<Rightarrow> pydict \<Rightarrow> plan_run \<Rightarrow> pending_interrupt \<Rightarrow> (('w, 'j) service_state, lifecycle_outcome) action" where
  "send_answer sv e activity run i =
     act_bind (act_lift (answer_request sv e activity i)) (\<lambda>asked.
     act_bind (on_world (sv_seal_resume sv (lr_thread_id run) asked)) (\<lambda>ciphertext.
     act_bind (store_update sv (record_pending_resume run ciphertext)) (\<lambda>recorded.
     act_bind (on_world (planner_resume (sv_planner sv) (lr_thread_id recorded) asked)) (\<lambda>response.
     act_bind (on_world (set_lifecycle_state (sv_statuses sv) (sv_lifecycle sv) (lr_idea_id run) (Some ''Planning'') None)) (\<lambda>_.
     act_bind (handle_planner_response sv e recorded response) (\<lambda>outcome.
     act_bind (store_update sv (clear_pending_resume recorded ciphertext)) (\<lambda>_.
     act_return outcome)))))))"

definition planning_input ::
  "('w, 'j) service \<Rightarrow> event_envelope \<Rightarrow> (('w, 'j) service_state, lifecycle_outcome) action" where
  "planning_input sv e =
     act_bind (act_lift (payload_object (event_payload e) ''activity'')) (\<lambda>activity.
     act_bind (act_lift (linked_package activity)) (\<lambda>idea.
     act_bind (store_query (latest_for_idea idea)) (\<lambda>latest.
     let outcome = (\<lambda>text. (new_outcome ''resume_planning'' text)\<lparr>lo_work_package_id := Some idea\<rparr>) in
     case latest of
       None \<Rightarrow> finish e (outcome ''no_pending_interrupt'')
     | Some run \<Rightarrow>
         if lr_state run \<noteq> RunNeedsInput then finish e (outcome ''no_pending_interrupt'')
         else if ev_actor_kind e \<noteq> ''human''
         then finish e ((outcome ''ignored_service_comment'')\<lparr>lo_plan_id := Some (lr_plan_id run), lo_plan_version := Some (lr_plan_version run)\<rparr>)
         else (case lr_pending_resume run of
             Some ciphertext \<Rightarrow> replay_resume sv e run ciphertext
           | None \<Rightarrow>
               act_bind (on_world (planner_get (sv_planner sv) (lr_thread_id run))) (\<lambda>state.
               case ps_interrupt state of
                 None \<Rightarrow> handle_planner_response sv e run state
               | Some i \<Rightarrow> send_answer sv e activity run i)))))"

end
