(* ===== verification/OperatorFlow.thy ===== *)
theory OperatorFlow
  imports PlannerFlow
begin

text \<open>
  The two recoveries an operator can ask for (\<^verbatim>\<open>src/planning_platform/lifecycle/service.py\<close>):
  \<^verbatim>\<open>abandon_terminal_resume\<close> drops a resume whose delivery is dead, and
  \<^verbatim>\<open>convert_failed_critique_to_interrupt\<close> turns a failed critique back into a question.
\<close>

section \<open>Abandoning a terminal resume\<close>

definition settled_as :: "string \<Rightarrow> delivery_row option \<Rightarrow> bool" where
  "settled_as state row = (case row of None \<Rightarrow> False | Some r \<Rightarrow> settled_delivery state r)"

definition restored_outcome :: "plan_run \<Rightarrow> lifecycle_outcome" where
  "restored_outcome run = of_run run (new_outcome ''terminal_resume_abandonment'' ''restored_interrupt'')"

text \<open>The response still shows this interrupt, and no artifacts.\<close>

definition shows_interrupt :: "plan_response \<Rightarrow> string \<Rightarrow> bool" where
  "shows_interrupt response interrupt \<longleftrightarrow> ps_status response = ''needs_input'' \<and> ps_manifest response = [] \<and>
     (case ps_interrupt response of None \<Rightarrow> False | Some i \<Rightarrow> pi_interrupt_id i = interrupt)"

definition confirm_abandonment ::
  "('w, 'j) service \<Rightarrow> plan_run \<Rightarrow> string \<Rightarrow> string \<Rightarrow> string \<Rightarrow> (('w, 'j) service_state, lifecycle_outcome) action" where
  "confirm_abandonment sv run key operator reason =
     act_bind (store_query (completed_terminal_resume_abandonment (lr_plan_id run) (lr_plan_version run) (lr_thread_id run) key
       (py_strip operator) (py_strip reason))) (\<lambda>completed.
     act_bind (act_lift (need (rejected ''lifecycle run has no pending resume to abandon'') completed)) (\<lambda>interrupt.
     act_bind (on_world (planner_get (sv_planner sv) (lr_thread_id run))) (\<lambda>response.
     act_bind (reject_if (\<not> shows_interrupt response interrupt)
       ''completed terminal resume abandonment no longer matches planner state'') (\<lambda>_.
     act_return (restored_outcome run)))))"

definition abandon_pending ::
  "('w, 'j) service \<Rightarrow> plan_run \<Rightarrow> string \<Rightarrow> string \<Rightarrow> string \<Rightarrow> string \<Rightarrow> (('w, 'j) service_state, lifecycle_outcome) action" where
  "abandon_pending sv run ciphertext key operator reason =
     act_bind (act_lift (open_pending sv run ciphertext)) (\<lambda>pending.
     act_bind (reject_if (pl_idempotency_key (rr_event pending) \<noteq> key)
       ''terminal delivery does not own the pending planner resume'') (\<lambda>_.
     act_bind (act_lift (new_abandon_request \<lparr>or_idempotency_key = key, or_interrupt_id = rr_interrupt_id pending,
       or_comment_id = rr_comment_id pending, or_comment_created_at = rr_comment_created_at pending,
       or_operator = py_strip operator, or_reason = py_strip reason\<rparr>)) (\<lambda>asked.
     act_bind (on_world (planner_abandon (sv_planner sv) (lr_thread_id run) asked)) (\<lambda>response.
     act_bind (reject_if (ps_thread_id response \<noteq> lr_thread_id run \<or> \<not> shows_interrupt response (rr_interrupt_id pending))
       ''planner did not restore the exact artifact-free interrupt'') (\<lambda>_.
     act_bind (store_update sv (complete_terminal_resume_abandonment run ciphertext key (pl_trace_id (rr_event pending))
       (rr_interrupt_id pending) (py_strip operator) (py_strip reason))) (\<lambda>_.
     act_return (restored_outcome run)))))))"

definition abandon_terminal_resume ::
  "('w, 'j) service \<Rightarrow> string \<Rightarrow> int \<Rightarrow> string \<Rightarrow> string \<Rightarrow> string \<Rightarrow> string \<Rightarrow> (('w, 'j) service_state, lifecycle_outcome) action" where
  "abandon_terminal_resume sv plan version thread key operator reason =
     act_bind (reject_if (py_strip operator = [] \<or> 255 < length operator) ''terminal resume abandonment operator is required'') (\<lambda>_.
     act_bind (reject_if (py_strip reason = [] \<or> 1024 < length reason) ''terminal resume abandonment reason is required'') (\<lambda>_.
     act_bind (store_query (store_get plan version)) (\<lambda>found.
     act_bind (act_lift (need (rejected ''terminal resume abandonment does not match a Needs Input lifecycle run'')
       (Option.bind found (\<lambda>r. if lr_thread_id r = thread \<and> lr_state r = RunNeedsInput then Some r else None)))) (\<lambda>run.
     act_bind (store_query (terminal_delivery key)) (\<lambda>row.
     act_bind (reject_if (\<not> settled_as ''dead_letter'' row) ''resume delivery is not terminal and unfenced'') (\<lambda>_.
     case lr_pending_resume run of
       None \<Rightarrow> confirm_abandonment sv run key operator reason
     | Some ciphertext \<Rightarrow> abandon_pending sv run ciphertext key operator reason))))))"

section \<open>Reopening a failed critique\<close>

definition correction_outcome :: "string \<Rightarrow> int \<Rightarrow> int \<Rightarrow> lifecycle_outcome" where
  "correction_outcome plan version idea = (new_outcome ''failed_critique_correction'' ''needs_input'')
     \<lparr>lo_plan_id := Some plan, lo_plan_version := Some version, lo_work_package_id := Some idea\<rparr>"

definition confirm_correction ::
  "('w, 'j) service \<Rightarrow> plan_run \<Rightarrow> string \<Rightarrow> (('w, 'j) service_state, unit) action" where
  "confirm_correction sv run interrupt =
     act_bind (on_world (planner_get (sv_planner sv) (lr_thread_id run))) (\<lambda>response.
     act_bind (reject_if (\<not> shows_interrupt response interrupt)
       ''completed critique correction no longer matches planner state'') (\<lambda>_.
     ensure_interrupt_side_effects sv run response))"

definition correct_critique ::
  "('w, 'j) service \<Rightarrow> plan_run \<Rightarrow> operator_request \<Rightarrow> (('w, 'j) service_state, unit) action" where
  "correct_critique sv run r =
     act_bind (reject_if (lr_state run \<noteq> RunFailed \<or> lr_pending_resume run \<noteq> None \<or> \<not> no_pull_request run \<or> \<not> nothing_approved run)
       ''lifecycle run is not an artifact-free failure'') (\<lambda>_.
     act_bind (store_query (terminal_delivery (or_idempotency_key r))) (\<lambda>row.
     act_bind (reject_if (\<not> settled_as ''completed'' row) ''critique resume delivery is not completed'') (\<lambda>_.
     act_bind (act_lift (new_convert_request r)) (\<lambda>asked.
     act_bind (on_world (planner_convert (sv_planner sv) (lr_thread_id run) asked)) (\<lambda>response.
     act_bind (reject_if (ps_thread_id response \<noteq> lr_thread_id run \<or> ps_status response \<noteq> ''needs_input'' \<or> ps_manifest response \<noteq> [])
       ''planner did not produce an artifact-free interrupt'') (\<lambda>_.
     act_bind (act_lift (need (rejected ''planner did not produce an artifact-free interrupt'') (ps_interrupt response))) (\<lambda>i.
     act_bind (store_update sv (complete_critique_correction run (or_idempotency_key r) (or_interrupt_id r) (or_comment_id r)
       (sv_iso sv (or_comment_created_at r)) (pi_interrupt_id i) (or_operator r) (or_reason r))) (\<lambda>corrected.
     ensure_interrupt_side_effects sv corrected response))))))))"

definition convert_failed_critique_locked ::
  "('w, 'j) service \<Rightarrow> string \<Rightarrow> int \<Rightarrow> string \<Rightarrow> operator_request \<Rightarrow> (('w, 'j) service_state, lifecycle_outcome) action" where
  "convert_failed_critique_locked sv plan version thread r =
     act_bind (store_query (store_get plan version)) (\<lambda>found.
     act_bind (act_lift (need (rejected ''critique correction does not match the exact plan'')
       (Option.bind found (\<lambda>run. if lr_thread_id run = thread then Some run else None)))) (\<lambda>run.
     act_bind (store_query (completed_critique_correction plan version thread (or_idempotency_key r) (or_interrupt_id r)
       (or_comment_id r) (sv_iso sv (or_comment_created_at r)) (or_operator r) (or_reason r))) (\<lambda>completed.
     act_bind (case completed of
         Some interrupt \<Rightarrow> confirm_correction sv run interrupt
       | None \<Rightarrow> correct_critique sv run r) (\<lambda>_.
     act_return (correction_outcome plan version (lr_idea_id run))))))"

definition convert_failed_critique_to_interrupt ::
  "('w, 'j) service \<Rightarrow> string \<Rightarrow> int \<Rightarrow> string \<Rightarrow> operator_request \<Rightarrow> (('w, 'j) service_state, lifecycle_outcome) action" where
  "convert_failed_critique_to_interrupt sv plan version thread r =
     act_bind (reject_if (\<not> is_operator_name (py_strip (or_operator r))) ''critique correction operator is invalid'') (\<lambda>_.
     act_bind (reject_if (py_strip (or_reason r) = [] \<or> 1024 < length (py_strip (or_reason r)))
       ''critique correction reason is required'') (\<lambda>_.
     act_bind (on_world (sv_correction_lock sv plan version)) (\<lambda>_.
     act_finally
       (convert_failed_critique_locked sv plan version thread
         (r\<lparr>or_operator := py_strip (or_operator r), or_reason := sv_sanitize sv (py_strip (or_reason r))\<rparr>))
       (\<lambda>(d, j, a). (d, j, a\<lparr>ad_world := sv_correction_unlock sv (ad_world a)\<rparr>)))))"

end
