(* ===== verification/ReplanFlow.thy ===== *)
theory ReplanFlow
  imports PlannerFlow
begin

text \<open>
  Internal events of \<^verbatim>\<open>src/planning_platform/lifecycle/service.py\<close>: the proof that a published
  plan is converged, which changes nothing, and the bounded successor of a published plan.
\<close>

section \<open>The artifact of a run\<close>

definition has_bindings :: "plan_run \<Rightarrow> bool" where
  "has_bindings run \<longleftrightarrow> lr_approved_commit run \<noteq> None \<and> lr_evidence_sha256 run \<noteq> None \<and> lr_blob_sha1 run \<noteq> None \<and>
     lr_backlog_sha256 run \<noteq> None"

definition bound_artifact :: "('w, 'j) service \<Rightarrow> plan_run \<Rightarrow> ('w, loaded_artifact) action" where
  "bound_artifact sv run =
     act_bind (act_lift (new_binding (lr_repository run) (the (lr_approved_commit run)) (lr_backlog_path run)
       (the (lr_blob_sha1 run)) (the (lr_backlog_sha256 run)))) (\<lambda>binding.
     act_bind (read_immutable_artifact (sv_github sv) binding) (\<lambda>raw.
     act_lift (load_artifact_bytes sv raw)))"

definition same_digests :: "loaded_artifact \<Rightarrow> plan_run \<Rightarrow> bool" where
  "same_digests a run \<longleftrightarrow> Some (la_blob_sha1 a) = lr_blob_sha1 run \<and> Some (la_sha256 a) = lr_backlog_sha256 run"

definition is_internal :: "event_envelope \<Rightarrow> bool" where
  "is_internal e \<longleftrightarrow> ev_source e = ''windmill'' \<and> ev_signature_algorithm e = ''internal''"

definition is_mutation :: "publication_operation \<Rightarrow> bool" where
  "is_mutation x \<longleftrightarrow> op_kind_of x \<noteq> RecordAudit"

section \<open>Convergence\<close>

text \<open>The plan the event names, when its payload names the same one and nothing else.\<close>

definition exact_identity :: "event_envelope \<Rightarrow> (string \<times> int) option" where
  "exact_identity e = (case (as_str (obj_get (ev_subject e) ''plan_id''), as_int (obj_get (ev_subject e) ''plan_version'')) of
     (Some plan, Some version) \<Rightarrow>
       if plan \<noteq> [] \<and> 0 < version \<and> details_equal (event_payload e) [(''plan_id'', PStr plan), (''plan_version'', PInt version)]
       then Some (plan, version) else None
   | _ \<Rightarrow> None)"

definition published_run ::
  "('w, 'j) service \<Rightarrow> string \<Rightarrow> int \<Rightarrow> string \<Rightarrow> string \<Rightarrow> string \<Rightarrow> (('w, 'j) service_state, plan_run) action" where
  "published_run sv plan version unknown unpublished unbound =
     act_bind (store_query (store_get plan version)) (\<lambda>found.
     act_bind (act_lift (need (rejected unknown) found)) (\<lambda>run.
     act_bind (reject_if (lr_state run \<noteq> RunPublished) unpublished) (\<lambda>_.
     act_bind (reject_if (\<not> has_bindings run) unbound) (\<lambda>_.
     act_return run))))"

definition convergence_outcome :: "publication_operation list \<Rightarrow> string" where
  "convergence_outcome ops = (let n = length (filter is_mutation ops) in
     if n = 0 then ''zero_operations'' else ''drift_operations:'' @ show_nat n)"

definition convergence_check ::
  "('w, 'j) service \<Rightarrow> event_envelope \<Rightarrow> (('w, 'j) service_state, lifecycle_outcome) action" where
  "convergence_check sv e =
     act_bind (reject_if (\<not> is_internal e) ''convergence proof requires a Windmill internal event'') (\<lambda>_.
     act_bind (act_lift (need (rejected ''convergence proof requires one exact plan identity'') (exact_identity e))) (\<lambda>(plan, version).
     act_bind (published_run sv plan version ''convergence proof references an unknown plan version''
       ''convergence proof requires a published plan version''
       ''published plan is missing immutable publication bindings'') (\<lambda>run.
     act_bind (on_world (bound_artifact sv run)) (\<lambda>a.
     act_bind (reject_if (plan_id (bp_plan (la_plan a)) \<noteq> plan \<or> plan_version (bp_plan (la_plan a)) \<noteq> version \<or> \<not> same_digests a run)
       ''immutable artifact does not match the published plan identity'') (\<lambda>_.
     act_bind (on_world (rm_snapshot (sv_remote sv))) (\<lambda>current.
     act_bind (act_lift (plan_diff (sv_sha sv) (with_approved_commit (la_plan a) (the (lr_approved_commit run))) current (ev_trace_id e))) (\<lambda>ops.
     finish e ((new_outcome ''convergence_check'' (convergence_outcome ops))
       \<lparr>lo_plan_id := Some plan, lo_plan_version := Some version\<rparr>))))))))"

section \<open>A bounded successor\<close>

text \<open>The roots and the reason of an exact request.\<close>

fun nonempty_strings :: "pyval list \<Rightarrow> string list option" where
  "nonempty_strings [] = Some []"
| "nonempty_strings (v # vs) = (case (as_str v, nonempty_strings vs) of
     (Some s, Some ss) \<Rightarrow> if s = [] then None else Some (s # ss)
   | _ \<Rightarrow> None)"

definition exact_replan :: "event_envelope \<Rightarrow> (string \<times> int \<times> string list \<times> string) option" where
  "exact_replan e =
     (case (as_str (obj_get (ev_subject e) ''plan_id''), as_int (obj_get (ev_subject e) ''plan_version''),
            Option.bind (as_list (obj_get (event_payload e) ''affected_node_keys'')) nonempty_strings,
            as_str (obj_get (event_payload e) ''reason'')) of
        (Some plan, Some version, Some roots, Some reason) \<Rightarrow>
          if plan \<noteq> [] \<and> roots \<noteq> [] \<and> distinct roots \<and> py_strip reason \<noteq> [] \<and>
             details_equal (event_payload e) [(''plan_id'', PStr plan), (''base_plan_version'', PInt version),
               (''affected_node_keys'', PList (map PStr roots)), (''reason'', PStr reason)]
          then Some (plan, version, roots, reason) else None
      | _ \<Rightarrow> None)"

definition expected_replan :: "plan_run \<Rightarrow> backlog_plan \<Rightarrow> string list \<Rightarrow> string \<Rightarrow> exn + replan_request" where
  "expected_replan base prior roots reason =
     res_bind (raise_if (\<not> set roots \<subseteq> set (map bi_key (bp_items prior)))
       (rejected ''partial replan references unknown affected roots'')) (\<lambda>_.
     new_replan_request \<lparr>rq_prior_plan = prior, rq_base_commit = the (lr_approved_commit base), rq_selected_roots = roots,
       rq_affected_keys = prior_descendant_keys prior (set roots), rq_reason = reason\<rparr>)"

definition recover_replan_request :: "('w, 'j) service \<Rightarrow> plan_run \<Rightarrow> exn + start_request" where
  "recover_replan_request sv run =
     res_bind (recover_start_request sv run) (\<lambda>req.
     res_bind (raise_if (sq_replan req = None) (rejected ''bounded replan successor has no partial-replan binding'')) (\<lambda>_.
     Inr req))"

definition same_event :: "start_request \<Rightarrow> event_envelope \<Rightarrow> bool" where
  "same_event req e \<longleftrightarrow> sq_idempotency_key req = ev_idempotency_key e \<and> sq_trace_id req = ev_trace_id e"

definition successor_binding :: "plan_run \<Rightarrow> plan_run \<Rightarrow> start_request \<Rightarrow> event_envelope \<Rightarrow> replan_request \<Rightarrow> bool" where
  "successor_binding base run req e expected \<longleftrightarrow>
     lr_idea_id run = lr_idea_id base \<and> lr_plan_id run = lr_plan_id base \<and> lr_plan_version base < lr_plan_version run \<and>
     lr_thread_id run = thread_of (lr_idea_id base) (lr_plan_version run) \<and> same_event req e \<and>
     is_work_package_id (sq_idea req) = lr_idea_id base \<and> sq_plan_id req = lr_plan_id base \<and>
     sq_plan_version req = lr_plan_version run \<and> sq_snapshot_sha256 req = lr_snapshot_sha256 run \<and>
     sq_etag req = lr_snapshot_etag run \<and> sq_replan req = Some expected"

definition resume_existing_replan ::
  "('w, 'j) service \<Rightarrow> event_envelope \<Rightarrow> plan_run \<Rightarrow> plan_run \<Rightarrow> replan_request \<Rightarrow> (('w, 'j) service_state, lifecycle_outcome) action" where
  "resume_existing_replan sv e base run expected =
     act_bind (act_lift (recover_replan_request sv run)) (\<lambda>req.
     act_bind (reject_if (\<not> successor_binding base run req e expected)
       ''bounded replan replay changed its immutable successor binding'') (\<lambda>_.
     if lr_state run = RunPublished
     then finish e ((of_run run (new_outcome ''replan_affected_subgraph'' ''already_published''))\<lparr>lo_pull_request_number := lr_pr_number run\<rparr>)
     else if lr_state run = RunFailed then finish e (of_run run (new_outcome ''replan_affected_subgraph'' ''already_failed''))
     else if lr_state run \<notin> {RunPlanning, RunNeedsInput, RunPrOpen}
     then act_raise (rejected ''bounded replan successor is already in a publication transition'')
     else
       act_bind (on_world (set_lifecycle_state (sv_statuses sv) (sv_lifecycle sv) (lr_idea_id run) (Some ''Planning'') None)) (\<lambda>_.
       act_bind (on_world (get_or_start (sv_planner sv) (lr_thread_id run) (Inr req))) (\<lambda>response.
       handle_planner_response sv e run response))))"

text \<open>
  What the successor is: an earlier attempt of the same request to go on with (\<open>Inl\<close>), or a fresh
  version above the base and above a failed attempt (\<open>Inr\<close>).
\<close>

definition successor ::
  "('w, 'j) service \<Rightarrow> event_envelope \<Rightarrow> plan_run \<Rightarrow> replan_request \<Rightarrow> plan_run option \<Rightarrow> exn + (plan_run + int)" where
  "successor sv e base expected latest =
     (if latest = Some base then Inr (Inr (lr_plan_version base + 1))
      else case latest of
        None \<Rightarrow> Inl (rejected ''partial replan has an invalid successor history'')
      | Some run \<Rightarrow>
          if lr_plan_id run \<noteq> lr_plan_id base \<or> lr_idea_id run \<noteq> lr_idea_id base \<or> lr_plan_version run \<le> lr_plan_version base
          then Inl (rejected ''partial replan has an invalid successor history'')
          else res_bind (recover_replan_request sv run) (\<lambda>previous.
            if same_event previous e \<and> sq_replan previous = Some expected then Inr (Inl run)
            else if lr_state run \<noteq> RunFailed \<or> sq_plan_id previous \<noteq> lr_plan_id base \<or>
                sq_plan_version previous \<noteq> lr_plan_version run \<or> is_work_package_id (sq_idea previous) \<noteq> lr_idea_id base \<or>
                map_option rq_prior_plan (sq_replan previous) \<noteq> Some (rq_prior_plan expected) \<or>
                map_option rq_base_commit (sq_replan previous) \<noteq> lr_approved_commit base
              then Inl (rejected ''partial replan already has a different active successor'')
              else Inr (Inr (lr_plan_version run + 1))))"

definition start_successor ::
  "('w, 'j) service \<Rightarrow> event_envelope \<Rightarrow> plan_run \<Rightarrow> int \<Rightarrow> replan_request \<Rightarrow> (('w, 'j) service_state, lifecycle_outcome) action" where
  "start_successor sv e base version expected =
     act_bind (on_world (sv_read_package sv (lr_idea_id base))) (\<lambda>current.
     let description = description_of sv current; names = repositories description in
     act_bind (reject_if (names = []) ''partial replan Idea no longer names a repository'') (\<lambda>_.
     act_bind (planning_context sv names) (\<lambda>(contexts, base_branch, op_snapshot).
     let run = new_run sv (lr_idea_id base) (lr_plan_id base) version base_branch op_snapshot in
     act_bind (act_lift (request_of sv e run current description op_snapshot contexts (Some expected))) (\<lambda>asked.
     act_bind (begin_planning sv run asked) (\<lambda>stored.
     act_bind (on_world (set_lifecycle_state (sv_statuses sv) (sv_lifecycle sv) (lr_idea_id base) (Some ''Planning'') None)) (\<lambda>_.
     act_bind (on_world (planner_start (sv_planner sv) asked)) (\<lambda>response.
     handle_planner_response sv e stored response)))))))"

definition replan_affected_subgraph ::
  "('w, 'j) service \<Rightarrow> event_envelope \<Rightarrow> (('w, 'j) service_state, lifecycle_outcome) action" where
  "replan_affected_subgraph sv e =
     act_bind (reject_if (\<not> is_internal e) ''partial replan requires a Windmill internal event'') (\<lambda>_.
     act_bind (act_lift (need (rejected ''partial replan requires one exact bounded request'') (exact_replan e))) (\<lambda>(plan, version, roots, reason).
     act_bind (published_run sv plan version ''partial replan references an unknown base plan version''
       ''partial replan base version must be published''
       ''partial replan base is missing immutable publication bindings'') (\<lambda>base.
     act_bind (on_world (bound_artifact sv base)) (\<lambda>a.
     act_bind (reject_if (\<not> same_plan a base \<or> \<not> same_digests a base)
       ''immutable base backlog does not match its published run'') (\<lambda>_.
     act_bind (act_lift (expected_replan base (la_plan a) roots reason)) (\<lambda>expected.
     act_bind (store_query (latest_published plan)) (\<lambda>published.
     act_bind (reject_if (published \<noteq> Some base) ''partial replan base version is not the latest published plan'') (\<lambda>_.
     act_bind (store_query (latest_for_idea (lr_idea_id base))) (\<lambda>latest.
     act_bind (act_lift (successor sv e base expected latest)) (\<lambda>next.
     case next of
       Inl run \<Rightarrow> resume_existing_replan sv e base run expected
     | Inr fresh \<Rightarrow> start_successor sv e base fresh expected))))))))))"

end
