(* ===== verification/ServiceEvents.thy ===== *)
theory ServiceEvents
  imports OperatorFlow ReplanFlow ImplementationFlow Dedupe
begin

text \<open>
  The nightly reconciliation of \<^verbatim>\<open>src/planning_platform/lifecycle/service.py\<close> (missed merges,
  implementation pull requests, stale work, safe status repairs, drift) and the dispatch of every
  event by \<^verbatim>\<open>handle\<close>.
\<close>

section \<open>Latest runs\<close>

text \<open>The greatest version of every plan, in the order in which the plans were first seen.\<close>

definition keep_greatest :: "plan_run \<Rightarrow> (string, plan_run) dict \<Rightarrow> (string, plan_run) dict" where
  "keep_greatest run d = (case dict_get d (lr_plan_id run) of
     None \<Rightarrow> dict_set (lr_plan_id run) run d
   | Some r \<Rightarrow> if lr_plan_version r < lr_plan_version run then dict_set (lr_plan_id run) run d else d)"

definition latest_by_plan :: "plan_run list \<Rightarrow> plan_run list" where
  "latest_by_plan runs = map snd (fold keep_greatest runs [])"

definition published_by_plan :: "plan_run list \<Rightarrow> plan_run list" where
  "published_by_plan runs = latest_by_plan (filter (\<lambda>r. lr_state r = RunPublished) runs)"

section \<open>Missed merges\<close>

definition repair_event :: "('w, 'j) service \<Rightarrow> event_envelope \<Rightarrow> plan_run \<Rightarrow> int \<Rightarrow> string \<Rightarrow> exn + event_envelope" where
  "repair_event sv e run number merge_commit =
     envelope_for_delivery (gh_sha256 (sv_github sv)) (sv_uuid5 sv) ''github.pull_request'' ''windmill''
       (''reconcile:'' @ ev_source_delivery_id e @ '':'' @ lr_repository run @ '':'' @ show_int number)
       (ev_occurred_at e) (ev_received_at e) (''system'', ''windmill-reconciler'')
       [(''idea_id'', PInt (lr_idea_id run)), (''plan_id'', PStr (lr_plan_id run)), (''plan_version'', PInt (lr_plan_version run))]
       (True, ''internal'')
       (PDict [(''pull_request'', PDict [(''number'', PInt number), (''merged'', PBool True), (''merge_commit_sha'', PStr merge_commit)]),
         (''repository'', PDict [(''full_name'', PStr (lr_repository run))])])"

definition repair_merge ::
  "('w, 'j) service \<Rightarrow> event_envelope \<Rightarrow> plan_run \<Rightarrow> (('w, 'j) service_state, nat) action" where
  "repair_merge sv e run = (case (lr_state run, lr_pr_number run, lr_planning_commit run) of
     (RunPrOpen, Some number, Some head) \<Rightarrow>
       act_bind (on_world (pull_request_evidence (sv_github sv) (lr_repository run) number (Some head))) (\<lambda>ev.
       case (pe_merged ev, pe_merge_commit ev) of
         (True, Some merge_commit) \<Rightarrow>
           act_bind (act_lift (repair_event sv e run number merge_commit)) (\<lambda>repair.
           act_bind (pull_request_event sv repair) (\<lambda>outcome.
           act_return (if lo_outcome outcome \<in> {''published'', ''already_published''} then 1 else 0)))
       | _ \<Rightarrow> act_return 0)
   | _ \<Rightarrow> act_return 0)"

text \<open>The sum of what a step returns over a list.\<close>

fun act_sum :: "('a \<Rightarrow> ('s, nat) action) \<Rightarrow> 'a list \<Rightarrow> ('s, nat) action" where
  "act_sum f [] = act_return 0"
| "act_sum f (x # xs) = act_bind (f x) (\<lambda>n. act_bind (act_sum f xs) (\<lambda>m. act_return (n + m)))"

text \<open>\<^verbatim>\<open>except\<close> a class of exceptions: the failure is counted and the loop goes on.\<close>

definition counted :: "(exn \<Rightarrow> bool) \<Rightarrow> ('s, 'a) action \<Rightarrow> ('s, 'a option) action" where
  "counted expected m =
     act_catch (act_bind m (\<lambda>x. act_return (Some x))) (\<lambda>e. if expected e then act_return None else act_raise e)"

section \<open>Implementation pull requests\<close>

definition refresh_failure :: "exn \<Rightarrow> bool" where
  "refresh_failure e = (case e of GitHubAdapterError _ \<Rightarrow> True | LifecycleStoreMismatch _ \<Rightarrow> True | _ \<Rightarrow> False)"

definition project_failure :: "exn \<Rightarrow> bool" where
  "project_failure e = (case e of LifecycleStoreMismatch _ \<Rightarrow> True | _ \<Rightarrow> is_op_error e)"

definition refresh_observed ::
  "('w, 'j) service \<Rightarrow> event_envelope \<Rightarrow> pr_association \<Rightarrow> (('w, 'j) service_state, unit) action" where
  "refresh_observed sv e a =
     act_bind (on_world (pull_request_evidence (sv_github sv) (pa_repository a) (pa_number a) None)) (\<lambda>ev.
     act_bind (store_update sv (\<lambda>now. bind_implementation_pull_request
       (a\<lparr>pa_head_sha := pe_head_sha ev, pa_head_observed_at := ev_occurred_at e, pa_state := pe_pr_state ev,
          pa_merged_commit := (if pe_merged ev then pe_merge_commit ev else None)\<rparr>))) (\<lambda>_.
     act_bind (store_update sv (\<lambda>now. record_implementation_check_result (pa_repository a) (pa_number a) (pe_head_sha ev)
       (implementation_evidence_passes sv ev))) (\<lambda>_.
     act_return ())))"

definition refresh_step ::
  "('w, 'j) service \<Rightarrow> event_envelope \<Rightarrow> pr_association \<Rightarrow> (('w, 'j) service_state, nat) action" where
  "refresh_step sv e a = act_bind (counted refresh_failure (refresh_observed sv e a)) (\<lambda>r. act_return (if r = None then 1 else 0))"

text \<open>The number of repaired work packages and of failures.\<close>

fun project_all :: "('w, 'j) service \<Rightarrow> int list \<Rightarrow> (('w, 'j) service_state, nat \<times> nat) action" where
  "project_all sv [] = act_return (0, 0)"
| "project_all sv (n # ns) =
     act_bind (counted project_failure (project_implementation_work_package sv n)) (\<lambda>r.
     act_bind (project_all sv ns) (\<lambda>(repaired, failed).
     act_return (case r of None \<Rightarrow> (repaired, failed + 1) | Some wrote \<Rightarrow> (if wrote then repaired + 1 else repaired, failed))))"

section \<open>Findings and safe repairs\<close>

definition stale_implementation ::
  "('w, 'j) service \<Rightarrow> event_envelope \<Rightarrow> int \<Rightarrow> work_package list \<Rightarrow> pr_association list \<Rightarrow> int \<Rightarrow> bool" where
  "stale_implementation sv e in_progress packages associations n =
     (let relevant = filter (\<lambda>a. pa_work_package_id a = n) associations in
      case find (\<lambda>w. wp_id w = n) (rev packages) of
        None \<Rightarrow> False
      | Some w \<Rightarrow> status_id_of w = PInt in_progress \<and> relevant \<noteq> [] \<and>
          \<not> list_ex (\<lambda>a. pa_state a = ''open'' \<or> pa_merged_commit a \<noteq> None) relevant \<and>
          sv_implementation_stale_after sv \<le> ev_occurred_at e - Max (set (map pa_head_observed_at relevant)))"

definition repair_needs_input ::
  "('w, 'j) service \<Rightarrow> int \<Rightarrow> work_package list \<Rightarrow> plan_run \<Rightarrow> (('w, 'j) service_state, nat) action" where
  "repair_needs_input sv needs_input packages run =
     (if lr_state run \<noteq> RunNeedsInput then act_return 0
      else
        act_bind (on_world (planner_get (sv_planner sv) (lr_thread_id run))) (\<lambda>state.
        let shown = (case find (\<lambda>w. wp_id w = lr_idea_id run) packages of
              None \<Rightarrow> False | Some w \<Rightarrow> status_id_of w = PInt needs_input) in
        if ps_interrupt state \<noteq> None \<and> \<not> shown then
          act_bind (on_world (set_lifecycle_state (sv_statuses sv) (sv_lifecycle sv) (lr_idea_id run) (Some ''Needs Input'') None)) (\<lambda>_.
          act_return 1)
        else act_return 0))"

record graph_statuses =
  gs_done :: int
  gs_blocked :: int
  gs_ready :: int
  gs_terminal :: "int list"

definition blocker_open :: "graph_statuses \<Rightarrow> work_package option \<Rightarrow> bool" where
  "blocker_open gs blocker = (case blocker of
     None \<Rightarrow> True | Some w \<Rightarrow> wp_superseded w \<or> status_id_of w \<noteq> PInt (gs_done gs))"

definition open_blocker ::
  "graph_statuses \<Rightarrow> (identity, work_package) dict \<Rightarrow> string \<Rightarrow> backlog_item \<Rightarrow> bool" where
  "open_blocker gs ids plan i = list_ex (\<lambda>k. blocker_open gs (dict_get ids (plan, k))) (bi_blocked_by i)"

text \<open>The status to write, if one is safe.\<close>

definition safe_repair ::
  "graph_statuses \<Rightarrow> (identity, work_package) dict \<Rightarrow> string \<Rightarrow> backlog_item \<Rightarrow> work_package \<Rightarrow> string option" where
  "safe_repair gs ids plan i w =
     (if status_id_of w = PInt (gs_blocked gs) \<and> bi_blocked_by i \<noteq> [] \<and> \<not> open_blocker gs ids plan i then Some ''Ready''
      else if status_id_of w = PInt (gs_ready gs) \<and> open_blocker gs ids plan i then Some ''Blocked''
      else None)"

definition node_findings ::
  "graph_statuses \<Rightarrow> (identity, work_package) dict \<Rightarrow> backlog_plan \<Rightarrow> backlog_item \<Rightarrow> work_package \<Rightarrow> nat" where
  "node_findings gs ids p i w =
     (let plan = plan_id (bp_plan p); closed = (status_id_of w = PInt (gs_done gs)) in
      (if closed \<and> wp_evidence_state w \<notin> Some ` {''completed'', ''deployed'', ''pr_merged'', ''verified''} then 1 else 0) +
      (if list_ex (\<lambda>k. case dict_get ids (plan, k) of None \<Rightarrow> False | Some b \<Rightarrow> wp_superseded b) (bi_blocked_by i) then 1 else 0) +
      (if closed \<and> list_ex (\<lambda>c. bi_parent c = Some (bi_key i) \<and>
           (case dict_get ids (plan, bi_key c) of None \<Rightarrow> True | Some cw \<Rightarrow> status_id_of cw \<notin> PInt ` set (gs_terminal gs))) (bp_items p)
       then 1 else 0))"

text \<open>The findings and the repairs of one list of items.\<close>

fun inspect_items ::
  "('w, 'j) service \<Rightarrow> graph_statuses \<Rightarrow> (identity, work_package) dict \<Rightarrow> backlog_plan \<Rightarrow> backlog_item list
    \<Rightarrow> (('w, 'j) service_state, nat \<times> nat) action" where
  "inspect_items sv gs ids p [] = act_return (0, 0)"
| "inspect_items sv gs ids p (i # items) =
     (case dict_get ids (plan_id (bp_plan p), bi_key i) of
        None \<Rightarrow> inspect_items sv gs ids p items
      | Some w \<Rightarrow>
          act_bind (case safe_repair gs ids (plan_id (bp_plan p)) i w of
              None \<Rightarrow> act_return 0
            | Some status \<Rightarrow>
                act_bind (on_world (set_lifecycle_state (sv_statuses sv) (sv_lifecycle sv) (wp_id w) (Some status) None)) (\<lambda>_. act_return 1)) (\<lambda>repaired.
          act_bind (inspect_items sv gs ids p items) (\<lambda>(findings, repairs).
          act_return (node_findings gs ids p i w + findings, repaired + repairs))))"

definition moved_repositories :: "'w github \<Rightarrow> repository_ref list \<Rightarrow> ('w, nat) action" where
  "moved_repositories gh refs = act_sum (\<lambda>r. act_bind (repository_head gh (repo_name r)) (\<lambda>(branch, head).
     act_return (if head \<noteq> repo_commit r then 1 else 0))) refs"

definition inspect_graph ::
  "('w, 'j) service \<Rightarrow> event_envelope \<Rightarrow> graph_statuses \<Rightarrow> snapshot \<Rightarrow> (identity, work_package) dict \<Rightarrow> plan_run
    \<Rightarrow> (('w, 'j) service_state, nat \<times> nat) action" where
  "inspect_graph sv e gs current ids run =
     (if lr_approved_commit run = None \<or> lr_blob_sha1 run = None \<or> lr_backlog_sha256 run = None then act_return (1, 0)
      else
        act_bind (on_world (bound_artifact sv run)) (\<lambda>a.
        let approved = with_approved_commit (la_plan a) (the (lr_approved_commit run)) in
        act_bind (act_lift (plan_diff (sv_sha sv) approved current (ev_trace_id e))) (\<lambda>ops.
        act_bind (on_world (moved_repositories (sv_github sv) (plan_repositories (bp_plan approved)))) (\<lambda>moved.
        act_bind (inspect_items sv gs ids approved (bp_items approved)) (\<lambda>(findings, repairs).
        act_return (length (filter is_mutation ops) + moved + findings, repairs))))))"

fun inspect_graphs ::
  "('w, 'j) service \<Rightarrow> event_envelope \<Rightarrow> graph_statuses \<Rightarrow> snapshot \<Rightarrow> (identity, work_package) dict \<Rightarrow> plan_run list
    \<Rightarrow> (('w, 'j) service_state, nat \<times> nat) action" where
  "inspect_graphs sv e gs current ids [] = act_return (0, 0)"
| "inspect_graphs sv e gs current ids (run # runs) =
     act_bind (inspect_graph sv e gs current ids run) (\<lambda>(findings, repairs).
     act_bind (inspect_graphs sv e gs current ids runs) (\<lambda>(findings', repairs').
     act_return (findings + findings', repairs + repairs')))"

definition graph_statuses_of :: "status_table \<Rightarrow> exn + graph_statuses" where
  "graph_statuses_of statuses =
     res_bind (status_number statuses ''Done'') (\<lambda>closed.
     res_bind (status_number statuses ''Blocked'') (\<lambda>blocked.
     res_bind (status_number statuses ''Ready'') (\<lambda>ready.
     res_bind (status_number statuses ''Superseded'') (\<lambda>superseded.
     res_bind (status_number statuses ''Rejected'') (\<lambda>rejected_id.
     Inr \<lparr>gs_done = closed, gs_blocked = blocked, gs_ready = ready, gs_terminal = [closed, superseded, rejected_id]\<rparr>)))))"

section \<open>Reconciliation\<close>

definition reconcile_implementation ::
  "('w, 'j) service \<Rightarrow> event_envelope \<Rightarrow> (('w, 'j) service_state, pr_association list \<times> nat \<times> nat) action" where
  "reconcile_implementation sv e =
     act_bind (store_query implementation_associations) (\<lambda>associations.
     act_bind (act_sum (refresh_step sv e) associations) (\<lambda>unread.
     act_bind (store_query implementation_associations) (\<lambda>refreshed.
     act_bind (project_all sv (sorted_set (map pa_work_package_id refreshed))) (\<lambda>(repaired, unprojected).
     act_return (refreshed, repaired, unread + unprojected)))))"

definition inspect_published ::
  "('w, 'j) service \<Rightarrow> event_envelope \<Rightarrow> plan_run list \<Rightarrow> pr_association list \<Rightarrow> snapshot \<Rightarrow> (identity, work_package) dict
    \<Rightarrow> (('w, 'j) service_state, nat \<times> nat) action" where
  "inspect_published sv e runs associations current ids =
     act_bind (act_lift (graph_statuses_of (sv_statuses sv))) (\<lambda>gs.
     act_bind (act_lift (status_number (sv_statuses sv) ''In Progress'')) (\<lambda>in_progress.
     act_bind (act_lift (status_number (sv_statuses sv) ''Needs Input'')) (\<lambda>needs_input.
     let stale = length (filter (stale_implementation sv e in_progress (sn_work_packages current) associations)
           (sorted_set (map pa_work_package_id associations))) in
     act_bind (act_sum (repair_needs_input sv needs_input (sn_work_packages current)) (latest_by_plan runs)) (\<lambda>asked.
     act_bind (inspect_graphs sv e gs current ids (published_by_plan runs)) (\<lambda>(findings, repairs).
     act_return (stale + findings, asked + repairs))))))"

definition reconciled_outcome :: "nat \<Rightarrow> nat \<Rightarrow> nat \<Rightarrow> nat \<Rightarrow> nat \<Rightarrow> nat \<Rightarrow> nat \<Rightarrow> string" where
  "reconciled_outcome inspected findings repairs merges repaired failures stale =
     ''inspected:'' @ show_nat inspected @ '':findings:'' @ show_nat findings @ '':repairs:'' @ show_nat repairs @
     '':missed_merges:'' @ show_nat merges @ '':implementation_repairs:'' @ show_nat repaired @
     '':implementation_failures:'' @ show_nat failures @ '':stale_threads:'' @ show_nat stale"

definition reconcile_event ::
  "('w, 'j) service \<Rightarrow> event_envelope \<Rightarrow> (('w, 'j) service_state, lifecycle_outcome) action" where
  "reconcile_event sv e =
     act_bind (store_query all_runs) (\<lambda>runs.
     act_bind (act_sum (repair_merge sv e) (latest_by_plan runs)) (\<lambda>merges.
     act_bind (reconcile_implementation sv e) (\<lambda>(associations, repaired, failures).
     act_bind (on_world (rm_snapshot (sv_remote sv))) (\<lambda>current.
     case identities current of
       Inl err \<Rightarrow> if is_value_error err then finish e (new_outcome ''nightly_reconciliation'' ''identity_conflict'') else act_raise err
     | Inr ids \<Rightarrow>
         act_bind (store_query (stale_thread_count (ev_occurred_at e - sv_thread_stale_after sv))) (\<lambda>stale.
         act_bind (inspect_published sv e runs associations current ids) (\<lambda>(findings, repairs).
         finish e (new_outcome ''nightly_reconciliation'' (reconciled_outcome (length (latest_by_plan runs))
           (failures + stale + findings) repairs merges repaired failures stale))))))))"

section \<open>Every event\<close>

definition handle ::
  "('w, 'j) service \<Rightarrow> event_envelope \<Rightarrow> (('w, 'j) service_state, lifecycle_outcome) action" where
  "handle sv e =
     (if \<not> ev_signature_verified e then act_raise (rejected ''lifecycle service requires a verified event'')
      else if ev_event_type e = ''openproject.work_package_changed'' then work_package_changed sv e
      else if ev_event_type e = ''openproject.idea_comment'' then planning_input sv e
      else if ev_event_type e = ''github.pull_request'' then pull_request_event sv e
      else if ev_event_type e = ''github.check_run'' then check_run_event sv e
      else if ev_event_type e = ''planning.convergence_check'' then convergence_check sv e
      else if ev_event_type e = ''planning.replan_affected_subgraph'' then replan_affected_subgraph sv e
      else if ev_event_type e = ''reconciliation.scheduled'' then reconcile_event sv e
      else act_raise (rejected (''unsupported lifecycle event: '' @ ev_event_type e)))"

end
