(* ===== verification/ServiceFrames.thy ===== *)
theory ServiceFrames
  imports Frames ServiceEvents LifecycleRuns
begin

text \<open>
  Handlers that move along a preorder on the whole state of the service. What a preorder must allow
  is stated once, as two locales: any change of the outside world with the calls of the store that
  planning needs, and the calls for implementation pull requests. The handlers follow.
\<close>

section \<open>Calls of the service\<close>

datatype service_call =
    HandleEvent event_envelope
  | AbandonTerminalResume string int string string string string
  | ConvertFailedCritique string int string operator_request

fun run_service :: "('w, 'j) service \<Rightarrow> service_call \<Rightarrow> ('w, 'j) service_state \<Rightarrow> ('w, 'j) service_state" where
  "run_service sv (HandleEvent e) s = snd (handle sv e s)"
| "run_service sv (AbandonTerminalResume plan version thread key operator reason) s =
     snd (abandon_terminal_resume sv plan version thread key operator reason s)"
| "run_service sv (ConvertFailedCritique plan version thread q) s =
     snd (convert_failed_critique_to_interrupt sv plan version thread q s)"

section \<open>What a preorder must allow\<close>

fun planning_call :: "store_call \<Rightarrow> bool" where
  "planning_call (ApproveRun r c e) = False"
| "planning_call (AssociationCall c) = False"
| "planning_call (OtherDeliveries rows) = False"
| "planning_call c = True"

locale planning_order = step_order R
  for R :: "('w, 'j) service_state \<Rightarrow> ('w, 'j) service_state \<Rightarrow> bool" +
  assumes world_frame: "R (d, j, a) (d, j, a\<lparr>ad_world := w\<rparr>)"
    and planning_frame: "planning_call c \<Longrightarrow> R (d, x) (run_store (c, now) d, x)"
begin

lemma on_world_moves [step_rules]: "moves R (on_world m)"
  unfolding moves_def on_world_def on_snd_def with_world_def
  by (auto simp: world_frame split: prod.splits)

lemma query_moves [step_rules]: "moves R (store_query f)"
  by (auto simp: moves_def store_query_def stays)

lemma finish_moves [step_rules]: "moves R (finish e x)"
  unfolding moves_def finish_def
  using planning_frame [of "AuditEntry (ev_event_id e) (ev_trace_id e) (lo_action x) (lo_outcome x) (outcome_details x)"]
  by auto

lemma call_moves:
  assumes "planning_call c" and "\<And>now d. snd (f now d) = run_store (c, now) d"
  shows "moves R (store_update sv f)"
proof (rule movesI)
  fix s r s'
  assume "store_update sv f s = (r, s')"
  then have "s' = (run_store (c, sv_now sv (ad_world (snd (snd s)))) (fst s), snd s)"
    using assms(2) by (auto simp: store_update_def on_fst_def split: prod.splits) (metis snd_conv)+
  then show "R s s'" using planning_frame [OF assms(1)] by (cases s) auto
qed

lemma planning_calls [step_rules]:
  "moves R (store_update sv (store_begin run))"
  "moves R (store_update sv (record_pull_request plan version sha number url))"
  "moves R (store_update sv (set_run_state run state))"
  "moves R (store_update sv (record_pending_resume run ciphertext))"
  "moves R (store_update sv (clear_pending_resume run ciphertext))"
  "moves R (store_update sv (record_publication_binding run sha blob backlog))"
  "moves R (store_update sv (complete_terminal_resume_abandonment run ciphertext key trace interrupt operator reason))"
  "moves R (store_update sv (complete_critique_correction run key interrupt comment created new operator reason))"
proof -
  show "moves R (store_update sv (store_begin run))"
    by (rule call_moves [of "BeginRun run"]) simp_all
  show "moves R (store_update sv (record_pull_request plan version sha number url))"
    by (rule call_moves [of "RecordPullRequest plan version sha number url"]) simp_all
  show "moves R (store_update sv (set_run_state run state))"
    by (rule call_moves [of "SetRunState run state"]) simp_all
  show "moves R (store_update sv (record_pending_resume run ciphertext))"
    by (rule call_moves [of "RecordPending run ciphertext"]) simp_all
  show "moves R (store_update sv (clear_pending_resume run ciphertext))"
    by (rule call_moves [of "ClearPending run ciphertext"]) simp_all
  show "moves R (store_update sv (record_publication_binding run sha blob backlog))"
    by (rule call_moves [of "RecordBinding run sha blob backlog"]) simp_all
  show "moves R (store_update sv (complete_terminal_resume_abandonment run ciphertext key trace interrupt operator reason))"
    by (rule call_moves [of "AbandonResume run ciphertext key trace interrupt operator reason"]) simp_all
  show "moves R (store_update sv (complete_critique_correction run key interrupt comment created new operator reason))"
    by (rule call_moves [of "CorrectCritique run key interrupt comment created new operator reason"]) simp_all
qed

lemma unlocked_moves:
  assumes "moves R m"
  shows "moves R (act_finally m (\<lambda>(d, j, a). (d, j, a\<lparr>ad_world := g (ad_world a)\<rparr>)))"
proof (rule movesI)
  fix s r s'
  assume run: "act_finally m (\<lambda>(d, j, a). (d, j, a\<lparr>ad_world := g (ad_world a)\<rparr>)) s = (r, s')"
  obtain q d j a where m: "m s = (q, d, j, a)" by (metis surj_pair)
  with run have "s' = (d, j, a\<lparr>ad_world := g (ad_world a)\<rparr>)" by (simp add: act_finally_def)
  with movesD [OF assms m] world_frame show "R s s'" by (blast intro: follows)
qed

section \<open>Planning events\<close>

lemma response_moves [step_rules]: "moves R (handle_planner_response sv e run response)"
  unfolding handle_planner_response_def planner_interrupted_def planner_failed_def prepare_planning_pull_request_def
    ensure_interrupt_side_effects_def
  by (intro step_rules)

lemma context_moves [step_rules]: "moves R (planning_context sv names)" "moves R (begin_planning sv run asked)"
  unfolding planning_context_def begin_planning_def by (intro step_rules)+

lemma start_moves [step_rules]: "moves R (start_planning sv e idea latest)"
  unfolding start_planning_def missing_repository_def Let_def by (intro step_rules)

lemma work_package_moves: "moves R (work_package_changed sv e)"
  unfolding work_package_changed_def planning_requested_def continue_planning_def Let_def by (intro step_rules)

lemma input_moves: "moves R (planning_input sv e)"
  unfolding planning_input_def send_answer_def replay_resume_def Let_def by (intro step_rules)

lemma published_run_moves [step_rules]: "moves R (published_run sv plan version unknown unpublished unbound)"
  unfolding published_run_def by (intro step_rules)

lemma convergence_moves: "moves R (convergence_check sv e)"
  unfolding convergence_check_def by (intro step_rules)

lemma replan_moves: "moves R (replan_affected_subgraph sv e)"
  unfolding replan_affected_subgraph_def resume_existing_replan_def start_successor_def Let_def by (intro step_rules)

lemma abandon_moves: "moves R (abandon_terminal_resume sv plan version thread key operator reason)"
  unfolding abandon_terminal_resume_def confirm_abandonment_def abandon_pending_def by (intro step_rules)

lemma convert_moves: "moves R (convert_failed_critique_to_interrupt sv plan version thread q)"
  unfolding convert_failed_critique_to_interrupt_def convert_failed_critique_locked_def confirm_correction_def
    correct_critique_def ensure_interrupt_side_effects_def
  by (intro step_rules unlocked_moves)

section \<open>Reconciliation and every event\<close>

lemma act_sum_moves [step_rules]:
  assumes "\<And>x. moves R (f x)"
  shows "moves R (act_sum f xs)"
proof (induction xs)
  case Nil
  show ?case unfolding act_sum.simps by (intro step_rules)
next
  case (Cons x xs)
  then show ?case unfolding act_sum.simps by (intro step_rules assms)
qed

lemma counted_moves [step_rules]: "moves R m \<Longrightarrow> moves R (counted expected m)"
  unfolding counted_def by (intro step_rules)

lemma inspect_items_moves [step_rules]: "moves R (inspect_items sv gs ids p items)"
proof (induction items)
  case Nil
  show ?case unfolding inspect_items.simps by (intro step_rules)
next
  case (Cons i items)
  then show ?case unfolding inspect_items.simps by (intro step_rules)
qed

lemma inspect_graph_moves [step_rules]: "moves R (inspect_graph sv e gs current ids run)"
  unfolding inspect_graph_def Let_def by (intro step_rules)

lemma inspect_graphs_moves [step_rules]: "moves R (inspect_graphs sv e gs current ids runs)"
proof (induction runs)
  case Nil
  show ?case unfolding inspect_graphs.simps by (intro step_rules)
next
  case (Cons run runs)
  then show ?case unfolding inspect_graphs.simps by (intro step_rules)
qed

lemma inspect_published_moves [step_rules]: "moves R (inspect_published sv e runs associations current ids)"
  unfolding inspect_published_def repair_needs_input_def Let_def by (intro step_rules)

text \<open>What is left of an event: pull requests, checks and the projection of implementation.\<close>

lemma reconcile_moves:
  assumes "\<And>e. moves R (pull_request_event sv e)" and "\<And>a. moves R (refresh_observed sv e a)"
    and "\<And>n. moves R (project_implementation_work_package sv n)"
  shows "moves R (reconcile_event sv e)"
proof -
  have "moves R (project_all sv ns)" for ns
  proof (induction ns)
    case Nil
    show ?case unfolding project_all.simps by (intro step_rules)
  next
    case (Cons n ns)
    then show ?case unfolding project_all.simps by (intro step_rules assms(3))
  qed
  then have "moves R (reconcile_implementation sv e)"
    unfolding reconcile_implementation_def refresh_step_def by (intro step_rules assms(2))
  moreover have "moves R (repair_merge sv e run)" for run
    unfolding repair_merge_def
    by (cases "(lr_state run, lr_pr_number run, lr_planning_commit run)")
      (auto intro!: step_rules assms(1) split: run_state.split option.split bool.split)
  ultimately show ?thesis
    unfolding reconcile_event_def by (intro step_rules)
qed

lemma handle_moves:
  assumes "\<And>e. moves R (pull_request_event sv e)" and "\<And>e. moves R (check_run_event sv e)"
    and "\<And>e a. moves R (refresh_observed sv e a)" and "\<And>n. moves R (project_implementation_work_package sv n)"
  shows "moves R (handle sv e)"
  unfolding handle_def
  by (intro step_rules work_package_moves input_moves convergence_moves replan_moves reconcile_moves assms)

lemma service_moves:
  assumes "\<And>e. moves R (handle sv e)"
  shows "R s (fold (run_service sv) calls s)"
proof (induction calls arbitrary: s)
  case (Cons c calls)
  have "R s (run_service sv c s)"
    using movesD [OF assms surjective_pairing] movesD [OF abandon_moves surjective_pairing] movesD [OF convert_moves surjective_pairing]
    by (cases c) simp_all
  with Cons.IH [of "run_service sv c s"] show ?case unfolding fold_simps by (rule follows [rotated])
qed (simp add: stays)

end

locale implementation_order = planning_order +
  assumes association_frame: "R (d, x) (run_store (AssociationCall c, now) d, x)"
begin

lemma association_moves:
  assumes "\<And>now d. snd (f now d) = run_association c d"
  shows "moves R (store_update sv f)"
proof (rule movesI)
  fix s r s'
  assume "store_update sv f s = (r, s')"
  then have "s' = (run_association c (fst s), snd s)"
    using assms by (auto simp: store_update_def on_fst_def split: prod.splits) (metis snd_conv)+
  then show "R s s'" using association_frame [of "fst s" "snd s" c] by (cases s) simp
qed

lemma association_calls [step_rules]:
  "moves R (store_update sv (\<lambda>now. bind_implementation_pull_request seen))"
  "moves R (store_update sv (\<lambda>now. record_implementation_check_result repository number head passed))"
proof -
  show "moves R (store_update sv (\<lambda>now. bind_implementation_pull_request seen))"
    by (rule association_moves [of _ "BindPr seen"]) simp
  show "moves R (store_update sv (\<lambda>now. record_implementation_check_result repository number head passed))"
    by (rule association_moves [of _ "RecordCheck repository number head passed"]) simp
qed

lemma project_moves [step_rules]: "moves R (project_implementation_work_package sv n)"
  unfolding project_implementation_work_package_def write_projection_def Let_def by (intro step_rules)

lemma published_artifact_moves [step_rules]: "moves R (published_artifact sv run)"
  unfolding published_artifact_def by (intro step_rules)

lemma implementation_moves [step_rules]: "moves R (implementation_pull_request sv e repository pull)"
  unfolding implementation_pull_request_def managed_pull_request_def checked_pull_def check_binding_def first_binding_def
    bind_observed_def
  by (intro step_rules)

lemma refresh_moves: "moves R (refresh_observed sv e a)"
  unfolding refresh_observed_def by (intro step_rules)

lemma check_run_moves: "moves R (check_run_event sv e)"
proof -
  have "moves R (check_pulls sv e repository head pulls seen n)" for repository head pulls seen n
  proof (induction pulls arbitrary: seen n)
    case Nil
    show ?case unfolding check_pulls.simps by (intro step_rules)
  next
    case (Cons p pulls)
    then show ?case unfolding check_pulls.simps check_pull_def refresh_association_def by (intro step_rules)
  qed
  then show ?thesis unfolding check_run_event_def by (intro step_rules)
qed

text \<open>With these, an event moves along the preorder once the merge of a planning pull request does.\<close>

lemma pull_request_moves:
  assumes "\<And>repository number run pull. moves R (planning_pull_request sv e repository number run pull)"
  shows "moves R (pull_request_event sv e)"
  unfolding pull_request_event_def by (intro step_rules assms)

lemma event_moves:
  assumes "\<And>e. moves R (pull_request_event sv e)"
  shows "moves R (handle sv e)"
  by (intro handle_moves assms check_run_moves refresh_moves project_moves)

end

section \<open>Preorders on the store\<close>

text \<open>When the store alone matters, publication is one more step outside it.\<close>

locale run_order = store_order Q for Q +
  assumes run_frame: "planning_call c \<Longrightarrow> Q d (run_store (c, now) d)"

sublocale run_order \<subseteq> planning_order "on_store Q"
  by unfold_locales (auto simp: on_store_def store_stays run_frame)

context run_order
begin

lemma published_moves [step_rules]: "moves (on_store Q) (published_artifact sv run)"
  unfolding published_artifact_def by (intro step_rules)

lemma backlog_moves [step_rules]: "moves (on_store Q) (merged_backlog sv repository run merge_sha)"
  unfolding merged_backlog_def by (intro step_rules)

lemma publish_moves [step_rules]: "moves (on_store Q) (publish_merged sv e number merge_sha run merged)"
  unfolding publish_merged_def replan_publication_context_def open_journal_def guarded_publication_def publication_attempt_def
    close_journal_def block_publication_def complete_publication_def Let_def
  by (intro step_rules)

end

locale approval_order = run_order +
  assumes approval_frame: "Q d (run_store (ApproveRun r c e, now) d)"
begin

lemma approve_moves [step_rules]: "moves (on_store Q) (store_update sv (approve_for_publication run sha digest))"
proof (rule updated)
  fix now d r d'
  assume "approve_for_publication run sha digest now d = (r, d')"
  then have "d' = run_store (ApproveRun run sha digest, now) d" by simp
  then show "Q d d'" using approval_frame by simp
qed

lemma planning_pull_request_moves [step_rules]: "moves (on_store Q) (planning_pull_request sv e repository number run pull)"
  unfolding planning_pull_request_def merged_planning_pull_request_def approved_run_def Let_def
  by (intro step_rules)

end

end
