(* ===== verification/ServiceFacts.thy ===== *)
theory ServiceFacts
  imports ImplementationFacts ServiceFrames
begin

text \<open>
  What the whole lifecycle service guarantees over any sequence of events and operator calls: a
  successful check is backed by passing evidence, and an effect of publication by the approval of a
  human for exactly the recorded pull request.
\<close>

section \<open>Checks\<close>

lemma update_run_associations [simp]: "ld_associations (snd (update_run key guard f now d)) = ld_associations d"
  by (auto simp: update_run_def store_row_def Let_def split: option.splits)

lemma audit_associations [simp]: "ld_associations (store_audit e t a x ds d) = ld_associations d"
  by (simp add: store_audit_def)

lemma update_run_db: "update_run key guard f now d = (r, d') \<Longrightarrow> ld_associations d' = ld_associations d"
  using update_run_associations [of key guard f now d] by simp

lemma run_call_associations:
  "planning_call c \<or> (\<exists>r x e. c = ApproveRun r x e) \<Longrightarrow> ld_associations (run_store (c, now) d) = ld_associations d"
  by (cases c)
    (auto simp: store_begin_def record_pull_request_def set_run_state_def approve_for_publication_def record_pending_resume_def
      clear_pending_resume_def record_publication_binding_def complete_terminal_resume_abandonment_def
      complete_critique_correction_def update_or_mismatch_db Let_def store_row_def
      dest!: update_run_db split: option.splits sum.splits prod.splits)

interpretation checks: approval_order "checks_backed sv" for sv
proof
  show "checks_backed sv d (run_store (c, now) d)" if "planning_call c" for c d now
    using that run_call_associations [of c now d] by (auto simp: checks_backed_def associations_ok_def)
  show "checks_backed sv d (run_store (ApproveRun r c e, now) d)" for d r c e now
    using run_call_associations [of "ApproveRun r c e" now d] by (auto simp: checks_backed_def associations_ok_def simp del: run_store.simps)
qed

lemma binding_backed [step_rules]: "moves (on_store (checks_backed sv)) (check_binding sv repository ident package existing)"
  unfolding check_binding_def first_binding_def by (intro step_rules)

lemma implementation_backed [step_rules]:
  "moves (on_store (checks_backed sv)) (implementation_pull_request sv e repository pull)"
  unfolding implementation_pull_request_def managed_pull_request_def checked_pull_def bind_observed_def
  by (intro step_rules)

lemma pull_request_backed: "moves (on_store (checks_backed sv)) (pull_request_event sv e)"
  unfolding pull_request_event_def by (intro step_rules)

lemma evidence_observed:
  assumes "on_world (pull_request_evidence (sv_github sv) repository number None) s = (Inr ev, t)"
    and "implementation_evidence_passes sv ev"
  shows "passing sv (repository, number) (pe_head_sha ev)"
  using on_world_result [OF assms(1)] assms(2) unfolding passing_def by auto

lemma refresh_observed_backed: "moves (on_store (checks_backed sv)) (refresh_observed sv e a)"
  unfolding refresh_observed_def
  by (rule backed.sequence_known, rule backed.outside_store)
    (intro step_rules record_backed, erule evidence_observed)

lemma handle_backed: "moves (on_store (checks_backed sv)) (handle sv e)"
  by (intro checks.handle_moves pull_request_backed check_run_backed refresh_observed_backed project_backed)

text \<open>
  C6: However many events the service handles, from a table in which no check is recorded as
  successful: when the check of a pull request is recorded as successful for a head commit, then
  GitHub's evidence of this pull request was read at this very head, and every check configured for
  its repository has run there and succeeded.
\<close>

theorem check_success_backed:
  assumes "associations_ok (fst s)" and "\<not> list_ex (\<lambda>a. pa_successful_check_sha a \<noteq> None) (map snd (ld_associations (fst s)))"
    and "dict_get (ld_associations (fst (fold (run_service sv) calls s))) k = Some a" and "pa_successful_check_sha a = Some h"
  shows "\<exists>expected ev w w' required. pull_request_evidence (sv_github sv) (fst k) (snd k) expected w = (Inr ev, w') \<and>
    pe_head_sha ev = h \<and> dict_get (sv_required_checks sv) (pe_repository ev) = Some required \<and>
    required_checks_pass required ''github-actions'' ev"
proof -
  have "checks_backed sv (fst s) (fst (fold (run_service sv) calls s))"
    using checks.service_moves [where s = s and calls = calls, OF handle_backed] by (simp add: on_store_def)
  with assms(1,3,4) have "(\<exists>b. dict_get (ld_associations (fst s)) k = Some b \<and> pa_successful_check_sha b = Some h) \<or> passing sv k h"
    unfolding checks_backed_def by blast
  moreover have "pa_successful_check_sha b = None" if "dict_get (ld_associations (fst s)) k = Some b" for b
    using assms(2) dict_get_values [OF that] by (auto simp: list_ex_iff)
  ultimately have "passing sv k h" by auto
  then show ?thesis
    unfolding passing_def implementation_evidence_passes_def by (fastforce split: option.splits)
qed

section \<open>Witness of the checks\<close>

definition ex_open_pull :: pyval where
  "ex_open_pull = PDict [(''number'', PInt 9), (''html_url'', PStr ''https://h''), (''head'', PDict [(''sha'', PStr ex_commit_sha)]),
     (''state'', PStr ''open''), (''merged'', PBool False)]"

definition ex_check_answer :: "string \<Rightarrow> pyval" where
  "ex_check_answer path =
     (if path = ''/repos/org/repo/pulls/9'' then ex_open_pull
      else if is_prefix_of ''/repos/org/repo/pulls/9/reviews'' path then PList [] else ex_gate_answer path)"

definition ex_check_github :: "work_package list github" where
  "ex_check_github = ex_gate_github\<lparr>gh_http := (\<lambda>verb path token body. act_return \<lparr>rp_status = 200, rp_json = Some (ex_check_answer path)\<rparr>)\<rparr>"

definition ex_check_service :: "(work_package list, pg_journal) service" where
  "ex_check_service = ex_epic_service\<lparr>sv_github := ex_check_github,
     sv_required_checks := [(''org/repo'', [''planning-backlog-validation''])]\<rparr>"

definition ex_check_payload :: pydict where
  "ex_check_payload = [(''check_run'', PDict [(''id'', PInt 1), (''name'', PStr ''planning-backlog-validation''),
      (''app'', PDict [(''id'', PInt 2), (''slug'', PStr ''github-actions'')]), (''head_sha'', PStr ex_commit_sha),
      (''pull_requests'', PList [PDict [(''number'', PInt 9)]])]),
     (''repository'', PDict [(''full_name'', PStr ''org/repo'')])]"

definition ex_check_event :: event_envelope where
  "ex_check_event = ex_gate_event\<lparr>ev_event_type := ''github.check_run'', ev_payload := PDict ex_check_payload\<rparr>"

definition ex_check_start :: "(work_package list, pg_journal) service_state" where
  "ex_check_start = ex_pull_state (store_association ex_observed no_lifecycle) ex_epic_package"

definition ex_check_evidence :: pull_request_evidence where
  "ex_check_evidence = (case fst (pull_request_evidence ex_check_github ''org/repo'' 9 (Some ex_commit_sha) []) of Inr ev \<Rightarrow> ev | Inl e \<Rightarrow> undefined)"

lemma ex_check_read: "pull_request_evidence ex_check_github ''org/repo'' 9 (Some ex_commit_sha) w = (Inr ex_check_evidence, w)"
  unfolding ex_check_evidence_def by code_simp

lemma ex_check_passes: "implementation_evidence_passes ex_check_service ex_check_evidence"
  unfolding ex_check_evidence_def by code_simp

definition ex_checked_association :: pr_association where
  "ex_checked_association = ex_observed\<lparr>pa_successful_check_sha := Some ex_commit_sha\<rparr>"

lemma ex_check_facts:
  "pe_head_sha ex_check_evidence = ex_commit_sha \<and> pe_pr_state ex_check_evidence = ''open'' \<and> \<not> pe_merged ex_check_evidence"
  unfolding ex_check_evidence_def by code_simp

lemma ex_check_bound: "bind_implementation_pull_request ex_observed (store_association ex_observed no_lifecycle) =
    (Inr ex_observed, store_association ex_observed no_lifecycle)"
  by code_simp

lemma ex_check_recorded:
  "record_implementation_check_result ''org/repo'' 9 ex_commit_sha True (store_association ex_observed no_lifecycle) =
    (Inr (Some ex_checked_association), store_association ex_checked_association no_lifecycle)"
  by code_simp

text \<open>The rest of the handler, once the result of the check is recorded.\<close>

definition ex_check_rest :: "((work_package list, pg_journal) service_state, lifecycle_outcome) action" where
  "ex_check_rest =
     act_bind (project_implementation_work_package ex_check_service 12) (\<lambda>_.
     finish ex_check_event (new_outcome ''check_run'' (''successful:'' @ show_nat 1)))"

lemma ex_refreshed:
  "refresh_association ex_check_service ex_check_event ex_commit_sha ex_observed ex_check_start =
     act_bind (project_implementation_work_package ex_check_service 12) (\<lambda>_. act_return 1)
       (ex_pull_state (store_association ex_checked_association no_lifecycle) ex_epic_package)"
proof -
  have github: "sv_github ex_check_service = ex_check_github" by (simp add: ex_check_service_def)
  have read: "on_world (pull_request_evidence ex_check_github ''org/repo'' 9 (Some ex_commit_sha)) ex_check_start =
      (Inr ex_check_evidence, ex_check_start)"
    by (simp add: on_world_def on_snd_def with_world_def ex_check_start_def ex_pull_state_def ex_check_read)
  have fields: "pa_repository ex_observed = ''org/repo''" "pa_number ex_observed = 9" "pa_work_package_id ex_checked_association = 12"
    by (simp_all add: ex_observed_def ex_checked_association_def)
  have "ex_observed\<lparr>pa_head_sha := ex_commit_sha, pa_head_observed_at := ev_occurred_at ex_check_event, pa_state := ''open'',
      pa_merged_commit := None\<rparr> = ex_observed"
    by (simp add: ex_observed_def ex_check_event_def ex_gate_event_def)
  moreover have "store_update ex_check_service (\<lambda>now. bind_implementation_pull_request ex_observed) ex_check_start =
      (Inr ex_observed, ex_check_start)"
    "store_update ex_check_service (\<lambda>now. record_implementation_check_result ''org/repo'' 9 ex_commit_sha True) ex_check_start =
      (Inr (Some ex_checked_association), ex_pull_state (store_association ex_checked_association no_lifecycle) ex_epic_package)"
    by (simp_all add: store_update_def on_fst_def ex_check_start_def ex_pull_state_def ex_check_bound ex_check_recorded)
  ultimately show ?thesis
    using ex_check_facts by (simp add: refresh_association_def act_bind_def github fields read ex_check_passes)
qed

lemma ex_check_handled: "handle ex_check_service ex_check_event ex_check_start =
    ex_check_rest (ex_pull_state (store_association ex_checked_association no_lifecycle) ex_epic_package)"
proof -
  have payload: "event_payload ex_check_event = ex_check_payload"
    by (simp add: event_payload_def ex_check_event_def)
  have head: "full_commit (PStr ex_commit_sha) = Some ex_commit_sha" by code_simp
  have store: "by_pull_request ''org/repo'' 9 (fst ex_check_start) = None"
    "by_implementation_pull_request ''org/repo'' 9 (fst ex_check_start) = Some ex_observed"
    by (simp_all add: ex_check_start_def ex_pull_state_def by_pull_request_def by_implementation_pull_request_def no_lifecycle_def
        store_association_def ex_observed_def dict_simps)
  have observed: "pa_head_sha ex_observed = ex_commit_sha" "ex_observed\<lparr>pa_repository := ''org/repo'', pa_number := 9\<rparr> = ex_observed"
    by (simp_all add: ex_observed_def)
  have event: "ev_event_type ex_check_event = ''github.check_run''" "ev_signature_verified ex_check_event"
    by (simp_all add: ex_check_event_def ex_gate_event_def)
  have "check_pull ex_check_service ex_check_event ''org/repo'' ex_commit_sha 9 ex_check_start =
      act_bind (project_implementation_work_package ex_check_service 12) (\<lambda>_. act_return 1)
       (ex_pull_state (store_association ex_checked_association no_lifecycle) ex_epic_package)"
    by (simp add: check_pull_def act_bind_def [of "store_query _"] store_query_def store observed ex_refreshed)
  then show ?thesis
    by (simp add: handle_def event check_run_event_def payload ex_check_payload_def payload_object_def obj_get_def
        exact_check_def reject_if_def raise_if_def need_def head act_bind_def act_lift_def act_return_def ex_check_rest_def
        split: prod.splits sum.splits)
qed

lemma check_success_backed_witness:
  "\<exists>expected ev w w' required. pull_request_evidence (sv_github ex_check_service) ''org/repo'' 9 expected w = (Inr ev, w') \<and>
    pe_head_sha ev = ex_commit_sha \<and> dict_get (sv_required_checks ex_check_service) (pe_repository ev) = Some required \<and>
    required_checks_pass required ''github-actions'' ev"
proof -
  have rest: "moves (on_store same_associations) ex_check_rest" unfolding ex_check_rest_def by (intro step_rules)
  let ?s = "ex_pull_state (store_association ex_checked_association no_lifecycle) ex_epic_package"
  obtain r s' where run: "ex_check_rest ?s = (r, s')" by (meson surj_pair)
  then have after: "fst (fold (run_service ex_check_service) [HandleEvent ex_check_event] ex_check_start) = fst s'"
    by (simp add: ex_check_handled)
  have "ld_associations (fst s') = ld_associations (store_association ex_checked_association no_lifecycle)"
    using movesD [OF rest run] by (simp add: on_store_def same_associations_def ex_pull_state_def)
  then have a: "dict_get (ld_associations (fst s')) (''org/repo'', 9) = Some ex_checked_association"
    by (simp add: store_association_def ex_checked_association_def ex_observed_def dict_simps)
  have "association_checks ex_observed" by code_simp
  then have "associations_ok (fst ex_check_start)"
    using associations_ok_store [of no_lifecycle ex_observed]
    by (simp add: ex_check_start_def ex_pull_state_def associations_ok_def no_lifecycle_def)
  moreover have "\<not> list_ex (\<lambda>a. pa_successful_check_sha a \<noteq> None) (map snd (ld_associations (fst ex_check_start)))"
    by (simp add: ex_check_start_def ex_pull_state_def store_association_def no_lifecycle_def ex_observed_def)
  ultimately show ?thesis
    using check_success_backed [of ex_check_start ex_check_service "[HandleEvent ex_check_event]" "(''org/repo'', 9)" ex_checked_association ex_commit_sha] a
    unfolding after by (simp add: ex_checked_association_def)
qed

end
