(* ===== verification/ApprovalFacts.thy ===== *)
theory ApprovalFacts
  imports ServiceFacts
begin

text \<open>
  No publication without a human: over any sequence of events and operator calls, the durable record
  of an approval comes from evidence GitHub served for the recorded pull request at its recorded
  head, and an effect of publication needs such a record.
\<close>

section \<open>Backed approvals\<close>

definition approved_by_human :: "('w, 'j) service \<Rightarrow> plan_run \<Rightarrow> bool" where
  "approved_by_human sv run \<longleftrightarrow> (\<exists>head number merge ev w w'.
     lr_planning_commit run = Some head \<and> lr_pr_number run = Some number \<and> lr_approved_commit run = Some merge \<and>
     pull_request_evidence (sv_github sv) (lr_repository run) number (Some head) w = (Inr ev, w') \<and>
     approving_evidence ev head merge \<and> lr_evidence_sha256 run = Some (evidence_digest sv ev))"

definition approvals_backed :: "('w, 'j) service \<Rightarrow> lifecycle_db \<Rightarrow> bool" where
  "approvals_backed sv d \<longleftrightarrow> runs_ok d \<and> distinct (dict_keys (ld_runs d)) \<and>
     (\<forall>k r. dict_get (ld_runs d) k = Some r \<longrightarrow> lr_evidence_sha256 r \<noteq> None \<longrightarrow> approved_by_human sv (restore_run r))"

lemma approvals_backedD:
  "approvals_backed sv d \<Longrightarrow> dict_get (ld_runs d) k = Some r \<Longrightarrow> lr_evidence_sha256 r \<noteq> None \<Longrightarrow> approved_by_human sv (restore_run r)"
  unfolding approvals_backed_def by blast

lemma restore_run_more [simp]:
  "lr_planning_commit (restore_run r) = lr_planning_commit r" "lr_evidence_sha256 (restore_run r) = lr_evidence_sha256 r"
  "lr_blob_sha1 (restore_run r) = lr_blob_sha1 r" "lr_backlog_sha256 (restore_run r) = lr_backlog_sha256 r"
  "lr_pr_url (restore_run r) = lr_pr_url r"
  by (simp_all add: restore_run_def plan_run.defs)

lemma approved_later:
  "approved_by_human sv (restore_run a) \<Longrightarrow> run_later a b \<Longrightarrow> approved_by_human sv (restore_run b)"
  unfolding approved_by_human_def run_later_def same_binding_def by fastforce

text \<open>A call that records no evidence keeps every approval backed.\<close>

definition evidence_kept :: "lifecycle_db \<Rightarrow> lifecycle_db \<Rightarrow> bool" where
  "evidence_kept d d' \<longleftrightarrow> (\<forall>k b. dict_get (ld_runs d') k = Some b \<longrightarrow> lr_evidence_sha256 b \<noteq> None \<longrightarrow>
     (\<exists>a. dict_get (ld_runs d) k = Some a \<and> lr_evidence_sha256 a \<noteq> None))"

lemma evidence_kept_same: "ld_runs d' = ld_runs d \<Longrightarrow> evidence_kept d d'"
  by (simp add: evidence_kept_def)

lemma update_run_evidence:
  assumes "runs_ok d" and "update_run key guard f now d = (r, d')"
    and "\<And>r. run_key (f r) = run_key r" and "\<And>r. lr_evidence_sha256 (f r) = lr_evidence_sha256 r"
  shows "evidence_kept d d'"
  using assms(2)
proof (cases rule: update_run_cases)
  case (updated r)
  have "run_key ((f r)\<lparr>rr_updated_at := now\<rparr>) = key"
    using runs_okD(1) [OF assms(1) updated(1)] assms(3) [of r] by (simp add: run_key_def)
  then show ?thesis
    using updated(1,3) assms(4) [of r] by (auto simp: evidence_kept_def store_row_def dict_simps split: if_splits)
qed (simp add: evidence_kept_same)

lemma evidence_kept_runs: "evidence_kept d d' \<Longrightarrow> ld_runs d'' = ld_runs d' \<Longrightarrow> evidence_kept d d''"
  by (simp add: evidence_kept_def)

lemma begun_evidence [simp]: "evidence_kept d (store_row (new_run_row r now) d)"
  by (auto simp: evidence_kept_def store_row_def dict_simps new_run_row_def plan_run.defs split: if_splits)

lemma planning_call_evidence:
  assumes "runs_ok d" and "planning_call c"
  shows "evidence_kept d (run_store (c, now) d)"
proof -
  note update = update_run_evidence [OF assms(1)]
  show ?thesis
    using assms(2)
    by (cases c)
      (auto simp: store_begin_def record_pull_request_def set_run_state_def record_pending_resume_def
        clear_pending_resume_def record_publication_binding_def complete_terminal_resume_abandonment_def
        complete_critique_correction_def update_or_mismatch_db Let_def evidence_kept_same
        intro!: update [OF surjective_pairing] evidence_kept_runs [OF update] simp: run_key_def
        split: option.splits sum.splits prod.splits)
qed

lemma store_row_distinct: "distinct (dict_keys (ld_runs d)) \<Longrightarrow> distinct (dict_keys (ld_runs (store_row r d)))"
  by (simp add: store_row_def distinct_dict_set)

lemma update_run_distinct:
  "update_run key guard f now d = (r, d') \<Longrightarrow> distinct (dict_keys (ld_runs d)) \<Longrightarrow> distinct (dict_keys (ld_runs d'))"
  by (auto simp: update_run_def Let_def store_row_distinct split: option.splits if_splits)

lemma run_store_distinct: "distinct (dict_keys (ld_runs d)) \<Longrightarrow> distinct (dict_keys (ld_runs (run_store (c, now) d)))"
  by (cases c)
    (auto simp: store_begin_def record_pull_request_def set_run_state_def approve_for_publication_def record_pending_resume_def
      clear_pending_resume_def record_publication_binding_def complete_terminal_resume_abandonment_def
      complete_critique_correction_def update_or_mismatch_db Let_def store_row_distinct
      intro: update_run_distinct [OF surjective_pairing] dest: update_run_distinct
      split: option.splits sum.splits prod.splits)

definition approvals_advance :: "('w, 'j) service \<Rightarrow> lifecycle_db \<Rightarrow> lifecycle_db \<Rightarrow> bool" where
  "approvals_advance sv d d' \<longleftrightarrow> (approvals_backed sv d \<longrightarrow> approvals_backed sv d' \<and> runs_advance d d')"

lemma runs_advance_trans: "runs_advance d d' \<Longrightarrow> runs_advance d' d'' \<Longrightarrow> runs_advance d d''"
  unfolding runs_advance_def by (meson run_later_trans)

lemma kept_approvals_advance:
  assumes "runs_ok d \<Longrightarrow> runs_advance d d'" and "runs_ok d \<Longrightarrow> evidence_kept d d'"
    and "distinct (dict_keys (ld_runs d)) \<Longrightarrow> distinct (dict_keys (ld_runs d'))"
  shows "approvals_advance sv d d'"
proof -
  have "approved_by_human sv (restore_run b)"
    if backed: "approvals_backed sv d" and b: "dict_get (ld_runs d') k = Some b" "lr_evidence_sha256 b \<noteq> None" for k b
  proof -
    from backed have ok: "runs_ok d" by (simp add: approvals_backed_def)
    from assms(2) [OF ok] b obtain a where a: "dict_get (ld_runs d) k = Some a" "lr_evidence_sha256 a \<noteq> None"
      unfolding evidence_kept_def by blast
    from assms(1) [OF ok] a(1) b(1) have "run_later a b" unfolding runs_advance_def by fastforce
    with approvals_backedD [OF backed a] approved_later show ?thesis by blast
  qed
  then show ?thesis
    using assms(1,3) unfolding approvals_advance_def approvals_backed_def runs_advance_def by blast
qed

interpretation approvals: run_order "approvals_advance sv" for sv
proof
  show "approvals_advance sv d d" for d
    by (auto simp: approvals_advance_def approvals_backed_def intro: runs_advance_same)
  show "approvals_advance sv d d''" if "approvals_advance sv d d'" "approvals_advance sv d' d''" for d d' d''
    using that runs_advance_trans unfolding approvals_advance_def by blast
  show "approvals_advance sv d d'" if "ld_associations d' = ld_associations d" "ld_runs d' = ld_runs d" for d d'
    by (rule kept_approvals_advance) (use that in \<open>simp_all add: runs_advance_same evidence_kept_same\<close>)
  show "approvals_advance sv d (run_store (c, now) d)" if "planning_call c" for c d now
    by (rule kept_approvals_advance) (use that run_store_advances planning_call_evidence run_store_distinct in blast)+
qed

lemma association_approvals: "approvals_advance sv d (run_store (AssociationCall c, now) d)"
  by (rule kept_approvals_advance) (simp_all add: runs_advance_same evidence_kept_same)

section \<open>A recorded approval\<close>

definition stored_run :: "lifecycle_db \<Rightarrow> plan_run \<Rightarrow> bool" where
  "stored_run d run \<longleftrightarrow> (\<exists>row. dict_get (ld_runs d) (run_key run) = Some row \<and> run = restore_run row)"

lemma approve_backed:
  assumes backed: "approvals_backed sv d" and run: "stored_run d run" "lr_planning_commit run = Some head" "lr_pr_number run = Some number"
    and ev: "pull_request_evidence (sv_github sv) (lr_repository run) number (Some head) w = (Inr ev, w')"
    and approving: "approving_evidence ev head merge"
    and result: "approve_for_publication run merge (evidence_digest sv ev) now d = (r, d')"
  shows "approvals_backed sv d' \<and> runs_advance d d' \<and> (\<forall>approved. r = Inr approved \<longrightarrow> stored_run d' approved)"
proof -
  have ok: "runs_ok d" using backed by (simp add: approvals_backed_def)
  have advance: "runs_advance d d'" using approve_advances [OF ok, of run merge "evidence_digest sv ev" now] result by simp
  have distinct: "distinct (dict_keys (ld_runs d'))"
    using run_store_distinct [of d "ApproveRun run merge (evidence_digest sv ev)" now] backed result
    by (simp add: approvals_backed_def)
  obtain row where row: "dict_get (ld_runs d) (run_key run) = Some row" "run = restore_run row"
    using run(1) by (auto simp: stored_run_def)
  let ?f = "\<lambda>r :: run_row. r\<lparr>lr_state := RunPublishing, lr_approved_commit := Some merge, lr_evidence_sha256 := Some (evidence_digest sv ev)\<rparr>"
  let ?row = "(?f row)\<lparr>rr_updated_at := now\<rparr>"
  consider (same) e where "d' = d" "r = Inl e" | (stored) "d' = store_row ?row d" "r = Inr (restore_run ?row)"
    using result row(1)
    by (auto simp: approve_for_publication_def update_or_mismatch_def update_run_def Let_def split: if_splits)
  then show ?thesis
  proof cases
    case same
    with backed advance show ?thesis by simp
  next
    case stored
    have key: "run_key ?row = run_key run" using row(2) by (simp add: run_key_def)
    have "approved_by_human sv (restore_run ?row)"
      unfolding approved_by_human_def using run(2,3) ev approving row(2) by auto
    then have "approvals_backed sv d'"
      using backed advance distinct stored(1) key
      by (auto simp: approvals_backed_def runs_advance_def store_row_def dict_simps split: if_splits)
    moreover have "stored_run d' (restore_run ?row)"
      using stored(1) by (auto simp: stored_run_def store_row_def dict_simps run_key_def)
    ultimately show ?thesis using advance stored(2) by blast
  qed
qed

text \<open>The approval of a stored run, from a store whose approvals are backed.\<close>

definition approval_result :: "('w, 'j) service \<Rightarrow> string \<Rightarrow> string \<Rightarrow> plan_run \<Rightarrow> lifecycle_db \<Rightarrow> bool" where
  "approval_result sv repository merge_sha approved d \<longleftrightarrow> stored_run d approved \<and> lr_repository approved = repository \<and>
     lr_approved_commit approved = Some merge_sha \<and> lr_evidence_sha256 approved \<noteq> None"

lemma approve_step:
  assumes backed: "approvals_backed sv d" and run: "stored_run d run" "lr_planning_commit run = Some head" "lr_pr_number run = Some number"
  shows "triple (\<lambda>s. fst s = d \<and> (\<exists>w w'. pull_request_evidence (sv_github sv) (lr_repository run) number (Some head) w = (Inr ev, w')) \<and>
      approving_evidence ev head merge)
    (store_update sv (approve_for_publication run merge (evidence_digest sv ev)))
    (\<lambda>approved s. approvals_backed sv (fst s) \<and> runs_advance d (fst s) \<and> approval_result sv (lr_repository run) merge approved (fst s))
    (\<lambda>_ s. approvals_backed sv (fst s) \<and> runs_advance d (fst s))"
proof -
  have step: "approvals_backed sv (fst t) \<and> runs_advance d (fst t) \<and>
      (\<forall>approved. r = Inr approved \<longrightarrow> approval_result sv (lr_repository run) merge approved (fst t))"
    if ev: "pull_request_evidence (sv_github sv) (lr_repository run) number (Some head) w = (Inr ev, w')" "approving_evidence ev head merge"
      and update: "store_update sv (approve_for_publication run merge (evidence_digest sv ev)) s = (r, t)" and "fst s = d" for s r t w w'
  proof -
    obtain now where result: "approve_for_publication run merge (evidence_digest sv ev) now d = (r, fst t)"
      using update \<open>fst s = d\<close> by (auto simp: store_update_def on_fst_def split: prod.splits)
    note kept = approve_backed [OF backed run ev result]
    have "lr_repository approved = lr_repository run \<and> lr_approved_commit approved = Some merge \<and> lr_evidence_sha256 approved \<noteq> None"
      if "r = Inr approved" for approved
      using result run(1) unfolding that
      by (auto simp: approve_for_publication_def update_or_mismatch_def update_run_def stored_run_def Let_def
          split: if_splits option.splits sum.splits prod.splits)
    with kept show ?thesis by (simp add: approval_result_def)
  qed
  then show ?thesis by (intro tripleI) blast+
qed

lemma on_world_store: "on_world m s = (r, t) \<Longrightarrow> fst t = fst s"
  by (auto simp: on_world_def on_snd_def split: prod.splits)

lemma triple_read: "triple (\<lambda>s. fst s = d) (on_world m) (\<lambda>x s. fst s = d \<and> (\<exists>w w'. m w = (Inr x, w'))) (\<lambda>_ s. fst s = d)"
proof (rule tripleI)
  fix s x s'
  assume "fst s = d" and run: "on_world m s = (Inr x, s')"
  with on_world_result [OF run] show "fst s' = d \<and> (\<exists>w w'. m w = (Inr x, w'))" by blast
qed (simp add: on_world_store)

lemma approved_run_backed:
  assumes backed: "approvals_backed sv d" and run: "stored_run d run" "lr_repository run = repository"
  shows "triple (\<lambda>s. fst s = d) (approved_run sv repository run merge_sha)
    (\<lambda>approved s. approvals_backed sv (fst s) \<and> runs_advance d (fst s) \<and> approval_result sv repository merge_sha approved (fst s))
    (\<lambda>_ s. approvals_backed sv (fst s) \<and> runs_advance d (fst s))"
proof -
  have same: "approvals_backed sv d \<and> runs_advance d d"
    using backed by (simp add: approvals_backed_def runs_advance_same)
  let ?Q = "\<lambda>approved s :: ('w, 'j) service_state. approvals_backed sv (fst s) \<and> runs_advance d (fst s) \<and>
    approval_result sv repository merge_sha approved (fst s)"
  let ?E = "\<lambda>_ s :: ('w, 'j) service_state. approvals_backed sv (fst s) \<and> runs_advance d (fst s)"
  have fresh: "triple (\<lambda>s. fst s = d)
      (act_bind (reject_if c message) (\<lambda>_.
       act_bind (on_world (pull_request_evidence (sv_github sv) repository number (Some head))) (\<lambda>ev.
       act_bind (act_lift (check_approval ev merge_sha)) (\<lambda>_.
       store_update sv (approve_for_publication run merge_sha (evidence_digest sv ev)))))) ?Q ?E"
    if recorded: "lr_planning_commit run = Some head" "lr_pr_number run = Some number" for head number c message
  proof (rule triple_bind)
    show "triple (\<lambda>s. fst s = d) (reject_if c message) (\<lambda>_ s. fst s = d) ?E"
      using same unfolding reject_if_def by (intro triple_lift) auto
    let ?read = "\<lambda>ev. \<exists>w w'. pull_request_evidence (sv_github sv) repository number (Some head) w = (Inr ev, w')"
    have "approving_evidence ev head merge_sha" if "?read ev" "check_approval ev merge_sha = Inr ()" for ev
      using that pull_request_evidence_sound [of "sv_github sv" repository number "Some head"] check_approval_Inr [of ev merge_sha]
      by (fastforce simp: approving_evidence_def)
    then have check: "triple (\<lambda>s. fst s = d \<and> ?read ev) (act_lift (check_approval ev merge_sha))
        (\<lambda>_ s. fst s = d \<and> ?read ev \<and> approving_evidence ev head merge_sha) ?E" for ev
      using same by (intro triple_lift) auto
    have update: "triple (\<lambda>s. fst s = d \<and> ?read ev \<and> approving_evidence ev head merge_sha)
        (store_update sv (approve_for_publication run merge_sha (evidence_digest sv ev))) ?Q ?E" for ev
      using approve_step [OF backed run(1) recorded] unfolding run(2) .
    have read: "triple (\<lambda>s. fst s = d) (on_world (pull_request_evidence (sv_github sv) repository number (Some head)))
        (\<lambda>ev s. fst s = d \<and> ?read ev) ?E"
      using same by (intro triple_weaken [OF triple_read [of d]]) auto
    show "triple (\<lambda>s. fst s = d) (act_bind (on_world (pull_request_evidence (sv_github sv) repository number (Some head))) (\<lambda>ev.
       act_bind (act_lift (check_approval ev merge_sha)) (\<lambda>_.
       store_update sv (approve_for_publication run merge_sha (evidence_digest sv ev))))) ?Q ?E"
      by (rule triple_bind [OF read triple_bind [OF check update]])
  qed
  show ?thesis
    unfolding approved_run_def
    using same fresh run backed
    by (auto simp: approval_result_def intro!: triple_return triple_raise split: option.split)
qed

section \<open>No publication without a recorded approval\<close>

text \<open>Some run has a recorded approval, by a human, and its plan is the one of the merge commit.\<close>

definition published_approval :: "('w, 'j) service \<Rightarrow> lifecycle_db \<Rightarrow> bool" where
  "published_approval sv d \<longleftrightarrow> (\<exists>run merge. stored_run d run \<and> approved_by_human sv run \<and>
     lr_approved_commit run = Some merge \<and> published_from sv (lr_repository run) run merge)"

lemma published_approval_later:
  assumes "published_approval sv d" and "runs_advance d d'"
  shows "published_approval sv d'"
proof -
  obtain row merge where row: "dict_get (ld_runs d) (run_key (restore_run row)) = Some row"
    and run: "approved_by_human sv (restore_run row)" "lr_approved_commit row = Some merge"
      "published_from sv (lr_repository row) (restore_run row) merge"
    using assms(1) by (auto simp: published_approval_def stored_run_def)
  obtain b where b: "dict_get (ld_runs d') (run_key (restore_run row)) = Some b" and later: "run_later row b"
    using assms(2) row unfolding runs_advance_def by blast
  have same: "run_key (restore_run b) = run_key (restore_run row)" "lr_repository b = lr_repository row"
    "lr_backlog_path b = lr_backlog_path row" "lr_approved_commit b = Some merge"
    "lr_plan_id b = lr_plan_id row" "lr_plan_version b = lr_plan_version row" "lr_idea_id b = lr_idea_id row"
    using later run(2) by (auto simp: run_later_def same_binding_def run_key_def)
  then have "published_from sv (lr_repository b) (restore_run b) merge"
    using run(3) by (simp add: published_from_def same_plan_def)
  with b same run(1) later show ?thesis
    unfolding published_approval_def stored_run_def by (metis approved_later restore_run_simps(5,15))
qed

definition guarded :: "('w, 'j) service \<Rightarrow> ('w, 'j) service_state \<Rightarrow> ('w, 'j) service_state \<Rightarrow> bool" where
  "guarded sv s t \<longleftrightarrow> (approvals_backed sv (fst s) \<longrightarrow>
     approvals_backed sv (fst t) \<and> runs_advance (fst s) (fst t) \<and>
     (sent_effects t = sent_effects s \<or> published_approval sv (fst t)))"

lemma guarded_store: "approvals_advance sv d d' \<Longrightarrow> guarded sv (d, x) (d', x)"
  by (simp add: guarded_def approvals_advance_def sent_effects_def)

interpretation guard: implementation_order "guarded sv" for sv
proof
  show "guarded sv s s" for s
    by (cases s) (simp add: guarded_store approvals.store_stays)
  show "guarded sv s u" if "guarded sv s t" "guarded sv t u" for s t u
    using that published_approval_later runs_advance_trans unfolding guarded_def by metis
  show "guarded sv (d, j, a) (d, j, a\<lparr>ad_world := w\<rparr>)" for d j a w
    by (auto simp: guarded_def sent_effects_def effect_ids_def approvals_backed_def intro: runs_advance_same)
  show "guarded sv (d, x) (run_store (c, now) d, x)" if "planning_call c" for c d now x
    using guarded_store approvals.run_frame [OF that] by blast
  show "guarded sv (d, x) (run_store (AssociationCall c, now) d, x)" for d x c now
    using guarded_store association_approvals by blast
qed

lemma merged_guarded:
  assumes run: "stored_run (fst s) run" "lr_repository run = repository"
    and result: "merged_planning_pull_request sv e repository number run merge_sha s = (r, s')"
  shows "guarded sv s s'"
  unfolding guarded_def
proof
  assume backed: "approvals_backed sv (fst s)"
  let ?rest = "\<lambda>approved. act_bind (merged_backlog sv repository approved merge_sha) (publish_merged sv e number merge_sha approved)"
  obtain q t where first: "approved_run sv repository run merge_sha s = (q, t)" by (meson surj_pair)
  note triple = approved_run_backed [OF backed run, of merge_sha]
  have quiet: "sent_effects t = sent_effects s" using quietD [OF quiet_approved_run first] .
  show "approvals_backed sv (fst s') \<and> runs_advance (fst s) (fst s') \<and>
      (sent_effects s' = sent_effects s \<or> published_approval sv (fst s'))"
  proof (cases q)
    case (Inl err)
    with result first have "s' = t" by (simp add: merged_planning_pull_request_def act_bind_def)
    with triple_Inl [OF triple refl first [unfolded Inl]] quiet show ?thesis by simp
  next
    case (Inr approved)
    with result first have rest: "?rest approved t = (r, s')" by (simp add: merged_planning_pull_request_def act_bind_def)
    from triple_Inr [OF triple refl first [unfolded Inr]]
    have t: "approvals_backed sv (fst t)" "runs_advance (fst s) (fst t)"
      and approved: "stored_run (fst t) approved" "lr_repository approved = repository"
        "lr_approved_commit approved = Some merge_sha" "lr_evidence_sha256 approved \<noteq> None"
      by (simp_all add: approval_result_def)
    have "moves (on_store (approvals_advance sv)) (?rest approved)" by (intro step_rules)
    from movesD [OF this rest] t have s': "approvals_backed sv (fst s')" "runs_advance (fst t) (fst s')"
      by (auto simp: on_store_def approvals_advance_def)
    have "published_approval sv (fst t)" if "sent_effects s' \<noteq> sent_effects t"
    proof -
      have "published_from sv repository approved merge_sha" using published_backlog [OF rest that] .
      moreover have "approved_by_human sv approved"
      proof -
        obtain row where row: "dict_get (ld_runs (fst t)) (run_key approved) = Some row" "approved = restore_run row"
          using approved(1) by (auto simp: stored_run_def)
        moreover have "lr_evidence_sha256 row \<noteq> None" using approved(4) row(2) by simp
        ultimately show ?thesis using approvals_backedD [OF t(1)] by blast
      qed
      ultimately show ?thesis using approved unfolding published_approval_def by blast
    qed
    then show ?thesis
      using quiet t(2) s' runs_advance_trans published_approval_later by metis
  qed
qed

lemma planning_guarded:
  assumes "stored_run (fst s) run" and "lr_repository run = repository"
    and "planning_pull_request sv e repository number run pull s = (r, s')"
  shows "guarded sv s s'"
proof -
  have "guarded sv s s'" if "finish e x s = (r, s')" for x using movesD [OF guard.finish_moves that] .
  moreover have "guarded sv s s'" if "act_raise x s = (r, s')" for x using movesD [OF guard.still(2) that] .
  moreover have "guarded sv s s'" if "merged_planning_pull_request sv e repository number run sha s = (r, s')" for sha
    using merged_guarded [OF assms(1,2) that] .
  ultimately show ?thesis
    using assms(3) unfolding planning_pull_request_def Let_def by (auto split: if_splits option.splits)
qed

lemma found_run:
  assumes "approvals_backed sv d" and "by_pull_request repository number d = Some run"
  shows "stored_run d run \<and> lr_repository run = repository"
proof -
  obtain row where row: "run = restore_run row" "row \<in> set (map snd (ld_runs d))" "lr_repository row = repository"
    using assms(2) by (auto simp: by_pull_request_def find_Some_iff)
  then obtain k where "(k, row) \<in> set (ld_runs d)" by auto
  then have "dict_get (ld_runs d) k = Some row" using assms(1) by (simp add: approvals_backed_def)
  moreover have "k = run_key row" by (rule runs_okD(1) [OF _ calculation]) (use assms(1) in \<open>simp add: approvals_backed_def\<close>)
  ultimately show ?thesis using row by (simp add: stored_run_def run_key_def)
qed

lemma pull_request_guarded: "moves (guarded sv) (pull_request_event sv e)"
proof -
  have last: "moves (guarded sv) (act_bind (store_query (by_pull_request repository number)) (\<lambda>run. case run of
      None \<Rightarrow> implementation_pull_request sv e repository pull
    | Some r \<Rightarrow> planning_pull_request sv e repository number r pull))" for repository number pull
  proof (rule movesI)
    fix s r s'
    assume run: "act_bind (store_query (by_pull_request repository number)) (\<lambda>run. case run of
      None \<Rightarrow> implementation_pull_request sv e repository pull
    | Some r \<Rightarrow> planning_pull_request sv e repository number r pull) s = (r, s')"
    show "guarded sv s s'"
    proof (cases "by_pull_request repository number (fst s)")
      case None
      with run have "implementation_pull_request sv e repository pull s = (r, s')" by (simp add: act_bind_def store_query_def)
      from movesD [OF guard.implementation_moves this] show ?thesis .
    next
      case (Some x)
      with run have "planning_pull_request sv e repository number x pull s = (r, s')" by (simp add: act_bind_def store_query_def)
      with Some found_run planning_guarded show ?thesis unfolding guarded_def by blast
    qed
  qed
  show ?thesis unfolding pull_request_event_def by (intro step_rules last)
qed

lemma handle_guarded: "moves (guarded sv) (handle sv e)"
  by (intro guard.event_moves pull_request_guarded)

text \<open>
  C5: Whatever events and operator calls the service handles, in any order, from a store in which no
  run is approved: if any effect of publication was sent, then the store holds a run whose planning
  pull request, at the recorded head, was merged as the recorded commit, approved by a human at that
  head, with its required check successful there, all by evidence that GitHub served and whose
  digest is on record; and the plan of this run was parsed from bytes GitHub served for its backlog
  path at that merge commit, whose blob identifier was recomputed.
\<close>

theorem effects_need_approval:
  assumes "runs_ok (fst s)" and "distinct (dict_keys (ld_runs (fst s)))"
    and "\<not> list_ex (\<lambda>r. lr_evidence_sha256 r \<noteq> None) (map snd (ld_runs (fst s)))"
    and "sent_effects (fold (run_service sv) calls s) \<noteq> sent_effects s"
  shows "\<exists>run head number merge ev w w'. stored_run (fst (fold (run_service sv) calls s)) run \<and>
    lr_planning_commit run = Some head \<and> lr_pr_number run = Some number \<and> lr_approved_commit run = Some merge \<and>
    pull_request_evidence (sv_github sv) (lr_repository run) number (Some head) w = (Inr ev, w') \<and>
    approving_evidence ev head merge \<and> lr_evidence_sha256 run = Some (evidence_digest sv ev) \<and>
    published_from sv (lr_repository run) run merge"
proof -
  have "lr_evidence_sha256 r = None" if "dict_get (ld_runs (fst s)) k = Some r" for k r
    using assms(3) dict_get_values [OF that] by (auto simp: list_ex_iff)
  then have "approvals_backed sv (fst s)"
    using assms(1,2) unfolding approvals_backed_def by fastforce
  with guard.service_moves [where s = s and calls = calls, OF handle_guarded] assms(4)
  have "published_approval sv (fst (fold (run_service sv) calls s))" by (auto simp: guarded_def)
  then show ?thesis unfolding published_approval_def approved_by_human_def by fastforce
qed

section \<open>Witness\<close>

lemma ex_gate_handled: "sent_effects (snd (handle ex_gate_service ex_gate_event ex_gate_state)) = [''op-1'']"
proof -
  have payload: "event_payload ex_gate_event = [(''pull_request'', ex_gate_pull), (''repository'', PDict [(''full_name'', PStr ''org/repo'')])]"
    by (simp add: event_payload_def ex_gate_event_def)
  have event: "ev_event_type ex_gate_event = ''github.pull_request''" "ev_signature_verified ex_gate_event"
    by (simp_all add: ex_gate_event_def)
  have pull: "as_dict ex_gate_pull = Some (case ex_gate_pull of PDict d \<Rightarrow> d)" "dict_get (case ex_gate_pull of PDict d \<Rightarrow> d) ''number'' = Some (PInt 3)"
    "obj_get (case ex_gate_pull of PDict d \<Rightarrow> d) ''merged'' = PBool True"
    "full_commit (obj_get (case ex_gate_pull of PDict d \<Rightarrow> d) ''merge_commit_sha'') = Some ex_merge_sha"
    by code_simp+
  have number: "positive_int (PInt 3) ''pull request'' = Inr 3" by code_simp
  have run: "by_pull_request ''org/repo'' 3 (fst ex_gate_state) = Some ex_gate_run" by code_simp
  have state: "lr_state ex_gate_run \<noteq> RunPublished" by (simp add: ex_gate_run_def)
  show ?thesis
    using ex_gate_published
    by (simp add: handle_def event pull_request_event_def payload payload_object_def obj_get_def [of "_ # _"] pull number
        act_bind_def act_lift_def need_def store_query_def run planning_pull_request_def state)
qed

lemma effects_need_approval_witness:
  "\<exists>run head number merge ev w w'. stored_run (fst (snd (handle ex_gate_service ex_gate_event ex_gate_state))) run \<and>
    lr_planning_commit run = Some head \<and> lr_pr_number run = Some number \<and> lr_approved_commit run = Some merge \<and>
    pull_request_evidence ex_gate_github (lr_repository run) number (Some head) w = (Inr ev, w') \<and>
    approving_evidence ev head merge \<and> lr_evidence_sha256 run = Some (evidence_digest ex_gate_service ev) \<and>
    published_from ex_gate_service (lr_repository run) run merge"
proof -
  have store: "fst ex_gate_state = fold run_store [(BeginRun ex_run, 1), (RecordPullRequest ''alpha'' 1 ex_commit_sha 3 ''u'', 2)] no_lifecycle"
    by (simp add: ex_gate_state_def)
  have "runs_ok (fst ex_gate_state)" unfolding store by (rule runs_ok_calls [OF no_lifecycle_ok])
  moreover have "distinct (dict_keys (ld_runs (fst ex_gate_state)))" by code_simp
  moreover have "\<not> list_ex (\<lambda>r. lr_evidence_sha256 r \<noteq> None) (map snd (ld_runs (fst ex_gate_state)))" by code_simp
  moreover have "sent_effects (fold (run_service ex_gate_service) [HandleEvent ex_gate_event] ex_gate_state) \<noteq> sent_effects ex_gate_state"
    using ex_gate_handled by (simp add: sent_effects_def effect_ids_def ex_gate_state_def ex_adapter_def)
  ultimately have "\<exists>run head number merge ev w w'.
      stored_run (fst (fold (run_service ex_gate_service) [HandleEvent ex_gate_event] ex_gate_state)) run \<and>
      lr_planning_commit run = Some head \<and> lr_pr_number run = Some number \<and> lr_approved_commit run = Some merge \<and>
      pull_request_evidence (sv_github ex_gate_service) (lr_repository run) number (Some head) w = (Inr ev, w') \<and>
      approving_evidence ev head merge \<and> lr_evidence_sha256 run = Some (evidence_digest ex_gate_service ev) \<and>
      published_from ex_gate_service (lr_repository run) run merge"
    by (rule effects_need_approval)
  moreover have "sv_github ex_gate_service = ex_gate_github" by (simp add: ex_gate_service_def)
  ultimately show ?thesis by simp
qed

end
